(* ===== verification/Prelude.thy ===== *)
theory Prelude
  imports Main "HOL-Library.Code_Target_Nat"
begin

section \<open>Prelude: effects, JavaScript strings and numbers\<close>

text \<open>
  What every component shares: the type of effectful operations with its verification
  condition \<open>wp\<close>, the lemma collections, the JavaScript string operations the sources
  use, and decimal printing and parsing.

  An operation of the program that awaits, mutates or may throw is a function
  \<open>'w \<Rightarrow> 'a option \<times> 'w\<close>: it returns \<open>Some\<close> result and the new world, or \<open>None\<close> and
  the world at the point where it stopped (an uncaught exception, or the end of the fuel
  of a polling loop). The world reached before stopping is kept, because what has already
  been written or sent stays written and sent.
\<close>

named_theorems wp_rules \<open>verification conditions of effectful operations\<close>
named_theorems msg_defs \<open>definitions of the message texts\<close>

subsection \<open>Outcome values and effectful operations\<close>

type_synonym ('w, 'a) io = "'w \<Rightarrow> 'a option \<times> 'w"

definition ret :: "'a \<Rightarrow> ('w, 'a) io" where
  "ret x = (\<lambda>w. (Some x, w))"

definition throw_io :: "('w, 'a) io" where
  "throw_io = (\<lambda>w. (None, w))"

definition bnd :: "('w, 'a) io \<Rightarrow> ('a \<Rightarrow> ('w, 'b) io) \<Rightarrow> ('w, 'b) io" where
  "bnd m f = (\<lambda>w. case m w of (None, w') \<Rightarrow> (None, w') | (Some x, w') \<Rightarrow> f x w')"

definition gets_io :: "('w \<Rightarrow> 'a) \<Rightarrow> ('w, 'a) io" where
  "gets_io f = (\<lambda>w. (Some (f w), w))"

definition modify_io :: "('w \<Rightarrow> 'w) \<Rightarrow> ('w, unit) io" where
  "modify_io f = (\<lambda>w. (Some (), f w))"

text \<open>The pattern \<open>if (!r.ok) return handler(r.error)\<close> followed by the rest of the body.\<close>

definition check :: "('w, 'e + 'a) io \<Rightarrow> ('e \<Rightarrow> ('w, 'b) io) \<Rightarrow> ('a \<Rightarrow> ('w, 'b) io) \<Rightarrow> ('w, 'b) io" where
  "check m h k = bnd m (\<lambda>r. case r of Inl e \<Rightarrow> h e | Inr v \<Rightarrow> k v)"

lemmas io_defs = ret_def throw_io_def bnd_def gets_io_def modify_io_def check_def

subsection \<open>Verification conditions\<close>

text \<open>
  \<open>wp m Q E w\<close>: run from \<open>w\<close>, \<open>m\<close> returns a result and a world related by \<open>Q\<close>, or stops
  in a world satisfying \<open>E\<close>.
\<close>

definition wp :: "('w, 'a) io \<Rightarrow> ('a \<Rightarrow> 'w \<Rightarrow> bool) \<Rightarrow> ('w \<Rightarrow> bool) \<Rightarrow> 'w \<Rightarrow> bool" where
  "wp m Q E w = (case m w of (None, w') \<Rightarrow> E w' | (Some x, w') \<Rightarrow> Q x w')"

lemma wp_ret [wp_rules]: "wp (ret x) Q E w = Q x w"
  by (simp add: wp_def ret_def)

lemma wp_throw [wp_rules]: "wp throw_io Q E w = E w"
  by (simp add: wp_def throw_io_def)

lemma wp_bnd [wp_rules]: "wp (bnd m f) Q E w = wp m (\<lambda>x. wp (f x) Q E) E w"
  by (auto simp: wp_def bnd_def split: prod.splits option.splits)

lemma wp_gets [wp_rules]: "wp (gets_io f) Q E w = Q (f w) w"
  by (simp add: wp_def gets_io_def)

lemma wp_modify [wp_rules]: "wp (modify_io f) Q E w = Q () (f w)"
  by (simp add: wp_def modify_io_def)

lemma wp_check [wp_rules]:
  "wp (check m h k) Q E w =
     wp m (\<lambda>r. case r of Inl e \<Rightarrow> wp (h e) Q E | Inr v \<Rightarrow> wp (k v) Q E) E w"
  by (simp add: check_def wp_bnd) (auto simp: wp_def split: prod.splits option.splits sum.splits)

lemma wp_mono:
  assumes "wp m Q E w" and "\<And>x w'. Q x w' \<Longrightarrow> Q' x w'" and "\<And>w'. E w' \<Longrightarrow> E' w'"
  shows "wp m Q' E' w"
  using assms by (auto simp: wp_def split: prod.splits option.splits)

lemma wp_conj:
  "wp m Q E w \<Longrightarrow> wp m Q' E' w \<Longrightarrow> wp m (\<lambda>x w'. Q x w' \<and> Q' x w') (\<lambda>w'. E w' \<and> E' w') w"
  by (auto simp: wp_def split: prod.splits option.splits)

lemma wp_Some: "wp m Q E w \<Longrightarrow> m w = (Some x, w') \<Longrightarrow> Q x w'"
  by (simp add: wp_def)

lemma wp_None: "wp m Q E w \<Longrightarrow> m w = (None, w') \<Longrightarrow> E w'"
  by (simp add: wp_def)

text \<open>\<open>keeps P m\<close>: \<open>m\<close> preserves \<open>P\<close>, whether it returns or stops.\<close>

definition keeps :: "('w \<Rightarrow> bool) \<Rightarrow> ('w, 'a) io \<Rightarrow> bool" where
  "keeps P m \<longleftrightarrow> (\<forall>w. P w \<longrightarrow> wp m (\<lambda>_. P) P w)"

lemma keepsD: "keeps P m \<Longrightarrow> P w \<Longrightarrow> wp m (\<lambda>_. P) P w"
  by (simp add: keeps_def)

lemma keeps_world: "keeps P m \<Longrightarrow> P w \<Longrightarrow> P (snd (m w))"
  unfolding keeps_def wp_def by (cases "m w"; cases "fst (m w)") (force+)

lemma keeps_ret [intro!]: "keeps P (ret x)"
  by (simp add: keeps_def wp_rules)

lemma keeps_throw [intro!]: "keeps P throw_io"
  by (simp add: keeps_def wp_rules)

lemma keeps_gets [intro!]: "keeps P (gets_io f)"
  by (simp add: keeps_def wp_rules)

lemma keeps_bnd [intro]: "keeps P m \<Longrightarrow> (\<And>x. keeps P (f x)) \<Longrightarrow> keeps P (bnd m f)"
  by (auto simp: keeps_def wp_bnd intro: wp_mono)

lemma keeps_check [intro]:
  "keeps P m \<Longrightarrow> (\<And>e. keeps P (h e)) \<Longrightarrow> (\<And>v. keeps P (k v)) \<Longrightarrow> keeps P (check m h k)"
  unfolding check_def by (rule keeps_bnd) (auto split: sum.splits)

subsection \<open>JavaScript strings\<close>

text \<open>
  A JavaScript string is a list of code units; the model's \<open>char\<close> covers the code units
  below 256. Message punctuation outside that range is spelled by its UTF-8 bytes.
\<close>

definition is_ws :: "char \<Rightarrow> bool" where
  "is_ws c = ((of_char c :: nat) \<in> {9, 10, 11, 12, 13, 32, 160})"

definition js_trim :: "string \<Rightarrow> string" where
  "js_trim s = rev (dropWhile is_ws (rev (dropWhile is_ws s)))"

definition starts_with :: "string \<Rightarrow> string \<Rightarrow> bool" where
  "starts_with p s = (take (length p) s = p)"

text \<open>\<open>s.indexOf(": ")\<close> for a one- or two-character needle, \<open>None\<close> for -1.\<close>

fun index_of :: "string \<Rightarrow> string \<Rightarrow> nat option" where
  "index_of p [] = (if p = [] then Some 0 else None)"
| "index_of p (c # cs) =
     (if starts_with p (c # cs) then Some 0 else map_option Suc (index_of p cs))"

definition lower_char :: "char \<Rightarrow> char" where
  "lower_char c = (let n = of_char c :: nat in if 65 \<le> n \<and> n \<le> 90 then char_of (n + 32) else c)"

definition upper_char :: "char \<Rightarrow> char" where
  "upper_char c = (let n = of_char c :: nat in if 97 \<le> n \<and> n \<le> 122 then char_of (n - 32) else c)"

definition to_lower :: "string \<Rightarrow> string" where "to_lower s = map lower_char s"
definition to_upper :: "string \<Rightarrow> string" where "to_upper s = map upper_char s"

text \<open>\<open>a || b\<close> on optional strings: the empty string counts as unset.\<close>

definition truthy :: "string option \<Rightarrow> bool" where
  "truthy x = (case x of None \<Rightarrow> False | Some s \<Rightarrow> s \<noteq> [])"

lemma truthy_simps [simp]: "\<not> truthy None" "truthy (Some s) \<longleftrightarrow> s \<noteq> []"
  by (simp_all add: truthy_def)

definition or_str :: "string option \<Rightarrow> string option \<Rightarrow> string option" where
  "or_str a b = (if truthy a then a else b)"

fun join :: "string \<Rightarrow> string list \<Rightarrow> string" where
  "join sep [] = []"
| "join sep [x] = x"
| "join sep (x # y # ys) = x @ sep @ join sep (y # ys)"

lemma dropWhile_ws_id: "s = [] \<or> \<not> is_ws (hd s) \<Longrightarrow> dropWhile is_ws s = s"
  by (cases s) auto

lemma js_trim_id: "s = [] \<or> (\<not> is_ws (hd s) \<and> \<not> is_ws (last s)) \<Longrightarrow> js_trim s = s"
  by (cases "s = []") (auto simp: js_trim_def dropWhile_ws_id hd_rev)

subsection \<open>Decimal digits\<close>

definition is_digit :: "char \<Rightarrow> bool" where
  "is_digit c = (48 \<le> (of_char c :: nat) \<and> (of_char c :: nat) \<le> 57)"

definition digit_char :: "nat \<Rightarrow> char" where
  "digit_char d = char_of (48 + d)"

definition digit_val :: "char \<Rightarrow> nat" where
  "digit_val c = of_char c - 48"

fun show_nat :: "nat \<Rightarrow> string" where
  "show_nat n = (if n < 10 then [digit_char n] else show_nat (n div 10) @ [digit_char (n mod 10)])"

declare show_nat.simps [simp del]

definition show_int :: "int \<Rightarrow> string" where
  "show_int i = (if i < 0 then ''-'' @ show_nat (nat (- i)) else show_nat (nat i))"

definition nat_of_digits :: "string \<Rightarrow> nat" where
  "nat_of_digits s = foldl (\<lambda>a c. 10 * a + digit_val c) 0 s"

lemma of_char_digit_char [simp]: "d < 10 \<Longrightarrow> (of_char (digit_char d) :: nat) = 48 + d"
  by (simp add: digit_char_def)

lemma digit_val_digit_char [simp]: "d < 10 \<Longrightarrow> digit_val (digit_char d) = d"
  by (simp add: digit_val_def)

lemma is_digit_digit_char [simp]: "d < 10 \<Longrightarrow> is_digit (digit_char d)"
  by (simp add: is_digit_def)

lemma is_digit_not_ws: "is_digit c \<Longrightarrow> \<not> is_ws c"
  by (auto simp: is_digit_def is_ws_def)

lemma of_char_minus_dot:
  "(of_char (CHR ''-'') :: nat) = 45" "(of_char (CHR ''.'') :: nat) = 46"
  by simp_all

lemma is_digit_not_punct: "is_digit c \<Longrightarrow> c \<noteq> CHR ''-'' \<and> c \<noteq> CHR ''.''"
  by (auto simp: is_digit_def)

lemma show_nat_digits: "list_all is_digit (show_nat n)"
proof (induction n rule: show_nat.induct)
  case (1 n)
  then show ?case by (subst show_nat.simps) simp
qed

lemma show_nat_nonempty: "show_nat n \<noteq> []"
  by (subst show_nat.simps) simp

lemma nat_of_digits_snoc: "nat_of_digits (s @ [c]) = 10 * nat_of_digits s + digit_val c"
  by (simp add: nat_of_digits_def)

lemma nat_of_digits_show [simp]: "nat_of_digits (show_nat n) = n"
proof (induction n rule: show_nat.induct)
  case (1 n)
  show ?case
  proof (cases "n < 10")
    case True
    then show ?thesis by (subst show_nat.simps) (simp add: nat_of_digits_def)
  next
    case False
    with 1 show ?thesis by (subst show_nat.simps) (simp add: nat_of_digits_snoc)
  qed
qed

lemma nat_of_digits_append:
  "nat_of_digits (a @ b) = nat_of_digits a * 10 ^ length b + nat_of_digits b"
proof (induction b rule: rev_induct)
  case Nil
  then show ?case by (simp add: nat_of_digits_def)
next
  case (snoc c b)
  have "nat_of_digits (a @ b @ [c]) = 10 * nat_of_digits (a @ b) + digit_val c"
    by (metis append.assoc nat_of_digits_snoc)
  with snoc show ?case by (simp add: nat_of_digits_snoc algebra_simps)
qed

lemma nat_of_digits_zeros [simp]: "nat_of_digits (replicate n (CHR ''0'')) = 0"
  by (induction n) (simp_all add: nat_of_digits_def digit_val_def)

lemma nat_of_digits_pad [simp]: "nat_of_digits (replicate n (CHR ''0'') @ s) = nat_of_digits s"
  by (simp add: nat_of_digits_append)

subsection \<open>Numbers\<close>

text \<open>BigInt division truncates towards zero.\<close>

definition trunc_div :: "int \<Rightarrow> int \<Rightarrow> int" where
  "trunc_div a b = sgn a * sgn b * (\<bar>a\<bar> div \<bar>b\<bar>)"

text \<open>
  A timestamp the code compares as a JavaScript number: an integral number of
  milliseconds, or \<open>NaN\<close> when \<open>Date.parse\<close> could not read it. Every comparison with
  \<open>NaN\<close> is false.
\<close>

datatype ms = NaN | Ms int

fun ms_le :: "ms \<Rightarrow> int \<Rightarrow> bool" where
  "ms_le NaN _ = False"
| "ms_le (Ms t) n = (t \<le> n)"

end
