(* ===== verification/Types.thy ===== *)
theory Types
  imports Prelude
begin

section \<open>Shared domain types (packages/types, adapter-kit, gate)\<close>

text \<open>
  The data every component speaks: error codes and errors, money, parties, the payment
  intent, settlement references (packages/types/src/index.ts), the values an adapter
  reports (packages/adapter-kit/src/index.ts) and the result of one gate check
  (packages/engine/src/gate.ts). A TypeScript \<open>Outcome<T>\<close> is \<open>corridor_error + 'a\<close>.
\<close>

subsection \<open>Error codes\<close>

datatype error_code =
    MANIFEST_INVALID | MANIFEST_CHANGED | CAPABILITY_MISMATCH | AMOUNT_INVALID
  | ENGINE_MISCONFIGURED | QUOTE_UNAVAILABLE | QUOTE_EXPIRED | KYC_REQUIRED | KYC_REJECTED
  | ANCHOR_UNAVAILABLE | SETTLEMENT_FAILED | SETTLEMENT_TIMEOUT | REFUND_UNSUPPORTED
  | RECONCILE_MISMATCH | RECONCILE_STALLED | IDEMPOTENCY_CONFLICT
  | PRESETTLE_ANCHOR_DRIFT | PRESETTLE_TX_MISMATCH | PRESETTLE_DESTINATION_UNSAFE
  | PRESETTLE_INSUFFICIENT_FUNDS | PRESETTLE_QUOTE_WINDOW | PRESETTLE_AMOUNT_OUT_OF_RANGE
  | PRESETTLE_RECEIVER_NOT_ACCEPTED | CORRIDOR_UNPROVEN | CORRIDOR_HALTED
  | DRY_RUN_COMPLETE | ROUTE_REFUSED

text \<open>The code as the string it is at run time.\<close>

fun code_name :: "error_code \<Rightarrow> string" where
  "code_name MANIFEST_INVALID = ''MANIFEST_INVALID''"
| "code_name MANIFEST_CHANGED = ''MANIFEST_CHANGED''"
| "code_name CAPABILITY_MISMATCH = ''CAPABILITY_MISMATCH''"
| "code_name AMOUNT_INVALID = ''AMOUNT_INVALID''"
| "code_name ENGINE_MISCONFIGURED = ''ENGINE_MISCONFIGURED''"
| "code_name QUOTE_UNAVAILABLE = ''QUOTE_UNAVAILABLE''"
| "code_name QUOTE_EXPIRED = ''QUOTE_EXPIRED''"
| "code_name KYC_REQUIRED = ''KYC_REQUIRED''"
| "code_name KYC_REJECTED = ''KYC_REJECTED''"
| "code_name ANCHOR_UNAVAILABLE = ''ANCHOR_UNAVAILABLE''"
| "code_name SETTLEMENT_FAILED = ''SETTLEMENT_FAILED''"
| "code_name SETTLEMENT_TIMEOUT = ''SETTLEMENT_TIMEOUT''"
| "code_name REFUND_UNSUPPORTED = ''REFUND_UNSUPPORTED''"
| "code_name RECONCILE_MISMATCH = ''RECONCILE_MISMATCH''"
| "code_name RECONCILE_STALLED = ''RECONCILE_STALLED''"
| "code_name IDEMPOTENCY_CONFLICT = ''IDEMPOTENCY_CONFLICT''"
| "code_name PRESETTLE_ANCHOR_DRIFT = ''PRESETTLE_ANCHOR_DRIFT''"
| "code_name PRESETTLE_TX_MISMATCH = ''PRESETTLE_TX_MISMATCH''"
| "code_name PRESETTLE_DESTINATION_UNSAFE = ''PRESETTLE_DESTINATION_UNSAFE''"
| "code_name PRESETTLE_INSUFFICIENT_FUNDS = ''PRESETTLE_INSUFFICIENT_FUNDS''"
| "code_name PRESETTLE_QUOTE_WINDOW = ''PRESETTLE_QUOTE_WINDOW''"
| "code_name PRESETTLE_AMOUNT_OUT_OF_RANGE = ''PRESETTLE_AMOUNT_OUT_OF_RANGE''"
| "code_name PRESETTLE_RECEIVER_NOT_ACCEPTED = ''PRESETTLE_RECEIVER_NOT_ACCEPTED''"
| "code_name CORRIDOR_UNPROVEN = ''CORRIDOR_UNPROVEN''"
| "code_name CORRIDOR_HALTED = ''CORRIDOR_HALTED''"
| "code_name DRY_RUN_COMPLETE = ''DRY_RUN_COMPLETE''"
| "code_name ROUTE_REFUSED = ''ROUTE_REFUSED''"

definition isPreSettleCode :: "string \<Rightarrow> bool" where
  "isPreSettleCode c = starts_with ''PRESETTLE_'' c"

subsection \<open>Money, parties, intents, settlement references\<close>

record money =
  m_asset :: string
  m_amount :: string

record party_ref =
  p_id :: string
  p_jurisdiction :: "string option"
  p_sep12Id :: "string option"
  p_anchorCustomerId :: "string option"

definition anchorCustomerIdOf :: "party_ref \<Rightarrow> string option" where
  "anchorCustomerIdOf p =
     (let v = or_str (p_anchorCustomerId p) (p_sep12Id p) in if truthy v then v else None)"

record payment_intent =
  idempotencyKey :: string
  corridorId :: string
  sender :: party_ref
  recipient :: party_ref
  sourceAmount :: money
  destinationFields :: "(string \<times> string) list option"

datatype settlement_ref =
    StellarRef (stellarTxHash: string) (ledger: "nat option") (feeCharged: "string option")
      (claimableBalanceId: "string option")
  | AdapterRef (reference: string) (reportedAt: int)

fun settlementId :: "settlement_ref \<Rightarrow> string" where
  "settlementId (AdapterRef r _) = r"
| "settlementId (StellarRef h _ _ _) = h"

datatype settlement_kind = KStellar | KAdapter

fun ref_kind :: "settlement_ref \<Rightarrow> settlement_kind" where
  "ref_kind (StellarRef _ _ _ _) = KStellar"
| "ref_kind (AdapterRef _ _) = KAdapter"

subsection \<open>What an adapter reports\<close>

record quote_t =
  q_id :: string
  q_price :: string
  q_expiresAt :: ms
  q_sourceAmount :: money
  q_destAmount :: money
  q_fee :: "money option"
  q_firm :: bool

datatype kyc_status = KycAccepted | KycPending | KycRejected

record kyc_result =
  k_status :: kyc_status
  k_customerId :: "string option"

datatype memo_type = MemoText | MemoHash | MemoId

datatype instructions_kind = StellarPayment | ClaimableBalance | AdapterSettled

datatype deposit_instructions =
    IStellarPayment string "string option" "memo_type option" "string option"
  | IClaimableBalance string "string option" "int option"
  | IAdapterSettled "string option"

fun instr_kind :: "deposit_instructions \<Rightarrow> instructions_kind" where
  "instr_kind (IStellarPayment _ _ _ _) = StellarPayment"
| "instr_kind (IClaimableBalance _ _ _) = ClaimableBalance"
| "instr_kind (IAdapterSettled _) = AdapterSettled"

record open_transaction =
  o_transactionId :: string
  o_instructions :: "deposit_instructions option"
  o_amountIn :: "money option"
  o_depositAddress :: "string option"
  o_memo :: "string option"
  o_memoType :: "memo_type option"

record legacy_fields =
  l_depositAddress :: "string option"
  l_memo :: "string option"
  l_memoType :: "memo_type option"

definition toLegacy :: "open_transaction \<Rightarrow> legacy_fields" where
  "toLegacy tx =
     (case o_instructions tx of
        Some (IStellarPayment to m mt _) \<Rightarrow>
          \<lparr>l_depositAddress = Some to, l_memo = m, l_memoType = mt\<rparr>
      | _ \<Rightarrow> \<lparr>l_depositAddress = o_depositAddress tx, l_memo = o_memo tx,
              l_memoType = o_memoType tx\<rparr>)"

record refund_payment =
  rp_id :: string
  rp_idType :: "string option"
  rp_amount :: money
  rp_fee :: money

datatype completeness = Full | Partial | Unknown

record refund_info =
  ri_amountRefunded :: money
  ri_amountFee :: money
  ri_payments :: "refund_payment list"
  ri_completeness :: completeness

datatype phase = PhaseAnchor | PhaseExternal

record transaction_status =
  ts_status :: string
  ts_phase :: "phase option"
  ts_settled :: bool
  ts_terminalFailure :: bool
  ts_awaitingInput :: bool
  ts_refunds :: "refund_info option"
  ts_amountIn :: "money option"
  ts_depositAddress :: "string option"
  ts_memo :: "string option"
  ts_memoType :: "memo_type option"

record check_result =
  cr_name :: string
  cr_passed :: bool
  cr_code :: "error_code option"
  cr_detail :: string
  cr_durationMs :: int

subsection \<open>Errors\<close>

text \<open>
  \<open>cause\<close> is untyped in the source; the engine reads back a transaction status and the
  dry-run report from it, anything else is opaque.
\<close>

datatype cause = NoCause | CauseStatus transaction_status | CauseDryRun "check_result list" | CauseOther

record corridor_error =
  e_code :: error_code
  e_message :: string
  e_retryable :: bool
  e_cause :: cause

type_synonym 'a outcome = "corridor_error + 'a"

definition fail_full :: "error_code \<Rightarrow> string \<Rightarrow> bool \<Rightarrow> cause \<Rightarrow> 'a outcome" where
  "fail_full c m r k = Inl \<lparr>e_code = c, e_message = m, e_retryable = r, e_cause = k\<rparr>"

abbreviation fail :: "error_code \<Rightarrow> string \<Rightarrow> 'a outcome" where
  "fail c m \<equiv> fail_full c m False NoCause"

abbreviation fail_retry :: "error_code \<Rightarrow> string \<Rightarrow> 'a outcome" where
  "fail_retry c m \<equiv> fail_full c m True NoCause"

abbreviation mk_err :: "error_code \<Rightarrow> string \<Rightarrow> corridor_error" where
  "mk_err c m \<equiv> \<lparr>e_code = c, e_message = m, e_retryable = False, e_cause = NoCause\<rparr>"

definition isOk :: "'a outcome \<Rightarrow> bool" where
  "isOk o' = (case o' of Inl _ \<Rightarrow> False | Inr _ \<Rightarrow> True)"

text \<open>\<open>`${error.code}: ${error.message}`\<close>, the text stored as a run's last error.\<close>

definition render_error :: "corridor_error \<Rightarrow> string" where
  "render_error e = code_name (e_code e) @ '': '' @ e_message e"

definition constantTimeEqual :: "string \<Rightarrow> string \<Rightarrow> bool" where
  "constantTimeEqual a b = (if length a \<noteq> length b then False else list_all2 (=) a b)"

lemma constantTimeEqual_iff [simp]: "constantTimeEqual a b \<longleftrightarrow> a = b"
  by (auto simp: constantTimeEqual_def list.rel_eq)

definition all_codes :: "error_code list" where
  "all_codes =
    [MANIFEST_INVALID, MANIFEST_CHANGED, CAPABILITY_MISMATCH, AMOUNT_INVALID, ENGINE_MISCONFIGURED,
    QUOTE_UNAVAILABLE, QUOTE_EXPIRED, KYC_REQUIRED, KYC_REJECTED, ANCHOR_UNAVAILABLE,
    SETTLEMENT_FAILED, SETTLEMENT_TIMEOUT, REFUND_UNSUPPORTED, RECONCILE_MISMATCH,
    RECONCILE_STALLED, IDEMPOTENCY_CONFLICT, PRESETTLE_ANCHOR_DRIFT, PRESETTLE_TX_MISMATCH,
    PRESETTLE_DESTINATION_UNSAFE, PRESETTLE_INSUFFICIENT_FUNDS, PRESETTLE_QUOTE_WINDOW,
    PRESETTLE_AMOUNT_OUT_OF_RANGE, PRESETTLE_RECEIVER_NOT_ACCEPTED, CORRIDOR_UNPROVEN,
    CORRIDOR_HALTED, DRY_RUN_COMPLETE, ROUTE_REFUSED]"

lemma all_codes_complete: "c \<in> set all_codes"
  by (cases c) (simp_all add: all_codes_def)

lemma code_name_distinct: "distinct (map code_name all_codes)"
  by code_simp

lemma code_name_inj: "code_name a = code_name b \<Longrightarrow> a = b"
  using code_name_distinct all_codes_complete [of a] all_codes_complete [of b]
  by (auto simp: distinct_map dest: inj_onD)

lemma code_name_no_colon: "CHR '':'' \<notin> set (code_name c)"
  by (cases c) simp_all

lemma code_name_nonempty: "code_name c \<noteq> []"
  by (cases c) simp_all

end
