(* ===== verification/States.thy ===== *)
theory States
  imports Types
begin

section \<open>The corridor state machine (packages/engine/src/state.ts)\<close>

text \<open>
  The table of legal transitions, the terminal states, and what the table guarantees on
  its own: a run that settled, or that entered recovery, can never come back to
  \<open>settling\<close>; terminal states are final; every cycle of the table goes through
  \<open>retrying\<close>; and a run can always be finished.
\<close>

datatype corridor_state =
    created | quoted | compliant | opened | funding | funded | verifying | settling | retrying
  | settled | reconciled | completed | recovering | refund_pending | refunded | held | failed

definition ALL_STATES :: "corridor_state list" where
  "ALL_STATES = [created, quoted, compliant, opened, funding, funded, verifying, settling,
     retrying, settled, reconciled, completed, recovering, refund_pending, refunded, held,
     failed]"

fun NEXT :: "corridor_state \<Rightarrow> corridor_state list" where
  "NEXT created = [quoted, failed]"
| "NEXT quoted = [compliant, recovering, failed]"
| "NEXT compliant = [opened, recovering, failed]"
| "NEXT opened = [funding, verifying, recovering, failed]"
| "NEXT funding = [funded, recovering, failed]"
| "NEXT funded = [verifying, recovering, failed]"
| "NEXT verifying = [settling, recovering, failed]"
| "NEXT settling = [settled, retrying, recovering, failed]"
| "NEXT retrying = [verifying, recovering, failed]"
| "NEXT settled = [reconciled, recovering, failed]"
| "NEXT reconciled = [completed, failed]"
| "NEXT completed = []"
| "NEXT recovering = [refund_pending, refunded, held, failed]"
| "NEXT refund_pending = [refunded, held, failed]"
| "NEXT refunded = []"
| "NEXT held = []"
| "NEXT failed = []"

definition canTransition :: "corridor_state \<Rightarrow> corridor_state \<Rightarrow> bool" where
  "canTransition f t = List.member (NEXT f) t"

definition TERMINAL :: "corridor_state list" where
  "TERMINAL = [completed, refunded, held, failed]"

definition isTerminal :: "corridor_state \<Rightarrow> bool" where
  "isTerminal s = List.member TERMINAL s"

fun state_name :: "corridor_state \<Rightarrow> string" where
  "state_name created = ''created''" | "state_name quoted = ''quoted''"
| "state_name compliant = ''compliant''" | "state_name opened = ''opened''"
| "state_name funding = ''funding''" | "state_name funded = ''funded''"
| "state_name verifying = ''verifying''" | "state_name settling = ''settling''"
| "state_name retrying = ''retrying''" | "state_name settled = ''settled''"
| "state_name reconciled = ''reconciled''" | "state_name completed = ''completed''"
| "state_name recovering = ''recovering''" | "state_name refund_pending = ''refund_pending''"
| "state_name refunded = ''refunded''" | "state_name held = ''held''"
| "state_name failed = ''failed''"

lemma canTransition_iff [simp]: "canTransition f t \<longleftrightarrow> t \<in> set (NEXT f)"
  by (simp add: canTransition_def)

lemma isTerminal_iff: "isTerminal s \<longleftrightarrow> s = completed \<or> s = refunded \<or> s = held \<or> s = failed"
  by (auto simp: isTerminal_def TERMINAL_def)

text \<open>A run of the machine: any number of legal transitions.\<close>

inductive walks :: "corridor_state \<Rightarrow> corridor_state \<Rightarrow> bool" where
  walk_refl: "walks s s"
| walk_step: "walks s t \<Longrightarrow> canTransition t u \<Longrightarrow> walks s u"

lemma walks_trans: "walks t u \<Longrightarrow> walks s t \<Longrightarrow> walks s u"
  by (induction rule: walks.induct) (auto intro: walks.intros)

lemma walks_one: "canTransition s t \<Longrightarrow> walks s t"
  by (rule walk_step [OF walk_refl])

text \<open>A set of states no transition leaves.\<close>

definition closed_states :: "corridor_state set \<Rightarrow> bool" where
  "closed_states S \<longleftrightarrow> (\<forall>s\<in>S. set (NEXT s) \<subseteq> S)"

lemma walks_closed: "walks s t \<Longrightarrow> closed_states S \<Longrightarrow> s \<in> S \<Longrightarrow> t \<in> S"
  by (induction rule: walks.induct) (auto simp: closed_states_def)

text \<open>The states in which the settle payment may already have gone out for good.\<close>

definition after_settle :: "corridor_state set" where
  "after_settle = {settled, reconciled, completed, recovering, refund_pending, refunded, held, failed}"

lemma after_settle_closed: "closed_states after_settle"
  by (simp add: closed_states_def after_settle_def)

lemma recovery_closed: "closed_states {recovering, refund_pending, refunded, held, failed}"
  by (simp add: closed_states_def)

text \<open>
  A rank that every transition except \<open>settling \<longrightarrow> retrying\<close> increases, so that edge is
  on every cycle.
\<close>

fun rank :: "corridor_state \<Rightarrow> nat" where
  "rank created = 0" | "rank quoted = 1" | "rank compliant = 2" | "rank opened = 3"
| "rank funding = 4" | "rank funded = 5" | "rank retrying = 5" | "rank verifying = 6"
| "rank settling = 7" | "rank settled = 8" | "rank reconciled = 9" | "rank completed = 10"
| "rank recovering = 9" | "rank refund_pending = 10" | "rank refunded = 11" | "rank held = 11"
| "rank failed = 11"

lemma rank_increases:
  "canTransition s t \<Longrightarrow> (s, t) \<noteq> (settling, retrying) \<Longrightarrow> rank s < rank t"
  by (cases s) auto

lemma rank_bound: "rank s \<le> 11"
  by (cases s) auto

text \<open>The number of times a trail takes the retry edge.\<close>

fun legal_trail :: "corridor_state list \<Rightarrow> bool" where
  "legal_trail [] = True"
| "legal_trail [s] = True"
| "legal_trail (s # t # ss) = (canTransition s t \<and> legal_trail (t # ss))"

fun retries :: "corridor_state list \<Rightarrow> nat" where
  "retries [] = 0"
| "retries [s] = 0"
| "retries (s # t # ss) = (if s = settling \<and> t = retrying then 1 else 0) + retries (t # ss)"

lemma legal_trail_rank:
  "legal_trail (s # ss) \<Longrightarrow> rank s + length ss \<le> 11 + 3 * retries (s # ss)"
proof (induction ss arbitrary: s)
  case Nil
  then show ?case using rank_bound by simp
next
  case (Cons t ss)
  then have IH: "rank t + length ss \<le> 11 + 3 * retries (t # ss)" and st: "canTransition s t"
    by simp_all
  show ?case
  proof (cases "(s, t) = (settling, retrying)")
    case True
    with IH show ?thesis by simp
  next
    case False
    then have "rank s < rank t" using st by (rule rank_increases [rotated])
    with IH False show ?thesis by auto
  qed
qed

lemma legal_trail_snoc:
  "legal_trail (ss @ [s]) \<Longrightarrow> canTransition s t \<Longrightarrow> legal_trail (ss @ [s, t])"
  by (induction ss rule: legal_trail.induct) auto

lemma walks_of_trail: "legal_trail (s # ss) \<Longrightarrow> t \<in> set (s # ss) \<Longrightarrow> walks s t"
proof (induction ss arbitrary: s)
  case Nil
  then show ?case by (auto intro: walks.intros)
next
  case (Cons u ss)
  then have su: "walks s u" and l: "legal_trail (u # ss)" by (auto intro: walks_one)
  show ?case
  proof (cases "t = s")
    case True
    then show ?thesis by (simp add: walk_refl)
  next
    case False
    then have "walks u t" using Cons.IH [OF l] Cons.prems by simp
    then show ?thesis using su by (rule walks_trans)
  qed
qed

lemma can_finish: "\<exists>t. isTerminal t \<and> walks s t"
proof (cases "isTerminal s")
  case True
  then show ?thesis by (auto intro: walk_refl)
next
  case False
  then have "canTransition s failed" by (cases s) (auto simp: isTerminal_iff)
  then show ?thesis by (auto simp: isTerminal_iff intro!: exI [of _ failed] walks_one)
qed

subsection \<open>Properties\<close>

text \<open>
  C20: once a run has settled, or is being recovered, no sequence of legal transitions leads back
  to \<open>settling\<close>, the only state a payment is sent from.
\<close>

theorem settled_never_settles_again:
  assumes "walks s t" and "s \<in> after_settle"
  shows "t \<in> after_settle \<and> t \<noteq> settling \<and> t \<noteq> verifying"
  using walks_closed [OF assms(1) after_settle_closed assms(2)] by (auto simp: after_settle_def)

theorem settled_never_settles_again_witness:
  "reconciled \<in> after_settle \<and> reconciled \<noteq> settling \<and> reconciled \<noteq> verifying"
  by (rule settled_never_settles_again [OF walks_one [of settled reconciled]]) (simp_all add: after_settle_def)

text \<open>
  C21: a legal trail that takes the retry edge \<open>n\<close> times has at most \<open>12 + 3 n\<close> states, so a run
  with bounded retries ends.
\<close>

theorem trail_is_bounded:
  assumes "legal_trail ss"
  shows "length ss \<le> 12 + 3 * retries ss"
  using assms legal_trail_rank by (cases ss) fastforce+

theorem trail_is_bounded_witness:
  "length [settling, retrying, verifying, settling, settled]
     \<le> 12 + 3 * retries [settling, retrying, verifying, settling, settled]"
  by (rule trail_is_bounded) simp

end
