(* ===== verification/Idempotency.thy ===== *)
theory Idempotency
  imports States "HOL-Library.AList"
begin

section \<open>Idempotency stores (packages/engine/src/idempotency.ts, idempotency-pg.ts)\<close>

text \<open>
  The persisted run, the in-memory store and the Postgres store. The interface the engine
  relies on is the locale \<open>run_store\<close>; both stores are interpretations of it, so that the
  claim of a key is exclusive under either. A refinement lemma relates the two: on a write
  that advances a stored run the way the engine does, the guarded upsert of the Postgres
  store and the assignment of the in-memory store agree.
\<close>

record settlement_rec =
  st_to :: string
  st_memo :: "string option"
  st_memoType :: "memo_type option"
  st_amount :: money

record stored_run =
  r_key :: string
  r_corridorId :: string
  r_manifestHash :: "string option"
  r_state :: corridor_state
  r_version :: nat
  r_transactionId :: "string option"
  r_sourceTransactionId :: "string option"
  r_quoteId :: "string option"
  r_quoteExpiresAt :: "ms option"
  r_quoteFirm :: "bool option"
  r_settlementAmount :: "string option"
  r_stellarTxHash :: "string option"
  r_settlementKind :: "settlement_kind option"
  r_settlementRef :: "settlement_ref option"
  r_depositAddress :: "string option"
  r_memo :: "string option"
  r_memoType :: "memo_type option"
  r_refundId :: "string option"
  r_settlement :: "settlement_rec option"
  r_lastError :: "string option"
  r_owner :: "string option"

definition hasRequestedRefund :: "stored_run \<Rightarrow> bool" where
  "hasRequestedRefund r = (r_refundId r \<noteq> None \<and> r_refundId r \<noteq> Some [])"

definition hasSettlementRef :: "stored_run \<Rightarrow> bool" where
  "hasSettlementRef r =
     (r_settlementRef r \<noteq> None \<or> (r_stellarTxHash r \<noteq> None \<and> r_stellarTxHash r \<noteq> Some []))"

datatype resolution_outcome = RefundedOffchain | PaidOutManually | WrittenOff

record resolution =
  rs_key :: string
  rs_outcome :: resolution_outcome
  rs_note :: string
  rs_resolvedBy :: string
  rs_resolvedAt :: int

subsection \<open>The in-memory store\<close>

text \<open>A JavaScript \<open>Map\<close>: entries in insertion order, an update keeps the position.\<close>

record mem_store =
  ms_runs :: "(string \<times> stored_run) list"
  ms_resolutions :: "(string \<times> resolution) list"

definition empty_store :: mem_store where
  "empty_store = \<lparr>ms_runs = [], ms_resolutions = []\<rparr>"

definition mem_get :: "mem_store \<Rightarrow> string \<Rightarrow> stored_run option" where
  "mem_get s k = map_of (ms_runs s) k"

definition coalesce :: "'a option \<Rightarrow> 'a option \<Rightarrow> 'a option" where
  "coalesce a b = (case a of Some x \<Rightarrow> Some x | None \<Rightarrow> b)"

definition mem_put :: "stored_run \<Rightarrow> mem_store \<Rightarrow> mem_store" where
  "mem_put run s =
     (let existing = map_of (ms_runs s) (r_key run);
          kept = (case existing of None \<Rightarrow> None | Some e \<Rightarrow> r_sourceTransactionId e)
      in s\<lparr>ms_runs := AList.update (r_key run)
             (run\<lparr>r_sourceTransactionId := coalesce kept (r_sourceTransactionId run)\<rparr>) (ms_runs s)\<rparr>)"

definition mem_create :: "stored_run \<Rightarrow> mem_store \<Rightarrow> bool \<times> mem_store" where
  "mem_create run s =
     (if map_of (ms_runs s) (r_key run) \<noteq> None then (False, s)
      else (True, s\<lparr>ms_runs := AList.update (r_key run) run (ms_runs s)\<rparr>))"

definition list_limit :: "int option \<Rightarrow> int" where
  "list_limit l = max 1 (min (case l of Some n \<Rightarrow> n | None \<Rightarrow> 100) 1000)"

text \<open>\<open>localeCompare\<close> depends on the host locale: its collation key is a parameter.\<close>

definition mem_listByState ::
  "(string \<Rightarrow> 'k::linorder) \<Rightarrow> corridor_state \<Rightarrow> int option \<Rightarrow> string option \<Rightarrow> mem_store \<Rightarrow> stored_run list" where
  "mem_listByState collate st limit cid s =
     take (nat (list_limit limit))
       (sort_key (\<lambda>r. collate (r_key r))
         (filter (\<lambda>r. r_state r = st \<and> (\<not> truthy cid \<or> r_corridorId r = the cid))
           (map snd (ms_runs s))))"

definition mem_getResolution :: "mem_store \<Rightarrow> string \<Rightarrow> resolution option" where
  "mem_getResolution s k = map_of (ms_resolutions s) k"

definition mem_recordResolution :: "resolution \<Rightarrow> mem_store \<Rightarrow> bool \<times> mem_store" where
  "mem_recordResolution r s =
     (if map_of (ms_resolutions s) (rs_key r) \<noteq> None \<or>
         map_option r_state (map_of (ms_runs s) (rs_key r)) \<noteq> Some held
      then (False, s)
      else (True, s\<lparr>ms_resolutions := AList.update (rs_key r) r (ms_resolutions s)\<rparr>))"

subsection \<open>The Postgres store\<close>

text \<open>
  The table \<open>corridor_runs\<close> as a map from the primary key to its row; a row has the columns
  of a stored run, null as \<open>None\<close>. JSON columns hold the value itself.
\<close>

type_synonym pg_table = "string \<Rightarrow> stored_run option"

definition toRun :: "stored_run \<Rightarrow> stored_run" where
  "toRun row =
     (let ref = (case r_settlementRef row of
                   Some x \<Rightarrow> Some x
                 | None \<Rightarrow> if truthy (r_stellarTxHash row)
                           then Some (StellarRef (the (r_stellarTxHash row)) None None None)
                           else None);
          kind = coalesce (r_settlementKind row)
                   (coalesce (map_option ref_kind ref)
                     (if truthy (r_stellarTxHash row) then Some KStellar else None))
      in row\<lparr>r_settlementRef := ref, r_settlementKind := kind\<rparr>)"

definition pg_get :: "pg_table \<Rightarrow> string \<Rightarrow> stored_run option" where
  "pg_get t k = map_option toRun (t k)"

definition pg_create :: "stored_run \<Rightarrow> pg_table \<Rightarrow> bool \<times> pg_table" where
  "pg_create run t =
     (case t (r_key run) of Some _ \<Rightarrow> (False, t) | None \<Rightarrow> (True, t(r_key run \<mapsto> run)))"

text \<open>The \<open>do update set\<close> clause: \<open>old\<close> is the stored row, \<open>new\<close> the excluded one.\<close>

definition pg_merge :: "stored_run \<Rightarrow> stored_run \<Rightarrow> stored_run" where
  "pg_merge old new =
     new\<lparr>r_corridorId := r_corridorId old,
         r_owner := r_owner old,
         r_manifestHash := coalesce (r_manifestHash old) (r_manifestHash new),
         r_sourceTransactionId := coalesce (r_sourceTransactionId old) (r_sourceTransactionId new),
         r_settlementKind := coalesce (r_settlementKind new) (r_settlementKind old),
         r_settlementRef := coalesce (r_settlementRef new) (r_settlementRef old),
         r_refundId := coalesce (r_refundId old) (r_refundId new),
         r_settlement := coalesce (r_settlement old) (r_settlement new)\<rparr>"

definition pg_put :: "stored_run \<Rightarrow> pg_table \<Rightarrow> pg_table" where
  "pg_put run t =
     (case t (r_key run) of
        None \<Rightarrow> t(r_key run \<mapsto> run)
      | Some old \<Rightarrow>
          if r_version old < r_version run then t(r_key run \<mapsto> pg_merge old run) else t)"

type_synonym pg_resolutions = "string \<Rightarrow> resolution option"

definition pg_recordResolution ::
  "resolution \<Rightarrow> pg_table \<Rightarrow> pg_resolutions \<Rightarrow> bool \<times> pg_resolutions" where
  "pg_recordResolution r t rs =
     (if map_option r_state (t (rs_key r)) = Some held \<and> rs (rs_key r) = None
      then (True, rs(rs_key r \<mapsto> r)) else (False, rs))"

subsection \<open>The interface the engine relies on\<close>

datatype store_op = OpPut stored_run | OpCreate stored_run

text \<open>Operations of any number of callers in the order the store executes them.\<close>

fun run_ops ::
  "(stored_run \<Rightarrow> 's \<Rightarrow> 's) \<Rightarrow> (stored_run \<Rightarrow> 's \<Rightarrow> bool \<times> 's) \<Rightarrow> store_op list \<Rightarrow> 's
    \<Rightarrow> string list \<times> 's" where
  "run_ops put create [] s = ([], s)"
| "run_ops put create (OpPut r # ops) s = run_ops put create ops (put r s)"
| "run_ops put create (OpCreate r # ops) s =
     (let (won, s1) = create r s; (ks, s2) = run_ops put create ops s1
      in (if won then r_key r # ks else ks, s2))"

locale run_store =
  fixes get :: "'s \<Rightarrow> string \<Rightarrow> stored_run option"
    and put :: "stored_run \<Rightarrow> 's \<Rightarrow> 's"
    and create :: "stored_run \<Rightarrow> 's \<Rightarrow> bool \<times> 's"
    and view :: "stored_run \<Rightarrow> stored_run"
  assumes create_iff: "fst (create r s) \<longleftrightarrow> get s (r_key r) = None"
    and create_get:
      "get (snd (create r s)) k =
         (if k = r_key r \<and> get s k = None then Some (view r) else get s k)"
    and put_frame: "k \<noteq> r_key r \<Longrightarrow> get (put r s) k = get s k"
    and put_present: "get (put r s) (r_key r) \<noteq> None"
    and put_source:
      "get s (r_key r) = Some old \<Longrightarrow> r_sourceTransactionId old = Some x \<Longrightarrow>
       get (put r s) (r_key r) = Some new \<Longrightarrow> r_sourceTransactionId new = Some x"
begin

lemma put_keeps: "get s k \<noteq> None \<Longrightarrow> get (put r s) k \<noteq> None"
  by (cases "k = r_key r") (simp_all add: put_present put_frame)

lemma create_keeps: "get s k \<noteq> None \<Longrightarrow> get (snd (create r s)) k = get s k"
  by (auto simp: create_get)

lemma create_claims: "fst (create r s) \<Longrightarrow> get (snd (create r s)) (r_key r) = Some (view r)"
  by (simp add: create_get create_iff)

lemma loser_changes_nothing: "\<not> fst (create r s) \<Longrightarrow> get (snd (create r s)) k = get s k"
  by (auto simp: create_get create_iff)

lemma claimed_stays:
  "get s k \<noteq> None \<Longrightarrow> k \<notin> set (fst (run_ops put create ops s)) \<and>
     get (snd (run_ops put create ops s)) k \<noteq> None"
proof (induction ops arbitrary: s)
  case Nil
  then show ?case by simp
next
  case (Cons op ops)
  show ?case
  proof (cases op)
    case (OpPut r)
    with Cons.IH [of "put r s"] Cons.prems show ?thesis by (simp add: put_keeps)
  next
    case (OpCreate r)
    have "get (snd (create r s)) k \<noteq> None" using Cons.prems by (simp add: create_keeps)
    moreover have "fst (create r s) \<Longrightarrow> r_key r \<noteq> k" using Cons.prems create_iff [of r s] by auto
    ultimately show ?thesis
      using Cons.IH [of "snd (create r s)"] OpCreate by (auto split: prod.splits)
  qed
qed

lemma distinct_claims: "distinct (fst (run_ops put create ops s))"
proof (induction ops arbitrary: s)
  case Nil
  then show ?case by simp
next
  case (Cons op ops)
  show ?case
  proof (cases op)
    case (OpPut r)
    with Cons show ?thesis by simp
  next
    case (OpCreate r)
    have "fst (create r s) \<Longrightarrow> r_key r \<notin> set (fst (run_ops put create ops (snd (create r s))))"
      using claimed_stays create_claims by (metis option.distinct(1))
    with Cons.IH [of "snd (create r s)"] OpCreate show ?thesis by (auto split: prod.splits)
  qed
qed

lemma source_never_erased:
  "get s k = Some old \<Longrightarrow> r_sourceTransactionId old = Some x \<Longrightarrow>
   \<exists>new. get (snd (run_ops put create ops s)) k = Some new \<and> r_sourceTransactionId new = Some x"
proof (induction ops arbitrary: s old)
  case Nil
  then show ?case by simp
next
  case (Cons op ops)
  show ?case
  proof (cases op)
    case (OpPut r)
    obtain new where "get (put r s) k = Some new" "r_sourceTransactionId new = Some x"
      using Cons.prems put_source put_present put_frame
      by (cases "k = r_key r") (metis option.exhaust, auto)
    with Cons.IH OpPut show ?thesis by simp
  next
    case (OpCreate r)
    have "get (snd (create r s)) k = Some old" using Cons.prems by (simp add: create_get)
    then show ?thesis
      using Cons.IH [of "snd (create r s)" old] Cons.prems(2) OpCreate by (auto split: prod.splits)
  qed
qed

end

lemma coalesce_simps [simp]:
  "coalesce None b = b" "coalesce (Some x) b = Some x" "coalesce a a = a" "coalesce a None = a"
  by (auto simp: coalesce_def split: option.splits)

lemma map_of_update [simp]: "map_of (AList.update k v al) k' = (if k' = k then Some v else map_of al k')"
  by (simp add: update_conv)

lemma mem_get_put:
  "mem_get (mem_put r s) k =
     (if k = r_key r then
        Some (r\<lparr>r_sourceTransactionId :=
          coalesce (case mem_get s k of None \<Rightarrow> None | Some e \<Rightarrow> r_sourceTransactionId e)
            (r_sourceTransactionId r)\<rparr>)
      else mem_get s k)"
  by (simp add: mem_get_def mem_put_def Let_def)

lemma mem_get_create:
  "mem_get (snd (mem_create r s)) k =
     (if k = r_key r \<and> mem_get s k = None then Some r else mem_get s k)"
  by (auto simp: mem_get_def mem_create_def)

interpretation mem: run_store mem_get mem_put mem_create "\<lambda>r. r"
proof unfold_locales
  show "fst (mem_create r s) \<longleftrightarrow> mem_get s (r_key r) = None" for r s
    by (simp add: mem_create_def mem_get_def)
qed (auto simp: mem_get_put mem_get_create)

lemma pg_merge_source:
  "r_sourceTransactionId (pg_merge old new) =
     coalesce (r_sourceTransactionId old) (r_sourceTransactionId new)"
  by (simp add: pg_merge_def)

lemma toRun_source [simp]: "r_sourceTransactionId (toRun r) = r_sourceTransactionId r"
  by (simp add: toRun_def Let_def)

interpretation pg: run_store pg_get pg_put pg_create toRun
  by unfold_locales
    (auto simp: pg_create_def pg_put_def pg_get_def pg_merge_source split: option.splits if_splits)

subsection \<open>The Postgres store refines the in-memory one on the engine's writes\<close>

text \<open>
  How the engine changes a stored run between two writes: the version grows, what
  identifies the run is fixed, evidence once written is not withdrawn.
\<close>

definition once :: "'a option \<Rightarrow> 'a option \<Rightarrow> bool" where
  "once old new \<longleftrightarrow> old = None \<or> new = old"

definition grows :: "'a option \<Rightarrow> 'a option \<Rightarrow> bool" where
  "grows old new \<longleftrightarrow> (new = None \<longrightarrow> old = None)"

definition advances :: "stored_run \<Rightarrow> stored_run \<Rightarrow> bool" where
  "advances old new \<longleftrightarrow>
     r_key new = r_key old \<and> r_corridorId new = r_corridorId old \<and> r_owner new = r_owner old \<and>
     r_version old < r_version new \<and> r_manifestHash new = r_manifestHash old \<and>
     once (r_sourceTransactionId old) (r_sourceTransactionId new) \<and>
     once (r_refundId old) (r_refundId new) \<and> once (r_settlement old) (r_settlement new) \<and>
     grows (r_settlementKind old) (r_settlementKind new) \<and>
     grows (r_settlementRef old) (r_settlementRef new)"

lemma coalesce_once: "once a b \<Longrightarrow> coalesce a b = b"
  by (auto simp: once_def)

lemma coalesce_grows: "grows a b \<Longrightarrow> coalesce b a = b"
  by (cases b) (auto simp: grows_def)

lemma pg_merge_advances: "advances old new \<Longrightarrow> pg_merge old new = new"
  by (simp add: pg_merge_def advances_def coalesce_once coalesce_grows)

lemma mem_put_advances:
  "mem_get s (r_key new) = Some old \<Longrightarrow> advances old new \<Longrightarrow>
   mem_get (mem_put new s) = (mem_get s)(r_key new \<mapsto> new)"
  by (rule ext) (simp add: mem_get_put advances_def coalesce_once)

lemma pg_put_advances:
  "t (r_key new) = Some old \<Longrightarrow> advances old new \<Longrightarrow> pg_put new t = t(r_key new \<mapsto> new)"
  by (simp add: pg_put_def pg_merge_advances) (simp add: advances_def)

text \<open>A sequence of writes, each advancing the row it finds.\<close>

fun advancing :: "pg_table \<Rightarrow> stored_run list \<Rightarrow> bool" where
  "advancing t [] = True"
| "advancing t (r # rs) =
     ((case t (r_key r) of None \<Rightarrow> False | Some old \<Rightarrow> advances old r) \<and>
      advancing (t(r_key r \<mapsto> r)) rs)"

lemma puts_agree:
  "mem_get s = t \<Longrightarrow> advancing t rs \<Longrightarrow> mem_get (fold mem_put rs s) = fold pg_put rs t"
proof (induction rs arbitrary: s t)
  case Nil
  then show ?case by simp
next
  case (Cons r rs)
  then obtain old where o: "t (r_key r) = Some old" "advances old r"
    by (auto split: option.splits)
  have "mem_get (mem_put r s) = t(r_key r \<mapsto> r)"
    using mem_put_advances [of s r old] o Cons.prems(1) by simp
  moreover have "pg_put r t = t(r_key r \<mapsto> r)" using o by (simp add: pg_put_advances)
  ultimately show ?case
    using Cons.IH [of "mem_put r s" "t(r_key r \<mapsto> r)"] Cons.prems(2)
    by (simp del: fun_upd_apply)
qed

text \<open>Without the version guard holding, the row does not move.\<close>

lemma pg_put_stale:
  "t (r_key r) = Some old \<Longrightarrow> r_version r \<le> r_version old \<Longrightarrow> pg_put r t = t"
  by (simp add: pg_put_def)

subsection \<open>Properties\<close>

text \<open>
  C9: whatever callers create and put in whatever order, no key is claimed twice: the keys whose
  \<open>create\<close> answered true are distinct, under the in-memory and the Postgres store.
\<close>

theorem claims_exclusive:
  "distinct (fst (run_ops mem_put mem_create ops s)) \<and> distinct (fst (run_ops pg_put pg_create ops t))"
  by (simp add: mem.distinct_claims pg.distinct_claims)

text \<open>
  C17: a source deposit reference, once stored, survives every later create and put of any caller,
  stale ones included, under the Postgres store.
\<close>

theorem source_reference_survives:
  assumes "pg_get t k = Some old" and "r_sourceTransactionId old = Some x"
  shows "\<exists>new. pg_get (snd (run_ops pg_put pg_create ops t)) k = Some new \<and> r_sourceTransactionId new = Some x"
  by (rule pg.source_never_erased [OF assms])

definition sample_run :: stored_run where
  "sample_run =
     \<lparr>r_key = ''k'', r_corridorId = ''c'', r_manifestHash = Some ''h'', r_state = funding, r_version = 4,
      r_transactionId = Some ''t'', r_sourceTransactionId = Some ''src'', r_quoteId = None,
      r_quoteExpiresAt = None, r_quoteFirm = None, r_settlementAmount = None, r_stellarTxHash = None,
      r_settlementKind = None, r_settlementRef = None, r_depositAddress = None, r_memo = None,
      r_memoType = None, r_refundId = None, r_settlement = None, r_lastError = None, r_owner = None\<rparr>"

theorem source_reference_survives_witness:
  "\<exists>new. pg_get (snd (run_ops pg_put pg_create
      [OpPut (sample_run\<lparr>r_sourceTransactionId := None, r_version := 9\<rparr>)] [''k'' \<mapsto> sample_run])) ''k'' = Some new
    \<and> r_sourceTransactionId new = Some ''src''"
  by (rule source_reference_survives [of _ _ "toRun sample_run"]) (simp_all add: pg_get_def sample_run_def)



text \<open>A write that does not advance the stored version changes nothing in the Postgres store.\<close>

theorem stale_write_ignored:
  assumes "t (r_key r) = Some old" and "r_version r \<le> r_version old"
  shows "pg_put r t = t"
  using assms by (rule pg_put_stale)

theorem stale_write_ignored_witness:
  "pg_put (sample_run\<lparr>r_version := 4, r_state := failed\<rparr>) [''k'' \<mapsto> sample_run] = [''k'' \<mapsto> sample_run]"
  by (rule stale_write_ignored [of _ _ sample_run]) (simp_all add: sample_run_def)

end
