(* ===== verification/Breaker.thy ===== *)
theory Breaker
  imports States "HOL-Library.AList"
begin

section \<open>The corridor circuit breaker (packages/engine/src/breaker.ts, breaker-pg.ts)\<close>

text \<open>
  Which finished runs count against a lane, and the two health stores that keep the count.
  The contract the engine relies on is the locale \<open>health_store\<close>: from it, the state of a
  lane after any history of outcomes and resets is a function of the failures since the last
  success or reset. Both stores are interpretations. Times are integral milliseconds; the
  \<open>timestamptz\<close> columns hold the millisecond they were given.
\<close>

subsection \<open>Which failures count\<close>

definition DEFAULT_BREAKER_THRESHOLD :: int where
  "DEFAULT_BREAKER_THRESHOLD = 3"

datatype breaker_state = BClosed | BOpen

datatype lane_outcome = LaneSuccess | LaneFailure

text \<open>\<open>BreakerOutcome\<close>: \<open>None\<close> is \<open>neutral\<close>.\<close>

definition LANE_FAILURE_CODES :: "error_code list" where
  "LANE_FAILURE_CODES =
     [SETTLEMENT_FAILED, SETTLEMENT_TIMEOUT, RECONCILE_MISMATCH, RECONCILE_STALLED,
      PRESETTLE_INSUFFICIENT_FUNDS, PRESETTLE_ANCHOR_DRIFT, PRESETTLE_TX_MISMATCH,
      PRESETTLE_DESTINATION_UNSAFE]"

definition breakerOutcomeFor :: "corridor_state \<Rightarrow> error_code option \<Rightarrow> lane_outcome option" where
  "breakerOutcomeFor st code =
     (if st = completed then Some LaneSuccess
      else if st \<noteq> failed \<and> st \<noteq> held \<and> st \<noteq> refunded then None
      else case code of
             None \<Rightarrow> None
           | Some c \<Rightarrow> if c \<in> set LANE_FAILURE_CODES then Some LaneFailure else None)"

definition lane_code_of :: "string \<Rightarrow> error_code option" where
  "lane_code_of s = find (\<lambda>c. code_name c = s) LANE_FAILURE_CODES"

definition recoveredBreakerCause :: "string option \<Rightarrow> corridor_error \<Rightarrow> corridor_error" where
  "recoveredBreakerCause lastError fallback =
     (case lastError of
        None \<Rightarrow> fallback
      | Some s \<Rightarrow>
          (case index_of '': '' s of
             None \<Rightarrow> fallback
           | Some sep \<Rightarrow>
               if sep = 0 then fallback
               else case lane_code_of (take sep s) of
                      None \<Rightarrow> fallback
                    | Some c \<Rightarrow> mk_err c (drop (sep + 2) s)))"

record breaker_record =
  b_corridorId :: string
  b_state :: breaker_state
  b_failures :: nat
  b_trippedAt :: "int option"
  b_lastError :: "string option"
  b_resetBy :: "string option"
  b_resetReason :: "string option"
  b_resetAt :: "int option"
  b_updatedAt :: int

definition justTripped :: "breaker_record \<Rightarrow> int \<Rightarrow> bool" where
  "justTripped r at = (b_state r = BOpen \<and> b_trippedAt r = Some at)"

definition closedRecord :: "string \<Rightarrow> int \<Rightarrow> breaker_record" where
  "closedRecord c at =
     \<lparr>b_corridorId = c, b_state = BClosed, b_failures = 0, b_trippedAt = None,
      b_lastError = None, b_resetBy = None, b_resetReason = None, b_resetAt = None,
      b_updatedAt = at\<rparr>"

definition orElse :: "'a option \<Rightarrow> 'a option \<Rightarrow> 'a option" where
  "orElse a b = (case a of Some x \<Rightarrow> Some x | None \<Rightarrow> b)"

subsection \<open>The in-memory store\<close>

type_synonym health_mem = "(string \<times> breaker_record) list"

definition hm_get :: "health_mem \<Rightarrow> string \<Rightarrow> breaker_record option" where
  "hm_get s c = map_of s c"

definition hm_list :: "health_mem \<Rightarrow> breaker_record list" where
  "hm_list s = map snd s"

definition hm_next ::
  "breaker_record \<Rightarrow> lane_outcome \<Rightarrow> int \<Rightarrow> int \<Rightarrow> string option \<Rightarrow> breaker_record" where
  "hm_next current outcome at threshold err =
     (case outcome of
        LaneSuccess \<Rightarrow> current\<lparr>b_state := BClosed, b_failures := 0, b_updatedAt := at\<rparr>
      | LaneFailure \<Rightarrow>
          (let n = b_failures current + 1; trips = (int n \<ge> threshold)
           in current\<lparr>b_state := (if trips \<or> b_state current = BOpen then BOpen else BClosed),
                      b_failures := n,
                      b_trippedAt := (if trips then orElse (b_trippedAt current) (Some at)
                                      else b_trippedAt current),
                      b_lastError := orElse err (b_lastError current),
                      b_updatedAt := at\<rparr>))"

definition hm_record ::
  "string \<Rightarrow> lane_outcome \<Rightarrow> int \<Rightarrow> int \<Rightarrow> string option \<Rightarrow> health_mem \<Rightarrow> breaker_record \<times> health_mem" where
  "hm_record c outcome at threshold err s =
     (let current = (case map_of s c of Some r \<Rightarrow> r | None \<Rightarrow> closedRecord c at);
          r = hm_next current outcome at threshold err
      in (r, AList.update c r s))"

definition hm_reset ::
  "string \<Rightarrow> string \<Rightarrow> string \<Rightarrow> int \<Rightarrow> health_mem \<Rightarrow> breaker_record \<times> health_mem" where
  "hm_reset c by' reason at s =
     (let r = \<lparr>b_corridorId = c, b_state = BClosed, b_failures = 0, b_trippedAt = None,
               b_lastError = None, b_resetBy = Some by', b_resetReason = Some reason,
               b_resetAt = Some at, b_updatedAt = at\<rparr>
      in (r, AList.update c r s))"

subsection \<open>The Postgres store\<close>

text \<open>
  The table as a map from the corridor to its row. A row has the columns of a record, null
  as \<open>None\<close>; \<open>toRecord\<close> reads an empty text column as absent.
\<close>

type_synonym health_pg = "string \<Rightarrow> breaker_record option"

definition non_empty :: "string option \<Rightarrow> string option" where
  "non_empty x = (if truthy x then x else None)"

definition toRecord :: "breaker_record \<Rightarrow> breaker_record" where
  "toRecord row = row\<lparr>b_lastError := non_empty (b_lastError row),
                      b_resetBy := non_empty (b_resetBy row),
                      b_resetReason := non_empty (b_resetReason row)\<rparr>"

definition hp_get :: "health_pg \<Rightarrow> string \<Rightarrow> breaker_record option" where
  "hp_get t c = map_option toRecord (t c)"

definition hp_insert ::
  "string \<Rightarrow> bool \<Rightarrow> int \<Rightarrow> int \<Rightarrow> string option \<Rightarrow> breaker_record" where
  "hp_insert c failure at threshold err =
     (closedRecord c at)
       \<lparr>b_failures := (if failure then 1 else 0),
        b_state := (if failure \<and> 1 \<ge> threshold then BOpen else BClosed),
        b_trippedAt := (if failure \<and> 1 \<ge> threshold then Some at else None),
        b_lastError := (if failure then err else None)\<rparr>"

definition hp_update ::
  "breaker_record \<Rightarrow> bool \<Rightarrow> int \<Rightarrow> int \<Rightarrow> string option \<Rightarrow> breaker_record" where
  "hp_update row failure at threshold err =
     row\<lparr>b_failures := (if failure then b_failures row + 1 else 0),
         b_state := (if failure \<and> int (b_failures row + 1) \<ge> threshold then BOpen
                     else if failure then b_state row else BClosed),
         b_trippedAt := (if failure \<and> int (b_failures row + 1) \<ge> threshold
                            \<and> b_state row \<noteq> BOpen
                         then Some at else b_trippedAt row),
         b_lastError := (if failure then err else b_lastError row),
         b_updatedAt := at\<rparr>"

definition hp_record ::
  "string \<Rightarrow> lane_outcome \<Rightarrow> int \<Rightarrow> int \<Rightarrow> string option \<Rightarrow> health_pg \<Rightarrow> breaker_record \<times> health_pg" where
  "hp_record c outcome at threshold err t =
     (let failure = (outcome = LaneFailure);
          row = (case t c of None \<Rightarrow> hp_insert c failure at threshold err
                           | Some row \<Rightarrow> hp_update row failure at threshold err)
      in (toRecord row, t(c \<mapsto> row)))"

definition hp_reset ::
  "string \<Rightarrow> string \<Rightarrow> string \<Rightarrow> int \<Rightarrow> health_pg \<Rightarrow> breaker_record \<times> health_pg" where
  "hp_reset c by' reason at t =
     (let cleared = (case t c of None \<Rightarrow> closedRecord c at | Some row \<Rightarrow> row);
          row = cleared\<lparr>b_failures := 0, b_state := BClosed, b_trippedAt := None,
                        b_resetBy := Some by', b_resetReason := Some reason,
                        b_resetAt := Some at, b_updatedAt := at\<rparr>
      in (toRecord row, t(c \<mapsto> row)))"

subsection \<open>The metered decorator\<close>

text \<open>A metrics sink is the list of the increments it received: the series and its corridor.\<close>

datatype breaker_metric = Tripped | Refused | ResetBy

definition metered_record ::
  "(string \<Rightarrow> lane_outcome \<Rightarrow> int \<Rightarrow> int \<Rightarrow> string option \<Rightarrow> 's \<Rightarrow> breaker_record \<times> 's)
    \<Rightarrow> string \<Rightarrow> lane_outcome \<Rightarrow> int \<Rightarrow> int \<Rightarrow> string option
    \<Rightarrow> 's \<times> (breaker_metric \<times> string) list \<Rightarrow> breaker_record \<times> 's \<times> (breaker_metric \<times> string) list" where
  "metered_record inner c outcome at threshold err w =
     (let (r, s) = inner c outcome at threshold err (fst w)
      in (r, s, if outcome = LaneFailure \<and> justTripped r at then snd w @ [(Tripped, c)] else snd w))"

definition metered_reset ::
  "(string \<Rightarrow> string \<Rightarrow> string \<Rightarrow> int \<Rightarrow> 's \<Rightarrow> breaker_record \<times> 's)
    \<Rightarrow> string \<Rightarrow> string \<Rightarrow> string \<Rightarrow> int
    \<Rightarrow> 's \<times> (breaker_metric \<times> string) list \<Rightarrow> breaker_record \<times> 's \<times> (breaker_metric \<times> string) list" where
  "metered_reset inner c by' reason at w =
     (let (r, s) = inner c by' reason at (fst w) in (r, s, snd w @ [(ResetBy, c)]))"

subsection \<open>The contract of a health store\<close>

datatype lane_event =
    Outcome string lane_outcome int "string option"
  | Reset string string string int

text \<open>Counted failures of a lane since its last success or reset.\<close>

fun streak :: "string \<Rightarrow> nat \<Rightarrow> lane_event list \<Rightarrow> nat" where
  "streak c n [] = n"
| "streak c n (Outcome c' out at err # evs) =
     streak c (if c' \<noteq> c then n else case out of LaneSuccess \<Rightarrow> 0 | LaneFailure \<Rightarrow> n + 1) evs"
| "streak c n (Reset c' by' reason at # evs) = streak c (if c' = c then 0 else n) evs"

fun run_lane ::
  "(string \<Rightarrow> lane_outcome \<Rightarrow> int \<Rightarrow> int \<Rightarrow> string option \<Rightarrow> 's \<Rightarrow> breaker_record \<times> 's)
    \<Rightarrow> (string \<Rightarrow> string \<Rightarrow> string \<Rightarrow> int \<Rightarrow> 's \<Rightarrow> breaker_record \<times> 's)
    \<Rightarrow> int \<Rightarrow> lane_event list \<Rightarrow> 's \<Rightarrow> 's" where
  "run_lane rec rst th [] s = s"
| "run_lane rec rst th (Outcome c out at err # evs) s =
     run_lane rec rst th evs (snd (rec c out at th err s))"
| "run_lane rec rst th (Reset c by' reason at # evs) s =
     run_lane rec rst th evs (snd (rst c by' reason at s))"

definition lane_failures :: "('s \<Rightarrow> string \<Rightarrow> breaker_record option) \<Rightarrow> 's \<Rightarrow> string \<Rightarrow> nat" where
  "lane_failures get s c = (case get s c of None \<Rightarrow> 0 | Some r \<Rightarrow> b_failures r)"

definition lane_open :: "('s \<Rightarrow> string \<Rightarrow> breaker_record option) \<Rightarrow> 's \<Rightarrow> string \<Rightarrow> bool" where
  "lane_open get s c = (case get s c of None \<Rightarrow> False | Some r \<Rightarrow> b_state r = BOpen)"

locale health_store =
  fixes get :: "'s \<Rightarrow> string \<Rightarrow> breaker_record option"
    and rec :: "string \<Rightarrow> lane_outcome \<Rightarrow> int \<Rightarrow> int \<Rightarrow> string option \<Rightarrow> 's \<Rightarrow> breaker_record \<times> 's"
    and rst :: "string \<Rightarrow> string \<Rightarrow> string \<Rightarrow> int \<Rightarrow> 's \<Rightarrow> breaker_record \<times> 's"
  assumes rec_get:
      "get (snd (rec c out at th err s)) c' =
         (if c' = c then Some (fst (rec c out at th err s)) else get s c')"
    and rst_get:
      "get (snd (rst c by' reason at s)) c' =
         (if c' = c then Some (fst (rst c by' reason at s)) else get s c')"
    and rec_success:
      "b_failures (fst (rec c LaneSuccess at th err s)) = 0 \<and>
       b_state (fst (rec c LaneSuccess at th err s)) = BClosed"
    and rec_failure:
      "b_failures (fst (rec c LaneFailure at th err s)) = lane_failures get s c + 1 \<and>
       (b_state (fst (rec c LaneFailure at th err s)) = BOpen \<longleftrightarrow>
          th \<le> int (lane_failures get s c + 1) \<or> lane_open get s c)"
    and rst_clears:
      "b_failures (fst (rst c by' reason at s)) = 0 \<and>
       b_state (fst (rst c by' reason at s)) = BClosed"
begin

lemma failures_rec:
  "lane_failures get (snd (rec c out at th err s)) c' =
     (if c' \<noteq> c then lane_failures get s c'
      else case out of LaneSuccess \<Rightarrow> 0 | LaneFailure \<Rightarrow> lane_failures get s c + 1)"
  by (cases out) (simp_all add: lane_failures_def rec_get rec_success rec_failure)

lemma open_rec:
  "lane_open get (snd (rec c out at th err s)) c' =
     (if c' \<noteq> c then lane_open get s c'
      else case out of LaneSuccess \<Rightarrow> False
           | LaneFailure \<Rightarrow> th \<le> int (lane_failures get s c + 1) \<or> lane_open get s c)"
  by (cases out) (simp_all add: lane_open_def rec_get rec_success rec_failure)

lemma failures_rst:
  "lane_failures get (snd (rst c by' reason at s)) c' =
     (if c' = c then 0 else lane_failures get s c')"
  by (simp add: lane_failures_def rst_get rst_clears)

lemma open_rst:
  "lane_open get (snd (rst c by' reason at s)) c' = (if c' = c then False else lane_open get s c')"
  by (simp add: lane_open_def rst_get rst_clears)

lemma run_streak:
  "lane_failures get (run_lane rec rst th evs s) c = streak c (lane_failures get s c) evs"
proof (induction evs arbitrary: s)
  case (Cons ev evs)
  then show ?case by (cases ev) (auto simp: failures_rec failures_rst)
qed simp

lemma run_open:
  "0 < th \<Longrightarrow> (lane_open get s c \<longleftrightarrow> th \<le> int (lane_failures get s c)) \<Longrightarrow>
   (lane_open get (run_lane rec rst th evs s) c \<longleftrightarrow>
      th \<le> int (streak c (lane_failures get s c) evs))"
proof (induction evs arbitrary: s)
  case (Cons ev evs)
  show ?case
  proof (cases ev)
    case (Outcome c' out at err)
    with Cons.prems Cons.IH [of "snd (rec c' out at th err s)"] show ?thesis
      by (cases out) (auto simp: failures_rec open_rec)
  next
    case (Reset c' by' reason at)
    with Cons.prems Cons.IH [of "snd (rst c' by' reason at s)"] show ?thesis
      by (auto simp: failures_rst open_rst)
  qed
qed simp

end

text \<open>A decorated store keeps the contract: metering changes no row.\<close>

lemma metered_fst [simp]:
  "fst (metered_record inner c out at th err w) = fst (inner c out at th err (fst w))"
  "fst (snd (metered_record inner c out at th err w)) = snd (inner c out at th err (fst w))"
  "fst (metered_reset inner' c by' reason at w) = fst (inner' c by' reason at (fst w))"
  "fst (snd (metered_reset inner' c by' reason at w)) = snd (inner' c by' reason at (fst w))"
  by (simp_all add: metered_record_def metered_reset_def split: prod.splits)

lemma metered_health_store:
  "health_store get rec rst \<Longrightarrow>
   health_store (\<lambda>w. get (fst w)) (metered_record rec) (metered_reset rst)"
  by (simp add: health_store_def lane_failures_def lane_open_def)

lemma orElse_simps [simp]: "orElse (Some x) b = Some x" "orElse None b = b"
  by (simp_all add: orElse_def)

interpretation hm: health_store hm_get hm_record hm_reset
  by unfold_locales
    (auto simp: hm_get_def hm_record_def hm_reset_def hm_next_def Let_def lane_failures_def
      lane_open_def closedRecord_def update_conv split: option.splits)

lemma toRecord_simps [simp]:
  "b_state (toRecord r) = b_state r" "b_failures (toRecord r) = b_failures r"
  "b_trippedAt (toRecord r) = b_trippedAt r" "b_corridorId (toRecord r) = b_corridorId r"
  "b_updatedAt (toRecord r) = b_updatedAt r"
  by (simp_all add: toRecord_def)

interpretation hp: health_store hp_get hp_record hp_reset
  by unfold_locales
    (auto simp: hp_get_def hp_record_def hp_reset_def hp_insert_def hp_update_def Let_def
      lane_failures_def lane_open_def closedRecord_def split: option.splits)

interpretation hmm: health_store "\<lambda>w. hm_get (fst w)" "metered_record hm_record" "metered_reset hm_reset"
  by (rule metered_health_store) (rule hm.health_store_axioms)

interpretation hpm: health_store "\<lambda>w. hp_get (fst w)" "metered_record hp_record" "metered_reset hp_reset"
  by (rule metered_health_store) (rule hp.health_store_axioms)

subsection \<open>The trip marker\<close>

text \<open>
  What an open row must look like for \<open>justTripped\<close> to name the trip and nothing else: it
  was stamped at or before the last update.
\<close>

definition stamped :: "breaker_record \<Rightarrow> bool" where
  "stamped r \<longleftrightarrow> (b_state r = BOpen \<longrightarrow> (\<exists>t. b_trippedAt r = Some t \<and> t \<le> b_updatedAt r))"

definition stamped_all :: "health_pg \<Rightarrow> bool" where
  "stamped_all t \<longleftrightarrow> (\<forall>c row. t c = Some row \<longrightarrow> stamped row)"

lemma stamped_insert: "stamped (hp_insert c failure at th err)"
  by (simp add: stamped_def hp_insert_def closedRecord_def)

lemma stamped_update:
  "stamped row \<Longrightarrow> b_updatedAt row \<le> at \<Longrightarrow> stamped (hp_update row failure at th err)"
  by (auto simp: stamped_def hp_update_def)

lemma hp_record_row:
  "snd (hp_record c out at th err t) =
     t(c \<mapsto> case t c of None \<Rightarrow> hp_insert c (out = LaneFailure) at th err
                    | Some row \<Rightarrow> hp_update row (out = LaneFailure) at th err)"
  by (simp add: hp_record_def Let_def)

lemma hp_record_stamped:
  assumes "stamped_all t" and "\<And>row. t c = Some row \<Longrightarrow> b_updatedAt row \<le> at"
  shows "stamped_all (snd (hp_record c out at th err t))"
  using assms
  by (simp add: stamped_all_def hp_record_row stamped_insert stamped_update split: option.splits)

lemma hp_tripped_once:
  assumes "stamped_all t" and "\<And>row. t c = Some row \<Longrightarrow> b_updatedAt row < at" and "0 < th"
  shows "justTripped (fst (hp_record c LaneFailure at th err t)) at \<longleftrightarrow>
           \<not> lane_open hp_get t c \<and> th \<le> int (lane_failures hp_get t c + 1)"
proof (cases "t c")
  case None
  then show ?thesis using assms(3)
    by (auto simp: justTripped_def hp_record_def hp_insert_def lane_open_def lane_failures_def
        hp_get_def closedRecord_def Let_def)
next
  case (Some row)
  have "b_state row = BOpen \<Longrightarrow> b_trippedAt row \<noteq> Some at"
    using assms(1,2) Some by (fastforce simp: stamped_all_def stamped_def)
  then show ?thesis using Some
    by (cases "b_state row")
      (auto simp: justTripped_def hp_record_def hp_update_def lane_open_def lane_failures_def hp_get_def
        Let_def)
qed

subsection \<open>The cause of a resumed run\<close>

lemma index_of_sep:
  "CHR '':'' \<notin> set a \<Longrightarrow> index_of '': '' (a @ '': '' @ b) = Some (length a)"
  by (induction a) (auto simp: starts_with_def)

lemma find_eq: "find (\<lambda>x. x = c) xs = (if c \<in> set xs then Some c else None)"
  by (induction xs) auto

lemma code_name_eq: "(code_name x = code_name c) = (x = c)"
  by (rule iffI) (erule code_name_inj, simp)

lemma lane_code_of_name:
  "lane_code_of (code_name c) = (if c \<in> set LANE_FAILURE_CODES then Some c else None)"
  unfolding lane_code_of_def code_name_eq by (rule find_eq)

lemma recovered_render:
  "recoveredBreakerCause (Some (render_error e)) fb =
     (if e_code e \<in> set LANE_FAILURE_CODES then mk_err (e_code e) (e_message e) else fb)"
proof -
  let ?c = "code_name (e_code e)" and ?s = "render_error e"
  have i: "index_of '': '' ?s = Some (length ?c)"
    unfolding render_error_def by (rule index_of_sep [OF code_name_no_colon])
  have t: "take (length ?c) ?s = ?c" and d: "drop (length ?c + 2) ?s = e_message e"
    by (simp_all add: render_error_def)
  have "recoveredBreakerCause (Some ?s) fb =
      (case lane_code_of ?c of None \<Rightarrow> fb | Some c \<Rightarrow> mk_err c (e_message e))"
    by (simp only: recoveredBreakerCause_def option.case i t d) (simp add: code_name_nonempty)
  then show ?thesis by (cases "e_code e \<in> set LANE_FAILURE_CODES") (simp_all only: lane_code_of_name option.case if_True if_False)
qed

subsection \<open>Properties\<close>



text \<open>
  In the Postgres store a recorded failure is reported as the tripping one exactly when the
  lane was closed and this failure reaches the threshold, provided open rows are stamped and time
  moves forward; so a trip is counted once.
\<close>

theorem trip_counted_once:
  assumes "stamped_all t" and "\<And>row. t c = Some row \<Longrightarrow> b_updatedAt row < at" and "0 < th"
  shows "justTripped (fst (hp_record c LaneFailure at th err t)) at \<longleftrightarrow>
           \<not> lane_open hp_get t c \<and> th \<le> int (lane_failures hp_get t c + 1)"
  by (rule hp_tripped_once [OF assms])

theorem trip_counted_once_witness:
  "justTripped (fst (hp_record ''c'' LaneFailure 5 1 None (\<lambda>_. None))) 5 \<longleftrightarrow>
     \<not> lane_open hp_get (\<lambda>_. None) ''c'' \<and> 1 \<le> int (lane_failures hp_get (\<lambda>_. None) ''c'' + 1)"
  by (rule trip_counted_once) (simp_all add: stamped_all_def)

text \<open>
  The cause a resumed run reads back from its stored error text is the error that was
  stored, whenever that error counts against the lane; any other text falls back.
\<close>

theorem breaker_cause_roundtrip:
  "recoveredBreakerCause (Some (render_error e)) fb =
     (if e_code e \<in> set LANE_FAILURE_CODES then mk_err (e_code e) (e_message e) else fb)"
  by (rule recovered_render)

end
