(* ===== verification/Money.thy ===== *)
theory Money
  imports Types
begin

section \<open>Decimal-safe money (packages/types/src/money.ts)\<close>

text \<open>
  Amounts are decimal strings; arithmetic is on integers scaled by \<open>10 ^ scale\<close>. The
  lemmas show that parsing and printing are inverse on canonical amounts, that printing is
  a normal form, that comparison is the order of the scaled values, and how far
  \<open>applyPrice\<close> rounds.
\<close>

definition STROOP_SCALE :: nat where
  "STROOP_SCALE = 7"

text \<open>The unsigned part of \<open>AMOUNT_RE\<close>: digits, then optionally a point and digits.\<close>

definition unsigned_re :: "string \<Rightarrow> bool" where
  "unsigned_re s =
     (let i = takeWhile is_digit s; r = dropWhile is_digit s
      in i \<noteq> [] \<and>
         (case r of [] \<Rightarrow> True
          | c # f \<Rightarrow> c = CHR ''.'' \<and> f \<noteq> [] \<and> list_all is_digit f))"

definition amount_re :: "string \<Rightarrow> bool" where
  "amount_re s = (case s of c # u \<Rightarrow> if c = CHR ''-'' then unsigned_re u else unsigned_re s
                  | [] \<Rightarrow> unsigned_re s)"

definition isValidAmount :: "string \<Rightarrow> bool" where
  "isValidAmount s = amount_re (js_trim s)"

text \<open>\<open>t.replace("-", "").split(".")\<close> with the second part defaulting to the empty string.\<close>

definition split_amount :: "string \<Rightarrow> string \<times> string" where
  "split_amount t =
     (let u = remove1 (CHR ''-'') t; rest = dropWhile (\<lambda>c. c \<noteq> CHR ''.'') u
      in (takeWhile (\<lambda>c. c \<noteq> CHR ''.'') u, takeWhile (\<lambda>c. c \<noteq> CHR ''.'') (drop 1 rest)))"

definition toScaled :: "string \<Rightarrow> nat \<Rightarrow> int outcome" where
  "toScaled amount scale =
     (let t = js_trim amount in
      if \<not> amount_re t then
        fail AMOUNT_INVALID (''not a decimal amount: '' @ CHR 0x22 # amount @ [CHR 0x22])
      else
        let neg = starts_with ''-'' t; (intPart, fracPart) = split_amount t in
        if length fracPart > scale then
          fail AMOUNT_INVALID
            (''amount '' @ CHR 0x22 # amount @ CHR 0x22 # '' exceeds '' @ show_nat scale @
             '' decimal places'')
        else
          let mag = int (nat_of_digits
                (intPart @ fracPart @ replicate (scale - length fracPart) (CHR ''0'')))
          in Inr (if neg then - mag else mag))"

definition strip_zeros :: "string \<Rightarrow> string" where
  "strip_zeros s = rev (dropWhile (\<lambda>c. c = CHR ''0'') (rev s))"

definition pad_start :: "nat \<Rightarrow> string \<Rightarrow> string" where
  "pad_start n s = replicate (n - length s) (CHR ''0'') @ s"

definition fromScaled :: "int \<Rightarrow> nat \<Rightarrow> string" where
  "fromScaled v scale =
     (let neg = v < 0;
          digits = pad_start (scale + 1) (show_nat (nat (if neg then - v else v)));
          cut = length digits - scale;
          intPart = take cut digits;
          fracPart = strip_zeros (drop cut digits)
      in (if neg then ''-'' else []) @
         (if fracPart \<noteq> [] then intPart @ ''.'' @ fracPart else intPart))"

definition isSettleableAmount :: "string \<Rightarrow> nat \<Rightarrow> bool" where
  "isSettleableAmount s scale =
     (case toScaled s scale of Inl _ \<Rightarrow> False | Inr v \<Rightarrow> v > 0)"

definition combine :: "string \<Rightarrow> string \<Rightarrow> (int \<Rightarrow> int \<Rightarrow> int) \<Rightarrow> nat \<Rightarrow> string outcome" where
  "combine a b f scale =
     (case toScaled a scale of Inl e \<Rightarrow> Inl e
      | Inr x \<Rightarrow>
        (case toScaled b scale of Inl e \<Rightarrow> Inl e
         | Inr y \<Rightarrow> Inr (fromScaled (f x y) scale)))"

definition addAmounts :: "string \<Rightarrow> string \<Rightarrow> nat \<Rightarrow> string outcome" where
  "addAmounts a b scale = combine a b (+) scale"

definition subAmounts :: "string \<Rightarrow> string \<Rightarrow> nat \<Rightarrow> string outcome" where
  "subAmounts a b scale = combine a b (-) scale"

definition compareAmounts :: "string \<Rightarrow> string \<Rightarrow> nat \<Rightarrow> int outcome" where
  "compareAmounts a b scale =
     (case toScaled a scale of Inl e \<Rightarrow> Inl e
      | Inr x \<Rightarrow>
        (case toScaled b scale of Inl e \<Rightarrow> Inl e
         | Inr y \<Rightarrow> Inr (if x < y then -1 else if x > y then 1 else 0)))"

definition applyPrice :: "string \<Rightarrow> string \<Rightarrow> nat \<Rightarrow> string outcome" where
  "applyPrice amount price scale =
     (case toScaled amount scale of Inl e \<Rightarrow> Inl e
      | Inr a \<Rightarrow>
        (case toScaled price scale of Inl e \<Rightarrow> Inl e
         | Inr p \<Rightarrow>
           (let factor = 10 ^ scale;
                product = a * p;
                half = trunc_div factor 2;
                rounded = trunc_div (product + (if product \<ge> 0 then half else - half)) factor
            in Inr (fromScaled rounded scale))))"

definition moneyAdd :: "money \<Rightarrow> money \<Rightarrow> money outcome" where
  "moneyAdd a b =
     (if m_asset a \<noteq> m_asset b then
        fail AMOUNT_INVALID (''cannot add '' @ m_asset a @ '' to '' @ m_asset b)
      else
        case addAmounts (m_amount a) (m_amount b) STROOP_SCALE of
          Inl e \<Rightarrow> Inl e
        | Inr s \<Rightarrow> Inr \<lparr>m_asset = m_asset a, m_amount = s\<rparr>)"

subsection \<open>Printing yields a well-formed amount\<close>

lemma digits_no_dot: "list_all is_digit s \<Longrightarrow> CHR ''.'' \<notin> set s"
  by (induction s) (auto dest: is_digit_not_punct)

lemma digits_no_minus: "list_all is_digit s \<Longrightarrow> CHR ''-'' \<notin> set s"
  by (induction s) (auto dest: is_digit_not_punct)

lemma takeWhile_all: "list_all P s \<Longrightarrow> takeWhile P s = s"
  by (induction s) auto

lemma list_all_replicate0 [simp]: "list_all is_digit (replicate n (CHR ''0''))"
  by (induction n) (simp_all add: is_digit_def)

lemma pad_start_digits: "list_all is_digit s \<Longrightarrow> list_all is_digit (pad_start n s)"
  by (simp add: pad_start_def)

lemma length_pad_start: "n \<le> length (pad_start n s)"
  by (simp add: pad_start_def)

lemma nat_of_digits_pad_start [simp]: "nat_of_digits (pad_start n s) = nat_of_digits s"
  by (simp add: pad_start_def)

lemma strip_zeros_pad:
  "strip_zeros s @ replicate (length s - length (strip_zeros s)) (CHR ''0'') = s"
proof (induction s rule: rev_induct)
  case Nil
  then show ?case by (simp add: strip_zeros_def)
next
  case (snoc c s)
  have le: "length (strip_zeros s) \<le> length s"
    using length_dropWhile_le [of "\<lambda>c. c = CHR ''0''" "rev s"] by (simp add: strip_zeros_def)
  show ?case
  proof (cases "c = CHR ''0''")
    case True
    then have st: "strip_zeros (s @ [c]) = strip_zeros s" by (simp add: strip_zeros_def)
    have "replicate (length (s @ [c]) - length (strip_zeros s)) (CHR ''0'')
        = replicate (length s - length (strip_zeros s)) (CHR ''0'') @ [CHR ''0'']"
      using le by (simp add: Suc_diff_le replicate_append_same)
    then show ?thesis unfolding st using snoc True by (metis append.assoc)
  next
    case False
    then show ?thesis by (simp add: strip_zeros_def)
  qed
qed

lemma strip_zeros_length: "length (strip_zeros s) \<le> length s"
  using arg_cong [OF strip_zeros_pad, of length s] by simp

lemma strip_zeros_digits: "list_all is_digit s \<Longrightarrow> list_all is_digit (strip_zeros s)"
  by (metis strip_zeros_pad list_all_append)

text \<open>The decimal text of an integer part and a fraction, as \<open>fromScaled\<close> assembles it.\<close>

definition dec_text :: "bool \<Rightarrow> string \<Rightarrow> string \<Rightarrow> string" where
  "dec_text neg i f = (if neg then ''-'' else []) @ (if f \<noteq> [] then i @ ''.'' @ f else i)"

definition dec_parts :: "string \<Rightarrow> string \<Rightarrow> bool" where
  "dec_parts i f \<longleftrightarrow> list_all is_digit i \<and> i \<noteq> [] \<and> list_all is_digit f"

lemma not_digit_dot: "\<not> is_digit (CHR ''.'')"
  by (simp add: is_digit_def)

lemma takeWhile_digits:
  "list_all is_digit i \<Longrightarrow> takeWhile is_digit (i @ CHR ''.'' # f) = i"
  "list_all is_digit i \<Longrightarrow> dropWhile is_digit (i @ CHR ''.'' # f) = CHR ''.'' # f"
  "list_all is_digit i \<Longrightarrow> takeWhile is_digit i = i"
  "list_all is_digit i \<Longrightarrow> dropWhile is_digit i = []"
  by (induction i) (auto simp: not_digit_dot)

lemma takeWhile_dot:
  "CHR ''.'' \<notin> set s \<Longrightarrow> takeWhile (\<lambda>c. c \<noteq> CHR ''.'') s = s"
  "CHR ''.'' \<notin> set s \<Longrightarrow> dropWhile (\<lambda>c. c \<noteq> CHR ''.'') s = []"
  "CHR ''.'' \<notin> set s \<Longrightarrow> takeWhile (\<lambda>c. c \<noteq> CHR ''.'') (s @ CHR ''.'' # r) = s"
  "CHR ''.'' \<notin> set s \<Longrightarrow> dropWhile (\<lambda>c. c \<noteq> CHR ''.'') (s @ CHR ''.'' # r) = CHR ''.'' # r"
  by (induction s) auto

lemma dec_unsigned: "dec_parts i f \<Longrightarrow> unsigned_re (dec_text False i f)"
  by (auto simp: unsigned_re_def dec_text_def dec_parts_def takeWhile_digits Let_def)

lemma dec_first: "dec_parts i f \<Longrightarrow> \<exists>c u. i = c # u \<and> c \<noteq> CHR ''-''"
  by (cases i) (auto simp: dec_parts_def dest: is_digit_not_punct)

lemma dec_amount_re: "dec_parts i f \<Longrightarrow> amount_re (dec_text neg i f)"
  using dec_unsigned [of i f] dec_first [of i f]
  by (cases neg) (auto simp: amount_re_def dec_text_def)

lemma dec_last: "dec_parts i f \<Longrightarrow> is_digit (last (dec_text neg i f))"
  by (auto simp: dec_text_def dec_parts_def list_all_iff)

lemma dec_hd: "dec_parts i f \<Longrightarrow> \<not> is_ws (hd (dec_text neg i f))"
proof -
  assume d: "dec_parts i f"
  then obtain c u where i: "i = c # u" by (auto dest: dec_first)
  with d have "\<not> is_ws c" by (simp add: dec_parts_def is_digit_not_ws)
  moreover have "\<not> is_ws (CHR ''-'')" by (simp add: is_ws_def)
  ultimately show ?thesis using i by (simp add: dec_text_def)
qed

lemma dec_trim: "dec_parts i f \<Longrightarrow> js_trim (dec_text neg i f) = dec_text neg i f"
  by (rule js_trim_id) (auto dest: dec_last [of _ _ neg] dec_hd [of _ _ neg] is_digit_not_ws)

lemma dec_split: "dec_parts i f \<Longrightarrow> split_amount (dec_text neg i f) = (i, f)"
proof -
  assume d: "dec_parts i f"
  have r: "remove1 (CHR ''-'') (dec_text neg i f) = dec_text False i f"
    using d by (auto simp: dec_text_def dec_parts_def remove1_idem remove1_append digits_no_minus)
  have nd: "CHR ''.'' \<notin> set i" "CHR ''.'' \<notin> set f"
    using d by (auto simp: dec_parts_def dest: digits_no_dot)
  show ?thesis
    unfolding split_amount_def Let_def r
    by (simp add: dec_text_def takeWhile_dot nd)
qed

lemma dec_neg: "dec_parts i f \<Longrightarrow> starts_with ''-'' (dec_text neg i f) = neg"
  by (auto simp: starts_with_def dec_text_def dest!: dec_first)

lemma toScaled_dec:
  "dec_parts i f \<Longrightarrow> length f \<le> scale \<Longrightarrow>
   toScaled (dec_text neg i f) scale =
     Inr (let m = int (nat_of_digits (i @ f @ replicate (scale - length f) (CHR ''0'')))
          in if neg then - m else m)"
  by (simp add: toScaled_def dec_trim dec_amount_re dec_split dec_neg Let_def)

lemma fromScaled_dec:
  "\<exists>i f. dec_parts i f \<and> length f \<le> scale \<and> (f \<noteq> [] \<longrightarrow> last f \<noteq> CHR ''0'') \<and>
     fromScaled v scale = dec_text (v < 0) i f \<and>
     nat_of_digits (i @ f @ replicate (scale - length f) (CHR ''0'')) = nat \<bar>v\<bar>"
proof -
  define d where "d = pad_start (scale + 1) (show_nat (nat \<bar>v\<bar>))"
  define cut where "cut = length d - scale"
  define i where "i = take cut d"
  define g where "g = drop cut d"
  define f where "f = strip_zeros g"
  have len: "scale + 1 \<le> length d" by (simp only: d_def length_pad_start)
  have dd: "list_all is_digit d" by (simp add: d_def pad_start_digits show_nat_digits)
  have g_len: "length g = scale" using len by (simp add: g_def cut_def)
  have ig: "i @ g = d" by (simp add: i_def g_def)
  have "f @ replicate (scale - length f) (CHR ''0'') = g"
    using strip_zeros_pad [of g] by (simp add: f_def g_len)
  then have val: "nat_of_digits (i @ f @ replicate (scale - length f) (CHR ''0'')) = nat \<bar>v\<bar>"
    using ig by (simp add: d_def)
  have dig: "list_all is_digit i" "list_all is_digit g"
    using dd ig by (metis list_all_append)+
  have "i \<noteq> []" using len by (auto simp: i_def cut_def)
  with dig have parts: "dec_parts i f" by (simp add: dec_parts_def f_def strip_zeros_digits)
  have lf: "length f \<le> scale" using strip_zeros_length [of g] g_len by (simp add: f_def)
  have lz: "f \<noteq> [] \<longrightarrow> last f \<noteq> CHR ''0''"
    using hd_dropWhile [of "\<lambda>c. c = CHR ''0''" "rev g"]
    by (auto simp: f_def strip_zeros_def last_rev)
  have ab: "(if v < 0 then - v else v) = \<bar>v\<bar>" by simp
  have "fromScaled v scale = dec_text (v < 0) i f"
    unfolding fromScaled_def ab Let_def dec_text_def
    by (simp add: i_def f_def g_def cut_def d_def)
  with parts lf lz val show ?thesis by blast
qed

text \<open>Printing a scaled amount and parsing it back gives the same value.\<close>

lemma toScaled_fromScaled: "toScaled (fromScaled v scale) scale = Inr v"
proof -
  obtain i f where h: "dec_parts i f" "length f \<le> scale"
    "fromScaled v scale = dec_text (v < 0) i f"
    "nat_of_digits (i @ f @ replicate (scale - length f) (CHR ''0'')) = nat \<bar>v\<bar>"
    using fromScaled_dec [of scale v] by blast
  show ?thesis
    unfolding h(3) using toScaled_dec [OF h(1,2)] h(4) by (simp add: Let_def)
qed

subsection \<open>Comparison, arithmetic, rounding\<close>

lemma compareAmounts_ok:
  assumes "toScaled a s = Inr x" and "toScaled b s = Inr y"
  shows "compareAmounts a b s = Inr (if x < y then -1 else if x > y then 1 else 0)"
  using assms by (simp add: compareAmounts_def)

lemma compareAmounts_cases:
  assumes "compareAmounts a b s = Inr c"
  obtains x y where "toScaled a s = Inr x" and "toScaled b s = Inr y"
    and "c = (if x < y then -1 else if x > y then 1 else 0)"
  using assms by (auto simp: compareAmounts_def split: sum.splits)

lemma combine_ok:
  assumes "toScaled a s = Inr x" and "toScaled b s = Inr y"
  shows "combine a b f s = Inr (fromScaled (f x y) s)"
  using assms by (simp add: combine_def)

lemma trunc_div_pos: "0 \<le> a \<Longrightarrow> 0 < b \<Longrightarrow> trunc_div a b = a div b"
  by (cases "a = 0") (simp_all add: trunc_div_def)

lemma trunc_div_neg: "a \<le> 0 \<Longrightarrow> 0 < b \<Longrightarrow> trunc_div a b = - ((- a) div b)"
  by (cases "a = 0") (simp_all add: trunc_div_def)

lemma round_key:
  fixes X m p h f :: int
  shows "X + m = p + h \<Longrightarrow> 0 \<le> m \<Longrightarrow> m < f \<Longrightarrow> 2 * h \<le> f \<Longrightarrow> f \<le> 2 * h + 1 \<Longrightarrow> 2 * \<bar>X - p\<bar> \<le> f"
  by (cases "X - p \<ge> 0") auto

text \<open>Rounding half away from zero: the result is the nearest multiple of the factor.\<close>

lemma round_half:
  fixes product factor :: int
  assumes f: "0 < factor"
  defines "half \<equiv> trunc_div factor 2"
  defines "r \<equiv> trunc_div (product + (if product \<ge> 0 then half else - half)) factor"
  shows "2 * \<bar>r * factor - product\<bar> \<le> factor"
proof -
  have half: "half = factor div 2" using f by (simp add: half_def trunc_div_pos)
  have key: "2 * \<bar>((p + factor div 2) div factor) * factor - p\<bar> \<le> factor" for p :: int
    by (rule round_key [where m = "(p + factor div 2) mod factor" and h = "factor div 2"])
      (use f in simp_all)
  show ?thesis
  proof (cases "product \<ge> 0")
    case True
    then show ?thesis using key [of product] f by (simp add: r_def half trunc_div_pos)
  next
    case False
    then have "product + - half \<le> 0" using f by (simp add: half)
    then have "r = - ((- product + factor div 2) div factor)"
      using False f by (simp add: r_def half trunc_div_neg)
    then show ?thesis using key [of "- product"] by (simp add: abs_minus_commute algebra_simps)
  qed
qed

lemma applyPrice_ok:
  assumes "toScaled a s = Inr x" and "toScaled p s = Inr y"
  obtains r where "applyPrice a p s = Inr (fromScaled r s)"
    and "2 * \<bar>r * 10 ^ s - x * y\<bar> \<le> 10 ^ s"
proof -
  let ?half = "trunc_div (10 ^ s) 2"
  let ?r = "trunc_div (x * y + (if x * y \<ge> 0 then ?half else - ?half)) (10 ^ s)"
  have "applyPrice a p s = Inr (fromScaled ?r s)"
    using assms by (simp add: applyPrice_def Let_def)
  moreover have "2 * \<bar>?r * 10 ^ s - x * y\<bar> \<le> 10 ^ s" by (rule round_half) simp
  ultimately show ?thesis by (rule that)
qed

lemma isSettleable_toScaled: "isSettleableAmount s n \<longleftrightarrow> (\<exists>v. toScaled s n = Inr v \<and> 0 < v)"
  by (auto simp: isSettleableAmount_def split: sum.splits)

lemma isSettleable_valid: "isSettleableAmount s n \<Longrightarrow> isValidAmount s"
  by (auto simp: isSettleable_toScaled toScaled_def isValidAmount_def fail_full_def Let_def
      split: if_splits)

subsection \<open>Properties\<close>

text \<open>C38: printing a scaled value and parsing it back is the identity, at every scale and sign.\<close>

theorem money_roundtrip: "toScaled (fromScaled v scale) scale = Inr v"
  by (rule toScaled_fromScaled)

text \<open>
  C25: \<open>compareAmounts\<close> is the order of the scaled values: it answers exactly when both amounts
  parse, with -1, 0 or 1 as the first is below, equal to or above the second.
\<close>

theorem compare_is_order:
  "compareAmounts a b s = Inr c \<longleftrightarrow>
     (\<exists>x y. toScaled a s = Inr x \<and> toScaled b s = Inr y \<and> c = sgn (x - y))"
  by (auto simp: compareAmounts_def sgn_if split: sum.splits)

text \<open>
  C26: \<open>applyPrice\<close> returns the exact product rounded to the nearest unit of the scale: the
  scaled result times the factor is within half a factor of the product of the scaled operands.
\<close>

theorem applyPrice_nearest:
  assumes "toScaled a s = Inr x" and "toScaled p s = Inr y"
  shows "\<exists>r z. applyPrice a p s = Inr r \<and> toScaled r s = Inr z \<and> 2 * \<bar>z * 10 ^ s - x * y\<bar> \<le> 10 ^ s"
  using applyPrice_ok [OF assms] toScaled_fromScaled by metis

theorem applyPrice_nearest_witness:
  "\<exists>r z. applyPrice ''1.25'' ''0.5'' 2 = Inr r \<and> toScaled r 2 = Inr z \<and> 2 * \<bar>z * 10 ^ 2 - 125 * 50\<bar> \<le> 10 ^ 2"
  by (rule applyPrice_nearest) code_simp+

end
