(* ===== verification/Manifest.thy ===== *)
theory Manifest
  imports Money
begin

section \<open>The corridor manifest and its liveness (packages/manifest)\<close>

text \<open>
  A corridor is the validated data object of packages/manifest/src/index.ts: one record per
  Zod object schema, after defaults are filled in. \<open>schema_ok\<close> states the constraints of
  the schemas and of their \<open>superRefine\<close> blocks (URL syntax, checked by Zod itself, is left
  out). \<open>liveness\<close> is packages/manifest/src/liveness.ts; \<open>Date.parse\<close>, whose reading of a
  zone-less timestamp depends on the host, is its parameter.
\<close>

record endpoints_t =
  home_domain :: string
  transfer_server_sep31 :: "string option"
  transfer_server :: "string option"
  base_url :: "string option"
  web_auth :: "string option"
  kyc_server :: "string option"
  quote_server :: "string option"
  endpoints_verified_at :: "string option"

datatype dest_protocol = Sep31 | Sep6 | Custom string

record dest_t =
  d_name :: string
  d_asset :: string
  d_protocol :: dest_protocol
  d_endpoints :: endpoints_t

datatype source_protocol = Prefunded | SrcSep6 | SrcSep24 | SrcCustom string

record source_t =
  s_name :: string
  s_asset :: string
  s_protocol :: source_protocol

datatype quote_source = QSep38 | QNative | QExternal
datatype risk_holder = RiskSender | RiskSendingAnchor | RiskReceivingAnchor

record fx_t =
  fx_path :: "string list"
  fx_quote_source :: quote_source
  who_holds_risk :: risk_holder
  quote_ttl_seconds :: int
  min_quote_remaining_seconds :: int

datatype compliance_method = M_sep12 | M_sep6_fields | M_bespoke | M_none

record compliance_t =
  source_jurisdiction :: string
  dest_jurisdiction :: string
  travel_rule_profile :: string
  c_method :: "compliance_method option"
  sep12_receiver_type :: string
  sep12_sender_type :: string

datatype network_t = PublicNet | TestNet

record settlement_t =
  bridge_asset :: string
  network :: network_t
  asset_issuer :: string
  receive_asset :: "string option"
  receive_asset_issuer :: "string option"
  max_slippage_bps :: "int option"

record limits_t =
  min_amount :: "string option"
  max_amount :: "string option"

record reconcile_t =
  poll_seconds :: "int option"
  stall_polls :: "int option"
  external_stall_seconds :: int

datatype rollback_t = RefundSender | RollbackHold | RollbackManual

record recovery_t =
  max_retries :: nat
  timeout_seconds :: int
  refund_wait_seconds :: int
  rollback :: rollback_t
  reconcile_opts :: reconcile_t
  consecutive_failures_limit :: nat

record proof_t =
  canary_completed_at :: string
  pf_stellar_tx_hash :: string
  pf_anchor_transaction_id :: string
  pf_amount :: string
  max_age_days :: int
  canary_max_amount :: "string option"

record corridor =
  c_id :: string
  status_note :: "string option"
  c_source :: source_t
  c_dest :: dest_t
  c_fx :: fx_t
  c_compliance :: compliance_t
  c_settlement :: settlement_t
  c_recovery :: recovery_t
  c_limits :: "limits_t option"
  c_proof :: "proof_t option"

subsection \<open>Schema constraints\<close>

definition fx_ok :: "fx_t \<Rightarrow> bool" where
  "fx_ok f \<longleftrightarrow> 2 \<le> length (fx_path f) \<and> list_all (\<lambda>p. p \<noteq> []) (fx_path f) \<and>
     0 < quote_ttl_seconds f \<and> 0 < min_quote_remaining_seconds f \<and>
     \<not> (min_quote_remaining_seconds f \<ge> quote_ttl_seconds f)"

definition settlement_ok :: "settlement_t \<Rightarrow> bool" where
  "settlement_ok s \<longleftrightarrow> asset_issuer s \<noteq> [] \<and>
     receive_asset s \<noteq> Some [] \<and> receive_asset_issuer s \<noteq> Some [] \<and>
     (case max_slippage_bps s of None \<Rightarrow> True | Some b \<Rightarrow> 0 \<le> b \<and> b < 10000) \<and>
     \<not> (receive_asset_issuer s \<noteq> None \<and> receive_asset s = None) \<and>
     \<not> ((case receive_asset s of None \<Rightarrow> False | Some a \<Rightarrow> to_upper a \<noteq> ''XLM'') \<and>
        receive_asset_issuer s = None)"

text \<open>The amount pattern of the limits and the proof: unsigned and untrimmed.\<close>

definition limit_amount_ok :: "string option \<Rightarrow> bool" where
  "limit_amount_ok a = (case a of None \<Rightarrow> True | Some s \<Rightarrow> unsigned_re s)"

definition limits_ok :: "limits_t \<Rightarrow> bool" where
  "limits_ok l \<longleftrightarrow> limit_amount_ok (min_amount l) \<and> limit_amount_ok (max_amount l) \<and>
     (case (min_amount l, max_amount l) of
        (Some a, Some b) \<Rightarrow> compareAmounts a b STROOP_SCALE \<noteq> Inr 1
      | _ \<Rightarrow> True)"

definition reconcile_ok :: "reconcile_t \<Rightarrow> bool" where
  "reconcile_ok r \<longleftrightarrow>
     (case poll_seconds r of None \<Rightarrow> True | Some p \<Rightarrow> 0 < p) \<and>
     (case stall_polls r of None \<Rightarrow> True | Some p \<Rightarrow> 0 \<le> p) \<and> 0 < external_stall_seconds r"

definition recovery_ok :: "recovery_t \<Rightarrow> bool" where
  "recovery_ok r \<longleftrightarrow> 0 < timeout_seconds r \<and> 0 < refund_wait_seconds r \<and>
     reconcile_ok (reconcile_opts r) \<and> 0 < consecutive_failures_limit r"

definition hasKycServer :: "dest_t \<Rightarrow> bool" where
  "hasKycServer d = truthy (kyc_server (d_endpoints d))"

definition method_ok :: "corridor \<Rightarrow> bool" where
  "method_ok c \<longleftrightarrow>
     \<not> (c_method (c_compliance c) = Some M_sep12 \<and> \<not> hasKycServer (c_dest c)) \<and>
     \<not> (c_method (c_compliance c) = Some M_sep6_fields \<and> d_protocol (c_dest c) \<noteq> Sep6)"

definition schema_ok :: "corridor \<Rightarrow> bool" where
  "schema_ok c \<longleftrightarrow> c_id c \<noteq> [] \<and> fx_ok (c_fx c) \<and> settlement_ok (c_settlement c) \<and>
     recovery_ok (c_recovery c) \<and>
     (case c_limits c of None \<Rightarrow> True | Some l \<Rightarrow> limits_ok l) \<and> method_ok c"

definition complianceMethod :: "corridor \<Rightarrow> compliance_method" where
  "complianceMethod c =
     (case c_method (c_compliance c) of
        Some m \<Rightarrow> m
      | None \<Rightarrow> if hasKycServer (c_dest c) then M_sep12 else M_none)"

subsection \<open>Liveness\<close>

datatype liveness_state = Proven | Verified | Unverified | NotRunnable

record liveness_t =
  lv_state :: liveness_state
  lv_protocol :: string
  lv_runnable :: bool
  lv_verifiedAt :: "string option"
  lv_proof :: "proof_t option"
  lv_warnings :: "string list"
  lv_gaps :: "string list"

fun protocol_name :: "dest_protocol \<Rightarrow> string" where
  "protocol_name Sep31 = ''sep31''"
| "protocol_name Sep6 = ''sep6''"
| "protocol_name (Custom s) = ''custom:'' @ s"

fun LIVENESS_LABEL :: "liveness_state \<Rightarrow> string" where
  "LIVENESS_LABEL Proven = ''proven''"
| "LIVENESS_LABEL Verified = ''verified''"
| "LIVENESS_LABEL Unverified = ''unverified''"
| "LIVENESS_LABEL NotRunnable = ''not runnable''"

fun requiredEndpoint :: "dest_protocol \<Rightarrow> string" where
  "requiredEndpoint Sep31 = ''transfer_server_sep31''"
| "requiredEndpoint Sep6 = ''transfer_server''"
| "requiredEndpoint (Custom _) = ''base_url''"

fun requiredEndpointValue :: "dest_protocol \<Rightarrow> endpoints_t \<Rightarrow> string option" where
  "requiredEndpointValue Sep31 e = transfer_server_sep31 e"
| "requiredEndpointValue Sep6 e = transfer_server e"
| "requiredEndpointValue (Custom _) e = base_url e"

definition hasRequiredEndpoint :: "dest_t \<Rightarrow> bool" where
  "hasRequiredEndpoint d = truthy (requiredEndpointValue (d_protocol d) (d_endpoints d))"

definition standard_protocol :: "dest_protocol \<Rightarrow> bool" where
  "standard_protocol p = (p = Sep31 \<or> p = Sep6)"

definition dash :: string where
  "dash = [CHR 0xE2, CHR 0x80, CHR 0x94]"

definition endpoint_warnings :: "corridor \<Rightarrow> string list" where
  "endpoint_warnings c =
     (let d = c_dest c; p = d_protocol d in
      if \<not> hasRequiredEndpoint d then
        [''dest has no required '' @ requiredEndpoint p @ '' endpoint for protocol '' @
         protocol_name p @ '' '' @ dash @ '' corridor cannot settle. NOT runnable.'']
      else if \<not> truthy (endpoints_verified_at (d_endpoints d)) then
        [''dest endpoints are UNVERIFIED '' @ dash @
         '' the URLs below have never been confirmed against a published stellar.toml. Do not treat this lane as runnable. Set dest.endpoints.endpoints_verified_at once you have checked them.'']
      else [])"

definition service_warnings :: "corridor \<Rightarrow> string list" where
  "service_warnings c =
     (let e = d_endpoints (c_dest c); p = d_protocol (c_dest c); q = fx_quote_source (c_fx c) in
      (if q = QSep38 \<and> \<not> truthy (quote_server e) \<and> standard_protocol p then
         [''fx.quote_source=sep38 but dest exposes no SEP-38 quote server '' @ dash @
          '' quotes will fail.''] else []) @
      (if q = QExternal then
         [''fx.quote_source=external requires an external quote provider to be wired by the operator; it is not covered by endpoints_verified_at.'']
       else []) @
      (if standard_protocol p \<and> \<not> truthy (web_auth e) then
         [''dest has no optional SEP-10 web_auth endpoint for '' @ protocol_name p @ '' '' @ dash @
          '' authenticated access may fail.''] else []) @
      (if \<not> truthy (kyc_server e) \<and> standard_protocol p then
         [''dest has no SEP-12 kyc_server for '' @ protocol_name p @ '' '' @ dash @
          '' assuming 1:1 delivery with no per-customer KYC.''] else []))"

definition timing_warnings :: "corridor \<Rightarrow> string list" where
  "timing_warnings c =
     (let r = c_recovery c; rc = reconcile_opts r in
      (case (poll_seconds rc, stall_polls rc) of
         (Some p, Some n) \<Rightarrow>
           if n > 0 \<and> p * n \<ge> timeout_seconds r then
             [''recovery.reconcile: poll_seconds ('' @ show_int p @ '') x stall_polls ('' @
              show_int n @ '') is not below timeout_seconds ('' @ show_int (timeout_seconds r) @
              '') '' @ dash @ '' the stall check can never fire.'']
           else []
       | _ \<Rightarrow> []) @
      (if timeout_seconds r \<le> external_stall_seconds rc then
         [''recovery.timeout_seconds ('' @ show_int (timeout_seconds r) @
          ''s) does not exceed recovery.reconcile.external_stall_seconds ('' @
          show_int (external_stall_seconds rc) @ ''s); the corridor timeout will end pending_external/pending_receiver waits first. Raise timeout_seconds for corridors that need the full external stall budget.'']
       else []))"

definition day_ms :: int where
  "day_ms = 24 * 60 * 60 * 1000"

text \<open>What the proof block adds: the state it earns and the warning it may raise.\<close>

definition proof_state :: "(string \<Rightarrow> ms) \<Rightarrow> int \<Rightarrow> proof_t \<Rightarrow> liveness_state \<times> string list" where
  "proof_state date_parse now p =
     (let at = canary_completed_at p; maxAgeMs = max_age_days p * day_ms in
      case date_parse at of
        NaN \<Rightarrow> (Verified, [''proof.canary_completed_at ('' @ at @ '') is not a real date '' @ dash @
                '' ignoring the proof.''])
      | Ms completedAt \<Rightarrow>
          let ageMs = now - completedAt in
          if ageMs < 0 then
            (Verified, [''proof.canary_completed_at ('' @ at @ '') is in the future '' @ dash @
             '' ignoring the proof.''])
          else if ageMs > maxAgeMs then
            (Verified, [''proof is stale '' @ dash @ '' canary payment completed at '' @ at @
             '' is older than '' @ show_int (max_age_days p) @ '' days.''])
          else (Proven, []))"

definition liveness :: "(string \<Rightarrow> ms) \<Rightarrow> corridor \<Rightarrow> int \<Rightarrow> liveness_t" where
  "liveness date_parse c now =
     (let d = c_dest c;
          verifiedAt = endpoints_verified_at (d_endpoints d);
          base = (if \<not> hasRequiredEndpoint d then NotRunnable
                  else if truthy verifiedAt then Verified else Unverified);
          (state, pw) = (case (base, c_proof c) of
                           (Verified, Some p) \<Rightarrow> proof_state date_parse now p
                         | _ \<Rightarrow> (base, []));
          warn = map (\<lambda>m. ''['' @ protocol_name (d_protocol d) @ ''] '' @ m)
      in \<lparr>lv_state = state,
          lv_protocol = protocol_name (d_protocol d),
          lv_runnable = (state = Verified \<or> state = Proven),
          lv_verifiedAt = verifiedAt,
          lv_proof = c_proof c,
          lv_warnings = warn (endpoint_warnings c @ service_warnings c @ timing_warnings c @ pw),
          lv_gaps = (if fx_quote_source (c_fx c) = QExternal then [''quote''] else [])\<rparr>)"

subsection \<open>What liveness guarantees\<close>

lemma lv_state_cases:
  "lv_state (liveness dp c now) =
     (if \<not> hasRequiredEndpoint (c_dest c) then NotRunnable
      else if \<not> truthy (endpoints_verified_at (d_endpoints (c_dest c))) then Unverified
      else case c_proof c of None \<Rightarrow> Verified | Some p \<Rightarrow> fst (proof_state dp now p))"
  by (auto simp: liveness_def Let_def split: prod.splits option.splits liveness_state.splits)

lemma lv_runnable_iff:
  "lv_runnable (liveness dp c now) \<longleftrightarrow>
     lv_state (liveness dp c now) = Verified \<or> lv_state (liveness dp c now) = Proven"
  by (simp add: liveness_def Let_def split: prod.splits)

lemma proof_state_Proven:
  "fst (proof_state dp now p) = Proven \<longleftrightarrow>
     (\<exists>t. dp (canary_completed_at p) = Ms t \<and> t \<le> now \<and> now - t \<le> max_age_days p * day_ms)"
  by (auto simp: proof_state_def Let_def split: ms.splits)

lemma proof_state_range: "fst (proof_state dp now p) \<in> {Proven, Verified}"
  by (simp add: proof_state_def Let_def split: ms.splits)

lemma lv_Proven_iff:
  "lv_state (liveness dp c now) = Proven \<longleftrightarrow>
     hasRequiredEndpoint (c_dest c) \<and> truthy (endpoints_verified_at (d_endpoints (c_dest c))) \<and>
     (\<exists>p t. c_proof c = Some p \<and> dp (canary_completed_at p) = Ms t \<and> t \<le> now \<and>
        now - t \<le> max_age_days p * day_ms)"
  by (auto simp: lv_state_cases proof_state_Proven split: option.splits)

lemma lv_runnable_needs_endpoint:
  "lv_runnable (liveness dp c now) \<longleftrightarrow>
     hasRequiredEndpoint (c_dest c) \<and> truthy (endpoints_verified_at (d_endpoints (c_dest c)))"
proof -
  have "fst (proof_state dp now p) = Verified \<or> fst (proof_state dp now p) = Proven" for p
    using proof_state_range [of dp now p] by auto
  then show ?thesis
    by (auto simp: lv_runnable_iff lv_state_cases split: option.splits)
qed

lemma method_sep12_has_server:
  "schema_ok c \<Longrightarrow> complianceMethod c = M_sep12 \<Longrightarrow> hasKycServer (c_dest c)"
  by (auto simp: schema_ok_def method_ok_def complianceMethod_def split: option.splits if_splits)

subsection \<open>Properties\<close>

text \<open>
  A corridor is proven exactly when its required endpoint is declared and verified and its
  proof names a canary payment that is a real date, not in the future and not older than the
  maximum age.
\<close>

theorem proven_iff:
  "lv_state (liveness dp c now) = Proven \<longleftrightarrow>
     hasRequiredEndpoint (c_dest c) \<and> truthy (endpoints_verified_at (d_endpoints (c_dest c))) \<and>
     (\<exists>p t. c_proof c = Some p \<and> dp (canary_completed_at p) = Ms t \<and> t \<le> now \<and>
        now - t \<le> max_age_days p * day_ms)"
  by (rule lv_Proven_iff)

text \<open>A lane is runnable exactly when its required endpoint is declared and verified, whatever
  its proof says.\<close>

theorem runnable_iff:
  "lv_runnable (liveness dp c now) \<longleftrightarrow>
     hasRequiredEndpoint (c_dest c) \<and> truthy (endpoints_verified_at (d_endpoints (c_dest c)))"
  by (rule lv_runnable_needs_endpoint)

end
