(* ===== verification/Sample.thy ===== *)
theory Sample
  imports Manifest
begin

section \<open>A sample corridor and payment\<close>

text \<open>
  A concrete corridor and payment intent, on which the theorems of the components are applied.
\<close>

definition demo_endpoints :: endpoints_t where
  "demo_endpoints = \<lparr>home_domain = ''a.example'', transfer_server_sep31 = Some ''https://a.example/sep31'',
     transfer_server = None, base_url = None, web_auth = None, kyc_server = None, quote_server = None,
     endpoints_verified_at = None\<rparr>"

definition demo_corridor :: corridor where
  "demo_corridor =
     \<lparr>c_id = ''d'', status_note = None,
      c_source = \<lparr>s_name = ''s'', s_asset = ''USDC'', s_protocol = Prefunded\<rparr>,
      c_dest = \<lparr>d_name = ''a'', d_asset = ''BRL'', d_protocol = Sep31, d_endpoints = demo_endpoints\<rparr>,
      c_fx = \<lparr>fx_path = [''USDC'', ''BRL''], fx_quote_source = QNative, who_holds_risk = RiskSender,
              quote_ttl_seconds = 60, min_quote_remaining_seconds = 30\<rparr>,
      c_compliance = \<lparr>source_jurisdiction = ''US'', dest_jurisdiction = ''BR'', travel_rule_profile = ''t'',
              c_method = None, sep12_receiver_type = ''r'', sep12_sender_type = ''s''\<rparr>,
      c_settlement = \<lparr>bridge_asset = ''USDC'', network = TestNet, asset_issuer = ''G'', receive_asset = None,
              receive_asset_issuer = None, max_slippage_bps = None\<rparr>,
      c_recovery = \<lparr>max_retries = 1, timeout_seconds = 60, refund_wait_seconds = 60, rollback = RefundSender,
              reconcile_opts = \<lparr>poll_seconds = None, stall_polls = None, external_stall_seconds = 60\<rparr>,
              consecutive_failures_limit = 3\<rparr>,
      c_limits = None, c_proof = None\<rparr>"

definition demo_party :: party_ref where
  "demo_party = \<lparr>p_id = ''p'', p_jurisdiction = None, p_sep12Id = None, p_anchorCustomerId = None\<rparr>"

definition demo_intent :: payment_intent where
  "demo_intent = \<lparr>idempotencyKey = ''k'', corridorId = ''d'', sender = demo_party, recipient = demo_party,
     sourceAmount = \<lparr>m_asset = ''USDC'', m_amount = ''5''\<rparr>, destinationFields = None\<rparr>"

end
