(* ===== verification/Json.thy ===== *)
theory Json
  imports Prelude "HOL-Library.List_Lexorder" "HOL-Library.Char_ord" "HOL-Library.Multiset"
begin

section \<open>JSON values and the manifest hash (packages/manifest/src/index.ts)\<close>

text \<open>
  Untrusted values (HTTP bodies, manifest objects) as the JSON they are; an absent or
  \<open>undefined\<close> property is an absent entry. \<open>canonicalJson\<close> is the deterministic printer that
  \<open>hashCorridor\<close> feeds to SHA-256; the lemmas show that it does not depend on the order in
  which object keys were inserted, at any depth.
\<close>

datatype json =
    JNull | JBool bool | JInt int | JStr string | JArr "json list" | JObj "(string \<times> json) list"

definition jfield :: "(string \<times> json) list \<Rightarrow> string \<Rightarrow> json option" where
  "jfield o' k = map_of o' k"

fun hex_digit :: "nat \<Rightarrow> char" where
  "hex_digit n = (if n < 10 then digit_char n else char_of (87 + n))"

text \<open>\<open>JSON.stringify\<close> of a string: quotes, backslashes and control characters escaped.\<close>

definition escape_char :: "char \<Rightarrow> string" where
  "escape_char c =
     (let n = of_char c :: nat in
      if n = 34 then [CHR 0x5C, CHR 0x22]
      else if n = 92 then [CHR 0x5C, CHR 0x5C]
      else if n = 8 then [CHR 0x5C, CHR ''b'']
      else if n = 9 then [CHR 0x5C, CHR ''t'']
      else if n = 10 then [CHR 0x5C, CHR ''n'']
      else if n = 12 then [CHR 0x5C, CHR ''f'']
      else if n = 13 then [CHR 0x5C, CHR ''r'']
      else if n < 32 then [CHR 0x5C, CHR ''u'', CHR ''0'', CHR ''0'', hex_digit (n div 16),
                           hex_digit (n mod 16)]
      else [c])"

definition json_string :: "string \<Rightarrow> string" where
  "json_string s = CHR 0x22 # concat (map escape_char s) @ [CHR 0x22]"

definition entry_text :: "string \<times> string \<Rightarrow> string" where
  "entry_text e = json_string (fst e) @ '':'' @ snd e"

text \<open>\<open>Object.keys(obj).sort()\<close> orders by code units: the lexicographic order on strings.\<close>

fun canonicalJson :: "json \<Rightarrow> string" where
  "canonicalJson JNull = ''null''"
| "canonicalJson (JBool b) = (if b then ''true'' else ''false'')"
| "canonicalJson (JInt i) = show_int i"
| "canonicalJson (JStr s) = json_string s"
| "canonicalJson (JArr xs) = ''['' @ join '','' (map canonicalJson xs) @ '']''"
| "canonicalJson (JObj es) =
     CHR 0x7B # join '','' (map entry_text
        (sort_key fst (map (\<lambda>(k, v). (k, canonicalJson v)) es))) @ [CHR 0x7D]"

text \<open>\<open>createHash("sha256")\<close> is the argument.\<close>

definition hashJson :: "(string \<Rightarrow> string) \<Rightarrow> json \<Rightarrow> string" where
  "hashJson sha256 v = sha256 (canonicalJson v)"

subsection \<open>Key order does not matter\<close>

text \<open>Two values that differ only in the order of object entries, at any depth.\<close>

inductive same_json :: "json \<Rightarrow> json \<Rightarrow> bool" where
  same_refl: "same_json v v"
| same_arr: "list_all2 same_json xs ys \<Longrightarrow> same_json (JArr xs) (JArr ys)"
| same_obj: "list_all2 (\<lambda>e f. fst e = fst f \<and> same_json (snd e) (snd f)) es fs \<Longrightarrow>
     mset fs = mset gs \<Longrightarrow> same_json (JObj es) (JObj gs)"

text \<open>JavaScript objects have no two entries with the same key.\<close>

fun unique_keys :: "json \<Rightarrow> bool" where
  "unique_keys (JArr xs) = list_all unique_keys xs"
| "unique_keys (JObj es) = (distinct (map fst es) \<and> list_all (\<lambda>(k, v). unique_keys v) es)"
| "unique_keys v = True"

lemma sort_key_unique:
  fixes xs :: "(string \<times> 'b) list"
  assumes "mset xs = mset ys" and "distinct (map fst xs)"
  shows "sort_key fst xs = sort_key fst ys"
proof (rule properties_for_sort_key)
  show "mset (sort_key fst ys) = mset xs" using assms by simp
  have d: "distinct (map fst ys)"
    using assms by (metis mset_eq_imp_distinct_iff mset_map)
  show "filter (\<lambda>x. fst k = fst x) (sort_key fst ys) = filter (\<lambda>x. fst k = fst x) xs"
    if k: "k \<in> set (sort_key fst ys)" for k
  proof -
    have one: "filter (\<lambda>x. fst k = fst x) zs = [k]"
      if "distinct (map fst zs)" and "k \<in> set zs" for zs
      using that
    proof (induction zs)
      case (Cons z zs)
      then show ?case
        by (cases "k = z") (auto simp: filter_empty_conv image_iff dest!: bspec)
    qed simp
    have "k \<in> set xs" using k assms(1) by (metis mset_sort set_mset_mset set_sort)
    moreover have "distinct (map fst (sort_key fst ys))"
      using d by (metis mset_eq_imp_distinct_iff mset_map mset_sort)
    ultimately show ?thesis using one assms(2) k by metis
  qed
  show "sorted (map fst (sort_key fst ys))" by simp
qed

lemma keys_of_values: "map fst (map (\<lambda>(k, v). (k, g v)) es) = map fst es"
  by (induction es) auto

lemma canonical_perm:
  assumes "mset es = mset fs" and "distinct (map fst es)"
  shows "canonicalJson (JObj es) = canonicalJson (JObj fs)"
proof -
  let ?f = "\<lambda>(k, v). (k, canonicalJson v)"
  have "mset (map ?f es) = mset (map ?f fs)" by (simp only: mset_map assms(1))
  moreover have "distinct (map fst (map ?f es))"
    by (simp only: keys_of_values assms(2))
  ultimately have "sort_key fst (map ?f es) = sort_key fst (map ?f fs)"
    by (rule sort_key_unique)
  then show ?thesis by (simp only: canonicalJson.simps)
qed

lemma same_keys:
  "list_all2 (\<lambda>e f. fst e = fst f \<and> P (snd e) (snd f)) es fs \<Longrightarrow> map fst es = map fst fs"
  by (induction rule: list_all2_induct) auto

lemma canonical_same: "same_json v w \<Longrightarrow> unique_keys v \<Longrightarrow> canonicalJson v = canonicalJson w"
proof (induction rule: same_json.induct)
  case (same_refl v)
  then show ?case by simp
next
  case (same_arr xs ys)
  from same_arr.IH same_arr.prems have "map canonicalJson xs = map canonicalJson ys"
    by (simp add: list_all2_conv_all_nth list_eq_iff_nth_eq list_all_length)
  then show ?case by simp
next
  case (same_obj es fs gs)
  from same_obj.IH(1) have keys: "map fst es = map fst fs"
    by (rule same_keys)
  have "map (\<lambda>(k, v). (k, canonicalJson v)) es = map (\<lambda>(k, v). (k, canonicalJson v)) fs"
    using same_obj.IH(1) same_obj.prems
    by (induction rule: list_all2_induct) auto
  then have "canonicalJson (JObj es) = canonicalJson (JObj fs)" by simp
  also have "\<dots> = canonicalJson (JObj gs)"
    using same_obj.hyps same_obj.prems keys by (intro canonical_perm) auto
  finally show ?case .
qed

subsection \<open>Properties\<close>

text \<open>
  The manifest hash does not depend on the order in which object keys were inserted, at any
  depth.
\<close>

theorem hash_order_independent:
  assumes "same_json v w" and "unique_keys v"
  shows "hashJson sha256 v = hashJson sha256 w"
  using canonical_same [OF assms] by (simp add: hashJson_def)

theorem hash_order_independent_witness:
  "hashJson (\<lambda>s. s) (JArr [JObj [(''b'', JInt 1), (''a'', JNull)]])
     = hashJson (\<lambda>s. s) (JArr [JObj [(''a'', JNull), (''b'', JInt 1)]])"
  by (rule hash_order_independent, rule same_arr, simp,
      rule same_obj [of _ "[(''b'', JInt 1), (''a'', JNull)]"]) (simp_all add: same_json.same_refl)

end
