(* ===== verification/Adapter.thy ===== *)
theory Adapter
  imports Sample Json
begin

section \<open>Values read from anchors (packages/adapter-kit/src/index.ts)\<close>

text \<open>
  The adapter kit's readers of untrusted data: the \<open>refunds\<close> object of a transaction
  record, the consistency check of a SEP-38 quote, the SEP-38 quote response and the
  operator's external quote. A call that leaves the process is a port: it takes the state
  \<open>'e\<close> of the outside world and returns its answer and the new state.
\<close>

type_synonym ('e, 'a) port = "'e \<Rightarrow> 'a \<times> 'e"

subsection \<open>Refund reports\<close>

definition parseAmt :: "json option \<Rightarrow> string option" where
  "parseAmt v =
     (case v of Some (JStr s) \<Rightarrow> if isValidAmount (js_trim s) then Some (js_trim s) else None
      | _ \<Rightarrow> None)"

definition parsePayment :: "string \<Rightarrow> json \<Rightarrow> refund_payment option" where
  "parsePayment asset entry =
     (case entry of
        JObj p \<Rightarrow>
          (case (jfield p ''id'', parseAmt (jfield p ''amount'')) of
             (Some (JStr i), Some a) \<Rightarrow>
               if i = [] then None
               else Some \<lparr>rp_id = i,
                 rp_idType = (case jfield p ''id_type'' of
                                Some (JStr t) \<Rightarrow> if t = [] then None else Some t | _ \<Rightarrow> None),
                 rp_amount = \<lparr>m_asset = asset, m_amount = a\<rparr>,
                 rp_fee = \<lparr>m_asset = asset,
                   m_amount = (case parseAmt (jfield p ''fee'') of Some f \<Rightarrow> f | None \<Rightarrow> ''0'')\<rparr>\<rparr>
           | _ \<Rightarrow> None)
      | _ \<Rightarrow> None)"

definition refund_completeness :: "string \<Rightarrow> string option \<Rightarrow> completeness" where
  "refund_completeness amountRefunded settledAmount =
     (case (case settledAmount of None \<Rightarrow> None | Some s \<Rightarrow> parseAmt (Some (JStr s))) of
        None \<Rightarrow> Unknown
      | Some s \<Rightarrow>
          (case compareAmounts amountRefunded s STROOP_SCALE of
             Inl _ \<Rightarrow> Unknown
           | Inr c \<Rightarrow> if c < 0 then Partial else Full))"

definition parseRefunds :: "json option \<Rightarrow> string \<Rightarrow> string option \<Rightarrow> refund_info option" where
  "parseRefunds refunds asset settledAmount =
     (case refunds of
        Some (JObj raw) \<Rightarrow>
          (case parseAmt (jfield raw ''amount_refunded'') of
             None \<Rightarrow> None
           | Some amountRefunded \<Rightarrow>
               let amountFee = (case parseAmt (jfield raw ''amount_fee'') of
                                  Some f \<Rightarrow> f | None \<Rightarrow> ''0'');
                   payments = (case jfield raw ''payments'' of
                                 Some (JArr es) \<Rightarrow> List.map_filter (parsePayment asset) es
                               | _ \<Rightarrow> [])
               in Some \<lparr>ri_amountRefunded = \<lparr>m_asset = asset, m_amount = amountRefunded\<rparr>,
                        ri_amountFee = \<lparr>m_asset = asset, m_amount = amountFee\<rparr>,
                        ri_payments = payments,
                        ri_completeness = refund_completeness amountRefunded settledAmount\<rparr>)
      | _ \<Rightarrow> None)"

subsection \<open>SEP-38 quotes\<close>

definition sep38SellAsset :: "corridor \<Rightarrow> string" where
  "sep38SellAsset c =
     (let code = bridge_asset (c_settlement c) in
      if to_upper code = ''XLM'' then ''stellar:native''
      else ''stellar:'' @ code @ '':'' @ asset_issuer (c_settlement c))"

definition QUOTE_TOLERANCE :: string where
  "QUOTE_TOLERANCE = ''0.001''"

definition strip_minus :: "string \<Rightarrow> string" where
  "strip_minus s = (if starts_with ''-'' s then drop 1 s else s)"

definition totalPriceProblem :: "string \<Rightarrow> string option \<Rightarrow> string \<Rightarrow> string \<Rightarrow> string option" where
  "totalPriceProblem quoteId totalPrice buyAmount sellAmount =
     (if \<not> truthy totalPrice \<or> \<not> isValidAmount (the totalPrice) \<or> \<not> isValidAmount buyAmount then None
      else
        case applyPrice buyAmount (the totalPrice) STROOP_SCALE of
          Inl _ \<Rightarrow> None
        | Inr impliedSell \<Rightarrow>
            (case (subAmounts impliedSell sellAmount STROOP_SCALE,
                   applyPrice sellAmount QUOTE_TOLERANCE STROOP_SCALE) of
               (Inr drift, Inr tolerance) \<Rightarrow>
                 (case compareAmounts (strip_minus drift) tolerance STROOP_SCALE of
                    Inl _ \<Rightarrow> None
                  | Inr within \<Rightarrow>
                      if within \<le> 0 then None
                      else Some (''quote '' @ quoteId @ '' is internally inconsistent '' @ dash @
                        '' total_price '' @ the totalPrice @ '' '' @ [CHR 0xD7] @ '' buy_amount '' @
                        buyAmount @ '' = '' @ impliedSell @ '', but sell_amount is '' @ sellAmount))
             | _ \<Rightarrow> None))"

text \<open>The body of a SEP-38 quote response, with the types the code asserts for it.\<close>

record sep38_body =
  b_id :: string
  b_price :: string
  b_total_price :: "string option"
  b_expires_at :: string
  b_sell_amount :: "string option"
  b_buy_amount :: string
  b_fee :: "(string \<times> string) option"  \<comment> \<open>total, asset\<close>

datatype http_answer = HttpThrows | HttpStatus int | HttpBody sep38_body

text \<open>
  \<open>Sep38QuoteProvider.quote\<close> once the server and the token are known: what it makes of the
  answer to \<open>POST /quote\<close>.
\<close>

definition readSep38Quote ::
  "(string \<Rightarrow> ms) \<Rightarrow> string \<Rightarrow> payment_intent \<Rightarrow> corridor \<Rightarrow> http_answer \<Rightarrow> quote_t outcome" where
  "readSep38Quote date_parse name intent c answer =
     (case answer of
        HttpThrows \<Rightarrow>
          fail_full ANCHOR_UNAVAILABLE (name @ '': quote request failed'') True CauseOther
      | HttpStatus st \<Rightarrow>
          fail_full QUOTE_UNAVAILABLE (name @ '': quote HTTP '' @ show_int st) (st \<ge> 500) NoCause
      | HttpBody j \<Rightarrow>
          let sellAsset = sep38SellAsset c;
              sellAmount = (case b_sell_amount j of Some a \<Rightarrow> a
                            | None \<Rightarrow> m_amount (sourceAmount intent)) in
          if \<not> isValidAmount sellAmount then
            fail QUOTE_UNAVAILABLE
              (name @ '': quote sell_amount '' @ [CHR 0x22] @ sellAmount @ [CHR 0x22] @ '' is malformed'')
          else
            case totalPriceProblem (b_id j) (b_total_price j) (b_buy_amount j) sellAmount of
              Some inconsistent \<Rightarrow> fail QUOTE_UNAVAILABLE (name @ '': '' @ inconsistent)
            | None \<Rightarrow>
                (let mk = (\<lambda>fee. Inr \<lparr>q_id = b_id j, q_price = b_price j,
                        q_expiresAt = date_parse (b_expires_at j),
                        q_sourceAmount = \<lparr>m_asset = m_asset (sourceAmount intent),
                                          m_amount = sellAmount\<rparr>,
                        q_destAmount = \<lparr>m_asset = d_asset (c_dest c), m_amount = b_buy_amount j\<rparr>,
                        q_fee = fee, q_firm = True\<rparr>)
                 in case b_fee j of
                      None \<Rightarrow> mk None
                    | Some (fee_total, asset) \<Rightarrow>
                        if asset \<noteq> sellAsset then
                          fail QUOTE_UNAVAILABLE
                            (name @ '': quote fee asset '' @ [CHR 0x22] @ asset @ [CHR 0x22] @
                             '' does not match sell asset '' @ [CHR 0x22] @ sellAsset @ [CHR 0x22])
                        else mk (if isValidAmount fee_total then
                                   Some \<lparr>m_asset = m_asset (sourceAmount intent), m_amount = fee_total\<rparr>
                                 else None)))"

subsection \<open>External quotes\<close>

record external_quote =
  x_price :: string
  x_destAmount :: "money option"
  x_expiresAt :: "ms option"

text \<open>
  \<open>ExternalQuoteProvider.quote\<close>. The operator's pricing function may throw (\<open>Inl\<close> the
  message) or return an outcome. \<open>Number(price) <= 0\<close> is decided on the scaled value: once
  \<open>derived.ok\<close>, the price has at most seven decimals, so it is zero as a double exactly
  when it is zero.
\<close>

definition price_is_positive :: "string \<Rightarrow> bool" where
  "price_is_positive price =
     (unsigned_re price \<and> (case toScaled price STROOP_SCALE of Inl _ \<Rightarrow> False | Inr v \<Rightarrow> \<not> v \<le> 0))"

definition externalQuote ::
  "(payment_intent \<Rightarrow> corridor \<Rightarrow> ('e, string + external_quote outcome) port) \<Rightarrow> ('e, int) port \<Rightarrow> nat
    \<Rightarrow> payment_intent \<Rightarrow> corridor \<Rightarrow> ('e, quote_t outcome) port" where
  "externalQuote fn now counter intent c s0 =
     (case fn intent c s0 of
        (Inl msg, s1) \<Rightarrow>
          (fail_retry QUOTE_UNAVAILABLE (''external quote provider threw: '' @ msg), s1)
      | (Inr (Inl e), s1) \<Rightarrow> (Inl e, s1)
      | (Inr (Inr x), s1) \<Rightarrow>
          (case applyPrice (m_amount (sourceAmount intent)) (x_price x) STROOP_SCALE of
             Inl _ \<Rightarrow>
               (fail QUOTE_UNAVAILABLE (''external quote price '' @ [CHR 0x22] @ x_price x @
                  [CHR 0x22] @ '' is not a positive decimal''), s1)
           | Inr derived \<Rightarrow>
               if \<not> price_is_positive (x_price x) then
                 (fail QUOTE_UNAVAILABLE (''external quote price '' @ [CHR 0x22] @ x_price x @
                    [CHR 0x22] @ '' is not a positive decimal''), s1)
               else
                 let (t, s2) = now s1;
                     (expires, s3) =
                       (case x_expiresAt x of
                          Some e \<Rightarrow> (e, s2)
                        | None \<Rightarrow> let (t', s') = now s2
                                   in (Ms (t' + quote_ttl_seconds (c_fx c) * 1000), s'))
                 in (Inr \<lparr>q_id = ''ext_'' @ show_int t @ ''_'' @ show_nat (Suc counter),
                          q_price = x_price x, q_expiresAt = expires,
                          q_sourceAmount = sourceAmount intent,
                          q_destAmount = (case x_destAmount x of Some d \<Rightarrow> d
                             | None \<Rightarrow> \<lparr>m_asset = d_asset (c_dest c), m_amount = derived\<rparr>),
                          q_fee = None, q_firm = False\<rparr>, s3)))"

subsection \<open>What the readers guarantee\<close>

lemma parseAmt_valid: "parseAmt v = Some a \<Longrightarrow> isValidAmount a"
  by (auto simp: parseAmt_def split: option.splits json.splits if_splits)

lemma parseRefunds_Some:
  assumes "parseRefunds r asset settled = Some info"
  shows "isValidAmount (m_amount (ri_amountRefunded info))"
    and "ri_completeness info = refund_completeness (m_amount (ri_amountRefunded info)) settled"
    and "\<exists>raw. r = Some (JObj raw) \<and>
           parseAmt (jfield raw ''amount_refunded'') = Some (m_amount (ri_amountRefunded info))"
  using assms
  by (auto simp: parseRefunds_def Let_def dest: parseAmt_valid split: option.splits json.splits)

lemma refund_Full_iff:
  "refund_completeness a (Some s) = Full \<longleftrightarrow>
     (\<exists>x y. isValidAmount (js_trim s) \<and> toScaled a 7 = Inr x \<and> toScaled (js_trim s) 7 = Inr y \<and> y \<le> x)"
  by (auto simp: refund_completeness_def parseAmt_def compareAmounts_def STROOP_SCALE_def
      split: sum.splits if_splits)

lemma refund_Partial_iff:
  "refund_completeness a (Some s) = Partial \<longleftrightarrow>
     (\<exists>x y. isValidAmount (js_trim s) \<and> toScaled a 7 = Inr x \<and> toScaled (js_trim s) 7 = Inr y \<and> x < y)"
  by (auto simp: refund_completeness_def parseAmt_def compareAmounts_def STROOP_SCALE_def
      split: sum.splits if_splits)

lemma readSep38Quote_Inr:
  "readSep38Quote dp nm i c a = Inr q \<Longrightarrow>
     (\<exists>j. a = HttpBody j \<and> q_expiresAt q = dp (b_expires_at j)) \<and> q_firm q \<and>
     isValidAmount (m_amount (q_sourceAmount q)) \<and>
     m_asset (q_sourceAmount q) = m_asset (sourceAmount i)"
  by (auto simp: readSep38Quote_def fail_full_def Let_def
      split: http_answer.splits if_splits option.splits prod.splits)

lemma externalQuote_Inr:
  assumes "externalQuote fn now n i c s = (Inr q, s')"
  shows "\<not> q_firm q" and "price_is_positive (q_price q)"
    and "q_sourceAmount q = sourceAmount i"
  using assms
  by (auto simp: externalQuote_def fail_full_def Let_def
      split: prod.splits sum.splits option.splits if_splits)

subsection \<open>Properties\<close>

text \<open>
  A refund report is full exactly when both amounts are well formed and the refunded amount
  is at least the settled one, compared as decimals; a malformed report is never full.
\<close>

theorem refund_full_iff:
  "refund_completeness a (Some s) = Full \<longleftrightarrow>
     (\<exists>x y. isValidAmount (js_trim s) \<and> toScaled a 7 = Inr x \<and> toScaled (js_trim s) 7 = Inr y \<and> y \<le> x)"
  by (rule refund_Full_iff)

text \<open>
  An accepted SEP-38 answer yields a firm quote in the intent's asset whose sell amount is a
  well-formed decimal and whose expiry is what the date parser makes of the anchor's text.
\<close>

theorem sep38_quote_wellformed:
  assumes "readSep38Quote dp nm i c a = Inr q"
  shows "q_firm q \<and> isValidAmount (m_amount (q_sourceAmount q)) \<and>
     m_asset (q_sourceAmount q) = m_asset (sourceAmount i) \<and>
     (\<exists>j. a = HttpBody j \<and> q_expiresAt q = dp (b_expires_at j))"
  using readSep38Quote_Inr [OF assms] by blast

definition sample_sep38 :: sep38_body where
  "sample_sep38 =
     \<lparr>b_id = ''q'', b_price = ''1'', b_total_price = Some ''1.1'', b_expires_at = ''d'',
      b_sell_amount = Some ''5.5'', b_buy_amount = ''5'', b_fee = None\<rparr>"

theorem sep38_quote_wellformed_witness:
  "\<exists>q. readSep38Quote (\<lambda>_. Ms 9) ''p'' demo_intent demo_corridor (HttpBody sample_sep38) = Inr q \<and>
     q_firm q \<and> isValidAmount (m_amount (q_sourceAmount q)) \<and>
     m_asset (q_sourceAmount q) = m_asset (sourceAmount demo_intent) \<and>
     (\<exists>j. HttpBody sample_sep38 = HttpBody j \<and> q_expiresAt q = Ms 9)"
proof -
  obtain q where q: "readSep38Quote (\<lambda>_. Ms 9) ''p'' demo_intent demo_corridor (HttpBody sample_sep38) = Inr q"
    by (rule that) code_simp
  then show ?thesis using sep38_quote_wellformed [OF q] by blast
qed

text \<open>
  An external quote is never firm, prices the intent's own source amount, and its price is a
  positive decimal.
\<close>

theorem external_quote_indicative:
  assumes "externalQuote fn now n i c s = (Inr q, s')"
  shows "\<not> q_firm q \<and> price_is_positive (q_price q) \<and> q_sourceAmount q = sourceAmount i"
  using externalQuote_Inr [OF assms] by blast

theorem external_quote_indicative_witness:
  "\<exists>q. externalQuote (\<lambda>_ _ e. (Inr (Inr \<lparr>x_price = ''2'', x_destAmount = None, x_expiresAt = None\<rparr>), e))
      (\<lambda>e. (e, e + 1)) 0 demo_intent demo_corridor (7::int) = (Inr q, 9) \<and>
     \<not> q_firm q \<and> price_is_positive (q_price q) \<and> q_sourceAmount q = sourceAmount demo_intent"
proof -
  obtain q where q: "externalQuote (\<lambda>_ _ e. (Inr (Inr \<lparr>x_price = ''2'', x_destAmount = None, x_expiresAt = None\<rparr>), e))
      (\<lambda>e. (e, e + 1)) 0 demo_intent demo_corridor (7::int) = (Inr q, 9)"
    by (rule that) code_simp
  then show ?thesis using external_quote_indicative [OF q] by blast
qed

end
