(* ===== verification/Gate.thy ===== *)
theory Gate
  imports Adapter
begin

section \<open>The pre-settle gate (packages/engine/src/gate.ts, quoteWindow.ts, ports.ts)\<close>

text \<open>
  The settlement request a payment is settled with, the context a gate check sees, the
  composite gate with its fail-closed timeout, and the quote-window check. A check is a
  port: the outside world decides whether it returns, throws or never answers.
\<close>

subsection \<open>Settlement requests\<close>

record settlement_request =
  sr_to :: string
  sr_memo :: "string option"
  sr_memoType :: "memo_type option"
  sr_amount :: money
  sr_corridor :: corridor
  sr_validUntil :: "ms option"

definition buildSettlementRequest :: "open_transaction \<Rightarrow> quote_t \<Rightarrow> corridor \<Rightarrow> settlement_request" where
  "buildSettlementRequest op q c =
     (let legacy = toLegacy op in
      \<lparr>sr_to = (case l_depositAddress legacy of Some a \<Rightarrow> a | None \<Rightarrow> ''''),
       sr_memo = l_memo legacy, sr_memoType = l_memoType legacy,
       sr_amount = \<lparr>m_asset = bridge_asset (c_settlement c), m_amount = m_amount (q_sourceAmount q)\<rparr>,
       sr_corridor = c,
       sr_validUntil = (if q_firm q then Some (q_expiresAt q) else None)\<rparr>)"

definition needsPathPayment :: "corridor \<Rightarrow> bool" where
  "needsPathPayment c =
     (let s = c_settlement c in
      case receive_asset s of
        None \<Rightarrow> False
      | Some recv \<Rightarrow>
          let bridgeIsXlm = to_upper (bridge_asset s) = ''XLM'';
              receiveIsXlm = to_upper recv = ''XLM''
          in if bridgeIsXlm \<or> receiveIsXlm then bridgeIsXlm \<noteq> receiveIsXlm
             else recv \<noteq> bridge_asset s \<or> receive_asset_issuer s \<noteq> Some (asset_issuer s))"

subsection \<open>Checks and the composite gate\<close>

record gate_ctx =
  g_intent :: payment_intent
  g_corridor :: corridor
  g_quote :: quote_t
  g_opened :: open_transaction
  g_now :: int
  g_attempt :: nat

text \<open>
  What the world does with a check that was started: it returns or throws after some
  milliseconds, or never settles. An answer that takes the whole timeout is late.
\<close>

datatype check_answer = Returns check_result int | Throws string int | NeverSettles

record 'e gate_check =
  gc_name :: string
  gc_run :: "gate_ctx \<Rightarrow> ('e, check_answer) port"

definition DEFAULT_TIMEOUT_MS :: int where
  "DEFAULT_TIMEOUT_MS = 5000"

definition timeout_message :: "string \<Rightarrow> int \<Rightarrow> string" where
  "timeout_message name timeout =
     ''gate check '' @ [CHR 0x22] @ name @ [CHR 0x22] @ '' exceeded '' @ show_int timeout @ ''ms''"

definition failing_check :: "string \<Rightarrow> string \<Rightarrow> int \<Rightarrow> check_result" where
  "failing_check name detail d =
     \<lparr>cr_name = name, cr_passed = False, cr_code = Some SETTLEMENT_FAILED, cr_detail = detail,
      cr_durationMs = d\<rparr>"

text \<open>\<open>runOne\<close> around \<open>withTimeout\<close>.\<close>

definition runOne :: "int \<Rightarrow> string \<Rightarrow> check_answer \<Rightarrow> check_result" where
  "runOne timeout name answer =
     (case answer of
        Returns r elapsed \<Rightarrow>
          if elapsed < timeout then r
          else failing_check name (timeout_message name timeout) timeout
      | Throws msg elapsed \<Rightarrow>
          if elapsed < timeout then failing_check name msg elapsed
          else failing_check name (timeout_message name timeout) timeout
      | NeverSettles \<Rightarrow> failing_check name (timeout_message name timeout) timeout)"

fun run_checks :: "int \<Rightarrow> 'e gate_check list \<Rightarrow> gate_ctx \<Rightarrow> ('e, check_result list) port" where
  "run_checks timeout [] ctx e = ([], e)"
| "run_checks timeout (c # cs) ctx e =
     (let (a, e1) = gc_run c ctx e;
          (rs, e2) = run_checks timeout cs ctx e1
      in (runOne timeout (gc_name c) a # rs, e2))"

record gate_result =
  gr_passed :: bool
  gr_results :: "check_result list"

definition compositeGate ::
  "'e gate_check list \<Rightarrow> int option \<Rightarrow> gate_ctx \<Rightarrow> ('e, gate_result) port" where
  "compositeGate checks timeoutMs ctx e =
     (let (rs, e1) = run_checks (case timeoutMs of Some t \<Rightarrow> t | None \<Rightarrow> DEFAULT_TIMEOUT_MS) checks ctx e
      in (\<lparr>gr_passed = list_all cr_passed rs, gr_results = rs\<rparr>, e1))"

record 'e sep31_gate_options =
  so_adapter :: bool       \<comment> \<open>whether an adapter was supplied\<close>
  so_horizon :: bool
  so_registry :: bool
  so_checks :: "'e gate_check list option"
  so_timeoutMs :: "int option"

definition defaultSep31Gate :: "'e sep31_gate_options \<Rightarrow> gate_ctx \<Rightarrow> ('e, gate_result) port" where
  "defaultSep31Gate opts =
     compositeGate (case so_checks opts of Some cs \<Rightarrow> cs | None \<Rightarrow> []) (so_timeoutMs opts)"

subsection \<open>The quote window\<close>

definition check_done :: "string \<Rightarrow> bool \<Rightarrow> error_code option \<Rightarrow> string \<Rightarrow> int \<Rightarrow> check_result" where
  "check_done name passed code detail d =
     \<lparr>cr_name = name, cr_passed = passed, cr_code = code, cr_detail = detail, cr_durationMs = d\<rparr>"

text \<open>
  \<open>d\<close> is the measured duration. With a \<open>NaN\<close> expiry the remaining time is \<open>NaN\<close>, every
  comparison is false and the check passes, showing \<open>NaNs left\<close>.
\<close>

definition quoteWindowCheck :: "int \<Rightarrow> gate_ctx \<Rightarrow> check_result" where
  "quoteWindowCheck d ctx =
     (let nm = ''quote.window'';
          m = min_quote_remaining_seconds (c_fx (g_corridor ctx));
          within = (\<lambda>left. check_done nm True None
                       (''firm quote has '' @ left @ ''s left, within the '' @ show_int m @ ''s margin'') d)
      in if \<not> q_firm (g_quote ctx) then check_done nm True None ''indicative quote'' d
         else
           case q_expiresAt (g_quote ctx) of
             NaN \<Rightarrow> within ''NaN''
           | Ms t \<Rightarrow>
               let marginMs = m * 1000; remainingMs = t - g_now ctx in
               if remainingMs \<le> 0 then
                 check_done nm False (Some PRESETTLE_QUOTE_WINDOW)
                   (''firm quote expired '' @ show_int (- (remainingMs div 1000)) @ ''s ago'') d
               else if remainingMs < marginMs then
                 check_done nm False (Some PRESETTLE_QUOTE_WINDOW)
                   (''firm quote has '' @ show_int (remainingMs div 1000) @ ''s left, below the '' @
                    show_int m @ ''s settle+confirm margin'') d
               else within (show_int (remainingMs div 1000)))"

subsection \<open>What the gate guarantees\<close>

lemma run_checks_length: "length (fst (run_checks t cs ctx e)) = length cs"
  by (induction cs arbitrary: e) (simp_all add: case_prod_beta Let_def)

text \<open>The answers the checks gave, in order.\<close>

fun answers :: "'e gate_check list \<Rightarrow> gate_ctx \<Rightarrow> 'e \<Rightarrow> check_answer list" where
  "answers [] ctx e = []"
| "answers (c # cs) ctx e = (let (a, e1) = gc_run c ctx e in a # answers cs ctx e1)"

lemma run_checks_answers:
  "fst (run_checks t cs ctx e) = map2 (\<lambda>c a. runOne t (gc_name c) a) cs (answers cs ctx e)"
  by (induction cs arbitrary: e) (simp_all add: case_prod_beta Let_def)

lemma answers_length [simp]: "length (answers cs ctx e) = length cs"
  by (induction cs arbitrary: e) (simp_all add: Let_def split: prod.splits)

definition answers_yes :: "int \<Rightarrow> check_answer \<Rightarrow> bool" where
  "answers_yes t a = (case a of Returns r d \<Rightarrow> d < t \<and> cr_passed r | _ \<Rightarrow> False)"

lemma answers_yes_iff: "answers_yes t a \<longleftrightarrow> (\<exists>r d. a = Returns r d \<and> d < t \<and> cr_passed r)"
  by (cases a) (simp_all add: answers_yes_def)

lemma runOne_passed [simp]: "cr_passed (runOne t nm a) = answers_yes t a"
  by (cases a) (auto simp: runOne_def answers_yes_def failing_check_def)

lemma compositeGate_passed:
  "gr_passed (fst (compositeGate cs (Some t) ctx e)) \<longleftrightarrow> list_all (answers_yes t) (answers cs ctx e)"
proof -
  have "list_all cr_passed (map2 (\<lambda>c a. runOne t (gc_name c) a) cs as) \<longleftrightarrow> list_all (answers_yes t) as"
    if "length cs = length as" for as
    using that by (induction cs as rule: list_induct2) simp_all
  then show ?thesis
    by (simp add: compositeGate_def run_checks_answers [symmetric] split: prod.splits)
      (metis answers_length fst_conv run_checks_answers)
qed

lemma compositeGate_results:
  "length (gr_results (fst (compositeGate cs t ctx e))) = length cs"
  by (simp add: compositeGate_def split: prod.splits)
    (metis fst_conv run_checks_length)

lemma compositeGate_names_failure:
  "gr_passed r = False \<Longrightarrow> r = fst (compositeGate cs t ctx e) \<Longrightarrow>
   \<exists>c. find (\<lambda>c. \<not> cr_passed c) (gr_results r) = Some c"
  by (auto simp: compositeGate_def list_all_iff split: prod.splits)
    (metis find_None_iff option.exhaust)

lemma quoteWindow_passed_iff:
  "cr_passed (quoteWindowCheck d ctx) \<longleftrightarrow>
     \<not> q_firm (g_quote ctx) \<or> q_expiresAt (g_quote ctx) = NaN \<or>
     (\<exists>t. q_expiresAt (g_quote ctx) = Ms t \<and> g_now ctx < t \<and>
        min_quote_remaining_seconds (c_fx (g_corridor ctx)) * 1000 \<le> t - g_now ctx)"
  by (auto simp: quoteWindowCheck_def check_done_def Let_def split: ms.splits)

subsection \<open>Properties\<close>

definition sample_gate_ctx :: gate_ctx where
  "sample_gate_ctx =
     \<lparr>g_intent = demo_intent, g_corridor = demo_corridor,
      g_quote = \<lparr>q_id = ''q'', q_price = ''1'', q_expiresAt = Ms 100000,
                  q_sourceAmount = \<lparr>m_asset = ''USDC'', m_amount = ''5''\<rparr>,
                  q_destAmount = \<lparr>m_asset = ''BRL'', m_amount = ''5''\<rparr>, q_fee = None, q_firm = True\<rparr>,
      g_opened = \<lparr>o_transactionId = ''t'', o_instructions = None, o_amountIn = None,
                  o_depositAddress = None, o_memo = None, o_memoType = None\<rparr>,
      g_now = 70000, g_attempt = 0\<rparr>"

text \<open>
  C37: the composite gate passes exactly when every check returned a passing result strictly
  within the timeout: a check that throws, answers late or never answers fails the gate.
\<close>

theorem gate_fails_closed:
  "gr_passed (fst (compositeGate cs (Some t) ctx e)) \<longleftrightarrow>
     (\<forall>a \<in> set (answers cs ctx e). \<exists>r d. a = Returns r d \<and> d < t \<and> cr_passed r)"
  by (simp add: compositeGate_passed list_all_iff answers_yes_iff)

theorem gate_fails_closed_witness:
  "\<not> gr_passed (fst (compositeGate [\<lparr>gc_name = ''c'', gc_run = (\<lambda>_ e. (NeverSettles, e))\<rparr>] (Some 5)
       sample_gate_ctx (0::int)))"
  unfolding gate_fails_closed by simp

text \<open>
  The quote-window check passes exactly when the quote is indicative, its expiry is not a
  date, or the time left is positive and at least the corridor's margin.
\<close>

theorem quote_window_iff:
  "cr_passed (quoteWindowCheck d ctx) \<longleftrightarrow>
     \<not> q_firm (g_quote ctx) \<or> q_expiresAt (g_quote ctx) = NaN \<or>
     (\<exists>t. q_expiresAt (g_quote ctx) = Ms t \<and> g_now ctx < t \<and>
        min_quote_remaining_seconds (c_fx (g_corridor ctx)) * 1000 \<le> t - g_now ctx)"
  by (rule quoteWindow_passed_iff)

theorem quote_window_iff_witness:
  "cr_passed (quoteWindowCheck 0 sample_gate_ctx)"
  unfolding quote_window_iff by (simp add: sample_gate_ctx_def demo_corridor_def)

end
