(* ===== verification/Ports.thy ===== *)
theory Ports
  imports Idempotency Breaker Gate
begin

section \<open>The engine's ports and its world (packages/engine/src/ports.ts, observability.ts)\<close>

text \<open>
  What \<open>execute\<close> is given (\<open>EngineDeps\<close>, \<open>ExecuteOptions\<close>, the adapters and the route)
  and the world it acts on: the outside world \<open>'e\<close> behind the ports, the idempotency store,
  the breaker rows, the run object of the session with its trail, and the events in order.
  Every write to a store and every call that can move money is an event, so that the state
  of the stores at any moment of a session, and hence after a crash at any moment, can be
  read off a prefix of the events. Log lines are not modelled.
\<close>

subsection \<open>Adapters and routes\<close>

datatype quote_cap = CapSep38Firm | CapSep38Indicative | CapNative | CapNoQuotes

record capabilities =
  cap_quotes :: "quote_cap list"
  cap_kyc :: compliance_method
  cap_settlement :: "instructions_kind list"

type_synonym 'e quote_provider = "payment_intent \<Rightarrow> corridor \<Rightarrow> ('e, quote_t outcome) port"

record 'e adapter =
  a_name :: string
  a_capabilities :: capabilities
  a_requestQuote :: "'e quote_provider"
  a_ensureCompliance :: "payment_intent \<Rightarrow> corridor \<Rightarrow> ('e, kyc_result outcome) port"
  a_openTransaction :: "payment_intent \<Rightarrow> quote_t \<Rightarrow> corridor \<Rightarrow> ('e, open_transaction outcome) port"
  a_getTransaction :: "string \<Rightarrow> ('e, transaction_status outcome) port"
  a_confirmSettlement :: "(string \<Rightarrow> ('e, settlement_ref outcome) port) option"

text \<open>A sending adapter: \<open>openDeposit\<close> answers with the deposit's transaction id.\<close>

record 'e source_adapter =
  sa_openDeposit :: "payment_intent \<Rightarrow> corridor \<Rightarrow> ('e, string outcome) port"
  sa_getDeposit :: "string \<Rightarrow> ('e, transaction_status outcome) port"

datatype route_trust = Attested | ManifestTrust

record 'e route =
  rt_receiving :: "'e adapter"
  rt_sending :: "'e source_adapter option"
  rt_trust :: route_trust

subsection \<open>Settlement ports\<close>

record refund_request =
  rq_original :: settlement_ref
  rq_amount :: money
  rq_reason :: string

record 'e submitter =
  sb_findExisting :: "(settlement_request \<Rightarrow> ('e, settlement_ref option outcome) port) option"
  sb_submit :: "settlement_request \<Rightarrow> ('e, settlement_ref outcome) port"
  sb_refund :: "refund_request \<Rightarrow> ('e, settlement_ref outcome) port"

record 'e strategy_ctx =
  sc_opened :: open_transaction
  sc_quote :: quote_t
  sc_corridor :: corridor
  sc_adapter :: "'e adapter option"

record 'e strategy =
  sg_kind :: instructions_kind
  sg_matches :: "('e strategy_ctx \<Rightarrow> bool) option"
  sg_settle :: "'e strategy_ctx \<Rightarrow> ('e, settlement_ref outcome) port"

definition stellarPaymentStrategy :: "'e submitter \<Rightarrow> 'e strategy" where
  "stellarPaymentStrategy sub =
     \<lparr>sg_kind = StellarPayment,
      sg_matches = Some (\<lambda>ctx. \<not> needsPathPayment (sc_corridor ctx)),
      sg_settle = (\<lambda>ctx. sb_submit sub
        (buildSettlementRequest (sc_opened ctx) (sc_quote ctx) (sc_corridor ctx)))\<rparr>"

definition in_quotes :: "string \<Rightarrow> string" where
  "in_quotes s = [CHR 0x22] @ s @ [CHR 0x22]"

text \<open>\<open>host_now\<close> is \<open>Date.now()\<close>, which this strategy reads directly.\<close>

definition adapterSettled_settle ::
  "('e, int) port \<Rightarrow> 'e adapter option \<Rightarrow> 'e strategy_ctx \<Rightarrow> ('e, settlement_ref outcome) port" where
  "adapterSettled_settle host_now own ctx e =
     (case (case own of Some a \<Rightarrow> Some a | None \<Rightarrow> sc_adapter ctx) of
        None \<Rightarrow> (fail SETTLEMENT_FAILED ''no AnchorAdapter available for adapter_settled strategy'', e)
      | Some a \<Rightarrow>
          (case a_confirmSettlement a of
             Some confirm \<Rightarrow> confirm (o_transactionId (sc_opened ctx)) e
           | None \<Rightarrow>
               (case o_instructions (sc_opened ctx) of
                  Some (IAdapterSettled (Some ref)) \<Rightarrow>
                    if ref \<noteq> [] then
                      let (t, e1) = host_now e in (Inr (AdapterRef ref t), e1)
                    else (fail SETTLEMENT_FAILED (''adapter '' @ in_quotes (a_name a) @
                            '' does not implement confirmSettlement''), e)
                | _ \<Rightarrow> (fail SETTLEMENT_FAILED (''adapter '' @ in_quotes (a_name a) @
                           '' does not implement confirmSettlement''), e))))"

definition adapterSettledStrategy :: "('e, int) port \<Rightarrow> 'e adapter option \<Rightarrow> 'e strategy" where
  "adapterSettledStrategy host_now own =
     \<lparr>sg_kind = AdapterSettled, sg_matches = None, sg_settle = adapterSettled_settle host_now own\<rparr>"

definition defaultStrategies :: "('e, int) port \<Rightarrow> 'e submitter \<Rightarrow> 'e adapter option \<Rightarrow> 'e strategy list" where
  "defaultStrategies host_now sub a =
     [stellarPaymentStrategy sub, adapterSettledStrategy host_now a]"

definition unimplementedSubmitter :: "'e submitter" where
  "unimplementedSubmitter =
     \<lparr>sb_findExisting = None,
      sb_submit = (\<lambda>_ e. (fail SETTLEMENT_FAILED ''settlement not wired: implement SettlementSubmitter with @stellar/stellar-sdk (native payment to the anchor deposit address)'', e)),
      sb_refund = (\<lambda>_ e. (fail REFUND_UNSUPPORTED ''refund not wired: implement SettlementSubmitter.refund'', e))\<rparr>"

subsection \<open>Wake signals\<close>

text \<open>
  The signal of one transaction: whether a wake is pending, consuming it, and sleeping
  until the delay is over or a wake arrives.
\<close>

record 'e wake_signal =
  wk_aborted :: "('e, bool) port"
  wk_reset :: "'e \<Rightarrow> 'e"
  wk_sleep :: "int \<Rightarrow> 'e \<Rightarrow> 'e"

text \<open>\<open>InMemoryWaker\<close>: the pending wakes and the listeners per transaction id.\<close>

record waker =
  wa_aborted :: "string list"
  wa_listeners :: "(string \<times> nat list) list"

definition waker_aborted :: "string \<Rightarrow> waker \<Rightarrow> bool" where
  "waker_aborted i w = List.member (wa_aborted w) i"

definition waker_wake :: "string \<Rightarrow> waker \<Rightarrow> nat list \<times> waker" where
  "waker_wake i w =
     (case map_of (wa_listeners w) i of None \<Rightarrow> [] | Some ls \<Rightarrow> ls,
      w\<lparr>wa_aborted := List.insert i (wa_aborted w)\<rparr>)"

definition waker_reset :: "string \<Rightarrow> waker \<Rightarrow> waker" where
  "waker_reset i w = w\<lparr>wa_aborted := filter (\<lambda>x. x \<noteq> i) (wa_aborted w)\<rparr>"

definition waker_listen :: "string \<Rightarrow> nat \<Rightarrow> waker \<Rightarrow> waker" where
  "waker_listen i cb w =
     w\<lparr>wa_listeners := AList.update i
         (List.insert cb (case map_of (wa_listeners w) i of None \<Rightarrow> [] | Some ls \<Rightarrow> ls))
         (wa_listeners w)\<rparr>"

definition waker_unlisten :: "string \<Rightarrow> nat \<Rightarrow> waker \<Rightarrow> waker" where
  "waker_unlisten i cb w =
     (case map_of (wa_listeners w) i of
        None \<Rightarrow> w
      | Some ls \<Rightarrow> w\<lparr>wa_listeners := AList.update i (filter (\<lambda>x. x \<noteq> cb) ls) (wa_listeners w)\<rparr>)"

lemma wake_then_aborted: "waker_aborted i (snd (waker_wake i w))"
  by (simp add: waker_aborted_def waker_wake_def)

lemma reset_clears_only: "waker_aborted j (waker_reset i w) \<longleftrightarrow> j \<noteq> i \<and> waker_aborted j w"
  by (auto simp: waker_aborted_def waker_reset_def)

lemma wake_other: "j \<noteq> i \<Longrightarrow> waker_aborted j (snd (waker_wake i w)) = waker_aborted j w"
  by (simp add: waker_aborted_def waker_wake_def)

subsection \<open>Audit entries, alerts and events\<close>

type_synonym request_scope = "(string \<times> string) list"

record advance_meta =
  am_quoteFee :: "money option"
  am_networkFee :: "string option"
  am_amountRefunded :: "string option"
  am_amountFee :: "string option"
  am_checks :: "check_result list option"

definition no_meta :: advance_meta where
  "no_meta = \<lparr>am_quoteFee = None, am_networkFee = None, am_amountRefunded = None,
     am_amountFee = None, am_checks = None\<rparr>"

record audit_entry =
  ae_key :: string
  ae_corridorId :: string
  ae_from :: corridor_state
  ae_to :: corridor_state
  ae_version :: nat
  ae_at :: int
  ae_error :: "string option"
  ae_scope :: request_scope
  ae_routeTrust :: "route_trust option"
  ae_meta :: advance_meta

record audit_detail =
  ad_key :: string
  ad_corridorId :: string
  ad_at :: int
  ad_scope :: request_scope
  ad_liveness :: liveness_state
  ad_effectiveCap :: "string option"

record alert_t =
  al_kind :: corridor_state
  al_corridorId :: string
  al_key :: string
  al_txHash :: "string option"
  al_lastError :: "string option"
  al_at :: int

datatype event =
    EvCreate stored_run
  | EvPut stored_run
  | EvFind settlement_request
  | EvSubmit settlement_request
  | EvSubmitted "settlement_ref outcome"
  | EvRefund refund_request
  | EvRefunded "settlement_ref outcome"
  | EvDeposit
  | EvAudit audit_entry
  | EvDetail audit_detail
  | EvAlert alert_t
  | EvMetric string "(string \<times> string) list"
  | EvTiming string int
  | EvLane string lane_outcome int "string option"

subsection \<open>Dependencies, options and the session\<close>

record 'e engine_deps =
  d_resolve :: "payment_intent \<Rightarrow> corridor \<Rightarrow> ('e, string + 'e route) port"
  d_submitter :: "'e submitter"
  d_gate :: "(gate_ctx \<Rightarrow> ('e, string + gate_result) port) option"
  d_chainVerifier :: "(settlement_ref \<Rightarrow> settlement_request \<Rightarrow> ('e, unit outcome) port) option"
  d_strategies :: "'e strategy list option"
  d_waker :: "(string \<Rightarrow> 'e wake_signal) option"
  d_now :: "('e, int) port"
  d_hostNow :: "('e, int) port"
  d_sleep :: "int \<Rightarrow> 'e \<Rightarrow> 'e"
  d_reconcilePollMs :: "int option"
  d_stallThreshold :: "int option"
  d_audit :: "(audit_entry \<Rightarrow> ('e, bool) port) option"        \<comment> \<open>False: the sink threw\<close>
  d_auditDetail :: "(audit_detail \<Rightarrow> ('e, bool) port) option"
  d_alerting :: "(alert_t \<Rightarrow> ('e, bool) port) option"
  d_unprovenMaxAmount :: "string option"
  d_health :: bool
  d_trustManifest :: bool
  d_externalQuote :: "(payment_intent \<Rightarrow> corridor \<Rightarrow> ('e, string + external_quote outcome) port) option"
  d_quoteProvider :: "(corridor \<Rightarrow> 'e adapter \<Rightarrow> 'e quote_provider) option"
  d_unsafeSkipGate :: bool
  d_hashCorridor :: "corridor \<Rightarrow> string"
  d_parseDate :: "string \<Rightarrow> ms"

record execute_options =
  op_owner :: "string option"
  op_trustManifest :: bool
  op_dryRun :: bool
  op_requestId :: "string option"
  op_traceparent :: "string option"

record 'e world =
  w_env :: 'e
  w_runs :: mem_store
  w_health :: health_mem
  w_events :: "event list"
  w_run :: stored_run
  w_trail :: "corridor_state list"
  w_checks :: "check_result list option"

text \<open>
  What a run context closes over (\<open>RunContextInit\<close>), fixed for a session: what is known before
  a route is, and the rest.
\<close>

record 'e run_env =
  n_deps :: "'e engine_deps"
  n_corridor :: corridor
  n_scope :: request_scope
  n_routeTrust :: "route_trust option"

record 'e session =
  x_env :: "'e run_env"
  x_adapter :: "'e adapter"
  x_pollMs :: int
  x_fuel :: nat

type_synonym ('e, 'a) eio = "('e world, 'a) io"

subsection \<open>Elementary effects\<close>

definition port_io :: "('e, 'a) port \<Rightarrow> ('e, 'a) eio" where
  "port_io p = (\<lambda>w. case p (w_env w) of (a, e) \<Rightarrow> (Some a, w\<lparr>w_env := e\<rparr>))"

definition env_io :: "('e \<Rightarrow> 'e) \<Rightarrow> ('e, unit) eio" where
  "env_io f = modify_io (\<lambda>w. w\<lparr>w_env := f (w_env w)\<rparr>)"

definition emit :: "event \<Rightarrow> ('e, unit) eio" where
  "emit ev = modify_io (\<lambda>w. w\<lparr>w_events := w_events w @ [ev]\<rparr>)"

definition set_run :: "(stored_run \<Rightarrow> stored_run) \<Rightarrow> ('e, unit) eio" where
  "set_run f = modify_io (\<lambda>w. w\<lparr>w_run := f (w_run w)\<rparr>)"

definition get_run :: "('e, stored_run) eio" where
  "get_run = gets_io w_run"

definition seq :: "('w, 'a) io \<Rightarrow> ('w, 'b) io \<Rightarrow> ('w, 'b) io" where
  "seq m k = bnd m (\<lambda>_. k)"

text \<open>\<open>store.put(run)\<close> of the session's run.\<close>

definition put_run :: "('e, unit) eio" where
  "put_run = modify_io (\<lambda>w. w\<lparr>w_runs := mem_put (w_run w) (w_runs w),
                               w_events := w_events w @ [EvPut (w_run w)]\<rparr>)"

definition create_run :: "('e, bool) eio" where
  "create_run = (\<lambda>w. let (won, s) = mem_create (w_run w) (w_runs w)
                     in (Some won, w\<lparr>w_runs := s,
                          w_events := w_events w @ (if won then [EvCreate (w_run w)] else [])\<rparr>))"

text \<open>A verb timed into \<open>corridor.verb.<name>\<close>.\<close>

definition timed :: "'e engine_deps \<Rightarrow> string \<Rightarrow> ('e, 'a) eio \<Rightarrow> ('e, 'a) eio" where
  "timed d name m =
     bnd (port_io (d_now d)) (\<lambda>begin'. bnd m (\<lambda>r. bnd (port_io (d_now d)) (\<lambda>end'.
       seq (emit (EvTiming (''corridor.verb.'' @ name) (end' - begin'))) (ret r))))"

lemma wp_port [wp_rules]:
  "wp (port_io p) Q E w = (case p (w_env w) of (a, e) \<Rightarrow> Q a (w\<lparr>w_env := e\<rparr>))"
  by (simp add: wp_def port_io_def split: prod.splits)

lemma wp_seq [wp_rules]: "wp (seq m k) Q E w = wp m (\<lambda>_. wp k Q E) E w"
  by (simp add: seq_def wp_bnd)

lemma wp_env [wp_rules]: "wp (env_io f) Q E w = Q () (w\<lparr>w_env := f (w_env w)\<rparr>)"
  by (simp add: env_io_def wp_modify)

lemma wp_emit [wp_rules]: "wp (emit ev) Q E w = Q () (w\<lparr>w_events := w_events w @ [ev]\<rparr>)"
  by (simp add: emit_def wp_modify)

lemma wp_set_run [wp_rules]: "wp (set_run f) Q E w = Q () (w\<lparr>w_run := f (w_run w)\<rparr>)"
  by (simp add: set_run_def wp_modify)

lemma wp_get_run [wp_rules]: "wp get_run Q E w = Q (w_run w) w"
  by (simp add: get_run_def wp_gets)

lemma wp_put_run [wp_rules]:
  "wp put_run Q E w = Q () (w\<lparr>w_runs := mem_put (w_run w) (w_runs w),
                               w_events := w_events w @ [EvPut (w_run w)]\<rparr>)"
  by (simp add: put_run_def wp_modify)

lemma wp_create_run [wp_rules]:
  "wp create_run Q E w = Q (fst (mem_create (w_run w) (w_runs w)))
     (w\<lparr>w_runs := snd (mem_create (w_run w) (w_runs w)),
        w_events := w_events w @
          (if fst (mem_create (w_run w) (w_runs w)) then [EvCreate (w_run w)] else [])\<rparr>)"
  by (simp add: create_run_def wp_def split: prod.splits)

end
