(* ===== verification/Verbs.thy ===== *)
theory Verbs
  imports Ports
begin

section \<open>The five verbs (packages/engine/src/verbs.ts, compat.ts)\<close>

text \<open>
  Quote, comply, open, settle, reconcile and recover, the polling loops they use and the
  capability check. The polling loops take fuel; \<open>reconcileUntil_returns\<close> and
  \<open>watchRefund_returns\<close> give the fuel that suffices once sleeping advances the clock.
\<close>

subsection \<open>Quote and comply\<close>

definition quote_verb ::
  "'e engine_deps \<Rightarrow> 'e adapter \<Rightarrow> payment_intent \<Rightarrow> corridor \<Rightarrow> 'e quote_provider option
    \<Rightarrow> ('e, quote_t outcome) eio" where
  "quote_verb d a intent c provider =
     bnd (port_io (d_now d)) (\<lambda>now.
       bnd (port_io (case provider of Some p \<Rightarrow> p intent c | None \<Rightarrow> a_requestQuote a intent c)) (\<lambda>q.
         ret (case q of
                Inl e \<Rightarrow> Inl e
              | Inr v \<Rightarrow>
                  if q_firm v \<and> ms_le (q_expiresAt v) now then
                    fail_retry QUOTE_EXPIRED (''quote '' @ q_id v @ '' expired before use'')
                  else Inr v)))"

definition comply_verb ::
  "'e adapter \<Rightarrow> payment_intent \<Rightarrow> corridor \<Rightarrow> ('e, kyc_result outcome) eio" where
  "comply_verb a intent c =
     bnd (port_io (a_ensureCompliance a intent c)) (\<lambda>r.
       ret (case r of
              Inl e \<Rightarrow> Inl e
            | Inr k \<Rightarrow>
                (case k_status k of
                   KycRejected \<Rightarrow> fail KYC_REJECTED ''receiving anchor rejected the customer''
                 | KycPending \<Rightarrow> fail_retry KYC_REQUIRED ''KYC pending at receiving anchor''
                 | KycAccepted \<Rightarrow> Inr k)))"

definition open_verb ::
  "'e adapter \<Rightarrow> payment_intent \<Rightarrow> quote_t \<Rightarrow> corridor \<Rightarrow> ('e, open_transaction outcome) eio" where
  "open_verb a intent q c = port_io (a_openTransaction a intent q c)"

subsection \<open>Settle\<close>

definition msg_asset_mismatch :: "string \<Rightarrow> string \<Rightarrow> string" where
  [msg_defs]: "msg_asset_mismatch sellAsset bridge =
     ''quote source asset '' @ in_quotes sellAsset @ '' does not match settlement bridge asset '' @
     in_quotes bridge"

definition msg_not_settleable :: "string \<Rightarrow> string" where
  [msg_defs]: "msg_not_settleable amount =
     ''settle amount '' @ in_quotes amount @ '' is not a valid settleable amount at '' @
     show_nat STROOP_SCALE @ '' decimal places''"

definition settle_asset_ok :: "string \<Rightarrow> corridor \<Rightarrow> bool" where
  "settle_asset_ok sellAsset c =
     (let bridge = bridge_asset (c_settlement c) in
      sellAsset = bridge \<or>
      sellAsset = ''stellar:'' @ bridge @ '':'' @ asset_issuer (c_settlement c) \<or>
      (to_upper bridge = ''XLM'' \<and> (sellAsset = ''native'' \<or> sellAsset = ''stellar:native'')))"

definition settleQuoteProblem :: "quote_t \<Rightarrow> corridor \<Rightarrow> string option" where
  "settleQuoteProblem q c =
     (if \<not> settle_asset_ok (m_asset (q_sourceAmount q)) c then
        Some (msg_asset_mismatch (m_asset (q_sourceAmount q)) (bridge_asset (c_settlement c)))
      else if \<not> isSettleableAmount (m_amount (q_sourceAmount q)) STROOP_SCALE then
        Some (msg_not_settleable (m_amount (q_sourceAmount q)))
      else None)"

fun kind_name :: "instructions_kind \<Rightarrow> string" where
  "kind_name StellarPayment = ''stellar_payment''"
| "kind_name ClaimableBalance = ''claimable_balance''"
| "kind_name AdapterSettled = ''adapter_settled''"

definition msg_no_strategy :: "'e strategy list \<Rightarrow> instructions_kind \<Rightarrow> corridor \<Rightarrow> string" where
  [msg_defs]: "msg_no_strategy strategies kind c =
     (if list_ex (\<lambda>s. sg_kind s = kind) strategies then
        ''every '' @ in_quotes (kind_name kind) @ '' settlement strategy declined this corridor'' @
        (if needsPathPayment c then
           '' (anchor receives '' @
           (case receive_asset (c_settlement c) of Some a \<Rightarrow> a | None \<Rightarrow> ''undefined'') @
           '', not bridge asset '' @ bridge_asset (c_settlement c) @ '') '' @ dash @
           '' add a path-payment strategy such as StellarPathPaymentStrategy to EngineDeps.strategies''
         else '''')
      else
        ''no settlement strategy registered for kind '' @ in_quotes (kind_name kind) @ '' '' @ dash @
        '' add a SettlementStrategy with kind='' @ in_quotes (kind_name kind) @
        '' to EngineDeps.strategies'')"

definition instructionsKind :: "open_transaction \<Rightarrow> instructions_kind" where
  "instructionsKind op =
     (case o_instructions op of Some i \<Rightarrow> instr_kind i | None \<Rightarrow> StellarPayment)"

definition pick_strategy :: "'e strategy list \<Rightarrow> instructions_kind \<Rightarrow> 'e strategy_ctx \<Rightarrow> 'e strategy option" where
  "pick_strategy strategies kind ctx =
     find (\<lambda>s. sg_kind s = kind \<and> (case sg_matches s of Some m \<Rightarrow> m ctx | None \<Rightarrow> True)) strategies"

text \<open>Handing a payment to a port that can move money, and its answer.\<close>

definition dispatch ::
  "settlement_request \<Rightarrow> ('e, settlement_ref outcome) port \<Rightarrow> ('e, settlement_ref outcome) eio" where
  "dispatch req p =
     seq (emit (EvSubmit req)) (bnd (port_io p) (\<lambda>r. seq (emit (EvSubmitted r)) (ret r)))"

definition settle_verb ::
  "'e strategy list \<Rightarrow> open_transaction \<Rightarrow> quote_t \<Rightarrow> corridor \<Rightarrow> 'e adapter
    \<Rightarrow> ('e, settlement_ref outcome) eio" where
  "settle_verb strategies op q c a =
     (case settleQuoteProblem q c of
        Some problem \<Rightarrow> ret (fail AMOUNT_INVALID problem)
      | None \<Rightarrow>
          let kind = instructionsKind op;
              ctx = \<lparr>sc_opened = op, sc_quote = q, sc_corridor = c, sc_adapter = Some a\<rparr>
          in case pick_strategy strategies kind ctx of
               None \<Rightarrow> ret (fail SETTLEMENT_FAILED (msg_no_strategy strategies kind c))
             | Some s \<Rightarrow> dispatch (buildSettlementRequest op q c) (sg_settle s ctx))"

subsection \<open>Reconcile\<close>

definition reconcile_verb :: "'e adapter \<Rightarrow> string \<Rightarrow> ('e, transaction_status outcome) eio" where
  "reconcile_verb a txid =
     bnd (port_io (a_getTransaction a txid)) (\<lambda>s.
       ret (case s of
              Inl e \<Rightarrow> Inl e
            | Inr v \<Rightarrow>
                if \<not> ts_settled v then
                  fail_retry RECONCILE_MISMATCH
                    (''tx '' @ txid @ '' not settled (status='' @ ts_status v @ '')'')
                else Inr v))"

record 'e poll_options =
  po_now :: "('e, int) port"
  po_sleep :: "int \<Rightarrow> 'e \<Rightarrow> 'e"
  po_deadlineMs :: int
  po_pollMs :: int
  po_stallThreshold :: "int option"
  po_wake :: "'e wake_signal option"
  po_externalStallMs :: "int option"
  po_corridorId :: "string option"
  po_metrics :: bool

text \<open>The mutable variables of \<open>reconcileUntil\<close>.\<close>

record poll_state =
  ps_first :: "string option"
  ps_last :: string
  ps_same :: int
  ps_poll :: nat
  ps_awaiting :: bool
  ps_phase :: "phase option"
  ps_extStart :: "int option"
  ps_next :: int

definition initial_poll :: "int \<Rightarrow> poll_state" where
  "initial_poll pollMs =
     \<lparr>ps_first = None, ps_last = ''unknown'', ps_same = 0, ps_poll = 0, ps_awaiting = False,
      ps_phase = None, ps_extStart = None, ps_next = pollMs\<rparr>"

definition max_external_delay :: "int \<Rightarrow> int" where
  "max_external_delay pollMs = max pollMs 60000"

text \<open>
  The block \<open>if (s.ok)\<close>: what one answered poll does to the variables. \<open>t\<close> is the clock
  the code reads only when an external phase begins.
\<close>

definition observe :: "int \<Rightarrow> transaction_status \<Rightarrow> int option \<Rightarrow> poll_state \<Rightarrow> poll_state" where
  "observe pollMs v t st =
     (let changed = (ts_status v \<noteq> ps_last st);
          st1 = st\<lparr>ps_first := (case ps_first st of None \<Rightarrow> Some (ts_status v) | Some f \<Rightarrow> Some f),
                   ps_same := (if ts_status v = ps_last st then ps_same st + 1 else 0),
                   ps_last := ts_status v, ps_awaiting := ts_awaitingInput v,
                   ps_phase := ts_phase v\<rparr>
      in if ts_phase v = Some PhaseExternal then
           st1\<lparr>ps_extStart := (case ps_extStart st of None \<Rightarrow> t | Some x \<Rightarrow> Some x),
               ps_next := (if changed then pollMs else ps_next st)\<rparr>
         else st1\<lparr>ps_extStart := None, ps_next := pollMs\<rparr>)"

definition observe_io ::
  "'e poll_options \<Rightarrow> transaction_status outcome \<Rightarrow> poll_state \<Rightarrow> ('e, poll_state) eio" where
  "observe_io o' s st =
     (case s of
        Inl _ \<Rightarrow> ret st
      | Inr v \<Rightarrow>
          if ts_phase v = Some PhaseExternal \<and> ps_extStart st = None then
            bnd (port_io (po_now o')) (\<lambda>t. ret (observe (po_pollMs o') v (Some t) st))
          else ret (observe (po_pollMs o') v None st))"

definition msg_terminal :: "string \<Rightarrow> transaction_status \<Rightarrow> string" where
  [msg_defs]: "msg_terminal txid v =
     ''tx '' @ txid @ '' terminally failed at anchor (status='' @ ts_status v @ '')''"

definition msg_external_stall :: "string \<Rightarrow> string \<Rightarrow> int \<Rightarrow> int \<Rightarrow> string" where
  [msg_defs]: "msg_external_stall txid stuck elapsed budget =
     ''tx '' @ txid @ '' exhausted external stall budget at status='' @ stuck @ '' (elapsed='' @
     show_int elapsed @ ''ms, budget='' @ show_int budget @ ''ms)''"

definition msg_poll_stall :: "string \<Rightarrow> string \<Rightarrow> int \<Rightarrow> int \<Rightarrow> string" where
  [msg_defs]: "msg_poll_stall txid stuck same budget =
     ''tx '' @ txid @ '' exhausted poll stall budget at status='' @ stuck @ '' for '' @ show_int same @
     '' consecutive polls (budget='' @ show_int budget @ '' polls)''"

definition msg_timeout :: "string \<Rightarrow> poll_state \<Rightarrow> int \<Rightarrow> string" where
  [msg_defs]: "msg_timeout txid st elapsed =
     ''tx '' @ txid @ '' did not settle before timeout (polls='' @ show_nat (ps_poll st) @
     '', elapsed='' @ show_int elapsed @ ''ms, first status='' @
     (case ps_first st of Some f \<Rightarrow> f | None \<Rightarrow> ''unknown'') @ '', last status='' @ ps_last st @
     (if ps_awaiting st then '', awaiting input from another party'' else '''') @ '')''"

text \<open>The verdict of a poll that is neither settled nor terminally failed.\<close>

definition deadline_verdict ::
  "'e poll_options \<Rightarrow> string \<Rightarrow> transaction_status outcome \<Rightarrow> int \<Rightarrow> poll_state
    \<Rightarrow> ('e, transaction_status outcome option) eio" where
  "deadline_verdict o' txid s elapsed st =
     (let threshold = (case po_stallThreshold o' of Some n \<Rightarrow> n | None \<Rightarrow> 0) in
      if ps_phase st \<noteq> Some PhaseExternal \<and> threshold > 0 \<and> ps_same st \<ge> threshold then
        ret (Some (fail RECONCILE_STALLED (msg_poll_stall txid (ps_last st) (ps_same st) threshold)))
      else
        bnd (port_io (po_now o')) (\<lambda>t.
          if t \<ge> po_deadlineMs o' then
            ret (Some (case s of
                         Inl e \<Rightarrow> Inl e
                       | Inr _ \<Rightarrow> fail SETTLEMENT_TIMEOUT (msg_timeout txid st elapsed)))
          else ret None))"

definition stall_verdict ::
  "'e poll_options \<Rightarrow> string \<Rightarrow> transaction_status outcome \<Rightarrow> int \<Rightarrow> poll_state
    \<Rightarrow> ('e, transaction_status outcome option) eio" where
  "stall_verdict o' txid s elapsed st =
     (let budget = (case po_externalStallMs o' of Some n \<Rightarrow> n | None \<Rightarrow> 6 * 60 * 60 * 1000);
          rest = deadline_verdict o' txid s elapsed st
      in case (ps_phase st, ps_extStart st) of
           (Some PhaseExternal, Some x) \<Rightarrow>
             bnd (port_io (po_now o')) (\<lambda>t.
               if t - x \<ge> budget then
                 bnd (port_io (po_now o')) (\<lambda>t'.
                   ret (Some (fail RECONCILE_STALLED
                     (msg_external_stall txid (ps_last st) (t' - x) budget))))
               else rest)
         | _ \<Rightarrow> rest)"

definition poll_delay :: "int \<Rightarrow> poll_state \<Rightarrow> int" where
  "poll_delay pollMs st =
     (if ps_phase st = Some PhaseExternal then min (ps_next st) (max_external_delay pollMs) else pollMs)"

definition next_poll :: "int \<Rightarrow> poll_state \<Rightarrow> poll_state" where
  "next_poll pollMs st =
     st\<lparr>ps_next := (if ps_phase st = Some PhaseExternal
                    then min (poll_delay pollMs st * 2) (max_external_delay pollMs) else pollMs)\<rparr>"

text \<open>Waiting for the next poll: whether the loop continues at once, and the variables.\<close>

definition poll_wait :: "'e poll_options \<Rightarrow> poll_state \<Rightarrow> ('e, poll_state) eio" where
  "poll_wait o' st =
     (let delay = poll_delay (po_pollMs o') st; after = next_poll (po_pollMs o') st in
      case po_wake o' of
        None \<Rightarrow> seq (env_io (po_sleep o' delay)) (ret after)
      | Some wk \<Rightarrow>
          bnd (port_io (wk_aborted wk)) (\<lambda>aborted.
            if aborted then seq (env_io (wk_reset wk)) (ret st)
            else seq (env_io (wk_sleep wk delay)) (seq (env_io (wk_reset wk)) (ret after))))"

definition poll_metric :: "'e poll_options \<Rightarrow> string \<Rightarrow> transaction_status outcome \<Rightarrow> ('e, unit) eio" where
  "poll_metric o' name s =
     (if po_metrics o' then
        emit (EvMetric name
          ((case po_corridorId o' of Some c \<Rightarrow> (if c = [] then [] else [(''corridor'', c)]) | None \<Rightarrow> []) @
           [(''status'', case s of Inl _ \<Rightarrow> ''error'' | Inr v \<Rightarrow> ts_status v)]))
      else ret ())"

text \<open>The answer a poll settles at once: the payout settled, or failed for good.\<close>

definition poll_answer :: "string \<Rightarrow> transaction_status outcome \<Rightarrow> transaction_status outcome option" where
  "poll_answer txid s =
     (case s of
        Inl _ \<Rightarrow> None
      | Inr v \<Rightarrow>
          if ts_settled v then Some (Inr v)
          else if ts_terminalFailure v then
            Some (fail_full RECONCILE_MISMATCH (msg_terminal txid v) False (CauseStatus v))
          else None)"

definition poll_continue ::
  "string \<Rightarrow> 'e poll_options \<Rightarrow> transaction_status outcome \<Rightarrow> int \<Rightarrow> poll_state
    \<Rightarrow> (poll_state \<Rightarrow> ('e, transaction_status outcome) eio) \<Rightarrow> ('e, transaction_status outcome) eio" where
  "poll_continue txid o' s elapsed st k =
     bnd (stall_verdict o' txid s elapsed st) (\<lambda>v.
       case v of None \<Rightarrow> bnd (poll_wait o' st) k | Some r \<Rightarrow> ret r)"

text \<open>One iteration of the loop; \<open>k\<close> is the rest of it.\<close>

definition reconcile_poll ::
  "(string \<Rightarrow> ('e, transaction_status outcome) port) \<Rightarrow> string \<Rightarrow> 'e poll_options \<Rightarrow> int \<Rightarrow> poll_state
    \<Rightarrow> (poll_state \<Rightarrow> ('e, transaction_status outcome) eio) \<Rightarrow> ('e, transaction_status outcome) eio" where
  "reconcile_poll get txid o' startedAt st k =
     bnd (port_io (get txid)) (\<lambda>s.
     bnd (port_io (po_now o')) (\<lambda>t.
     seq (poll_metric o' ''corridor.reconcile.poll'' s)
     (bnd (observe_io o' s (st\<lparr>ps_poll := ps_poll st + 1\<rparr>)) (\<lambda>st1.
       case poll_answer txid s of
         Some r \<Rightarrow> ret r
       | None \<Rightarrow> poll_continue txid o' s (t - startedAt) st1 k))))"

fun reconcile_loop ::
  "nat \<Rightarrow> (string \<Rightarrow> ('e, transaction_status outcome) port) \<Rightarrow> string \<Rightarrow> 'e poll_options \<Rightarrow> int
    \<Rightarrow> poll_state \<Rightarrow> ('e, transaction_status outcome) eio" where
  "reconcile_loop 0 get txid o' startedAt st = throw_io"
| "reconcile_loop (Suc n) get txid o' startedAt st =
     reconcile_poll get txid o' startedAt st (\<lambda>st'. reconcile_loop n get txid o' startedAt st')"

definition reconcileUntil ::
  "nat \<Rightarrow> (string \<Rightarrow> ('e, transaction_status outcome) port) \<Rightarrow> string \<Rightarrow> 'e poll_options
    \<Rightarrow> ('e, transaction_status outcome) eio" where
  "reconcileUntil fuel get txid o' =
     bnd (port_io (po_now o')) (\<lambda>startedAt.
       reconcile_loop fuel get txid o' startedAt (initial_poll (po_pollMs o')))"

subsection \<open>Watching a refund\<close>

fun completeness_name :: "completeness \<Rightarrow> string" where
  "completeness_name Full = ''full''"
| "completeness_name Partial = ''partial''"
| "completeness_name Unknown = ''unknown''"

definition refundMessage :: "string \<Rightarrow> refund_info \<Rightarrow> string" where
  [msg_defs]: "refundMessage txid r =
     ''refund for tx '' @ txid @ '' is '' @ completeness_name (ri_completeness r) @
     '': amountRefunded='' @ m_amount (ri_amountRefunded r) @ '' '' @ m_asset (ri_amountRefunded r) @
     '', amountFee='' @ m_amount (ri_amountFee r) @ '' '' @ m_asset (ri_amountFee r)"

definition msg_refund_timeout :: "string \<Rightarrow> nat \<Rightarrow> int \<Rightarrow> string" where
  [msg_defs]: "msg_refund_timeout txid poll elapsed =
     ''refund for tx '' @ txid @ '' was not fully reported before timeout (polls='' @ show_nat poll @
     '', elapsed='' @ show_int elapsed @ ''ms)''"

text \<open>The refund a poll reports, when it reports one on a refunded or failed transaction.\<close>

definition reported_refund :: "transaction_status \<Rightarrow> refund_info option" where
  "reported_refund v =
     (if ts_status v = ''refunded'' \<or> ts_terminalFailure v then ts_refunds v else None)"

definition watch_answer :: "string \<Rightarrow> transaction_status outcome \<Rightarrow> transaction_status outcome option" where
  "watch_answer txid s =
     (case s of
        Inl _ \<Rightarrow> None
      | Inr v \<Rightarrow>
          (case reported_refund v of
             None \<Rightarrow> None
           | Some r \<Rightarrow>
               if ri_completeness r = Full then Some (Inr v)
               else Some (fail_full RECONCILE_MISMATCH (refundMessage txid r) False (CauseStatus v))))"

definition watch_poll ::
  "'e adapter \<Rightarrow> string \<Rightarrow> 'e poll_options \<Rightarrow> int \<Rightarrow> nat
    \<Rightarrow> ('e, transaction_status outcome) eio \<Rightarrow> ('e, transaction_status outcome) eio" where
  "watch_poll a txid o' startedAt poll k =
     bnd (port_io (a_getTransaction a txid)) (\<lambda>s.
     bnd (port_io (po_now o')) (\<lambda>t.
     seq (poll_metric o' ''corridor.refund.poll'' s)
       (case watch_answer txid s of
          Some r \<Rightarrow> ret r
        | None \<Rightarrow>
            bnd (port_io (po_now o')) (\<lambda>t'.
              if t' \<ge> po_deadlineMs o' then
                ret (fail_full SETTLEMENT_TIMEOUT (msg_refund_timeout txid poll (t - startedAt)) False
                  (case s of Inr v \<Rightarrow> CauseStatus v | Inl _ \<Rightarrow> CauseOther))
              else seq (env_io (po_sleep o' (po_pollMs o'))) k))))"

fun watch_loop ::
  "nat \<Rightarrow> 'e adapter \<Rightarrow> string \<Rightarrow> 'e poll_options \<Rightarrow> int \<Rightarrow> nat
    \<Rightarrow> ('e, transaction_status outcome) eio" where
  "watch_loop 0 a txid o' startedAt poll = throw_io"
| "watch_loop (Suc n) a txid o' startedAt poll =
     watch_poll a txid o' startedAt (Suc poll) (watch_loop n a txid o' startedAt (Suc poll))"

definition watchRefund ::
  "nat \<Rightarrow> 'e adapter \<Rightarrow> string \<Rightarrow> 'e poll_options \<Rightarrow> ('e, transaction_status outcome) eio" where
  "watchRefund fuel a txid o' =
     bnd (port_io (po_now o')) (\<lambda>startedAt. watch_loop fuel a txid o' startedAt 0)"

subsection \<open>Recover\<close>

definition anchorTerminalStatus :: "corridor_error \<Rightarrow> transaction_status option" where
  "anchorTerminalStatus e =
     (case e_cause e of
        CauseStatus v \<Rightarrow> if ts_terminalFailure v then Some v else None
      | _ \<Rightarrow> None)"

definition backoffMs :: "nat \<Rightarrow> int" where
  "backoffMs attempt = min (250 * 2 ^ (attempt - 1)) 5000"

datatype recovery_action = Retry nat | Refund | Hold | GiveUp

definition recover :: "corridor \<Rightarrow> bool \<Rightarrow> nat \<Rightarrow> recovery_action" where
  "recover c retryable attempt =
     (if retryable \<and> attempt < max_retries (c_recovery c) then Retry (attempt + 1)
      else case rollback (c_recovery c) of
             RefundSender \<Rightarrow> Refund
           | RollbackHold \<Rightarrow> Hold
           | RollbackManual \<Rightarrow> GiveUp)"

subsection \<open>Capability check (compat.ts)\<close>

fun cap_name :: "quote_cap \<Rightarrow> string" where
  "cap_name CapSep38Firm = ''sep38_firm''"
| "cap_name CapSep38Indicative = ''sep38_indicative''"
| "cap_name CapNative = ''native''"
| "cap_name CapNoQuotes = ''none''"

fun method_name :: "compliance_method \<Rightarrow> string" where
  "method_name M_sep12 = ''sep12''"
| "method_name M_sep6_fields = ''sep6_fields''"
| "method_name M_bespoke = ''bespoke''"
| "method_name M_none = ''none''"

definition msg_no_sep38 :: "corridor \<Rightarrow> capabilities \<Rightarrow> string" where
  [msg_defs]: "msg_no_sep38 c caps =
     ''corridor '' @ in_quotes (c_id c) @ '' requires fx.quote_source '' @ in_quotes ''sep38'' @
     '', but adapter only supports quotes: ['' @ join '', '' (map cap_name (cap_quotes caps)) @ '']''"

definition msg_kyc_mismatch :: "corridor \<Rightarrow> compliance_method \<Rightarrow> capabilities \<Rightarrow> string" where
  [msg_defs]: "msg_kyc_mismatch c m caps =
     ''corridor '' @ in_quotes (c_id c) @ '' declares compliance.method '' @ in_quotes (method_name m) @
     '', but adapter performs kyc '' @ in_quotes (method_name (cap_kyc caps))"

definition msg_no_settlement :: "corridor \<Rightarrow> string" where
  [msg_defs]: "msg_no_settlement c =
     ''adapter advertises no settlement capabilities for corridor '' @ in_quotes (c_id c)"

definition msg_uncovered :: "instructions_kind \<Rightarrow> 'e strategy list \<Rightarrow> string" where
  [msg_defs]: "msg_uncovered kind strategies =
     ''adapter requires settlement kind '' @ in_quotes (kind_name kind) @
     '', but no matching SettlementStrategy is configured (configured: ['' @
     join '', '' (map (\<lambda>s. kind_name (sg_kind s)) strategies) @ ''])''"

definition checkCompatibility ::
  "corridor \<Rightarrow> capabilities \<Rightarrow> 'e strategy list \<Rightarrow> unit outcome" where
  "checkCompatibility c caps strategies =
     (if fx_quote_source (c_fx c) = QSep38 \<and>
         \<not> list_ex (\<lambda>q. q = CapSep38Firm \<or> q = CapSep38Indicative) (cap_quotes caps) then
        fail CAPABILITY_MISMATCH (msg_no_sep38 c caps)
      else
        case (case c_method (c_compliance c) of
                None \<Rightarrow> None | Some m \<Rightarrow> if m \<noteq> cap_kyc caps then Some m else None) of
          Some m \<Rightarrow> fail CAPABILITY_MISMATCH (msg_kyc_mismatch c m caps)
        | None \<Rightarrow>
            if cap_settlement caps = [] then fail CAPABILITY_MISMATCH (msg_no_settlement c)
            else case find (\<lambda>k. \<not> list_ex (\<lambda>s. sg_kind s = k) strategies) (cap_settlement caps) of
                   Some k \<Rightarrow> fail CAPABILITY_MISMATCH (msg_uncovered k strategies)
                 | None \<Rightarrow> Inr ())"

subsection \<open>What the verbs keep\<close>

text \<open>
  A property of the world is \<open>stable\<close> when neither the outside world, nor the breaker rows, nor
  an event that reports something (a metric, a timing, a look-up) can break it. Everything that only
  observes keeps every stable property.
\<close>

fun reporting :: "event \<Rightarrow> bool" where
  "reporting (EvMetric _ _) = True"
| "reporting (EvTiming _ _) = True"
| "reporting (EvFind _) = True"
| "reporting (EvLane _ _ _ _) = True"
| "reporting (EvAlert _) = True"
| "reporting (EvDetail _) = True"
| "reporting EvDeposit = True"
| "reporting _ = False"

definition stable :: "('e world \<Rightarrow> bool) \<Rightarrow> bool" where
  "stable P \<longleftrightarrow>
     (\<forall>w e. P w \<longrightarrow> P (w\<lparr>w_env := e\<rparr>)) \<and>
     (\<forall>w h. P w \<longrightarrow> P (w\<lparr>w_health := h\<rparr>)) \<and>
     (\<forall>w ev. reporting ev \<longrightarrow> P w \<longrightarrow> P (w\<lparr>w_events := w_events w @ [ev]\<rparr>))"

lemma keeps_port [intro]: "stable P \<Longrightarrow> keeps P (port_io p)"
  by (auto simp: keeps_def wp_rules stable_def split: prod.splits)

lemma keeps_env [intro]: "stable P \<Longrightarrow> keeps P (env_io f)"
  by (auto simp: keeps_def wp_rules stable_def)

lemma keeps_emit [intro]: "stable P \<Longrightarrow> reporting ev \<Longrightarrow> keeps P (emit ev)"
  by (auto simp: keeps_def wp_rules stable_def)

lemma keeps_seq [intro]: "keeps P m \<Longrightarrow> keeps P k \<Longrightarrow> keeps P (seq m k)"
  unfolding seq_def by (rule keeps_bnd)

lemma keeps_get_run [intro!]: "keeps P get_run"
  by (simp add: get_run_def keeps_gets)

lemma keeps_timed [intro]: "stable P \<Longrightarrow> keeps P m \<Longrightarrow> keeps P (timed d n m)"
  unfolding timed_def by (intro keeps_bnd keeps_port keeps_seq keeps_emit keeps_ret) simp_all

lemma keeps_quote: "stable P \<Longrightarrow> keeps P (quote_verb d a i c p)"
  unfolding quote_verb_def by (intro keeps_bnd keeps_port keeps_ret)

lemma keeps_comply: "stable P \<Longrightarrow> keeps P (comply_verb a i c)"
  unfolding comply_verb_def by (intro keeps_bnd keeps_port keeps_ret)

lemma keeps_open: "stable P \<Longrightarrow> keeps P (open_verb a i q c)"
  unfolding open_verb_def by (rule keeps_port)

lemma keeps_poll_metric: "stable P \<Longrightarrow> keeps P (poll_metric o' n s)"
  unfolding poll_metric_def by (auto intro: keeps_emit)

lemma keeps_observe: "stable P \<Longrightarrow> keeps P (observe_io o' s st)"
  unfolding observe_io_def by (auto split: sum.splits intro!: keeps_bnd keeps_port)

lemma keeps_deadline: "stable P \<Longrightarrow> keeps P (deadline_verdict o' i s t st)"
  unfolding deadline_verdict_def Let_def by (auto intro!: keeps_bnd keeps_port)

lemma keeps_stall: "stable P \<Longrightarrow> keeps P (stall_verdict o' i s t st)"
  unfolding stall_verdict_def Let_def
  by (auto split: option.splits phase.splits intro!: keeps_bnd keeps_port keeps_deadline)

lemma keeps_wait: "stable P \<Longrightarrow> keeps P (poll_wait o' st)"
  unfolding poll_wait_def Let_def
  by (auto split: option.splits intro!: keeps_bnd keeps_port keeps_seq keeps_env)

lemma keeps_poll:
  "stable P \<Longrightarrow> (\<And>st'. keeps P (k st')) \<Longrightarrow> keeps P (reconcile_poll get i o' t st k)"
  unfolding reconcile_poll_def poll_continue_def
  by (auto split: option.splits
      intro!: keeps_bnd keeps_port keeps_seq keeps_poll_metric keeps_observe keeps_stall keeps_wait)

lemma keeps_reconcile_loop: "stable P \<Longrightarrow> keeps P (reconcile_loop n get i o' t st)"
  by (induction n arbitrary: st) (simp_all add: keeps_throw keeps_poll)

lemma keeps_reconcileUntil: "stable P \<Longrightarrow> keeps P (reconcileUntil n get i o')"
  unfolding reconcileUntil_def by (intro keeps_bnd keeps_port keeps_reconcile_loop)

lemma keeps_watch_poll: "stable P \<Longrightarrow> keeps P k \<Longrightarrow> keeps P (watch_poll a i o' t n k)"
  unfolding watch_poll_def
  by (auto split: option.splits intro!: keeps_bnd keeps_port keeps_seq keeps_poll_metric keeps_env)

lemma keeps_watch_loop: "stable P \<Longrightarrow> keeps P (watch_loop n a i o' t k)"
  by (induction n arbitrary: k) (simp_all add: keeps_throw keeps_watch_poll)

lemma keeps_watchRefund: "stable P \<Longrightarrow> keeps P (watchRefund n a i o')"
  unfolding watchRefund_def by (intro keeps_bnd keeps_port keeps_watch_loop)

subsection \<open>What the verbs answer\<close>

text \<open>\<open>gives m Q\<close>: whatever \<open>m\<close> returns satisfies \<open>Q\<close>.\<close>

definition gives :: "('w, 'a) io \<Rightarrow> ('a \<Rightarrow> bool) \<Rightarrow> bool" where
  "gives m Q \<longleftrightarrow> (\<forall>w. wp m (\<lambda>x _. Q x) (\<lambda>_. True) w)"

lemma givesD: "gives m Q \<Longrightarrow> m w = (Some x, w') \<Longrightarrow> Q x"
  by (auto simp: gives_def dest: wp_Some)

lemma gives_ret: "Q x \<Longrightarrow> gives (ret x) Q"
  by (simp add: gives_def wp_rules)

lemma gives_throw: "gives throw_io Q"
  by (simp add: gives_def wp_rules)

lemma wp_top: "wp m (\<lambda>_ _. True) (\<lambda>_. True) w"
  by (simp add: wp_def split: prod.splits option.splits)

lemma gives_bnd: "(\<And>x. gives (f x) Q) \<Longrightarrow> gives (bnd m f) Q"
  unfolding gives_def wp_bnd by (rule allI, rule wp_mono [OF wp_top]) auto

lemma gives_bnd_with: "gives m R \<Longrightarrow> (\<And>x. R x \<Longrightarrow> gives (f x) Q) \<Longrightarrow> gives (bnd m f) Q"
  unfolding gives_def wp_bnd by (auto intro: wp_mono)

lemma gives_seq: "gives k Q \<Longrightarrow> gives (seq m k) Q"
  unfolding seq_def by (rule gives_bnd)

lemma gives_wp: "gives m Q \<Longrightarrow> wp m R E w \<Longrightarrow> wp m (\<lambda>x w'. Q x \<and> R x w') E w"
  by (auto simp: gives_def wp_def split: prod.splits option.splits)

text \<open>Success of the polling loop is a settled status; its other answers are errors.\<close>

definition settled_answer :: "transaction_status outcome \<Rightarrow> bool" where
  "settled_answer r \<longleftrightarrow> (\<forall>v. r = Inr v \<longrightarrow> ts_settled v)"

lemma settled_answer_simps [simp]:
  "settled_answer (Inl e)" "settled_answer (fail_full c m b k)"
  "settled_answer (Inr v) \<longleftrightarrow> ts_settled v"
  by (auto simp: settled_answer_def fail_full_def)

lemma gives_deadline:
  "gives (deadline_verdict o' i s t st) (\<lambda>r. \<forall>x. r = Some x \<longrightarrow> settled_answer x)"
  unfolding deadline_verdict_def Let_def
  by (auto split: sum.splits intro!: gives_bnd gives_ret)

lemma gives_stall:
  "gives (stall_verdict o' i s t st) (\<lambda>r. \<forall>x. r = Some x \<longrightarrow> settled_answer x)"
  unfolding stall_verdict_def Let_def
  by (auto split: option.splits phase.splits intro!: gives_bnd gives_ret gives_deadline)

lemma gives_poll:
  assumes "\<And>st'. gives (k st') settled_answer"
  shows "gives (reconcile_poll get i o' t st k) settled_answer"
proof -
  have "gives (poll_continue i o' s u st1 k) settled_answer" for s u st1
    unfolding poll_continue_def
    by (rule gives_bnd_with [OF gives_stall])
      (auto split: option.splits intro!: gives_ret gives_bnd assms)
  moreover have "poll_answer i s = Some r \<Longrightarrow> settled_answer r" for s r
    by (auto simp: poll_answer_def split: sum.splits if_splits)
  ultimately show ?thesis
    unfolding reconcile_poll_def
    by (auto split: option.splits intro!: gives_bnd gives_seq gives_ret)
qed

lemma gives_reconcile_loop: "gives (reconcile_loop n get i o' t st) settled_answer"
  by (induction n arbitrary: st) (simp_all add: gives_throw gives_poll)

lemma reconcileUntil_settled: "gives (reconcileUntil n get i o') settled_answer"
  unfolding reconcileUntil_def by (intro gives_bnd gives_reconcile_loop)

text \<open>Success of the refund watch is a report of a full refund on a closed transaction.\<close>

definition refunded_answer :: "transaction_status outcome \<Rightarrow> bool" where
  "refunded_answer r \<longleftrightarrow> (\<forall>v. r = Inr v \<longrightarrow> (ts_status v = ''refunded'' \<or> ts_terminalFailure v) \<and>
     (\<exists>i. ts_refunds v = Some i \<and> ri_completeness i = Full))"

lemma refunded_answer_fail [simp]: "refunded_answer (fail_full c m b k)"
  by (simp add: refunded_answer_def fail_full_def)

lemma reported_refund_Some:
  "reported_refund v = Some r \<Longrightarrow> ri_completeness r = Full \<Longrightarrow> refunded_answer (Inr v)"
  by (auto simp: reported_refund_def refunded_answer_def split: if_splits)

lemma watch_answer_refunded: "watch_answer i s = Some r \<Longrightarrow> refunded_answer r"
  by (auto simp: watch_answer_def reported_refund_Some split: sum.splits option.splits if_splits)

lemma gives_watch_poll:
  "gives k refunded_answer \<Longrightarrow> gives (watch_poll a i o' t n k) refunded_answer"
  unfolding watch_poll_def
  by (auto split: option.splits simp: watch_answer_refunded intro!: gives_bnd gives_seq gives_ret)

lemma gives_watch_loop: "gives (watch_loop n a i o' t k) refunded_answer"
  by (induction n arbitrary: k) (simp_all add: gives_throw gives_watch_poll)

lemma watchRefund_full: "gives (watchRefund n a i o') refunded_answer"
  unfolding watchRefund_def by (intro gives_bnd gives_watch_loop)

subsection \<open>The polling loops return\<close>

text \<open>
  What the loops need of the outside world to end: reading the clock or the anchor does not
  turn the clock back, and sleeping takes at least the time asked for.
\<close>

definition ticking ::
  "('e \<Rightarrow> int) \<Rightarrow> (string \<Rightarrow> ('e, transaction_status outcome) port) \<Rightarrow> string \<Rightarrow> 'e poll_options \<Rightarrow> bool" where
  "ticking clk get txid o' \<longleftrightarrow>
     (\<forall>e. fst (po_now o' e) = clk e \<and> clk e \<le> clk (snd (po_now o' e))) \<and>
     (\<forall>e. clk e \<le> clk (snd (get txid e))) \<and>
     (\<forall>d e. clk e + d \<le> clk (po_sleep o' d e)) \<and>
     po_wake o' = None \<and> 0 < po_pollMs o'"

lemma tick_now:
  "ticking clk get i o' \<Longrightarrow> po_now o' e = (t, e') \<Longrightarrow> t = clk e \<and> clk e \<le> clk e'"
  unfolding ticking_def by (metis fst_conv snd_conv)

lemma tick_get: "ticking clk get i o' \<Longrightarrow> get i e = (s, e') \<Longrightarrow> clk e \<le> clk e'"
  unfolding ticking_def by (metis snd_conv)

lemma wp_now:
  "ticking clk get i o' \<Longrightarrow>
   (\<And>w'. clk (w_env w) \<le> clk (w_env w') \<Longrightarrow> wp (f (clk (w_env w))) Q E w') \<Longrightarrow>
   wp (bnd (port_io (po_now o')) f) Q E w"
  by (auto simp: wp_rules split: prod.splits dest: tick_now)

lemma wp_get_tx:
  "ticking clk get i o' \<Longrightarrow>
   (\<And>s w'. clk (w_env w) \<le> clk (w_env w') \<Longrightarrow> wp (f s) Q E w') \<Longrightarrow>
   wp (bnd (port_io (get i)) f) Q E w"
  by (auto simp: wp_rules split: prod.splits dest: tick_get)

lemma tick_observe:
  assumes "ticking clk get i o'" and "po_pollMs o' \<le> ps_next st"
  shows "wp (observe_io o' s st)
           (\<lambda>st1 w'. po_pollMs o' \<le> ps_next st1 \<and> clk (w_env w) \<le> clk (w_env w')) (\<lambda>_. False) w"
  unfolding observe_io_def using assms(2)
  by (auto simp: wp_ret observe_def Let_def split: sum.splits intro!: wp_now [OF assms(1)])

lemma tick_deadline:
  assumes "ticking clk get i o'" and "t0 \<le> clk (w_env w)"
  shows "wp (deadline_verdict o' j s t st)
           (\<lambda>r w'. (r = None \<longrightarrow> t0 < po_deadlineMs o') \<and> t0 \<le> clk (w_env w')) (\<lambda>_. False) w"
  unfolding deadline_verdict_def Let_def using assms(2)
  by (auto simp: wp_ret intro!: wp_now [OF assms(1)])

lemma tick_stall:
  assumes "ticking clk get i o'"
  shows "wp (stall_verdict o' j s t st)
           (\<lambda>r w'. (r = None \<longrightarrow> clk (w_env w) < po_deadlineMs o') \<and> clk (w_env w) \<le> clk (w_env w'))
           (\<lambda>_. False) w"
  unfolding stall_verdict_def Let_def
  by (auto simp: wp_ret split: option.splits phase.splits
      intro!: wp_now [OF assms] tick_deadline [OF assms])

lemma next_ge_poll: "po_pollMs o' \<le> ps_next st \<Longrightarrow> 0 < po_pollMs o' \<Longrightarrow>
   po_pollMs o' \<le> poll_delay (po_pollMs o') st \<and> po_pollMs o' \<le> ps_next (next_poll (po_pollMs o') st)"
  by (auto simp: poll_delay_def next_poll_def max_external_delay_def)

lemma tick_wait:
  assumes "ticking clk get i o'" and "po_pollMs o' \<le> ps_next st"
  shows "wp (poll_wait o' st)
           (\<lambda>st2 w'. po_pollMs o' \<le> ps_next st2 \<and> clk (w_env w) + po_pollMs o' \<le> clk (w_env w'))
           (\<lambda>_. False) w"
proof -
  let ?d = "poll_delay (po_pollMs o') st"
  have "po_wake o' = None" and "clk (w_env w) + ?d \<le> clk (po_sleep o' ?d (w_env w))"
    and "0 < po_pollMs o'"
    using assms(1) by (simp_all add: ticking_def)
  then show ?thesis using next_ge_poll [OF assms(2)]
    by (simp add: poll_wait_def Let_def wp_rules)
qed

lemma tick_metric:
  "wp (poll_metric o' n s) (\<lambda>_ w'. w_env w' = w_env w) (\<lambda>_. False) w"
  by (simp add: poll_metric_def wp_rules)

text \<open>One poll: it answers, or the clock is still before the deadline and time passes.\<close>

lemma tick_continue:
  assumes T: "ticking clk get i o'" and N: "po_pollMs o' \<le> ps_next st" and C: "c \<le> clk (w_env w)"
    and R: "\<And>st2 w2. po_pollMs o' \<le> ps_next st2 \<Longrightarrow> c < po_deadlineMs o' \<Longrightarrow>
      c + po_pollMs o' \<le> clk (w_env w2) \<Longrightarrow> wp (k st2) (\<lambda>_ _. True) (\<lambda>_. False) w2"
  shows "wp (poll_continue j o' s u st k) (\<lambda>_ _. True) (\<lambda>_. False) w"
  unfolding poll_continue_def wp_bnd
proof (rule wp_mono [OF tick_stall [OF T]])
  fix v :: "transaction_status outcome option" and w2 :: "'a world"
  assume v: "(v = None \<longrightarrow> clk (w_env w) < po_deadlineMs o') \<and> clk (w_env w) \<le> clk (w_env w2)"
  then show "wp (case v of None \<Rightarrow> bnd (poll_wait o' st) k | Some r \<Rightarrow> ret r)
      (\<lambda>_ _. True) (\<lambda>_. False) w2"
    using C by (cases v) (auto simp: wp_ret wp_bnd intro!: wp_mono [OF tick_wait [OF T N]] R)
qed simp

lemma tick_poll:
  assumes T: "ticking clk get i o'" and N: "po_pollMs o' \<le> ps_next st"
    and R: "\<And>st2 w2. po_pollMs o' \<le> ps_next st2 \<Longrightarrow> clk (w_env w) < po_deadlineMs o' \<Longrightarrow>
      clk (w_env w) + po_pollMs o' \<le> clk (w_env w2) \<Longrightarrow> wp (k st2) (\<lambda>_ _. True) (\<lambda>_. False) w2"
  shows "wp (reconcile_poll get i o' t0 st k) (\<lambda>_ _. True) (\<lambda>_. False) w"
proof -
  have obs: "wp (bnd (observe_io o' s (st\<lparr>ps_poll := n\<rparr>)) (\<lambda>st1. case poll_answer i s of
        Some r \<Rightarrow> ret r | None \<Rightarrow> poll_continue i o' s u st1 k)) (\<lambda>_ _. True) (\<lambda>_. False) w1"
    if "clk (w_env w) \<le> clk (w_env w1)" for s n u w1
    unfolding wp_bnd
    by (rule wp_mono [OF tick_observe [OF T]])
      (use N that R in \<open>auto split: option.splits simp: wp_ret intro!: tick_continue [OF T]\<close>)
  have metric: "wp (seq (poll_metric o' nm s) m) (\<lambda>_ _. True) (\<lambda>_. False) w1"
    if "\<And>w2. w_env w2 = w_env w1 \<Longrightarrow> wp m (\<lambda>_ _. True) (\<lambda>_. False) w2" for nm s w1
    and m :: "('a, transaction_status outcome) eio"
    unfolding wp_seq by (rule wp_mono [OF tick_metric]) (use that in auto)
  show ?thesis
    unfolding reconcile_poll_def
    by (auto intro!: wp_get_tx [OF T] wp_now [OF T] metric obs)
qed

lemma reconcile_loop_returns:
  assumes T: "ticking clk get i o'"
  shows "po_pollMs o' \<le> ps_next st \<Longrightarrow>
    po_deadlineMs o' \<le> clk (w_env w) + int n * po_pollMs o' \<Longrightarrow>
    wp (reconcile_loop (Suc n) get i o' t0 st) (\<lambda>_ _. True) (\<lambda>_. False) w"
proof (induction n arbitrary: st w)
  case 0
  show ?case unfolding reconcile_loop.simps
    by (rule tick_poll [OF T]) (use 0 in simp_all)
next
  case (Suc n)
  show ?case unfolding reconcile_loop.simps(2) [of "Suc n"]
    by (rule tick_poll [OF T Suc.prems(1)], rule Suc.IH) (use Suc.prems in \<open>auto simp: algebra_simps\<close>)
qed

lemma wp_returns: "wp m (\<lambda>_ _. True) (\<lambda>_. False) w \<Longrightarrow> \<exists>r w'. m w = (Some r, w')"
  by (auto simp: wp_def split: prod.splits option.splits)

lemma reconcileUntil_fuel:
  assumes T: "ticking clk get i o'" and F: "po_deadlineMs o' \<le> clk (w_env w) + int n * po_pollMs o'"
  shows "\<exists>r w'. reconcileUntil (Suc n) get i o' w = (Some r, w')"
  unfolding reconcileUntil_def
  by (rule wp_returns, rule wp_now [OF T], rule reconcile_loop_returns [OF T])
    (use F in \<open>auto simp: initial_poll_def\<close>)

lemma tick_watch:
  assumes T: "ticking clk (a_getTransaction a) i o'"
    and R: "\<And>w2. clk (w_env w) < po_deadlineMs o' \<Longrightarrow>
      clk (w_env w) + po_pollMs o' \<le> clk (w_env w2) \<Longrightarrow> wp k (\<lambda>_ _. True) (\<lambda>_. False) w2"
  shows "wp (watch_poll a i o' t0 n k) (\<lambda>_ _. True) (\<lambda>_. False) w"
proof -
  have sleep: "wp (seq (env_io (po_sleep o' (po_pollMs o'))) k) (\<lambda>_ _. True) (\<lambda>_. False) w1"
    if "clk (w_env w) \<le> clk (w_env w1)" "clk (w_env w) < po_deadlineMs o'" for w1
  proof -
    have "clk (w_env w1) + po_pollMs o' \<le> clk (po_sleep o' (po_pollMs o') (w_env w1))"
      using T by (simp add: ticking_def)
    with that show ?thesis by (simp only: wp_seq wp_env, intro R) simp_all
  qed
  have metric: "wp (seq (poll_metric o' nm s) m) (\<lambda>_ _. True) (\<lambda>_. False) w1"
    if "\<And>w2. w_env w2 = w_env w1 \<Longrightarrow> wp m (\<lambda>_ _. True) (\<lambda>_. False) w2" for nm s w1
    and m :: "('a, transaction_status outcome) eio"
    unfolding wp_seq by (rule wp_mono [OF tick_metric]) (use that in auto)
  show ?thesis
    unfolding watch_poll_def
    by (auto split: option.splits simp: wp_ret intro!: wp_get_tx [OF T] wp_now [OF T] metric sleep)
qed

lemma watch_loop_returns:
  assumes T: "ticking clk (a_getTransaction a) i o'"
  shows "po_deadlineMs o' \<le> clk (w_env w) + int n * po_pollMs o' \<Longrightarrow>
    wp (watch_loop (Suc n) a i o' t0 k) (\<lambda>_ _. True) (\<lambda>_. False) w"
proof (induction n arbitrary: k w)
  case 0
  show ?case unfolding watch_loop.simps by (rule tick_watch [OF T]) (use 0 in simp)
next
  case (Suc n)
  show ?case unfolding watch_loop.simps(2) [of "Suc n"]
    by (rule tick_watch [OF T], rule Suc.IH) (use Suc.prems in \<open>auto simp: algebra_simps\<close>)
qed

lemma watchRefund_fuel:
  assumes T: "ticking clk (a_getTransaction a) i o'"
    and F: "po_deadlineMs o' \<le> clk (w_env w) + int n * po_pollMs o'"
  shows "\<exists>r w'. watchRefund (Suc n) a i o' w = (Some r, w')"
  unfolding watchRefund_def
  by (rule wp_returns, rule wp_now [OF T], rule watch_loop_returns [OF T]) (use F in auto)

subsection \<open>Recovery and capabilities\<close>

lemma recover_retry_iff:
  "recover c retryable n = Retry m \<longleftrightarrow> retryable \<and> n < max_retries (c_recovery c) \<and> m = n + 1"
  by (auto simp: recover_def split: rollback_t.splits)

lemma backoff_bounds: "0 < backoffMs n \<and> backoffMs n \<le> 5000"
  by (simp add: backoffMs_def)

lemma backoff_mono: "m \<le> n \<Longrightarrow> backoffMs m \<le> backoffMs n"
  unfolding backoffMs_def by (intro min.mono mult_left_mono power_increasing) simp_all

lemma checkCompatibility_ok:
  "checkCompatibility c caps strategies = Inr () \<longleftrightarrow>
     (fx_quote_source (c_fx c) = QSep38 \<longrightarrow>
        CapSep38Firm \<in> set (cap_quotes caps) \<or> CapSep38Indicative \<in> set (cap_quotes caps)) \<and>
     (\<forall>m. c_method (c_compliance c) = Some m \<longrightarrow> m = cap_kyc caps) \<and>
     cap_settlement caps \<noteq> [] \<and>
     (\<forall>k \<in> set (cap_settlement caps). \<exists>s \<in> set strategies. sg_kind s = k)"
  by (auto simp: checkCompatibility_def fail_full_def list_ex_iff find_None_iff
      split: option.splits if_splits dest!: find_Some_iff [THEN iffD1])

lemma settleQuoteProblem_None:
  "settleQuoteProblem q c = None \<longleftrightarrow>
     settle_asset_ok (m_asset (q_sourceAmount q)) c \<and>
     isSettleableAmount (m_amount (q_sourceAmount q)) STROOP_SCALE"
  by (simp add: settleQuoteProblem_def)

lemma pick_strategy_Some:
  "pick_strategy ss k ctx = Some s \<Longrightarrow> s \<in> set ss \<and> sg_kind s = k"
  by (auto simp: pick_strategy_def find_Some_iff)

text \<open>A verb that hands the payment over does it once, with the request built from the quote.\<close>

lemma wp_dispatch [wp_rules]:
  "wp (dispatch req p) Q E w =
     (case p (w_env w) of (r, e) \<Rightarrow>
        Q r (w\<lparr>w_env := e, w_events := w_events w @ [EvSubmit req, EvSubmitted r]\<rparr>))"
  by (simp add: dispatch_def wp_rules split: prod.splits)

lemma wp_settle_verb:
  assumes "\<And>e. e_code e = AMOUNT_INVALID \<or> e_code e = SETTLEMENT_FAILED \<Longrightarrow> \<not> e_retryable e \<Longrightarrow> Q (Inl e) w"
    and "\<And>r e. settleQuoteProblem q c = None \<Longrightarrow> Q r (w\<lparr>w_env := e,
      w_events := w_events w @ [EvSubmit (buildSettlementRequest op q c), EvSubmitted r]\<rparr>)"
  shows "wp (settle_verb ss op q c a) Q E w"
  using assms
  by (auto simp: settle_verb_def wp_rules fail_full_def Let_def split: option.splits prod.splits)

text \<open>The count of identical polls, and when the stall budget is spent.\<close>

lemma observe_same:
  "ps_same (observe p v t st) = (if ts_status v = ps_last st then ps_same st + 1 else 0)"
  "ps_last (observe p v t st) = ts_status v"
  by (simp_all add: observe_def Let_def)

end
