(* ===== verification/RunContext.thy ===== *)
theory RunContext
  imports Verbs
begin

section \<open>The run context (packages/engine/src/run.ts: createRunContext and its helpers)\<close>

text \<open>
  The transition and failure-handling operations a fresh and a resumed run share:
  \<open>advance\<close>, \<open>failRun\<close>, \<open>holdAndStop\<close>, \<open>refundAndStop\<close>, \<open>finishFailure\<close>, with the audit entry,
  the alert and the breaker outcome each of them reports. They act on the run of the
  session, \<open>w_run\<close>, and write it to the store.
\<close>

subsection \<open>Reporting\<close>

definition nowIO :: "'e run_env \<Rightarrow> ('e, int) eio" where
  "nowIO n = port_io (d_now (n_deps n))"

definition requestScopeOf :: "execute_options \<Rightarrow> request_scope" where
  "requestScopeOf opts =
     (if truthy (op_requestId opts) then [(''requestId'', the (op_requestId opts))] else []) @
     (if truthy (op_traceparent opts) then [(''traceparent'', the (op_traceparent opts))] else [])"

text \<open>The fields of an audit entry left out when empty.\<close>

definition clean_meta :: "advance_meta \<Rightarrow> advance_meta" where
  "clean_meta m =
     m\<lparr>am_networkFee := (if truthy (am_networkFee m) then am_networkFee m else None),
       am_checks := (if am_checks m = Some [] then None else am_checks m)\<rparr>"

definition mk_entry ::
  "'e run_env \<Rightarrow> stored_run \<Rightarrow> corridor_state \<Rightarrow> int \<Rightarrow> string option \<Rightarrow> advance_meta \<Rightarrow> audit_entry" where
  "mk_entry n run from' at err meta =
     \<lparr>ae_key = r_key run, ae_corridorId = r_corridorId run, ae_from = from', ae_to = r_state run,
      ae_version = r_version run, ae_at = at, ae_error = (if truthy err then err else None),
      ae_scope = n_scope n, ae_routeTrust = n_routeTrust n, ae_meta = clean_meta meta\<rparr>"

definition audit_io :: "'e run_env \<Rightarrow> audit_entry \<Rightarrow> ('e, unit) eio" where
  "audit_io n entry =
     (case d_audit (n_deps n) of
        None \<Rightarrow> ret ()
      | Some record' \<Rightarrow> seq (emit (EvAudit entry))
          (bnd (port_io (record' entry)) (\<lambda>ok. if ok then ret () else throw_io)))"

definition alert_io :: "'e run_env \<Rightarrow> alert_t \<Rightarrow> ('e, unit) eio" where
  "alert_io n a =
     (case d_alerting (n_deps n) of
        None \<Rightarrow> ret ()
      | Some raise \<Rightarrow> seq (emit (EvAlert a)) (bnd (port_io (raise a)) (\<lambda>_. ret ())))"

definition emitTransition ::
  "'e run_env \<Rightarrow> corridor_state \<Rightarrow> int \<Rightarrow> string option \<Rightarrow> advance_meta \<Rightarrow> ('e, unit) eio" where
  "emitTransition n from' at err meta =
     bnd get_run (\<lambda>run.
       seq (emit (EvMetric ''corridor.transition''
              [(''to'', state_name (r_state run)), (''corridor'', r_corridorId run)]))
      (seq (if isTerminal (r_state run)
            then emit (EvMetric ''corridor.terminal''
                   [(''state'', state_name (r_state run)), (''corridor'', r_corridorId run)])
            else ret ())
      (seq (audit_io n (mk_entry n run from' at err meta))
           (if r_state run = held \<or> r_state run = refund_pending then
              alert_io n \<lparr>al_kind = r_state run, al_corridorId = r_corridorId run,
                al_key = r_key run, al_txHash = r_stellarTxHash run,
                al_lastError = (case r_lastError run of Some e \<Rightarrow> Some e | None \<Rightarrow> err), al_at = at\<rparr>
            else ret ()))))"

text \<open>
  \<open>makeRecordOutcome\<close> over the metered store: a finished run is folded into the lane's row,
  and the failure that trips the lane is counted.
\<close>

definition lane_threshold :: "corridor \<Rightarrow> int" where
  "lane_threshold c = int (consecutive_failures_limit (c_recovery c))"

definition fold_lane ::
  "string \<Rightarrow> lane_outcome \<Rightarrow> int \<Rightarrow> int \<Rightarrow> string option \<Rightarrow> ('e, (breaker_metric \<times> string) list) eio" where
  "fold_lane c out at th err = (\<lambda>w.
     let (r, h, ms) = metered_record hm_record c out at th err (w_health w, [])
     in (Some ms, w\<lparr>w_health := h\<rparr>))"

definition record_lane ::
  "string \<Rightarrow> lane_outcome \<Rightarrow> int \<Rightarrow> int \<Rightarrow> string option \<Rightarrow> ('e, unit) eio" where
  "record_lane c out at th err =
     bnd (fold_lane c out at th err) (\<lambda>ms.
       seq (emit (EvLane c out at err))
         (if ms = [] then ret ()
          else emit (EvMetric ''corridor.breaker.tripped'' [(''corridor'', c)])))"

definition recordOutcome ::
  "'e run_env \<Rightarrow> corridor_state \<Rightarrow> corridor_error option \<Rightarrow> ('e, unit) eio" where
  "recordOutcome n st e =
     (if \<not> d_health (n_deps n) then ret ()
      else case breakerOutcomeFor st (map_option e_code e) of
             None \<Rightarrow> ret ()
           | Some out \<Rightarrow> bnd (nowIO n) (\<lambda>at.
               record_lane (c_id (n_corridor n)) out at (lane_threshold (n_corridor n))
                 (map_option render_error e)))"

subsection \<open>Transitions\<close>

definition msg_illegal :: "corridor_state \<Rightarrow> corridor_state \<Rightarrow> string" where
  [msg_defs]: "msg_illegal from' to =
     ''illegal transition '' @ state_name from' @ '' -> '' @ state_name to"

text \<open>\<open>run.state = to; run.version += 1; trail.push(to)\<close>, and the write that follows.\<close>

definition enter_state :: "corridor_state \<Rightarrow> ('e, unit) eio" where
  "enter_state to =
     seq (modify_io (\<lambda>w. w\<lparr>w_run := (w_run w)\<lparr>r_state := to, r_version := r_version (w_run w) + 1\<rparr>,
                            w_trail := w_trail w @ [to]\<rparr>))
         put_run"

text \<open>The gate's results: remembered on the way into \<open>verifying\<close>, repeated on the way out.\<close>

definition carry_checks ::
  "corridor_state \<Rightarrow> corridor_state \<Rightarrow> advance_meta \<Rightarrow> ('e, advance_meta) eio" where
  "carry_checks from' to meta =
     (\<lambda>w. if to = verifying then (Some meta, w\<lparr>w_checks := am_checks meta\<rparr>)
          else if from' = verifying \<and> w_checks w \<noteq> None \<and> am_checks meta = None then
            (Some (meta\<lparr>am_checks := w_checks w\<rparr>), w)
          else (Some meta, w))"

definition advance ::
  "'e run_env \<Rightarrow> corridor_state \<Rightarrow> advance_meta \<Rightarrow> ('e, unit outcome) eio" where
  "advance n to meta =
     bnd get_run (\<lambda>run.
       if \<not> canTransition (r_state run) to then
         ret (fail SETTLEMENT_FAILED (msg_illegal (r_state run) to))
       else
         bnd (carry_checks (r_state run) to meta) (\<lambda>meta'.
           seq (enter_state to)
          (bnd (nowIO n) (\<lambda>at.
           seq (emitTransition n (r_state run) at None meta') (ret (Inr ()))))))"

definition failRun ::
  "'e run_env \<Rightarrow> corridor_error \<Rightarrow> check_result list option \<Rightarrow> ('e, corridor_error) eio" where
  "failRun n e checks =
     bnd get_run (\<lambda>run.
       if \<not> canTransition (r_state run) failed then ret e
       else
         seq (set_run (\<lambda>r. r\<lparr>r_lastError := Some (render_error e)\<rparr>))
        (seq (enter_state failed)
        (bnd (nowIO n) (\<lambda>at.
         seq (emitTransition n (r_state run) at (Some (render_error e)) (no_meta\<lparr>am_checks := checks\<rparr>))
        (seq (recordOutcome n failed (Some e)) (ret e))))))"

definition die :: "'e run_env \<Rightarrow> corridor_error \<Rightarrow> check_result list option \<Rightarrow> ('e, corridor_error) eio" where
  "die n e checks =
     (\<lambda>w. failRun n e
        (case checks of Some cs \<Rightarrow> Some cs
         | None \<Rightarrow> if r_state (w_run w) = verifying then w_checks w else None) w)"

text \<open>\<open>const t = await advance(to); if (!t.ok) return die(t.error)\<close>.\<close>

definition step ::
  "'e run_env \<Rightarrow> corridor_state \<Rightarrow> advance_meta \<Rightarrow> (corridor_error \<Rightarrow> ('e, 'b) eio) \<Rightarrow> ('e, 'b) eio
    \<Rightarrow> ('e, 'b) eio" where
  "step n to meta h k = check (advance n to meta) (\<lambda>e. bnd (die n e None) h) (\<lambda>_. k)"

subsection \<open>Holding and refunding\<close>

definition refundAudit :: "refund_info option \<Rightarrow> advance_meta" where
  "refundAudit info =
     (case info of
        None \<Rightarrow> no_meta
      | Some i \<Rightarrow> no_meta\<lparr>am_amountRefunded := Some (m_amount (ri_amountRefunded i)),
                          am_amountFee := Some (m_amount (ri_amountFee i))\<rparr>)"

definition statusFrom :: "cause \<Rightarrow> transaction_status option" where
  "statusFrom c = (case c of CauseStatus v \<Rightarrow> Some v | _ \<Rightarrow> None)"

text \<open>
  \<open>Held e\<close>: the run is held and the error passed in is reported; \<open>Died e\<close>: a transition was
  refused on the way. The caller tells the two apart by the identity of the error object.
\<close>

datatype stopped = Held corridor_error | Died corridor_error

fun stop_error :: "stopped \<Rightarrow> corridor_error" where
  "stop_error (Held e) = e"
| "stop_error (Died e) = e"

definition set_lastError :: "corridor_error \<Rightarrow> ('e, unit) eio" where
  "set_lastError e = set_run (\<lambda>r. r\<lparr>r_lastError := Some (render_error e)\<rparr>)"

definition holdAndStop ::
  "'e run_env \<Rightarrow> corridor_error \<Rightarrow> transaction_status option \<Rightarrow> corridor_error \<Rightarrow> ('e, stopped) eio" where
  "holdAndStop n e status breakerCause =
     (let died = (\<lambda>e. ret (Died e));
          finish = seq (set_lastError e)
            (step n held (refundAudit (case status of Some v \<Rightarrow> ts_refunds v | None \<Rightarrow> None)) died
              (seq (recordOutcome n held (Some breakerCause)) (ret (Held e))))
      in bnd get_run (\<lambda>run.
           if r_state run \<noteq> recovering \<and> r_state run \<noteq> refund_pending
           then step n recovering no_meta died finish else finish))"

definition hold_error ::
  "'e run_env \<Rightarrow> corridor_error \<Rightarrow> corridor_error \<Rightarrow> ('e, corridor_error) eio" where
  "hold_error n e breakerCause =
     bnd (holdAndStop n e None breakerCause) (\<lambda>s. ret (stop_error s))"

text \<open>The last three statements of both refund branches.\<close>

definition finish_refunded ::
  "'e run_env \<Rightarrow> corridor_error \<Rightarrow> advance_meta \<Rightarrow> ('e, corridor_error) eio" where
  "finish_refunded n e meta =
     step n refunded meta ret (seq (recordOutcome n refunded (Some e)) (ret e))"

definition first_refund_id :: "refund_info \<Rightarrow> string option" where
  "first_refund_id i =
     (case ri_payments i of [] \<Rightarrow> None | p # _ \<Rightarrow> if rp_id p = [] then None else Some (rp_id p))"

definition refund_poll_options :: "'e session \<Rightarrow> int \<Rightarrow> 'e poll_options" where
  "refund_poll_options x now =
     (let c = n_corridor (x_env x); d = n_deps (x_env x) in
      \<lparr>po_now = d_now d, po_sleep = d_sleep d,
       po_deadlineMs = now + refund_wait_seconds (c_recovery c) * 1000,
       po_pollMs = x_pollMs x, po_stallThreshold = None, po_wake = None,
       po_externalStallMs = None, po_corridorId = Some (c_id c), po_metrics = True\<rparr>)"

definition watch_io :: "'e session \<Rightarrow> string \<Rightarrow> ('e, transaction_status outcome) eio" where
  "watch_io x txid =
     bnd (nowIO (x_env x)) (\<lambda>t. watchRefund (x_fuel x) (x_adapter x) txid (refund_poll_options x t))"

text \<open>The anchor refunds: wait for its report.\<close>

definition refund_by_anchor ::
  "'e session \<Rightarrow> corridor_error \<Rightarrow> string \<Rightarrow> ('e, corridor_error) eio" where
  "refund_by_anchor x e txid =
     (let n = x_env x in
      seq (set_lastError e)
     (step n refund_pending no_meta ret
       (check (watch_io x txid)
         (\<lambda>we. bnd (holdAndStop n we (statusFrom (e_cause we)) e) (\<lambda>s.
            ret (case s of Held _ \<Rightarrow> e | Died d \<Rightarrow> d)))
         (\<lambda>v.
            seq (set_run (\<lambda>r.
                   case ts_refunds v of
                     Some i \<Rightarrow> if \<not> hasRequestedRefund r \<and> first_refund_id i \<noteq> None
                               then r\<lparr>r_refundId := first_refund_id i\<rparr> else r
                   | None \<Rightarrow> r))
                (finish_refunded n e (refundAudit (ts_refunds v)))))))"

definition is_adapter_settled :: "stored_run \<Rightarrow> bool" where
  "is_adapter_settled r =
     (r_settlementKind r = Some KAdapter \<or> map_option ref_kind (r_settlementRef r) = Some KAdapter)"

definition refund_original :: "stored_run \<Rightarrow> settlement_ref" where
  "refund_original r =
     (case r_settlementRef r of
        Some (StellarRef h l f b) \<Rightarrow> StellarRef h l f b
      | _ \<Rightarrow> StellarRef (the (r_stellarTxHash r)) None None None)"

definition refund_request_of :: "corridor \<Rightarrow> stored_run \<Rightarrow> string \<Rightarrow> corridor_error \<Rightarrow> refund_request" where
  "refund_request_of c r amount e =
     \<lparr>rq_original = refund_original r,
      rq_amount = \<lparr>m_asset = bridge_asset (c_settlement c), m_amount = amount\<rparr>,
      rq_reason = render_error e\<rparr>"

definition msg_adapter_refund :: string where
  [msg_defs]: "msg_adapter_refund =
     ''adapter-reported settlement cannot be reversed on-chain; operator review needed''"

definition msg_no_amount :: string where
  [msg_defs]: "msg_no_amount = ''cannot refund: stored settlement amount is missing''"

definition request_refund :: "'e session \<Rightarrow> refund_request \<Rightarrow> ('e, settlement_ref outcome) eio" where
  "request_refund x rq =
     seq (emit (EvRefund rq))
       (bnd (port_io (sb_refund (d_submitter (n_deps (x_env x))) rq)) (\<lambda>r.
          seq (emit (EvRefunded r)) (ret r)))"

text \<open>The engine reverses the payment itself, if there is one and it has not done so yet.\<close>

definition refund_by_engine :: "'e session \<Rightarrow> corridor_error \<Rightarrow> ('e, corridor_error) eio" where
  "refund_by_engine x e =
     (let n = x_env x; conclude = seq (set_lastError e) (finish_refunded n e no_meta) in
      bnd get_run (\<lambda>run.
        if hasSettlementRef run then
          if is_adapter_settled run then hold_error n (mk_err REFUND_UNSUPPORTED msg_adapter_refund) e
          else if \<not> hasRequestedRefund run then
            if \<not> truthy (r_settlementAmount run) then
              hold_error n (mk_err SETTLEMENT_FAILED msg_no_amount) e
            else
              check (request_refund x
                       (refund_request_of (n_corridor n) run (the (r_settlementAmount run)) e))
                (\<lambda>re. hold_error n re e)
                (\<lambda>ref. seq (set_run (\<lambda>r. r\<lparr>r_refundId := Some (settlementId ref)\<rparr>)) conclude)
          else conclude
        else conclude))"

definition refundAndStop :: "'e session \<Rightarrow> corridor_error \<Rightarrow> ('e, corridor_error) eio" where
  "refundAndStop x e =
     (let body = bnd get_run (\<lambda>run.
            if hasSettlementRef run \<and> truthy (r_transactionId run) \<and> anchorTerminalStatus e \<noteq> None
            then refund_by_anchor x e (the (r_transactionId run))
            else refund_by_engine x e)
      in bnd get_run (\<lambda>run.
           if r_state run \<noteq> recovering then step (x_env x) recovering no_meta ret body else body))"

definition finishFailure :: "'e session \<Rightarrow> corridor_error \<Rightarrow> ('e, corridor_error) eio" where
  "finishFailure x e =
     (case rollback (c_recovery (n_corridor (x_env x))) of
        RefundSender \<Rightarrow> refundAndStop x e
      | RollbackHold \<Rightarrow> hold_error (x_env x) e e
      | RollbackManual \<Rightarrow> die (x_env x) e None)"

text \<open>\<open>return handler(...)\<close> in a function that returns an outcome.\<close>

definition refuse :: "('e, corridor_error) eio \<Rightarrow> ('e, 'a outcome) eio" where
  "refuse m = bnd m (\<lambda>e. ret (Inl e))"

end
