(* ===== verification/Run.thy ===== *)
theory Run
  imports RunContext
begin

section \<open>A fresh run (packages/engine/src/run.ts: execute)\<close>

text \<open>
  \<open>execute\<close> in the order of the source: the guards that refuse before anything is claimed,
  the claim, the route, the checks on the route and the quote provider, quote / comply /
  open, source funding, the settle-and-reconcile loop, completion. A resumed run is a
  parameter here (\<open>resume\<close>); the theory Resume supplies it.
\<close>

record run_result =
  rr_key :: string
  rr_state :: corridor_state
  rr_transactionId :: "string option"
  rr_stellarTxHash :: "string option"
  rr_settlementKind :: "settlement_kind option"
  rr_settlementRef :: "settlement_ref option"
  rr_trail :: "corridor_state list"

definition toResult :: "stored_run \<Rightarrow> corridor_state list \<Rightarrow> run_result" where
  "toResult r trail =
     \<lparr>rr_key = r_key r, rr_state = r_state r, rr_transactionId = r_transactionId r,
      rr_stellarTxHash = r_stellarTxHash r, rr_settlementKind = r_settlementKind r,
      rr_settlementRef = r_settlementRef r, rr_trail = trail\<rparr>"

text \<open>Settings derived from the manifest and the dependencies.\<close>

definition pollMs_of :: "'e engine_deps \<Rightarrow> corridor \<Rightarrow> int" where
  "pollMs_of d c =
     (case poll_seconds (reconcile_opts (c_recovery c)) of
        Some p \<Rightarrow> p * 1000
      | None \<Rightarrow> (case d_reconcilePollMs d of Some p \<Rightarrow> p | None \<Rightarrow> 2000))"

definition stallThreshold_of :: "'e engine_deps \<Rightarrow> corridor \<Rightarrow> int" where
  "stallThreshold_of d c =
     (case stall_polls (reconcile_opts (c_recovery c)) of
        Some p \<Rightarrow> p
      | None \<Rightarrow> (case d_stallThreshold d of Some p \<Rightarrow> p | None \<Rightarrow> 10))"

definition externalStallBudgetMs :: "corridor \<Rightarrow> int" where
  "externalStallBudgetMs c =
     min (external_stall_seconds (reconcile_opts (c_recovery c))) (timeout_seconds (c_recovery c)) * 1000"

definition truncate_text :: "string \<Rightarrow> nat \<Rightarrow> string" where
  "truncate_text s n =
     (if length s \<le> n then s else take (n - 1) s @ [CHR 0xE2, CHR 0x80, CHR 0xA6])"

subsection \<open>The guards before the claim\<close>

definition msg_no_gate :: string where
  [msg_defs]: "msg_no_gate = ''pre-settle gate is required; supply deps.gate or explicitly opt out with deps.unsafeSkipPreSettleGate = true''"

definition msg_not_positive :: "string \<Rightarrow> string" where
  [msg_defs]: "msg_not_positive a = ''sourceAmount '' @ in_quotes a @ '' is not a positive decimal amount''"

fun liveness_name :: "liveness_state \<Rightarrow> string" where
  "liveness_name Proven = ''proven''"
| "liveness_name Verified = ''verified''"
| "liveness_name Unverified = ''unverified''"
| "liveness_name NotRunnable = ''not-runnable''"

definition msg_not_live :: "corridor \<Rightarrow> liveness_state \<Rightarrow> string" where
  [msg_defs]: "msg_not_live c l =
     ''corridor '' @ c_id c @ '' is '' @ liveness_name l @ '' on the public network and cannot accept payments''"

definition msg_below_min :: "string \<Rightarrow> corridor \<Rightarrow> string \<Rightarrow> string" where
  [msg_defs]: "msg_below_min a c m =
     ''sourceAmount '' @ in_quotes a @ '' is below corridor '' @ c_id c @ '' min_amount '' @ m"

definition msg_above_max :: "string \<Rightarrow> corridor \<Rightarrow> string \<Rightarrow> string" where
  [msg_defs]: "msg_above_max a c m =
     ''sourceAmount '' @ in_quotes a @ '' exceeds corridor '' @ c_id c @ '' max_amount '' @ m"

definition msg_above_cap :: "string \<Rightarrow> corridor \<Rightarrow> string \<Rightarrow> string" where
  [msg_defs]: "msg_above_cap a c m =
     ''sourceAmount '' @ in_quotes a @ '' exceeds corridor '' @ c_id c @ '' unproven canary cap '' @ m"

definition max_limit :: "corridor \<Rightarrow> string option" where
  "max_limit c = (case c_limits c of Some l \<Rightarrow> max_amount l | None \<Rightarrow> None)"

definition min_limit :: "corridor \<Rightarrow> string option" where
  "min_limit c = (case c_limits c of Some l \<Rightarrow> min_amount l | None \<Rightarrow> None)"

definition canaryCap :: "'e engine_deps \<Rightarrow> corridor \<Rightarrow> string" where
  "canaryCap d c =
     (case (case c_proof c of Some p \<Rightarrow> canary_max_amount p | None \<Rightarrow> None) of
        Some m \<Rightarrow> m
      | None \<Rightarrow> (case d_unprovenMaxAmount d of Some m \<Rightarrow> m | None \<Rightarrow> ''10''))"

definition effectiveCap :: "'e engine_deps \<Rightarrow> corridor \<Rightarrow> bool \<Rightarrow> string option outcome" where
  "effectiveCap d c unproven =
     (if unproven \<and> truthy (max_limit c) then
        case compareAmounts (the (max_limit c)) (canaryCap d c) STROOP_SCALE of
          Inl e \<Rightarrow> Inl e
        | Inr v \<Rightarrow> Inr (Some (if v \<le> 0 then the (max_limit c) else canaryCap d c))
      else Inr (if unproven then Some (canaryCap d c) else max_limit c))"

text \<open>\<open>if (bound) { compare; refuse with err(bound) if bad }\<close>.\<close>

definition bound_guard ::
  "string \<Rightarrow> string option \<Rightarrow> (int \<Rightarrow> bool) \<Rightarrow> (string \<Rightarrow> corridor_error) \<Rightarrow> unit outcome" where
  "bound_guard amount bound bad err =
     (case bound of
        None \<Rightarrow> Inr ()
      | Some b \<Rightarrow>
          if b = [] then Inr ()
          else case compareAmounts amount b STROOP_SCALE of
                 Inl e' \<Rightarrow> Inl e'
               | Inr v \<Rightarrow> if bad v then Inl (err b) else Inr ())"

definition amount_guards ::
  "corridor \<Rightarrow> liveness_state \<Rightarrow> string option \<Rightarrow> string \<Rightarrow> unit outcome" where
  "amount_guards c live cap amount =
     (if network (c_settlement c) = PublicNet \<and> (live = Unverified \<or> live = NotRunnable) then
        fail CORRIDOR_UNPROVEN (msg_not_live c live)
      else
        case bound_guard amount (min_limit c) (\<lambda>v. v < 0)
               (\<lambda>m. mk_err AMOUNT_INVALID (msg_below_min amount c m)) of
          Inl e \<Rightarrow> Inl e
        | Inr _ \<Rightarrow>
            (case bound_guard amount (max_limit c) (\<lambda>v. v > 0)
                    (\<lambda>m. mk_err AMOUNT_INVALID (msg_above_max amount c m)) of
               Inl e \<Rightarrow> Inl e
             | Inr _ \<Rightarrow>
                 if live \<noteq> Proven then
                   bound_guard amount cap (\<lambda>v. v > 0)
                     (\<lambda>m. mk_err CORRIDOR_UNPROVEN (msg_above_cap amount c m))
                 else Inr ()))"

definition emitVerification ::
  "'e run_env \<Rightarrow> payment_intent \<Rightarrow> int \<Rightarrow> liveness_state \<Rightarrow> string option \<Rightarrow> ('e, unit) eio" where
  "emitVerification n intent at live cap =
     (let dt = \<lparr>ad_key = idempotencyKey intent, ad_corridorId = c_id (n_corridor n), ad_at = at,
                ad_scope = n_scope n, ad_liveness = live, ad_effectiveCap = cap\<rparr>
      in case d_auditDetail (n_deps n) of
           None \<Rightarrow> ret ()
         | Some f \<Rightarrow> seq (emit (EvDetail dt)) (bnd (port_io (f dt)) (\<lambda>ok. if ok then ret () else throw_io)))"

text \<open>Lines 307-391: everything that can refuse before the store is read.\<close>

definition pre_claim :: "'e run_env \<Rightarrow> payment_intent \<Rightarrow> ('e, unit outcome) eio" where
  "pre_claim n intent =
     (let d = n_deps n; c = n_corridor n; amount = m_amount (sourceAmount intent) in
      if d_gate d = None \<and> \<not> d_unsafeSkipGate d then ret (fail ENGINE_MISCONFIGURED msg_no_gate)
      else if \<not> isSettleableAmount amount STROOP_SCALE then
        ret (fail AMOUNT_INVALID (msg_not_positive amount))
      else
        bnd (nowIO n) (\<lambda>at.
          let live = lv_state (liveness (d_parseDate d) c at) in
          case effectiveCap d c (live \<noteq> Proven) of
            Inl e \<Rightarrow> ret (Inl e)
          | Inr cap \<Rightarrow>
              seq (emitVerification n intent at live cap) (ret (amount_guards c live cap amount))))"

subsection \<open>Idempotency, breaker and claim\<close>

definition msg_in_flight :: "string \<Rightarrow> corridor_state \<Rightarrow> string" where
  [msg_defs]: "msg_in_flight k st =
     ''idempotencyKey '' @ k @ '' already in-flight (state='' @ state_name st @ '')''"

definition msg_claimed :: "string \<Rightarrow> string" where
  [msg_defs]: "msg_claimed k = ''idempotencyKey '' @ k @ '' already claimed by a concurrent run''"

definition msg_halted :: "corridor \<Rightarrow> breaker_record \<Rightarrow> string" where
  [msg_defs]: "msg_halted c b =
     ''corridor '' @ c_id c @ '' is halted after '' @ show_nat (b_failures b) @ '' consecutive failures'' @
     (if truthy (b_lastError b) then '' (last: '' @ truncate_text (the (b_lastError b)) 200 @ '')'' else '''') @
     ''. This is a deliberate stop, not a payment problem: investigate the lane, then reopen it with '' @
     [CHR 0x60] @ ''corridor breaker reset '' @ c_id c @ '' --reason '' @
     in_quotes [CHR 0xE2, CHR 0x80, CHR 0xA6] @ [CHR 0x60] @ ''.''"

definition new_run :: "'e run_env \<Rightarrow> payment_intent \<Rightarrow> execute_options \<Rightarrow> stored_run" where
  "new_run n intent opts =
     \<lparr>r_key = idempotencyKey intent, r_corridorId = c_id (n_corridor n),
      r_manifestHash = Some (d_hashCorridor (n_deps n) (n_corridor n)),
      r_state = created, r_version = 0, r_transactionId = None, r_sourceTransactionId = None,
      r_quoteId = None, r_quoteExpiresAt = None, r_quoteFirm = None, r_settlementAmount = None,
      r_stellarTxHash = None, r_settlementKind = None, r_settlementRef = None,
      r_depositAddress = None, r_memo = None, r_memoType = None, r_refundId = None,
      r_settlement = None, r_lastError = None, r_owner = op_owner opts\<rparr>"

text \<open>The session begins: the run object, its trail, no gate results.\<close>

definition begin_session :: "stored_run \<Rightarrow> ('e, unit) eio" where
  "begin_session r = modify_io (\<lambda>w. w\<lparr>w_run := r, w_trail := [r_state r], w_checks := None\<rparr>)"

definition breaker_guard :: "'e run_env \<Rightarrow> ('e, unit outcome) eio" where
  "breaker_guard n =
     (if \<not> d_health (n_deps n) then ret (Inr ())
      else
        bnd (gets_io (\<lambda>w. hm_get (w_health w) (c_id (n_corridor n)))) (\<lambda>b.
          case b of
            None \<Rightarrow> ret (Inr ())
          | Some r \<Rightarrow>
              if b_state r = BOpen then
                seq (emit (EvMetric ''corridor.breaker.refused'' [(''corridor'', c_id (n_corridor n))]))
                  (ret (fail CORRIDOR_HALTED (msg_halted (n_corridor n) r)))
              else ret (Inr ())))"

definition msg_route_refused :: "corridor \<Rightarrow> string \<Rightarrow> string" where
  [msg_defs]: "msg_route_refused c reason =
     ''route resolver refused corridor '' @ c_id c @ '': '' @ reason"

definition resolveRoute :: "'e run_env \<Rightarrow> payment_intent \<Rightarrow> ('e, 'e route outcome) eio" where
  "resolveRoute n intent =
     bnd (port_io (d_resolve (n_deps n) intent (n_corridor n))) (\<lambda>r.
       ret (case r of
              Inl reason \<Rightarrow> fail_full ROUTE_REFUSED (msg_route_refused (n_corridor n) reason) False CauseOther
            | Inr route \<Rightarrow> Inr route))"

subsection \<open>The checks on the route\<close>

definition msg_manifest_trust :: string where
  [msg_defs]: "msg_manifest_trust = ''refusing manifest route trust on public network without explicit { trustManifestWithoutAttestation: true }. Use RegistryRouteResolver for verified routing.''"

definition msg_external_risk :: "corridor \<Rightarrow> string" where
  [msg_defs]: "msg_external_risk c =
     ''corridor '' @ c_id c @ '': fx.quote_source '' @ in_quotes ''external'' @ '' with who_holds_risk '' @
     in_quotes ''receiving_anchor'' @ '' requires an adapter that reports firm native quotes; a non-firm external rate cannot bind the receiving anchor''"

definition msg_no_external :: "corridor \<Rightarrow> string" where
  [msg_defs]: "msg_no_external c =
     ''corridor '' @ c_id c @ '' sets fx.quote_source '' @ in_quotes ''external'' @
     '' but no EngineDeps.externalQuote was provided''"

definition msg_no_native :: "corridor \<Rightarrow> string" where
  [msg_defs]: "msg_no_native c =
     ''corridor '' @ c_id c @ '': fx.quote_source '' @ in_quotes ''native'' @
     '' requires an adapter that reports native quotes''"

definition untrusted_public :: "'e engine_deps \<Rightarrow> execute_options \<Rightarrow> corridor \<Rightarrow> route_trust \<Rightarrow> bool" where
  "untrusted_public d opts c trust =
     (network (c_settlement c) = PublicNet \<and> trust = ManifestTrust \<and>
      \<not> d_trustManifest d \<and> \<not> op_trustManifest opts)"

definition pick_provider ::
  "'e engine_deps \<Rightarrow> corridor \<Rightarrow> 'e adapter \<Rightarrow> 'e quote_provider option outcome" where
  "pick_provider d c a =
     (let native = List.member (cap_quotes (a_capabilities a)) CapNative in
      case d_quoteProvider d of
        Some f \<Rightarrow> Inr (Some (f c a))
      | None \<Rightarrow>
          (case fx_quote_source (c_fx c) of
             QExternal \<Rightarrow>
               if who_holds_risk (c_fx c) = RiskReceivingAnchor \<and> \<not> native then
                 fail MANIFEST_INVALID (msg_external_risk c)
               else
                 (case d_externalQuote d of
                    None \<Rightarrow> fail QUOTE_UNAVAILABLE (msg_no_external c)
                  | Some fn \<Rightarrow> Inr (Some (externalQuote fn (d_now d) 0)))
           | QNative \<Rightarrow>
               if \<not> native then fail MANIFEST_INVALID (msg_no_native c)
               else Inr (Some (a_requestQuote a))
           | QSep38 \<Rightarrow> Inr None))"

definition strategies_of :: "'e engine_deps \<Rightarrow> 'e adapter \<Rightarrow> 'e strategy list" where
  "strategies_of d a =
     (case d_strategies d of
        Some ss \<Rightarrow> ss
      | None \<Rightarrow> defaultStrategies (d_hostNow d) (d_submitter d) (Some a))"

text \<open>Lines 501-562: \<open>Inl\<close> the error the run dies with, \<open>Inr\<close> the quote provider.\<close>

definition route_checks ::
  "'e engine_deps \<Rightarrow> execute_options \<Rightarrow> corridor \<Rightarrow> 'e route \<Rightarrow> 'e quote_provider option outcome" where
  "route_checks d opts c route =
     (let a = rt_receiving route in
      case checkCompatibility c (a_capabilities a) (strategies_of d a) of
        Inl e \<Rightarrow> Inl (mk_err (e_code e) (e_message e))
      | Inr _ \<Rightarrow>
          if untrusted_public d opts c (rt_trust route) then fail MANIFEST_INVALID msg_manifest_trust
          else pick_provider d c a)"

subsection \<open>Quote, comply, open\<close>

definition fatal :: "'e session \<Rightarrow> corridor_error \<Rightarrow> ('e, 'a outcome) eio" where
  "fatal x e = refuse (die (x_env x) e None)"

definition stepR ::
  "'e session \<Rightarrow> corridor_state \<Rightarrow> advance_meta \<Rightarrow> ('e, 'a outcome) eio \<Rightarrow> ('e, 'a outcome) eio" where
  "stepR x to meta k = step (x_env x) to meta (\<lambda>e. ret (Inl e)) k"

definition do_quote ::
  "'e session \<Rightarrow> payment_intent \<Rightarrow> 'e quote_provider option
    \<Rightarrow> (quote_t \<Rightarrow> ('e, 'a outcome) eio) \<Rightarrow> ('e, 'a outcome) eio" where
  "do_quote x intent provider k =
     (let n = x_env x; d = n_deps n in
      check (timed d ''quote'' (quote_verb d (x_adapter x) intent (n_corridor n) provider)) (fatal x)
        (\<lambda>q. seq (set_run (\<lambda>r. r\<lparr>r_quoteId := Some (q_id q), r_quoteExpiresAt := Some (q_expiresAt q),
                  r_quoteFirm := Some (q_firm q),
                  r_settlementAmount := Some (m_amount (q_sourceAmount q))\<rparr>))
               (stepR x quoted no_meta (k q))))"

definition do_comply ::
  "'e session \<Rightarrow> payment_intent \<Rightarrow> ('e, 'a outcome) eio \<Rightarrow> ('e, 'a outcome) eio" where
  "do_comply x intent k =
     (let n = x_env x; d = n_deps n; next = stepR x compliant no_meta k in
      if cap_kyc (a_capabilities (x_adapter x)) \<noteq> M_none then
        check (timed d ''comply'' (comply_verb (x_adapter x) intent (n_corridor n))) (fatal x) (\<lambda>_. next)
      else next)"

definition do_open ::
  "'e session \<Rightarrow> payment_intent \<Rightarrow> quote_t \<Rightarrow> (open_transaction \<Rightarrow> ('e, 'a outcome) eio)
    \<Rightarrow> ('e, 'a outcome) eio" where
  "do_open x intent q k =
     (let n = x_env x; d = n_deps n in
      check (timed d ''open'' (open_verb (x_adapter x) intent q (n_corridor n))) (fatal x)
        (\<lambda>op. seq (set_run (\<lambda>r. r\<lparr>r_transactionId := Some (o_transactionId op),
                  r_depositAddress := l_depositAddress (toLegacy op),
                  r_memo := l_memo (toLegacy op), r_memoType := l_memoType (toLegacy op)\<rparr>))
                (stepR x opened no_meta (k op))))"

subsection \<open>Source funding\<close>

definition msg_dry_source :: string where
  [msg_defs]: "msg_dry_source = ''dry run stopped before source funding; non-prefunded gate checks require a funded treasury''"

fun source_name :: "source_protocol \<Rightarrow> string" where
  "source_name Prefunded = ''prefunded''"
| "source_name SrcSep6 = ''sep6''"
| "source_name SrcSep24 = ''sep24''"
| "source_name (SrcCustom s) = ''custom:'' @ s"

definition msg_no_sending :: "corridor \<Rightarrow> string" where
  [msg_defs]: "msg_no_sending c =
     ''corridor '' @ c_id c @ '' requires a sending adapter for protocol '' @
     source_name (s_protocol (c_source c))"

definition source_poll_options :: "'e session \<Rightarrow> int \<Rightarrow> 'e poll_options" where
  "source_poll_options x now =
     (let c = n_corridor (x_env x); d = n_deps (x_env x) in
      \<lparr>po_now = d_now d, po_sleep = d_sleep d,
       po_deadlineMs = now + timeout_seconds (c_recovery c) * 1000,
       po_pollMs = x_pollMs x, po_stallThreshold = Some (stallThreshold_of d c), po_wake = None,
       po_externalStallMs = None, po_corridorId = None, po_metrics = False\<rparr>)"

definition waitForSourceDeposit ::
  "'e session \<Rightarrow> 'e source_adapter \<Rightarrow> string \<Rightarrow> ('e, unit outcome) eio" where
  "waitForSourceDeposit x sa txid =
     bnd (nowIO (x_env x)) (\<lambda>t.
       bnd (reconcileUntil (x_fuel x) (sa_getDeposit sa) txid (source_poll_options x t)) (\<lambda>r.
         ret (case r of Inl e \<Rightarrow> Inl e | Inr _ \<Rightarrow> Inr ())))"

text \<open>\<open>openDeposit\<close>, and the write that records its transaction id before anything is awaited.\<close>

definition save_source :: "string \<Rightarrow> ('e, unit) eio" where
  "save_source txid =
     seq (set_run (\<lambda>r. r\<lparr>r_sourceTransactionId := Some txid, r_version := r_version r + 1\<rparr>)) put_run"

definition open_deposit ::
  "'e session \<Rightarrow> 'e source_adapter \<Rightarrow> payment_intent \<Rightarrow> ('e, 'a outcome) eio \<Rightarrow> ('e, 'a outcome) eio" where
  "open_deposit x sa intent k =
     seq (emit EvDeposit)
       (check (port_io (sa_openDeposit sa intent (n_corridor (x_env x))))
         (\<lambda>e. refuse (finishFailure x e))
         (\<lambda>txid. seq (save_source txid) k))"

definition await_deposit ::
  "'e session \<Rightarrow> 'e source_adapter \<Rightarrow> ('e, 'a outcome) eio \<Rightarrow> ('e, 'a outcome) eio" where
  "await_deposit x sa k =
     bnd get_run (\<lambda>r.
       check (waitForSourceDeposit x sa (the (r_sourceTransactionId r)))
         (\<lambda>e. refuse (finishFailure x e)) (\<lambda>_. k))"

definition do_funding ::
  "'e session \<Rightarrow> execute_options \<Rightarrow> payment_intent \<Rightarrow> 'e source_adapter option
    \<Rightarrow> ('e, 'a outcome) eio \<Rightarrow> ('e, 'a outcome) eio" where
  "do_funding x opts intent sending k =
     (let c = n_corridor (x_env x) in
      if s_protocol (c_source c) = Prefunded then k
      else if op_dryRun opts then
        fatal x \<lparr>e_code = DRY_RUN_COMPLETE, e_message = msg_dry_source, e_retryable = False,
                  e_cause = CauseDryRun []\<rparr>
      else
        case sending of
          None \<Rightarrow> fatal x (mk_err ENGINE_MISCONFIGURED (msg_no_sending c))
        | Some sa \<Rightarrow>
            stepR x funding no_meta
              (open_deposit x sa intent (await_deposit x sa (stepR x funded no_meta k))))"

subsection \<open>The settle loop\<close>

definition msg_corridor_timeout :: "corridor \<Rightarrow> string" where
  [msg_defs]: "msg_corridor_timeout c =
     ''corridor '' @ c_id c @ '' exceeded '' @ show_int (timeout_seconds (c_recovery c)) @ ''s''"

definition msg_expired_retry :: "string \<Rightarrow> string" where
  [msg_defs]: "msg_expired_retry q = ''quote '' @ q @ '' expired during retry''"

definition msg_expired_settle :: "string \<Rightarrow> string" where
  [msg_defs]: "msg_expired_settle q = ''quote '' @ q @ '' expired before settlement after source funding''"

definition msg_dry_run :: "nat \<Rightarrow> string \<Rightarrow> string" where
  [msg_defs]: "msg_dry_run n txid =
     ''dry run stopped before settling after '' @ show_nat n @
     '' pre-settle check(s) passed; anchor transaction '' @ txid @ '' was opened and will not be funded''"

text \<open>\<open>if (run.sourceTransactionId) return holdAndStop(e); return other\<close>.\<close>

definition hold_if_funded ::
  "'e session \<Rightarrow> corridor_error \<Rightarrow> ('e, corridor_error) eio \<Rightarrow> ('e, 'a outcome) eio" where
  "hold_if_funded x e other =
     bnd get_run (\<lambda>r.
       refuse (if truthy (r_sourceTransactionId r) then hold_error (x_env x) e e else other))"

definition quote_expired ::
  "'e session \<Rightarrow> quote_t \<Rightarrow> corridor_error \<Rightarrow> ('e, 'a outcome) eio \<Rightarrow> ('e, 'a outcome) eio" where
  "quote_expired x q e k =
     (if \<not> q_firm q then k
      else bnd (nowIO (x_env x)) (\<lambda>t.
        if ms_le (q_expiresAt q) t then hold_if_funded x e (finishFailure x e) else k))"

definition skippedCheck :: check_result where
  "skippedCheck = \<lparr>cr_name = ''gate.skipped'', cr_passed = True, cr_code = None,
     cr_detail = ''unsafeSkipPreSettleGate'', cr_durationMs = 0\<rparr>"

definition bool_name :: "bool \<Rightarrow> string" where
  "bool_name b = (if b then ''true'' else ''false'')"

fun check_metrics :: "check_result list \<Rightarrow> ('e, unit) eio" where
  "check_metrics [] = ret ()"
| "check_metrics (r # rs) =
     seq (emit (EvMetric ''corridor.gate.check''
            [(''name'', cr_name r), (''passed'', bool_name (cr_passed r))]))
         (check_metrics rs)"

definition with_checks :: "check_result list \<Rightarrow> advance_meta" where
  "with_checks cs = no_meta\<lparr>am_checks := Some cs\<rparr>"

definition gate_refused ::
  "'e session \<Rightarrow> gate_result \<Rightarrow> ('e, 'a outcome) eio" where
  "gate_refused x res =
     (case find (\<lambda>r. \<not> cr_passed r) (gr_results res) of
        None \<Rightarrow> throw_io
      | Some f \<Rightarrow>
          let e = mk_err (case cr_code f of Some c \<Rightarrow> c | None \<Rightarrow> SETTLEMENT_FAILED) (cr_detail f)
          in hold_if_funded x e (die (x_env x) e (Some (gr_results res))))"

definition gate_phase ::
  "'e session \<Rightarrow> payment_intent \<Rightarrow> quote_t \<Rightarrow> open_transaction \<Rightarrow> nat
    \<Rightarrow> (check_result list \<Rightarrow> ('e, 'a outcome) eio) \<Rightarrow> ('e, 'a outcome) eio" where
  "gate_phase x intent q op attempt k =
     (let n = x_env x in
      case d_gate (n_deps n) of
        None \<Rightarrow>
          seq (check_metrics [skippedCheck])
            (stepR x verifying (with_checks [skippedCheck]) (k [skippedCheck]))
      | Some gate \<Rightarrow>
          bnd (nowIO n) (\<lambda>t. bnd (nowIO n) (\<lambda>begin'.
            bnd (port_io (gate \<lparr>g_intent = intent, g_corridor = n_corridor n, g_quote = q,
                               g_opened = op, g_now = t, g_attempt = attempt\<rparr>)) (\<lambda>r.
              case r of
                Inl msg \<Rightarrow>
                  bnd (advance n verifying no_meta) (\<lambda>_.
                    hold_if_funded x (mk_err SETTLEMENT_FAILED msg)
                      (die n (mk_err SETTLEMENT_FAILED msg) None))
              | Inr res \<Rightarrow>
                  bnd (nowIO n) (\<lambda>end'.
                    seq (emit (EvTiming ''corridor.verb.verify'' (end' - begin')))
                   (seq (check_metrics (gr_results res))
                     (stepR x verifying (with_checks (gr_results res))
                       (if \<not> gr_passed res then gate_refused x res else k (gr_results res)))))))))"

text \<open>\<open>findExisting\<close> first, when the submitter has it and the payment is a Stellar one.\<close>

definition find_io ::
  "(settlement_request \<Rightarrow> ('e, settlement_ref option outcome) port) \<Rightarrow> settlement_request
    \<Rightarrow> ('e, settlement_ref option outcome) eio" where
  "find_io f req = seq (emit (EvFind req)) (port_io (f req))"

definition find_or_settle ::
  "'e session \<Rightarrow> quote_t \<Rightarrow> open_transaction \<Rightarrow> (settlement_ref outcome \<Rightarrow> ('e, 'a outcome) eio)
    \<Rightarrow> ('e, 'a outcome) eio" where
  "find_or_settle x q op k =
     (let d = n_deps (x_env x); c = n_corridor (x_env x); a = x_adapter x;
          pay = bnd (timed d ''settle'' (settle_verb (strategies_of d a) op q c a)) k
      in case sb_findExisting (d_submitter d) of
           None \<Rightarrow> pay
         | Some f \<Rightarrow>
             if instructionsKind op = StellarPayment then
               check (timed d ''findExisting'' (find_io f (buildSettlementRequest op q c)))
                 (\<lambda>e. refuse (finishFailure x e))
                 (\<lambda>v. case v of Some ref \<Rightarrow> k (Inr ref) | None \<Rightarrow> pay)
             else pay)"

definition settlementRequestFor :: "open_transaction \<Rightarrow> quote_t \<Rightarrow> corridor \<Rightarrow> settlement_request" where
  "settlementRequestFor op q c = (buildSettlementRequest op q c)\<lparr>sr_validUntil := None\<rparr>"

text \<open>The evidence of a settlement on the run object.\<close>

definition record_settlement :: "settlement_ref \<Rightarrow> settlement_request \<Rightarrow> ('e, unit) eio" where
  "record_settlement ref req =
     set_run (\<lambda>r. r\<lparr>r_settlementKind := Some (ref_kind ref), r_settlementRef := Some ref,
       r_stellarTxHash := (case ref of StellarRef h _ _ _ \<Rightarrow> Some h | AdapterRef _ _ \<Rightarrow> r_stellarTxHash r),
       r_settlement := Some \<lparr>st_to = sr_to req, st_memo = sr_memo req,
                             st_memoType = sr_memoType req, st_amount = sr_amount req\<rparr>\<rparr>)"

definition networkFee :: "settlement_ref \<Rightarrow> string option" where
  "networkFee ref = (case ref of StellarRef _ _ fee _ \<Rightarrow> fee | AdapterRef _ _ \<Rightarrow> None)"

definition verifyOnChain ::
  "'e engine_deps \<Rightarrow> settlement_ref \<Rightarrow> settlement_request \<Rightarrow> ('e, unit outcome) eio" where
  "verifyOnChain d ref req =
     (case d_chainVerifier d of
        None \<Rightarrow> ret (Inr ())
      | Some f \<Rightarrow>
          if ref_kind ref \<noteq> KStellar then ret (Inr ())
          else bnd (port_io (f ref req)) (\<lambda>r.
            ret (case r of
                   Inr _ \<Rightarrow> Inr ()
                 | Inl e \<Rightarrow> fail_full (e_code e) (e_message e) False (e_cause e))))"

definition reconcile_poll_options :: "'e session \<Rightarrow> string \<Rightarrow> int \<Rightarrow> 'e poll_options" where
  "reconcile_poll_options x txid deadline =
     (let c = n_corridor (x_env x); d = n_deps (x_env x) in
      \<lparr>po_now = d_now d, po_sleep = d_sleep d, po_deadlineMs = deadline, po_pollMs = x_pollMs x,
       po_stallThreshold = Some (stallThreshold_of d c),
       po_wake = map_option (\<lambda>sig. sig txid) (d_waker d),
       po_externalStallMs = Some (externalStallBudgetMs c), po_corridorId = Some (c_id c),
       po_metrics = True\<rparr>)"

definition reconcile_io :: "'e session \<Rightarrow> string \<Rightarrow> int \<Rightarrow> ('e, transaction_status outcome) eio" where
  "reconcile_io x txid deadline =
     reconcileUntil (x_fuel x) (a_getTransaction (x_adapter x)) txid (reconcile_poll_options x txid deadline)"

text \<open>From a settlement reference to \<open>reconciled\<close> (lines 817-864).\<close>

definition settle_onward ::
  "'e session \<Rightarrow> quote_t \<Rightarrow> open_transaction \<Rightarrow> int \<Rightarrow> settlement_ref \<Rightarrow> ('e, 'a outcome) eio
    \<Rightarrow> ('e, 'a outcome) eio" where
  "settle_onward x q op deadline ref k =
     (let d = n_deps (x_env x);
          req = settlementRequestFor op q (n_corridor (x_env x));
          rest = check (timed d ''reconcile'' (reconcile_io x (o_transactionId op) deadline))
                   (\<lambda>e. refuse (finishFailure x e))
                   (\<lambda>_. stepR x reconciled no_meta k)
      in seq (record_settlement ref req)
           (stepR x settled (no_meta\<lparr>am_quoteFee := q_fee q, am_networkFee := networkFee ref\<rparr>)
             (if ref_kind ref = KStellar then
                check (timed d ''verify'' (verifyOnChain d ref req))
                  (\<lambda>e. refuse (finishFailure x e)) (\<lambda>_. rest)
              else rest)))"

definition dry_stop :: "'e session \<Rightarrow> open_transaction \<Rightarrow> check_result list \<Rightarrow> ('e, 'a outcome) eio" where
  "dry_stop x op cs =
     refuse (die (x_env x)
       \<lparr>e_code = DRY_RUN_COMPLETE, e_message = msg_dry_run (length cs) (o_transactionId op),
        e_retryable = False, e_cause = CauseDryRun cs\<rparr> (Some cs))"

text \<open>One pass of the loop up to the answer of the settlement; \<open>k\<close> takes it from there.\<close>

definition settle_pass ::
  "'e session \<Rightarrow> execute_options \<Rightarrow> payment_intent \<Rightarrow> quote_t \<Rightarrow> open_transaction \<Rightarrow> int \<Rightarrow> nat
    \<Rightarrow> (settlement_ref outcome \<Rightarrow> ('e, 'a outcome) eio) \<Rightarrow> ('e, 'a outcome) eio" where
  "settle_pass x opts intent q op deadline attempt k =
     (let n = x_env x; c = n_corridor n in
      bnd (nowIO n) (\<lambda>t.
        if t \<ge> deadline then refuse (finishFailure x (mk_err SETTLEMENT_TIMEOUT (msg_corridor_timeout c)))
        else quote_expired x q (mk_err QUOTE_EXPIRED (msg_expired_retry (q_id q)))
          (case settleQuoteProblem q c of
             Some problem \<Rightarrow> fatal x (mk_err AMOUNT_INVALID problem)
           | None \<Rightarrow>
               gate_phase x intent q op attempt (\<lambda>cs.
                 if op_dryRun opts then dry_stop x op cs
                 else quote_expired x q (mk_err QUOTE_EXPIRED (msg_expired_settle (q_id q)))
                   (stepR x settling no_meta (find_or_settle x q op k))))))"

fun settle_loop ::
  "nat \<Rightarrow> 'e session \<Rightarrow> execute_options \<Rightarrow> payment_intent \<Rightarrow> quote_t \<Rightarrow> open_transaction \<Rightarrow> int \<Rightarrow> nat
    \<Rightarrow> ('e, 'a outcome) eio \<Rightarrow> ('e, 'a outcome) eio" where
  "settle_loop 0 x opts intent q op deadline attempt k = throw_io"
| "settle_loop (Suc f) x opts intent q op deadline attempt k =
     settle_pass x opts intent q op deadline attempt (\<lambda>s.
       case s of
         Inr ref \<Rightarrow> settle_onward x q op deadline ref k
       | Inl e \<Rightarrow>
           (case recover (n_corridor (x_env x)) (e_retryable e) attempt of
              Retry a \<Rightarrow>
                stepR x retrying no_meta
                  (seq (env_io (d_sleep (n_deps (x_env x)) (backoffMs a)))
                    (settle_loop f x opts intent q op deadline a k))
            | _ \<Rightarrow> refuse (finishFailure x e)))"

subsection \<open>Completion and the whole of execute\<close>

definition complete_run :: "'e session \<Rightarrow> int \<Rightarrow> ('e, run_result outcome) eio" where
  "complete_run x startedAt =
     stepR x completed no_meta
       (seq (recordOutcome (x_env x) completed None)
       (bnd (nowIO (x_env x)) (\<lambda>t.
         seq (emit (EvTiming ''corridor.duration'' (t - startedAt)))
           (gets_io (\<lambda>w. Inr (toResult (w_run w) (w_trail w)))))))"

text \<open>From the quote to the end; the loop needs at most one pass per allowed retry and one more.\<close>

definition run_payment ::
  "'e session \<Rightarrow> execute_options \<Rightarrow> payment_intent \<Rightarrow> 'e route \<Rightarrow> 'e quote_provider option \<Rightarrow> int
    \<Rightarrow> ('e, run_result outcome) eio" where
  "run_payment x opts intent route provider startedAt =
     do_quote x intent provider (\<lambda>q.
       do_comply x intent
         (do_open x intent q (\<lambda>op.
           do_funding x opts intent (rt_sending route)
             (bnd (nowIO (x_env x)) (\<lambda>t.
               let c = n_corridor (x_env x) in
               settle_loop (max_retries (c_recovery c) + 1) x opts intent q op
                 (t + timeout_seconds (c_recovery c) * 1000) 0 (complete_run x startedAt))))))"

definition mk_session :: "nat \<Rightarrow> 'e run_env \<Rightarrow> 'e route \<Rightarrow> 'e session" where
  "mk_session fuel n route =
     \<lparr>x_env = n\<lparr>n_routeTrust := Some (rt_trust route)\<rparr>, x_adapter = rt_receiving route,
      x_pollMs = pollMs_of (n_deps n) (n_corridor n), x_fuel = fuel\<rparr>"

definition new_payment ::
  "nat \<Rightarrow> 'e run_env \<Rightarrow> execute_options \<Rightarrow> payment_intent \<Rightarrow> int \<Rightarrow> ('e, run_result outcome) eio" where
  "new_payment fuel n opts intent startedAt =
     seq (begin_session (new_run n intent opts))
       (check (breaker_guard n) (\<lambda>e. ret (Inl e)) (\<lambda>_.
         bnd create_run (\<lambda>won.
           if \<not> won then ret (fail IDEMPOTENCY_CONFLICT (msg_claimed (idempotencyKey intent)))
           else
             check (resolveRoute n intent) (\<lambda>e. refuse (failRun n e None)) (\<lambda>route.
               let x = mk_session fuel n route in
               case route_checks (n_deps n) opts (n_corridor n) route of
                 Inl e \<Rightarrow> fatal x e
               | Inr provider \<Rightarrow> run_payment x opts intent route provider startedAt))))"

definition execute_with ::
  "('e run_env \<Rightarrow> execute_options \<Rightarrow> payment_intent \<Rightarrow> stored_run \<Rightarrow> ('e, run_result outcome) eio)
    \<Rightarrow> nat \<Rightarrow> 'e engine_deps \<Rightarrow> payment_intent \<Rightarrow> corridor \<Rightarrow> execute_options
    \<Rightarrow> ('e, run_result outcome) eio" where
  "execute_with resume fuel d intent c opts =
     (let n = \<lparr>n_deps = d, n_corridor = c, n_scope = requestScopeOf opts, n_routeTrust = None\<rparr> in
      bnd (nowIO n) (\<lambda>startedAt.
        check (pre_claim n intent) (\<lambda>e. ret (Inl e)) (\<lambda>_.
          bnd (gets_io (\<lambda>w. mem_get (w_runs w) (idempotencyKey intent))) (\<lambda>existing.
            case existing of
              None \<Rightarrow> new_payment fuel n opts intent startedAt
            | Some r \<Rightarrow>
                if r_state r = completed then ret (Inr (toResult r [r_state r]))
                else if \<not> isTerminal (r_state r) then resume n opts intent r
                else ret (fail IDEMPOTENCY_CONFLICT
                  (msg_in_flight (idempotencyKey intent) (r_state r)))))))"

end
