(* ===== verification/Resume.thy ===== *)
theory Resume
  imports Run
begin

section \<open>A resumed run (packages/engine/src/run.ts: resumeRun)\<close>

text \<open>
  \<open>resumeRun\<close> as the sequence of its phases. Each phase looks at the state the run is in when
  control reaches it, so that the state a phase ends in selects the next one.
\<close>

definition msg_conflict :: "stored_run \<Rightarrow> string \<Rightarrow> string" where
  [msg_defs]: "msg_conflict r detail =
     ''idempotencyKey '' @ r_key r @ '' cannot resume state='' @ state_name (r_state r) @ '': '' @ detail"

definition conflict :: "string \<Rightarrow> ('e, 'a outcome) eio" where
  "conflict detail = bnd get_run (\<lambda>r. ret (fail IDEMPOTENCY_CONFLICT (msg_conflict r detail)))"

definition pre_open :: "corridor_state \<Rightarrow> bool" where
  "pre_open st = (st = created \<or> st = quoted \<or> st = compliant)"

definition msg_manifest_changed :: "string \<Rightarrow> string \<Rightarrow> string" where
  [msg_defs]: "msg_manifest_changed was now =
     ''corridor manifest changed since run opened ('' @ was @ '' !== '' @ now @
     ''); refusing to resume un-settled run''"

definition msg_stale :: "corridor_state \<Rightarrow> string" where
  [msg_defs]: "msg_stale st =
     ''RESUME_STALE: run stopped in '' @ state_name st @
     '' before opening a receiving transaction; retry with a new idempotency key''"

definition msg_stored_expired :: "string option \<Rightarrow> string \<Rightarrow> string" where
  [msg_defs]: "msg_stored_expired q when' =
     ''stored quote '' @ (case q of Some i \<Rightarrow> i | None \<Rightarrow> ''(unknown)'') @ '' expired '' @ when'"

definition msg_public_trust :: string where
  [msg_defs]: "msg_public_trust = ''refusing manifest route trust on public network without explicit opt-in''"

definition msg_no_gate_resume :: string where
  [msg_defs]: "msg_no_gate_resume = ''pre-settle gate cannot be re-evaluated on resume; operator review needed''"

text \<open>\<open>const t = await advance(to); if (!t.ok) return t\<close>.\<close>

definition step_or :: "'e session \<Rightarrow> corridor_state \<Rightarrow> advance_meta \<Rightarrow> ('e, 'a outcome) eio \<Rightarrow> ('e, 'a outcome) eio" where
  "step_or x to meta k = check (advance (x_env x) to meta) (\<lambda>e. ret (Inl e)) (\<lambda>_. k)"

subsection \<open>Manifest pinning and the source deposit\<close>

definition manifest_guard :: "'e session \<Rightarrow> ('e, 'a outcome) eio \<Rightarrow> ('e, 'a outcome) eio" where
  "manifest_guard x k =
     bnd get_run (\<lambda>r.
       let current = d_hashCorridor (n_deps (x_env x)) (n_corridor (x_env x)) in
       case r_manifestHash r of
         None \<Rightarrow> k
       | Some was \<Rightarrow>
           if was \<noteq> current \<and> \<not> (r_state r = settled \<or> r_state r = reconciled) then
             fatal x (mk_err MANIFEST_CHANGED (msg_manifest_changed was current))
           else k)"

definition stale_guard :: "'e session \<Rightarrow> ('e, 'a outcome) eio \<Rightarrow> ('e, 'a outcome) eio" where
  "stale_guard x k =
     bnd get_run (\<lambda>r.
       if pre_open (r_state r) then fatal x (mk_err IDEMPOTENCY_CONFLICT (msg_stale (r_state r))) else k)"

definition resume_funding ::
  "'e session \<Rightarrow> payment_intent \<Rightarrow> 'e source_adapter option \<Rightarrow> ('e, 'a outcome) eio \<Rightarrow> ('e, 'a outcome) eio" where
  "resume_funding x intent sending k =
     bnd get_run (\<lambda>r.
       if r_state r \<noteq> funding then k
       else case sending of
              None \<Rightarrow> conflict ''source adapter is unavailable''
            | Some sa \<Rightarrow>
                let wait = await_deposit x sa (step_or x funded no_meta k) in
                if truthy (r_sourceTransactionId r) then wait else open_deposit x sa intent wait)"

definition funded_gate :: "'e session \<Rightarrow> ('e, 'a outcome) eio \<Rightarrow> ('e, 'a outcome) eio" where
  "funded_gate x k =
     bnd get_run (\<lambda>r.
       if r_state r = funded \<and> d_gate (n_deps (x_env x)) \<noteq> None then conflict msg_no_gate_resume else k)"

subsection \<open>Settling\<close>

definition settle_phase_state :: "corridor_state \<Rightarrow> bool" where
  "settle_phase_state st = (st = opened \<or> st = funded \<or> st = retrying \<or> st = verifying \<or> st = settling)"

definition stored_request :: "corridor \<Rightarrow> stored_run \<Rightarrow> settlement_request" where
  "stored_request c r =
     \<lparr>sr_to = the (r_depositAddress r), sr_memo = r_memo r, sr_memoType = r_memoType r,
      sr_amount = \<lparr>m_asset = bridge_asset (c_settlement c), m_amount = the (r_settlementAmount r)\<rparr>,
      sr_corridor = c, sr_validUntil = None\<rparr>"

definition stored_data_ok :: "stored_run \<Rightarrow> bool" where
  "stored_data_ok r \<longleftrightarrow>
     truthy (r_transactionId r) \<and> truthy (r_depositAddress r) \<and> truthy (r_settlementAmount r) \<and>
     r_quoteExpiresAt r \<noteq> None \<and> r_quoteFirm r \<noteq> None"

text \<open>\<open>run.quoteFirm && run.quoteExpiresAt <= now()\<close>, reading the clock only for a firm quote.\<close>

definition if_stored_expired ::
  "'e session \<Rightarrow> stored_run \<Rightarrow> ('e, 'a) eio \<Rightarrow> ('e, 'a) eio \<Rightarrow> ('e, 'a) eio" where
  "if_stored_expired x r yes no =
     (if r_quoteFirm r \<noteq> Some True then no
      else bnd (nowIO (x_env x)) (\<lambda>t.
        if ms_le (the (r_quoteExpiresAt r)) t then yes else no))"

text \<open>\<open>enterSettling\<close>: the legal path up to \<open>settling\<close>; an error is fatal.\<close>

definition enterSettling :: "'e session \<Rightarrow> ('e, 'a outcome) eio \<Rightarrow> ('e, 'a outcome) eio" where
  "enterSettling x k =
     bnd get_run (\<lambda>r.
       let last' = bnd get_run (\<lambda>r.
             if r_state r = verifying then stepR x settling no_meta k else k)
       in if r_state r = funded \<or> r_state r = opened \<or> r_state r = retrying
          then stepR x verifying no_meta last' else last')"

definition resume_source ::
  "'e session \<Rightarrow> payment_intent \<Rightarrow> 'e source_adapter option \<Rightarrow> ('e, 'a outcome) eio \<Rightarrow> ('e, 'a outcome) eio" where
  "resume_source x intent sending k =
     bnd get_run (\<lambda>r.
       if s_protocol (c_source (n_corridor (x_env x))) = Prefunded \<or> truthy (r_sourceTransactionId r) then k
       else case sending of
              None \<Rightarrow> conflict ''source adapter is unavailable''
            | Some sa \<Rightarrow>
                if r_state r \<noteq> opened then conflict ''cannot safely enter source funding''
                else stepR x funding no_meta
                       (open_deposit x sa intent (await_deposit x sa (stepR x funded no_meta k))))"

definition resume_comply ::
  "'e session \<Rightarrow> payment_intent \<Rightarrow> ('e, 'a outcome) eio \<Rightarrow> ('e, 'a outcome) eio" where
  "resume_comply x intent k =
     (if cap_kyc (a_capabilities (x_adapter x)) \<noteq> M_none then
        check (comply_verb (x_adapter x) intent (n_corridor (x_env x))) (fatal x) (\<lambda>_. k)
      else k)"

text \<open>The last expiry check, the transitions to \<open>settling\<close> and the submission (lines 1577-1595).\<close>

definition resume_pay ::
  "'e session \<Rightarrow> settlement_request \<Rightarrow> (settlement_ref \<Rightarrow> ('e, 'a outcome) eio) \<Rightarrow> ('e, 'a outcome) eio" where
  "resume_pay x req k =
     bnd get_run (\<lambda>r.
       let e = mk_err QUOTE_EXPIRED (msg_stored_expired (r_quoteId r) ''before settlement'') in
       if_stored_expired x r (hold_if_funded x e (finishFailure x e))
         (enterSettling x
           (check (dispatch req (sb_submit (d_submitter (n_deps (x_env x))) req))
              (\<lambda>e. refuse (finishFailure x e)) k)))"

text \<open>No payment was found: submit, if everything a fresh run requires can still be required.\<close>

definition resume_submit ::
  "'e session \<Rightarrow> execute_options \<Rightarrow> payment_intent \<Rightarrow> 'e route \<Rightarrow> settlement_request
    \<Rightarrow> (settlement_ref \<Rightarrow> ('e, 'a outcome) eio) \<Rightarrow> ('e, 'a outcome) eio" where
  "resume_submit x opts intent route req k =
     (let d = n_deps (x_env x); c = n_corridor (x_env x) in
      bnd get_run (\<lambda>r.
        if_stored_expired x r
          (fatal x (mk_err QUOTE_EXPIRED (msg_stored_expired (r_quoteId r) ''before resumed settlement'')))
          (if untrusted_public d opts c (rt_trust route) then
             fatal x (mk_err MANIFEST_INVALID msg_public_trust)
           else if d_gate d \<noteq> None then conflict msg_no_gate_resume
           else resume_comply x intent
                  (resume_source x intent (rt_sending route) (resume_pay x req k)))))"

definition resume_found ::
  "'e session \<Rightarrow> settlement_ref \<Rightarrow> (settlement_ref \<Rightarrow> ('e, 'a outcome) eio) \<Rightarrow> ('e, 'a outcome) eio" where
  "resume_found x ref k =
     bnd get_run (\<lambda>r.
       if s_protocol (c_source (n_corridor (x_env x))) \<noteq> Prefunded \<and> \<not> truthy (r_sourceTransactionId r)
       then conflict ''an existing settlement has no recorded source deposit reference''
       else enterSettling x (k ref))"

definition resume_settle ::
  "'e session \<Rightarrow> execute_options \<Rightarrow> payment_intent \<Rightarrow> 'e route \<Rightarrow> ('e, 'a outcome) eio \<Rightarrow> ('e, 'a outcome) eio" where
  "resume_settle x opts intent route k =
     (let d = n_deps (x_env x); c = n_corridor (x_env x) in
      bnd get_run (\<lambda>r.
        if \<not> settle_phase_state (r_state r) then k
        else if \<not> stored_data_ok r then conflict ''persisted quote/open data is incomplete''
        else
          let req = stored_request c r;
              done' = (\<lambda>ref. seq (record_settlement ref req)
                 (stepR x settled (no_meta\<lparr>am_networkFee := networkFee ref\<rparr>) k));
              e = mk_err QUOTE_EXPIRED (msg_stored_expired (r_quoteId r) ''during source funding'');
              go = (case sb_findExisting (d_submitter d) of
                      None \<Rightarrow> conflict ''settlement submitter does not support findExisting''
                    | Some f \<Rightarrow>
                        check (find_io f req) (\<lambda>e. ret (Inl e)) (\<lambda>found.
                          case found of
                            Some ref \<Rightarrow> resume_found x ref done'
                          | None \<Rightarrow>
                              if r_state r = settling then
                                conflict ''Horizon found no matching payment, but settlement may still be in flight''
                              else resume_submit x opts intent route req done'))
          in if r_state r = funded then if_stored_expired x r (refuse (hold_error (x_env x) e e)) go
             else go))"

subsection \<open>Reconciling and completing\<close>

definition saved_request :: "corridor \<Rightarrow> settlement_rec \<Rightarrow> settlement_request" where
  "saved_request c s =
     \<lparr>sr_to = st_to s, sr_memo = st_memo s, sr_memoType = st_memoType s, sr_amount = st_amount s,
      sr_corridor = c, sr_validUntil = None\<rparr>"

definition saved_ref :: "stored_run \<Rightarrow> settlement_ref option" where
  "saved_ref r =
     (case r_settlementRef r of
        Some ref \<Rightarrow> Some ref
      | None \<Rightarrow> if truthy (r_stellarTxHash r)
                then Some (StellarRef (the (r_stellarTxHash r)) None None None) else None)"

definition resume_verify :: "'e session \<Rightarrow> ('e, 'a outcome) eio \<Rightarrow> ('e, 'a outcome) eio" where
  "resume_verify x k =
     (let d = n_deps (x_env x) in
      bnd get_run (\<lambda>r.
        if d_chainVerifier d \<noteq> None \<and>
           (r_settlementKind r = Some KStellar \<or> (r_settlementKind r = None \<and> truthy (r_stellarTxHash r)))
        then (case (r_settlement r, saved_ref r) of
                (Some saved, Some (StellarRef h l f b)) \<Rightarrow>
                  check (verifyOnChain d (StellarRef h l f b) (saved_request (n_corridor (x_env x)) saved))
                    (\<lambda>e. refuse (hold_error (x_env x) e e)) (\<lambda>_. k)
              | _ \<Rightarrow> k)
        else k))"

definition resume_reconcile :: "'e session \<Rightarrow> ('e, 'a outcome) eio \<Rightarrow> ('e, 'a outcome) eio" where
  "resume_reconcile x k =
     bnd get_run (\<lambda>r.
       if r_state r \<noteq> settled then k
       else if \<not> truthy (r_transactionId r) then conflict ''settled run has no transactionId''
       else if \<not> hasSettlementRef r then conflict ''settled run has no settlement reference''
       else resume_verify x
         (bnd (nowIO (x_env x)) (\<lambda>t.
           check (reconcile_io x (the (r_transactionId r))
                   (t + timeout_seconds (c_recovery (n_corridor (x_env x))) * 1000))
             (\<lambda>e. refuse (finishFailure x e)) (\<lambda>_. step_or x reconciled no_meta k))))"

definition resume_complete :: "'e session \<Rightarrow> ('e, run_result outcome) eio \<Rightarrow> ('e, run_result outcome) eio" where
  "resume_complete x k =
     bnd get_run (\<lambda>r.
       if r_state r \<noteq> reconciled then k
       else step_or x completed no_meta
              (seq (recordOutcome (x_env x) completed None)
                (gets_io (\<lambda>w. Inr (toResult (w_run w) (w_trail w))))))"

subsection \<open>Recovering\<close>

definition msg_was_refunded :: "string \<Rightarrow> string" where
  [msg_defs]: "msg_was_refunded txid = ''receiving transaction '' @ txid @ '' was refunded''"

definition resume_recovery :: "'e session \<Rightarrow> ('e, 'a outcome) eio \<Rightarrow> ('e, 'a outcome) eio" where
  "resume_recovery x k =
     (let n = x_env x in
      bnd get_run (\<lambda>r.
        if r_state r \<noteq> recovering \<and> r_state r \<noteq> refund_pending then k
        else if \<not> truthy (r_transactionId r) then conflict ''refund recovery has no receiving transactionId''
        else
          let txid = the (r_transactionId r);
              e = mk_err RECONCILE_MISMATCH (msg_was_refunded txid);
              cause = recoveredBreakerCause (r_lastError r) e;
              finish = (\<lambda>meta. step_or x refunded meta
                 (seq (recordOutcome n refunded (Some cause)) (ret (Inl e))));
              watch = check (watch_io x txid)
                 (\<lambda>we. bnd (holdAndStop n we (statusFrom (e_cause we)) cause) (\<lambda>s. ret (Inl (stop_error s))))
                 (\<lambda>v. seq (set_run (\<lambda>r. (case ts_refunds v of
                            Some i \<Rightarrow> if first_refund_id i \<noteq> None then r\<lparr>r_refundId := first_refund_id i\<rparr> else r
                          | None \<Rightarrow> r)\<lparr>r_lastError := None\<rparr>))
                       (finish (refundAudit (ts_refunds v))))
          in if hasRequestedRefund r then finish no_meta
             else if r_state r = recovering then step_or x refund_pending no_meta watch
             else watch))"

subsection \<open>The whole of resumeRun\<close>

definition resume_phases ::
  "'e session \<Rightarrow> execute_options \<Rightarrow> payment_intent \<Rightarrow> 'e route \<Rightarrow> ('e, run_result outcome) eio" where
  "resume_phases x opts intent route =
     manifest_guard x
      (stale_guard x
      (resume_funding x intent (rt_sending route)
      (funded_gate x
      (resume_settle x opts intent route
      (resume_reconcile x
      (resume_complete x
      (resume_recovery x
      (conflict ''state is not supported by the resume handler''))))))))"

definition resumeRun ::
  "nat \<Rightarrow> 'e run_env \<Rightarrow> execute_options \<Rightarrow> payment_intent \<Rightarrow> stored_run \<Rightarrow> ('e, run_result outcome) eio" where
  "resumeRun fuel n opts intent existing =
     seq (begin_session existing)
       (check (resolveRoute n intent)
         (\<lambda>e. if pre_open (r_state existing) then refuse (failRun n e None) else ret (Inl e))
         (\<lambda>route. resume_phases (mk_session fuel n route) opts intent route))"

definition execute ::
  "nat \<Rightarrow> 'e engine_deps \<Rightarrow> payment_intent \<Rightarrow> corridor \<Rightarrow> execute_options \<Rightarrow> ('e, run_result outcome) eio" where
  "execute fuel = execute_with (resumeRun fuel) fuel"

end
