(* ===== verification/Ledger.thy ===== *)
theory Ledger
  imports Resume
begin

section \<open>The ledger of a key: what the events of its sessions say\<close>

text \<open>
  A ledger follows the events of one idempotency key: the state and version last written,
  whether a payment has been handed over and not been answered with a retryable error (the
  money may be gone), how many reversals were requested, what the store holds, and whether every event so far was
  allowed. Allowed means: writes walk the state machine with growing versions; a payment is
  handed over only in \<open>settling\<close> and never while an earlier one may have gone out; a reversal is
  requested only in \<open>recovering\<close> and once; an audit entry reports the transition just written.
  \<open>inv\<close> ties the ledger to the run object of a session; this theory proves that the operations
  of the run context keep it.
\<close>

record ledger =
  l_state :: "corridor_state option"
  l_version :: nat
  l_open :: bool
  l_refunds :: nat
  l_store :: mem_store
  l_ok :: bool

definition ledger_of_store :: "mem_store \<Rightarrow> ledger" where
  "ledger_of_store s =
     \<lparr>l_state = None, l_version = 0, l_open = False, l_refunds = 0, l_store = s, l_ok = True\<rparr>"

definition may_be_paid :: "corridor_state set" where
  "may_be_paid = insert settling after_settle"

definition in_recovery :: "corridor_state set" where
  "in_recovery = {recovering, refund_pending, refunded, held, failed}"

definition consistent :: "ledger \<Rightarrow> bool" where
  "consistent L \<longleftrightarrow>
     (l_open L \<longrightarrow> (case l_state L of None \<Rightarrow> False | Some s \<Rightarrow> s \<in> may_be_paid)) \<and>
     (0 < l_refunds L \<longrightarrow> (case l_state L of None \<Rightarrow> False | Some s \<Rightarrow> s \<in> in_recovery))"

definition put_allowed :: "string \<Rightarrow> stored_run \<Rightarrow> ledger \<Rightarrow> bool" where
  "put_allowed key r L \<longleftrightarrow> r_key r = key \<and> l_version L < r_version r \<and>
     (case l_state L of None \<Rightarrow> False | Some s \<Rightarrow> s = r_state r \<or> canTransition s (r_state r))"

definition audit_allowed :: "audit_entry \<Rightarrow> ledger \<Rightarrow> bool" where
  "audit_allowed a L \<longleftrightarrow> l_state L = Some (ae_to a) \<and> canTransition (ae_from a) (ae_to a) \<and>
     ae_version a = l_version L"

fun post :: "string \<Rightarrow> event \<Rightarrow> ledger \<Rightarrow> ledger" where
  "post key (EvCreate r) L =
     L\<lparr>l_state := Some (r_state r), l_version := r_version r, l_store := snd (mem_create r (l_store L)),
       l_ok := (l_ok L \<and> r_key r = key \<and> l_state L = None \<and> r_state r = created)\<rparr>"
| "post key (EvPut r) L =
     L\<lparr>l_state := Some (r_state r), l_version := r_version r, l_store := mem_put r (l_store L),
       l_ok := (l_ok L \<and> put_allowed key r L)\<rparr>"
| "post key (EvSubmit req) L =
     L\<lparr>l_open := True, l_ok := (l_ok L \<and> l_state L = Some settling \<and> \<not> l_open L)\<rparr>"
| "post key (EvSubmitted res) L =
     L\<lparr>l_open := (case res of Inl e \<Rightarrow> l_open L \<and> \<not> e_retryable e | Inr _ \<Rightarrow> l_open L)\<rparr>"
| "post key (EvRefund rq) L =
     L\<lparr>l_refunds := l_refunds L + 1,
       l_ok := (l_ok L \<and> l_state L = Some recovering \<and> l_refunds L = 0)\<rparr>"
| "post key (EvAudit a) L = L\<lparr>l_ok := (l_ok L \<and> audit_allowed a L)\<rparr>"
| "post key _ L = L"

definition enter :: "string \<Rightarrow> event \<Rightarrow> ledger \<Rightarrow> ledger" where
  "enter key ev L = (let L' = post key ev L in L'\<lparr>l_ok := (l_ok L' \<and> consistent L')\<rparr>)"

definition ledger_at :: "string \<Rightarrow> ledger \<Rightarrow> event list \<Rightarrow> ledger" where
  "ledger_at key L0 es = fold (enter key) es L0"

lemma ledger_at_Nil [simp]: "ledger_at key L0 [] = L0"
  by (simp add: ledger_at_def)

lemma ledger_at_append: "ledger_at key L0 (es @ fs) = ledger_at key (ledger_at key L0 es) fs"
  by (simp add: ledger_at_def)

lemma ledger_at_one: "ledger_at key L0 [ev] = enter key ev L0"
  by (simp add: ledger_at_def)

lemma enter_bad: "\<not> l_ok L \<Longrightarrow> \<not> l_ok (enter key ev L)"
  by (cases ev) (simp_all add: enter_def Let_def)

lemma ledger_ok_prefix: "l_ok (ledger_at key L0 (es @ fs)) \<Longrightarrow> l_ok (ledger_at key L0 es)"
proof (induction fs rule: rev_induct)
  case (snoc f fs)
  have "ledger_at key L0 (es @ fs @ [f]) = enter key f (ledger_at key L0 (es @ fs))"
    by (simp add: ledger_at_append ledger_at_one flip: append_assoc)
  with snoc.prems have "l_ok (ledger_at key L0 (es @ fs))" using enter_bad by metis
  then show ?case by (rule snoc.IH)
qed simp

lemma ledger_ok_take: "l_ok (ledger_at key L0 es) \<Longrightarrow> l_ok (ledger_at key L0 (take n es))"
  by (metis append_take_drop_id ledger_ok_prefix)

lemma enter_consistent: "l_ok (enter key ev L) \<Longrightarrow> consistent (enter key ev L)"
  by (simp add: enter_def Let_def consistent_def)

lemma ledger_consistent:
  "consistent L0 \<Longrightarrow> l_ok (ledger_at key L0 es) \<Longrightarrow> consistent (ledger_at key L0 es)"
  by (induction es rule: rev_induct) (simp_all add: ledger_at_append ledger_at_one enter_consistent)

lemma enter_reporting: "reporting ev \<Longrightarrow> consistent L \<Longrightarrow> enter key ev L = L"
  by (cases ev) (simp_all add: enter_def Let_def)

subsection \<open>The invariant of a session\<close>

definition inv_of :: "string \<Rightarrow> ledger \<Rightarrow> stored_run \<Rightarrow> bool" where
  "inv_of key L r \<longleftrightarrow> l_ok L \<and> consistent L \<and> l_state L = Some (r_state r) \<and>
     l_version L = r_version r \<and> r_key r = key"

definition inv :: "string \<Rightarrow> ledger \<Rightarrow> 'e world \<Rightarrow> bool" where
  "inv key L0 w \<longleftrightarrow> inv_of key (ledger_at key L0 (w_events w)) (w_run w) \<and>
     w_runs w = l_store (ledger_at key L0 (w_events w))"

definition money_out :: "string \<Rightarrow> ledger \<Rightarrow> 'e world \<Rightarrow> bool" where
  "money_out key L0 w = l_open (ledger_at key L0 (w_events w))"

definition st :: "'e world \<Rightarrow> corridor_state" where
  "st w = r_state (w_run w)"

lemma inv_enter:
  "inv_of key L r \<Longrightarrow> reporting ev \<Longrightarrow> enter key ev L = L"
  by (simp add: inv_of_def enter_reporting)

lemma stable_inv: "stable (\<lambda>w. inv key L0 w \<and> R (w_run w) (money_out key L0 w))"
  by (auto simp: stable_def inv_def money_out_def ledger_at_append ledger_at_one inv_enter)

lemma stable_inv1: "stable (inv key L0)"
  using stable_inv [of key L0 "\<lambda>_ _. True"] by simp

lemma inv_paid: "inv key L0 w \<Longrightarrow> money_out key L0 w \<Longrightarrow> st w \<in> may_be_paid"
  by (auto simp: inv_def inv_of_def consistent_def money_out_def st_def)

text \<open>\<open>safe_in S m\<close>: from a consistent world whose run is in a state of \<open>S\<close>, \<open>m\<close> stays consistent.\<close>

definition safe_in :: "string \<Rightarrow> ledger \<Rightarrow> corridor_state set \<Rightarrow> ('e, 'a) eio \<Rightarrow> bool" where
  "safe_in key L0 S m \<longleftrightarrow>
     (\<forall>w. inv key L0 w \<and> st w \<in> S \<longrightarrow> wp m (\<lambda>_. inv key L0) (inv key L0) w)"

lemma keeps_safe: "keeps (inv key L0) m \<Longrightarrow> safe_in key L0 S m"
  by (auto simp: safe_in_def keeps_def)

lemma safe_keeps: "safe_in key L0 UNIV m \<Longrightarrow> keeps (inv key L0) m"
  by (auto simp: safe_in_def keeps_def)

lemma safe_mono: "safe_in key L0 T m \<Longrightarrow> S \<subseteq> T \<Longrightarrow> safe_in key L0 S m"
  by (auto simp: safe_in_def)

lemma safe_ret [intro!]: "safe_in key L0 S (ret x)"
  by (simp add: safe_in_def wp_rules)

lemma safe_throw [intro!]: "safe_in key L0 S throw_io"
  by (simp add: safe_in_def wp_rules)

lemma safe_gets [intro!]: "safe_in key L0 S (gets_io f)"
  by (simp add: safe_in_def wp_rules)

text \<open>Observing: whatever keeps every stable property keeps the state as well.\<close>

definition observes :: "('e, 'a) eio \<Rightarrow> bool" where
  "observes m \<longleftrightarrow> (\<forall>P. stable P \<longrightarrow> keeps P m)"

lemma observesI: "(\<And>P. stable P \<Longrightarrow> keeps P m) \<Longrightarrow> observes m"
  by (simp add: observes_def)

lemma observes_wp:
  assumes "observes m" and "inv key L0 w" and "R (w_run w) (money_out key L0 w)"
  shows "wp m (\<lambda>_ w'. inv key L0 w' \<and> R (w_run w') (money_out key L0 w'))
           (\<lambda>w'. inv key L0 w' \<and> R (w_run w') (money_out key L0 w')) w"
  using assms stable_inv [of key L0 R] by (auto simp: observes_def keeps_def)

lemma observes_keeps: "observes m \<Longrightarrow> keeps (inv key L0) m"
  by (simp add: observes_def stable_inv1)

lemma safe_bnd_obs:
  assumes "observes m" and "\<And>x. safe_in key L0 S (f x)"
  shows "safe_in key L0 S (bnd m f)"
proof -
  have "wp (bnd m f) (\<lambda>_. inv key L0) (inv key L0) w" if "inv key L0 w" "st w \<in> S" for w
    unfolding wp_bnd
    by (rule wp_mono [OF observes_wp [OF assms(1) that(1), of "\<lambda>r _. r_state r \<in> S"]])
      (use that assms(2) in \<open>auto simp: safe_in_def st_def\<close>)
  then show ?thesis by (simp add: safe_in_def)
qed

lemma safe_seq_obs: "observes m \<Longrightarrow> safe_in key L0 S k \<Longrightarrow> safe_in key L0 S (seq m k)"
  unfolding seq_def by (rule safe_bnd_obs)

lemma safe_check_obs:
  assumes "observes m" and "\<And>e. safe_in key L0 S (h e)" and "\<And>v. safe_in key L0 S (k v)"
  shows "safe_in key L0 S (check m h k)"
  unfolding check_def by (rule safe_bnd_obs [OF assms(1)]) (auto split: sum.splits intro: assms)

lemma safe_get_run:
  "(\<And>r. r_state r \<in> S \<Longrightarrow> safe_in key L0 {r_state r} (f r)) \<Longrightarrow> safe_in key L0 S (bnd get_run f)"
  by (auto simp: safe_in_def wp_rules st_def)

lemma safe_bnd_keeps:
  assumes "safe_in key L0 S m" and "\<And>x. safe_in key L0 UNIV (f x)"
  shows "safe_in key L0 S (bnd m f)"
  using assms by (auto simp: safe_in_def wp_bnd intro: wp_mono)

lemma safe_refuse: "safe_in key L0 S m \<Longrightarrow> safe_in key L0 S (refuse m)"
  unfolding refuse_def by (rule safe_bnd_keeps) auto

text \<open>Changes of the run object that leave its key, state and version alone.\<close>

lemma wp_set_run_inv:
  "inv key L0 w \<Longrightarrow> (\<And>r. r_state (f r) = r_state r \<and> r_key (f r) = r_key r \<and> r_version (f r) = r_version r) \<Longrightarrow>
   (\<And>w'. inv key L0 w' \<Longrightarrow> st w' = st w \<Longrightarrow> money_out key L0 w' = money_out key L0 w \<Longrightarrow> Q () w') \<Longrightarrow>
   wp (set_run f) Q E w"
  by (simp add: wp_rules inv_def inv_of_def st_def money_out_def)

lemma safe_set_run:
  assumes "\<And>r. r_state (f r) = r_state r \<and> r_key (f r) = r_key r \<and> r_version (f r) = r_version r"
    and "safe_in key L0 S k"
  shows "safe_in key L0 S (seq (set_run f) k)"
  using assms unfolding safe_in_def wp_seq by (auto intro!: wp_set_run_inv)

subsection \<open>Transitions keep the invariant\<close>

definition led :: "string \<Rightarrow> ledger \<Rightarrow> 'e world \<Rightarrow> ledger" where
  "led key L0 w = ledger_at key L0 (w_events w)"

lemma inv_led:
  "inv key L0 w \<longleftrightarrow> inv_of key (led key L0 w) (w_run w) \<and> w_runs w = l_store (led key L0 w)"
  by (simp add: inv_def led_def)

lemma money_led: "money_out key L0 w \<longleftrightarrow> l_open (led key L0 w)"
  by (simp add: money_out_def led_def)

lemma led_events [simp]: "led key L0 (w\<lparr>w_events := es\<rparr>) = ledger_at key L0 es"
  by (simp add: led_def)

lemma led_snoc [simp]:
  "ledger_at key L0 (w_events w @ [ev]) = enter key ev (led key L0 w)"
  "ledger_at key L0 (w_events w @ [ev, ev']) = enter key ev' (enter key ev (led key L0 w))"
  by (simp_all add: led_def ledger_at_def)

lemma led_other [simp]:
  "led key L0 (w\<lparr>w_env := e\<rparr>) = led key L0 w"
  "led key L0 (w\<lparr>w_run := r\<rparr>) = led key L0 w"
  "led key L0 (w\<lparr>w_trail := t\<rparr>) = led key L0 w"
  "led key L0 (w\<lparr>w_checks := cs\<rparr>) = led key L0 w"
  "led key L0 (w\<lparr>w_runs := s\<rparr>) = led key L0 w"
  "led key L0 (w\<lparr>w_health := h\<rparr>) = led key L0 w"
  by (simp_all add: led_def)

text \<open>\<open>same w w'\<close>: neither the run nor the ledger has changed.\<close>

definition same :: "string \<Rightarrow> ledger \<Rightarrow> 'e world \<Rightarrow> 'e world \<Rightarrow> bool" where
  "same key L0 w w' \<longleftrightarrow>
     w_run w' = w_run w \<and> w_runs w' = w_runs w \<and> led key L0 w' = led key L0 w"

lemma same_inv: "same key L0 w w' \<Longrightarrow> inv key L0 w' = inv key L0 w"
  by (simp add: same_def inv_led)

lemma same_facts: "same key L0 w w' \<Longrightarrow> st w' = st w \<and> money_out key L0 w' = money_out key L0 w"
  by (simp add: same_def st_def money_led)

lemma same_refl [simp]: "same key L0 w w"
  by (simp add: same_def)

lemma same_trans: "same key L0 v w \<Longrightarrow> same key L0 w u \<Longrightarrow> same key L0 v u"
  by (simp add: same_def)

lemma observes_same:
  assumes "observes m" and "inv key L0 w"
  shows "wp m (\<lambda>_. same key L0 w) (same key L0 w) w"
proof -
  have "stable (\<lambda>w'. inv key L0 w' \<and> same key L0 w w')"
    by (auto simp: stable_def same_def inv_led inv_enter)
  then have "keeps (\<lambda>w'. inv key L0 w' \<and> same key L0 w w') m" using assms(1) by (simp add: observes_def)
  then show ?thesis using assms(2) by (auto simp: keeps_def elim!: allE [of _ w] intro: wp_mono)
qed

lemma enter_audit: "inv_of key L r \<Longrightarrow> audit_allowed a L \<Longrightarrow> enter key (EvAudit a) L = L"
  by (cases L) (auto simp: enter_def inv_of_def Let_def consistent_def)

lemma wp_audit:
  assumes "inv key L0 w" and "audit_allowed a (led key L0 w)"
  shows "wp (audit_io n a) (\<lambda>_. same key L0 w) (same key L0 w) w"
  using assms
  by (auto simp: audit_io_def wp_rules same_def inv_led enter_audit split: option.splits prod.splits)

lemma observes_ret: "observes (ret x)" and observes_nowIO: "observes (nowIO n)"
  and observes_port: "observes (port_io p)" and observes_env: "observes (env_io f)"
  and observes_emit: "reporting ev \<Longrightarrow> observes (emit ev)"
  by (auto simp: nowIO_def intro!: observesI)

lemma observes_alert: "observes (alert_io n a)"
  unfolding alert_io_def
  by (rule observesI) (auto split: option.splits intro!: keeps_seq keeps_bnd keeps_port keeps_emit)

lemma wp_emitTransition:
  assumes i: "inv key L0 w" and t: "canTransition from' (st w)"
  shows "wp (emitTransition n from' at err meta) (\<lambda>_. same key L0 w) (same key L0 w) w"
proof -
  have m: "wp m (\<lambda>_. same key L0 w) (same key L0 w) w1" if "observes m" "same key L0 w w1"
    for m :: "('a, unit) eio" and w1
    by (rule wp_mono [OF observes_same [OF that(1)]]) (use that i same_inv same_trans in blast)+
  have a: "wp (audit_io n (mk_entry n (w_run w) from' at err meta)) (\<lambda>_. same key L0 w) (same key L0 w) w1"
    if "same key L0 w w1" for w1
  proof (rule wp_mono [OF wp_audit])
    show "inv key L0 w1" using that i by (simp add: same_inv)
    show "audit_allowed (mk_entry n (w_run w) from' at err meta) (led key L0 w1)"
      using that i t by (simp add: audit_allowed_def mk_entry_def same_def inv_led inv_of_def st_def)
  qed (use that same_trans in blast)+
  show ?thesis
    unfolding emitTransition_def wp_bnd wp_get_run wp_seq
    by (intro wp_mono [OF m] wp_mono [OF a] observes_emit)
      (auto simp: observes_ret observes_emit observes_alert intro!: m)
qed

lemma inv_of_paid: "inv_of key L r \<Longrightarrow> l_open L \<Longrightarrow> r_state r \<in> may_be_paid"
  by (auto simp: inv_of_def consistent_def)

lemma inv_of_recovery: "inv_of key L r \<Longrightarrow> 0 < l_refunds L \<Longrightarrow> r_state r \<in> in_recovery"
  by (auto simp: inv_of_def consistent_def)

lemma put_enter:
  assumes "inv_of key L r" and "r_key r' = key" and "r_version r < r_version r'"
    and "r_state r = r_state r' \<or> canTransition (r_state r) (r_state r')"
    and "r_state r' = retrying \<longrightarrow> r_state r = retrying \<or> \<not> l_open L"
  shows "enter key (EvPut r') L =
     L\<lparr>l_state := Some (r_state r'), l_version := r_version r', l_store := mem_put r' (l_store L)\<rparr>"
proof -
  have "s \<in> may_be_paid" if "l_open L" "canTransition (r_state r) s" "s \<noteq> retrying" for s
  proof -
    have "r_state r \<in> may_be_paid" using assms(1) that(1) by (rule inv_of_paid)
    then show ?thesis using that(2,3) by (auto simp: may_be_paid_def after_settle_def)
  qed
  moreover have "s \<in> in_recovery" if "0 < l_refunds L" "canTransition (r_state r) s" for s
  proof -
    have "r_state r \<in> in_recovery" using assms(1) that(1) by (rule inv_of_recovery)
    then show ?thesis using that(2) by (auto simp: in_recovery_def)
  qed
  ultimately have "consistent (L\<lparr>l_state := Some (r_state r'), l_version := r_version r'\<rparr>)"
    using assms(1,4,5) by (auto simp: inv_of_def consistent_def)
  then show ?thesis
    using assms by (auto simp: enter_def put_allowed_def inv_of_def Let_def consistent_def)
qed

definition refunds_of :: "string \<Rightarrow> ledger \<Rightarrow> 'e world \<Rightarrow> nat" where
  "refunds_of key L0 w = l_refunds (led key L0 w)"

lemma same_refunds: "same key L0 w w' \<Longrightarrow> refunds_of key L0 w' = refunds_of key L0 w"
  by (simp add: same_def refunds_of_def)

lemma wp_enter_state:
  assumes "inv key L0 w" and "canTransition (st w) to" and "to = retrying \<longrightarrow> \<not> money_out key L0 w"
    and "\<And>w'. inv key L0 w' \<Longrightarrow> st w' = to \<Longrightarrow> money_out key L0 w' = money_out key L0 w \<Longrightarrow>
      refunds_of key L0 w' = refunds_of key L0 w \<Longrightarrow> Q () w'"
  shows "wp (enter_state to) Q E w"
proof -
  let ?r = "(w_run w)\<lparr>r_state := to, r_version := r_version (w_run w) + 1\<rparr>"
  have e: "enter key (EvPut ?r) (led key L0 w) =
      (led key L0 w)\<lparr>l_state := Some to, l_version := r_version (w_run w) + 1,
        l_store := mem_put ?r (w_runs w)\<rparr>"
    using put_enter [of key "led key L0 w" "w_run w" ?r] assms(1-3)
    by (simp add: inv_led money_led st_def inv_of_def)
  have c: "l_ok (enter key (EvPut ?r) (led key L0 w)) \<Longrightarrow> consistent (enter key (EvPut ?r) (led key L0 w))"
    by (rule enter_consistent)
  show ?thesis
    unfolding enter_state_def wp_rules
    by (rule assms(4)) (use assms(1) e c in \<open>simp_all add: inv_led inv_of_def money_led refunds_of_def st_def\<close>)
qed

lemma wp_carry_checks:
  "inv key L0 w \<Longrightarrow> (\<And>m w'. same key L0 w w' \<Longrightarrow> Q m w') \<Longrightarrow> wp (carry_checks f t meta) Q E w"
  by (simp add: carry_checks_def wp_def same_def)

lemma wp_advance:
  assumes i: "inv key L0 w" and o': "to = retrying \<longrightarrow> \<not> money_out key L0 w"
    and yes: "\<And>w'. inv key L0 w' \<Longrightarrow> st w' = to \<Longrightarrow> canTransition (st w) to \<Longrightarrow>
      money_out key L0 w' = money_out key L0 w \<Longrightarrow> refunds_of key L0 w' = refunds_of key L0 w \<Longrightarrow> Q (Inr ()) w'"
    and no: "\<And>e. Q (Inl e) w" and ex: "\<And>w'. inv key L0 w' \<Longrightarrow> E w'"
  shows "wp (advance n to meta) Q E w"
proof (cases "canTransition (st w) to")
  case False
  then show ?thesis by (auto simp: advance_def wp_rules st_def fail_full_def no)
next
  case True
  have rest: "wp (bnd (nowIO n) (\<lambda>at. seq (emitTransition n (st w) at None m) (ret (Inr ())))) Q E w2"
    if j: "inv key L0 w2" and s2: "st w2 = to" and m2: "money_out key L0 w2 = money_out key L0 w"
      and r2: "refunds_of key L0 w2 = refunds_of key L0 w" for m w2
    unfolding wp_bnd
  proof (rule wp_mono [OF observes_same [OF observes_nowIO j]])
    fix at w3 assume s3: "same key L0 w2 w3"
    have j3: "inv key L0 w3" and t3: "canTransition (st w) (st w3)"
      using same_inv [OF s3] same_facts [OF s3] j s2 True by simp_all
    show "wp (seq (emitTransition n (st w) at None m) (ret (Inr ()))) Q E w3"
      unfolding wp_seq wp_ret
    proof (rule wp_mono [OF wp_emitTransition [OF j3 t3]])
      fix u :: unit and w4 assume s4: "same key L0 w3 w4"
      have s: "same key L0 w2 w4" using s3 s4 by (rule same_trans)
      show "Q (Inr ()) w4"
        using same_inv [OF s] same_facts [OF s] same_refunds [OF s] j s2 m2 r2 True
        by (intro yes) simp_all
    next
      fix w4 assume "same key L0 w3 w4"
      then show "E w4" using j3 ex same_inv by blast
    qed
  next
    fix w3 assume "same key L0 w2 w3"
    then show "E w3" using j ex same_inv by blast
  qed
  have carried: "wp (seq (enter_state to) (bnd (nowIO n) (\<lambda>at. seq (emitTransition n (st w) at None m) (ret (Inr ()))))) Q E w1"
    if s1: "same key L0 w w1" for m w1
    unfolding wp_seq
  proof (rule wp_enter_state [of key L0])
    show "inv key L0 w1" "canTransition (st w1) to" "to = retrying \<longrightarrow> \<not> money_out key L0 w1"
      using same_inv [OF s1] same_facts [OF s1] i True o' by simp_all
  next
    fix w2 :: "'a world" assume "inv key L0 w2" "st w2 = to" "money_out key L0 w2 = money_out key L0 w1"
      "refunds_of key L0 w2 = refunds_of key L0 w1"
    then show "wp (bnd (nowIO n) (\<lambda>at. seq (emitTransition n (st w) at None m) (ret (Inr ())))) Q E w2"
      using same_facts [OF s1] same_refunds [OF s1] by (intro rest) simp_all
  qed
  have "advance n to meta w = bnd (carry_checks (st w) to meta) (\<lambda>m. seq (enter_state to)
      (bnd (nowIO n) (\<lambda>at. seq (emitTransition n (st w) at None m) (ret (Inr ()))))) w"
    using True by (simp add: advance_def bnd_def get_run_def gets_io_def st_def)
  then have "wp (advance n to meta) Q E w = wp (bnd (carry_checks (st w) to meta) (\<lambda>m. seq (enter_state to)
      (bnd (nowIO n) (\<lambda>at. seq (emitTransition n (st w) at None m) (ret (Inr ())))))) Q E w"
    by (simp add: wp_def)
  then show ?thesis
    unfolding wp_bnd using wp_carry_checks [OF i] carried [unfolded wp_bnd] by simp
qed

lemma observes_recordOutcome: "observes (recordOutcome n s e)"
proof (rule observesI)
  fix P :: "'a world \<Rightarrow> bool" assume P: "stable P"
  have "keeps P (fold_lane c out at th err)" for c out at th err
    using P by (auto simp: keeps_def wp_def fold_lane_def stable_def split: prod.splits)
  then have "keeps P (record_lane c out at th err)" for c out at th err
    unfolding record_lane_def using P by (auto intro!: keeps_bnd keeps_seq keeps_emit)
  then show "keeps P (recordOutcome n s e)"
    unfolding recordOutcome_def nowIO_def using P
    by (auto split: option.splits intro!: keeps_bnd keeps_port)
qed

lemma observes_seq: "observes m \<Longrightarrow> observes k \<Longrightarrow> observes (seq m k)"
  by (auto simp: observes_def)

lemma observes_bnd: "observes m \<Longrightarrow> (\<And>x. observes (f x)) \<Longrightarrow> observes (bnd m f)"
  by (auto simp: observes_def)

text \<open>Failing a run.\<close>

lemma keeps_failRun: "keeps (inv key L0) (failRun n e cs)"
proof -
  have tail: "wp (bnd (nowIO n) (\<lambda>at. seq (emitTransition n f at er m) (seq (recordOutcome n failed (Some e)) (ret e))))
      (\<lambda>_. inv key L0) (inv key L0) w2" if j: "inv key L0 w2" and t: "canTransition f (st w2)" for f er m w2
    unfolding wp_bnd wp_seq
  proof (rule wp_mono [OF observes_same [OF observes_nowIO j]])
    fix at :: int and w3 assume s: "same key L0 w2 w3"
    have j3: "inv key L0 w3" and t3: "canTransition f (st w3)"
      using same_inv [OF s] same_facts [OF s] j t by simp_all
    show "wp (emitTransition n f at er m) (\<lambda>_. wp (recordOutcome n failed (Some e))
        (\<lambda>_. wp (ret e) (\<lambda>_. inv key L0) (inv key L0)) (inv key L0)) (inv key L0) w3"
    proof (rule wp_mono [OF wp_emitTransition [OF j3 t3]])
      fix u :: unit and w4 assume "same key L0 w3 w4"
      then have "inv key L0 w4" using j3 same_inv by blast
      then show "wp (recordOutcome n failed (Some e))
          (\<lambda>_. wp (ret e) (\<lambda>_. inv key L0) (inv key L0)) (inv key L0) w4"
        unfolding wp_ret by (rule keepsD [OF observes_keeps [OF observes_recordOutcome]])
    next
      fix w4 assume "same key L0 w3 w4"
      then show "inv key L0 w4" using j3 same_inv by blast
    qed
  next
    fix w3 assume "same key L0 w2 w3"
    then show "inv key L0 w3" using j same_inv by blast
  qed
  show ?thesis
    unfolding keeps_def
  proof (intro allI impI)
    fix w :: "'a world" assume i: "inv key L0 w"
    show "wp (failRun n e cs) (\<lambda>_. inv key L0) (inv key L0) w"
    proof (cases "canTransition (st w) failed")
      case False
      then show ?thesis using i by (simp add: failRun_def wp_rules st_def)
    next
      case True
      have "wp (seq (set_run (\<lambda>r. r\<lparr>r_lastError := Some (render_error e)\<rparr>))
          (seq (enter_state failed) (bnd (nowIO n) (\<lambda>at. seq (emitTransition n (st w) at (Some (render_error e))
            (no_meta\<lparr>am_checks := cs\<rparr>)) (seq (recordOutcome n failed (Some e)) (ret e))))))
          (\<lambda>_. inv key L0) (inv key L0) w"
        unfolding wp_seq [of "set_run _"] wp_seq [of "enter_state _"]
      proof (rule wp_set_run_inv [OF i])
        fix w1 :: "'a world" assume j: "inv key L0 w1" "st w1 = st w"
        show "wp (enter_state failed) (\<lambda>_. wp (bnd (nowIO n) (\<lambda>at. seq (emitTransition n (st w) at (Some (render_error e))
            (no_meta\<lparr>am_checks := cs\<rparr>)) (seq (recordOutcome n failed (Some e)) (ret e))))
            (\<lambda>_. inv key L0) (inv key L0)) (inv key L0) w1"
          by (rule wp_enter_state [OF j(1)]) (use j True in \<open>auto intro!: tail\<close>)
      qed simp
      moreover have "wp (failRun n e cs) Q E w = wp (seq (set_run (\<lambda>r. r\<lparr>r_lastError := Some (render_error e)\<rparr>))
          (seq (enter_state failed) (bnd (nowIO n) (\<lambda>at. seq (emitTransition n (st w) at (Some (render_error e))
            (no_meta\<lparr>am_checks := cs\<rparr>)) (seq (recordOutcome n failed (Some e)) (ret e)))))) Q E w" for Q E
        unfolding failRun_def wp_bnd [of get_run] wp_get_run using True by (simp add: st_def)
      ultimately show ?thesis by simp
    qed
  qed
qed

lemma keeps_die: "keeps (inv key L0) (die n e cs)"
  unfolding keeps_def die_def wp_def using keeps_failRun [of key L0 n e]
  by (auto simp: keeps_def wp_def)

subsection \<open>Steps of the main path\<close>

text \<open>
  \<open>safe_in S\<close> for a step: the continuation runs in the new state. The step into \<open>settling\<close> is the
  one after which a payment may be handed over: \<open>ready\<close> says that none is outstanding.
\<close>

definition ready :: "string \<Rightarrow> ledger \<Rightarrow> ('e, 'a) eio \<Rightarrow> bool" where
  "ready key L0 m \<longleftrightarrow>
     (\<forall>w. inv key L0 w \<and> st w = settling \<and> \<not> money_out key L0 w \<longrightarrow> wp m (\<lambda>_. inv key L0) (inv key L0) w)"

lemma safe_ready: "safe_in key L0 {settling} m \<Longrightarrow> ready key L0 m"
  by (auto simp: safe_in_def ready_def)

lemma wp_step:
  assumes "inv key L0 w" and "to = retrying \<longrightarrow> \<not> money_out key L0 w"
    and "\<And>e. keeps (inv key L0) (h e)"
    and "\<And>w'. inv key L0 w' \<Longrightarrow> st w' = to \<Longrightarrow> canTransition (st w) to \<Longrightarrow>
      money_out key L0 w' = money_out key L0 w \<Longrightarrow> refunds_of key L0 w' = refunds_of key L0 w \<Longrightarrow>
      wp k (\<lambda>_. inv key L0) (inv key L0) w'"
  shows "wp (step n to meta h k) (\<lambda>_. inv key L0) (inv key L0) w"
proof -
  have d: "keeps (inv key L0) (bnd (die n e None) h)" for e by (intro keeps_bnd keeps_die assms(3))
  show ?thesis
    unfolding step_def wp_check
    by (rule wp_advance [OF assms(1,2)]) (simp_all add: assms(4) keepsD [OF d assms(1)])
qed

lemma safe_step:
  assumes "to \<noteq> retrying" and "\<And>e. keeps (inv key L0) (h e)" and "safe_in key L0 {to} k"
  shows "safe_in key L0 S (step n to meta h k)"
  using assms unfolding safe_in_def by (auto intro!: wp_step)

lemma safe_step_settling:
  assumes "\<And>e. keeps (inv key L0) (h e)" and "ready key L0 k"
  shows "safe_in key L0 S (step n settling meta h k)"
proof -
  have "wp (step n settling meta h k) (\<lambda>_. inv key L0) (inv key L0) w" if i: "inv key L0 w" for w
  proof (rule wp_step [OF i _ assms(1)])
    fix w' :: "'a world" assume a: "inv key L0 w'" "st w' = settling" "canTransition (st w) settling"
      "money_out key L0 w' = money_out key L0 w"
    have "st w = verifying" using a(3) by (cases "st w") auto
    then have "\<not> money_out key L0 w" using inv_paid [OF i] by (auto simp: may_be_paid_def after_settle_def)
    then show "wp k (\<lambda>_. inv key L0) (inv key L0) w'" using a assms(2) by (simp add: ready_def)
  qed simp
  then show ?thesis by (simp add: safe_in_def)
qed

lemma keeps_ret_inv [simp]: "keeps (inv key L0) (ret x)"
  by (rule keeps_ret)

lemma safe_stepR: "to \<noteq> retrying \<Longrightarrow> safe_in key L0 {to} k \<Longrightarrow> safe_in key L0 S (stepR x to meta k)"
  unfolding stepR_def by (rule safe_step) simp_all

lemma safe_stepR_settling: "ready key L0 k \<Longrightarrow> safe_in key L0 S (stepR x settling meta k)"
  unfolding stepR_def by (rule safe_step_settling) simp_all

lemma safe_step_or:
  assumes "to \<noteq> retrying" and "safe_in key L0 {to} k"
  shows "safe_in key L0 S (step_or x to meta k)"
proof -
  have "wp (step_or x to meta k) (\<lambda>_. inv key L0) (inv key L0) w" if i: "inv key L0 w" for w
    unfolding step_or_def wp_check
    by (rule wp_advance [OF i]) (use assms i in \<open>auto simp: safe_in_def wp_ret\<close>)
  then show ?thesis by (simp add: safe_in_def)
qed

lemma safe_fatal: "safe_in key L0 S (fatal x e)"
  unfolding fatal_def by (intro safe_refuse keeps_safe keeps_die)

subsection \<open>Holding, refunding, giving up\<close>

lemma safe_hold: "safe_in key L0 S (holdAndStop n e status cause)"
proof -
  have finish: "safe_in key L0 T (seq (set_lastError e) (step n held m (\<lambda>e. ret (Died e))
      (seq (recordOutcome n held (Some cause)) (ret (Held e)))))" for T m
    unfolding set_lastError_def
    by (intro safe_set_run safe_step safe_seq_obs observes_recordOutcome safe_ret) simp_all
  show ?thesis
    unfolding holdAndStop_def Let_def
    by (intro safe_get_run) (auto intro!: safe_step finish)
qed

lemma safe_hold_error: "safe_in key L0 S (hold_error n e cause)"
  unfolding hold_error_def by (intro safe_bnd_keeps safe_hold safe_ret)

lemma safe_finish_refunded: "safe_in key L0 S (finish_refunded n e meta)"
  unfolding finish_refunded_def
  by (intro safe_step safe_seq_obs observes_recordOutcome safe_ret) simp_all

lemma observes_watch: "observes (watch_io x txid)"
  unfolding watch_io_def by (intro observes_bnd observes_nowIO observesI keeps_watchRefund)

lemma safe_refund_by_anchor: "safe_in key L0 S (refund_by_anchor x e txid)"
  unfolding refund_by_anchor_def Let_def set_lastError_def
  by (intro safe_set_run safe_step safe_check_obs observes_watch safe_bnd_keeps safe_hold safe_ret
      safe_finish_refunded) (auto split: option.splits)

text \<open>A reversal is requested in \<open>recovering\<close>, and only if none was.\<close>

lemma wp_request_refund:
  assumes "inv key L0 w" and "st w = recovering" and "refunds_of key L0 w = 0"
    and "\<And>r w'. inv key L0 w' \<Longrightarrow> st w' = recovering \<Longrightarrow> Q r w'"
  shows "wp (request_refund x rq) Q E w"
proof -
  have 1: "enter key (EvRefund rq) (led key L0 w) = (led key L0 w)\<lparr>l_refunds := Suc 0\<rparr>"
    and 2: "enter key (EvRefunded r) ((led key L0 w)\<lparr>l_refunds := Suc 0\<rparr>) = (led key L0 w)\<lparr>l_refunds := Suc 0\<rparr>" for r
    using assms(1-3)
    by (auto simp: enter_def inv_led inv_of_def Let_def consistent_def refunds_of_def st_def in_recovery_def)
  have e: "wp (request_refund x rq) Q E w = (case sb_refund (d_submitter (n_deps (x_env x))) rq (w_env w) of
      (r, e) \<Rightarrow> Q r (w\<lparr>w_env := e, w_events := w_events w @ [EvRefund rq, EvRefunded r]\<rparr>))"
    by (simp add: request_refund_def wp_rules split: prod.splits)
  have "Q r (w\<lparr>w_env := e, w_events := w_events w @ [EvRefund rq, EvRefunded r]\<rparr>)" for r e
  proof (rule assms(4))
    show "inv key L0 (w\<lparr>w_env := e, w_events := w_events w @ [EvRefund rq, EvRefunded r]\<rparr>)"
      using assms(1,2) by (auto simp: inv_led 1 2 inv_of_def consistent_def in_recovery_def st_def)
  qed (use assms(2) in \<open>simp add: st_def\<close>)
  then show ?thesis unfolding e by (simp split: prod.splits)
qed

lemma safe_refund_by_engine:
  "inv key L0 w \<Longrightarrow> st w = recovering \<Longrightarrow> refunds_of key L0 w = 0 \<Longrightarrow>
   wp (refund_by_engine x e) (\<lambda>_. inv key L0) (inv key L0) w"
proof -
  have conclude: "safe_in key L0 S (seq (set_lastError e) (finish_refunded n e no_meta))" for S n
    unfolding set_lastError_def by (intro safe_set_run safe_finish_refunded) simp
  have noted: "safe_in key L0 S (seq (set_run (\<lambda>r. r\<lparr>r_refundId := i\<rparr>))
      (seq (set_lastError e) (finish_refunded n e no_meta)))" for S n i
    by (intro safe_set_run conclude) simp
  assume w: "inv key L0 w" "st w = recovering" "refunds_of key L0 w = 0"
  have run: "wp m (\<lambda>_. inv key L0) (inv key L0) w'"
    if "safe_in key L0 {recovering} m" "inv key L0 w'" "st w' = recovering"
    for m :: "('a, corridor_error) eio" and w'
    using that by (simp add: safe_in_def)
  show ?thesis
    unfolding refund_by_engine_def Let_def wp_bnd [of get_run] wp_get_run
    by (auto intro!: run safe_hold_error conclude wp_request_refund [OF w] noted w
        simp: wp_check split: sum.splits)
qed

lemma safe_refundAndStop: "safe_in key L0 (- in_recovery) (refundAndStop x e)"
proof -
  let ?body = "bnd get_run (\<lambda>run.
            if hasSettlementRef run \<and> truthy (r_transactionId run) \<and> anchorTerminalStatus e \<noteq> None
            then refund_by_anchor x e (the (r_transactionId run))
            else refund_by_engine x e)"
  have body: "wp ?body (\<lambda>_. inv key L0) (inv key L0) w"
    if "inv key L0 w" "st w = recovering" "refunds_of key L0 w = 0" for w
    using safe_refund_by_anchor [of key L0 UNIV x e] safe_refund_by_engine [OF that] that
    by (simp add: wp_bnd wp_get_run safe_in_def)
  have "wp (refundAndStop x e) (\<lambda>_. inv key L0) (inv key L0) w"
    if w: "inv key L0 w" "st w \<notin> in_recovery" for w
  proof -
    have 0: "refunds_of key L0 w = 0"
      using inv_of_recovery [of key "led key L0 w" "w_run w"] w by (auto simp: inv_led refunds_of_def st_def)
    have "wp (step (x_env x) recovering no_meta ret ?body) (\<lambda>_. inv key L0) (inv key L0) w"
      by (rule wp_step [OF w(1)]) (use body 0 in simp_all)
    moreover have "r_state (w_run w) \<noteq> recovering" using w(2) by (auto simp: in_recovery_def st_def)
    ultimately show ?thesis by (simp add: refundAndStop_def Let_def wp_bnd [of get_run] wp_get_run)
  qed
  then show ?thesis by (simp add: safe_in_def)
qed

lemma safe_finishFailure: "safe_in key L0 (- in_recovery) (finishFailure x e)"
  unfolding finishFailure_def
  by (auto split: rollback_t.splits intro: safe_refundAndStop safe_hold_error keeps_safe keeps_die)

lemma safe_giving_up: "S \<subseteq> - in_recovery \<Longrightarrow> safe_in key L0 S (refuse (finishFailure x e))"
  by (intro safe_refuse safe_mono [OF safe_finishFailure])

lemma safe_hold_if_funded:
  "safe_in key L0 S other \<Longrightarrow> safe_in key L0 S (hold_if_funded x e other)"
  unfolding hold_if_funded_def
  by (intro safe_get_run safe_refuse) (auto intro: safe_hold_error safe_mono)

end
