(* ===== verification/Safety.thy ===== *)
theory Safety
  imports Ledger
begin

section \<open>No double payment, no double reversal\<close>

text \<open>
  Every phase of a fresh and of a resumed run keeps the ledger consistent. A session may be
  cut off after any of its events; the next one starts from the store as it was then. The
  ledger stays consistent along every such history, whatever anchors, submitters, gates and
  clocks do, and a consistent ledger has no second payment and no second reversal.
\<close>

subsection \<open>Observing phases\<close>

lemma observes_timed: "observes m \<Longrightarrow> observes (timed d nm m)"
  unfolding timed_def by (intro observes_bnd observes_port observes_seq observes_emit observes_ret) simp_all

lemma observes_quote: "observes (quote_verb d a i c p)"
  by (rule observesI) (rule keeps_quote)

lemma observes_comply: "observes (comply_verb a i c)"
  by (rule observesI) (rule keeps_comply)

lemma observes_open: "observes (open_verb a i q c)"
  by (rule observesI) (rule keeps_open)

lemma observes_reconcileUntil: "observes (reconcileUntil n g i o')"
  by (rule observesI) (rule keeps_reconcileUntil)

lemma observes_reconcile: "observes (reconcile_io x i t)"
  unfolding reconcile_io_def by (rule observes_reconcileUntil)

lemma observes_source: "observes (waitForSourceDeposit x sa i)"
  unfolding waitForSourceDeposit_def
  by (intro observes_bnd observes_nowIO observes_reconcileUntil observes_ret)

lemma observes_verify: "observes (verifyOnChain d ref req)"
  unfolding verifyOnChain_def
  by (auto split: option.splits intro!: observes_bnd observes_port observes_ret)

lemma observes_find: "observes (find_io f req)"
  unfolding find_io_def by (intro observes_seq observes_emit observes_port) simp

lemma observes_check_metrics: "observes (check_metrics rs)"
  by (induction rs) (auto intro!: observes_seq observes_emit observes_ret)

lemma observes_resolve: "observes (resolveRoute n i)"
  unfolding resolveRoute_def by (intro observes_bnd observes_port observes_ret)

lemmas observes_rules = observes_timed observes_quote observes_comply observes_open observes_reconcile
  observes_source observes_verify observes_find observes_check_metrics observes_resolve observes_nowIO
  observes_port observes_env observes_recordOutcome observes_ret observes_watch

subsection \<open>The phases of a fresh run\<close>

lemma safe_subset: "safe_in key L0 UNIV m \<Longrightarrow> safe_in key L0 S m"
  by (rule safe_mono [where T = UNIV]) simp_all

lemma safe_do_quote:
  "(\<And>q. safe_in key L0 {quoted} (k q)) \<Longrightarrow> safe_in key L0 S (do_quote x i p k)"
  unfolding do_quote_def Let_def
  by (intro safe_check_obs observes_rules safe_fatal safe_set_run safe_stepR) simp_all

lemma safe_do_comply: "safe_in key L0 {compliant} k \<Longrightarrow> safe_in key L0 S (do_comply x i k)"
  unfolding do_comply_def Let_def
  by (auto intro!: safe_check_obs observes_rules safe_fatal safe_stepR)

lemma safe_do_open: "(\<And>op. safe_in key L0 {opened} (k op)) \<Longrightarrow> safe_in key L0 S (do_open x i q k)"
  unfolding do_open_def Let_def
  by (intro safe_check_obs observes_rules safe_fatal safe_set_run safe_stepR) simp_all

lemma safe_save_source: "safe_in key L0 S k \<Longrightarrow> safe_in key L0 S (seq (save_source t) k)"
proof -
  assume k: "safe_in key L0 S k"
  have "wp (seq (save_source t) k) (\<lambda>_. inv key L0) (inv key L0) w" if w: "inv key L0 w" "st w \<in> S" for w
  proof -
    let ?r = "(w_run w)\<lparr>r_sourceTransactionId := Some t, r_version := r_version (w_run w) + 1\<rparr>"
    let ?w = "w\<lparr>w_run := ?r, w_runs := mem_put ?r (w_runs w), w_events := w_events w @ [EvPut ?r]\<rparr>"
    have "enter key (EvPut ?r) (led key L0 w) = (led key L0 w)\<lparr>l_state := Some (r_state ?r),
        l_version := r_version ?r, l_store := mem_put ?r (l_store (led key L0 w))\<rparr>"
      by (rule put_enter [of _ _ "w_run w"]) (use w in \<open>auto simp: inv_led inv_of_def\<close>)
    then have "inv key L0 ?w" "st ?w \<in> S"
      using w by (auto simp: inv_led inv_of_def st_def consistent_def)
    then have "wp k (\<lambda>_. inv key L0) (inv key L0) ?w" using k by (simp add: safe_in_def)
    then show ?thesis by (simp add: save_source_def wp_rules)
  qed
  then show ?thesis by (simp add: safe_in_def)
qed

lemma not_recovering:
  "{funding} \<subseteq> - in_recovery" "{settling} \<subseteq> - in_recovery" "{settled} \<subseteq> - in_recovery"
  "{verifying} \<subseteq> - in_recovery" "{opened} \<subseteq> - in_recovery" "{funded} \<subseteq> - in_recovery"
  "{retrying} \<subseteq> - in_recovery"
  by (auto simp: in_recovery_def)

lemma safe_open_deposit:
  "S \<subseteq> - in_recovery \<Longrightarrow> safe_in key L0 S k \<Longrightarrow> safe_in key L0 S (open_deposit x sa i k)"
  unfolding open_deposit_def
  by (intro safe_seq_obs observes_emit safe_check_obs observes_rules safe_giving_up safe_save_source) simp_all

lemma safe_await_deposit:
  "S \<subseteq> - in_recovery \<Longrightarrow> safe_in key L0 S k \<Longrightarrow> safe_in key L0 S (await_deposit x sa k)"
  unfolding await_deposit_def
  by (intro safe_get_run safe_check_obs observes_rules safe_giving_up) (auto intro: safe_mono)

lemma safe_do_funding:
  "S \<subseteq> - in_recovery \<Longrightarrow> safe_in key L0 S k \<Longrightarrow> safe_in key L0 {funded} k \<Longrightarrow>
   safe_in key L0 S (do_funding x opts i sending k)"
  unfolding do_funding_def Let_def
  by (auto split: option.splits intro!: safe_fatal safe_stepR safe_open_deposit safe_await_deposit
      not_recovering)

subsection \<open>The settle loop\<close>

lemma safe_quote_expired:
  "S \<subseteq> - in_recovery \<Longrightarrow> safe_in key L0 S k \<Longrightarrow> safe_in key L0 S (quote_expired x q e k)"
  unfolding quote_expired_def
  by (auto intro!: safe_bnd_obs observes_rules safe_hold_if_funded safe_mono [OF safe_finishFailure])

lemma safe_gate_refused: "safe_in key L0 S (gate_refused x res)"
  unfolding gate_refused_def Let_def
  by (auto split: option.splits intro!: safe_hold_if_funded keeps_safe [OF keeps_die])

lemma safe_advance:
  assumes "to \<noteq> retrying" and "\<And>y. safe_in key L0 UNIV (f y)"
  shows "safe_in key L0 S (bnd (advance n to m) f)"
proof -
  have "wp (bnd (advance n to m) f) (\<lambda>_. inv key L0) (inv key L0) w" if i: "inv key L0 w" for w
    unfolding wp_bnd by (rule wp_advance [OF i]) (use assms i in \<open>auto simp: safe_in_def\<close>)
  then show ?thesis by (simp add: safe_in_def)
qed

lemma safe_gate_phase:
  "(\<And>cs. safe_in key L0 {verifying} (k cs)) \<Longrightarrow> safe_in key L0 S (gate_phase x i q op n k)"
  unfolding gate_phase_def Let_def
  by (auto split: option.splits sum.splits simp del: check_metrics.simps
      intro!: safe_seq_obs safe_bnd_obs observes_rules observes_emit safe_stepR safe_advance
        safe_hold_if_funded safe_gate_refused keeps_safe [OF keeps_die])

text \<open>What takes the answer of a settlement: after a retryable error no money is out.\<close>

definition takes_answer :: "string \<Rightarrow> ledger \<Rightarrow> (settlement_ref outcome \<Rightarrow> ('e, 'a) eio) \<Rightarrow> bool" where
  "takes_answer key L0 k \<longleftrightarrow>
     (\<forall>r w. inv key L0 w \<and> st w = settling \<and> (\<forall>e. r = Inl e \<and> e_retryable e \<longrightarrow> \<not> money_out key L0 w) \<longrightarrow>
        wp (k r) (\<lambda>_. inv key L0) (inv key L0) w)"

lemma wp_dispatch_ready:
  assumes i: "inv key L0 w" and s: "st w = settling" and n: "\<not> money_out key L0 w"
    and Q: "\<And>r w'. inv key L0 w' \<Longrightarrow> st w' = settling \<Longrightarrow>
      (\<forall>e. r = Inl e \<and> e_retryable e \<longrightarrow> \<not> money_out key L0 w') \<Longrightarrow> Q r w'"
  shows "Q r (w\<lparr>w_env := e, w_events := w_events w @ [EvSubmit req, EvSubmitted r]\<rparr>)"
proof (rule Q)
  let ?w = "w\<lparr>w_env := e, w_events := w_events w @ [EvSubmit req, EvSubmitted r]\<rparr>"
  have 1: "enter key (EvSubmit req) (led key L0 w) = (led key L0 w)\<lparr>l_open := True\<rparr>"
    using i s n by (auto simp: enter_def inv_led inv_of_def Let_def consistent_def st_def money_led may_be_paid_def)
  have 2: "enter key (EvSubmitted r') ((led key L0 w)\<lparr>l_open := True\<rparr>) =
      (led key L0 w)\<lparr>l_open := (case r' of Inl e \<Rightarrow> \<not> e_retryable e | Inr _ \<Rightarrow> True)\<rparr>" for r'
    using i s by (auto simp: enter_def inv_led inv_of_def Let_def consistent_def st_def may_be_paid_def
        split: sum.splits)
  show "inv key L0 ?w"
    using i s by (auto simp: inv_led 1 2 inv_of_def consistent_def st_def may_be_paid_def)
  show "\<forall>e. r = Inl e \<and> e_retryable e \<longrightarrow> \<not> money_out key L0 ?w"
    by (auto simp: money_led 1 2)
qed (use s in \<open>simp add: st_def\<close>)

lemma wp_settle_ready:
  assumes i: "inv key L0 w" and s: "st w = settling" and n: "\<not> money_out key L0 w"
    and Q: "\<And>r w'. inv key L0 w' \<Longrightarrow> st w' = settling \<Longrightarrow>
      (\<forall>e. r = Inl e \<and> e_retryable e \<longrightarrow> \<not> money_out key L0 w') \<Longrightarrow> Q r w'"
  shows "wp (settle_verb ss op q c a) Q E w"
  by (rule wp_settle_verb) (use i s n Q wp_dispatch_ready [OF i s n Q] in auto)

text \<open>Observing before and after, in a state that is ready to pay.\<close>

lemma wp_obs_bnd:
  assumes "observes m" and "inv key L0 w" and "R (w_run w) (money_out key L0 w)"
    and "\<And>x w'. inv key L0 w' \<Longrightarrow> R (w_run w') (money_out key L0 w') \<Longrightarrow> wp (f x) Q E w'"
    and "\<And>w'. inv key L0 w' \<Longrightarrow> E w'"
  shows "wp (bnd m f) Q E w"
  unfolding wp_bnd
  by (rule wp_mono [OF observes_wp [OF assms(1,2), of R]]) (use assms in auto)

lemma ready_pay:
  assumes "takes_answer key L0 k"
  shows "ready key L0 (bnd (timed d nm (settle_verb ss op q c a)) k)"
proof -
  have k: "wp (k r) (\<lambda>_. inv key L0) (inv key L0) w"
    if "inv key L0 w" "r_state (w_run w) = settling \<and> (\<forall>e. r = Inl e \<and> e_retryable e \<longrightarrow> \<not> money_out key L0 w)"
    for r w using that assms by (simp add: takes_answer_def st_def)
  have tail: "wp (bnd (port_io (d_now d)) (\<lambda>t. seq (emit (EvTiming m (t - b))) (ret r)))
      (\<lambda>r. wp (k r) (\<lambda>_. inv key L0) (inv key L0)) (inv key L0) w"
    if w: "inv key L0 w" "st w = settling" "\<forall>e. r = Inl e \<and> e_retryable e \<longrightarrow> \<not> money_out key L0 w" for r w m b
    by (rule wp_obs_bnd [where R = "\<lambda>run out. r_state run = settling \<and> (\<forall>e. r = Inl e \<and> e_retryable e \<longrightarrow> \<not> out)"])
      (use w in \<open>auto simp: seq_def st_def wp_ret observes_port observes_emit
        intro!: wp_obs_bnd [where R = "\<lambda>run out. r_state run = settling \<and> (\<forall>e. r = Inl e \<and> e_retryable e \<longrightarrow> \<not> out)"] k\<close>)
  show ?thesis
    unfolding ready_def
  proof (intro allI impI)
    fix w :: "'a world" assume w: "inv key L0 w \<and> st w = settling \<and> \<not> money_out key L0 w"
    show "wp (bnd (timed d nm (settle_verb ss op q c a)) k) (\<lambda>_. inv key L0) (inv key L0) w"
      unfolding wp_bnd [of "timed d nm _"]
      unfolding timed_def
      by (rule wp_obs_bnd [where R = "\<lambda>run out. r_state run = settling \<and> \<not> out" and key = key and ?L0.0 = L0])
        (use w in \<open>auto simp: wp_bnd [of "settle_verb _ _ _ _ _"] observes_port st_def
          intro!: wp_settle_ready [of key L0] tail\<close>)
  qed
qed

lemma ready_check_obs:
  assumes "observes m" and "\<And>e. safe_in key L0 {settling} (h e)" and "\<And>v. ready key L0 (k v)"
  shows "ready key L0 (check m h k)"
proof -
  have "wp (check m h k) (\<lambda>_. inv key L0) (inv key L0) w"
    if w: "inv key L0 w" "st w = settling" "\<not> money_out key L0 w" for w
    unfolding check_def
    by (rule wp_obs_bnd [OF assms(1) w(1), where R = "\<lambda>run out. r_state run = settling \<and> \<not> out"])
      (use w assms(2,3) in \<open>auto simp: st_def ready_def safe_in_def split: sum.splits\<close>)
  then show ?thesis by (simp add: ready_def)
qed

lemma ready_answer_found:
  "takes_answer key L0 k \<Longrightarrow> ready key L0 (k (Inr ref))"
  by (simp add: takes_answer_def ready_def)

lemma ready_find_or_settle:
  assumes "takes_answer key L0 k"
  shows "ready key L0 (find_or_settle x q op k)"
  unfolding find_or_settle_def Let_def
  by (auto split: option.splits intro!: ready_check_obs observes_rules safe_giving_up not_recovering
      ready_pay [OF assms] ready_answer_found [OF assms])

lemma safe_settle_pass:
  assumes "S \<subseteq> - in_recovery" and "takes_answer key L0 k"
  shows "safe_in key L0 S (settle_pass x opts i q op d n k)"
proof -
  have dry: "safe_in key L0 T (dry_stop x op cs)" for T cs
    unfolding dry_stop_def by (intro safe_refuse keeps_safe keeps_die)
  have "safe_in key L0 T (gate_phase x i q op n (\<lambda>cs. if op_dryRun opts then dry_stop x op cs
      else quote_expired x q (mk_err QUOTE_EXPIRED (msg_expired_settle (q_id q)))
        (stepR x settling no_meta (find_or_settle x q op k))))" for T
    by (auto intro!: safe_gate_phase dry safe_quote_expired not_recovering safe_stepR_settling
        ready_find_or_settle assms(2))
  then show ?thesis
    unfolding settle_pass_def Let_def using assms(1)
    by (auto split: option.splits intro!: safe_bnd_obs observes_rules safe_giving_up
        safe_quote_expired safe_fatal)
qed

lemma safe_settle_onward:
  assumes "safe_in key L0 {reconciled} k"
  shows "safe_in key L0 S (settle_onward x q op d ref k)"
proof -
  have rest: "safe_in key L0 {settled} (check (timed dd ''reconcile'' (reconcile_io x t d))
      (\<lambda>e. refuse (finishFailure x e)) (\<lambda>_. stepR x reconciled no_meta k))" for dd t
    by (intro safe_check_obs observes_rules safe_giving_up not_recovering safe_stepR assms) simp
  show ?thesis
    unfolding settle_onward_def Let_def record_settlement_def
    by (intro safe_set_run safe_stepR)
      (auto intro!: safe_check_obs observes_rules safe_giving_up not_recovering rest)
qed

text \<open>After a failed settlement: retry only when no money is out, else give up.\<close>

lemma answer_loop:
  assumes "safe_in key L0 {reconciled} k" and "\<And>a. safe_in key L0 {retrying} (again a)"
  shows "takes_answer key L0 (\<lambda>s. case s of
         Inr ref \<Rightarrow> settle_onward x q op d ref k
       | Inl e \<Rightarrow>
           (case recover c (e_retryable e) n of
              Retry a \<Rightarrow> stepR x retrying no_meta (again a)
            | _ \<Rightarrow> refuse (finishFailure x e)))"
proof -
  have retry: "wp (stepR x retrying no_meta (again a)) (\<lambda>_. inv key L0) (inv key L0) w"
    if "inv key L0 w" "\<not> money_out key L0 w" for a w
    unfolding stepR_def
    by (rule wp_step [OF that(1)]) (use that(2) assms(2) in \<open>auto simp: safe_in_def\<close>)
  have stop: "wp (refuse (finishFailure x e)) (\<lambda>_. inv key L0) (inv key L0) w"
    if "inv key L0 w" "st w = settling" for e w
    using safe_giving_up [OF not_recovering(2), of key L0 x e] that by (auto simp: safe_in_def)
  have on: "wp (settle_onward x q op d ref k) (\<lambda>_. inv key L0) (inv key L0) w" if "inv key L0 w" for ref w
    using safe_settle_onward [OF assms(1), of UNIV x q op d ref] that by (simp add: safe_in_def)
  show ?thesis
    unfolding takes_answer_def
    by (auto split: sum.splits recovery_action.splits simp: recover_retry_iff intro!: retry stop on)
qed

lemma safe_settle_loop:
  "safe_in key L0 {reconciled} k \<Longrightarrow> S \<subseteq> - in_recovery \<Longrightarrow>
   safe_in key L0 S (settle_loop f x opts i q op d n k)"
proof (induction f arbitrary: S n)
  case 0
  then show ?case by (simp add: safe_throw)
next
  case (Suc f)
  show ?case
    unfolding settle_loop.simps
    by (intro safe_settle_pass answer_loop safe_seq_obs observes_rules Suc.IH Suc.prems not_recovering)
qed

lemma safe_complete_run: "safe_in key L0 S (complete_run x t)"
  unfolding complete_run_def
  by (intro safe_stepR safe_seq_obs safe_bnd_obs observes_rules observes_emit safe_gets) simp_all

lemma safe_run_payment: "safe_in key L0 S (run_payment x opts i route p t)"
  unfolding run_payment_def Let_def
  by (intro safe_do_quote safe_do_comply safe_do_open safe_do_funding safe_bnd_obs observes_rules
      safe_settle_loop safe_complete_run not_recovering)

subsection \<open>The phases of a resumed run\<close>

lemma safe_conflict: "safe_in key L0 S (conflict m)"
  unfolding conflict_def by (intro safe_get_run safe_ret)

lemma safe_manifest_guard: "safe_in key L0 UNIV k \<Longrightarrow> safe_in key L0 UNIV (manifest_guard x k)"
  unfolding manifest_guard_def Let_def
  by (intro safe_get_run) (auto split: option.splits intro!: safe_fatal safe_subset)

lemma safe_stale_guard: "safe_in key L0 UNIV k \<Longrightarrow> safe_in key L0 UNIV (stale_guard x k)"
  unfolding stale_guard_def by (intro safe_get_run) (auto intro!: safe_fatal safe_subset)

lemma safe_resume_funding:
  "safe_in key L0 UNIV k \<Longrightarrow> safe_in key L0 UNIV (resume_funding x i sending k)"
  unfolding resume_funding_def Let_def
  by (intro safe_get_run)
    (auto split: option.splits intro!: safe_conflict safe_await_deposit safe_open_deposit safe_step_or
      not_recovering intro: safe_subset)

lemma safe_funded_gate: "safe_in key L0 UNIV k \<Longrightarrow> safe_in key L0 UNIV (funded_gate x k)"
  unfolding funded_gate_def by (intro safe_get_run) (auto intro!: safe_conflict safe_subset)

lemma safe_if_expired:
  "safe_in key L0 S yes \<Longrightarrow> safe_in key L0 S no \<Longrightarrow> safe_in key L0 S (if_stored_expired x r yes no)"
  unfolding if_stored_expired_def by (auto intro!: safe_bnd_obs observes_rules)

definition unpaid :: "corridor_state set" where
  "unpaid = {opened, funded, retrying, verifying}"

lemma unpaid_live: "unpaid \<subseteq> - in_recovery"
  by (auto simp: unpaid_def in_recovery_def)

lemma safe_enterSettling:
  assumes "ready key L0 k" and "S \<subseteq> unpaid \<or> safe_in key L0 {settling} k" and "S \<subseteq> insert settling unpaid"
  shows "safe_in key L0 S (enterSettling x k)"
proof -
  have last: "safe_in key L0 {s} (bnd get_run (\<lambda>r. if r_state r = verifying then stepR x settling no_meta k else k))"
    if "s = verifying \<or> (s = settling \<and> safe_in key L0 {settling} k)" for s
    using that by (intro safe_get_run) (auto intro!: safe_stepR_settling assms(1))
  have "safe_in key L0 {s} (bnd get_run (\<lambda>r. let last' = bnd get_run (\<lambda>r.
      if r_state r = verifying then stepR x settling no_meta k else k)
      in if r_state r = funded \<or> r_state r = opened \<or> r_state r = retrying
         then stepR x verifying no_meta last' else last'))" if "s \<in> S" for s
    unfolding Let_def using that assms(2,3)
    by (intro safe_get_run) (auto intro!: safe_stepR last simp: unpaid_def)
  then show ?thesis
    unfolding enterSettling_def Let_def by (auto simp: safe_in_def)
qed

lemma ready_submit:
  assumes "\<And>ref. safe_in key L0 {settling} (k ref)"
  shows "ready key L0 (check (dispatch req p) (\<lambda>e. refuse (finishFailure x e)) k)"
proof -
  have stop: "wp (refuse (finishFailure x e)) (\<lambda>_. inv key L0) (inv key L0) w"
    if "inv key L0 w" "st w = settling" for e w
    using safe_giving_up [OF not_recovering(2), of key L0 x e] that by (auto simp: safe_in_def)
  have answer: "case r of Inl e \<Rightarrow> wp (refuse (finishFailure x e)) (\<lambda>_. inv key L0) (inv key L0) w
      | Inr v \<Rightarrow> wp (k v) (\<lambda>_. inv key L0) (inv key L0) w"
    if "inv key L0 w" "st w = settling" for r and w
    using that assms stop by (auto simp: safe_in_def split: sum.splits)
  have paid: "case r of Inl e \<Rightarrow> wp (refuse (finishFailure x e)) (\<lambda>_. inv key L0) (inv key L0) (w\<lparr>w_env := e', w_events := w_events w @ [EvSubmit req, EvSubmitted r]\<rparr>)
      | Inr v \<Rightarrow> wp (k v) (\<lambda>_. inv key L0) (inv key L0) (w\<lparr>w_env := e', w_events := w_events w @ [EvSubmit req, EvSubmitted r]\<rparr>)"
    if w: "inv key L0 w" "st w = settling" "\<not> money_out key L0 w" for w r e'
    by (rule wp_dispatch_ready [OF w]) (rule answer)
  have "wp (check (dispatch req p) (\<lambda>e. refuse (finishFailure x e)) k) (\<lambda>_. inv key L0) (inv key L0) w"
    if w: "inv key L0 w" "st w = settling" "\<not> money_out key L0 w" for w
    unfolding wp_check wp_dispatch using paid [OF w, of "fst (p (w_env w))" "snd (p (w_env w))"]
    by (auto split: prod.splits sum.splits)
  then show ?thesis by (simp add: ready_def)
qed

lemma safe_resume_pay:
  assumes "\<And>ref. safe_in key L0 {settling} (k ref)" and "S \<subseteq> unpaid"
  shows "safe_in key L0 S (resume_pay x req k)"
  unfolding resume_pay_def Let_def using assms(2) unpaid_live
  by (intro safe_get_run safe_if_expired safe_hold_if_funded safe_enterSettling ready_submit assms(1)
      safe_mono [OF safe_finishFailure]) auto

lemma safe_resume_source:
  assumes "safe_in key L0 unpaid k" and "S \<subseteq> unpaid"
  shows "safe_in key L0 S (resume_source x i sending k)"
  unfolding resume_source_def using assms
  by (intro safe_get_run)
    (auto split: option.splits intro!: safe_conflict safe_stepR safe_open_deposit safe_await_deposit
      not_recovering intro: safe_mono simp: unpaid_def)

lemma safe_resume_comply:
  "safe_in key L0 S k \<Longrightarrow> safe_in key L0 S (resume_comply x i k)"
  unfolding resume_comply_def by (auto intro!: safe_check_obs observes_rules safe_fatal)

lemma safe_resume_submit:
  assumes "\<And>ref. safe_in key L0 {settling} (k ref)" and "S \<subseteq> unpaid"
  shows "safe_in key L0 S (resume_submit x opts i route req k)"
  unfolding resume_submit_def Let_def using assms(2)
  by (intro safe_get_run safe_if_expired)
    (auto intro!: safe_fatal safe_conflict safe_resume_comply safe_resume_source safe_resume_pay assms(1))

lemma safe_resume_found:
  assumes "\<And>ref. safe_in key L0 {settling} (k ref)" and "S \<subseteq> insert settling unpaid"
  shows "safe_in key L0 S (resume_found x ref k)"
  unfolding resume_found_def using assms
  by (intro safe_get_run) (auto intro!: safe_conflict safe_enterSettling safe_ready)

lemma safe_resume_settle:
  assumes "safe_in key L0 UNIV k"
  shows "safe_in key L0 UNIV (resume_settle x opts i route k)"
proof -
  have done': "safe_in key L0 S (seq (record_settlement ref req) (stepR x settled m k))" for S ref req m
    unfolding record_settlement_def by (intro safe_set_run safe_stepR safe_subset [OF assms]) simp_all
  show ?thesis
    unfolding resume_settle_def Let_def
    by (intro safe_get_run)
      (auto split: option.splits
        intro!: safe_conflict safe_if_expired safe_refuse safe_hold_error safe_check_obs observes_rules
          safe_resume_found safe_resume_submit done' safe_subset [OF assms]
        simp: settle_phase_state_def unpaid_def)
qed

lemma safe_resume_verify: "safe_in key L0 S k \<Longrightarrow> safe_in key L0 S (resume_verify x k)"
  unfolding resume_verify_def Let_def
  by (intro safe_get_run)
    (auto split: option.splits settlement_ref.splits
      intro!: safe_check_obs observes_rules safe_refuse safe_hold_error intro: safe_mono)

lemma safe_resume_reconcile:
  assumes "safe_in key L0 UNIV k"
  shows "safe_in key L0 UNIV (resume_reconcile x k)"
  unfolding resume_reconcile_def
  by (intro safe_get_run)
    (auto intro!: safe_conflict safe_resume_verify safe_bnd_obs safe_check_obs observes_rules safe_giving_up
      not_recovering safe_step_or safe_subset [OF assms])

lemma safe_resume_complete:
  "safe_in key L0 UNIV k \<Longrightarrow> safe_in key L0 UNIV (resume_complete x k)"
  unfolding resume_complete_def
  by (intro safe_get_run)
    (auto intro!: safe_step_or safe_seq_obs observes_rules safe_gets intro: safe_subset)

lemma safe_resume_recovery:
  assumes "safe_in key L0 UNIV k"
  shows "safe_in key L0 UNIV (resume_recovery x k)"
proof -
  have finish: "safe_in key L0 S (step_or x refunded m (seq (recordOutcome n refunded c) (ret v)))" for S m n c v
    by (intro safe_step_or safe_seq_obs observes_rules safe_ret) simp
  have watch: "safe_in key L0 S (check (watch_io x t)
      (\<lambda>we. bnd (holdAndStop n we (statusFrom (e_cause we)) c) (\<lambda>s. ret (Inl (stop_error s))))
      (\<lambda>v. seq (set_run (\<lambda>r. (case ts_refunds v of
              Some i \<Rightarrow> if first_refund_id i \<noteq> None then r\<lparr>r_refundId := first_refund_id i\<rparr> else r
            | None \<Rightarrow> r)\<lparr>r_lastError := None\<rparr>))
         (step_or x refunded (refundAudit (ts_refunds v)) (seq (recordOutcome n refunded c') (ret (Inl e))))))"
    for S t n c c' e
    by (intro safe_check_obs observes_rules safe_bnd_keeps safe_hold safe_ret safe_set_run finish)
      (auto split: option.splits)
  show ?thesis
    unfolding resume_recovery_def Let_def
    by (intro safe_get_run)
      (auto intro!: safe_conflict finish watch safe_step_or safe_subset [OF assms])
qed

lemma safe_resume_phases: "safe_in key L0 UNIV (resume_phases x opts i route)"
  unfolding resume_phases_def
  by (intro safe_manifest_guard safe_stale_guard safe_resume_funding safe_funded_gate safe_resume_settle
      safe_resume_reconcile safe_resume_complete safe_resume_recovery safe_conflict)

subsection \<open>Whole sessions\<close>

text \<open>\<open>linked\<close>: the ledger of the key and the stored row agree. Every allowed event keeps it.\<close>

definition linked :: "string \<Rightarrow> ledger \<Rightarrow> bool" where
  "linked key L \<longleftrightarrow> l_ok L \<and> consistent L \<and>
     (case mem_get (l_store L) key of
        None \<Rightarrow> l_state L = None
      | Some r \<Rightarrow> l_state L = Some (r_state r) \<and> l_version L = r_version r \<and> r_key r = key)"

lemma linked_enter:
  assumes "linked key L" and "l_ok (enter key ev L)"
  shows "linked key (enter key ev L)"
proof -
  have c: "consistent (enter key ev L)" using assms(2) by (rule enter_consistent)
  have s: "l_store (enter key ev L) = l_store (post key ev L)" "l_state (enter key ev L) = l_state (post key ev L)"
    "l_version (enter key ev L) = l_version (post key ev L)" "l_ok (post key ev L)"
    using assms(2) by (simp_all add: enter_def Let_def)
  have "case mem_get (l_store (post key ev L)) key of None \<Rightarrow> l_state (post key ev L) = None
      | Some r \<Rightarrow> l_state (post key ev L) = Some (r_state r) \<and> l_version (post key ev L) = r_version r \<and> r_key r = key"
    using assms(1) s(4)
    by (cases ev) (auto simp: linked_def mem_get_put mem_get_create put_allowed_def split: option.splits)
  with c s assms(2) show ?thesis by (auto simp: linked_def split: option.splits)
qed

lemma linked_ledger:
  "linked key L0 \<Longrightarrow> l_ok (ledger_at key L0 es) \<Longrightarrow> linked key (ledger_at key L0 es)"
proof (induction es rule: rev_induct)
  case (snoc e es)
  from snoc.prems(2) have "l_ok (ledger_at key L0 es)" by (rule ledger_ok_prefix)
  with snoc have "linked key (ledger_at key L0 es)" by simp
  with snoc.prems(2) show ?case by (simp add: ledger_at_append ledger_at_one linked_enter)
qed simp

text \<open>Before the run exists, the ledger is the one the session began with.\<close>

definition untouched :: "string \<Rightarrow> ledger \<Rightarrow> 'e world \<Rightarrow> bool" where
  "untouched key L0 w \<longleftrightarrow> led key L0 w = L0 \<and> w_runs w = l_store L0"

lemma stable_untouched: "consistent L0 \<Longrightarrow> stable (\<lambda>w. untouched key L0 w \<and> R (w_run w))"
  by (auto simp: stable_def untouched_def enter_reporting)

lemma wp_stable_bnd:
  assumes "stable P" and "observes m" and "P w"
    and "\<And>x w'. P w' \<Longrightarrow> wp (f x) Q E w'" and "\<And>w'. P w' \<Longrightarrow> E w'"
  shows "wp (bnd m f) Q E w"
proof -
  have "keeps P m" using assms(1,2) by (simp add: observes_def)
  then have "wp m (\<lambda>_. P) P w" using assms(3) by (simp add: keeps_def)
  then show ?thesis unfolding wp_bnd by (rule wp_mono) (use assms(4,5) in auto)
qed

lemma observes_throw: "observes throw_io"
  by (rule observesI) (rule keeps_throw)

lemma observes_gets: "observes (gets_io f)"
  by (rule observesI) (rule keeps_gets)

lemma observes_pre_claim: "observes (pre_claim n i)"
  unfolding pre_claim_def emitVerification_def Let_def
  by (auto split: option.splits sum.splits
      intro!: observes_ret observes_bnd observes_nowIO observes_seq observes_emit observes_port observes_throw)

lemma observes_breaker: "observes (breaker_guard n)"
  unfolding breaker_guard_def
  by (auto split: option.splits intro!: observes_ret observes_bnd observes_gets observes_seq observes_emit)

text \<open>What holds wherever a session ends or is stopped.\<close>

definition good :: "string \<Rightarrow> ledger \<Rightarrow> 'e world \<Rightarrow> bool" where
  "good key L0 w \<longleftrightarrow> l_ok (led key L0 w) \<and> w_runs w = l_store (led key L0 w)"

lemma inv_good: "inv key L0 w \<Longrightarrow> good key L0 w"
  by (simp add: good_def inv_led inv_of_def)

lemma untouched_good: "linked key L0 \<Longrightarrow> untouched key L0 w \<Longrightarrow> good key L0 w"
  by (simp add: good_def untouched_def linked_def)

lemma safe_good:
  "safe_in key L0 UNIV m \<Longrightarrow> inv key L0 w \<Longrightarrow> wp m (\<lambda>_. good key L0) (good key L0) w"
  by (auto simp: safe_in_def intro: wp_mono inv_good)

lemma safe_route:
  "(\<And>e. safe_in key L0 UNIV (h e)) \<Longrightarrow> (\<And>r. safe_in key L0 UNIV (k r)) \<Longrightarrow>
   safe_in key L0 UNIV (check (resolveRoute n i) h k)"
  by (intro safe_check_obs observes_rules)

lemma wp_resume:
  assumes l: "linked key L0" and u: "untouched key L0 w" and m: "mem_get (w_runs w) key = Some r"
  shows "wp (resumeRun fuel n opts i r) (\<lambda>_. good key L0) (good key L0) w"
proof -
  have "safe_in key L0 UNIV (check (resolveRoute n i)
         (\<lambda>e. if pre_open (r_state r) then refuse (failRun n e None) else ret (Inl e))
         (\<lambda>route. resume_phases (mk_session fuel n route) opts i route))"
    by (intro safe_route safe_resume_phases) (auto intro!: safe_refuse keeps_safe [OF keeps_failRun])
  moreover have "inv key L0 (w\<lparr>w_run := r, w_trail := [r_state r], w_checks := None\<rparr>)"
    using l u m by (auto simp: inv_led inv_of_def linked_def untouched_def)
  ultimately show ?thesis
    by (simp add: resumeRun_def begin_session_def wp_seq wp_modify safe_good)
qed

lemma create_wins:
  assumes l: "linked key L0" and u: "untouched key L0 w" and m: "mem_get (w_runs w) key = None"
    and r: "r_key (w_run w) = key" "r_state (w_run w) = created"
    and k: "\<And>w'. inv key L0 w' \<Longrightarrow> Q True w'"
  shows "wp create_run Q E w"
proof -
  let ?w = "w\<lparr>w_runs := snd (mem_create (w_run w) (w_runs w)), w_events := w_events w @ [EvCreate (w_run w)]\<rparr>"
  have won: "fst (mem_create (w_run w) (w_runs w))" using m r by (simp add: mem_create_def mem_get_def)
  have n: "l_state L0 = None" "l_ok L0" "consistent L0" "led key L0 w = L0" "w_runs w = l_store L0"
    using l u m by (auto simp: linked_def untouched_def split: option.splits)
  then have "\<not> l_open L0" "l_refunds L0 = 0" by (auto simp: consistent_def)
  then have "enter key (EvCreate (w_run w)) L0 = L0\<lparr>l_state := Some created,
      l_version := r_version (w_run w), l_store := snd (mem_create (w_run w) (l_store L0))\<rparr>"
    using n r by (simp add: enter_def Let_def consistent_def)
  then have "inv key L0 ?w"
    using n r \<open>\<not> l_open L0\<close> \<open>l_refunds L0 = 0\<close> by (simp add: inv_led inv_of_def consistent_def)
  then show ?thesis using won by (simp add: wp_create_run k)
qed

lemma wp_new_payment:
  assumes l: "linked key L0" and u: "untouched key L0 w" and m: "mem_get (w_runs w) key = None"
    and i: "idempotencyKey intent = key"
  shows "wp (new_payment fuel n opts intent t) (\<lambda>_. good key L0) (good key L0) w"
proof -
  let ?r = "new_run n intent opts"
  let ?P = "\<lambda>w. untouched key L0 w \<and> w_run w = ?r"
  have P: "stable ?P" using l stable_untouched [of L0 key "\<lambda>r. r = ?r"] by (simp add: linked_def)
  have claimed: "wp (bnd create_run (\<lambda>won. if \<not> won then ret (fail IDEMPOTENCY_CONFLICT (msg_claimed (idempotencyKey intent)))
      else check (resolveRoute n intent) (\<lambda>e. refuse (failRun n e None)) (\<lambda>route.
               let x = mk_session fuel n route in
               case route_checks (n_deps n) opts (n_corridor n) route of
                 Inl e \<Rightarrow> fatal x e
               | Inr provider \<Rightarrow> run_payment x opts intent route provider t)))
      (\<lambda>_. good key L0) (good key L0) w'" if w': "?P w'" for w'
  proof -
    have g: "mem_get (w_runs w') key = None" using w' u m by (simp add: untouched_def)
    have r: "r_key ?r = key" "r_state ?r = created" using i by (simp_all add: new_run_def)
    have "safe_in key L0 UNIV (check (resolveRoute n intent) (\<lambda>e. refuse (failRun n e None)) (\<lambda>route.
               let x = mk_session fuel n route in
               case route_checks (n_deps n) opts (n_corridor n) route of
                 Inl e \<Rightarrow> fatal x e
               | Inr provider \<Rightarrow> run_payment x opts intent route provider t))"
      unfolding Let_def
      by (intro safe_route safe_refuse keeps_safe [OF keeps_failRun])
        (auto split: sum.splits intro!: safe_fatal safe_run_payment)
    note tail = safe_good [OF this]
    show ?thesis
      unfolding wp_bnd
      by (rule create_wins [OF l _ g]) (use w' r tail in \<open>simp_all only: not_True_eq_False if_False\<close>)
  qed
  have guard: "wp (check (breaker_guard n) (\<lambda>e. ret (Inl e)) k) (\<lambda>_. good key L0) (good key L0) w1"
    if w1: "?P w1" and k: "\<And>v w'. ?P w' \<Longrightarrow> wp (k v) (\<lambda>_. good key L0) (good key L0) w'"
    for w1 and k :: "unit \<Rightarrow> ('a, run_result outcome) eio"
    unfolding check_def
    by (rule wp_stable_bnd [OF P observes_breaker w1])
      (use k untouched_good [OF l] in \<open>auto simp: wp_ret split: sum.splits\<close>)
  have "?P (w\<lparr>w_run := ?r, w_trail := [r_state ?r], w_checks := None\<rparr>)"
    using u by (simp add: untouched_def)
  then show ?thesis
    unfolding new_payment_def begin_session_def wp_seq wp_modify by (rule guard) (rule claimed)
qed

theorem session_good:
  assumes l: "linked key L0" and e: "w_events w = []" and s: "w_runs w = l_store L0"
    and i: "idempotencyKey intent = key"
  shows "good key L0 (snd (execute fuel d intent c opts w))"
proof -
  let ?P = "untouched key L0"
  have P: "stable ?P" using l stable_untouched [of L0 key "\<lambda>_. True"] by (simp add: linked_def)
  have G: "?P w \<Longrightarrow> good key L0 w" for w using untouched_good [OF l] by blast
  have u: "?P w" using e s by (simp add: untouched_def led_def)
  have existing: "wp (bnd (gets_io (\<lambda>w. mem_get (w_runs w) (idempotencyKey intent))) (\<lambda>existing.
            case existing of
              None \<Rightarrow> new_payment fuel n opts intent t
            | Some r \<Rightarrow>
                if r_state r = completed then ret (Inr (toResult r [r_state r]))
                else if \<not> isTerminal (r_state r) then resumeRun fuel n opts intent r
                else ret (fail IDEMPOTENCY_CONFLICT
                  (msg_in_flight (idempotencyKey intent) (r_state r)))))
      (\<lambda>_. good key L0) (good key L0) w'" if w': "?P w'" for n t w'
    unfolding wp_bnd wp_gets
    using wp_new_payment [OF l w' _ i] wp_resume [OF l w'] G [OF w'] i
    by (auto simp: wp_ret split: option.splits)
  have "wp (execute fuel d intent c opts) (\<lambda>_. good key L0) (good key L0) w"
    unfolding execute_def execute_with_def Let_def check_def
    by (rule wp_stable_bnd [OF P observes_nowIO u], rule wp_stable_bnd [OF P observes_pre_claim])
      (auto simp: wp_ret G split: sum.splits intro!: existing)
  then show ?thesis by (auto simp: wp_def split: prod.splits option.splits)
qed

end
