(* ===== verification/History.thy ===== *)
theory History
  imports Safety
begin

section \<open>Histories of a key: sessions, crashes, resumptions\<close>

text \<open>
  A history of an idempotency key is any number of sessions of \<open>execute\<close>, one after the other,
  each with its own dependencies, manifest, options and fuel, and each cut off after any
  number of its events, as a crash or an uncaught exception would; the next session finds the
  store as the surviving events left it. Sessions of the same key that overlap in time are not
  histories. From the consistency of the ledger the theory derives what a history's events can
  be.
\<close>

fun apply_event :: "event \<Rightarrow> mem_store \<Rightarrow> mem_store" where
  "apply_event (EvCreate r) s = snd (mem_create r s)"
| "apply_event (EvPut r) s = mem_put r s"
| "apply_event _ s = s"

definition replay :: "event list \<Rightarrow> mem_store \<Rightarrow> mem_store" where
  "replay es s = fold apply_event es s"

definition session_world :: "'e \<Rightarrow> mem_store \<Rightarrow> health_mem \<Rightarrow> stored_run \<Rightarrow> 'e world" where
  "session_world e s h r =
     \<lparr>w_env = e, w_runs = s, w_health = h, w_events = [], w_run = r, w_trail = [], w_checks = None\<rparr>"

text \<open>The events of a session that starts with store \<open>s\<close>; \<open>r\<close> only fills the run object before one exists.\<close>

definition session_events ::
  "nat \<Rightarrow> 'e engine_deps \<Rightarrow> payment_intent \<Rightarrow> corridor \<Rightarrow> execute_options \<Rightarrow> 'e world \<Rightarrow> event list" where
  "session_events fuel d intent c opts w = w_events (snd (execute fuel d intent c opts w))"

inductive history :: "string \<Rightarrow> event list \<Rightarrow> mem_store \<Rightarrow> 'e \<Rightarrow> bool" where
  hist_start: "mem_get s key = None \<Longrightarrow> history key [] s e"
| hist_session: "history key es s e \<Longrightarrow> idempotencyKey intent = key \<Longrightarrow>
    new = take n (session_events fuel d intent c opts (session_world (e' :: 'e) s h r)) \<Longrightarrow>
    history key (es @ new) (replay new s) e'"

inductive_cases history_cases: "history key es s e"

lemma l_store_enter: "l_store (enter key ev L) = apply_event ev (l_store L)"
  by (cases ev) (simp_all add: enter_def Let_def)

lemma l_store_ledger: "l_store (ledger_at key L es) = replay es (l_store L)"
  by (induction es rule: rev_induct)
    (simp_all add: ledger_at_append ledger_at_one l_store_enter replay_def)

lemma session_world_simps [simp]:
  "w_events (session_world e s h r) = []" "w_runs (session_world e s h r) = s"
  "w_health (session_world e s h r) = h" "w_env (session_world e s h r) = e"
  by (simp_all add: session_world_def)

lemma session_ledger:
  assumes "linked key L" and "idempotencyKey intent = key"
  shows "l_ok (ledger_at key L (session_events fuel d intent c opts (session_world e (l_store L) h r)))"
  using session_good [OF assms(1) _ _ assms(2), of "session_world e (l_store L) h r" fuel d c opts]
  by (simp add: good_def led_def session_events_def)

lemma session_store:
  assumes "linked key L" and "idempotencyKey intent = key"
  shows "w_runs (snd (execute fuel d intent c opts (session_world e (l_store L) h r))) =
    replay (session_events fuel d intent c opts (session_world e (l_store L) h r)) (l_store L)"
  using session_good [OF assms(1) _ _ assms(2), of "session_world e (l_store L) h r" fuel d c opts]
  by (simp add: good_def led_def session_events_def l_store_ledger)

lemma linked_start: "mem_get s key = None \<Longrightarrow> linked key (ledger_of_store s)"
  by (simp add: linked_def ledger_of_store_def consistent_def)

lemma history_linked:
  "history key es s e \<Longrightarrow>
   \<exists>s0. linked key (ledger_at key (ledger_of_store s0) es) \<and> l_store (ledger_at key (ledger_of_store s0) es) = s"
proof (induction rule: history.induct)
  case (hist_start s key e)
  then show ?case using linked_start by (intro exI [of _ s]) (simp add: ledger_of_store_def)
next
  case (hist_session key es s e intent new n fuel d c opts e' h r)
  then obtain s0 where l: "linked key (ledger_at key (ledger_of_store s0) es)"
    and s: "l_store (ledger_at key (ledger_of_store s0) es) = s" by blast
  have "l_ok (ledger_at key (ledger_at key (ledger_of_store s0) es) new)"
    using session_ledger [OF l, of intent fuel d c opts e' h r] hist_session.hyps s
    by (simp add: ledger_ok_take)
  then show ?case
    using linked_ledger [OF l] s
    by (intro exI [of _ s0]) (simp add: ledger_at_append l_store_ledger)
qed

lemma history_ok: "history key es s e \<Longrightarrow> \<exists>s0. l_ok (ledger_at key (ledger_of_store s0) es)"
  using history_linked by (fastforce simp: linked_def)

subsection \<open>Reading off the ledger\<close>

fun is_submit :: "event \<Rightarrow> bool" where
  "is_submit (EvSubmit _) = True" | "is_submit _ = False"

fun is_refund :: "event \<Rightarrow> bool" where
  "is_refund (EvRefund _) = True" | "is_refund _ = False"

text \<open>An answer that says the payment did not go out and may be tried again.\<close>

fun is_retryable :: "event \<Rightarrow> bool" where
  "is_retryable (EvSubmitted (Inl e)) = e_retryable e" | "is_retryable _ = False"

fun written :: "event \<Rightarrow> stored_run option" where
  "written (EvCreate r) = Some r" | "written (EvPut r) = Some r" | "written _ = None"

text \<open>The runs written by the events, in order, and the state last written.\<close>

definition writes :: "event list \<Rightarrow> stored_run list" where
  "writes es = List.map_filter written es"

definition last_state :: "event list \<Rightarrow> corridor_state option" where
  "last_state es = (if writes es = [] then None else Some (r_state (last (writes es))))"

lemma writes_snoc: "writes (es @ [ev]) = writes es @ (case written ev of None \<Rightarrow> [] | Some r \<Rightarrow> [r])"
  by (simp add: writes_def map_filter_def split: option.splits)

lemma writes_Nil [simp]: "writes [] = []"
  by (simp add: writes_def map_filter_def)

lemma last_state_snoc:
  "last_state (es @ [ev]) = (case written ev of None \<Rightarrow> last_state es | Some r \<Rightarrow> Some (r_state r))"
  by (simp add: last_state_def writes_snoc split: option.splits)

lemma last_state_Nil [simp]: "last_state [] = None"
  by (simp add: last_state_def)

lemma ledger_of_store_simps [simp]:
  "l_state (ledger_of_store s) = None" "l_refunds (ledger_of_store s) = 0" "l_store (ledger_of_store s) = s"
  by (simp_all add: ledger_of_store_def)

lemma l_state_enter:
  "l_state (enter key ev L) = (case written ev of None \<Rightarrow> l_state L | Some r \<Rightarrow> Some (r_state r))"
  by (cases ev) (simp_all add: enter_def Let_def)

lemma ledger_snoc: "ledger_at key L (es @ [ev]) = enter key ev (ledger_at key L es)"
  by (simp add: ledger_at_append ledger_at_one)

lemma l_state_ledger: "l_state (ledger_at key (ledger_of_store s0) es) = last_state es"
  by (induction es rule: rev_induct)
    (simp_all add: ledger_snoc l_state_enter last_state_snoc split: option.splits)

lemma enter_ok_old: "l_ok (enter key ev L) \<Longrightarrow> l_ok L"
  using enter_bad by blast

lemma enter_ok_submit: "is_submit ev \<Longrightarrow> l_ok (enter key ev L) \<Longrightarrow> l_state L = Some settling \<and> \<not> l_open L"
  by (cases ev) (auto simp: enter_def Let_def)

lemma enter_ok_refund:
  "is_refund ev \<Longrightarrow> l_ok (enter key ev L) \<Longrightarrow> l_state L = Some recovering \<and> l_refunds L = 0"
  by (cases ev) (auto simp: enter_def Let_def)

lemma l_open_enter:
  "l_open (enter key ev L) \<longleftrightarrow> is_submit ev \<or> (l_open L \<and> \<not> is_retryable ev)"
  by (cases ev rule: is_retryable.cases) (auto simp: enter_def Let_def split: sum.splits)

lemma l_refunds_enter: "l_refunds (enter key ev L) = l_refunds L + (if is_refund ev then 1 else 0)"
  by (cases ev) (simp_all add: enter_def Let_def)

lemma open_since:
  "i < length es \<Longrightarrow> is_submit (es ! i) \<Longrightarrow> (\<And>m. i < m \<Longrightarrow> m < length es \<Longrightarrow> \<not> is_retryable (es ! m)) \<Longrightarrow>
   l_open (ledger_at key L es)"
proof (induction es rule: rev_induct)
  case (snoc ev es)
  show ?case
  proof (cases "i = length es")
    case True
    with snoc.prems show ?thesis by (simp add: ledger_snoc l_open_enter)
  next
    case False
    with snoc.prems(1) have i: "i < length es" by simp
    have "\<not> is_retryable (es ! m)" if "i < m" "m < length es" for m
      using snoc.prems(3) [of m] that by (simp add: nth_append)
    then have "l_open (ledger_at key L es)"
      using snoc.IH [OF i] snoc.prems(2) i by (simp add: nth_append)
    moreover have "\<not> is_retryable ev" using snoc.prems(3) [of "length es"] i by (simp add: nth_append)
    ultimately show ?thesis by (simp add: ledger_snoc l_open_enter)
  qed
qed simp

lemma ledger_ok_at:
  assumes "l_ok (ledger_at key L es)" and "j < length es"
  shows "l_ok (enter key (es ! j) (ledger_at key L (take j es)))"
proof -
  have "l_ok (ledger_at key L (take (Suc j) es))" using assms(1) by (rule ledger_ok_take)
  then show ?thesis using assms(2) by (simp add: take_Suc_conv_app_nth ledger_snoc)
qed

lemma submit_at:
  assumes "l_ok (ledger_at key (ledger_of_store s0) es)" and "j < length es" and "is_submit (es ! j)"
  shows "last_state (take j es) = Some settling"
  using enter_ok_submit [OF assms(3) ledger_ok_at [OF assms(1,2)]] by (simp add: l_state_ledger)

lemma refund_at:
  assumes "l_ok (ledger_at key (ledger_of_store s0) es)" and "j < length es" and "is_refund (es ! j)"
  shows "last_state (take j es) = Some recovering"
  using enter_ok_refund [OF assms(3) ledger_ok_at [OF assms(1,2)]] by (simp add: l_state_ledger)

lemma second_submit:
  assumes "l_ok (ledger_at key L es)" and "i < j" and "j < length es"
    and "is_submit (es ! i)" and "is_submit (es ! j)"
  shows "\<exists>m. i < m \<and> m < j \<and> is_retryable (es ! m)"
proof (rule ccontr)
  assume no: "\<not> ?thesis"
  have "l_open (ledger_at key L (take j es))"
    by (rule open_since [of i]) (use assms(2-4) no in auto)
  then show False using enter_ok_submit [OF assms(5) ledger_ok_at [OF assms(1,3)]] by simp
qed

lemma l_refunds_ledger: "l_refunds (ledger_at key (ledger_of_store s0) es) = length (filter is_refund es)"
  by (induction es rule: rev_induct) (simp_all add: ledger_snoc l_refunds_enter)

lemma one_refund:
  "l_ok (ledger_at key (ledger_of_store s0) es) \<Longrightarrow> length (filter is_refund es) \<le> 1"
proof (induction es rule: rev_induct)
  case (snoc ev es)
  then have ok: "l_ok (enter key ev (ledger_at key (ledger_of_store s0) es))" by (simp add: ledger_snoc)
  then have "length (filter is_refund es) \<le> 1" using snoc.IH enter_ok_old by blast
  then show ?case
    using enter_ok_refund [OF _ ok] by (cases "is_refund ev") (simp_all add: l_refunds_ledger)
qed simp

lemma refund_alone:
  assumes "l_ok (ledger_at key (ledger_of_store s0) es)" and "j < length es" and "is_refund (es ! j)"
  shows "\<nexists>i. i \<noteq> j \<and> i < length es \<and> is_refund (es ! i)"
proof
  assume "\<exists>i. i \<noteq> j \<and> i < length es \<and> is_refund (es ! i)"
  then obtain i where i: "i \<noteq> j" "i < length es" "is_refund (es ! i)" by blast
  have "{i, j} \<subseteq> {m. m < length es \<and> is_refund (es ! m)}" using assms i by auto
  then have "card {i, j} \<le> card {m. m < length es \<and> is_refund (es ! m)}"
    by (intro card_mono) auto
  also have "\<dots> = length (filter is_refund es)" by (simp add: length_filter_conv_card)
  also have "\<dots> \<le> 1" using assms(1) by (rule one_refund)
  finally show False using i(1) by simp
qed

text \<open>The writes of a key walk the state machine, with growing versions.\<close>

definition write_step :: "stored_run \<Rightarrow> stored_run \<Rightarrow> bool" where
  "write_step r r' \<longleftrightarrow> r_key r' = r_key r \<and> r_version r < r_version r' \<and>
     (r_state r = r_state r' \<or> canTransition (r_state r) (r_state r'))"

lemma l_version_ledger:
  "l_ok (ledger_at key (ledger_of_store s0) es) \<Longrightarrow> writes es \<noteq> [] \<Longrightarrow>
   l_version (ledger_at key (ledger_of_store s0) es) = r_version (last (writes es)) \<and>
   r_key (last (writes es)) = key"
proof (induction es rule: rev_induct)
  case (snoc ev es)
  then have ok: "l_ok (enter key ev (ledger_at key (ledger_of_store s0) es))" by (simp add: ledger_snoc)
  have old: "l_ok (ledger_at key (ledger_of_store s0) es)" using ok by (rule enter_ok_old)
  show ?case
    using ok snoc.IH [OF old] snoc.prems(2)
    by (cases ev) (auto simp: ledger_snoc writes_snoc enter_def Let_def put_allowed_def)
qed simp

lemma writes_walk:
  "l_ok (ledger_at key (ledger_of_store s0) es) \<Longrightarrow> Suc i < length (writes es) \<Longrightarrow>
   write_step (writes es ! i) (writes es ! Suc i)"
proof (induction es rule: rev_induct)
  case (snoc ev es)
  then have ok: "l_ok (enter key ev (ledger_at key (ledger_of_store s0) es))" by (simp add: ledger_snoc)
  have old: "l_ok (ledger_at key (ledger_of_store s0) es)" using ok by (rule enter_ok_old)
  show ?case
  proof (cases "Suc i < length (writes es)")
    case True
    then show ?thesis using snoc.IH [OF old] by (auto simp: writes_snoc nth_append split: option.splits)
  next
    case False
    then obtain r where w: "written ev = Some r" and i: "Suc i = length (writes es)"
      using snoc.prems(2) by (auto simp: writes_snoc split: option.splits)
    then have ne: "writes es \<noteq> []" by auto
    have "l_state (ledger_at key (ledger_of_store s0) es) = Some (r_state (last (writes es)))"
      using ne by (simp add: l_state_ledger last_state_def)
    then have "put_allowed key r (ledger_at key (ledger_of_store s0) es)"
      using w ok by (cases ev) (auto simp: enter_def Let_def)
    then have "write_step (last (writes es)) r"
      using l_version_ledger [OF old ne] l_state_ledger [of key s0 es] ne
      by (simp add: put_allowed_def write_step_def last_state_def)
    moreover have "writes es ! i = last (writes es)" using i ne by (metis diff_Suc_1 last_conv_nth)
    ultimately show ?thesis using w i by (simp add: writes_snoc nth_append)
  qed
qed simp

lemma audit_at:
  assumes "l_ok (ledger_at key (ledger_of_store s0) es)" and "j < length es" and "es ! j = EvAudit a"
  shows "canTransition (ae_from a) (ae_to a) \<and> last_state (take j es) = Some (ae_to a)"
  using ledger_ok_at [OF assms(1,2)] assms(3) l_state_ledger [of key s0 "take j es"]
  by (simp add: enter_def Let_def audit_allowed_def)

end
