(* ===== verification/Demo.thy ===== *)
theory Demo
  imports History
begin

section \<open>A concrete corridor, anchor and submitter\<close>

text \<open>
  A small concrete instance of every parameter of the model, on which the theorems are
  applied: the outside world is the clock, in milliseconds; reading it takes one millisecond
  and sleeping takes the time asked for. The anchor quotes at par and reports the payout as
  completed; the submitter accepts, or refuses as its argument says.
\<close>

definition demo_quote :: quote_t where
  "demo_quote = \<lparr>q_id = ''q'', q_price = ''1'', q_expiresAt = Ms 100000,
     q_sourceAmount = \<lparr>m_asset = ''USDC'', m_amount = ''5''\<rparr>,
     q_destAmount = \<lparr>m_asset = ''BRL'', m_amount = ''5''\<rparr>, q_fee = None, q_firm = True\<rparr>"

definition demo_opened :: open_transaction where
  "demo_opened = \<lparr>o_transactionId = ''t'', o_instructions = Some (IStellarPayment ''GA'' (Some ''m'') (Some MemoText) None),
     o_amountIn = None, o_depositAddress = None, o_memo = None, o_memoType = None\<rparr>"

definition demo_status :: "string \<Rightarrow> bool \<Rightarrow> bool \<Rightarrow> transaction_status" where
  "demo_status s settled' failed' =
     \<lparr>ts_status = s, ts_phase = None, ts_settled = settled', ts_terminalFailure = failed',
      ts_awaitingInput = False, ts_refunds = None, ts_amountIn = None, ts_depositAddress = None,
      ts_memo = None, ts_memoType = None\<rparr>"

definition demo_adapter :: "transaction_status \<Rightarrow> int adapter" where
  "demo_adapter v =
     \<lparr>a_name = ''a'',
      a_capabilities = \<lparr>cap_quotes = [CapNative], cap_kyc = M_none, cap_settlement = [StellarPayment]\<rparr>,
      a_requestQuote = (\<lambda>_ _ e. (Inr demo_quote, e)),
      a_ensureCompliance = (\<lambda>_ _ e. (Inr \<lparr>k_status = KycAccepted, k_customerId = None\<rparr>, e)),
      a_openTransaction = (\<lambda>_ _ _ e. (Inr demo_opened, e)),
      a_getTransaction = (\<lambda>_ e. (Inr v, e)),
      a_confirmSettlement = None\<rparr>"

definition demo_ref :: settlement_ref where
  "demo_ref = StellarRef ''h'' None None None"

definition demo_submitter :: "settlement_ref outcome \<Rightarrow> int submitter" where
  "demo_submitter r =
     \<lparr>sb_findExisting = Some (\<lambda>_ e. (Inr None, e)), sb_submit = (\<lambda>_ e. (r, e)),
      sb_refund = (\<lambda>_ e. (Inr (StellarRef ''rf'' None None None), e))\<rparr>"

definition demo_deps :: "settlement_ref outcome \<Rightarrow> transaction_status \<Rightarrow> int engine_deps" where
  "demo_deps r v =
     \<lparr>d_resolve = (\<lambda>_ _ e. (Inr \<lparr>rt_receiving = demo_adapter v, rt_sending = None, rt_trust = Attested\<rparr>, e)),
      d_submitter = demo_submitter r, d_gate = None, d_chainVerifier = None, d_strategies = None,
      d_waker = None, d_now = (\<lambda>e. (e, e + 1)), d_hostNow = (\<lambda>e. (e, e + 1)), d_sleep = (\<lambda>t e. e + t),
      d_reconcilePollMs = None, d_stallThreshold = None, d_audit = Some (\<lambda>_ e. (True, e)),
      d_auditDetail = None, d_alerting = None, d_unprovenMaxAmount = None, d_health = True,
      d_trustManifest = False, d_externalQuote = None, d_quoteProvider = None, d_unsafeSkipGate = True,
      d_hashCorridor = (\<lambda>_. ''h''), d_parseDate = (\<lambda>_. NaN)\<rparr>"

definition demo_opts :: execute_options where
  "demo_opts = \<lparr>op_owner = None, op_trustManifest = False, op_dryRun = False, op_requestId = None,
     op_traceparent = None\<rparr>"

definition demo_run :: stored_run where
  "demo_run =
     \<lparr>r_key = ''k'', r_corridorId = ''d'', r_manifestHash = Some ''h'', r_state = created, r_version = 0,
      r_transactionId = None, r_sourceTransactionId = None, r_quoteId = None, r_quoteExpiresAt = None,
      r_quoteFirm = None, r_settlementAmount = None, r_stellarTxHash = None, r_settlementKind = None,
      r_settlementRef = None, r_depositAddress = None, r_memo = None, r_memoType = None,
      r_refundId = None, r_settlement = None, r_lastError = None, r_owner = None\<rparr>"

text \<open>A run that has opened its transaction at the anchor.\<close>

definition demo_opened_run :: stored_run where
  "demo_opened_run = demo_run\<lparr>r_state := opened, r_version := 3, r_transactionId := Some ''t'',
     r_quoteId := Some ''q'', r_quoteExpiresAt := Some (Ms 100000), r_quoteFirm := Some True,
     r_settlementAmount := Some ''5'', r_depositAddress := Some ''GA'', r_memo := Some ''m'',
     r_memoType := Some MemoText\<rparr>"

definition demo_store :: "stored_run \<Rightarrow> mem_store" where
  "demo_store r = \<lparr>ms_runs = [(r_key r, r)], ms_resolutions = []\<rparr>"

definition demo_world :: "mem_store \<Rightarrow> int world" where
  "demo_world s = session_world 0 s [] demo_run"

end
