(* ===== verification/Trace.thy ===== *)
theory Trace
  imports Demo
begin

section \<open>Sessions evaluated in the kernel\<close>

text \<open>
  Five sessions of \<open>execute\<close> on the instance of Demo, evaluated by the simplifier down to the
  kinds of their events: a payment that completes, one whose submitter twice refuses for now, a
  dry run of a fresh key and a dry run of a key that has an opened run. The equations of the
  operations are applied only to a world, and the weak congruence rules keep continuations
  unevaluated until they are reached.
\<close>

subsection \<open>Evaluation rules\<close>

lemmas run_defs =
  ret_def [THEN fun_cong] throw_io_def [THEN fun_cong] bnd_def [THEN fun_cong]
  gets_io_def [THEN fun_cong] modify_io_def [THEN fun_cong] check_def [THEN fun_cong]
  port_io_def [THEN fun_cong] env_io_def [THEN fun_cong] emit_def [THEN fun_cong]
  set_run_def [THEN fun_cong] get_run_def [THEN fun_cong] seq_def [THEN fun_cong]
  put_run_def [THEN fun_cong] create_run_def [THEN fun_cong] timed_def [THEN fun_cong]
  quote_verb_def [THEN fun_cong] comply_verb_def [THEN fun_cong] open_verb_def [THEN fun_cong]
  dispatch_def [THEN fun_cong] settle_verb_def [THEN fun_cong] reconcile_verb_def [THEN fun_cong]
  observe_io_def [THEN fun_cong] deadline_verdict_def [THEN fun_cong]
  stall_verdict_def [THEN fun_cong] poll_wait_def [THEN fun_cong] poll_metric_def [THEN fun_cong]
  poll_continue_def [THEN fun_cong] reconcile_poll_def [THEN fun_cong]
  reconcileUntil_def [THEN fun_cong] watch_poll_def [THEN fun_cong]
  watchRefund_def [THEN fun_cong] nowIO_def [THEN fun_cong] audit_io_def [THEN fun_cong]
  alert_io_def [THEN fun_cong] emitTransition_def [THEN fun_cong] fold_lane_def [THEN fun_cong]
  record_lane_def [THEN fun_cong] recordOutcome_def [THEN fun_cong]
  enter_state_def [THEN fun_cong] carry_checks_def [THEN fun_cong] advance_def [THEN fun_cong]
  failRun_def [THEN fun_cong] die_def [THEN fun_cong] step_def [THEN fun_cong]
  set_lastError_def [THEN fun_cong] holdAndStop_def [THEN fun_cong]
  hold_error_def [THEN fun_cong] finish_refunded_def [THEN fun_cong] watch_io_def [THEN fun_cong]
  refund_by_anchor_def [THEN fun_cong] request_refund_def [THEN fun_cong]
  refund_by_engine_def [THEN fun_cong] refundAndStop_def [THEN fun_cong]
  finishFailure_def [THEN fun_cong] refuse_def [THEN fun_cong]
  emitVerification_def [THEN fun_cong] pre_claim_def [THEN fun_cong]
  begin_session_def [THEN fun_cong] breaker_guard_def [THEN fun_cong]
  resolveRoute_def [THEN fun_cong] fatal_def [THEN fun_cong] stepR_def [THEN fun_cong]
  do_quote_def [THEN fun_cong] do_comply_def [THEN fun_cong] do_open_def [THEN fun_cong]
  waitForSourceDeposit_def [THEN fun_cong] save_source_def [THEN fun_cong]
  open_deposit_def [THEN fun_cong] await_deposit_def [THEN fun_cong]
  do_funding_def [THEN fun_cong] hold_if_funded_def [THEN fun_cong]
  quote_expired_def [THEN fun_cong] gate_refused_def [THEN fun_cong]
  gate_phase_def [THEN fun_cong] find_io_def [THEN fun_cong] find_or_settle_def [THEN fun_cong]
  record_settlement_def [THEN fun_cong] verifyOnChain_def [THEN fun_cong]
  reconcile_io_def [THEN fun_cong] settle_onward_def [THEN fun_cong] dry_stop_def [THEN fun_cong]
  settle_pass_def [THEN fun_cong] complete_run_def [THEN fun_cong]
  run_payment_def [THEN fun_cong] new_payment_def [THEN fun_cong]
  execute_with_def [THEN fun_cong] conflict_def [THEN fun_cong] step_or_def [THEN fun_cong]
  manifest_guard_def [THEN fun_cong] stale_guard_def [THEN fun_cong]
  resume_funding_def [THEN fun_cong] funded_gate_def [THEN fun_cong]
  if_stored_expired_def [THEN fun_cong] enterSettling_def [THEN fun_cong]
  resume_source_def [THEN fun_cong] resume_comply_def [THEN fun_cong]
  resume_pay_def [THEN fun_cong] resume_submit_def [THEN fun_cong]
  resume_found_def [THEN fun_cong] resume_settle_def [THEN fun_cong]
  resume_verify_def [THEN fun_cong] resume_reconcile_def [THEN fun_cong]
  resume_complete_def [THEN fun_cong] resume_recovery_def [THEN fun_cong]
  resume_phases_def [THEN fun_cong] resumeRun_def [THEN fun_cong] execute_def [THEN fun_cong] 
  settle_loop.simps [THEN fun_cong] reconcile_loop.simps [THEN fun_cong] watch_loop.simps [THEN fun_cong]
  check_metrics.simps [THEN fun_cong]

lemma demo_deps_simps [simp]:
  "d_resolve (demo_deps r v) = (\<lambda>_ _ e. (Inr \<lparr>rt_receiving = demo_adapter v, rt_sending = None, rt_trust = Attested\<rparr>, e))"
  "d_submitter (demo_deps r v) = demo_submitter r"
  "d_gate (demo_deps r v) = None"
  "d_chainVerifier (demo_deps r v) = None"
  "d_strategies (demo_deps r v) = None"
  "d_waker (demo_deps r v) = None"
  "d_now (demo_deps r v) = (\<lambda>e. (e, e + 1))"
  "d_hostNow (demo_deps r v) = (\<lambda>e. (e, e + 1))"
  "d_sleep (demo_deps r v) = (\<lambda>t e. e + t)"
  "d_reconcilePollMs (demo_deps r v) = None"
  "d_stallThreshold (demo_deps r v) = None"
  "d_audit (demo_deps r v) = Some (\<lambda>_ e. (True, e))"
  "d_auditDetail (demo_deps r v) = None"
  "d_alerting (demo_deps r v) = None"
  "d_unprovenMaxAmount (demo_deps r v) = None"
  "d_health (demo_deps r v) = True"
  "d_trustManifest (demo_deps r v) = False"
  "d_externalQuote (demo_deps r v) = None"
  "d_quoteProvider (demo_deps r v) = None"
  "d_unsafeSkipGate (demo_deps r v) = True"
  "d_hashCorridor (demo_deps r v) = (\<lambda>_. ''h'')"
  "d_parseDate (demo_deps r v) = (\<lambda>_. NaN)"
  by (simp_all add: demo_deps_def)

lemma demo_corridor_simps:
  "c_id demo_corridor = ''d''" "s_protocol (c_source demo_corridor) = Prefunded"
  "c_recovery demo_corridor = \<lparr>max_retries = 1, timeout_seconds = 60, refund_wait_seconds = 60, rollback = RefundSender,
              reconcile_opts = \<lparr>poll_seconds = None, stall_polls = None, external_stall_seconds = 60\<rparr>,
              consecutive_failures_limit = 3\<rparr>"
  "bridge_asset (c_settlement demo_corridor) = ''USDC''" "network (c_settlement demo_corridor) = TestNet"
  "fx_quote_source (c_fx demo_corridor) = QNative" "c_method (c_compliance demo_corridor) = None"
  by (simp_all add: demo_corridor_def)

lemma demo_intent_simps:
  "idempotencyKey demo_intent = ''k''" "m_amount (sourceAmount demo_intent) = ''5''"
  by (simp_all add: demo_intent_def)

lemma demo_liveness: "lv_state (liveness f demo_corridor t) = Unverified"
  by (simp add: lv_state_cases demo_corridor_def demo_endpoints_def hasRequiredEndpoint_def)

lemma demo_amounts:
  "isSettleableAmount ''5'' STROOP_SCALE" "amount_guards demo_corridor Unverified (Some ''10'') ''5'' = Inr ()"
  "settleQuoteProblem demo_quote demo_corridor = None"
  by code_simp+

lemma demo_cap: "effectiveCap (demo_deps r v) demo_corridor True = Inr (Some ''10'')"
  by (simp add: effectiveCap_def max_limit_def demo_corridor_def canaryCap_def)

lemma demo_adapter_simps:
  "a_capabilities (demo_adapter v) = \<lparr>cap_quotes = [CapNative], cap_kyc = M_none, cap_settlement = [StellarPayment]\<rparr>"
  "a_requestQuote (demo_adapter v) = (\<lambda>_ _ e. (Inr demo_quote, e))"
  "a_openTransaction (demo_adapter v) = (\<lambda>_ _ _ e. (Inr demo_opened, e))"
  "a_getTransaction (demo_adapter v) = (\<lambda>_ e. (Inr v, e))"
  by (simp_all add: demo_adapter_def)

lemma demo_submitter_simps:
  "sb_findExisting (demo_submitter r) = Some (\<lambda>_ e. (Inr None, e))"
  "sb_submit (demo_submitter r) = (\<lambda>_ e. (r, e))"
  "sb_refund (demo_submitter r) = (\<lambda>_ e. (Inr (StellarRef ''rf'' None None None), e))"
  by (simp_all add: demo_submitter_def)

lemma demo_route_checks:
  "route_checks (demo_deps r v) opts demo_corridor
     \<lparr>rt_receiving = demo_adapter v, rt_sending = None, rt_trust = Attested\<rparr>
     = Inr (Some (\<lambda>_ _ e. (Inr demo_quote, e)))"
  by (simp add: route_checks_def checkCompatibility_def strategies_of_def defaultStrategies_def
      stellarPaymentStrategy_def adapterSettledStrategy_def demo_corridor_simps demo_adapter_simps
      untrusted_public_def pick_provider_def)

lemma demo_quote_simps:
  "q_id demo_quote = ''q''" "q_expiresAt demo_quote = Ms 100000" "q_firm demo_quote"
  "m_amount (q_sourceAmount demo_quote) = ''5''" "q_fee demo_quote = None"
  by (simp_all add: demo_quote_def)

lemma demo_opened_simps:
  "o_transactionId demo_opened = ''t''" "instructionsKind demo_opened = StellarPayment"
  "toLegacy demo_opened = \<lparr>l_depositAddress = Some ''GA'', l_memo = Some ''m'', l_memoType = Some MemoText\<rparr>"
  by (simp_all add: demo_opened_def instructionsKind_def toLegacy_def)

lemma demo_pick:
  "pick_strategy (strategies_of (demo_deps r v) a) StellarPayment
      \<lparr>sc_opened = op, sc_quote = q, sc_corridor = demo_corridor, sc_adapter = z\<rparr>
     = Some (stellarPaymentStrategy (demo_submitter r))"
  by (simp add: strategies_of_def defaultStrategies_def pick_strategy_def stellarPaymentStrategy_def
      needsPathPayment_def demo_corridor_def)

text \<open>The same options as a dry run.\<close>

definition demo_dry :: execute_options where
  "demo_dry = demo_opts\<lparr>op_dryRun := True\<rparr>"

lemma demo_opts_simps:
  "op_owner demo_opts = None" "op_dryRun demo_opts = False" "requestScopeOf demo_opts = []"
  "op_owner demo_dry = None" "op_dryRun demo_dry" "requestScopeOf demo_dry = []"
  by (simp_all add: demo_opts_def demo_dry_def requestScopeOf_def)

lemma demo_status_simps:
  "ts_status (demo_status s a b) = s" "ts_settled (demo_status s a b) = a" "ts_phase (demo_status s a b) = None"
  "ts_terminalFailure (demo_status s a b) = b" "ts_awaitingInput (demo_status s a b) = False"
  by (simp_all add: demo_status_def)

lemmas evals = run_defs Let_def demo_corridor_simps demo_intent_simps demo_liveness demo_amounts demo_cap
  demo_adapter_simps demo_submitter_simps demo_route_checks demo_quote_simps demo_opened_simps demo_pick
  demo_opts_simps demo_status_simps demo_world_def session_world_def empty_store_def
  new_run_def mem_get_def mem_put_def mem_create_def hm_get_def isTerminal_iff mk_session_def
  stellarPaymentStrategy_def no_meta_def demo_ref_def pollMs_of_def
  with_checks_def backoffMs_def session_events_def recover_def hasSettlementRef_def breakerOutcomeFor_def LANE_FAILURE_CODES_def
  lane_threshold_def metered_record_def hm_record_def hm_next_def closedRecord_def justTripped_def
  refundAudit_def anchorTerminalStatus_def reconcile_poll_options_def initial_poll_def observe_def
  poll_answer_def networkFee_def mk_entry_def toResult_def demo_store_def demo_opened_run_def demo_run_def settle_phase_state_def
  stored_data_ok_def pre_open_def stored_request_def untrusted_public_def

lemmas lazy = prod.case_cong_weak option.case_cong_weak sum.case_cong_weak

subsection \<open>Kinds of events\<close>

datatype event_kind = KCreate corridor_state | KPut corridor_state | KSubmit | KAnswer bool | KRefund | KAudit corridor_state | KOther

fun kind_of :: "event \<Rightarrow> event_kind" where
  "kind_of (EvCreate r) = KCreate (r_state r)" | "kind_of (EvPut r) = KPut (r_state r)"
| "kind_of (EvSubmit _) = KSubmit" | "kind_of (EvSubmitted (Inl e)) = KAnswer (e_retryable e)"
| "kind_of (EvSubmitted (Inr _)) = KAnswer False" | "kind_of (EvRefund _) = KRefund"
| "kind_of (EvAudit a) = KAudit (ae_to a)" | "kind_of _ = KOther"

text \<open>Whether an event says a payment went out, is a reversal, or lets a payment be tried again.\<close>

lemma kind_of_simps:
  "is_submit ev \<longleftrightarrow> kind_of ev = KSubmit" "is_refund ev \<longleftrightarrow> kind_of ev = KRefund"
  "is_retryable ev \<longleftrightarrow> kind_of ev = KAnswer True"
  by (cases ev rule: kind_of.cases; simp)+

subsection \<open>The sessions\<close>

definition demo_refusal :: "settlement_ref outcome" where
  "demo_refusal = Inl \<lparr>e_code = SETTLEMENT_FAILED, e_message = ''x'', e_retryable = True, e_cause = NoCause\<rparr>"

definition demo_paid :: transaction_status where
  "demo_paid = demo_status ''completed'' True False"

definition paying_session :: "event list" where
  "paying_session = session_events (Suc 0) (demo_deps (Inr demo_ref) demo_paid) demo_intent demo_corridor
     demo_opts (session_world 0 empty_store [] demo_run)"

definition refused_session :: "event list" where
  "refused_session = session_events (Suc 0) (demo_deps demo_refusal demo_paid) demo_intent demo_corridor
     demo_opts (session_world 0 empty_store [] demo_run)"

text \<open>The anchor never confirms the payout: the stall budget runs out and the engine reverses.\<close>

definition polls :: nat where
  "polls = Suc (Suc (Suc (Suc (Suc (Suc (Suc (Suc (Suc (Suc (Suc (Suc 0)))))))))))"

definition stalled_session :: "event list" where
  "stalled_session = session_events polls (demo_deps (Inr demo_ref) (demo_status ''pending'' False False))
     demo_intent demo_corridor demo_opts (session_world 0 empty_store [] demo_run)"

definition dry_session :: "event list" where
  "dry_session = session_events (Suc 0) (demo_deps (Inr demo_ref) demo_paid) demo_intent demo_corridor
     demo_dry (session_world 0 empty_store [] demo_run)"

definition dry_resumed_session :: "event list" where
  "dry_resumed_session = session_events (Suc 0) (demo_deps (Inr demo_ref) demo_paid) demo_intent demo_corridor
     demo_dry (session_world 0 (demo_store demo_opened_run) [] demo_run)"

lemma paying_kinds:
  "map kind_of paying_session =
     [KCreate created, KOther, KPut quoted, KOther, KAudit quoted, KPut compliant, KOther,
      KAudit compliant, KOther, KPut opened, KOther, KAudit opened, KOther, KPut verifying, KOther,
      KAudit verifying, KPut settling, KOther, KAudit settling, KOther, KOther, KSubmit,
      KAnswer False, KOther, KPut settled, KOther, KAudit settled, KOther, KOther, KOther,
      KPut reconciled, KOther, KAudit reconciled, KPut completed, KOther, KOther, KAudit completed,
      KOther, KOther]"
  unfolding paying_session_def demo_paid_def by (simp add: evals cong: lazy)

lemma refused_kinds:
  "map kind_of refused_session =
     [KCreate created, KOther, KPut quoted, KOther, KAudit quoted, KPut compliant, KOther,
      KAudit compliant, KOther, KPut opened, KOther, KAudit opened, KOther, KPut verifying, KOther,
      KAudit verifying, KPut settling, KOther, KAudit settling, KOther, KOther, KSubmit,
      KAnswer True, KOther, KPut retrying, KOther, KAudit retrying, KOther, KPut verifying, KOther,
      KAudit verifying, KPut settling, KOther, KAudit settling, KOther, KOther, KSubmit,
      KAnswer True, KOther, KPut recovering, KOther, KAudit recovering, KPut refunded, KOther,
      KOther, KAudit refunded, KOther]"
  unfolding refused_session_def demo_refusal_def by (simp add: evals cong: lazy)

lemma stalled_kinds:
  "map kind_of stalled_session =
     [KCreate created, KOther, KPut quoted, KOther, KAudit quoted, KPut compliant, KOther,
      KAudit compliant, KOther, KPut opened, KOther, KAudit opened, KOther, KPut verifying, KOther,
      KAudit verifying, KPut settling, KOther, KAudit settling, KOther, KOther, KSubmit,
      KAnswer False, KOther, KPut settled, KOther, KAudit settled, KOther, KOther, KOther, KOther,
      KOther, KOther, KOther, KOther, KOther, KOther, KOther, KOther, KOther, KPut recovering, KOther,
      KAudit recovering, KRefund, KOther, KPut refunded, KOther, KOther, KAudit refunded, KOther]"
  unfolding stalled_session_def polls_def
  by (simp add: evals stallThreshold_of_def externalStallBudgetMs_def poll_delay_def next_poll_def
      max_external_delay_def is_adapter_settled_def hasRequestedRefund_def fail_full_def cong: lazy)

lemma dry_kinds:
  "map kind_of dry_session =
     [KCreate created, KOther, KPut quoted, KOther, KAudit quoted, KPut compliant, KOther,
      KAudit compliant, KOther, KPut opened, KOther, KAudit opened, KOther, KPut verifying, KOther,
      KAudit verifying, KPut failed, KOther, KOther, KAudit failed]"
  unfolding dry_session_def by (simp add: evals cong: lazy)

lemma dry_resumed_kinds:
  "map kind_of dry_resumed_session =
     [KOther, KPut verifying, KOther, KAudit verifying, KPut settling, KOther, KAudit settling,
      KSubmit, KAnswer False, KPut settled, KOther, KAudit settled, KOther, KPut reconciled, KOther,
      KAudit reconciled, KPut completed, KOther, KOther, KAudit completed, KOther]"
  unfolding dry_resumed_session_def demo_paid_def by (simp add: evals cong: lazy)

subsection \<open>The sessions as histories\<close>

lemma session_history:
  assumes "mem_get s key = None" and "idempotencyKey intent = key"
    and "es = session_events fuel d intent c opts (session_world (e :: 'e) s h r)"
  shows "history key es (replay es s) e"
proof -
  have "history key ([] @ es) (replay es s) e"
    by (rule hist_session [OF hist_start [OF assms(1)] assms(2),
          where n = "length es" and fuel = fuel and d = d and c = c and opts = opts and h = h and r = r])
      (simp add: assms(3))
  then show ?thesis by simp
qed

lemma empty_get: "mem_get empty_store k = None"
  by (simp add: mem_get_def empty_store_def)

lemma paying_history: "history ''k'' paying_session (replay paying_session empty_store) (0 :: int)"
  using demo_intent_simps(1) by (rule session_history [OF empty_get _ paying_session_def])

lemma stalled_history: "history ''k'' stalled_session (replay stalled_session empty_store) (0 :: int)"
  using demo_intent_simps(1) by (rule session_history [OF empty_get _ stalled_session_def])

lemma refused_history: "history ''k'' refused_session (replay refused_session empty_store) (0 :: int)"
  using demo_intent_simps(1) by (rule session_history [OF empty_get _ refused_session_def])

lemma kinds_nth: "map kind_of es = ks \<Longrightarrow> i < length ks \<Longrightarrow> i < length es \<and> kind_of (es ! i) = ks ! i"
  by auto

lemma kind_audit: "kind_of ev = KAudit s \<Longrightarrow> \<exists>a. ev = EvAudit a \<and> ae_to a = s"
  by (cases ev rule: kind_of.cases) auto

fun kind_state :: "event_kind \<Rightarrow> corridor_state option" where
  "kind_state (KCreate s) = Some s" | "kind_state (KPut s) = Some s" | "kind_state _ = None"

lemma kind_state_written: "kind_state (kind_of ev) = map_option r_state (written ev)"
  by (cases ev rule: kind_of.cases) simp_all

lemma written_states: "map r_state (writes es) = List.map_filter kind_state (map kind_of es)"
  by (induction es) (simp_all add: writes_def map_filter_simps kind_state_written split: option.splits)

end
