(* ===== verification/Silence.thy ===== *)
theory Silence
  imports History
begin

section \<open>What a session cannot send\<close>

text \<open>
  An operation is \<open>silent\<close> when it submits no payment. Every operation of the engine except
  \<open>dispatch\<close> is, so whether a session pays is a question about the paths to \<open>dispatch\<close>: a dry run
  of a fresh key takes none of them, and neither does any session whose gate never passes.
\<close>

definition submits :: "'e world \<Rightarrow> event list" where
  "submits w = filter is_submit (w_events w)"

definition silent :: "('e, 'a) eio \<Rightarrow> bool" where
  "silent m \<longleftrightarrow> (\<forall>c. keeps (\<lambda>w. submits w = c) m)"

named_theorems silent_rules \<open>operations that submit no payment\<close>

lemma reporting_silent: "reporting ev \<Longrightarrow> \<not> is_submit ev"
  by (cases ev) simp_all

lemma stable_submits: "stable (\<lambda>w. submits w = c)"
  by (simp add: stable_def submits_def reporting_silent)

lemma silentI: "(\<And>P. stable P \<Longrightarrow> keeps P m) \<Longrightarrow> silent m"
  unfolding silent_def using stable_submits by blast

lemma silent_ret [silent_rules]: "silent (ret x)"
  by (auto simp: silent_def)

lemma silent_throw [silent_rules]: "silent throw_io"
  by (auto simp: silent_def)

lemma silent_gets [silent_rules]: "silent (gets_io f)"
  by (auto simp: silent_def)

lemma silent_get_run [silent_rules]: "silent get_run"
  by (simp add: get_run_def silent_gets)

lemma silent_bnd [silent_rules]: "silent m \<Longrightarrow> (\<And>x. silent (f x)) \<Longrightarrow> silent (bnd m f)"
  by (auto simp: silent_def)

lemma silent_seq [silent_rules]: "silent m \<Longrightarrow> silent k \<Longrightarrow> silent (seq m k)"
  by (simp add: seq_def silent_bnd)

lemma silent_check [silent_rules]:
  "silent m \<Longrightarrow> (\<And>e. silent (h e)) \<Longrightarrow> (\<And>v. silent (k v)) \<Longrightarrow> silent (check m h k)"
  by (auto simp: silent_def)

lemma silent_if [silent_rules]: "(b \<Longrightarrow> silent m) \<Longrightarrow> (\<not> b \<Longrightarrow> silent k) \<Longrightarrow> silent (if b then m else k)"
  by simp

lemma silent_reader: "(\<And>x. silent (m x)) \<Longrightarrow> silent (\<lambda>w. m (f w) w)"
  by (simp add: silent_def keeps_def wp_def)

lemma silent_modify: "(\<And>w. submits (f w) = submits w) \<Longrightarrow> silent (modify_io f)"
  by (simp add: silent_def keeps_def wp_rules)

lemma silent_port [silent_rules]: "silent (port_io p)"
  by (rule silentI) (rule keeps_port)

lemma silent_env [silent_rules]: "silent (env_io f)"
  by (rule silentI) (rule keeps_env)

lemma silent_emit [silent_rules]: "\<not> is_submit ev \<Longrightarrow> silent (emit ev)"
  unfolding emit_def by (rule silent_modify) (simp add: submits_def)

lemma silent_set_run [silent_rules]: "silent (set_run f)"
  unfolding set_run_def by (rule silent_modify) (simp add: submits_def)

lemma silent_put_run [silent_rules]: "silent put_run"
  unfolding put_run_def by (rule silent_modify) (simp add: submits_def)

lemma silent_create_run [silent_rules]: "silent create_run"
  by (auto simp: silent_def keeps_def wp_create_run submits_def)

lemma silent_begin [silent_rules]: "silent (begin_session r)"
  unfolding begin_session_def by (rule silent_modify) (simp add: submits_def)

lemma silent_nowIO [silent_rules]: "silent (nowIO n)"
  by (simp add: nowIO_def silent_port)

lemma silent_timed [silent_rules]: "silent m \<Longrightarrow> silent (timed d n m)"
  unfolding timed_def by (intro silent_rules) simp_all

subsection \<open>The verbs and the run context\<close>

lemma silent_verbs [silent_rules]:
  "silent (quote_verb d a i c p)" "silent (comply_verb a i c)" "silent (open_verb a i q c)"
  "silent (reconcileUntil fl get j o')" "silent (watchRefund fl a j o')"
  by (rule silentI, simp add: keeps_quote keeps_comply keeps_open keeps_reconcileUntil keeps_watchRefund)+

lemma silent_fold_lane [silent_rules]: "silent (fold_lane c out at th err)"
  by (auto simp: silent_def keeps_def wp_def fold_lane_def submits_def split: prod.splits)

lemma silent_recordOutcome [silent_rules]: "silent (recordOutcome n s e)"
  unfolding recordOutcome_def record_lane_def
  by (auto intro!: silent_rules split: option.splits)

lemma silent_audit [silent_rules]: "silent (audit_io n a)" "silent (alert_io n b)"
  unfolding audit_io_def alert_io_def by (auto intro!: silent_rules split: option.splits)

lemma silent_emitTransition [silent_rules]: "silent (emitTransition n s t err m)"
  unfolding emitTransition_def by (auto intro!: silent_rules)

lemma silent_enter_state [silent_rules]: "silent (enter_state to)"
  unfolding enter_state_def by (intro silent_rules silent_modify) (simp add: submits_def)

lemma silent_carry [silent_rules]: "silent (carry_checks s t m)"
  by (auto simp: silent_def keeps_def wp_def carry_checks_def submits_def)

lemma silent_advance [silent_rules]: "silent (advance n to m)"
  unfolding advance_def by (auto intro!: silent_rules)

lemma silent_failRun [silent_rules]: "silent (failRun n e cs)"
  unfolding failRun_def by (auto intro!: silent_rules)

lemma silent_die [silent_rules]: "silent (die n e cs)"
  unfolding die_def by (rule silent_reader) (rule silent_failRun)

lemma silent_step [silent_rules]:
  "(\<And>e. silent (h e)) \<Longrightarrow> silent k \<Longrightarrow> silent (step n to m h k)"
  unfolding step_def by (auto intro!: silent_rules)

lemma silent_hold [silent_rules]: "silent (holdAndStop n e s b)" "silent (hold_error n e b)"
  unfolding hold_error_def holdAndStop_def set_lastError_def Let_def by (auto intro!: silent_rules)

lemma silent_refunded [silent_rules]: "silent (finish_refunded n e m)"
  unfolding finish_refunded_def by (auto intro!: silent_rules)

lemma silent_watch [silent_rules]: "silent (watch_io x j)"
  unfolding watch_io_def by (auto intro!: silent_rules)

lemma silent_refund_by_anchor [silent_rules]: "silent (refund_by_anchor x e j)"
  unfolding refund_by_anchor_def set_lastError_def Let_def by (auto intro!: silent_rules)

lemma silent_refund_by_engine [silent_rules]: "silent (refund_by_engine x e)"
  unfolding refund_by_engine_def set_lastError_def request_refund_def Let_def
  by (auto intro!: silent_rules)

lemma silent_finishFailure [silent_rules]: "silent (refundAndStop x e)" "silent (finishFailure x e)"
  unfolding finishFailure_def refundAndStop_def Let_def
  by (auto intro!: silent_rules split: rollback_t.splits)

lemma silent_refuse [silent_rules]: "silent m \<Longrightarrow> silent (refuse m)"
  unfolding refuse_def by (auto intro!: silent_rules)

lemma silent_fatal [silent_rules]: "silent (fatal x e)" "silent k \<Longrightarrow> silent (stepR x to m k)"
  unfolding fatal_def stepR_def by (auto intro!: silent_rules)

lemma silent_hold_if_funded [silent_rules]: "silent m \<Longrightarrow> silent (hold_if_funded x e m)"
  unfolding hold_if_funded_def by (auto intro!: silent_rules)

subsection \<open>The phases of a fresh run\<close>

lemma silent_emitVerification [silent_rules]: "silent (emitVerification n i t l c)"
  unfolding emitVerification_def by (auto intro!: silent_rules split: option.splits simp: Let_def)

lemma silent_pre_claim [silent_rules]: "silent (pre_claim n i)"
  unfolding pre_claim_def Let_def by (auto intro!: silent_rules split: sum.splits)

lemma silent_guards [silent_rules]: "silent (breaker_guard n)" "silent (resolveRoute n i)"
  unfolding breaker_guard_def resolveRoute_def by (auto intro!: silent_rules split: option.splits)

lemma silent_do_quote [silent_rules]: "(\<And>q. silent (k q)) \<Longrightarrow> silent (do_quote x i p k)"
  unfolding do_quote_def Let_def by (auto intro!: silent_rules)

lemma silent_do_comply [silent_rules]: "silent k \<Longrightarrow> silent (do_comply x i k)"
  unfolding do_comply_def Let_def by (auto intro!: silent_rules)

lemma silent_do_open [silent_rules]: "(\<And>op. silent (k op)) \<Longrightarrow> silent (do_open x i q k)"
  unfolding do_open_def Let_def by (auto intro!: silent_rules)

lemma silent_deposit [silent_rules]:
  "silent k \<Longrightarrow> silent (open_deposit x sa i k)" "silent k \<Longrightarrow> silent (await_deposit x sa k)"
  unfolding open_deposit_def await_deposit_def waitForSourceDeposit_def save_source_def
  by (auto intro!: silent_rules)

lemma silent_do_funding [silent_rules]: "silent k \<Longrightarrow> silent (do_funding x opts i s k)"
  unfolding do_funding_def Let_def by (auto intro!: silent_rules split: option.splits)

lemma silent_quote_expired [silent_rules]: "silent k \<Longrightarrow> silent (quote_expired x q e k)"
  unfolding quote_expired_def by (auto intro!: silent_rules)

lemma silent_check_metrics [silent_rules]: "silent (check_metrics rs)"
  by (induction rs) (auto intro!: silent_rules)

lemma silent_gate_refused [silent_rules]: "silent (gate_refused x res)"
  unfolding gate_refused_def Let_def by (auto intro!: silent_rules split: option.splits)


text \<open>A gate that never passes, whatever it is asked and whatever the outside world does.\<close>

definition never_passes :: "(gate_ctx \<Rightarrow> ('e, string + gate_result) port) \<Rightarrow> bool" where
  "never_passes gate \<longleftrightarrow> (\<forall>ctx e res. fst (gate ctx e) = Inr res \<longrightarrow> \<not> gr_passed res)"

lemma silent_gate_phase [silent_rules]:
  "(\<And>cs. silent (k cs)) \<Longrightarrow> silent (gate_phase x i q op a k)"
  unfolding gate_phase_def Let_def
  by (auto intro!: silent_rules split: option.splits sum.splits)

lemma silent_port_with:
  assumes "\<And>e. silent (f (fst (p e)))"
  shows "silent (bnd (port_io p) f)"
  unfolding silent_def keeps_def wp_bnd wp_port
proof (intro allI impI)
  fix c and w :: "'a world"
  assume c: "submits w = c"
  obtain r e where r: "p (w_env w) = (r, e)" by fastforce
  then have "silent (f r)" using assms [of "w_env w"] by simp
  moreover have "submits (w\<lparr>w_env := e\<rparr>) = c" using c by (simp add: submits_def)
  ultimately show "case p (w_env w) of (a, e) \<Rightarrow>
      wp (f a) (\<lambda>_ w. submits w = c) (\<lambda>w. submits w = c) (w\<lparr>w_env := e\<rparr>)"
    unfolding r prod.case silent_def keeps_def by blast
qed

lemma silent_gate_shut:
  assumes "d_gate (n_deps (x_env x)) = Some gate" and "never_passes gate"
  shows "silent (gate_phase x i q op a k)"
  unfolding gate_phase_def Let_def assms(1) option.case
  by (intro silent_bnd silent_nowIO silent_port_with)
    (use assms(2) in \<open>auto simp: never_passes_def intro!: silent_rules split: sum.splits\<close>)

lemma silent_settle_pass:
  assumes "op_dryRun opts \<or> (\<exists>gate. d_gate (n_deps (x_env x)) = Some gate \<and> never_passes gate)"
  shows "silent (settle_pass x opts i q op dl a k)"
proof -
  have "silent (gate_phase x i q op a (\<lambda>cs.
      if op_dryRun opts then dry_stop x op cs
      else quote_expired x q (mk_err QUOTE_EXPIRED (msg_expired_settle (q_id q)))
        (stepR x settling no_meta (find_or_settle x q op k))))"
  proof (cases "op_dryRun opts")
    case True
    then show ?thesis by (auto simp: dry_stop_def intro!: silent_rules)
  next
    case False
    then show ?thesis using assms silent_gate_shut by blast
  qed
  then show ?thesis
    unfolding settle_pass_def Let_def by (auto intro!: silent_rules split: option.splits)
qed

lemma silent_settle_loop:
  assumes "op_dryRun opts \<or> (\<exists>gate. d_gate (n_deps (x_env x)) = Some gate \<and> never_passes gate)"
  shows "silent (settle_loop n x opts i q op dl a k)"
  by (cases n) (simp_all add: silent_throw silent_settle_pass [OF assms])

lemma silent_run_payment:
  assumes "op_dryRun opts \<or> (\<exists>gate. d_gate (n_deps (x_env x)) = Some gate \<and> never_passes gate)"
  shows "silent (run_payment x opts i r p t)"
  unfolding run_payment_def Let_def
  by (intro silent_rules silent_settle_loop [OF assms])

lemma silent_new_payment:
  assumes "op_dryRun opts \<or> (\<exists>gate. d_gate (n_deps n) = Some gate \<and> never_passes gate)"
  shows "silent (new_payment fl n opts i t)"
proof -
  have "silent (run_payment (mk_session fl n r) opts i r p t)" for r p
    by (rule silent_run_payment) (use assms in \<open>simp add: mk_session_def\<close>)
  then show ?thesis
    unfolding new_payment_def Let_def by (auto intro!: silent_rules split: sum.splits)
qed

subsection \<open>Resuming with a gate\<close>

lemma silent_step_or [silent_rules]: "silent k \<Longrightarrow> silent (step_or x to m k)"
  unfolding step_or_def by (auto intro!: silent_rules)

lemma silent_conflict [silent_rules]: "silent (conflict d)"
  unfolding conflict_def by (auto intro!: silent_rules)

lemma silent_resume_guards [silent_rules]:
  "silent k \<Longrightarrow> silent (manifest_guard x k)" "silent k \<Longrightarrow> silent (stale_guard x k)"
  "silent k \<Longrightarrow> silent (funded_gate x k)"
  unfolding manifest_guard_def stale_guard_def funded_gate_def Let_def
  by (auto intro!: silent_rules split: option.splits)

lemma silent_resume_funding [silent_rules]: "silent k \<Longrightarrow> silent (resume_funding x i s k)"
  unfolding resume_funding_def Let_def by (auto intro!: silent_rules split: option.splits)

lemma silent_stored_expired [silent_rules]:
  "silent m \<Longrightarrow> silent k \<Longrightarrow> silent (if_stored_expired x r m k)"
  unfolding if_stored_expired_def by (auto intro!: silent_rules)

lemma silent_enterSettling [silent_rules]: "silent k \<Longrightarrow> silent (enterSettling x k)"
  unfolding enterSettling_def Let_def by (auto intro!: silent_rules)

lemma silent_resume_submit_gated:
  "d_gate (n_deps (x_env x)) \<noteq> None \<Longrightarrow> silent (resume_submit x opts i r rq k)"
  unfolding resume_submit_def Let_def by (auto intro!: silent_rules)

lemma silent_resume_found [silent_rules]: "(\<And>r. silent (k r)) \<Longrightarrow> silent (resume_found x ref k)"
  unfolding resume_found_def by (auto intro!: silent_rules)

lemma silent_find [silent_rules]: "silent (find_io f rq)" "silent (record_settlement ref rq)"
  unfolding find_io_def record_settlement_def by (auto intro!: silent_rules)

lemma silent_resume_settle:
  "d_gate (n_deps (x_env x)) \<noteq> None \<Longrightarrow> silent k \<Longrightarrow> silent (resume_settle x opts i r k)"
  unfolding resume_settle_def Let_def
  by (auto intro!: silent_rules silent_resume_submit_gated split: option.splits)

lemma silent_verify [silent_rules]: "silent (verifyOnChain d ref rq)" "silent (reconcile_io x j dl)"
  unfolding verifyOnChain_def reconcile_io_def by (auto intro!: silent_rules split: option.splits)

lemma silent_resume_verify [silent_rules]: "silent k \<Longrightarrow> silent (resume_verify x k)"
  unfolding resume_verify_def Let_def
  by (auto intro!: silent_rules split: option.splits settlement_ref.splits)

lemma silent_resume_end [silent_rules]:
  "silent k \<Longrightarrow> silent (resume_reconcile x k)" "silent k' \<Longrightarrow> silent (resume_complete x k')"
  "silent k'' \<Longrightarrow> silent (resume_recovery x k'')"
  unfolding resume_reconcile_def resume_complete_def resume_recovery_def Let_def
  by (auto intro!: silent_rules)

lemma silent_resumeRun:
  assumes "d_gate (n_deps n) \<noteq> None"
  shows "silent (resumeRun fl n opts i r)"
proof -
  have g: "d_gate (n_deps (x_env (mk_session fl n route))) \<noteq> None" for route
    using assms by (simp add: mk_session_def)
  show ?thesis
    unfolding resumeRun_def resume_phases_def
    by (auto intro!: silent_rules silent_resume_settle [OF g])
qed

subsection \<open>Whole sessions\<close>

lemma silent_session: "silent m \<Longrightarrow> submits w = [] \<Longrightarrow> submits (snd (m w)) = []"
  using keeps_world [of "\<lambda>w. submits w = []" m w] by (simp add: silent_def)

lemma silent_execute:
  assumes "op_dryRun opts \<or> (\<exists>gate. d_gate d = Some gate \<and> never_passes gate)" and "d_gate d \<noteq> None"
  shows "silent (execute fl d i c opts)"
  unfolding execute_def execute_with_def Let_def
  by (auto intro!: silent_rules silent_resumeRun silent_new_payment split: option.splits)
    (use assms in auto)

text \<open>A dry run of a key the store does not hold takes no path that resumes.\<close>

definition quiet_fresh :: "string \<Rightarrow> 'e world \<Rightarrow> bool" where
  "quiet_fresh key w \<longleftrightarrow> submits w = [] \<and> mem_get (w_runs w) key = None"

lemma stable_quiet: "stable (quiet_fresh key)"
  by (simp add: stable_def quiet_fresh_def submits_def reporting_silent)

lemma quiet_submits: "quiet_fresh key w \<Longrightarrow> submits w = []"
  by (simp add: quiet_fresh_def)

lemma silentD: "silent m \<Longrightarrow> submits w = c \<Longrightarrow> wp m (\<lambda>_ w. submits w = c) (\<lambda>w. submits w = c) w"
  unfolding silent_def keeps_def by blast

lemma dry_fresh_silent:
  assumes "op_dryRun opts" and q: "quiet_fresh (idempotencyKey intent) w"
  shows "wp (execute fuel d intent c opts) (\<lambda>_ w. submits w = []) (\<lambda>w. submits w = []) w"
proof -
  have existing: "wp (bnd (gets_io (\<lambda>w. mem_get (w_runs w) (idempotencyKey intent))) (\<lambda>existing.
            case existing of
              None \<Rightarrow> new_payment fuel n opts intent t
            | Some r \<Rightarrow>
                if r_state r = completed then ret (Inr (toResult r [r_state r]))
                else if \<not> isTerminal (r_state r) then resumeRun fuel n opts intent r
                else ret (fail IDEMPOTENCY_CONFLICT
                  (msg_in_flight (idempotencyKey intent) (r_state r)))))
      (\<lambda>_ w. submits w = []) (\<lambda>w. submits w = []) w'"
    if "quiet_fresh (idempotencyKey intent) w'" for n t w'
    using that assms(1) unfolding wp_bnd wp_gets quiet_fresh_def
    by (auto intro!: silentD silent_new_payment)
  show ?thesis
    unfolding execute_def execute_with_def Let_def check_def
    by (rule wp_stable_bnd [OF stable_quiet observes_nowIO q],
        rule wp_stable_bnd [OF stable_quiet observes_pre_claim])
      (auto simp: wp_ret quiet_submits split: sum.splits intro!: existing)
qed

lemma no_submits: "submits w = [] \<Longrightarrow> ev \<in> set (w_events w) \<Longrightarrow> \<not> is_submit ev"
  by (auto simp: submits_def filter_empty_conv)

end
