(* ===== verification/Completion.thy ===== *)
theory Completion
  imports Silence
begin

section \<open>What a successful execution means\<close>

text \<open>
  \<open>completes m\<close>: a success of \<open>m\<close> is the result of a run that is completed, and is stored as
  completed under the key of the result. Every path of \<open>execute\<close> to a success ends in the step
  into \<open>completed\<close>, except for a key whose run was completed before.
\<close>

definition stored_completed :: "'e world \<Rightarrow> bool" where
  "stored_completed w \<longleftrightarrow> r_state (w_run w) = completed \<and>
     (\<exists>run. mem_get (w_runs w) (r_key (w_run w)) = Some run \<and> r_state run = completed)"

definition completed_result :: "run_result outcome \<Rightarrow> 'e world \<Rightarrow> bool" where
  "completed_result r w \<longleftrightarrow> (\<forall>v. r = Inr v \<longrightarrow> rr_state v = completed \<and>
     (\<exists>run. mem_get (w_runs w) (rr_key v) = Some run \<and> r_state run = completed))"

definition completes :: "('e, run_result outcome) eio \<Rightarrow> bool" where
  "completes m \<longleftrightarrow> (\<forall>w. wp m completed_result (\<lambda>_. True) w)"

lemma completesD: "completes m \<Longrightarrow> wp m completed_result (\<lambda>_. True) w"
  by (simp add: completes_def)

named_theorems completes_rules \<open>operations whose success is a completed run\<close>

lemma completed_Inl [simp]: "completed_result (Inl e) w" "completed_result (fail_full c m b k) w"
  by (simp_all add: completed_result_def fail_full_def)

lemma completes_Inl [completes_rules]: "completes (ret (Inl e))" "completes (ret (fail_full c m b k))"
  by (simp_all add: completes_def wp_ret)

lemma completes_throw [completes_rules]: "completes throw_io"
  by (simp add: completes_def wp_throw)

lemma completes_bnd [completes_rules]: "(\<And>x. completes (f x)) \<Longrightarrow> completes (bnd m f)"
  by (auto simp: completes_def wp_bnd intro: wp_mono [OF wp_top])

lemma completes_seq [completes_rules]: "completes k \<Longrightarrow> completes (seq m k)"
  by (simp add: seq_def completes_bnd)

lemma completes_if: "completes m \<Longrightarrow> completes k \<Longrightarrow> completes (if b then m else k)"
  by simp

lemma completes_check [completes_rules]:
  "(\<And>e. completes (h e)) \<Longrightarrow> (\<And>v. completes (k v)) \<Longrightarrow> completes (check m h k)"
  unfolding check_def by (rule completes_bnd) (simp split: sum.splits)

lemma completes_refuse [completes_rules]: "completes (refuse m)"
  unfolding refuse_def by (intro completes_rules)

lemma completes_step [completes_rules]:
  "(\<And>e. completes (h e)) \<Longrightarrow> completes k \<Longrightarrow> completes (step n to m h k)"
  unfolding step_def by (intro completes_rules)

lemma completes_fatal [completes_rules]:
  "completes (fatal x e)" "completes k \<Longrightarrow> completes (stepR x to m k)"
  "completes k \<Longrightarrow> completes (step_or x to m k)" "completes (conflict d)"
  unfolding fatal_def stepR_def step_or_def conflict_def
  by (intro completes_rules; assumption?; auto intro!: completes_rules)+

lemma completes_hold [completes_rules]: "completes (hold_if_funded x e m)"
  unfolding hold_if_funded_def by (intro completes_rules)

subsection \<open>The last step\<close>

lemma stable_stored: "stable stored_completed"
  by (simp add: stable_def stored_completed_def)

lemma keeps_emitTransition_stable:
  assumes "\<And>w ev. P w \<Longrightarrow> P (w\<lparr>w_events := w_events w @ [ev]\<rparr>)" and "stable P"
  shows "keeps P (emitTransition n s t err m)"
proof -
  have e: "keeps P (emit ev)" for ev using assms(1) by (simp add: keeps_def wp_emit)
  have p: "keeps P (port_io p)" for p :: "('a, 'b) port" using assms(2) by (rule keeps_port)
  show ?thesis
    unfolding emitTransition_def audit_io_def alert_io_def get_run_def
    by (auto intro!: keeps_bnd keeps_seq e p split: option.splits)
qed

lemma wp_enter_completed:
  "wp (enter_state completed) (\<lambda>_. stored_completed) (\<lambda>_. True) w"
  by (simp add: enter_state_def wp_rules stored_completed_def mem_get_put)

lemma wp_advance_completed:
  "wp (advance n completed m) (\<lambda>r w'. r = Inr () \<longrightarrow> stored_completed w') (\<lambda>_. True) w"
proof -
  have t: "keeps stored_completed (bnd (nowIO n) (\<lambda>at. seq (emitTransition n s at None m') (ret (Inr ()))))"
    for s m'
    unfolding nowIO_def
    by (intro keeps_bnd keeps_seq keeps_ret keeps_port keeps_emitTransition_stable stable_stored)
      (simp add: stored_completed_def)
  have e: "wp (seq (enter_state completed) (bnd (nowIO n) (\<lambda>at. seq (emitTransition n s at None m') (ret (Inr ())))))
      (\<lambda>r w'. r = Inr () \<longrightarrow> stored_completed w') (\<lambda>_. True) w'" for s m' w'
    unfolding wp_seq
    by (rule wp_mono [OF wp_enter_completed]) (auto intro!: wp_mono [OF keepsD [OF t]])
  show ?thesis
    unfolding advance_def
    by (auto simp: wp_bnd wp_get_run wp_ret fail_full_def intro!: wp_mono [OF wp_top] e)
qed

lemma keeps_recordOutcome_stored: "keeps stored_completed (recordOutcome n s e)"
proof -
  have f: "keeps stored_completed (fold_lane c out at th err)" for c out at th err
    by (auto simp: keeps_def wp_def fold_lane_def stored_completed_def split: prod.splits)
  show ?thesis
    unfolding recordOutcome_def record_lane_def nowIO_def
    by (auto intro!: keeps_bnd keeps_seq keeps_port keeps_emit stable_stored f split: option.splits)
qed

lemma completes_finish:
  "completes (check (advance n completed m) h (\<lambda>_. seq (recordOutcome n completed None) k))"
  if "\<And>e. completes (h e)" and "\<And>w. stored_completed w \<Longrightarrow> wp k completed_result (\<lambda>_. True) w"
  using that unfolding completes_def wp_check wp_seq
  by (auto intro!: wp_mono [OF wp_advance_completed] wp_mono [OF keepsD [OF keeps_recordOutcome_stored]]
      split: sum.splits)

lemma completed_toResult:
  "stored_completed w \<Longrightarrow> completed_result (Inr (toResult (w_run w) tr)) w"
  by (auto simp: completed_result_def stored_completed_def toResult_def)

lemma completes_complete_run [completes_rules]: "completes (complete_run x t)"
  unfolding complete_run_def stepR_def step_def
proof (rule completes_finish)
  show "completes (bnd (die (x_env x) e None) (\<lambda>e. ret (Inl e)))" for e by (intro completes_rules)
  fix w :: "'a world"
  assume s: "stored_completed w"
  have k: "keeps stored_completed (bnd (nowIO (x_env x)) (\<lambda>t'. emit (EvTiming ''corridor.duration'' (t' - t))))"
    unfolding nowIO_def by (auto intro!: keeps_bnd keeps_port keeps_emit stable_stored)
  show "wp (bnd (nowIO (x_env x)) (\<lambda>t'. seq (emit (EvTiming ''corridor.duration'' (t' - t)))
      (gets_io (\<lambda>w. Inr (toResult (w_run w) (w_trail w)))))) completed_result (\<lambda>_. True) w"
    using keepsD [OF k s]
    by (auto simp: wp_bnd wp_seq wp_emit wp_gets nowIO_def wp_port split: prod.splits
        intro!: wp_mono [OF wp_top] dest!: completed_toResult [where tr = "w_trail w"])
qed

lemma completes_resume_complete [completes_rules]: "completes k \<Longrightarrow> completes (resume_complete x k)"
  unfolding resume_complete_def step_or_def
  by (intro completes_bnd completes_if completes_finish completes_rules)
    (simp_all add: wp_gets completed_toResult)

subsection \<open>Every other path\<close>

lemma completes_do [completes_rules]:
  "(\<And>q. completes (kq q)) \<Longrightarrow> completes (do_quote x i p kq)"
  "completes k \<Longrightarrow> completes (do_comply x i k)"
  "(\<And>op. completes (ko op)) \<Longrightarrow> completes (do_open x i q ko)"
  unfolding do_quote_def do_comply_def do_open_def Let_def by (auto intro!: completes_rules)

lemma completes_deposit [completes_rules]:
  "completes k \<Longrightarrow> completes (open_deposit x sa i k)" "completes k \<Longrightarrow> completes (await_deposit x sa k)"
  unfolding open_deposit_def await_deposit_def by (auto intro!: completes_rules)

lemma completes_do_funding [completes_rules]: "completes k \<Longrightarrow> completes (do_funding x opts i s k)"
  unfolding do_funding_def Let_def by (auto intro!: completes_rules split: option.splits)

lemma completes_quote_expired [completes_rules]: "completes k \<Longrightarrow> completes (quote_expired x q e k)"
  unfolding quote_expired_def by (auto intro!: completes_rules)

lemma completes_gate_phase [completes_rules]:
  "(\<And>cs. completes (k cs)) \<Longrightarrow> completes (gate_phase x i q op a k)"
  unfolding gate_phase_def gate_refused_def Let_def
  by (auto intro!: completes_rules split: option.splits sum.splits)

lemma completes_find_or_settle [completes_rules]:
  "(\<And>r. completes (k r)) \<Longrightarrow> completes (find_or_settle x q op k)"
  unfolding find_or_settle_def Let_def by (auto intro!: completes_rules split: option.splits)

lemma completes_settle_onward [completes_rules]:
  "completes k \<Longrightarrow> completes (settle_onward x q op dl ref k)"
  unfolding settle_onward_def Let_def by (auto intro!: completes_rules)

lemma completes_settle_pass [completes_rules]:
  "(\<And>r. completes (k r)) \<Longrightarrow> completes (settle_pass x opts i q op dl a k)"
  unfolding settle_pass_def dry_stop_def Let_def by (auto intro!: completes_rules split: option.splits)

lemma completes_settle_loop [completes_rules]:
  "completes k \<Longrightarrow> completes (settle_loop n x opts i q op dl a k)"
  by (induction n arbitrary: a)
    (auto intro!: completes_rules split: sum.splits recovery_action.splits)

lemma completes_new_payment [completes_rules]: "completes (new_payment fl n opts i t)"
  unfolding new_payment_def run_payment_def Let_def
  by (auto simp del: settle_loop.simps intro!: completes_rules split: sum.splits)

lemma completes_resume_guards [completes_rules]:
  "completes k \<Longrightarrow> completes (manifest_guard x k)" "completes k \<Longrightarrow> completes (stale_guard x k)"
  "completes k \<Longrightarrow> completes (funded_gate x k)" "completes k \<Longrightarrow> completes (resume_funding x i s k)"
  unfolding manifest_guard_def stale_guard_def funded_gate_def resume_funding_def Let_def
  by (auto intro!: completes_rules split: option.splits)

lemma completes_pay [completes_rules]:
  "completes k \<Longrightarrow> completes (enterSettling x k)"
  "completes m \<Longrightarrow> completes k \<Longrightarrow> completes (if_stored_expired x r m k)"
  "completes k \<Longrightarrow> completes (resume_comply x i k)"
  "completes k \<Longrightarrow> completes (resume_source x i s k)"
  unfolding enterSettling_def if_stored_expired_def resume_comply_def resume_source_def Let_def
  by (auto intro!: completes_rules split: option.splits)

lemma completes_resume_pay [completes_rules]:
  "(\<And>r. completes (kr r)) \<Longrightarrow> completes (resume_pay x rq kr)"
  "(\<And>r. completes (kr r)) \<Longrightarrow> completes (resume_found x ref kr)"
  unfolding resume_pay_def resume_found_def Let_def by (auto intro!: completes_rules)

lemma completes_resume_submit [completes_rules]:
  "(\<And>r. completes (kr r)) \<Longrightarrow> completes (resume_submit x opts i route rq kr)"
  unfolding resume_submit_def Let_def by (auto intro!: completes_rules)

lemma completes_resume_settle [completes_rules]:
  "completes k \<Longrightarrow> completes (resume_settle x opts i route k)"
  unfolding resume_settle_def Let_def by (auto intro!: completes_rules split: option.splits)

lemma completes_resume_end [completes_rules]:
  "completes k \<Longrightarrow> completes (resume_reconcile x k)" "completes k \<Longrightarrow> completes (resume_recovery x k)"
  unfolding resume_reconcile_def resume_verify_def resume_recovery_def Let_def
  by (auto intro!: completes_rules split: option.splits settlement_ref.splits)

lemma completes_resumeRun [completes_rules]: "completes (resumeRun fl n opts i r)"
  unfolding resumeRun_def resume_phases_def by (auto intro!: completes_rules)

subsection \<open>The whole of execute\<close>

text \<open>Runs are filed under their own key.\<close>

definition filed :: "string \<Rightarrow> 'e world \<Rightarrow> bool" where
  "filed key w \<longleftrightarrow> (\<forall>r. mem_get (w_runs w) key = Some r \<longrightarrow> r_key r = key)"

lemma stable_filed: "stable (filed key)"
  by (simp add: stable_def filed_def)

lemma completed_stored:
  "filed key w \<Longrightarrow> mem_get (w_runs w) key = Some r \<Longrightarrow> r_state r = completed \<Longrightarrow>
   completed_result (Inr (toResult r [completed])) w"
  by (auto simp: completed_result_def toResult_def filed_def)

lemma execute_completes:
  assumes f: "filed (idempotencyKey intent) w"
  shows "wp (execute fuel d intent c opts) completed_result (\<lambda>_. True) w"
proof -
  have existing: "wp (bnd (gets_io (\<lambda>w. mem_get (w_runs w) (idempotencyKey intent))) (\<lambda>existing.
            case existing of
              None \<Rightarrow> new_payment fuel n opts intent t
            | Some r \<Rightarrow>
                if r_state r = completed then ret (Inr (toResult r [r_state r]))
                else if \<not> isTerminal (r_state r) then resumeRun fuel n opts intent r
                else ret (fail IDEMPOTENCY_CONFLICT
                  (msg_in_flight (idempotencyKey intent) (r_state r)))))
      completed_result (\<lambda>_. True) w'" if "filed (idempotencyKey intent) w'" for n t w'
    unfolding wp_bnd wp_gets
    using completed_stored [OF that]
    by (auto simp: wp_ret fail_full_def split: option.splits
        intro!: completesD completes_new_payment completes_resumeRun)
  show ?thesis
    unfolding execute_def execute_with_def Let_def check_def
    by (rule wp_stable_bnd [OF stable_filed observes_nowIO f],
        rule wp_stable_bnd [OF stable_filed observes_pre_claim])
      (auto simp: wp_ret split: sum.splits intro!: existing)
qed

end
