(* ===== verification/Client.thy ===== *)
theory Client
  imports Adapter
begin

section \<open>HTTP clients of an anchor (packages/adapter-kit/src/sep10.ts, sep12.ts)\<close>

text \<open>
  What the SEP adapters share: requests and answers of \<open>fetch\<close>, reading JSON bodies, the SEP-10
  login with its token cache and the SEP-12 status check. A client's state is its cache and the
  outside world. \<open>fetch\<close>, the clock, the signer, the URL parser and the decoder of a token's
  payload are ports or parameters. A rejected promise or an exception is \<open>throw_io\<close>, caught by
  \<open>catch_io\<close>; \<open>returns\<close> says that an operation never lets one escape.
\<close>

subsection \<open>Exceptions\<close>

definition catch_io :: "('w, 'a) io \<Rightarrow> ('w, 'a) io \<Rightarrow> ('w, 'a) io" where
  "catch_io m h = (\<lambda>w. case m w of (None, w') \<Rightarrow> h w' | (Some x, w') \<Rightarrow> (Some x, w'))"

lemma wp_catch [wp_rules]: "wp (catch_io m h) Q E w = wp m Q (wp h Q E) w"
  by (simp add: wp_def catch_io_def split: prod.splits option.splits)

lemma keeps_catch [intro]: "keeps P m \<Longrightarrow> keeps P h \<Longrightarrow> keeps P (catch_io m h)"
  by (auto simp: keeps_def wp_catch intro: wp_mono)

definition returns :: "('w, 'a) io \<Rightarrow> bool" where
  "returns m \<longleftrightarrow> (\<forall>w. \<exists>r w'. m w = (Some r, w'))"

named_theorems returns_rules \<open>operations that never throw\<close>

lemma returns_ret [returns_rules]: "returns (ret x)"
  by (simp add: returns_def ret_def)

lemma returns_gets [returns_rules]: "returns (gets_io f)"
  by (simp add: returns_def gets_io_def)

lemma returns_modify [returns_rules]: "returns (modify_io f)"
  by (simp add: returns_def modify_io_def)

lemma returns_bnd [returns_rules]: "returns m \<Longrightarrow> (\<And>x. returns (f x)) \<Longrightarrow> returns (bnd m f)"
  unfolding returns_def bnd_def
proof (intro allI)
  fix w
  assume m: "\<forall>w. \<exists>r w'. m w = (Some r, w')" and f: "\<And>x. \<forall>w. \<exists>r w'. f x w = (Some r, w')"
  obtain r w' where "m w = (Some r, w')" using m by blast
  then show "\<exists>r w'. (case m w of (None, w') \<Rightarrow> (None, w') | (Some x, w') \<Rightarrow> f x w') = (Some r, w')"
    using f [of r] by simp
qed

lemma returns_check [returns_rules]:
  "returns m \<Longrightarrow> (\<And>e. returns (h e)) \<Longrightarrow> (\<And>v. returns (k v)) \<Longrightarrow> returns (check m h k)"
  unfolding check_def by (rule returns_bnd) (auto split: sum.splits)

lemma returns_catch [returns_rules]: "returns h \<Longrightarrow> returns (catch_io m h)"
  unfolding returns_def catch_io_def
  by (auto split: prod.splits option.splits)

lemma returns_if: "(b \<Longrightarrow> returns m) \<Longrightarrow> (\<not> b \<Longrightarrow> returns k) \<Longrightarrow> returns (if b then m else k)"
  by simp

lemma returnsD: "returns m \<Longrightarrow> \<exists>r w'. m w = (Some r, w')"
  by (simp add: returns_def)

subsection \<open>Requests and answers\<close>

datatype http_method = GET | POST | PUT

text \<open>
  The search parameters set on a URL are kept apart from it, in the order they were set.
\<close>

record http_request =
  hq_method :: http_method
  hq_url :: string
  hq_params :: "(string \<times> string) list"
  hq_headers :: "(string \<times> string) list"
  hq_body :: "json option"

text \<open>
  \<open>nt_cast\<close> and \<open>nt_castQuote\<close> are TypeScript's unchecked casts: the value of the asserted type that
  an unvalidated JSON value is used as.
\<close>

text \<open>The text and the JSON value of a body, \<open>None\<close> when reading it rejects.\<close>

record response =
  rs_status :: int
  rs_text :: "string option"
  rs_json :: "json option"

definition res_ok :: "response \<Rightarrow> bool" where
  "res_ok r = (200 \<le> rs_status r \<and> rs_status r \<le> 299)"

record 'o net =
  nt_fetch :: "http_request \<Rightarrow> ('o, response option) port"
  nt_now :: "('o, int) port"
  nt_urlOk :: "string \<Rightarrow> bool"
  nt_payload :: "string \<Rightarrow> json option"
  nt_parseDate :: "string \<Rightarrow> ms"
  nt_cast :: "json option \<Rightarrow> string"
  nt_castQuote :: "json \<Rightarrow> sep38_body"

text \<open>
  The state of an adapter object: the cached token, the cached /info document (SEP-6) and the
  outside world.
\<close>

record 'o client =
  cl_token :: "(string \<times> int) option"
  cl_info :: "json option"
  cl_out :: 'o

type_synonym ('o, 'a) cio = "('o client, 'a) io"

definition call :: "('o, 'a) port \<Rightarrow> ('o, 'a) cio" where
  "call p = (\<lambda>w. case p (cl_out w) of (a, e) \<Rightarrow> (Some a, w\<lparr>cl_out := e\<rparr>))"

lemma returns_call [returns_rules]: "returns (call p)"
  by (simp add: returns_def call_def split: prod.splits)

lemma wp_call [wp_rules]:
  "wp (call p) Q E w = (case p (cl_out w) of (a, e) \<Rightarrow> Q a (w\<lparr>cl_out := e\<rparr>))"
  by (simp add: wp_def call_def split: prod.splits)

definition fetch_io :: "'o net \<Rightarrow> http_request \<Rightarrow> ('o, response) cio" where
  "fetch_io net q = bnd (call (nt_fetch net q)) (\<lambda>r. case r of None \<Rightarrow> throw_io | Some a \<Rightarrow> ret a)"

text \<open>\<open>new URL(s)\<close>, \<open>await res.json()\<close>, and \<open>v.k\<close> on a value that was not validated.\<close>

definition url_io :: "'o net \<Rightarrow> string \<Rightarrow> ('o, unit) cio" where
  "url_io net u = (if nt_urlOk net u then ret () else throw_io)"

definition json_io :: "response \<Rightarrow> ('o, json) cio" where
  "json_io r = (case rs_json r of None \<Rightarrow> throw_io | Some j \<Rightarrow> ret j)"

definition prop_io :: "json option \<Rightarrow> string \<Rightarrow> ('o, json option) cio" where
  "prop_io v k =
     (case v of
        Some (JObj o') \<Rightarrow> ret (jfield o' k)
      | None \<Rightarrow> throw_io
      | Some JNull \<Rightarrow> throw_io
      | Some _ \<Rightarrow> ret None)"

text \<open>\<open>v?.k\<close>, truthiness, and strings.\<close>

definition prop_opt :: "json option \<Rightarrow> string \<Rightarrow> json option" where
  "prop_opt v k = (case v of Some (JObj o') \<Rightarrow> jfield o' k | _ \<Rightarrow> None)"

definition truthy_json :: "json option \<Rightarrow> bool" where
  "truthy_json v =
     (case v of
        None \<Rightarrow> False | Some JNull \<Rightarrow> False | Some (JBool b) \<Rightarrow> b | Some (JInt i) \<Rightarrow> i \<noteq> 0
      | Some (JStr s) \<Rightarrow> s \<noteq> [] | Some (JArr _) \<Rightarrow> True | Some (JObj _) \<Rightarrow> True)"

definition str_of :: "json option \<Rightarrow> string option" where
  "str_of v = (case v of Some (JStr s) \<Rightarrow> Some s | _ \<Rightarrow> None)"

definition nonEmptyString :: "json option \<Rightarrow> string option" where
  "nonEmptyString v = (case v of Some (JStr s) \<Rightarrow> if s = [] then None else Some s | _ \<Rightarrow> None)"

definition amountString :: "json option \<Rightarrow> string option" where
  "amountString v =
     (case v of Some (JStr s) \<Rightarrow> if isValidAmount (js_trim s) then Some (js_trim s) else None
      | _ \<Rightarrow> None)"

definition parseMemoType :: "json option \<Rightarrow> memo_type option" where
  "parseMemoType v =
     (case v of
        Some (JStr s) \<Rightarrow>
          (if to_lower s = ''hash'' then Some MemoHash
           else if to_lower s = ''id'' then Some MemoId
           else if to_lower s = ''text'' then Some MemoText else None)
      | _ \<Rightarrow> None)"

lemma amountString_parseAmt: "amountString v = parseAmt v"
  by (simp add: amountString_def parseAmt_def)

lemma amountString_valid: "amountString v = Some a \<Longrightarrow> isValidAmount a"
  by (simp add: amountString_parseAmt parseAmt_valid)

fun split_on :: "char \<Rightarrow> string \<Rightarrow> string list" where
  "split_on c [] = [[]]"
| "split_on c (x # xs) =
     (if x = c then [] # split_on c xs
      else (case split_on c xs of [] \<Rightarrow> [[x]] | y # ys \<Rightarrow> (x # y) # ys))"

definition authHeader :: "string option \<Rightarrow> (string \<times> string) list" where
  "authHeader token =
     (case token of
        Some t \<Rightarrow> if t = [] then [] else [(''authorization'', ''Bearer '' @ t)]
      | None \<Rightarrow> [])"

definition json_headers :: "(string \<times> string) list" where
  "json_headers = [(''content-type'', ''application/json'')]"

definition get_request :: "string \<Rightarrow> (string \<times> string) list \<Rightarrow> (string \<times> string) list \<Rightarrow> http_request" where
  "get_request u ps hs = \<lparr>hq_method = GET, hq_url = u, hq_params = ps, hq_headers = hs, hq_body = None\<rparr>"

definition send_request :: "http_method \<Rightarrow> string \<Rightarrow> (string \<times> string) list \<Rightarrow> json \<Rightarrow> http_request" where
  "send_request m u hs b =
     \<lparr>hq_method = m, hq_url = u, hq_params = [], hq_headers = json_headers @ hs, hq_body = Some b\<rparr>"

text \<open>\<open>res.text().catch(() => "")\<close>, clipped by \<open>slice\<close>, and appended to a message after a dash.\<close>

definition text_of :: "response \<Rightarrow> string" where
  "text_of r = (case rs_text r of Some t \<Rightarrow> t | None \<Rightarrow> '''')"

definition after_dash :: "string \<Rightarrow> string" where
  "after_dash detail = (if detail = [] then '''' else '' '' @ dash @ '' '' @ detail)"

lemmas client_defs = ret_def throw_io_def bnd_def check_def gets_io_def modify_io_def catch_io_def
  call_def fetch_io_def url_io_def json_io_def prop_io_def

subsection \<open>SEP-10\<close>

record 'o sep10_signer =
  sn_account :: string
  sn_sign :: "json \<Rightarrow> json \<Rightarrow> ('o, string option) port"

record 'o sep10_client =
  au_webAuth :: "string option"
  au_homeDomain :: string
  au_signer :: "'o sep10_signer option"

definition jwtExpiryMs :: "'o net \<Rightarrow> string \<Rightarrow> int option" where
  "jwtExpiryMs net token =
     (case split_on (CHR ''.'') token of
        _ # payload # _ \<Rightarrow>
          if payload = [] then None
          else (case prop_opt (nt_payload net payload) ''exp'' of
                  Some (JInt e) \<Rightarrow> Some (e * 1000)
                | _ \<Rightarrow> None)
      | _ \<Rightarrow> None)"

definition authFailed :: "string \<Rightarrow> string \<Rightarrow> 'a outcome" where
  "authFailed pre why = fail_full ANCHOR_UNAVAILABLE (pre @ ''SEP-10 auth failed ('' @ why @ '')'') True NoCause"

definition sign_io :: "'o sep10_signer \<Rightarrow> json \<Rightarrow> json \<Rightarrow> ('o, string) cio" where
  "sign_io s t p = bnd (call (sn_sign s t p)) (\<lambda>r. case r of None \<Rightarrow> throw_io | Some x \<Rightarrow> ret x)"

definition store_token :: "'o net \<Rightarrow> int \<Rightarrow> string \<Rightarrow> ('o, unit) cio" where
  "store_token net now token =
     modify_io (\<lambda>w. w\<lparr>cl_token := Some (token,
       case jwtExpiryMs net token of Some e \<Rightarrow> e | None \<Rightarrow> now + 15 * 60000)\<rparr>)"

text \<open>
  The handshake, from the challenge to the cached token. A token that is not a string makes
  \<open>jwtExpiryMs\<close> throw. The prefix of the messages is empty in sep10.ts and the adapter's name in
  the copy of the SEP-6 adapter.
\<close>

definition handshake :: "'o net \<Rightarrow> 'o sep10_client \<Rightarrow> string \<Rightarrow> string \<Rightarrow> 'o sep10_signer \<Rightarrow> int
    \<Rightarrow> ('o, string option outcome) cio" where
  "handshake net au pre web s now =
     bnd (url_io net web) (\<lambda>_.
     bnd (fetch_io net (get_request web
            [(''account'', sn_account s), (''home_domain'', au_homeDomain au)] [])) (\<lambda>r.
       if \<not> res_ok r then ret (authFailed pre (''challenge HTTP '' @ show_int (rs_status r)))
       else
         bnd (json_io r) (\<lambda>ch.
         bnd (prop_io (Some ch) ''transaction'') (\<lambda>tx.
         bnd (prop_io (Some ch) ''network_passphrase'') (\<lambda>np.
           if \<not> truthy_json tx \<or> \<not> truthy_json np then
             ret (authFailed pre ''challenge response missing transaction/network_passphrase'')
           else
             bnd (sign_io s (the tx) (the np)) (\<lambda>signed.
             bnd (fetch_io net (send_request POST web [] (JObj [(''transaction'', JStr signed)]))) (\<lambda>tr.
               if \<not> res_ok tr then ret (authFailed pre (''token HTTP '' @ show_int (rs_status tr)))
               else
                 bnd (json_io tr) (\<lambda>tj.
                 bnd (prop_io (Some tj) ''token'') (\<lambda>token.
                   if \<not> truthy_json token then ret (authFailed pre ''token response missing `token`'')
                   else
                     case token of
                       Some (JStr t) \<Rightarrow> bnd (store_token net now t) (\<lambda>_. ret (Inr (Some t)))
                     | _ \<Rightarrow> throw_io)))))))))"

definition login :: "'o net \<Rightarrow> 'o sep10_client \<Rightarrow> string \<Rightarrow> ('o, string option outcome) cio" where
  "login net au pre =
     (case (au_webAuth au, au_signer au) of
        (Some web, Some s) \<Rightarrow>
          if web = [] then ret (Inr None)
          else
            bnd (call (nt_now net)) (\<lambda>now.
            bnd (gets_io cl_token) (\<lambda>cached.
              let fresh = catch_io (handshake net au pre web s now)
                    (ret (fail_full ANCHOR_UNAVAILABLE (pre @ ''SEP-10 auth request failed'') True CauseOther))
              in case cached of
                   Some (token, expMs) \<Rightarrow>
                     if expMs - 30000 > now then ret (Inr (Some token)) else fresh
                 | None \<Rightarrow> fresh))
      | _ \<Rightarrow> ret (Inr None))"

text \<open>\<open>Sep10Client.token\<close>, and the SEP-31 adapter's \<open>authToken\<close> around it.\<close>

definition sep10_token :: "'o net \<Rightarrow> 'o sep10_client \<Rightarrow> ('o, string option outcome) cio" where
  "sep10_token net au = login net au ''''"

definition named_token :: "'o net \<Rightarrow> 'o sep10_client \<Rightarrow> string \<Rightarrow> ('o, string option outcome) cio" where
  "named_token net au name =
     check (sep10_token net au)
       (\<lambda>e. ret (fail_full (e_code e) (name @ '': '' @ e_message e) (e_retryable e) (e_cause e)))
       (\<lambda>t. ret (Inr t))"

subsection \<open>SEP-12\<close>

record sep12_check =
  kc_server :: string
  kc_name :: string

definition msg_no_customer :: "string \<Rightarrow> string" where
  [msg_defs]: "msg_no_customer name =
     name @ '': recipient has no SEP-12 customer id '' @ dash @ '' register the receiver '' @
     ''with this anchor (SEP-12 PUT /customer) and set recipient.anchorCustomerId '' @
     ''(or the deprecated recipient.sep12Id) before settling. Refusing to settle '' @
     ''on an unverified recipient.''"

definition read_kyc :: "json \<Rightarrow> kyc_result" where
  "read_kyc j =
     (let i = nonEmptyString (prop_opt (Some j) ''id'');
          st = to_upper (case str_of (prop_opt (Some j) ''status'') of Some s \<Rightarrow> s | None \<Rightarrow> '''')
      in if st = ''ACCEPTED'' then \<lparr>k_status = KycAccepted, k_customerId = i\<rparr>
         else if st = ''REJECTED'' then \<lparr>k_status = KycRejected, k_customerId = i\<rparr>
         else \<lparr>k_status = KycPending, k_customerId = i\<rparr>)"

definition sep12_check_io ::
  "'o net \<Rightarrow> sep12_check \<Rightarrow> ('o, string option outcome) cio \<Rightarrow> string option \<Rightarrow> string
    \<Rightarrow> ('o, kyc_result outcome) cio" where
  "sep12_check_io net kc authToken customerId typ =
     (if \<not> truthy customerId then ret (fail KYC_REQUIRED (msg_no_customer (kc_name kc)))
      else
        check authToken (\<lambda>e. ret (Inl e)) (\<lambda>token.
          catch_io
            (bnd (url_io net (kc_server kc @ ''/customer'')) (\<lambda>_.
             bnd (fetch_io net (get_request (kc_server kc @ ''/customer'')
                    [(''id'', the customerId), (''type'', typ)] (authHeader token))) (\<lambda>r.
               if \<not> res_ok r then
                 ret (fail_full KYC_REQUIRED
                   (kc_name kc @ '': SEP-12 customer HTTP '' @ show_int (rs_status r))
                   (rs_status r \<ge> 500) NoCause)
               else bnd (json_io r) (\<lambda>j. ret (Inr (read_kyc j))))))
            (ret (fail_full ANCHOR_UNAVAILABLE (kc_name kc @ '': SEP-12 request failed'') True CauseOther))))"

subsection \<open>SEP-38\<close>

text \<open>\<open>Sep38QuoteProvider.quote\<close>, as both SEP adapters and the router construct it.\<close>

record 'o sep38_provider =
  qp_context :: "string option"
  qp_name :: "string option"
  qp_server :: "corridor \<Rightarrow> string option"
  qp_authToken :: "('o, string option outcome) cio option"

definition quote_request :: "string \<Rightarrow> string \<Rightarrow> string option \<Rightarrow> payment_intent \<Rightarrow> corridor \<Rightarrow> http_request" where
  "quote_request server context token intent c =
     send_request POST (server @ ''/quote'') (authHeader token)
       (JObj [(''context'', JStr context), (''sell_asset'', JStr (sep38SellAsset c)),
              (''buy_asset'', JStr (d_asset (c_dest c))), (''sell_amount'', JStr (m_amount (sourceAmount intent)))])"

definition quote_answer :: "'o net \<Rightarrow> response option \<Rightarrow> http_answer" where
  "quote_answer net r =
     (case r of
        None \<Rightarrow> HttpThrows
      | Some a \<Rightarrow> if \<not> res_ok a then HttpStatus (rs_status a)
                  else (case rs_json a of None \<Rightarrow> HttpThrows | Some j \<Rightarrow> HttpBody (nt_castQuote net j)))"

definition sep38_quote :: "'o net \<Rightarrow> 'o sep38_provider \<Rightarrow> payment_intent \<Rightarrow> corridor \<Rightarrow> ('o, quote_t outcome) cio" where
  "sep38_quote net qp intent c =
     (let name = (case qp_name qp of Some n \<Rightarrow> n | None \<Rightarrow> d_name (c_dest c)) in
      case qp_server qp c of
        None \<Rightarrow> ret (fail QUOTE_UNAVAILABLE (name @ '': anchor exposes no SEP-38 quote server''))
      | Some server \<Rightarrow>
          if server = [] then ret (fail QUOTE_UNAVAILABLE (name @ '': anchor exposes no SEP-38 quote server''))
          else
            check (case qp_authToken qp of Some t \<Rightarrow> t | None \<Rightarrow> ret (Inr None)) (\<lambda>e. ret (Inl e)) (\<lambda>token.
              bnd (call (nt_fetch net (quote_request server
                     (case qp_context qp of Some x \<Rightarrow> x | None \<Rightarrow> ''sep31'') token intent c))) (\<lambda>r.
                ret (readSep38Quote (nt_parseDate net) name intent c (quote_answer net r)))))"

subsection \<open>What the clients guarantee\<close>

lemma returns_login [returns_rules]: "returns (login net au pre)"
  unfolding login_def Let_def
  by (auto intro!: returns_rules split: option.splits)

lemma returns_token [returns_rules]: "returns (sep10_token net au)" "returns (named_token net au nm)"
  unfolding named_token_def sep10_token_def by (auto intro!: returns_rules)

lemma returns_sep12 [returns_rules]: "returns a \<Longrightarrow> returns (sep12_check_io net kc a i t)"
  unfolding sep12_check_io_def by (auto intro!: returns_rules)

lemma returns_sep38 [returns_rules]:
  "(\<And>t. qp_authToken qp = Some t \<Longrightarrow> returns t) \<Longrightarrow> returns (sep38_quote net qp i c)"
  unfolding sep38_quote_def Let_def
  by (auto intro!: returns_rules split: option.splits)

lemma read_kyc_accepted:
  "k_status (read_kyc j) = KycAccepted \<longleftrightarrow>
     (\<exists>s. str_of (prop_opt (Some j) ''status'') = Some s \<and> to_upper s = ''ACCEPTED'')"
  by (auto simp: read_kyc_def Let_def to_upper_def split: option.splits)

text \<open>Predicates on results: \<open>yields m R\<close>, every result of \<open>m\<close> satisfies \<open>R\<close>.\<close>

definition yields :: "('w, 'a) io \<Rightarrow> ('a \<Rightarrow> bool) \<Rightarrow> bool" where
  "yields m R \<longleftrightarrow> (\<forall>w. wp m (\<lambda>r _. R r) (\<lambda>_. True) w)"

named_theorems yields_rules \<open>what results satisfy\<close>

lemma yields_ret [yields_rules]: "R x \<Longrightarrow> yields (ret x) R"
  by (simp add: yields_def wp_rules)

lemma yields_throw [yields_rules]: "yields throw_io R"
  by (simp add: yields_def wp_rules)

lemma yields_bnd: "yields m S \<Longrightarrow> (\<And>x. S x \<Longrightarrow> yields (f x) R) \<Longrightarrow> yields (bnd m f) R"
  by (auto simp: yields_def wp_bnd intro: wp_mono)

lemma yields_True: "yields m (\<lambda>_. True)"
  by (simp add: yields_def wp_def split: prod.splits option.splits)

lemma yields_after [yields_rules]: "(\<And>x. yields (f x) R) \<Longrightarrow> yields (bnd m f) R"
  by (rule yields_bnd [OF yields_True])

lemma yields_check [yields_rules]:
  "(\<And>e. yields (h e) R) \<Longrightarrow> (\<And>v. yields (k v) R) \<Longrightarrow> yields (check m h k) R"
  unfolding check_def by (rule yields_after) (simp split: sum.splits)

lemma yields_catch [yields_rules]: "yields m R \<Longrightarrow> yields h R \<Longrightarrow> yields (catch_io m h) R"
  by (auto simp: yields_def wp_catch intro: wp_mono)

lemma yieldsD: "yields m R \<Longrightarrow> m w = (Some r, w') \<Longrightarrow> R r"
  using wp_Some [of m "\<lambda>r _. R r" "\<lambda>_. True" w r w'] by (simp add: yields_def)

lemma yields_fetch: "yields (fetch_io net q) (\<lambda>r. \<exists>e. fst (nt_fetch net q e) = Some r)"
  unfolding yields_def fetch_io_def wp_bnd wp_call
  by (auto simp: wp_rules split: prod.splits option.splits) (metis fst_conv)

lemma yields_json: "yields (json_io r) (\<lambda>j. rs_json r = Some j)"
  by (simp add: json_io_def yields_def wp_rules split: option.splits)

lemma yields_if: "(b \<Longrightarrow> yields m R) \<Longrightarrow> (\<not> b \<Longrightarrow> yields k R) \<Longrightarrow> yields (if b then m else k) R"
  by simp

lemma yields_option [yields_rules]:
  "(x = None \<Longrightarrow> yields m R) \<Longrightarrow> (\<And>v. x = Some v \<Longrightarrow> yields (k v) R) \<Longrightarrow>
   yields (case x of None \<Rightarrow> m | Some v \<Rightarrow> k v) R"
  by (simp split: option.splits)

lemma handshake_token: "yields (handshake net au pre web s now) (\<lambda>r. r \<noteq> Inr None)"
  unfolding handshake_def authFailed_def fail_full_def
  by (intro yields_rules yields_if) (auto intro!: yields_rules split: json.splits)

lemma login_anonymous:
  assumes "login net au pre w = (Some (Inr None), w')"
  shows "\<not> truthy (au_webAuth au) \<or> au_signer au = None"
proof (rule ccontr)
  assume "\<not> ?thesis"
  then obtain web s where a: "au_webAuth au = Some web" "web \<noteq> []" "au_signer au = Some s"
    by (auto simp: truthy_def split: option.splits)
  have "yields (login net au pre) (\<lambda>r. r \<noteq> Inr None)"
    unfolding login_def a Let_def option.case prod.case
    using handshake_token [of net au pre web s] a(2)
    by (auto simp: fail_full_def intro!: yields_rules)
  from yieldsD [OF this assms] show False by simp
qed

definition kyc_backed :: "'o net \<Rightarrow> string option \<Rightarrow> kyc_result outcome \<Rightarrow> bool" where
  "kyc_backed net i res \<longleftrightarrow> (\<forall>k. res = Inr k \<and> k_status k = KycAccepted \<longrightarrow>
     (\<exists>c q e r j s. i = Some c \<and> c \<noteq> [] \<and> (''id'', c) \<in> set (hq_params q) \<and>
        fst (nt_fetch net q e) = Some r \<and> res_ok r \<and> rs_json r = Some j \<and>
        str_of (prop_opt (Some j) ''status'') = Some s \<and> to_upper s = ''ACCEPTED''))"

lemma kyc_backed_fail: "kyc_backed net i (Inl e)" "kyc_backed net i (fail_full c m b k)"
  by (simp_all add: kyc_backed_def fail_full_def)

lemma kyc_backed_read:
  "fst (nt_fetch net q e) = Some r \<Longrightarrow> res_ok r \<Longrightarrow> rs_json r = Some j \<Longrightarrow>
   (''id'', c) \<in> set (hq_params q) \<Longrightarrow> c \<noteq> [] \<Longrightarrow> kyc_backed net (Some c) (Inr (read_kyc j))"
  unfolding kyc_backed_def sum.inject using read_kyc_accepted by blast

lemma sep12_yields: "yields (sep12_check_io net kc a i t) (kyc_backed net i)"
proof (cases "truthy i")
  case False
  then show ?thesis by (simp add: sep12_check_io_def kyc_backed_fail yields_ret)
next
  case True
  then obtain c where c: "i = Some c" "c \<noteq> []" by (auto simp: truthy_def split: option.splits)
  have "yields (bnd (url_io net u) (\<lambda>_. bnd (fetch_io net q) (\<lambda>r.
      if \<not> res_ok r then ret (fail_full KYC_REQUIRED (m r) (b r) NoCause)
      else bnd (json_io r) (\<lambda>j. ret (Inr (read_kyc j)))))) (kyc_backed net i)"
    if "(''id'', c) \<in> set (hq_params q)" for u q m b
    by (rule yields_after, rule yields_bnd [OF yields_fetch], rule yields_if)
      (use c that in \<open>auto intro!: yields_bnd [OF yields_json] yields_ret kyc_backed_fail kyc_backed_read\<close>)
  then have "yields (bnd (url_io net u) (\<lambda>_. bnd (fetch_io net (get_request u' [(''id'', c), (''type'', t)] hs)) (\<lambda>r.
      if \<not> res_ok r then ret (fail_full KYC_REQUIRED (m r) (b r) NoCause)
      else bnd (json_io r) (\<lambda>j. ret (Inr (read_kyc j)))))) (kyc_backed net i)" for u u' hs m b
    by (simp add: get_request_def)
  then show ?thesis
    using c by (auto simp: sep12_check_io_def intro!: yields_check yields_catch yields_ret kyc_backed_fail)
qed

subsection \<open>Properties\<close>

text \<open>A small network: one answer for every request, a clock at 0.\<close>

definition demo_net :: "response option \<Rightarrow> int net" where
  "demo_net r = \<lparr>nt_fetch = (\<lambda>_ e. (r, e + 1)), nt_now = (\<lambda>e. (e, e)), nt_urlOk = (\<lambda>_. True),
     nt_payload = (\<lambda>_. None), nt_parseDate = (\<lambda>_. NaN),
     nt_cast = (\<lambda>v. case v of Some (JStr s) \<Rightarrow> s | _ \<Rightarrow> []),
     nt_castQuote = (\<lambda>_. \<lparr>b_id = ''q'', b_price = ''1'', b_total_price = None, b_expires_at = ''e'',
       b_sell_amount = None, b_buy_amount = ''1'', b_fee = None\<rparr>)\<rparr>"

definition demo_response :: "int \<Rightarrow> json \<Rightarrow> response" where
  "demo_response st j = \<lparr>rs_status = st, rs_text = None, rs_json = Some j\<rparr>"

definition demo_client :: "int client" where
  "demo_client = \<lparr>cl_token = None, cl_info = None, cl_out = 0\<rparr>"

definition demo_anonymous :: "int sep10_client" where
  "demo_anonymous = \<lparr>au_webAuth = Some [], au_homeDomain = ''h'', au_signer = None\<rparr>"

text \<open>
  The SEP-10 client fails closed. Anonymous access is the answer only when the anchor has no
  login endpoint or no signer is configured; a failed handshake is never one.
\<close>

theorem token_fails_closed:
  assumes "sep10_token net au w = (Some (Inr None), w')"
  shows "\<not> truthy (au_webAuth au) \<or> au_signer au = None"
  using assms unfolding sep10_token_def by (rule login_anonymous)

theorem token_fails_closed_witness:
  "\<not> truthy (au_webAuth demo_anonymous) \<or> au_signer demo_anonymous = None"
  by (rule token_fails_closed [of "demo_net None" _ demo_client demo_client])
    (simp add: sep10_token_def login_def ret_def demo_anonymous_def)

text \<open>
  C1: the SEP-12 check answers \<open>accepted\<close> only for a named customer, and only when a successful
  answer to a request carrying that customer's id had the status \<open>ACCEPTED\<close>.
\<close>

theorem kyc_accepted_only_by_anchor:
  assumes "sep12_check_io net kc a customer t w = (Some (Inr k), w')" and "k_status k = KycAccepted"
  shows "\<exists>c q e r j s. customer = Some c \<and> c \<noteq> [] \<and> (''id'', c) \<in> set (hq_params q) \<and>
     fst (nt_fetch net q e) = Some r \<and> res_ok r \<and> rs_json r = Some j \<and>
     str_of (prop_opt (Some j) ''status'') = Some s \<and> to_upper s = ''ACCEPTED''"
  using yieldsD [OF sep12_yields assms(1)] assms(2) unfolding kyc_backed_def by blast

lemma upper_accepted: "to_upper ''Accepted'' = ''ACCEPTED''"
  by code_simp

theorem kyc_accepted_only_by_anchor_witness:
  "\<exists>c q e r j s. Some ''c1'' = Some c \<and> c \<noteq> [] \<and> (''id'', c) \<in> set (hq_params q) \<and>
     fst (nt_fetch (demo_net (Some (demo_response 200 (JObj [(''status'', JStr ''Accepted'')])))) q e) = Some r \<and>
     res_ok r \<and> rs_json r = Some j \<and>
     str_of (prop_opt (Some j) ''status'') = Some s \<and> to_upper s = ''ACCEPTED''"
proof (rule kyc_accepted_only_by_anchor)
  show "sep12_check_io (demo_net (Some (demo_response 200 (JObj [(''status'', JStr ''Accepted'')]))))
      \<lparr>kc_server = ''s'', kc_name = ''n''\<rparr> (ret (Inr None)) (Some ''c1'') ''t'' demo_client
      = (Some (Inr \<lparr>k_status = KycAccepted, k_customerId = None\<rparr>), demo_client\<lparr>cl_out := 1\<rparr>)"
    by (simp add: sep12_check_io_def client_defs demo_net_def demo_response_def demo_client_def
        get_request_def authHeader_def res_ok_def read_kyc_def prop_opt_def jfield_def str_of_def
        upper_accepted nonEmptyString_def)
qed simp



end
