(* ===== verification/Sep31.thy ===== *)
theory Sep31
  imports Client Ports "HOL-Library.AList"
begin

section \<open>The SEP-31 adapter (packages/sep31/src/index.ts)\<close>

text \<open>
  \<open>Sep31Adapter\<close> method by method over the HTTP client of Client: what it sends and what it makes
  of the anchor's answers. \<open>sep31\<close> holds the fields of an adapter object. The classification of
  anchor statuses has a contract that the SEP-6 adapter shares; it is the locale \<open>status_map\<close>.
  A body read under an unchecked cast is modelled where the fields have the asserted type; a
  missing string is represented by the empty one, which every later check treats alike.
\<close>

subsection \<open>Statuses\<close>

record mapped_status =
  mp_status :: string
  mp_phase :: "phase option"
  mp_settled :: bool
  mp_terminalFailure :: bool
  mp_awaitingInput :: bool

definition TERMINAL_FAILURE_STATUSES :: "string list" where
  "TERMINAL_FAILURE_STATUSES = [''refunded'', ''expired'', ''error'']"

definition AWAITING_INPUT_STATUSES :: "string list" where
  "AWAITING_INPUT_STATUSES =
     [''incomplete'', ''pending_customer_info_update'', ''pending_transaction_info_update'']"

definition IN_FLIGHT_STATUSES :: "string list" where
  "IN_FLIGHT_STATUSES =
     [''pending_sender'', ''pending_receiver'', ''pending_external'', ''pending_anchor'', ''pending_stellar'']"

definition mapped :: "string \<Rightarrow> phase option \<Rightarrow> bool \<Rightarrow> bool \<Rightarrow> bool \<Rightarrow> mapped_status" where
  "mapped s p a b c = \<lparr>mp_status = s, mp_phase = p, mp_settled = a, mp_terminalFailure = b, mp_awaitingInput = c\<rparr>"

definition mapSep31Status :: "string \<Rightarrow> mapped_status" where
  "mapSep31Status raw =
     (let status = to_lower raw in
      if status = ''completed'' then mapped status None True False False
      else if status \<in> set TERMINAL_FAILURE_STATUSES then mapped status None False True False
      else if status \<in> set AWAITING_INPUT_STATUSES then mapped status None False False True
      else if status \<in> set IN_FLIGHT_STATUSES then
        mapped status
          (if status = ''pending_external'' \<or> status = ''pending_receiver'' then Some PhaseExternal else None)
          False False False
      else mapped status None False False False)"

text \<open>\<open>(raw ?? "").toLowerCase()\<close>: a status that is neither absent nor a string throws.\<close>

definition status_io :: "(string \<Rightarrow> mapped_status) \<Rightarrow> json option \<Rightarrow> ('o, mapped_status) cio" where
  "status_io f v =
     (case v of
        None \<Rightarrow> ret (f '''') | Some JNull \<Rightarrow> ret (f '''') | Some (JStr s) \<Rightarrow> ret (f s) | Some _ \<Rightarrow> throw_io)"

text \<open>
  The contract of a classification: success is one status of the protocol, the three flags
  exclude each other, and a status the protocol does not know is in flight.
\<close>

locale status_map =
  fixes classify :: "string \<Rightarrow> mapped_status" and failures :: "string list" and waiting :: "string list"
  assumes settled_law: "mp_settled (classify raw) \<longleftrightarrow> to_lower raw = ''completed''"
    and failure_law: "mp_terminalFailure (classify raw) \<longleftrightarrow> to_lower raw \<in> set failures"
    and waiting_law: "mp_awaitingInput (classify raw) \<longleftrightarrow> to_lower raw \<in> set waiting"
    and disjoint_law: "''completed'' \<notin> set failures" "''completed'' \<notin> set waiting"
      "set failures \<inter> set waiting = {}"
begin

lemma flags_exclusive:
  "\<not> (mp_settled (classify raw) \<and> mp_terminalFailure (classify raw))"
  "\<not> (mp_settled (classify raw) \<and> mp_awaitingInput (classify raw))"
  "\<not> (mp_terminalFailure (classify raw) \<and> mp_awaitingInput (classify raw))"
  using disjoint_law by (auto simp: settled_law failure_law waiting_law)

lemma unknown_in_flight:
  "to_lower raw \<noteq> ''completed'' \<Longrightarrow> to_lower raw \<notin> set failures \<Longrightarrow>
   \<not> mp_settled (classify raw) \<and> \<not> mp_terminalFailure (classify raw)"
  by (simp add: settled_law failure_law)

end

interpretation m31: status_map mapSep31Status TERMINAL_FAILURE_STATUSES AWAITING_INPUT_STATUSES
  by unfold_locales
    (auto simp: mapSep31Status_def mapped_def Let_def TERMINAL_FAILURE_STATUSES_def AWAITING_INPUT_STATUSES_def)

subsection \<open>The adapter object\<close>

record 'o sep31 =
  s31_name :: string
  s31_anchor :: dest_t
  s31_settlementAsset :: string
  s31_net :: "'o net"
  s31_auth :: "'o sep10_client"
  s31_sep12 :: "sep12_check option"

definition sep12_of :: "dest_t \<Rightarrow> sep12_check option" where
  "sep12_of d =
     (case kyc_server (d_endpoints d) of
        Some k \<Rightarrow> if k = [] then None else Some \<lparr>kc_server = k, kc_name = d_name d\<rparr>
      | None \<Rightarrow> None)"

definition auth_of :: "dest_t \<Rightarrow> 'o sep10_signer option \<Rightarrow> 'o sep10_client" where
  "auth_of d signer =
     \<lparr>au_webAuth = web_auth (d_endpoints d), au_homeDomain = home_domain (d_endpoints d), au_signer = signer\<rparr>"

definition new_sep31 :: "'o net \<Rightarrow> 'o sep10_signer option \<Rightarrow> corridor \<Rightarrow> string + 'o sep31" where
  "new_sep31 net signer c =
     (if d_protocol (c_dest c) \<noteq> Sep31 then
        Inl (''Sep31Adapter cannot handle protocol '' @ [CHR 0x22] @ protocol_name (d_protocol (c_dest c)) @
          [CHR 0x22] @ ''; use an adapter for that protocol'')
      else
        Inr \<lparr>s31_name = d_name (c_dest c), s31_anchor = c_dest c,
             s31_settlementAsset = bridge_asset (c_settlement c), s31_net = net,
             s31_auth = auth_of (c_dest c) signer, s31_sep12 = sep12_of (c_dest c)\<rparr>)"

definition authToken31 :: "'o sep31 \<Rightarrow> ('o, string option outcome) cio" where
  "authToken31 a = named_token (s31_net a) (s31_auth a) (s31_name a)"

definition base31 :: "'o sep31 \<Rightarrow> corridor \<Rightarrow> string outcome" where
  "base31 a c =
     (case transfer_server_sep31 (d_endpoints (s31_anchor a)) of
        Some u \<Rightarrow> if u = [] then fail ANCHOR_UNAVAILABLE
            (s31_name a @ '': no SEP-31 transfer server configured for corridor '' @ c_id c)
          else Inr u
      | None \<Rightarrow> fail ANCHOR_UNAVAILABLE
            (s31_name a @ '': no SEP-31 transfer server configured for corridor '' @ c_id c))"

definition capabilities31 :: "'o sep31 \<Rightarrow> capabilities" where
  "capabilities31 a =
     (let e = d_endpoints (s31_anchor a) in
      \<lparr>cap_quotes = (if truthy (quote_server e) then [CapSep38Firm] else [CapNoQuotes]),
       cap_kyc = (if truthy (kyc_server e) then M_sep12 else M_none),
       cap_settlement = [StellarPayment]\<rparr>)"

subsection \<open>Quotes and compliance\<close>

definition sep38_of :: "'o sep31 \<Rightarrow> 'o sep38_provider" where
  "sep38_of a =
     \<lparr>qp_context = Some ''sep31'', qp_name = Some (s31_name a),
      qp_server = (\<lambda>_. quote_server (d_endpoints (s31_anchor a))), qp_authToken = Some (authToken31 a)\<rparr>"

definition requestQuote31 :: "'o sep31 \<Rightarrow> payment_intent \<Rightarrow> corridor \<Rightarrow> ('o, quote_t outcome) cio" where
  "requestQuote31 a intent c =
     (case base31 a c of Inl e \<Rightarrow> ret (Inl e) | Inr _ \<Rightarrow> sep38_quote (s31_net a) (sep38_of a) intent c)"

record register_options =
  ro_type :: "string option"
  ro_account :: "string option"

definition spread :: "(string \<times> string) list \<Rightarrow> (string \<times> json) list \<Rightarrow> (string \<times> json) list" where
  "spread fs o' = fold (\<lambda>(k, v). AList.update k (JStr v)) fs o'"

definition customer_body :: "'o sep31 \<Rightarrow> register_options \<Rightarrow> (string \<times> string) list \<Rightarrow> json" where
  "customer_body a opts fs =
     (let account = (case ro_account opts of Some x \<Rightarrow> Some x | None \<Rightarrow> map_option sn_account (au_signer (s31_auth a)))
      in JObj (spread fs
           ((if truthy account then [(''account'', JStr (the account))] else []) @
            (if truthy (ro_type opts) then [(''type'', JStr (the (ro_type opts)))] else []))))"

definition registerCustomer ::
  "'o sep31 \<Rightarrow> (string \<times> string) list \<Rightarrow> register_options \<Rightarrow> ('o, string outcome) cio" where
  "registerCustomer a fs opts =
     (let kyc = kyc_server (d_endpoints (s31_anchor a)) in
      if \<not> truthy kyc then ret (fail KYC_REQUIRED (s31_name a @ '': anchor exposes no SEP-12 KYC server''))
      else
        check (authToken31 a) (\<lambda>e. ret (Inl e)) (\<lambda>token.
          catch_io
            (bnd (fetch_io (s31_net a) (send_request PUT (the kyc @ ''/customer'') (authHeader token)
                    (customer_body a opts fs))) (\<lambda>r.
               if \<not> res_ok r then
                 ret (fail_full KYC_REQUIRED (s31_name a @ '': SEP-12 PUT /customer HTTP '' @
                   show_int (rs_status r) @ after_dash (take 200 (text_of r))) (rs_status r \<ge> 500) NoCause)
               else
                 bnd (json_io r) (\<lambda>j.
                 bnd (prop_io (Some j) ''id'') (\<lambda>i.
                   if \<not> truthy_json i then
                     ret (fail KYC_REQUIRED (s31_name a @ '': SEP-12 PUT /customer returned no id''))
                   else ret (Inr (nt_cast (s31_net a) i))))))
            (ret (fail_full ANCHOR_UNAVAILABLE (s31_name a @ '': SEP-12 registration failed'') True CauseOther))))"

definition ensureCompliance31 :: "'o sep31 \<Rightarrow> payment_intent \<Rightarrow> corridor \<Rightarrow> ('o, kyc_result outcome) cio" where
  "ensureCompliance31 a intent c =
     (case s31_sep12 a of
        None \<Rightarrow> ret (Inr \<lparr>k_status = KycAccepted, k_customerId = None\<rparr>)
      | Some kc \<Rightarrow> sep12_check_io (s31_net a) kc (authToken31 a) (anchorCustomerIdOf (recipient intent))
                    (sep12_receiver_type (c_compliance c)))"

subsection \<open>Opening a transaction\<close>

definition open_body :: "payment_intent \<Rightarrow> quote_t \<Rightarrow> corridor \<Rightarrow> string \<Rightarrow> json" where
  "open_body intent q c receiverId =
     (let senderId = anchorCustomerIdOf (sender intent) in
      JObj ([(''amount'', JStr (m_amount (q_sourceAmount q))),
             (''asset_code'', JStr (bridge_asset (c_settlement c))),
             (''asset_issuer'', JStr (asset_issuer (c_settlement c))),
             (''destination_asset'', JStr (d_asset (c_dest c))),
             (''quote_id'', JStr (q_id q)),
             (''receiver_id'', JStr receiverId)] @
            (case senderId of Some s \<Rightarrow> [(''sender_id'', JStr s)] | None \<Rightarrow> []) @
            [(''fields'', JObj [(''transaction'',
               JObj (case destinationFields intent of Some fs \<Rightarrow> map (\<lambda>(k, v). (k, JStr v)) fs | None \<Rightarrow> []))])]))"

definition opened_of :: "'o net \<Rightarrow> quote_t \<Rightarrow> corridor \<Rightarrow> json \<Rightarrow> ('o, open_transaction outcome) cio" where
  "opened_of net q c j =
     bnd (prop_io (Some j) ''stellar_memo_type'') (\<lambda>mt.
       let to = nt_cast net (prop_opt (Some j) ''stellar_account_id'');
           memo = map_option (nt_cast net \<circ> Some) (prop_opt (Some j) ''stellar_memo'');
           memoType = parseMemoType mt
       in ret (Inr
            \<lparr>o_transactionId = nt_cast net (prop_opt (Some j) ''id''),
             o_instructions = Some (IStellarPayment to memo memoType None),
             o_amountIn = Some \<lparr>m_asset = bridge_asset (c_settlement c), m_amount = m_amount (q_sourceAmount q)\<rparr>,
             o_depositAddress = Some to, o_memo = memo, o_memoType = memoType\<rparr>))"

definition openTransaction31 ::
  "'o sep31 \<Rightarrow> payment_intent \<Rightarrow> quote_t \<Rightarrow> corridor \<Rightarrow> ('o, open_transaction outcome) cio" where
  "openTransaction31 a intent q c =
     (case base31 a c of
        Inl e \<Rightarrow> ret (Inl e)
      | Inr base \<Rightarrow>
          (case anchorCustomerIdOf (recipient intent) of
             None \<Rightarrow> ret (fail KYC_REQUIRED
               (s31_name a @ '': cannot open a SEP-31 transaction without recipient.anchorCustomerId '' @
                ''(or the deprecated recipient.sep12Id)''))
           | Some receiverId \<Rightarrow>
               check (authToken31 a) (\<lambda>e. ret (Inl e)) (\<lambda>token.
                 catch_io
                   (bnd (fetch_io (s31_net a) (send_request POST (base @ ''/transactions'') (authHeader token)
                           (open_body intent q c receiverId))) (\<lambda>r.
                      if \<not> res_ok r then
                        ret (fail_full ANCHOR_UNAVAILABLE (s31_name a @ '': open-tx HTTP '' @
                          show_int (rs_status r) @ after_dash (take 300 (text_of r))) (rs_status r \<ge> 500) NoCause)
                      else bnd (json_io r) (opened_of (s31_net a) q c)))
                   (ret (fail_full ANCHOR_UNAVAILABLE (s31_name a @ '': open-tx failed'') True CauseOther)))))"

definition registerCallback :: "'o sep31 \<Rightarrow> string \<Rightarrow> string \<Rightarrow> ('o, unit outcome) cio" where
  "registerCallback a transactionId url =
     (let sep31 = transfer_server_sep31 (d_endpoints (s31_anchor a)) in
      if \<not> truthy sep31 then ret (fail ANCHOR_UNAVAILABLE (s31_name a @ '': no SEP-31 server''))
      else
        check (authToken31 a) (\<lambda>e. ret (Inl e)) (\<lambda>token.
          catch_io
            (bnd (fetch_io (s31_net a) (send_request PUT
                    (the sep31 @ ''/transactions/'' @ transactionId @ ''/callback'') (authHeader token)
                    (JObj [(''url'', JStr url)]))) (\<lambda>r.
               if \<not> res_ok r then
                 ret (fail_full ANCHOR_UNAVAILABLE
                   (s31_name a @ '': register callback HTTP '' @ show_int (rs_status r)) (rs_status r \<ge> 500) NoCause)
               else ret (Inr ())))
            (ret (fail_full ANCHOR_UNAVAILABLE (s31_name a @ '': register callback failed'') True CauseOther))))"

subsection \<open>Reading a transaction\<close>

definition status_of ::
  "string \<Rightarrow> mapped_status \<Rightarrow> json option \<Rightarrow> string option \<Rightarrow> json option \<Rightarrow> json option \<Rightarrow> json option
    \<Rightarrow> json option \<Rightarrow> transaction_status" where
  "status_of asset m refunds settledAmount amount_in account memo memo_type =
     \<lparr>ts_status = mp_status m, ts_phase = mp_phase m, ts_settled = mp_settled m,
      ts_terminalFailure = mp_terminalFailure m, ts_awaitingInput = mp_awaitingInput m,
      ts_refunds = parseRefunds refunds asset settledAmount,
      ts_amountIn = map_option (\<lambda>v. \<lparr>m_asset = asset, m_amount = v\<rparr>) (amountString amount_in),
      ts_depositAddress = nonEmptyString account, ts_memo = nonEmptyString memo,
      ts_memoType = parseMemoType memo_type\<rparr>"

text \<open>The status of a transaction record, once \<open>tx.status\<close> has been read without throwing.\<close>

definition read_tx31 :: "string \<Rightarrow> json option \<Rightarrow> mapped_status \<Rightarrow> transaction_status" where
  "read_tx31 settlementAsset tx m =
     (let asset = (case nonEmptyString (prop_opt tx ''amount_in_asset'') of
                     Some s \<Rightarrow> s | None \<Rightarrow> settlementAsset)
      in status_of asset m (prop_opt tx ''refunds'') (str_of (prop_opt tx ''amount_in''))
           (prop_opt tx ''amount_in'') (prop_opt tx ''stellar_account_id'')
           (prop_opt tx ''stellar_memo'') (prop_opt tx ''stellar_memo_type''))"

definition getTransaction31 :: "'o sep31 \<Rightarrow> string \<Rightarrow> ('o, transaction_status outcome) cio" where
  "getTransaction31 a transactionId =
     (let sep31 = transfer_server_sep31 (d_endpoints (s31_anchor a)) in
      if \<not> truthy sep31 then ret (fail ANCHOR_UNAVAILABLE (s31_name a @ '': no SEP-31 server''))
      else
        catch_io
          (bnd (fetch_io (s31_net a) (get_request (the sep31 @ ''/transactions/'' @ transactionId) [] [])) (\<lambda>r.
             if \<not> res_ok r then
               ret (fail_full ANCHOR_UNAVAILABLE (s31_name a @ '': get-tx HTTP '' @ show_int (rs_status r))
                 (rs_status r \<ge> 500) NoCause)
             else
               bnd (json_io r) (\<lambda>j.
               bnd (prop_io (Some j) ''transaction'') (\<lambda>tx.
               bnd (prop_io tx ''status'') (\<lambda>s.
               bnd (status_io mapSep31Status s) (\<lambda>m.
                 ret (Inr (read_tx31 (s31_settlementAsset a) tx m))))))))
          (ret (fail_full ANCHOR_UNAVAILABLE (s31_name a @ '': get-tx failed'') True CauseOther)))"

datatype refund_status = RefundPending | RefundDone | RefundRejected

record refund_ref =
  rd_transactionId :: string
  rd_status :: refund_status
  rd_refundId :: "string option"
  rd_message :: "string option"

definition requestRefund31 :: "'o sep31 \<Rightarrow> string \<Rightarrow> refund_ref outcome" where
  "requestRefund31 a transactionId =
     fail REFUND_UNSUPPORTED
       (s31_name a @ '': SEP-31 has no sender-initiated refund endpoint '' @ dash @ '' a refund is '' @
        ''initiated by the receiving anchor and only reported back on transaction '' @
        transactionId @ ''; resolve out-of-band with the anchor (see the held/refunded '' @
        ''runbook in docs/operations.md) and watch getTransaction() for the outcome'')"

subsection \<open>The anchor's /info\<close>

record sep31_asset_info =
  ai_enabled :: "bool option"
  ai_minAmount :: "string option"
  ai_maxAmount :: "string option"
  ai_feeFixed :: "string option"
  ai_feePercent :: "string option"
  ai_senderSep12Type :: "string option"
  ai_receiverSep12Type :: "string option"
  ai_fields :: "json option"

text \<open>\<open>receive\<close> of \<open>Sep31Info\<close>, in the order of its keys.\<close>

type_synonym sep31_info = "(string \<times> sep31_asset_info) list"

definition bool_of :: "json option \<Rightarrow> bool option" where
  "bool_of v = (case v of Some (JBool b) \<Rightarrow> Some b | _ \<Rightarrow> None)"

text \<open>\<open>v && typeof v === "object"\<close>, and the entries of such a value.\<close>

definition is_object :: "json option \<Rightarrow> bool" where
  "is_object v = (case v of Some (JObj _) \<Rightarrow> True | Some (JArr _) \<Rightarrow> True | _ \<Rightarrow> False)"

definition entries_of :: "json option \<Rightarrow> (string \<times> json) list" where
  "entries_of v =
     (case v of
        Some (JObj o') \<Rightarrow> o'
      | Some (JArr xs) \<Rightarrow> zip (map show_nat [0..<length xs]) xs
      | _ \<Rightarrow> [])"

definition asset_info :: "json \<Rightarrow> sep31_asset_info" where
  "asset_info a =
     (let f = prop_opt (Some a) in
      \<lparr>ai_enabled = bool_of (f ''enabled''), ai_minAmount = amountString (f ''min_amount''),
       ai_maxAmount = amountString (f ''max_amount''), ai_feeFixed = amountString (f ''fee_fixed''),
       ai_feePercent = amountString (f ''fee_percent''), ai_senderSep12Type = str_of (f ''sender_sep12_type''),
       ai_receiverSep12Type = str_of (f ''receiver_sep12_type''),
       ai_fields = (if is_object (f ''fields'') then f ''fields'' else None)\<rparr>)"

definition read_info :: "json \<Rightarrow> sep31_info" where
  "read_info j =
     (let receive = prop_opt (Some j) ''receive'' in
      if \<not> is_object receive then []
      else map (\<lambda>(k, v). (k, asset_info v)) (filter (\<lambda>(k, v). is_object (Some v)) (entries_of receive)))"

definition getInfo :: "'o sep31 \<Rightarrow> ('o, sep31_info outcome) cio" where
  "getInfo a =
     (let sep31 = transfer_server_sep31 (d_endpoints (s31_anchor a)) in
      if \<not> truthy sep31 then
        ret (fail ANCHOR_UNAVAILABLE (s31_name a @ '': no SEP-31 transfer server configured''))
      else
        check (authToken31 a) (\<lambda>e. ret (Inl e)) (\<lambda>token.
          catch_io
            (bnd (fetch_io (s31_net a) (get_request (the sep31 @ ''/info'') [] (authHeader token))) (\<lambda>r.
               if \<not> res_ok r then
                 ret (fail_full ANCHOR_UNAVAILABLE (s31_name a @ '': get-info HTTP '' @ show_int (rs_status r))
                   (rs_status r \<ge> 500) NoCause)
               else bnd (json_io r) (\<lambda>j. ret (Inr (read_info j)))))
            (ret (fail_full ANCHOR_UNAVAILABLE (s31_name a @ '': get-info request failed'') True CauseOther))))"

subsection \<open>The adapter as the engine's port\<close>

text \<open>
  A method that never throws is a port of the engine; that none of these does is shown below, so
  the default of \<open>port_of\<close> is never used.
\<close>

definition port_of :: "'a \<Rightarrow> ('o, 'a) cio \<Rightarrow> ('o client, 'a) port" where
  "port_of d m = (\<lambda>w. case m w of (Some r, w') \<Rightarrow> (r, w') | (None, w') \<Rightarrow> (d, w'))"

definition rejected :: "'a outcome" where
  "rejected = fail ANCHOR_UNAVAILABLE ''''"

definition adapter31 :: "'o sep31 \<Rightarrow> 'o client adapter" where
  "adapter31 a =
     \<lparr>a_name = s31_name a, a_capabilities = capabilities31 a,
      a_requestQuote = (\<lambda>i c. port_of rejected (requestQuote31 a i c)),
      a_ensureCompliance = (\<lambda>i c. port_of rejected (ensureCompliance31 a i c)),
      a_openTransaction = (\<lambda>i q c. port_of rejected (openTransaction31 a i q c)),
      a_getTransaction = (\<lambda>t. port_of rejected (getTransaction31 a t)),
      a_confirmSettlement = None\<rparr>"

subsection \<open>What the adapter guarantees\<close>

lemma returns_opened: "returns (catch_io m (ret x))"
  by (intro returns_rules)

lemma returns_authToken31 [returns_rules]: "returns (authToken31 a)"
  by (simp add: authToken31_def returns_token)

lemma returns_methods31:
  "returns (requestQuote31 a i c)" "returns (ensureCompliance31 a i c)" "returns (openTransaction31 a i q c)"
  "returns (getTransaction31 a t)" "returns (getInfo a)" "returns (registerCustomer a fs ro)"
  "returns (registerCallback a t u)"
  unfolding requestQuote31_def ensureCompliance31_def openTransaction31_def getTransaction31_def
    getInfo_def registerCustomer_def registerCallback_def Let_def
  by (auto intro!: returns_rules simp: sep38_of_def split: sum.splits option.splits)

lemma port_of_returns: "returns m \<Longrightarrow> \<exists>r w'. m w = (Some r, w') \<and> port_of d m w = (r, w')"
  using returnsD [of m w] by (auto simp: port_of_def)

definition backed_status :: "'o net \<Rightarrow> (string \<Rightarrow> mapped_status) \<Rightarrow> transaction_status outcome \<Rightarrow> bool" where
  "backed_status net f res \<longleftrightarrow> (\<forall>v. res = Inr v \<longrightarrow>
     (\<exists>q e r j tx m. fst (nt_fetch net q e) = Some r \<and> res_ok r \<and> rs_json r = Some j \<and>
        prop_opt (Some j) ''transaction'' = Some tx \<and>
        m = f (case prop_opt (Some tx) ''status'' of Some (JStr s) \<Rightarrow> s | _ \<Rightarrow> '''') \<and>
        ts_status v = mp_status m \<and> ts_settled v = mp_settled m \<and>
        ts_terminalFailure v = mp_terminalFailure m))"

lemma backed_fail: "backed_status net f (Inl e)" "backed_status net f (fail_full c m b k)"
  by (simp_all add: backed_status_def fail_full_def)

lemma yields_prop: "yields (prop_io v k) (\<lambda>x. v \<noteq> None \<and> v \<noteq> Some JNull \<and> x = prop_opt v k)"
  by (auto simp: prop_io_def yields_def wp_rules prop_opt_def split: option.splits json.splits)

lemma yields_status:
  "yields (status_io f v) (\<lambda>m. m = f (case v of Some (JStr s) \<Rightarrow> s | _ \<Rightarrow> ''''))"
  by (auto simp: status_io_def yields_def wp_rules split: option.splits json.splits)

lemma read_tx31_status:
  "ts_status (read_tx31 asset tx m) = mp_status m" "ts_settled (read_tx31 asset tx m) = mp_settled m"
  "ts_terminalFailure (read_tx31 asset tx m) = mp_terminalFailure m"
  by (simp_all add: read_tx31_def status_of_def Let_def)

lemma backed_read:
  assumes "fst (nt_fetch net q e) = Some r" and "res_ok r" and "rs_json r = Some j"
    and "prop_opt (Some j) ''transaction'' = Some tx"
  shows "backed_status net f (Inr (read_tx31 asset (Some tx)
     (f (case prop_opt (Some tx) ''status'' of None \<Rightarrow> [] | Some (JStr s) \<Rightarrow> s | Some _ \<Rightarrow> []))))"
  using assms unfolding backed_status_def sum.inject by (fastforce simp: read_tx31_status)

lemma getTransaction31_backed: "yields (getTransaction31 a t) (backed_status (s31_net a) mapSep31Status)"
proof -
  have "yields (bnd (fetch_io (s31_net a) q) (\<lambda>r.
      if \<not> res_ok r then ret (fail_full ANCHOR_UNAVAILABLE (m r) (b r) NoCause)
      else bnd (json_io r) (\<lambda>j. bnd (prop_io (Some j) ''transaction'') (\<lambda>tx. bnd (prop_io tx ''status'') (\<lambda>s.
             bnd (status_io mapSep31Status s) (\<lambda>m. ret (Inr (read_tx31 asset tx m))))))))
      (backed_status (s31_net a) mapSep31Status)" for q m b asset
  proof (rule yields_bnd [OF yields_fetch], rule yields_if, rule yields_ret, rule backed_fail)
    fix r assume r: "\<exists>e. fst (nt_fetch (s31_net a) q e) = Some r" "\<not> \<not> res_ok r"
    show "yields (bnd (json_io r) (\<lambda>j. bnd (prop_io (Some j) ''transaction'') (\<lambda>tx. bnd (prop_io tx ''status'') (\<lambda>s.
             bnd (status_io mapSep31Status s) (\<lambda>m. ret (Inr (read_tx31 asset tx m)))))))
        (backed_status (s31_net a) mapSep31Status)"
      by (rule yields_bnd [OF yields_json], rule yields_bnd [OF yields_prop], rule yields_bnd [OF yields_prop],
          rule yields_bnd [OF yields_status], rule yields_ret)
        (use r in \<open>auto intro: backed_read\<close>)
  qed
  then show ?thesis
    unfolding getTransaction31_def Let_def
    by (auto intro!: yields_catch yields_ret yields_if backed_fail)
qed

subsection \<open>Properties\<close>

text \<open>
  C1: the SEP-31 adapter reports a transaction as settled only when a successful answer of the
  anchor holds a record whose status is \<open>completed\<close>; no other status, known or unknown, and no
  error is read as success.
\<close>

theorem settled_only_when_completed:
  assumes "getTransaction31 a t w = (Some (Inr v), w')" and "ts_settled v"
  shows "\<exists>q e r j tx s. fst (nt_fetch (s31_net a) q e) = Some r \<and> res_ok r \<and> rs_json r = Some j \<and>
     prop_opt (Some j) ''transaction'' = Some tx \<and> prop_opt (Some tx) ''status'' = Some (JStr s) \<and>
     to_lower s = ''completed''"
proof -
  obtain q e r j tx where r: "fst (nt_fetch (s31_net a) q e) = Some r" "res_ok r" "rs_json r = Some j"
    "prop_opt (Some j) ''transaction'' = Some tx"
    and m: "mp_settled (mapSep31Status (case prop_opt (Some tx) ''status'' of Some (JStr s) \<Rightarrow> s | _ \<Rightarrow> ''''))"
    using yieldsD [OF getTransaction31_backed assms(1)] assms(2) unfolding backed_status_def by auto
  from m obtain s where "prop_opt (Some tx) ''status'' = Some (JStr s)" "to_lower s = ''completed''"
    by (auto simp: m31.settled_law to_lower_def split: option.splits json.splits)
  with r show ?thesis by blast
qed

definition demo_sep31 :: "json \<Rightarrow> int sep31" where
  "demo_sep31 j =
     \<lparr>s31_name = ''n'', s31_anchor = \<lparr>d_name = ''n'', d_asset = ''iso4217:ARS'', d_protocol = Sep31,
        d_endpoints = demo_endpoints\<lparr>transfer_server_sep31 := Some ''https://a''\<rparr>\<rparr>,
      s31_settlementAsset = ''USDC'', s31_net = demo_net (Some (demo_response 200 j)),
      s31_auth = demo_anonymous, s31_sep12 = None\<rparr>"

definition demo_record :: "string \<Rightarrow> json" where
  "demo_record s = JObj [(''transaction'', JObj [(''status'', JStr s)])]"

lemma lower_completed: "to_lower ''Completed'' = ''completed''"
  by code_simp

theorem settled_only_when_completed_witness:
  "\<exists>q e r j tx s. fst (nt_fetch (s31_net (demo_sep31 (demo_record ''Completed''))) q e) = Some r \<and> res_ok r \<and>
     rs_json r = Some j \<and> prop_opt (Some j) ''transaction'' = Some tx \<and>
     prop_opt (Some tx) ''status'' = Some (JStr s) \<and> to_lower s = ''completed''"
proof -
  obtain v w' where v: "getTransaction31 (demo_sep31 (demo_record ''Completed'')) ''t'' demo_client = (Some (Inr v), w')"
    and s: "ts_settled v"
    by (rule that, simp add: getTransaction31_def client_defs demo_sep31_def demo_record_def demo_net_def demo_response_def
        demo_client_def get_request_def res_ok_def prop_opt_def jfield_def status_io_def mapSep31Status_def
        lower_completed mapped_def)
      (simp add: read_tx31_status)
  show ?thesis by (rule settled_only_when_completed [OF v s])
qed

end
