(* ===== verification/Sep31Checks.thy ===== *)
theory Sep31Checks
  imports Sep31
begin

section \<open>The SEP-31 gate checks (packages/sep31/src/index.ts, openedTxCheck.ts, amountRangeCheck.ts)\<close>

text \<open>
  The checks the pre-settle gate runs against a SEP-31 anchor: that /info still lists the bridge
  asset, that the amount is in range, that the receiver is still accepted, and that the opened
  transaction still matches the payment. Each is an operation of the client that measures its own
  duration. The two checks that read /info share one request per gate run; a run is named by a
  number, the identity of its context object.
\<close>

type_synonym 'o info_source = "nat \<Rightarrow> ('o, sep31_info outcome) cio"

text \<open>\<open>done\<close> and the literals of the sources: the result, timed from \<open>start\<close>.\<close>

definition finish_check :: "'o net \<Rightarrow> string \<Rightarrow> int \<Rightarrow> bool \<Rightarrow> error_code option \<Rightarrow> string \<Rightarrow> ('o, check_result) cio" where
  "finish_check net name start passed code detail =
     bnd (call (nt_now net)) (\<lambda>t. ret (check_done name passed code detail (t - start)))"

definition quoted_text :: "string \<Rightarrow> string" where
  "quoted_text s = [CHR 0x22] @ s @ [CHR 0x22]"

subsection \<open>/info\<close>

definition sep31InfoCheck :: "'o net \<Rightarrow> 'o info_source \<Rightarrow> nat \<Rightarrow> gate_ctx \<Rightarrow> ('o, check_result) cio" where
  "sep31InfoCheck net source run ctx =
     bnd (call (nt_now net)) (\<lambda>start.
       let bridgeAsset = bridge_asset (c_settlement (g_corridor ctx));
           fin = finish_check net ''sep31.info.asset'' start;
           drift = fin False (Some PRESETTLE_ANCHOR_DRIFT)
       in bnd (source run) (\<lambda>r.
          case r of
            Inl e \<Rightarrow> drift (''SEP-31 /info check failed: '' @ e_message e)
          | Inr receive \<Rightarrow>
              if map fst receive = [] then drift ''SEP-31 /info receive list is empty''
              else
                (case map_of receive bridgeAsset of
                   None \<Rightarrow> drift (''SEP-31 /info does not list bridge asset '' @ quoted_text bridgeAsset @
                     '' (lists: '' @ join '', '' (map fst receive) @ '')'')
                 | Some ai \<Rightarrow>
                     if ai_enabled ai = Some False then
                       drift (''SEP-31 /info lists bridge asset '' @ quoted_text bridgeAsset @
                         '' as disabled (enabled: false)'')
                     else fin True None (''SEP-31 /info lists active bridge asset '' @ quoted_text bridgeAsset @
                       '' (enabled: true)''))))"

text \<open>
  \<open>sharedInfoSource\<close>: the cache of the gate runs, keyed by the run. Both checks of a run see the
  answer of its first request.
\<close>

type_synonym info_cache = "(nat \<times> sep31_info outcome) list"

definition sharedInfoSource ::
  "('o, sep31_info outcome) cio \<Rightarrow> nat \<Rightarrow> info_cache \<Rightarrow> ('o, sep31_info outcome \<times> info_cache) cio" where
  "sharedInfoSource fetch_info run cache =
     (case map_of cache run of
        Some r \<Rightarrow> ret (r, cache)
      | None \<Rightarrow> bnd fetch_info (\<lambda>r. ret (r, (run, r) # cache)))"

definition amount_limits :: "corridor \<Rightarrow> string option \<times> string option" where
  "amount_limits c = (case c_limits c of None \<Rightarrow> (None, None) | Some l \<Rightarrow> (min_amount l, max_amount l))"

datatype bound_want = WantMax | WantMin

definition pick :: "string option \<Rightarrow> string option \<Rightarrow> bound_want \<Rightarrow> string + string option" where
  "pick a b want =
     (if \<not> truthy a then Inr b
      else if \<not> truthy b then Inr a
      else
        case compareAmounts (the a) (the b) STROOP_SCALE of
          Inl e \<Rightarrow> Inl (e_message e)
        | Inr c \<Rightarrow> Inr (if (case want of WantMax \<Rightarrow> c > 0 | WantMin \<Rightarrow> c < 0) then a else b))"

text \<open>The verdict on an amount, once both bounds are known.\<close>

definition range_verdict :: "string \<Rightarrow> string option \<Rightarrow> string option \<Rightarrow> string option" where
  "range_verdict amount mn mx =
     (let high =
        (if \<not> truthy mx then None
         else case compareAmounts amount (the mx) STROOP_SCALE of
                Inl e \<Rightarrow> Some (''cannot compare amount '' @ amount @ '': '' @ e_message e)
              | Inr c \<Rightarrow> if c > 0 then Some (''amount '' @ amount @ '' is above maximum '' @ the mx) else None)
      in if \<not> truthy mn then high
         else case compareAmounts amount (the mn) STROOP_SCALE of
                Inl e \<Rightarrow> Some (''cannot compare amount '' @ amount @ '': '' @ e_message e)
              | Inr c \<Rightarrow> if c < 0 then Some (''amount '' @ amount @ '' is below minimum '' @ the mn) else high)"

definition amount_problem :: "corridor \<Rightarrow> sep31_asset_info option \<Rightarrow> string \<Rightarrow> string option" where
  "amount_problem c ai amount =
     (let mn = pick (fst (amount_limits c)) (Option.bind ai ai_minAmount) WantMax;
          mx = pick (snd (amount_limits c)) (Option.bind ai ai_maxAmount) WantMin
      in case (mn, mx) of
           (Inl m, _) \<Rightarrow> Some (''cannot compare minimum bounds: '' @ m)
         | (_, Inl m) \<Rightarrow> Some (''cannot compare maximum bounds: '' @ m)
         | (Inr lo, Inr hi) \<Rightarrow> range_verdict amount lo hi)"

definition amountRangeCheck :: "'o net \<Rightarrow> 'o info_source \<Rightarrow> nat \<Rightarrow> gate_ctx \<Rightarrow> ('o, check_result) cio" where
  "amountRangeCheck net source run ctx =
     bnd (call (nt_now net)) (\<lambda>start.
       let c = g_corridor ctx;
           amount = m_amount (sr_amount (buildSettlementRequest (g_opened ctx) (g_quote ctx) c));
           fin = finish_check net ''sep31.amount.range'' start
       in bnd (source run) (\<lambda>r.
          case r of
            Inl e \<Rightarrow> fin False (Some PRESETTLE_ANCHOR_DRIFT)
              (''failed to fetch /info for amount check: '' @ e_message e)
          | Inr receive \<Rightarrow>
              (case amount_problem c (map_of receive (bridge_asset (c_settlement c))) amount of
                 Some why \<Rightarrow> fin False (Some PRESETTLE_AMOUNT_OUT_OF_RANGE) why
               | None \<Rightarrow> fin True None (''amount '' @ amount @ '' is within range''))))"

text \<open>
  \<open>sep31GateChecks\<close>: the two checks of one gate run. Both await the one request of the shared
  source.
\<close>

definition sep31GateChecks :: "'o sep31 \<Rightarrow> gate_ctx \<Rightarrow> ('o, check_result list) cio" where
  "sep31GateChecks a ctx =
     bnd (sharedInfoSource (getInfo a) 0 []) (\<lambda>(r, cache).
     bnd (sep31InfoCheck (s31_net a) (\<lambda>_. ret r) 0 ctx) (\<lambda>c1.
     bnd (amountRangeCheck (s31_net a) (\<lambda>_. ret r) 0 ctx) (\<lambda>c2. ret [c1, c2])))"

lemma shared_once:
  "sharedInfoSource m run cache w = (Some (r, cache'), w') \<Longrightarrow>
   sharedInfoSource m' run cache' w'' = (Some (r, cache'), w'')"
  by (auto simp: sharedInfoSource_def bnd_def ret_def split: option.splits prod.splits)

subsection \<open>The receiver\<close>

definition kyc_text :: "kyc_status \<Rightarrow> string" where
  "kyc_text s = (case s of KycAccepted \<Rightarrow> ''accepted'' | KycPending \<Rightarrow> ''pending'' | KycRejected \<Rightarrow> ''rejected'')"

text \<open>
  \<open>ensureCompliance\<close> of the adapter given may throw: \<open>Inl\<close> the message. Whether the endpoints name
  a KYC server decides what the audit trail says.
\<close>

definition receiverKycCheck ::
  "'o net \<Rightarrow> (payment_intent \<Rightarrow> corridor \<Rightarrow> ('o, string + kyc_result outcome) cio) \<Rightarrow> gate_ctx \<Rightarrow> ('o, check_result) cio" where
  "receiverKycCheck net ensure ctx =
     bnd (call (nt_now net)) (\<lambda>start.
       let fin = finish_check net ''sep12.receiver'' start;
           refuse = fin False (Some PRESETTLE_RECEIVER_NOT_ACCEPTED)
       in bnd (ensure (g_intent ctx) (g_corridor ctx)) (\<lambda>r.
          case r of
            Inl msg \<Rightarrow> refuse msg
          | Inr (Inl e) \<Rightarrow> refuse (e_message e)
          | Inr (Inr k) \<Rightarrow>
              if k_status k = KycAccepted then
                fin True None (if truthy (kyc_server (d_endpoints (c_dest (g_corridor ctx))))
                  then ''receiver SEP-12 status is accepted'' else ''no SEP-12 server'')
              else refuse (''receiver SEP-12 status is '' @ kyc_text (k_status k))))"

subsection \<open>The opened transaction\<close>

text \<open>
  What the check reads off the anchor's record. \<open>rf_amount\<close> and \<open>rf_asset\<close> are not fields of a
  \<open>TransactionStatus\<close>.
\<close>

record reported_status = transaction_status +
  rf_amount :: "string option"
  rf_asset :: "string option"

definition as_reported :: "transaction_status \<Rightarrow> reported_status" where
  "as_reported v = transaction_status.extend v \<lparr>rf_amount = None, rf_asset = None\<rparr>"

definition memo_name :: "memo_type \<Rightarrow> string" where
  "memo_name m = (case m of MemoText \<Rightarrow> ''text'' | MemoHash \<Rightarrow> ''hash'' | MemoId \<Rightarrow> ''id'')"

definition ellipsis :: string where
  "ellipsis = [CHR 0xE2, CHR 0x80, CHR 0xA6]"

definition memoForLog :: "string option \<Rightarrow> string \<Rightarrow> string" where
  "memoForLog memo memoType =
     (case memo of None \<Rightarrow> ''(none)'' | Some m \<Rightarrow> memoType @ '':'' @ take 6 m @ ellipsis)"

text \<open>One field: absent, matching, or the text of the mismatch.\<close>

datatype field_verdict = Unverified | Matches | Mismatch string

definition compare_field :: "'a option \<Rightarrow> ('a \<Rightarrow> string option) \<Rightarrow> field_verdict" where
  "compare_field v problem =
     (case v of None \<Rightarrow> Unverified
      | Some x \<Rightarrow> (case problem x of None \<Rightarrow> Matches | Some why \<Rightarrow> Mismatch why))"

definition amount_mismatch :: "string \<Rightarrow> string \<Rightarrow> string option" where
  "amount_mismatch expected reported =
     (case compareAmounts expected reported STROOP_SCALE of
        Inl _ \<Rightarrow> Some (''amount: anchor reported unparseable '' @ quoted_text reported)
      | Inr c \<Rightarrow> if c \<noteq> 0 then Some (''amount: we will send '' @ expected @ '', anchor expects '' @ reported)
                 else None)"

definition opened_fields :: "settlement_request \<Rightarrow> reported_status \<Rightarrow> (string \<times> field_verdict) list" where
  "opened_fields expected s =
     (let mt = (case sr_memoType expected of Some m \<Rightarrow> m | None \<Rightarrow> MemoText) in
      [(''amount'', compare_field (rf_amount s) (amount_mismatch (m_amount (sr_amount expected)))),
       (''asset'', compare_field (rf_asset s) (\<lambda>a.
          if to_upper a \<noteq> to_upper (m_asset (sr_amount expected)) then
            Some (''asset: we will send '' @ m_asset (sr_amount expected) @ '', anchor expects '' @ a)
          else None)),
       (''depositAddress'', compare_field (ts_depositAddress s) (\<lambda>a.
          if a \<noteq> sr_to expected then Some ''depositAddress: anchor reports a different deposit account''
          else None)),
       (''memo'', compare_field (ts_memo s) (\<lambda>m.
          if Some m \<noteq> sr_memo expected then
            Some (''memo: we will send '' @ memoForLog (sr_memo expected) (memo_name mt) @ '', anchor expects '' @
              memoForLog (Some m) (case ts_memoType s of Some t \<Rightarrow> memo_name t | None \<Rightarrow> ''text''))
          else None)),
       (''memoType'', compare_field (ts_memoType s) (\<lambda>t.
          if t \<noteq> mt then
            Some (''memoType: we will send '' @ memo_name mt @ '', anchor expects '' @ memo_name t)
          else None))])"

definition mismatches :: "(string \<times> field_verdict) list \<Rightarrow> string list" where
  "mismatches fs = List.map_filter (\<lambda>(_, v). case v of Mismatch why \<Rightarrow> Some why | _ \<Rightarrow> None) fs"

definition unverified :: "(string \<times> field_verdict) list \<Rightarrow> string list" where
  "unverified fs = map fst (filter (\<lambda>(_, v). v = Unverified) fs)"

definition opened_verdict :: "bool \<Rightarrow> (string \<times> field_verdict) list \<Rightarrow> bool \<times> string" where
  "opened_verdict strict fs =
     (if mismatches fs \<noteq> [] then (False, join ''; '' (mismatches fs))
      else if strict \<and> unverified fs \<noteq> [] then
        (False, ''strict: anchor did not report '' @ join '', '' (unverified fs))
      else if unverified fs \<noteq> [] then
        (True, ''pending_sender; matches on every reported field (unverified: '' @ join '', '' (unverified fs) @ '')'')
      else (True, ''pending_sender; matches on every field''))"

definition openedTxCheck ::
  "'o net \<Rightarrow> (string \<Rightarrow> ('o, reported_status outcome) cio) \<Rightarrow> bool \<Rightarrow> gate_ctx \<Rightarrow> ('o, check_result) cio" where
  "openedTxCheck net get strict ctx =
     bnd (call (nt_now net)) (\<lambda>start.
       let fin = finish_check net ''anchor.tx.match'' start;
           mismatch = fin False (Some PRESETTLE_TX_MISMATCH)
       in bnd (get (o_transactionId (g_opened ctx))) (\<lambda>fetched.
          case fetched of
            Inl e \<Rightarrow> fin False (Some SETTLEMENT_FAILED) (''failed to re-read transaction '' @
              o_transactionId (g_opened ctx) @ '': '' @ e_message e)
          | Inr s \<Rightarrow>
              if ts_status s \<noteq> ''pending_sender'' then
                mismatch (''status: expected pending_sender, anchor reports '' @ ts_status s)
              else
                (case opened_verdict strict
                    (opened_fields (buildSettlementRequest (g_opened ctx) (g_quote ctx) (g_corridor ctx)) s) of
                   (passed, detail) \<Rightarrow>
                     fin passed (if passed then None else Some PRESETTLE_TX_MISMATCH) detail)))"

subsection \<open>What the checks guarantee\<close>

lemma yields_result: "yields m (\<lambda>r. \<exists>w1 w2. m w1 = (Some r, w2))"
  by (auto simp: yields_def wp_def split: prod.splits option.splits)

lemma yields_mono: "yields m R \<Longrightarrow> (\<And>x. R x \<Longrightarrow> S x) \<Longrightarrow> yields m S"
  by (auto simp: yields_def intro: wp_mono)

lemma finish_passed: "yields (finish_check net nm t p c d) (\<lambda>r. cr_passed r = p)"
  by (simp add: finish_check_def check_done_def yields_rules)

lemma yields_finish: "(p \<Longrightarrow> S) \<Longrightarrow> yields (finish_check net nm t p c d) (\<lambda>r. cr_passed r \<longrightarrow> S)"
  by (rule yields_mono [OF finish_passed]) simp

lemma compare_field_ok:
  "(\<forall>why. compare_field v p \<noteq> Mismatch why) \<longleftrightarrow> (\<forall>x. v = Some x \<longrightarrow> p x = None)"
  "compare_field v p = Unverified \<longleftrightarrow> v = None"
  by (auto simp: compare_field_def split: option.splits)

lemma mismatches_Nil: "mismatches fs = [] \<longleftrightarrow> (\<forall>(n, v) \<in> set fs. \<forall>why. v \<noteq> Mismatch why)"
  by (induction fs) (auto simp: mismatches_def map_filter_simps split: field_verdict.splits option.splits)

lemma unverified_Nil: "unverified fs = [] \<longleftrightarrow> (\<forall>(n, v) \<in> set fs. v \<noteq> Unverified)"
  by (auto simp: unverified_def filter_empty_conv)

text \<open>The anchor's record agrees with a payment, on every field it reports.\<close>

definition agrees :: "settlement_request \<Rightarrow> reported_status \<Rightarrow> bool" where
  "agrees req s \<longleftrightarrow>
     (\<forall>a. rf_amount s = Some a \<longrightarrow> compareAmounts (m_amount (sr_amount req)) a STROOP_SCALE = Inr 0) \<and>
     (\<forall>a. rf_asset s = Some a \<longrightarrow> to_upper a = to_upper (m_asset (sr_amount req))) \<and>
     (\<forall>a. ts_depositAddress s = Some a \<longrightarrow> a = sr_to req) \<and>
     (\<forall>m. ts_memo s = Some m \<longrightarrow> sr_memo req = Some m) \<and>
     (\<forall>t. ts_memoType s = Some t \<longrightarrow> t = (case sr_memoType req of Some m \<Rightarrow> m | None \<Rightarrow> MemoText))"

definition reports_all :: "reported_status \<Rightarrow> bool" where
  "reports_all s \<longleftrightarrow> rf_amount s \<noteq> None \<and> rf_asset s \<noteq> None \<and> ts_depositAddress s \<noteq> None \<and>
     ts_memo s \<noteq> None \<and> ts_memoType s \<noteq> None"

lemma amount_mismatch_None: "amount_mismatch e r = None \<longleftrightarrow> compareAmounts e r STROOP_SCALE = Inr 0"
  by (simp add: amount_mismatch_def split: sum.splits)

lemma opened_fields_agree: "mismatches (opened_fields req s) = [] \<longleftrightarrow> agrees req s"
  unfolding mismatches_Nil opened_fields_def agrees_def Let_def
  by (auto simp: compare_field_ok amount_mismatch_None split: if_splits) metis

lemma opened_fields_complete: "unverified (opened_fields req s) = [] \<longleftrightarrow> reports_all s"
  unfolding unverified_Nil opened_fields_def reports_all_def Let_def
  by (simp add: compare_field_ok)

definition tx_matches :: "gate_ctx \<Rightarrow> bool \<Rightarrow> reported_status \<Rightarrow> bool" where
  "tx_matches ctx strict s \<longleftrightarrow> ts_status s = ''pending_sender'' \<and>
     agrees (buildSettlementRequest (g_opened ctx) (g_quote ctx) (g_corridor ctx)) s \<and>
     (strict \<longrightarrow> reports_all s)"

lemma opened_verdict_ok:
  "opened_verdict strict (opened_fields req s) = (True, d) \<Longrightarrow> agrees req s \<and> (strict \<longrightarrow> reports_all s)"
  by (simp add: opened_verdict_def opened_fields_agree opened_fields_complete split: if_splits)

lemma openedTx_yields:
  "yields (openedTxCheck net get strict ctx) (\<lambda>r. cr_passed r \<longrightarrow>
     (\<exists>s w1 w2. get (o_transactionId (g_opened ctx)) w1 = (Some (Inr s), w2) \<and> tx_matches ctx strict s))"
  unfolding openedTxCheck_def Let_def
  by (rule yields_after, rule yields_bnd [OF yields_result])
    (auto intro!: yields_finish yields_if dest!: opened_verdict_ok simp: tx_matches_def split: sum.splits prod.splits)

lemma as_reported_fields: "rf_amount (as_reported v) = None" "rf_asset (as_reported v) = None"
  by (simp_all add: as_reported_def transaction_status.defs)

lemma reported_answer:
  "bnd m (\<lambda>r. ret (map_sum id as_reported r)) w = (Some (Inr s), w') \<Longrightarrow> \<exists>v. s = as_reported v"
  by (auto simp: bnd_def ret_def map_sum_def split: prod.splits option.splits sum.splits)

subsection \<open>Amounts in range\<close>

definition at_least :: "string \<Rightarrow> string option \<Rightarrow> bool" where
  "at_least amount b \<longleftrightarrow> (truthy b \<longrightarrow>
     (\<exists>x y. toScaled amount STROOP_SCALE = Inr x \<and> toScaled (the b) STROOP_SCALE = Inr y \<and> y \<le> x))"

definition at_most :: "string \<Rightarrow> string option \<Rightarrow> bool" where
  "at_most amount b \<longleftrightarrow> (truthy b \<longrightarrow>
     (\<exists>x y. toScaled amount STROOP_SCALE = Inr x \<and> toScaled (the b) STROOP_SCALE = Inr y \<and> x \<le> y))"

lemma range_verdict_None: "range_verdict amount mn mx = None \<longleftrightarrow> at_least amount mn \<and> at_most amount mx"
  by (auto simp: range_verdict_def at_least_def at_most_def Let_def compareAmounts_def split: sum.splits)

lemma pick_max: "pick a b WantMax = Inr v \<Longrightarrow> at_least amount v \<Longrightarrow> at_least amount a \<and> at_least amount b"
  by (auto simp: pick_def at_least_def compareAmounts_def split: if_splits sum.splits)

lemma pick_min: "pick a b WantMin = Inr v \<Longrightarrow> at_most amount v \<Longrightarrow> at_most amount a \<and> at_most amount b"
  by (auto simp: pick_def at_most_def compareAmounts_def split: if_splits sum.splits)

definition in_range :: "corridor \<Rightarrow> sep31_asset_info option \<Rightarrow> string \<Rightarrow> bool" where
  "in_range c ai amount \<longleftrightarrow>
     at_least amount (fst (amount_limits c)) \<and> at_least amount (Option.bind ai ai_minAmount) \<and>
     at_most amount (snd (amount_limits c)) \<and> at_most amount (Option.bind ai ai_maxAmount)"

lemma amount_problem_None: "amount_problem c ai amount = None \<Longrightarrow> in_range c ai amount"
  by (auto simp: amount_problem_def in_range_def Let_def range_verdict_None
      dest: pick_max pick_min split: sum.splits)

lemma amountRange_yields:
  "yields (amountRangeCheck net source run ctx) (\<lambda>r. cr_passed r \<longrightarrow>
     (\<exists>receive w1 w2. source run w1 = (Some (Inr receive), w2) \<and>
        in_range (g_corridor ctx) (map_of receive (bridge_asset (c_settlement (g_corridor ctx))))
          (m_amount (q_sourceAmount (g_quote ctx)))))"
  unfolding amountRangeCheck_def Let_def buildSettlementRequest_def
  by (rule yields_after, rule yields_bnd [OF yields_result])
    (auto intro!: yields_finish dest: amount_problem_None split: sum.splits option.splits)

subsection \<open>Properties\<close>

text \<open>
  C1: a passed \<open>openedTxCheck\<close> has read a record that the anchor still waits on
  (\<open>pending_sender\<close>) and that agrees with the payment about to be sent on every field it reports;
  in strict mode it reports all of them.
\<close>

theorem opened_tx_passes:
  assumes "openedTxCheck net get strict ctx w = (Some r, w')" and "cr_passed r"
  shows "\<exists>s w1 w2. get (o_transactionId (g_opened ctx)) w1 = (Some (Inr s), w2) \<and>
     ts_status s = ''pending_sender'' \<and>
     agrees (buildSettlementRequest (g_opened ctx) (g_quote ctx) (g_corridor ctx)) s \<and>
     (strict \<longrightarrow> reports_all s)"
  using yieldsD [OF openedTx_yields assms(1)] assms(2) by (simp add: tx_matches_def)

text \<open>
  On the statuses adapters deliver, the check never compares the amount or the asset: they
  carry neither field, so strict mode, which refuses an unreported field, never passes.
\<close>

theorem strict_never_passes:
  assumes "openedTxCheck net (\<lambda>t. bnd (get t) (\<lambda>r. ret (map_sum id as_reported r))) True ctx w = (Some r, w')"
  shows "\<not> cr_passed r"
proof
  assume "cr_passed r"
  then obtain s w1 w2 where g: "bnd (get (o_transactionId (g_opened ctx))) (\<lambda>r. ret (map_sum id as_reported r)) w1
      = (Some (Inr s), w2)" and s: "reports_all s"
    using yieldsD [OF openedTx_yields assms] unfolding tx_matches_def by blast
  from reported_answer [OF g] s show False by (auto simp: reports_all_def as_reported_fields)
qed

text \<open>
  C1: a passed \<open>amountRangeCheck\<close> has read the anchor's /info, and the amount about to be sent lies
  within the manifest's limits and the anchor's, wherever they are given.
\<close>

theorem amount_range_passes:
  assumes "amountRangeCheck net source run ctx w = (Some r, w')" and "cr_passed r"
  shows "\<exists>receive w1 w2. source run w1 = (Some (Inr receive), w2) \<and>
     in_range (g_corridor ctx) (map_of receive (bridge_asset (c_settlement (g_corridor ctx))))
       (m_amount (q_sourceAmount (g_quote ctx)))"
  using yieldsD [OF amountRange_yields assms(1)] assms(2) by simp

definition demo_ctx :: gate_ctx where
  "demo_ctx =
     \<lparr>g_intent = demo_intent, g_corridor = demo_corridor,
      g_quote = \<lparr>q_id = ''q'', q_price = ''1'', q_expiresAt = NaN, q_sourceAmount = \<lparr>m_asset = ''USDC'', m_amount = ''5''\<rparr>,
        q_destAmount = \<lparr>m_asset = ''BRL'', m_amount = ''5''\<rparr>, q_fee = None, q_firm = True\<rparr>,
      g_opened = \<lparr>o_transactionId = ''t'', o_instructions = None, o_amountIn = None, o_depositAddress = Some ''GA'',
        o_memo = Some ''m'', o_memoType = None\<rparr>,
      g_now = 0, g_attempt = 0\<rparr>"

definition demo_pending :: reported_status where
  "demo_pending = as_reported
     \<lparr>ts_status = ''pending_sender'', ts_phase = None, ts_settled = False, ts_terminalFailure = False,
      ts_awaitingInput = False, ts_refunds = None, ts_amountIn = Some \<lparr>m_asset = ''USDC'', m_amount = ''999''\<rparr>,
      ts_depositAddress = Some ''GA'', ts_memo = Some ''m'', ts_memoType = Some MemoText\<rparr>"

definition demo_get :: "string \<Rightarrow> (int, reported_status outcome) cio" where
  "demo_get = (\<lambda>_. ret (Inr demo_pending))"

definition demo_down :: "string \<Rightarrow> (int, transaction_status outcome) cio" where
  "demo_down = (\<lambda>_. ret (Inl \<lparr>e_code = ANCHOR_UNAVAILABLE, e_message = ''m'', e_retryable = True, e_cause = NoCause\<rparr>))"

text \<open>The anchor expects 999, the payment is of 5, and the check passes.\<close>

lemma demo_opened_passes:
  "fst (openedTxCheck (demo_net None) demo_get False demo_ctx demo_client)
     = Some (check_done ''anchor.tx.match'' True None
         ''pending_sender; matches on every reported field (unverified: amount, asset)'' 0)"
  by (simp add: openedTxCheck_def finish_check_def client_defs demo_net_def demo_client_def demo_get_def demo_pending_def
      demo_ctx_def as_reported_def transaction_status.defs opened_verdict_def opened_fields_def
      compare_field_def mismatches_def unverified_def buildSettlementRequest_def toLegacy_def map_filter_simps)

theorem opened_tx_passes_witness:
  "\<exists>s w1 w2. demo_get (o_transactionId (g_opened demo_ctx)) w1 = (Some (Inr s), w2) \<and>
     ts_status s = ''pending_sender'' \<and>
     agrees (buildSettlementRequest (g_opened demo_ctx) (g_quote demo_ctx) (g_corridor demo_ctx)) s \<and>
     (False \<longrightarrow> reports_all s)"
proof -
  obtain r w' where "openedTxCheck (demo_net None) demo_get False demo_ctx demo_client
      = (Some r, w')" "cr_passed r"
    using demo_opened_passes
    by (cases "openedTxCheck (demo_net None) demo_get False demo_ctx demo_client")
      (auto simp: check_done_def)
  then show ?thesis by (rule opened_tx_passes)
qed

lemma demo_strict_refuses:
  "\<exists>r w'. openedTxCheck (demo_net None) (\<lambda>t. bnd (demo_down t) (\<lambda>r. ret (map_sum id as_reported r))) True demo_ctx demo_client = (Some r, w')"
  by (simp add: openedTxCheck_def finish_check_def client_defs demo_net_def demo_down_def)

theorem strict_never_passes_witness:
  "\<exists>r w'. openedTxCheck (demo_net None) (\<lambda>t. bnd (demo_down t) (\<lambda>r. ret (map_sum id as_reported r))) True demo_ctx demo_client = (Some r, w')
     \<and> \<not> cr_passed r"
  using demo_strict_refuses strict_never_passes by blast

definition demo_receive :: sep31_info where
  "demo_receive = [(''USDC'', \<lparr>ai_enabled = Some True, ai_minAmount = Some ''1'', ai_maxAmount = Some ''10'',
     ai_feeFixed = None, ai_feePercent = None, ai_senderSep12Type = None, ai_receiverSep12Type = None,
     ai_fields = None\<rparr>)]"

lemma demo_amounts_compare:
  "compareAmounts ''5'' ''1'' STROOP_SCALE = Inr 1" "compareAmounts ''5'' ''10'' STROOP_SCALE = Inr (-1)"
  by code_simp+

definition demo_source :: "int info_source" where
  "demo_source = (\<lambda>_. ret (Inr demo_receive))"

lemma demo_range_passes:
  "fst (amountRangeCheck (demo_net None) demo_source 0 demo_ctx demo_client)
     = Some (check_done ''sep31.amount.range'' True None ''amount 5 is within range'' 0)"
  by (simp add: amountRangeCheck_def finish_check_def client_defs demo_net_def demo_client_def demo_ctx_def
      demo_source_def demo_receive_def buildSettlementRequest_def toLegacy_def demo_corridor_def amount_problem_def
      amount_limits_def pick_def range_verdict_def demo_amounts_compare)

theorem amount_range_passes_witness:
  "\<exists>receive w1 w2. demo_source 0 w1 = (Some (Inr receive), w2) \<and>
     in_range (g_corridor demo_ctx) (map_of receive (bridge_asset (c_settlement (g_corridor demo_ctx))))
       (m_amount (q_sourceAmount (g_quote demo_ctx)))"
proof -
  obtain r w' where "amountRangeCheck (demo_net None) demo_source 0 demo_ctx demo_client
      = (Some r, w')" "cr_passed r"
    using demo_range_passes
    by (cases "amountRangeCheck (demo_net None) demo_source 0 demo_ctx demo_client")
      (auto simp: check_done_def)
  then show ?thesis by (rule amount_range_passes)
qed

end
