(* ===== verification/Sep6.thy ===== *)
theory Sep6
  imports Sep31Checks
begin

section \<open>The SEP-6 adapter (packages/sep6/src/index.ts)\<close>

text \<open>
  \<open>Sep6Adapter\<close> over the same client: the reading of the anchor's /info, firm quotes, opening a
  withdrawal and the single follow-up read for its deposit instructions, the KYC refusals, and
  polling. Numbers in /info are integers in the model; \<open>infoAmount\<close> drops those that JavaScript
  would print in exponent form. A response body is a stream read once: after \<open>jsonBody\<close> there is
  no text left, so \<open>rawText\<close> gives the empty string there.
\<close>

subsection \<open>Statuses\<close>

definition TERMINAL_FAILURE_STATUSES6 :: "string list" where
  "TERMINAL_FAILURE_STATUSES6 =
     [''error'', ''expired'', ''refunded'', ''no_market'', ''too_small'', ''too_large'']"

definition AWAITING_INPUT_STATUSES6 :: "string list" where
  "AWAITING_INPUT_STATUSES6 =
     [''incomplete'', ''pending_user'', ''pending_user_transfer_start'', ''pending_customer_info_update'',
      ''pending_transaction_info_update'']"

definition IN_FLIGHT_STATUSES6 :: "string list" where
  "IN_FLIGHT_STATUSES6 =
     [''pending_external'', ''pending_anchor'', ''pending_stellar'', ''pending_trust'',
      ''pending_user_transfer_complete'', ''on_hold'']"

definition KYC_BLOCKED_STATUSES :: "string list" where
  "KYC_BLOCKED_STATUSES = [''incomplete'', ''pending_customer_info_update'']"

definition mapSep6Status :: "string \<Rightarrow> mapped_status" where
  "mapSep6Status raw =
     (let status = to_lower raw in
      if status = ''completed'' then mapped status None True False False
      else if status \<in> set TERMINAL_FAILURE_STATUSES6 then mapped status None False True False
      else if status \<in> set AWAITING_INPUT_STATUSES6 then mapped status None False False True
      else if status \<in> set IN_FLIGHT_STATUSES6 then
        mapped status (if status = ''pending_external'' then Some PhaseExternal else None) False False False
      else mapped status None False False False)"

interpretation m6: status_map mapSep6Status TERMINAL_FAILURE_STATUSES6 AWAITING_INPUT_STATUSES6
  by unfold_locales
    (auto simp: mapSep6Status_def mapped_def Let_def TERMINAL_FAILURE_STATUSES6_def AWAITING_INPUT_STATUSES6_def)

subsection \<open>Reading /info\<close>

definition clip :: "string \<Rightarrow> string" where
  "clip s = (if length s \<le> 300 then s else take 300 s @ ellipsis)"

definition infoAssetCode :: "string \<Rightarrow> string" where
  "infoAssetCode asset =
     (case split_on (CHR '':'') asset of
        p # code # _ \<Rightarrow> if p = ''iso4217'' \<or> p = ''stellar'' then code else asset
      | _ \<Rightarrow> asset)"

definition infoAmount :: "json option \<Rightarrow> string option" where
  "infoAmount v =
     (case v of
        Some (JInt i) \<Rightarrow>
          if i < 0 \<or> 10 ^ 21 \<le> i then None
          else if isValidAmount (show_int i) then Some (show_int i) else None
      | Some (JStr s) \<Rightarrow> if isValidAmount (js_trim s) then Some (js_trim s) else None
      | _ \<Rightarrow> None)"

record sep6_field =
  sf_description :: "string option"
  sf_choices :: "string list option"
  sf_optional :: "bool option"

record sep6_asset_info =
  s6_enabled :: "bool option"
  s6_authenticationRequired :: "bool option"
  s6_minAmount :: "string option"
  s6_maxAmount :: "string option"
  s6_feeFixed :: "string option"
  s6_feePercent :: "string option"
  s6_types :: "(string \<times> (string \<times> sep6_field) list) list"

type_synonym sep6_section = "(string \<times> sep6_asset_info) list"

record sep6_info =
  s6_withdraw :: sep6_section
  s6_withdrawExchange :: sep6_section

text \<open>The entries of a plain object whose values are plain objects themselves.\<close>

definition object_entries :: "json option \<Rightarrow> (string \<times> json) list" where
  "object_entries v =
     (case v of
        Some (JObj o') \<Rightarrow> filter (\<lambda>(k, x). case x of JObj _ \<Rightarrow> True | _ \<Rightarrow> False) o'
      | _ \<Rightarrow> [])"

definition strings_of :: "json list \<Rightarrow> string list" where
  "strings_of xs = List.map_filter (\<lambda>x. str_of (Some x)) xs"

definition parse_field :: "json \<Rightarrow> sep6_field" where
  "parse_field f =
     \<lparr>sf_description = str_of (prop_opt (Some f) ''description''),
      sf_choices = (case prop_opt (Some f) ''choices'' of Some (JArr cs) \<Rightarrow> Some (strings_of cs) | _ \<Rightarrow> None),
      sf_optional = bool_of (prop_opt (Some f) ''optional'')\<rparr>"

definition parseFields :: "json option \<Rightarrow> (string \<times> sep6_field) list" where
  "parseFields raw = map (\<lambda>(k, v). (k, parse_field v)) (object_entries raw)"

definition parseTypes :: "json option \<Rightarrow> (string \<times> (string \<times> sep6_field) list) list" where
  "parseTypes raw = map (\<lambda>(k, v). (k, parseFields (prop_opt (Some v) ''fields''))) (object_entries raw)"

definition parseAssetInfo :: "json \<Rightarrow> sep6_asset_info" where
  "parseAssetInfo raw =
     (let a = prop_opt (Some raw) in
      \<lparr>s6_enabled = bool_of (a ''enabled''),
       s6_authenticationRequired = bool_of (a ''authentication_required''),
       s6_minAmount = infoAmount (a ''min_amount''), s6_maxAmount = infoAmount (a ''max_amount''),
       s6_feeFixed = infoAmount (a ''fee_fixed''), s6_feePercent = infoAmount (a ''fee_percent''),
       s6_types = parseTypes (a ''types'')\<rparr>)"

definition parseSection :: "json option \<Rightarrow> sep6_section" where
  "parseSection raw = map (\<lambda>(k, v). (k, parseAssetInfo v)) (object_entries raw)"

definition parseSep6Info :: "json \<Rightarrow> sep6_info" where
  "parseSep6Info raw =
     \<lparr>s6_withdraw = parseSection (prop_opt (Some raw) ''withdraw''),
      s6_withdrawExchange = parseSection (prop_opt (Some raw) ''withdraw-exchange'')\<rparr>"

subsection \<open>The adapter object\<close>

record 'o sep6 =
  s6_name :: string
  s6_anchor :: dest_t
  s6_settlementAsset :: string
  s6_transferServer :: string
  s6_destAssetCode :: string
  s6_net :: "'o net"
  s6_auth :: "'o sep10_client"
  s6_sep12 :: "sep12_check option"

definition new_sep6 :: "'o net \<Rightarrow> 'o sep10_signer option \<Rightarrow> corridor \<Rightarrow> string + 'o sep6" where
  "new_sep6 net signer c =
     (if d_protocol (c_dest c) \<noteq> Sep6 then
        Inl (''Sep6Adapter cannot handle protocol '' @ quoted_text (protocol_name (d_protocol (c_dest c))) @
          ''; use an adapter for that protocol'')
      else if \<not> truthy (transfer_server (d_endpoints (c_dest c))) then
        Inl (''Sep6Adapter: corridor '' @ c_id c @ '' has no dest transfer_server'')
      else
        Inr \<lparr>s6_name = d_name (c_dest c), s6_anchor = c_dest c,
             s6_settlementAsset = bridge_asset (c_settlement c),
             s6_transferServer = the (transfer_server (d_endpoints (c_dest c))),
             s6_destAssetCode = infoAssetCode (d_asset (c_dest c)), s6_net = net,
             s6_auth = auth_of (c_dest c) signer, s6_sep12 = sep12_of (c_dest c)\<rparr>)"

definition authToken6 :: "'o sep6 \<Rightarrow> ('o, string option outcome) cio" where
  "authToken6 a = login (s6_net a) (s6_auth a) (s6_name a @ '': '')"

definition jsonBody :: "response \<Rightarrow> json option" where
  "jsonBody r =
     (if text_of r = [] then None
      else (case rs_json r of Some (JObj o') \<Rightarrow> Some (JObj o') | _ \<Rightarrow> None))"

definition info6 :: "'o sep6 \<Rightarrow> bool \<Rightarrow> ('o, sep6_info outcome) cio" where
  "info6 a force =
     bnd (gets_io cl_info) (\<lambda>cached.
       let read = catch_io
             (bnd (fetch_io (s6_net a) (get_request (s6_transferServer a @ ''/info'') [] [])) (\<lambda>r.
                if \<not> res_ok r then
                  ret (fail_full ANCHOR_UNAVAILABLE (s6_name a @ '': get-info HTTP '' @ show_int (rs_status r))
                    (rs_status r \<ge> 500) NoCause)
                else
                  bnd (json_io r) (\<lambda>j.
                  bnd (modify_io (\<lambda>w. w\<lparr>cl_info := Some j\<rparr>)) (\<lambda>_. ret (Inr (parseSep6Info j))))))
             (ret (fail_full ANCHOR_UNAVAILABLE (s6_name a @ '': get-info request failed'') True CauseOther))
       in case cached of
            Some j \<Rightarrow> if force then read else ret (Inr (parseSep6Info j))
          | None \<Rightarrow> read)"

definition withdrawExchangeEntry :: "'o sep6 \<Rightarrow> json option \<Rightarrow> sep6_asset_info option" where
  "withdrawExchangeEntry a cached =
     (case cached of
        None \<Rightarrow> None
      | Some j \<Rightarrow> map_of (s6_withdrawExchange (parseSep6Info j)) (s6_destAssetCode a))"

definition capabilities6 :: "'o sep6 \<Rightarrow> json option \<Rightarrow> capabilities" where
  "capabilities6 a cached =
     (let e = d_endpoints (s6_anchor a);
          settleable = (cached = None \<or>
            (case withdrawExchangeEntry a cached of None \<Rightarrow> False | Some i \<Rightarrow> s6_enabled i \<noteq> Some False))
      in \<lparr>cap_quotes = (if truthy (quote_server e) then [CapSep38Firm] else [CapNoQuotes]),
          cap_kyc = (if truthy (kyc_server e) then M_sep12 else M_sep6_fields),
          cap_settlement = (if settleable then [StellarPayment] else [])\<rparr>)"

subsection \<open>Firm quotes\<close>

text \<open>\<open>String(v)\<close> of a JSON value.\<close>

fun js_text :: "json \<Rightarrow> string" where
  "js_text JNull = ''null''"
| "js_text (JBool b) = (if b then ''true'' else ''false'')"
| "js_text (JInt i) = show_int i"
| "js_text (JStr s) = s"
| "js_text (JArr xs) = join '','' (map (\<lambda>x. case x of JNull \<Rightarrow> '''' | _ \<Rightarrow> js_text x) xs)"
| "js_text (JObj _) = ''[object Object]''"

definition text_of_value :: "json option \<Rightarrow> string" where
  "text_of_value v = (case v of None \<Rightarrow> ''undefined'' | Some j \<Rightarrow> js_text j)"

definition quote6_problem :: "string \<Rightarrow> payment_intent \<Rightarrow> corridor \<Rightarrow> json option \<Rightarrow> (string \<times> string \<times> string) option
    \<Rightarrow> string option" where
  "quote6_problem name intent c j q =
     (case q of
        None \<Rightarrow> Some (name @ '': SEP-38 quote response is unreadable (need id, price, '' @
          ''buy_amount, expires_at as decimal strings)'')
      | Some (i, sellAmount, buyAmount) \<Rightarrow>
          (case totalPriceProblem i (amountString (prop_opt j ''total_price'')) buyAmount sellAmount of
             Some why \<Rightarrow> Some (name @ '': '' @ why)
           | None \<Rightarrow>
               let fee = prop_opt j ''fee'' in
               if truthy_json fee \<and> prop_opt fee ''asset'' \<noteq> Some (JStr (sep38SellAsset c)) then
                 Some (name @ '': quote fee asset '' @ quoted_text (text_of_value (prop_opt fee ''asset'')) @
                   '' does not match sell asset '' @ quoted_text (sep38SellAsset c))
               else None))"

text \<open>What \<open>requestQuote\<close> makes of the body of a successful answer.\<close>

definition read_quote6 :: "(string \<Rightarrow> ms) \<Rightarrow> string \<Rightarrow> payment_intent \<Rightarrow> corridor \<Rightarrow> json option \<Rightarrow> quote_t outcome" where
  "read_quote6 parse_date name intent c j =
     (let expiresAt = (case str_of (prop_opt j ''expires_at'') of Some s \<Rightarrow> parse_date s | None \<Rightarrow> NaN);
          sellAmount = (case amountString (prop_opt j ''sell_amount'') of
                          Some s \<Rightarrow> s | None \<Rightarrow> m_amount (sourceAmount intent));
          ids = (case (nonEmptyString (prop_opt j ''id''), amountString (prop_opt j ''price''),
                       amountString (prop_opt j ''buy_amount'')) of
                   (Some i, Some p, Some b) \<Rightarrow> if expiresAt = NaN then None else Some (i, p, b)
                 | _ \<Rightarrow> None)
      in case quote6_problem name intent c j (map_option (\<lambda>(i, p, b). (i, sellAmount, b)) ids) of
           Some why \<Rightarrow> fail QUOTE_UNAVAILABLE why
         | None \<Rightarrow>
             (case ids of
                None \<Rightarrow> fail QUOTE_UNAVAILABLE name
              | Some (i, p, b) \<Rightarrow>
                  Inr \<lparr>q_id = i, q_price = p, q_expiresAt = expiresAt,
                       q_sourceAmount = \<lparr>m_asset = m_asset (sourceAmount intent), m_amount = sellAmount\<rparr>,
                       q_destAmount = \<lparr>m_asset = d_asset (c_dest c), m_amount = b\<rparr>,
                       q_fee = (if truthy_json (prop_opt j ''fee'') then
                                  map_option (\<lambda>t. \<lparr>m_asset = m_asset (sourceAmount intent), m_amount = t\<rparr>)
                                    (amountString (prop_opt (prop_opt j ''fee'') ''total''))
                                else None),
                       q_firm = True\<rparr>))"

definition msg_no_quote_server :: "string \<Rightarrow> corridor \<Rightarrow> string" where
  [msg_defs]: "msg_no_quote_server name c =
     name @ '': SEP-6 dest configures no SEP-38 quote server '' @ dash @ '' firm quotes over '' @
     ''SEP-6 need a quote server, and this adapter has no indicative-price path. '' @
     ''Price corridor '' @ c_id c @ '' with fx.quote_source: external or a quote-bearing adapter''"

definition requestQuote6 :: "'o sep6 \<Rightarrow> payment_intent \<Rightarrow> corridor \<Rightarrow> ('o, quote_t outcome) cio" where
  "requestQuote6 a intent c =
     (let server = quote_server (d_endpoints (s6_anchor a)) in
      if \<not> truthy server then ret (fail QUOTE_UNAVAILABLE (msg_no_quote_server (s6_name a) c))
      else
        check (authToken6 a) (\<lambda>e. ret (Inl e)) (\<lambda>token.
          catch_io
            (bnd (fetch_io (s6_net a) (quote_request (the server) ''sep6'' token intent c)) (\<lambda>r.
               if \<not> res_ok r then
                 ret (fail_full QUOTE_UNAVAILABLE (s6_name a @ '': quote HTTP '' @ show_int (rs_status r))
                   (rs_status r \<ge> 500) NoCause)
               else ret (read_quote6 (nt_parseDate (s6_net a)) (s6_name a) intent c (jsonBody r))))
            (ret (fail_full ANCHOR_UNAVAILABLE (s6_name a @ '': quote request failed'') True CauseOther))))"

definition ensureCompliance6 :: "'o sep6 \<Rightarrow> payment_intent \<Rightarrow> corridor \<Rightarrow> ('o, kyc_result outcome) cio" where
  "ensureCompliance6 a intent c =
     (case s6_sep12 a of
        None \<Rightarrow> ret (fail KYC_REQUIRED
          (s6_name a @ '': SEP-6 dest configures no SEP-12 kyc_server, and inline SEP-6 KYC '' @
           ''fields (compliance.method '' @ quoted_text ''sep6_fields'' @ '') are not supported yet (#193). '' @
           ''Refusing to assume this lane needs no KYC.''))
      | Some kc \<Rightarrow> sep12_check_io (s6_net a) kc (authToken6 a) (anchorCustomerIdOf (recipient intent))
                    (sep12_receiver_type (c_compliance c)))"

subsection \<open>Opening a withdrawal\<close>

definition stellarPayment :: "string \<Rightarrow> string \<Rightarrow> string option \<Rightarrow> memo_type option \<Rightarrow> open_transaction" where
  "stellarPayment transactionId to memo memoType =
     \<lparr>o_transactionId = transactionId, o_instructions = Some (IStellarPayment to memo memoType None),
      o_amountIn = None, o_depositAddress = Some to, o_memo = memo, o_memoType = memoType\<rparr>"

text \<open>
  The search parameters: those of the protocol first, then the payout fields that do not clash
  with one already set.
\<close>

definition set_param :: "string \<Rightarrow> string option \<Rightarrow> (string \<times> string) list \<Rightarrow> (string \<times> string) list" where
  "set_param k v ps = (case v of Some x \<Rightarrow> if x = [] then ps else AList.update k x ps | None \<Rightarrow> ps)"

definition add_field :: "string \<times> string \<Rightarrow> (string \<times> string) list \<Rightarrow> (string \<times> string) list" where
  "add_field kv ps = (if map_of ps (fst kv) = None then AList.update (fst kv) (snd kv) ps else ps)"

definition withdraw_params ::
  "corridor \<Rightarrow> quote_t \<Rightarrow> string option \<Rightarrow> string option \<Rightarrow> payment_intent \<Rightarrow> (string \<times> string) list" where
  "withdraw_params c q account customerId intent =
     (let ps = [(''source_asset'', sep38SellAsset c), (''destination_asset'', d_asset (c_dest c)),
                (''amount'', m_amount (q_sourceAmount q))];
          ps = (if q_firm q then set_param ''quote_id'' (Some (q_id q)) ps else ps);
          ps = set_param ''account'' account ps;
          ps = set_param ''customer_id'' customerId ps
      in fold add_field (case destinationFields intent of Some fs \<Rightarrow> fs | None \<Rightarrow> []) ps)"

definition or_unknown :: "string \<Rightarrow> string" where
  "or_unknown s = (if s = [] then ''unknown'' else s)"

definition lower_text :: "json option \<Rightarrow> string" where
  "lower_text v = to_lower (case nonEmptyString v of Some s \<Rightarrow> s | None \<Rightarrow> '''')"

definition kycRefusal :: "string \<Rightarrow> json option \<Rightarrow> corridor_error option" where
  "kycRefusal name j =
     (case nonEmptyString (prop_opt j ''type'') of
        None \<Rightarrow> None
      | Some t \<Rightarrow>
          if t = ''non_interactive_customer_info_needed'' then
            let fs = (case prop_opt j ''fields'' of
                        Some (JArr xs) \<Rightarrow> filter (\<lambda>s. s \<noteq> []) (strings_of xs) | _ \<Rightarrow> [])
            in Some (mk_err KYC_REQUIRED
                 (name @ '': anchor requires SEP-12 fields ['' @ join '', '' fs @ ''] before it '' @
                  ''will open a withdrawal '' @ dash @ '' supply them and re-run with a new idempotency key''))
          else if t = ''customer_info_status'' then
            let status = lower_text (prop_opt j ''status'');
                more = (case nonEmptyString (prop_opt j ''more_info_url'') of Some m \<Rightarrow> after_dash m | None \<Rightarrow> '''')
            in if status = ''denied'' then
                 Some (mk_err KYC_REJECTED (name @ '': anchor denied this customer's information'' @ more))
               else
                 Some (mk_err KYC_REQUIRED
                   (name @ '': anchor is still processing this customer's information '' @
                    ''(status='' @ or_unknown status @ '')'' @ more))
          else if t = ''authentication_required'' then
            Some \<lparr>e_code = ANCHOR_UNAVAILABLE,
                  e_message = name @ '': anchor requires SEP-10 authentication for this withdrawal'',
                  e_retryable = True, e_cause = NoCause\<rparr>
          else None)"

text \<open>What one read of the transaction record yields.\<close>

definition read_record6 :: "string \<Rightarrow> string \<Rightarrow> json option \<Rightarrow> open_transaction outcome" where
  "read_record6 name transactionId j =
     (let tx = prop_opt j ''transaction'' in
      case nonEmptyString (prop_opt tx ''withdraw_anchor_account'') of
        Some addr \<Rightarrow>
          Inr (stellarPayment transactionId addr (nonEmptyString (prop_opt tx ''withdraw_memo''))
                (parseMemoType (prop_opt tx ''withdraw_memo_type'')))
      | None \<Rightarrow>
          (let status = lower_text (prop_opt tx ''status'') in
           if status \<in> set KYC_BLOCKED_STATUSES then
             fail KYC_REQUIRED
               (name @ '': transaction '' @ transactionId @ '' is '' @ status @ '' '' @ dash @ '' the anchor has not '' @
                ''accepted the customer and issues no account until it does. Complete SEP-12 '' @
                ''for this customer and re-run with a new idempotency key.'')
           else
             fail ANCHOR_UNAVAILABLE
               (name @ '': transaction '' @ transactionId @ '' reported no withdraw account '' @
                ''(status='' @ or_unknown status @ '') '' @ dash @ '' refusing to settle blind; resolve the '' @
                ''anchor-side record out-of-band before retrying.'')))"

definition instructionsFromRecord :: "'o sep6 \<Rightarrow> string \<Rightarrow> string option \<Rightarrow> ('o, open_transaction outcome) cio" where
  "instructionsFromRecord a transactionId token =
     bnd (url_io (s6_net a) (s6_transferServer a @ ''/transaction'')) (\<lambda>_.
     bnd (fetch_io (s6_net a) (get_request (s6_transferServer a @ ''/transaction'') [(''id'', transactionId)]
            (authHeader token))) (\<lambda>r.
       if \<not> res_ok r then
         ret (fail_full ANCHOR_UNAVAILABLE
           (s6_name a @ '': transaction '' @ transactionId @ '' record HTTP '' @ show_int (rs_status r) @
            after_dash (clip (text_of r)) @ '' '' @ dash @ '' opened but no deposit instructions'')
           (rs_status r \<ge> 500) NoCause)
       else ret (read_record6 (s6_name a) transactionId (jsonBody r))))"

text \<open>What the answer to the withdrawal request leads to.\<close>

definition opened6 :: "'o sep6 \<Rightarrow> string option \<Rightarrow> response \<Rightarrow> ('o, open_transaction outcome) cio" where
  "opened6 a token r =
     (let j = jsonBody r in
      case kycRefusal (s6_name a) j of
        Some e \<Rightarrow> ret (Inl e)
      | None \<Rightarrow>
          if \<not> res_ok r then
            ret (fail_full ANCHOR_UNAVAILABLE
              (s6_name a @ '': open-tx HTTP '' @ show_int (rs_status r) @
               after_dash (case nonEmptyString (prop_opt j ''error'') of Some d \<Rightarrow> d | None \<Rightarrow> ''''))
              (rs_status r \<ge> 500) NoCause)
          else
            (case nonEmptyString (prop_opt j ''id'') of
               None \<Rightarrow> ret (fail ANCHOR_UNAVAILABLE
                 (s6_name a @ '': withdraw-exchange succeeded but returned no transaction id '' @ dash @
                  '' there is no record to reconcile against, so nothing was settled''))
             | Some transactionId \<Rightarrow>
                 (case nonEmptyString (prop_opt j ''account_id'') of
                    Some addr \<Rightarrow>
                      ret (Inr (stellarPayment transactionId addr (nonEmptyString (prop_opt j ''memo''))
                        (parseMemoType (prop_opt j ''memo_type''))))
                  | None \<Rightarrow> instructionsFromRecord a transactionId token)))"

definition openTransaction6 ::
  "'o sep6 \<Rightarrow> payment_intent \<Rightarrow> quote_t \<Rightarrow> corridor \<Rightarrow> ('o, open_transaction outcome) cio" where
  "openTransaction6 a intent q c =
     (let account = map_option sn_account (au_signer (s6_auth a));
          customerId = anchorCustomerIdOf (recipient intent) in
      if \<not> truthy account \<and> customerId = None then
        ret (fail KYC_REQUIRED
          (s6_name a @ '': cannot open a SEP-6 withdrawal with neither a SEP-10 signer nor '' @
           ''recipient.anchorCustomerId '' @ dash @ '' the anchor would have no way to attribute the '' @
           ''transaction. Refusing to open it unattributed.''))
      else
        check (authToken6 a) (\<lambda>e. ret (Inl e)) (\<lambda>token.
          catch_io
            (bnd (url_io (s6_net a) (s6_transferServer a @ ''/withdraw-exchange'')) (\<lambda>_.
             bnd (fetch_io (s6_net a) (get_request (s6_transferServer a @ ''/withdraw-exchange'')
                    (withdraw_params c q account customerId intent) (authHeader token)))
               (opened6 a token)))
            (ret (fail_full ANCHOR_UNAVAILABLE (s6_name a @ '': open-tx failed'') True CauseOther))))"

subsection \<open>Polling\<close>

definition getTransaction6 :: "'o sep6 \<Rightarrow> string \<Rightarrow> ('o, transaction_status outcome) cio" where
  "getTransaction6 a transactionId =
     check (authToken6 a) (\<lambda>e. ret (Inl e)) (\<lambda>token.
       catch_io
         (bnd (url_io (s6_net a) (s6_transferServer a @ ''/transaction'')) (\<lambda>_.
          bnd (fetch_io (s6_net a) (get_request (s6_transferServer a @ ''/transaction'') [(''id'', transactionId)]
                 (authHeader token))) (\<lambda>r.
            if \<not> res_ok r then
              ret (fail_full ANCHOR_UNAVAILABLE (s6_name a @ '': get-tx HTTP '' @ show_int (rs_status r))
                (rs_status r \<ge> 500) NoCause)
            else
              (let tx = prop_opt (jsonBody r) ''transaction'' in
               case str_of (prop_opt tx ''status'') of
                 None \<Rightarrow> ret (fail_retry ANCHOR_UNAVAILABLE
                   (s6_name a @ '': get-tx response has no readable transaction.status''))
               | Some s \<Rightarrow>
                   (let asset = (case nonEmptyString (prop_opt tx ''amount_in_asset'') of
                                   Some x \<Rightarrow> x | None \<Rightarrow> s6_settlementAsset a)
                    in ret (Inr (status_of asset (mapSep6Status s) (prop_opt tx ''refunds'')
                         (str_of (prop_opt tx ''amount_in'')) (prop_opt tx ''amount_in'')
                         (prop_opt tx ''withdraw_anchor_account'') (prop_opt tx ''withdraw_memo'')
                         (prop_opt tx ''withdraw_memo_type''))))))))
         (ret (fail_full ANCHOR_UNAVAILABLE (s6_name a @ '': get-tx failed'') True CauseOther)))"

definition requestRefund6 :: "'o sep6 \<Rightarrow> string \<Rightarrow> refund_ref outcome" where
  "requestRefund6 a transactionId =
     fail REFUND_UNSUPPORTED
       (s6_name a @ '': SEP-6 has no sender-initiated refund endpoint '' @ dash @ '' a refund is '' @
        ''initiated by the anchor and only reported back on transaction '' @
        transactionId @ ''; resolve out-of-band with the anchor (see the held/refunded '' @
        ''runbook in docs/operations.md) and watch getTransaction() for the outcome'')"

definition adapter6 :: "'o sep6 \<Rightarrow> json option \<Rightarrow> 'o client adapter" where
  "adapter6 a cached =
     \<lparr>a_name = s6_name a, a_capabilities = capabilities6 a cached,
      a_requestQuote = (\<lambda>i c. port_of rejected (requestQuote6 a i c)),
      a_ensureCompliance = (\<lambda>i c. port_of rejected (ensureCompliance6 a i c)),
      a_openTransaction = (\<lambda>i q c. port_of rejected (openTransaction6 a i q c)),
      a_getTransaction = (\<lambda>t. port_of rejected (getTransaction6 a t)),
      a_confirmSettlement = None\<rparr>"

subsection \<open>What the adapter guarantees\<close>

lemma returns_authToken6 [returns_rules]: "returns (authToken6 a)"
  by (simp add: authToken6_def returns_login)

lemma returns_methods6:
  "returns (requestQuote6 a i c)" "returns (ensureCompliance6 a i c)" "returns (openTransaction6 a i q c)"
  "returns (getTransaction6 a t)" "returns (info6 a force)"
  unfolding requestQuote6_def ensureCompliance6_def openTransaction6_def getTransaction6_def info6_def Let_def
  by (auto intro!: returns_rules split: option.splits)

text \<open>Instructions the engine can settle: a transaction id and an address, neither empty.\<close>

definition settleable_open :: "open_transaction outcome \<Rightarrow> bool" where
  "settleable_open r \<longleftrightarrow> (\<forall>op. r = Inr op \<longrightarrow>
     o_transactionId op \<noteq> [] \<and> (\<exists>addr. addr \<noteq> [] \<and> o_depositAddress op = Some addr \<and>
       o_instructions op = Some (IStellarPayment addr (o_memo op) (o_memoType op) None)))"

lemma settleable_simps [simp]:
  "settleable_open (Inl e)" "settleable_open (fail_full c m b k)"
  "settleable_open (Inr (stellarPayment t a me mt)) \<longleftrightarrow> t \<noteq> [] \<and> a \<noteq> []"
  by (auto simp: settleable_open_def fail_full_def stellarPayment_def)

lemma nonEmptyString_Some: "nonEmptyString v = Some s \<Longrightarrow> s \<noteq> []"
  by (auto simp: nonEmptyString_def split: option.splits json.splits if_splits)

lemma read_record6_settleable: "t \<noteq> [] \<Longrightarrow> settleable_open (read_record6 nm t j)"
  by (auto simp: read_record6_def Let_def dest: nonEmptyString_Some split: option.splits)

lemma opened6_settleable: "yields (opened6 a token r) settleable_open"
  unfolding opened6_def Let_def instructionsFromRecord_def
  by (auto intro!: yields_rules yields_if read_record6_settleable dest: nonEmptyString_Some split: option.splits)

lemma openTransaction6_settleable: "yields (openTransaction6 a i q c) settleable_open"
  unfolding openTransaction6_def Let_def
  by (intro yields_if yields_ret yields_check yields_catch yields_after opened6_settleable) simp_all

subsection \<open>Properties\<close>

text \<open>
  When the SEP-6 adapter reports an opened withdrawal, it has a transaction id and a deposit
  address, neither empty, and the instructions name that address with the memo and the memo type
  reported: never a half transaction.
\<close>

theorem withdrawal_has_instructions:
  assumes "openTransaction6 a i q c w = (Some (Inr op), w')"
  shows "o_transactionId op \<noteq> [] \<and> (\<exists>addr. addr \<noteq> [] \<and> o_depositAddress op = Some addr \<and>
     o_instructions op = Some (IStellarPayment addr (o_memo op) (o_memoType op) None))"
  using yieldsD [OF openTransaction6_settleable assms] by (simp add: settleable_open_def)

text \<open>
  After a withdrawal was initiated, a failed read of its record is reported as retryable when
  the anchor answers with a server error, although a retry of the open initiates a second one.
\<close>

theorem failed_followup_is_retryable:
  assumes "kycRefusal (s6_name a) (jsonBody r) = None" and "res_ok r"
    and "nonEmptyString (prop_opt (jsonBody r) ''id'') = Some t"
    and "nonEmptyString (prop_opt (jsonBody r) ''account_id'') = None"
    and "nt_urlOk (s6_net a) (s6_transferServer a @ ''/transaction'')"
    and "\<And>q. fst (nt_fetch (s6_net a) q (cl_out w)) = Some r'" and "500 \<le> rs_status r'"
  shows "\<exists>e w'. opened6 a token r w = (Some (Inl e), w') \<and> e_retryable e"
proof -
  let ?q = "get_request (s6_transferServer a @ ''/transaction'') [(''id'', t)] (authHeader token)"
  obtain e where f: "nt_fetch (s6_net a) ?q (cl_out w) = (Some r', e)"
    using assms(6) [of ?q] by (cases "nt_fetch (s6_net a) ?q (cl_out w)") auto
  have "\<not> res_ok r'" using assms(7) by (simp add: res_ok_def)
  with f assms(7) have "\<exists>e w'. instructionsFromRecord a t token w = (Some (Inl e), w') \<and> e_retryable e"
    by (simp add: instructionsFromRecord_def client_defs assms(5) fail_full_def)
  then show ?thesis by (simp add: opened6_def Let_def assms(1-4))
qed

definition demo_sep6 :: "response option \<Rightarrow> int sep6" where
  "demo_sep6 r =
     \<lparr>s6_name = ''n'', s6_anchor = \<lparr>d_name = ''n'', d_asset = ''iso4217:ARS'', d_protocol = Sep6,
        d_endpoints = demo_endpoints\<rparr>,
      s6_settlementAsset = ''USDC'', s6_transferServer = ''https://a'', s6_destAssetCode = ''ARS'',
      s6_net = demo_net r, s6_auth = demo_anonymous, s6_sep12 = None\<rparr>"

definition demo_answer :: "int \<Rightarrow> (string \<times> json) list \<Rightarrow> response" where
  "demo_answer st o' = \<lparr>rs_status = st, rs_text = Some ''{}'', rs_json = Some (JObj o')\<rparr>"

lemmas demo6_defs = demo_sep6_def demo_answer_def demo_net_def demo_client_def jsonBody_def text_of_def
  res_ok_def prop_opt_def jfield_def nonEmptyString_def kycRefusal_def

theorem failed_followup_is_retryable_witness:
  "\<exists>e w'. opened6 (demo_sep6 (Some (demo_answer 503 []))) None (demo_answer 200 [(''id'', JStr ''t'')]) demo_client
     = (Some (Inl e), w') \<and> e_retryable e"
  by (rule failed_followup_is_retryable [where t = "''t''" and r' = "demo_answer 503 []"])
    (simp_all add: demo6_defs)

definition demo_payee :: payment_intent where
  "demo_payee = demo_intent\<lparr>recipient := demo_party\<lparr>p_anchorCustomerId := Some ''c''\<rparr>\<rparr>"

lemma demo_opens6:
  "openTransaction6 (demo_sep6 (Some (demo_answer 200 [(''id'', JStr ''t''), (''account_id'', JStr ''GA'')])))
     demo_payee (g_quote demo_ctx) demo_corridor demo_client
     = (Some (Inr (stellarPayment ''t'' ''GA'' None None)), demo_client\<lparr>cl_out := 1\<rparr>)"
  by (simp add: openTransaction6_def authToken6_def login_def demo_anonymous_def demo_payee_def demo_party_def
      demo_intent_def anchorCustomerIdOf_def or_str_def opened6_def parseMemoType_def client_defs demo6_defs)

theorem withdrawal_has_instructions_witness:
  "o_transactionId (stellarPayment ''t'' ''GA'' None None) \<noteq> [] \<and>
   (\<exists>addr. addr \<noteq> [] \<and> o_depositAddress (stellarPayment ''t'' ''GA'' None None) = Some addr \<and>
     o_instructions (stellarPayment ''t'' ''GA'' None None) =
       Some (IStellarPayment addr (o_memo (stellarPayment ''t'' ''GA'' None None))
         (o_memoType (stellarPayment ''t'' ''GA'' None None)) None))"
  by (rule withdrawal_has_instructions [OF demo_opens6])

end
