(* ===== verification/Router.thy ===== *)
theory Router
  imports Ports
begin

section \<open>Route resolvers (packages/router/src)\<close>

text \<open>
  The two resolvers the repository ships, the registry of adapter factories and the loader of an
  operator's resolver module. The on-chain registry is a pair of ports (SEP-10-free reads that may
  be rejected); adapters come from a factory. A thrown error is \<open>Inl\<close>: an
  \<open>UnattestedAnchorError\<close> with its domain, reason and protocol, or the message of an \<open>Error\<close>.
\<close>

subsection \<open>Attestation sources\<close>

datatype attested_protocol = ASep31 | ASep6

definition attested_name :: "attested_protocol \<Rightarrow> string" where
  "attested_name p = (case p of ASep31 \<Rightarrow> ''sep31'' | ASep6 \<Rightarrow> ''sep6'')"

text \<open>Reads of the registry: a rejection is \<open>Inl\<close> its message.\<close>

record 'e attestation_source =
  as_serves :: "string \<Rightarrow> attested_protocol \<Rightarrow> ('e, string + bool) port"
  as_staleness :: "string \<Rightarrow> ('e, string + int) port"
  as_tomlHash :: "string \<Rightarrow> ('e, string + string) port"

record 'e legacy_source =
  lg_servesSep31 :: "string \<Rightarrow> ('e, string + bool) port"
  lg_staleness :: "string \<Rightarrow> ('e, string + int) port"
  lg_tomlHash :: "string \<Rightarrow> ('e, string + string) port"

datatype 'e source_like = Aware "'e attestation_source" | Legacy "'e legacy_source"

definition asAttestationSource :: "'e source_like \<Rightarrow> 'e attestation_source" where
  "asAttestationSource s =
     (case s of
        Aware a \<Rightarrow> a
      | Legacy l \<Rightarrow>
          \<lparr>as_serves = (\<lambda>d p e. if p = ASep31 then lg_servesSep31 l d e else (Inr False, e)),
           as_staleness = lg_staleness l, as_tomlHash = lg_tomlHash l\<rparr>)"

definition isAttestedProtocol :: "string \<Rightarrow> attested_protocol option" where
  "isAttestedProtocol p =
     (if p = ''sep31'' then Some ASep31 else if p = ''sep6'' then Some ASep6 else None)"

definition isUnattestedDomainAllowed :: "string \<Rightarrow> string list \<Rightarrow> bool" where
  "isUnattestedDomainAllowed domain allowed = (domain \<in> set allowed)"

definition protocolLabel :: "attested_protocol \<Rightarrow> string" where
  "protocolLabel p = (case p of ASep31 \<Rightarrow> ''SEP-31'' | ASep6 \<Rightarrow> ''SEP-6'')"

subsection \<open>The registry-backed resolver\<close>

record unattested_error =
  ue_domain :: string
  ue_reason :: string
  ue_protocol :: string

definition ue_message :: "unattested_error \<Rightarrow> string" where
  "ue_message u = ''refusing to route through '' @ ue_domain u @ '': '' @ ue_reason u"

definition WEEK_OF_LEDGERS :: int where
  "WEEK_OF_LEDGERS = 120960"

record 'e registry_resolver =
  rg_registry :: "'e attestation_source"
  rg_adapterFor :: "corridor \<Rightarrow> string + 'e adapter"
  rg_maxStaleness :: int
  rg_allowed :: "string list"

definition new_registry_resolver ::
  "'e source_like \<Rightarrow> (corridor \<Rightarrow> string + 'e adapter) \<Rightarrow> int option \<Rightarrow> string list option \<Rightarrow> 'e registry_resolver" where
  "new_registry_resolver source adapterFor maxStalenessLedgers allow =
     \<lparr>rg_registry = asAttestationSource source, rg_adapterFor = adapterFor,
      rg_maxStaleness = (case maxStalenessLedgers of Some m \<Rightarrow> m | None \<Rightarrow> WEEK_OF_LEDGERS),
      rg_allowed = (case allow of Some xs \<Rightarrow> xs | None \<Rightarrow> [])\<rparr>"

datatype resolve_error = Unattested unattested_error | Thrown string

text \<open>
  \<open>Promise.all\<close> of the two reads: both are started; the first rejection is the one reported, here
  that of \<open>serves\<close> when both reject.
\<close>

definition read_both :: "'e attestation_source \<Rightarrow> string \<Rightarrow> attested_protocol \<Rightarrow> ('e, string + bool \<times> int) port" where
  "read_both src domain p e =
     (let (a, e1) = as_serves src domain p e; (b, e2) = as_staleness src domain e1
      in (case a of
            Inl m \<Rightarrow> Inl m
          | Inr s \<Rightarrow> (case b of Inl m \<Rightarrow> Inl m | Inr n \<Rightarrow> Inr (s, n)), e2))"

definition with_adapter :: "'e registry_resolver \<Rightarrow> corridor \<Rightarrow> resolve_error + 'e route" where
  "with_adapter r c =
     (case rg_adapterFor r c of
        Inl m \<Rightarrow> Inl (Thrown m)
      | Inr a \<Rightarrow> Inr \<lparr>rt_receiving = a, rt_sending = None, rt_trust = Attested\<rparr>)"

definition msg_not_serving :: "attested_protocol \<Rightarrow> string" where
  [msg_defs]: "msg_not_serving p =
     (let l = protocolLabel p in
      ''not attested as serving '' @ l @ '' receive-side. Advertising '' @ l @
      '' in a stellar.toml is not sufficient '' @ dash @ '' the '' @ l @ '' probe must also pass.'')"

definition msg_old_attestation :: "int \<Rightarrow> int \<Rightarrow> string" where
  [msg_defs]: "msg_old_attestation n limit =
     ''last attested '' @ show_int n @ '' ledgers ago, older than the '' @ show_int limit @
     '' ledger limit. Re-attest before routing value through it.''"

definition msg_no_probe :: "string \<Rightarrow> string \<Rightarrow> string" where
  [msg_defs]: "msg_no_probe protocol domain =
     ''protocol '' @ protocol @ '' has no on-chain attestation probe '' @ dash @ '' the registry can only '' @
     ''attest SEP-31 and SEP-6 receive-side. Add '' @ domain @ '' to allowUnattestedDomains '' @
     ''if this lane is deliberately exempt.''"

definition registry_resolve :: "'e registry_resolver \<Rightarrow> corridor \<Rightarrow> ('e, resolve_error + 'e route) port" where
  "registry_resolve r c e =
     (let domain = home_domain (d_endpoints (c_dest c));
          protocol = protocol_name (d_protocol (c_dest c));
          refuse = (\<lambda>why. Inl (Unattested \<lparr>ue_domain = domain, ue_reason = why, ue_protocol = protocol\<rparr>))
      in if isUnattestedDomainAllowed domain (rg_allowed r) then (with_adapter r c, e)
         else
           case isAttestedProtocol protocol of
             None \<Rightarrow> (refuse (msg_no_probe protocol domain), e)
           | Some p \<Rightarrow>
               (case read_both (rg_registry r) domain p e of
                  (Inl m, e') \<Rightarrow> (refuse (''registry lookup failed ('' @ m @ '')''), e')
                | (Inr (serves, staleness), e') \<Rightarrow>
                    if \<not> serves then (refuse (msg_not_serving p), e')
                    else if staleness > rg_maxStaleness r then
                      (refuse (msg_old_attestation staleness (rg_maxStaleness r)), e')
                    else (with_adapter r c, e')))"

subsection \<open>The static resolver\<close>

record 'e static_resolver =
  st_adapterFor :: "corridor \<Rightarrow> string + 'e adapter"
  st_sourceFor :: "(corridor \<Rightarrow> string + 'e source_adapter option) option"

definition new_static_resolver ::
  "(corridor \<Rightarrow> string + 'e adapter) \<Rightarrow> bool \<Rightarrow> (corridor \<Rightarrow> string + 'e source_adapter option) option \<Rightarrow> string + 'e static_resolver" where
  "new_static_resolver adapterFor trustManifest sourceFor =
     (if \<not> trustManifest then
        Inl (''StaticRouteResolver requires explicit { trustManifestWithoutAttestation: true }. '' @
             ''Use RegistryRouteResolver for verified routing.'')
      else Inr \<lparr>st_adapterFor = adapterFor, st_sourceFor = sourceFor\<rparr>)"

definition static_resolve :: "'e static_resolver \<Rightarrow> corridor \<Rightarrow> resolve_error + 'e route" where
  "static_resolve r c =
     (case (case st_sourceFor r of None \<Rightarrow> Inr None | Some f \<Rightarrow> f c) of
        Inl m \<Rightarrow> Inl (Thrown m)
      | Inr sending \<Rightarrow>
          (case st_adapterFor r c of
             Inl m \<Rightarrow> Inl (Thrown m)
           | Inr a \<Rightarrow> Inr \<lparr>rt_receiving = a, rt_sending = sending, rt_trust = ManifestTrust\<rparr>))"

subsection \<open>The adapter registry\<close>

text \<open>Factories by protocol identifier; a missing factory argument is \<open>None\<close>.\<close>

type_synonym 'e factories = "(string \<times> (corridor \<Rightarrow> string + 'e adapter)) list"

definition register :: "string \<Rightarrow> (corridor \<Rightarrow> string + 'e adapter) option \<Rightarrow> 'e factories \<Rightarrow> string + 'e factories" where
  "register protocol factory fs =
     (case factory of
        None \<Rightarrow> Inl (''cannot register adapter for '' @ [CHR 0x22] @ protocol @ [CHR 0x22] @
                     '': factory is required'')
      | Some f \<Rightarrow> Inr ((protocol, f) # fs))"

definition has_adapter :: "'e factories \<Rightarrow> corridor \<Rightarrow> bool" where
  "has_adapter fs c = (map_of fs (protocol_name (d_protocol (c_dest c))) \<noteq> None)"

definition adapterFor :: "'e factories \<Rightarrow> corridor \<Rightarrow> string + 'e adapter" where
  "adapterFor fs c =
     (let protocol = protocol_name (d_protocol (c_dest c)); q = [CHR 0x22] in
      case map_of fs protocol of
        None \<Rightarrow> Inl (''no adapter registered for protocol '' @ q @ protocol @ q @ '' (corridor '' @ q @ c_id c @ q @
          ''). Register one via createAdapterRegistry().register('' @ q @ protocol @ q @ '', factory).'')
      | Some f \<Rightarrow> f c)"

subsection \<open>Loading an operator's resolver\<close>

text \<open>
  \<open>import()\<close>, the filesystem probe and the path resolution belong to the platform. A module's
  default export is a factory or something else, of which only the type is named.
\<close>

datatype 'r module_default = IsFactory "string + 'r option" | NotFactory string

record 'r resolver_module =
  md_apiVersion :: "int option"
  md_default :: "'r module_default"

record platform_paths =
  pp_isAbsolute :: "string \<Rightarrow> bool"
  pp_resolve :: "string \<Rightarrow> string"
  pp_exists :: "string \<Rightarrow> bool"

definition ROUTE_RESOLVER_API_VERSION :: int where
  "ROUTE_RESOLVER_API_VERSION = 1"

definition is_letter :: "char \<Rightarrow> bool" where
  "is_letter c = (let n = of_char c :: nat in (65 \<le> n \<and> n \<le> 90) \<or> (97 \<le> n \<and> n \<le> 122))"

definition scheme_char :: "char \<Rightarrow> bool" where
  "scheme_char c = (is_letter c \<or> is_digit c \<or> c = CHR ''+'' \<or> c = CHR ''.'' \<or> c = CHR ''-'')"

text \<open>\<open>/^[a-zA-Z][a-zA-Z0-9+.-]*:\/\//\<close>. The star is greedy, but a scheme character is never a colon.\<close>

definition URL_SCHEME :: "string \<Rightarrow> bool" where
  "URL_SCHEME s = (case s of [] \<Rightarrow> False | c # cs \<Rightarrow> is_letter c \<and> starts_with ''://'' (dropWhile scheme_char cs))"

definition resolveSpecifier :: "platform_paths \<Rightarrow> string \<Rightarrow> string" where
  "resolveSpecifier pp i =
     (if starts_with ''.'' i \<or> pp_isAbsolute pp i then pp_resolve pp i
      else if pp_exists pp (pp_resolve pp i) then pp_resolve pp i else i)"

definition load_error :: "string \<Rightarrow> string \<Rightarrow> string" where
  "load_error spec why = ''resolver module '' @ [CHR 0x22] @ spec @ [CHR 0x22] @ '': '' @ why"

definition loadResolver ::
  "platform_paths \<Rightarrow> (string \<Rightarrow> ('e, string + 'r resolver_module) port) \<Rightarrow> string \<Rightarrow> ('e, string + 'r) port" where
  "loadResolver pp import_module i e =
     (let refuse = (\<lambda>why. Inl (load_error i why)) in
      if i = [] then (refuse ''module must be a non-empty path or package name'', e)
      else if URL_SCHEME i \<or> starts_with ''file:'' i then
        (refuse (''URLs are not loadable '' @ dash @ '' pass a filesystem path or an installed package name''), e)
      else
        case import_module (resolveSpecifier pp i) e of
          (Inl m, e') \<Rightarrow> (refuse (''could not be loaded ('' @ m @ '')''), e')
        | (Inr md, e') \<Rightarrow>
            if md_apiVersion md \<noteq> Some ROUTE_RESOLVER_API_VERSION then
              (refuse (''declares apiVersion '' @
                 (case md_apiVersion md of Some v \<Rightarrow> show_int v | None \<Rightarrow> ''undefined'') @
                 '', expected '' @ show_int ROUTE_RESOLVER_API_VERSION), e')
            else
              (case md_default md of
                 NotFactory t \<Rightarrow>
                   (refuse (''must default-export a factory (ctx, options) => RouteResolver (found '' @ t @ '')''), e')
               | IsFactory (Inl m) \<Rightarrow> (refuse (''factory threw ('' @ m @ '')''), e')
               | IsFactory (Inr None) \<Rightarrow>
                   (refuse ''factory did not return a RouteResolver (no resolve function)'', e')
               | IsFactory (Inr (Some r)) \<Rightarrow> (Inr r, e')))"

subsection \<open>What the resolvers guarantee\<close>

text \<open>What the registry must have answered for a lane to be routed.\<close>

definition attests :: "'e registry_resolver \<Rightarrow> corridor \<Rightarrow> bool" where
  "attests r c \<longleftrightarrow> (\<exists>p n e1 e2.
     protocol_name (d_protocol (c_dest c)) = attested_name p \<and>
     fst (as_serves (rg_registry r) (home_domain (d_endpoints (c_dest c))) p e1) = Inr True \<and>
     fst (as_staleness (rg_registry r) (home_domain (d_endpoints (c_dest c))) e2) = Inr n \<and>
     n \<le> rg_maxStaleness r)"

lemma isAttested_name: "isAttestedProtocol s = Some p \<Longrightarrow> s = attested_name p"
  by (auto simp: isAttestedProtocol_def attested_name_def split: if_splits)

lemma read_both_Inr:
  "read_both src d p e = (Inr (s, n), e') \<Longrightarrow>
   fst (as_serves src d p e) = Inr s \<and> (\<exists>e2. fst (as_staleness src d e2) = Inr n)"
  by (auto simp: read_both_def Let_def split: prod.splits sum.splits) (metis fst_conv)+

lemma registry_resolve_Inr:
  assumes "registry_resolve r c e = (Inr route, e')"
  shows "isUnattestedDomainAllowed (home_domain (d_endpoints (c_dest c))) (rg_allowed r) \<or> attests r c"
  using assms
  by (auto simp: registry_resolve_def Let_def attests_def not_less split: if_splits option.splits prod.splits sum.splits
      dest!: isAttested_name read_both_Inr)

lemma registry_trust: "registry_resolve r c e = (Inr route, e') \<Longrightarrow> rt_trust route = Attested \<and> rt_sending route = None"
  by (auto simp: registry_resolve_def with_adapter_def Let_def split: if_splits option.splits prod.splits sum.splits)

lemma legacy_only_sep31:
  "fst (as_serves (asAttestationSource (Legacy l)) d p e) = Inr True \<Longrightarrow> p = ASep31"
  by (simp add: asAttestationSource_def split: if_splits)

lemma allowlisted_without_evidence:
  "isUnattestedDomainAllowed (home_domain (d_endpoints (c_dest c))) (rg_allowed r) \<Longrightarrow>
   rg_adapterFor r c = Inr a \<Longrightarrow>
   registry_resolve r c e = (Inr \<lparr>rt_receiving = a, rt_sending = None, rt_trust = Attested\<rparr>, e)"
  by (simp add: registry_resolve_def with_adapter_def Let_def)

text \<open>A resolver as the engine's port: an error is reported by its message.\<close>

definition resolver_port ::
  "(corridor \<Rightarrow> ('e, resolve_error + 'e route) port) \<Rightarrow> payment_intent \<Rightarrow> corridor \<Rightarrow> ('e, string + 'e route) port" where
  "resolver_port res intent c e =
     (case res c e of
        (Inl (Unattested u), e') \<Rightarrow> (Inl (ue_message u), e')
      | (Inl (Thrown m), e') \<Rightarrow> (Inl m, e')
      | (Inr route, e') \<Rightarrow> (Inr route, e'))"

subsection \<open>Properties\<close>


definition demo_source_like :: "int source_like" where
  "demo_source_like = Legacy \<lparr>lg_servesSep31 = (\<lambda>_ e. (Inr True, e)), lg_staleness = (\<lambda>_ e. (Inr 5, e)),
     lg_tomlHash = (\<lambda>_ e. (Inr ''h'', e))\<rparr>"

definition demo_anchor :: "int adapter" where
  "demo_anchor =
     \<lparr>a_name = ''a'', a_capabilities = \<lparr>cap_quotes = [], cap_kyc = M_none, cap_settlement = []\<rparr>,
      a_requestQuote = (\<lambda>_ _ e. (fail QUOTE_UNAVAILABLE ''q'', e)),
      a_ensureCompliance = (\<lambda>_ _ e. (fail KYC_REQUIRED ''k'', e)),
      a_openTransaction = (\<lambda>_ _ _ e. (fail ANCHOR_UNAVAILABLE ''o'', e)),
      a_getTransaction = (\<lambda>_ e. (fail ANCHOR_UNAVAILABLE ''t'', e)), a_confirmSettlement = None\<rparr>"

definition demo_registry :: "int registry_resolver" where
  "demo_registry = new_registry_resolver demo_source_like (\<lambda>_. Inr demo_anchor) None None"

lemma demo_resolves:
  "resolver_port (registry_resolve demo_registry) demo_intent demo_corridor 0
     = (Inr \<lparr>rt_receiving = demo_anchor, rt_sending = None, rt_trust = Attested\<rparr>, 0)"
  by (simp add: resolver_port_def registry_resolve_def demo_registry_def new_registry_resolver_def demo_source_like_def
      asAttestationSource_def isUnattestedDomainAllowed_def isAttestedProtocol_def read_both_def with_adapter_def
      WEEK_OF_LEDGERS_def demo_corridor_def demo_endpoints_def)


end
