(* ===== verification/Requests.thy ===== *)
theory Requests
  imports Client "HOL-Library.AList"
begin

section \<open>Reading requests (packages/service/src/index.ts)\<close>

text \<open>
  What the service does with a request before it acts on it: correlation ids, credentials, the
  client's identity, and the strict parser of \<open>POST /payments\<close>. A header map and a JSON object are
  association lists in the order of \<open>Object.keys\<close>.
\<close>

subsection \<open>Correlation ids\<close>

type_synonym headers = "(string \<times> string) list"

definition is_alnum :: "char \<Rightarrow> bool" where
  "is_alnum c = (let n = of_char c :: nat in is_digit c \<or> (65 \<le> n \<and> n \<le> 90) \<or> (97 \<le> n \<and> n \<le> 122))"

definition REQUEST_ID_PATTERN :: "string \<Rightarrow> bool" where
  "REQUEST_ID_PATTERN s =
     (1 \<le> length s \<and> length s \<le> 128 \<and>
      list_all (\<lambda>c. is_alnum c \<or> c = CHR ''.'' \<or> c = CHR ''_'' \<or> c = CHR ''-'') s)"

definition is_hex :: "char \<Rightarrow> bool" where
  "is_hex c = (let n = of_char c :: nat in is_digit c \<or> (65 \<le> n \<and> n \<le> 70) \<or> (97 \<le> n \<and> n \<le> 102))"

definition hex_run :: "nat \<Rightarrow> string \<Rightarrow> bool" where
  "hex_run n s = (length s = n \<and> list_all is_hex s)"

text \<open>A hexadecimal digit is never a dash, so the pattern splits the value at its dashes.\<close>

definition TRACEPARENT_PATTERN :: "string \<Rightarrow> bool" where
  "TRACEPARENT_PATTERN s =
     (case split_on (CHR ''-'') s of
        [a, b, c, d] \<Rightarrow> hex_run 2 a \<and> hex_run 32 b \<and> hex_run 16 c \<and> hex_run 2 d
      | _ \<Rightarrow> False)"

text \<open>\<open>crypto.randomUUID()\<close> is a port.\<close>

definition resolveRequestId :: "('e, string) port \<Rightarrow> string option \<Rightarrow> ('e, string) port" where
  "resolveRequestId uuid inbound e =
     (case inbound of
        Some i \<Rightarrow> if i \<noteq> [] \<and> REQUEST_ID_PATTERN i then (i, e) else uuid e
      | None \<Rightarrow> uuid e)"

definition resolveTraceparent :: "string option \<Rightarrow> string option" where
  "resolveTraceparent inbound =
     (case inbound of
        Some i \<Rightarrow> if i \<noteq> [] \<and> TRACEPARENT_PATTERN i then Some i else None
      | None \<Rightarrow> None)"

record request_context =
  rc_requestId :: string
  rc_traceparent :: "string option"

record route_request =
  ru_method :: string
  ru_path :: string
  ru_body :: "json option"
  ru_rawBody :: "string option"
  ru_headers :: headers
  ru_clientIp :: "string option"
  ru_requestId :: "string option"
  ru_traceparent :: "string option"

definition orElse_opt :: "'a option \<Rightarrow> 'a option \<Rightarrow> 'a option" where
  "orElse_opt a b = (case a of None \<Rightarrow> b | Some _ \<Rightarrow> a)"

definition contextOf :: "('e, string) port \<Rightarrow> route_request \<Rightarrow> ('e, request_context) port" where
  "contextOf uuid req e =
     (case resolveRequestId uuid (orElse_opt (ru_requestId req) (map_of (ru_headers req) ''x-request-id'')) e of
        (i, e') \<Rightarrow> (\<lparr>rc_requestId = i,
          rc_traceparent = resolveTraceparent (orElse_opt (ru_traceparent req) (map_of (ru_headers req) ''traceparent''))\<rparr>, e'))"

definition requestHeaders :: "request_context \<Rightarrow> headers" where
  "requestHeaders ctx =
     (''x-request-id'', rc_requestId ctx) #
     (case rc_traceparent ctx of Some t \<Rightarrow> if t \<noteq> [] then [(''traceparent'', t)] else [] | None \<Rightarrow> [])"

subsection \<open>Credentials and client identity\<close>

definition bearer :: "headers \<Rightarrow> string option" where
  "bearer hs =
     (case map_of hs ''authorization'' of
        Some auth \<Rightarrow> if starts_with ''Bearer '' auth then Some (drop 7 auth) else None
      | None \<Rightarrow> None)"

text \<open>A repeated header arrives as an array and is dropped.\<close>

datatype header_value = HOne string | HMany "string list"

definition flattenHeaders :: "(string \<times> header_value) list \<Rightarrow> headers" where
  "flattenHeaders raw =
     foldl (\<lambda>hs (k, v). case v of HOne s \<Rightarrow> AList.update (to_lower k) s hs | HMany _ \<Rightarrow> hs) [] raw"

text \<open>A set of keys in insertion order; every candidate is compared.\<close>

definition matchesKey :: "string list option \<Rightarrow> string option \<Rightarrow> bool" where
  "matchesKey keys presented =
     (case (keys, presented) of
        (Some ks, Some p) \<Rightarrow>
          if p = [] then False
          else foldl (\<lambda>matched key. if constantTimeEqual key p then True else matched) False ks
      | _ \<Rightarrow> False)"

definition ownerMatches :: "string option \<Rightarrow> string option \<Rightarrow> bool" where
  "ownerMatches owner presented =
     (case (owner, presented) of (Some a, Some b) \<Rightarrow> constantTimeEqual a b | _ \<Rightarrow> False)"

definition errorCode :: "string option \<Rightarrow> string option" where
  "errorCode lastError =
     (if \<not> truthy lastError then None
      else case index_of '':'' (the lastError) of
        Some idx \<Rightarrow> if idx > 0 then Some (take idx (the lastError)) else lastError
      | None \<Rightarrow> lastError)"

definition firstForwarded :: "string option \<Rightarrow> string option" where
  "firstForwarded xff =
     (case xff of
        None \<Rightarrow> None
      | Some s \<Rightarrow> (case split_on (CHR '','') s of
                    [] \<Rightarrow> None
                  | x # _ \<Rightarrow> if js_trim x = [] then None else Some (js_trim x)))"

definition resolveClientIp :: "string option \<Rightarrow> headers \<Rightarrow> bool \<Rightarrow> string option" where
  "resolveClientIp remote hs trustProxy =
     (case (if trustProxy then firstForwarded (map_of hs ''x-forwarded-for'') else None) of
        Some fwd \<Rightarrow> Some fwd
      | None \<Rightarrow> remote)"

definition clientKey :: "string list option \<Rightarrow> route_request \<Rightarrow> string" where
  "clientKey apiKeys req =
     (let key = bearer (ru_headers req) in
      if truthy key \<and> matchesKey apiKeys key then ''key:'' @ the key
      else ''ip:'' @ (case ru_clientIp req of Some ip \<Rightarrow> ip | None \<Rightarrow> ''anon''))"

lemma matches_foldl: "foldl (\<lambda>m k. k \<noteq> p \<longrightarrow> m) b ks \<longleftrightarrow> b \<or> p \<in> set ks"
  by (induction ks arbitrary: b) auto

lemma matchesKey_iff:
  "matchesKey keys p \<longleftrightarrow> (\<exists>ks k. keys = Some ks \<and> p = Some k \<and> k \<noteq> [] \<and> k \<in> set ks)"
  by (auto simp: matchesKey_def matches_foldl split: option.splits)

lemma ownerMatches_iff: "ownerMatches a b \<longleftrightarrow> a \<noteq> None \<and> a = b"
  by (auto simp: ownerMatches_def split: option.splits)

text \<open>Without a known key the limiter's bucket is that of the address, whatever token is presented.\<close>

lemma clientKey_unknown:
  "\<not> matchesKey apiKeys (bearer (ru_headers req)) \<Longrightarrow>
   clientKey apiKeys req = ''ip:'' @ (case ru_clientIp req of Some ip \<Rightarrow> ip | None \<Rightarrow> ''anon'')"
  by (simp add: clientKey_def Let_def)


subsection \<open>The payment body\<close>

record body_error =
  be_field :: string
  be_reason :: string

definition reject :: "string \<Rightarrow> string \<Rightarrow> body_error + 'a" where
  "reject field reason = Inl \<lparr>be_field = field, be_reason = reason\<rparr>"

definition PAYMENT_FIELDS :: "string list" where
  "PAYMENT_FIELDS =
     [''idempotencyKey'', ''corridorId'', ''sender'', ''recipient'', ''sourceAmount'', ''destinationFields'']"

definition key_char :: "char \<Rightarrow> bool" where
  "key_char c = (is_alnum c \<or> c = CHR ''.'' \<or> c = CHR ''_'' \<or> c = CHR '':'' \<or> c = CHR ''-'')"

definition IDEMPOTENCY_KEY_PATTERN :: "string \<Rightarrow> bool" where
  "IDEMPOTENCY_KEY_PATTERN s = (s \<noteq> [] \<and> list_all key_char s)"

definition MAX_IDEMPOTENCY_KEY :: nat where "MAX_IDEMPOTENCY_KEY = 128"
definition MAX_CORRIDOR_ID :: nat where "MAX_CORRIDOR_ID = 128"
definition MAX_DESTINATION_FIELD_KEYS :: nat where "MAX_DESTINATION_FIELD_KEYS = 50"
definition MAX_DESTINATION_FIELD_VALUE :: nat where "MAX_DESTINATION_FIELD_VALUE = 256"

definition PARTY_STRING_FIELDS :: "string list" where
  "PARTY_STRING_FIELDS = [''jurisdiction'', ''sep12Id'', ''anchorCustomerId'']"

text \<open>The first key of an object that is not expected.\<close>

definition unknown_key :: "string list \<Rightarrow> (string \<times> json) list \<Rightarrow> string option" where
  "unknown_key known o' = map_option fst (find (\<lambda>(k, _). k \<notin> set known) o')"

definition not_a_string :: "json option \<Rightarrow> bool" where
  "not_a_string v = (case v of None \<Rightarrow> False | Some (JStr _) \<Rightarrow> False | Some _ \<Rightarrow> True)"

definition parseParty :: "json option \<Rightarrow> string \<Rightarrow> body_error + party_ref" where
  "parseParty v field =
     (case v of
        Some (JObj o') \<Rightarrow>
          (case unknown_key (''id'' # PARTY_STRING_FIELDS) o' of
             Some k \<Rightarrow> reject (field @ ''.'' @ k) ''unknown field''
           | None \<Rightarrow>
               (case str_of (jfield o' ''id'') of
                  None \<Rightarrow> reject (field @ ''.id'') ''expected a string''
                | Some i \<Rightarrow>
                    if i = [] then reject (field @ ''.id'') ''must not be empty''
                    else case find (\<lambda>k. not_a_string (jfield o' k)) PARTY_STRING_FIELDS of
                      Some k \<Rightarrow> reject (field @ ''.'' @ k) ''expected a string''
                    | None \<Rightarrow> Inr \<lparr>p_id = i, p_jurisdiction = str_of (jfield o' ''jurisdiction''),
                        p_sep12Id = str_of (jfield o' ''sep12Id''),
                        p_anchorCustomerId = str_of (jfield o' ''anchorCustomerId'')\<rparr>))
      | _ \<Rightarrow> reject field ''expected an object with a string id'')"

text \<open>
  The copy of the destination fields. An assignment to the key \<open>__proto__\<close> of a fresh object sets
  its prototype, which a string cannot be, so that entry is dropped.
\<close>

fun copy_fields :: "(string \<times> json) list \<Rightarrow> body_error + (string \<times> string) list" where
  "copy_fields [] = Inr []"
| "copy_fields ((k, v) # rest) =
     (case v of
        JStr s \<Rightarrow>
          if length s > MAX_DESTINATION_FIELD_VALUE then
            reject (''destinationFields.'' @ k)
              (''must be at most '' @ show_nat MAX_DESTINATION_FIELD_VALUE @ '' characters'')
          else (case copy_fields rest of
                  Inl e \<Rightarrow> Inl e
                | Inr fs \<Rightarrow> Inr (if k = ''__proto__'' then fs else (k, s) # fs))
      | _ \<Rightarrow> reject (''destinationFields.'' @ k) ''expected a string value'')"

definition read_destination :: "json option \<Rightarrow> body_error + (string \<times> string) list option" where
  "read_destination v =
     (case v of
        None \<Rightarrow> Inr None
      | Some (JObj df) \<Rightarrow>
          if length df > MAX_DESTINATION_FIELD_KEYS then
            reject ''destinationFields'' (''must have at most '' @ show_nat MAX_DESTINATION_FIELD_KEYS @ '' keys'')
          else map_sum id Some (copy_fields df)
      | Some _ \<Rightarrow> reject ''destinationFields''
          ''expected a flat object of string values (Record<string,string>)'')"

definition read_key :: "json option \<Rightarrow> body_error + string" where
  "read_key v =
     (case str_of v of
        None \<Rightarrow> reject ''idempotencyKey'' ''expected a string''
      | Some k \<Rightarrow>
          if \<not> IDEMPOTENCY_KEY_PATTERN k then
            reject ''idempotencyKey'' ''must be 1-128 characters of [A-Za-z0-9._:-]''
          else if length k > MAX_IDEMPOTENCY_KEY then
            reject ''idempotencyKey'' (''must be at most '' @ show_nat MAX_IDEMPOTENCY_KEY @ '' characters'')
          else Inr k)"

definition read_corridor_id :: "json option \<Rightarrow> body_error + string" where
  "read_corridor_id v =
     (case str_of v of
        None \<Rightarrow> reject ''corridorId'' ''expected a string''
      | Some c \<Rightarrow>
          if c = [] \<or> length c > MAX_CORRIDOR_ID then
            reject ''corridorId'' (''must be 1-'' @ show_nat MAX_CORRIDOR_ID @ '' characters'')
          else Inr c)"

definition read_source_amount :: "json option \<Rightarrow> body_error + money" where
  "read_source_amount v =
     (case v of
        Some (JObj o') \<Rightarrow>
          (case str_of (jfield o' ''asset'') of
             None \<Rightarrow> reject ''sourceAmount.asset'' ''expected a string''
           | Some asset \<Rightarrow>
               if asset = [] then reject ''sourceAmount.asset'' ''must not be empty''
               else case str_of (jfield o' ''amount'') of
                 None \<Rightarrow> reject ''sourceAmount.amount'' ''expected a string''
               | Some amount \<Rightarrow> Inr \<lparr>m_asset = asset, m_amount = amount\<rparr>)
      | _ \<Rightarrow> reject ''sourceAmount'' ''expected an object with asset and amount strings'')"

definition and_then :: "'e + 'a \<Rightarrow> ('a \<Rightarrow> 'e + 'b) \<Rightarrow> 'e + 'b" where
  "and_then r k = (case r of Inl e \<Rightarrow> Inl e | Inr v \<Rightarrow> k v)"

definition parsePaymentBody :: "json option \<Rightarrow> body_error + payment_intent" where
  "parsePaymentBody v =
     (case v of
        Some (JObj o') \<Rightarrow>
          (case unknown_key PAYMENT_FIELDS o' of
             Some k \<Rightarrow> reject k ''unknown field''
           | None \<Rightarrow>
               and_then (read_key (jfield o' ''idempotencyKey'')) (\<lambda>key.
               and_then (read_corridor_id (jfield o' ''corridorId'')) (\<lambda>cid.
               and_then (parseParty (jfield o' ''sender'') ''sender'') (\<lambda>s.
               and_then (parseParty (jfield o' ''recipient'') ''recipient'') (\<lambda>r.
               and_then (read_source_amount (jfield o' ''sourceAmount'')) (\<lambda>m.
               and_then (read_destination (jfield o' ''destinationFields'')) (\<lambda>df.
                 Inr \<lparr>idempotencyKey = key, corridorId = cid, sender = s, recipient = r,
                      sourceAmount = m, destinationFields = df\<rparr>)))))))
      | _ \<Rightarrow> reject ''<body>'' ''expected a JSON object'')"

definition assetMatchesCorridor :: "string \<Rightarrow> corridor \<Rightarrow> bool" where
  "assetMatchesCorridor asset c = (asset = s_asset (c_source c) \<or> asset = bridge_asset (c_settlement c))"


subsection \<open>What the parser guarantees\<close>

definition wf_party :: "party_ref \<Rightarrow> bool" where
  "wf_party p \<longleftrightarrow> p_id p \<noteq> []"

definition wf_fields :: "(string \<times> string) list \<Rightarrow> bool" where
  "wf_fields df \<longleftrightarrow> length df \<le> MAX_DESTINATION_FIELD_KEYS \<and>
     (\<forall>(k, v) \<in> set df. k \<noteq> ''__proto__'' \<and> length v \<le> MAX_DESTINATION_FIELD_VALUE)"

definition wf_intent :: "payment_intent \<Rightarrow> bool" where
  "wf_intent i \<longleftrightarrow>
     IDEMPOTENCY_KEY_PATTERN (idempotencyKey i) \<and> length (idempotencyKey i) \<le> MAX_IDEMPOTENCY_KEY \<and>
     corridorId i \<noteq> [] \<and> length (corridorId i) \<le> MAX_CORRIDOR_ID \<and>
     wf_party (sender i) \<and> wf_party (recipient i) \<and> m_asset (sourceAmount i) \<noteq> [] \<and>
     (\<forall>df. destinationFields i = Some df \<longrightarrow> wf_fields df)"

text \<open>An intent as the body a client sends.\<close>

definition opt_entry :: "string \<Rightarrow> string option \<Rightarrow> (string \<times> json) list" where
  "opt_entry k v = (case v of None \<Rightarrow> [] | Some s \<Rightarrow> [(k, JStr s)])"

definition party_json :: "party_ref \<Rightarrow> json" where
  "party_json p = JObj ([(''id'', JStr (p_id p))] @ opt_entry ''jurisdiction'' (p_jurisdiction p) @
     opt_entry ''sep12Id'' (p_sep12Id p) @ opt_entry ''anchorCustomerId'' (p_anchorCustomerId p))"

definition intent_json :: "payment_intent \<Rightarrow> json" where
  "intent_json i = JObj ([(''idempotencyKey'', JStr (idempotencyKey i)), (''corridorId'', JStr (corridorId i)),
     (''sender'', party_json (sender i)), (''recipient'', party_json (recipient i)),
     (''sourceAmount'', JObj [(''asset'', JStr (m_asset (sourceAmount i))), (''amount'', JStr (m_amount (sourceAmount i)))])] @
     (case destinationFields i of None \<Rightarrow> []
      | Some df \<Rightarrow> [(''destinationFields'', JObj (map (\<lambda>(k, v). (k, JStr v)) df))]))"

lemma reject_neq [simp]: "reject f r \<noteq> Inr v" "reject f r = Inl e \<longleftrightarrow> e = \<lparr>be_field = f, be_reason = r\<rparr>"
  by (auto simp: reject_def)

lemma and_then_Inr: "and_then r k = Inr v \<longleftrightarrow> (\<exists>x. r = Inr x \<and> k x = Inr v)"
  by (simp add: and_then_def split: sum.splits)

lemma and_then_simp [simp]: "and_then (Inr x) k = k x"
  by (simp add: and_then_def)

lemma parseParty_wf: "parseParty v f = Inr p \<Longrightarrow> wf_party p"
  by (auto simp: parseParty_def wf_party_def split: option.splits json.splits if_splits)

lemma copy_fields_wf:
  "copy_fields es = Inr fs \<Longrightarrow> length fs \<le> length es \<and>
     (\<forall>(k, v) \<in> set fs. k \<noteq> ''__proto__'' \<and> length v \<le> MAX_DESTINATION_FIELD_VALUE)"
proof (induction es arbitrary: fs)
  case (Cons e es)
  obtain k s gs where "e = (k, JStr s)" "copy_fields es = Inr gs" "\<not> MAX_DESTINATION_FIELD_VALUE < length s"
    "fs = (if k = ''__proto__'' then gs else (k, s) # gs)"
    using Cons.prems by (cases e) (auto split: json.splits if_splits sum.splits)
  then show ?case using Cons.IH [of gs] by auto
qed simp

lemma read_destination_wf: "read_destination v = Inr (Some fs) \<Longrightarrow> wf_fields fs"
  by (auto simp: read_destination_def wf_fields_def map_sum_def split: option.splits json.splits if_splits sum.splits
      dest: copy_fields_wf)

lemma read_key_wf: "read_key v = Inr k \<Longrightarrow> IDEMPOTENCY_KEY_PATTERN k \<and> length k \<le> MAX_IDEMPOTENCY_KEY"
  by (auto simp: read_key_def split: option.splits if_splits)

lemma read_corridor_id_wf: "read_corridor_id v = Inr c \<Longrightarrow> c \<noteq> [] \<and> length c \<le> MAX_CORRIDOR_ID"
  by (auto simp: read_corridor_id_def split: option.splits if_splits)

lemma read_source_amount_wf: "read_source_amount v = Inr m \<Longrightarrow> m_asset m \<noteq> []"
  by (auto simp: read_source_amount_def split: option.splits json.splits if_splits)

lemmas parsed_wf = parseParty_wf read_destination_wf read_key_wf read_corridor_id_wf read_source_amount_wf

lemma parsePaymentBody_wf: "parsePaymentBody v = Inr i \<Longrightarrow> wf_intent i"
  by (auto simp: parsePaymentBody_def and_then_Inr wf_intent_def split: option.splits json.splits dest: parsed_wf)

lemma unknown_refused:
  "(k, x) \<in> set es \<Longrightarrow> k \<notin> set PAYMENT_FIELDS \<Longrightarrow> \<exists>e. parsePaymentBody (Some (JObj es)) = Inl e"
  by (auto simp: parsePaymentBody_def unknown_key_def reject_def find_None_iff split: option.splits)

lemma copy_fields_json:
  "(\<forall>(k, v) \<in> set df. k \<noteq> ''__proto__'' \<and> length v \<le> MAX_DESTINATION_FIELD_VALUE) \<Longrightarrow>
   copy_fields (map (\<lambda>(k, v). (k, JStr v)) df) = Inr df"
  by (induction df) auto

lemma party_roundtrip: "wf_party p \<Longrightarrow> parseParty (Some (party_json p)) f = Inr p"
  by (cases p) (auto simp: parseParty_def party_json_def unknown_key_def PARTY_STRING_FIELDS_def opt_entry_def wf_party_def
      jfield_def str_of_def not_a_string_def split: option.splits)

lemma amount_roundtrip:
  "m_asset m \<noteq> [] \<Longrightarrow>
   read_source_amount (Some (JObj [(''asset'', JStr (m_asset m)), (''amount'', JStr (m_amount m))])) = Inr m"
  by (cases m) (simp add: read_source_amount_def str_of_def jfield_def)

lemma keys_known: "unknown_key PAYMENT_FIELDS (case intent_json i of JObj es \<Rightarrow> es | _ \<Rightarrow> []) = None"
  by (auto simp: intent_json_def unknown_key_def PAYMENT_FIELDS_def find_None_iff split: option.splits)

lemma body_fields:
  "jfield (case intent_json i of JObj es \<Rightarrow> es | _ \<Rightarrow> []) ''idempotencyKey'' = Some (JStr (idempotencyKey i))"
  "jfield (case intent_json i of JObj es \<Rightarrow> es | _ \<Rightarrow> []) ''corridorId'' = Some (JStr (corridorId i))"
  "jfield (case intent_json i of JObj es \<Rightarrow> es | _ \<Rightarrow> []) ''sender'' = Some (party_json (sender i))"
  "jfield (case intent_json i of JObj es \<Rightarrow> es | _ \<Rightarrow> []) ''recipient'' = Some (party_json (recipient i))"
  "jfield (case intent_json i of JObj es \<Rightarrow> es | _ \<Rightarrow> []) ''sourceAmount''
     = Some (JObj [(''asset'', JStr (m_asset (sourceAmount i))), (''amount'', JStr (m_amount (sourceAmount i)))])"
  "jfield (case intent_json i of JObj es \<Rightarrow> es | _ \<Rightarrow> []) ''destinationFields''
     = map_option (\<lambda>df. JObj (map (\<lambda>(k, v). (k, JStr v)) df)) (destinationFields i)"
  by (simp_all add: intent_json_def jfield_def split: option.splits)


lemma parses_back:
  assumes "wf_intent i"
  shows "parsePaymentBody (Some (intent_json i)) = Inr i"
proof -
  obtain es where es: "intent_json i = JObj es" by (simp add: intent_json_def)
  note fields = body_fields [of i, unfolded es, simplified] and known = keys_known [of i, unfolded es, simplified]
  have "read_destination (map_option (\<lambda>df. JObj (map (\<lambda>(k, v). (k, JStr v)) df)) (destinationFields i))
      = Inr (destinationFields i)"
    using assms by (auto simp: read_destination_def wf_intent_def wf_fields_def copy_fields_json split: option.splits)
  then show ?thesis
    using assms
    by (simp add: es parsePaymentBody_def fields known wf_intent_def party_roundtrip read_key_def read_corridor_id_def
        amount_roundtrip str_of_def)
qed

subsection \<open>Properties\<close>

text \<open>
  An accepted payment body is within every bound the service documents: the idempotency key has
  1 to 128 characters of the allowed set, the corridor id 1 to 128, both parties have an id, the
  amount names an asset, and there are at most 50 destination fields of at most 256 characters.
\<close>

theorem accepted_body_is_bounded: "parsePaymentBody v = Inr i \<Longrightarrow> wf_intent i"
  by (rule parsePaymentBody_wf)


definition demo_body_intent :: payment_intent where
  "demo_body_intent =
     \<lparr>idempotencyKey = ''pay-1'', corridorId = ''usd-brl'',
      sender = \<lparr>p_id = ''a'', p_jurisdiction = Some ''US'', p_sep12Id = None, p_anchorCustomerId = None\<rparr>,
      recipient = \<lparr>p_id = ''b'', p_jurisdiction = None, p_sep12Id = None, p_anchorCustomerId = Some ''c1''\<rparr>,
      sourceAmount = \<lparr>m_asset = ''USDC'', m_amount = ''10.5''\<rparr>,
      destinationFields = Some [(''pix_key'', ''k'')]\<rparr>"

lemma demo_body_wf: "wf_intent demo_body_intent"
  by (simp add: wf_intent_def demo_body_intent_def wf_party_def wf_fields_def IDEMPOTENCY_KEY_PATTERN_def key_char_def
      is_alnum_def is_digit_def MAX_IDEMPOTENCY_KEY_def MAX_CORRIDOR_ID_def MAX_DESTINATION_FIELD_KEYS_def
      MAX_DESTINATION_FIELD_VALUE_def)


lemma demo_body_parses:
  "parsePaymentBody (Some (intent_json demo_body_intent)) = Inr demo_body_intent"
  by code_simp

theorem accepted_body_is_bounded_witness: "wf_intent demo_body_intent"
  by (rule accepted_body_is_bounded [OF demo_body_parses])

end
