(* ===== verification/Callback.thy ===== *)
theory Callback
  imports Requests "HOL-Library.Word"
begin

section \<open>Verifying anchor callbacks (packages/service/src/index.ts)\<close>

text \<open>
  The base32 decoder of the signing key, with JavaScript's 32-bit shifts, and \<open>CallbackVerifier\<close>
  with its five-minute key cache. Fetching a stellar.toml, importing the key and checking an
  Ed25519 signature are ports or parameters.
\<close>

unbundle bit_operations_syntax

subsection \<open>Base32\<close>

definition ALPHABET :: string where
  "ALPHABET = ''ABCDEFGHIJKLMNOPQRSTUVWXYZ234567''"

text \<open>\<open>indexOf\<close> of one character: its first position, -1 when there is none.\<close>

fun position :: "char \<Rightarrow> string \<Rightarrow> nat option" where
  "position c [] = None"
| "position c (x # xs) = (if x = c then Some 0 else map_option Suc (position c xs))"

definition alphabet_index :: "char \<Rightarrow> 32 word" where
  "alphabet_index c = (case position c ALPHABET of Some i \<Rightarrow> of_nat i | None \<Rightarrow> - 1)"

text \<open>The loop over the characters: \<open>bits\<close> and \<open>val\<close> are its variables, the result the bytes written.\<close>

fun base32_loop :: "nat \<Rightarrow> 32 word \<Rightarrow> string \<Rightarrow> 8 word list" where
  "base32_loop bits val [] = []"
| "base32_loop bits val (c # cs) =
     (if c = CHR ''='' then []
      else let val' = push_bit 5 val OR alphabet_index c; bits' = bits + 5
        in if bits' \<ge> 8
           then ucast (drop_bit (bits' - 8) val' AND 255) # base32_loop (bits' - 8) val' cs
           else base32_loop bits' val' cs)"

definition decodeBase32 :: "string \<Rightarrow> 8 word list" where
  "decodeBase32 s = base32_loop 0 0 s"

text \<open>
  The reference: each character contributes its five bits, most significant first, and the bits are
  read as bytes; up to seven bits are left over.
\<close>

definition bits_of :: "nat \<Rightarrow> 'a::len word \<Rightarrow> bool list" where
  "bits_of n w = map (bit w) (rev [0..<n])"

fun octets :: "bool list \<Rightarrow> 8 word list" where
  "octets (a # b # c # d # e # f # g # h # rest) = horner_sum of_bool 2 [h, g, f, e, d, c, b, a] # octets rest"
| "octets _ = []"

definition reference_base32 :: "string \<Rightarrow> 8 word list" where
  "reference_base32 s = octets (concat (map (\<lambda>c. bits_of 5 (alphabet_index c)) s))"

definition base32_text :: "string \<Rightarrow> bool" where
  "base32_text s \<longleftrightarrow> set s \<subseteq> set ALPHABET"

lemma length_bits_of [simp]: "length (bits_of n w) = n"
  by (simp add: bits_of_def)

lemma position_less: "position c xs = Some i \<Longrightarrow> i < length xs"
  by (induction xs arbitrary: i) (auto split: if_splits)

lemma position_member: "c \<in> set xs \<Longrightarrow> \<exists>i. position c xs = Some i"
  by (induction xs) auto

lemma length_ALPHABET: "length ALPHABET = 32"
  by (simp add: ALPHABET_def)

lemma index_less: "c \<in> set ALPHABET \<Longrightarrow> \<exists>i < 32. alphabet_index c = of_nat i"
proof -
  assume "c \<in> set ALPHABET"
  then obtain i where i: "position c ALPHABET = Some i" using position_member by blast
  then have "i < 32" using position_less length_ALPHABET by metis
  then show ?thesis using i by (auto simp: alphabet_index_def)
qed

lemma index_high_bits: "c \<in> set ALPHABET \<Longrightarrow> 5 \<le> k \<Longrightarrow> \<not> bit (alphabet_index c) k"
proof -
  assume "c \<in> set ALPHABET" "5 \<le> k"
  then obtain i :: nat where i: "i < 32" "alphabet_index c = of_nat i" using index_less by blast
  then have "take_bit 5 i = i" by (simp add: take_bit_nat_eq_self_iff)
  then have "\<not> bit i k" using \<open>5 \<le> k\<close> by (metis bit_take_bit_iff not_less)
  then show ?thesis by (simp add: i bit_simps)
qed

lemma rev_upt_split: "rev [0..<m + n] = map (\<lambda>i. i + m) (rev [0..<n]) @ rev [0..<m]"
  by (induction n) (simp_all add: add.commute)

lemma bits_of_split: "bits_of (m + n) w = bits_of n (drop_bit m w) @ bits_of m w"
  by (simp add: bits_of_def rev_upt_split bit_simps add.commute)

text \<open>
  Shifting five new bits in: the pending bits grow by those of the character. Older bits above
  position 31 are lost, but at most twelve are ever read.
\<close>

lemma bits_of_append:
  assumes "c \<in> set ALPHABET" and "5 + n \<le> 32"
  shows "bits_of (5 + n) (push_bit 5 val OR alphabet_index c) = bits_of n val @ bits_of 5 (alphabet_index c)"
  using assms by (auto simp: bits_of_def rev_upt_split bit_simps index_high_bits)

lemma octets_bits_of:
  fixes w :: "32 word"
  shows "octets (bits_of 8 w @ rest) = ucast (w AND 255) # octets rest"
proof -
  have "rev [0..<8] = [7, 6, 5, 4, 3, 2, 1, 0 :: nat]" by code_simp
  then have "octets (bits_of 8 w @ rest) = horner_sum of_bool 2 (map (bit w) [0, 1, 2, 3, 4, 5, 6, 7]) # octets rest"
    by (simp add: bits_of_def)
  also have "[0, 1, 2, 3, 4, 5, 6, 7] = [0..<8 :: nat]" by code_simp
  also have "horner_sum of_bool 2 (map (bit w) [0..<8]) = (ucast (w AND mask 8) :: 8 word)"
    by (rule bit_eqI) (auto simp: bit_horner_sum_bit_iff bit_simps)
  also have "mask 8 = (255 :: 32 word)" by (simp add: mask_eq_exp_minus_1)
  finally show ?thesis .
qed

lemma octets_short: "length bs < 8 \<Longrightarrow> octets bs = []"
  by (cases bs rule: octets.cases) auto

lemma alphabet_no_pad: "c \<in> set ALPHABET \<Longrightarrow> c \<noteq> CHR ''=''"
  by (auto simp: ALPHABET_def)

lemma base32_loop_octets:
  assumes "base32_text s" and "bits < 8"
  shows "base32_loop bits val s = octets (bits_of bits val @ concat (map (\<lambda>c. bits_of 5 (alphabet_index c)) s))"
  using assms
proof (induction s arbitrary: bits val)
  case Nil
  then show ?case by (simp add: octets_short)
next
  case (Cons c cs)
  let ?val = "push_bit 5 val OR alphabet_index c"
  let ?rest = "concat (map (\<lambda>c. bits_of 5 (alphabet_index c)) cs)"
  from Cons.prems have c: "c \<in> set ALPHABET" and cs: "base32_text cs" by (simp_all add: base32_text_def)
  have step: "bits_of bits val @ bits_of 5 (alphabet_index c) @ ?rest = bits_of (5 + bits) ?val @ ?rest"
    using bits_of_append [OF c, of bits val] Cons.prems(2) by simp
  show ?case
  proof (cases "8 \<le> bits + 5")
    case True
    then have split: "bits_of (5 + bits) ?val = bits_of 8 (drop_bit (bits - 3) ?val) @ bits_of (bits - 3) ?val"
      using bits_of_split [of "bits - 3" 8 ?val] by simp
    have "octets (bits_of bits val @ bits_of 5 (alphabet_index c) @ ?rest) =
        ucast (drop_bit (bits - 3) ?val AND 255) # octets (bits_of (bits - 3) ?val @ ?rest)"
      unfolding step split by (simp only: append_assoc octets_bits_of)
    moreover have "bits - 3 < 8" "bits + 5 - 8 = bits - 3" using True Cons.prems(2) by simp_all
    ultimately show ?thesis
      using Cons.IH [OF cs, of "bits - 3" ?val] True c by (simp add: alphabet_no_pad Let_def)
  next
    case False
    then show ?thesis
      using Cons.IH [OF cs, of "bits + 5" ?val] c unfolding add.commute [of bits 5] step [symmetric]
      by (simp add: alphabet_no_pad Let_def add.commute)
  qed
qed

text \<open>What follows the first padding character is ignored.\<close>

lemma base32_loop_pad: "base32_text s \<Longrightarrow> base32_loop bits val (s @ CHR ''='' # t) = base32_loop bits val s"
  by (induction s arbitrary: bits val) (auto simp: base32_text_def Let_def alphabet_no_pad)


lemma octets_length: "length (octets bs) = length bs div 8"
proof (induction bs rule: octets.induct)
  case (1 a b c d e f g h rest)
  then show ?case by (simp add: div_add_self1 [symmetric])
qed simp_all

lemma base32_length: "base32_text s \<Longrightarrow> length (decodeBase32 s) = 5 * length s div 8"
  by (simp add: decodeBase32_def base32_loop_octets octets_length length_concat comp_def sum_list_triv mult.commute)

subsection \<open>The signing key of a home domain\<close>

definition line_end :: "char \<Rightarrow> bool" where
  "line_end c = (c = CHR 0x0A \<or> c = CHR 0x0D)"

text \<open>\<open>SIGNING_KEY\s*=\s*"([^"]+)"\<close> at the start of the text: the group.\<close>

definition match_signing_key :: "string \<Rightarrow> string option" where
  "match_signing_key s =
     (if \<not> starts_with ''SIGNING_KEY'' s then None
      else case dropWhile is_ws (drop 11 s) of
        [] \<Rightarrow> None
      | c # s1 \<Rightarrow>
          if c \<noteq> CHR ''='' then None
          else (case dropWhile is_ws s1 of
                  [] \<Rightarrow> None
                | q # s2 \<Rightarrow>
                    if q \<noteq> CHR 0x22 then None
                    else let v = takeWhile (\<lambda>x. x \<noteq> CHR 0x22) s2
                      in if v \<noteq> [] \<and> length v < length s2 then Some v else None))"

text \<open>With the \<open>m\<close> flag the pattern may start at any line.\<close>

fun find_signing_key :: "bool \<Rightarrow> string \<Rightarrow> string option" where
  "find_signing_key line_start [] = None"
| "find_signing_key line_start (c # cs) =
     (case (if line_start then match_signing_key (c # cs) else None) of
        Some v \<Rightarrow> Some v
      | None \<Rightarrow> find_signing_key (line_end c) cs)"

definition DER_PREFIX :: "8 word list" where
  "DER_PREFIX = [0x30, 0x2a, 0x30, 0x05, 0x06, 0x03, 0x2b, 0x65, 0x70, 0x03, 0x21, 0x00]"

text \<open>\<open>subarray(1, 33)\<close>: the key bytes without the version byte and the checksum.\<close>

definition key_der :: "string \<Rightarrow> 8 word list" where
  "key_der strkey = DER_PREFIX @ take 32 (drop 1 (decodeBase32 strkey))"

subsection \<open>The verifier\<close>

datatype toml_answer = TomlRejected | TomlNotOk | TomlUnreadable | TomlText string

record ('e, 'k) verifier =
  vf_fetch :: "string \<Rightarrow> ('e, toml_answer) port"
  vf_import :: "8 word list \<Rightarrow> 'k option"                   \<comment> \<open>\<open>None\<close>: \<open>createPublicKey\<close> threw\<close>
  vf_check :: "'k \<Rightarrow> string \<Rightarrow> string \<Rightarrow> bool option"   \<comment> \<open>\<open>None\<close>: \<open>crypto.verify\<close> threw\<close>
  vf_now :: "('e, int) port"

record 'k cached_key =
  ck_key :: 'k
  ck_expires :: int

type_synonym 'k key_cache = "(string \<times> 'k cached_key) list"

definition KEY_TTL_MS :: int where
  "KEY_TTL_MS = 5 * 60000"

definition read_key_of :: "('e, 'k) verifier \<Rightarrow> toml_answer \<Rightarrow> 'k option" where
  "read_key_of vf a =
     (case a of
        TomlText text \<Rightarrow>
          (case find_signing_key True text of
             None \<Rightarrow> None
           | Some strkey \<Rightarrow> vf_import vf (key_der strkey))
      | _ \<Rightarrow> None)"

definition fetch_key ::
  "('e, 'k) verifier \<Rightarrow> string \<Rightarrow> int \<Rightarrow> ('e \<times> 'k key_cache, 'k option) port" where
  "fetch_key vf homeDomain now s =
     (case s of (e, keys) \<Rightarrow>
      case vf_fetch vf homeDomain e of (a, e') \<Rightarrow>
        (case read_key_of vf a of
           None \<Rightarrow> (None, (e', keys))
         | Some k \<Rightarrow> (Some k, (e', AList.update homeDomain \<lparr>ck_key = k, ck_expires = now + KEY_TTL_MS\<rparr> keys))))"

definition current_key ::
  "('e, 'k) verifier \<Rightarrow> string \<Rightarrow> ('e \<times> 'k key_cache, 'k option) port" where
  "current_key vf homeDomain s =
     (case s of (e, keys) \<Rightarrow>
      case vf_now vf e of (now, e1) \<Rightarrow>
        (case map_of keys homeDomain of
           None \<Rightarrow> fetch_key vf homeDomain now (e1, keys)
         | Some cached \<Rightarrow>
             if ck_expires cached < now then fetch_key vf homeDomain now (e1, keys)
             else (Some (ck_key cached), (e1, keys))))"

definition verify ::
  "('e, 'k) verifier \<Rightarrow> string \<Rightarrow> string \<Rightarrow> string \<Rightarrow> ('e \<times> 'k key_cache, bool) port" where
  "verify vf homeDomain payload signature s =
     (case current_key vf homeDomain s of
        (None, s') \<Rightarrow> (False, s')
      | (Some k, s') \<Rightarrow> (case vf_check vf k payload signature of Some b \<Rightarrow> b | None \<Rightarrow> False, s'))"

subsection \<open>The signature header\<close>

definition split_signature :: "string \<Rightarrow> string \<times> string" where
  "split_signature h =
     (case index_of '','' h of
        None \<Rightarrow> ('''', '''')
      | Some i \<Rightarrow> (js_trim (take i h), js_trim (drop (Suc i) h)))"

definition MAX_SIGNATURE_HEADER :: nat where "MAX_SIGNATURE_HEADER = 2048"

text \<open>The timestamp as written and the signature, or \<open>None\<close>: invalid format.\<close>

definition parse_signature :: "string \<Rightarrow> (string \<times> string) option" where
  "parse_signature h =
     (case split_signature h of (tPart, sPart) \<Rightarrow>
      if \<not> starts_with ''t='' tPart \<or> \<not> starts_with ''s='' sPart \<or> length h > MAX_SIGNATURE_HEADER then None
      else let tStr = drop 2 tPart; s = drop 2 sPart in
        if \<not> (1 \<le> length tStr \<and> length tStr \<le> 15 \<and> list_all is_digit tStr) \<or> s = [] then None
        else Some (tStr, s))"

definition MAX_SKEW_S :: int where "MAX_SKEW_S = 120"

definition timestamp_ok :: "int \<Rightarrow> string \<Rightarrow> bool" where
  "timestamp_ok now tStr = (\<not> \<bar>now div 1000 - int (nat_of_digits tStr)\<bar> > MAX_SKEW_S)"

subsection \<open>What the verifier guarantees\<close>

text \<open>Every cached key was read from a stellar.toml of its domain.\<close>

definition cache_ok :: "('e, 'k) verifier \<Rightarrow> 'k key_cache \<Rightarrow> bool" where
  "cache_ok vf keys \<longleftrightarrow> (\<forall>d c. map_of keys d = Some c \<longrightarrow>
     (\<exists>e text strkey. fst (vf_fetch vf d e) = TomlText text \<and> find_signing_key True text = Some strkey \<and>
        vf_import vf (key_der strkey) = Some (ck_key c)))"

definition published :: "('e, 'k) verifier \<Rightarrow> string \<Rightarrow> 'k \<Rightarrow> bool" where
  "published vf d k \<longleftrightarrow> (\<exists>e text strkey. fst (vf_fetch vf d e) = TomlText text \<and>
     find_signing_key True text = Some strkey \<and> vf_import vf (key_der strkey) = Some k)"

lemma read_key_published: "read_key_of vf (fst (vf_fetch vf d e)) = Some k \<Longrightarrow> published vf d k"
  by (auto simp: read_key_of_def published_def split: toml_answer.splits option.splits)

lemma cache_ok_iff: "cache_ok vf keys \<longleftrightarrow> (\<forall>d c. map_of keys d = Some c \<longrightarrow> published vf d (ck_key c))"
  by (simp add: cache_ok_def published_def)

lemma fetch_key_ok:
  assumes "fetch_key vf d now (e, keys) = (k, e', keys')" and "cache_ok vf keys"
  shows "cache_ok vf keys' \<and> (\<forall>x. k = Some x \<longrightarrow> published vf d x)"
proof -
  obtain a where a: "vf_fetch vf d e = (a, e')" and k: "k = read_key_of vf a"
    and keys': "keys' = (case k of None \<Rightarrow> keys | Some x \<Rightarrow> AList.update d \<lparr>ck_key = x, ck_expires = now + KEY_TTL_MS\<rparr> keys)"
    using assms(1) by (auto simp: fetch_key_def split: prod.splits option.splits)
  have p: "published vf d x" if "k = Some x" for x
    using read_key_published [of vf d e x] that a k by simp
  with assms(2) show ?thesis
    by (cases k) (auto simp: cache_ok_iff keys' AList.update_conv')
qed

lemma current_key_ok:
  assumes "current_key vf d (e, keys) = (k, e', keys')" and "cache_ok vf keys"
  shows "cache_ok vf keys' \<and> (\<forall>x. k = Some x \<longrightarrow> published vf d x)"
proof -
  obtain now e1 where now: "vf_now vf e = (now, e1)" by (cases "vf_now vf e")
  consider c where "map_of keys d = Some c" "k = Some (ck_key c)" "keys' = keys"
    | "fetch_key vf d now (e1, keys) = (k, e', keys')"
    using assms(1) now by (auto simp: current_key_def split: option.splits if_splits)
  then show ?thesis
  proof cases
    case 1
    then show ?thesis using assms(2) by (simp add: cache_ok_iff)
  next
    case 2
    then show ?thesis by (rule fetch_key_ok [OF _ assms(2)])
  qed
qed

lemma verify_published:
  assumes "verify vf d payload sig (e, keys) = (True, s')" and "cache_ok vf keys"
  shows "\<exists>k. published vf d k \<and> vf_check vf k payload sig = Some True"
proof -
  obtain e' keys' where s': "s' = (e', keys')" by (cases s')
  with assms(1) obtain k where "current_key vf d (e, keys) = (Some k, e', keys')" "vf_check vf k payload sig = Some True"
    by (auto simp: verify_def split: prod.splits option.splits)
  with current_key_ok [OF _ assms(2)] show ?thesis by blast
qed

lemma verify_cache: "verify vf d payload sig (e, keys) = (b, e', keys') \<Longrightarrow> cache_ok vf keys \<Longrightarrow> cache_ok vf keys'"
  using current_key_ok [of vf d e keys] by (auto simp: verify_def split: prod.splits option.splits)

subsection \<open>Properties\<close>

text \<open>
  On text over the base32 alphabet the decoder, for all that its accumulator overflows 32 bits
  after seven characters, yields the bytes of the concatenated five-bit groups, and it ignores what
  follows the first padding character.
\<close>

theorem base32_decodes:
  assumes "base32_text s"
  shows "decodeBase32 s = reference_base32 s \<and> decodeBase32 (s @ CHR ''='' # t) = reference_base32 s"
  using base32_loop_octets [OF assms, of 0 0]
  by (simp add: decodeBase32_def reference_base32_def base32_loop_pad [OF assms] bits_of_def)

theorem base32_decodes_witness:
  "decodeBase32 ''GAAZI4TCR3TY5OJH'' = reference_base32 ''GAAZI4TCR3TY5OJH'' \<and>
   decodeBase32 (''GAAZI4TCR3TY5OJH'' @ CHR ''='' # ''A'') = reference_base32 ''GAAZI4TCR3TY5OJH''"
  by (rule base32_decodes) (simp add: base32_text_def ALPHABET_def)

end
