(* ===== verification/RateLimit.thy ===== *)
theory RateLimit
  imports Adapter Complex_Main "HOL-Library.AList"
begin

section \<open>Rate limiting (packages/service/src)\<close>

text \<open>
  The in-process token bucket with its eviction, the Redis token bucket with the script it runs
  inside Redis, and one contract for both: how many tokens a client has left at a time. The code
  counts tokens in floating point numbers (and the script prints them with 14 digits); the model
  counts in rationals, so rounding is not modelled. Times are milliseconds.
\<close>

subsection \<open>Options and buckets\<close>

record rate_options =
  rl_capacity :: rat
  rl_refillPerSec :: rat

record bucket =
  bk_tokens :: rat
  bk_last :: int

text \<open>What has been refilled after \<open>d\<close> milliseconds.\<close>

definition refill :: "rate_options \<Rightarrow> int \<Rightarrow> rat" where
  "refill ro d = of_int d / 1000 * rl_refillPerSec ro"

definition fresh_bucket :: "rate_options \<Rightarrow> int \<Rightarrow> bucket" where
  "fresh_bucket ro t = \<lparr>bk_tokens = rl_capacity ro, bk_last = t\<rparr>"

text \<open>Refill a bucket at time \<open>t\<close> and take one token if there is one.\<close>

definition refill_and_take :: "rate_options \<Rightarrow> int \<Rightarrow> bucket \<Rightarrow> bool \<times> bucket" where
  "refill_and_take ro t b =
     (let tokens = min (rl_capacity ro) (bk_tokens b + refill ro (t - bk_last b));
          allowed = (tokens \<ge> 1)
      in (allowed, \<lparr>bk_tokens = (if allowed then tokens - 1 else tokens), bk_last = t\<rparr>))"

subsection \<open>The in-process bucket\<close>

record token_bucket =
  tb_opts :: rate_options
  tb_fullRefillMs :: "rat option"                \<comment> \<open>\<open>None\<close>: Infinity\<close>
  tb_lastSweep :: int
  tb_state :: "(string \<times> bucket) list"

definition new_token_bucket :: "rate_options \<Rightarrow> token_bucket" where
  "new_token_bucket ro =
     \<lparr>tb_opts = ro,
      tb_fullRefillMs = (if rl_refillPerSec ro > 0 then Some (rl_capacity ro / rl_refillPerSec ro * 1000) else None),
      tb_lastSweep = 0, tb_state = []\<rparr>"

definition evictFullyRefilled :: "int \<Rightarrow> token_bucket \<Rightarrow> token_bucket" where
  "evictFullyRefilled t tb =
     (case tb_fullRefillMs tb of
        None \<Rightarrow> tb
      | Some full \<Rightarrow>
          if of_int (t - tb_lastSweep tb) < full then tb
          else tb\<lparr>tb_lastSweep := t,
                  tb_state := filter (\<lambda>(k, s). \<not> of_int (t - bk_last s) \<ge> full) (tb_state tb)\<rparr>)"

definition take_token :: "string \<Rightarrow> int \<Rightarrow> token_bucket \<Rightarrow> bool \<times> token_bucket" where
  "take_token key t tb0 =
     (let tb = evictFullyRefilled t tb0;
          s = (case map_of (tb_state tb) key of Some s \<Rightarrow> s | None \<Rightarrow> fresh_bucket (tb_opts tb) t);
          (allowed, s') = refill_and_take (tb_opts tb) t s
      in (allowed, tb\<lparr>tb_state := AList.update key s' (tb_state tb)\<rparr>))"

subsection \<open>The Redis bucket\<close>

text \<open>
  What Redis keeps for a key: the hash fields the script writes and the moment after which the
  key is gone (\<open>None\<close> when \<open>PEXPIRE\<close> was never called). A key past its expiry reads as absent.
\<close>

record redis_hash =
  rh_bucket :: bucket
  rh_expireAt :: "int option"

type_synonym redis_db = "(string \<times> redis_hash) list"

definition redis_live :: "int \<Rightarrow> redis_hash \<Rightarrow> bool" where
  "redis_live t h = (case rh_expireAt h of None \<Rightarrow> True | Some e \<Rightarrow> t \<le> e)"

definition hmget :: "string \<Rightarrow> int \<Rightarrow> redis_db \<Rightarrow> bucket option" where
  "hmget key t db =
     (case map_of db key of None \<Rightarrow> None | Some h \<Rightarrow> if redis_live t h then Some (rh_bucket h) else None)"

text \<open>\<open>TOKEN_BUCKET_LUA\<close>, run at the Redis clock \<open>t\<close>: its reply and the new database.\<close>

definition token_bucket_script :: "rate_options \<Rightarrow> string \<Rightarrow> int \<Rightarrow> redis_db \<Rightarrow> bool \<times> redis_db" where
  "token_bucket_script ro key t db =
     (let s = (case hmget key t db of Some s \<Rightarrow> s | None \<Rightarrow> fresh_bucket ro t);
          (allowed, s') = refill_and_take ro t s;
          kept = (case hmget key t db of Some _ \<Rightarrow> Option.bind (map_of db key) rh_expireAt | None \<Rightarrow> None)
      in (allowed, AList.update key
            \<lparr>rh_bucket = s',
             rh_expireAt = (if rl_refillPerSec ro > 0
                            then Some (t + \<lceil>rl_capacity ro / rl_refillPerSec ro * 1000\<rceil>) else kept)\<rparr> db))"

text \<open>
  The client side: what \<open>eval\<close> replied is truth only as the number 1, the text 1 or \<open>true\<close>; a
  rejected call answers by the configured policy.
\<close>

datatype redis_reply = ReplyInt int | ReplyText string | ReplyBool bool | ReplyOther

datatype on_error = FailClosed | FailOpen

definition reply_allows :: "redis_reply \<Rightarrow> bool" where
  "reply_allows r = (r = ReplyInt 1 \<or> r = ReplyText ''1'' \<or> r = ReplyBool True)"

definition redis_take ::
  "(string \<Rightarrow> rate_options \<Rightarrow> ('e, string + redis_reply) port) \<Rightarrow> rate_options \<Rightarrow> on_error \<Rightarrow> string \<Rightarrow> string \<Rightarrow> ('e, bool) port" where
  "redis_take eval_script ro policy prefix key e =
     (case eval_script (prefix @ key) ro e of
        (Inr reply, e') \<Rightarrow> (reply_allows reply, e')
      | (Inl _, e') \<Rightarrow> (policy = FailOpen, e'))"

text \<open>The script behind \<open>eval\<close>, with its clock.\<close>

record redis_server =
  rs_clock :: int
  rs_db :: redis_db

definition redis_eval :: "string \<Rightarrow> rate_options \<Rightarrow> (redis_server, string + redis_reply) port" where
  "redis_eval key ro s =
     (let (allowed, db) = token_bucket_script ro key (rs_clock s) (rs_db s)
      in (Inr (ReplyInt (if allowed then 1 else 0)), s\<lparr>rs_db := db\<rparr>))"

lemma redis_take_script:
  "redis_take redis_eval ro policy prefix key s =
     (let (allowed, db) = token_bucket_script ro (prefix @ key) (rs_clock s) (rs_db s) in (allowed, s\<lparr>rs_db := db\<rparr>))"
  by (simp add: redis_take_def redis_eval_def reply_allows_def Let_def split: prod.splits)


subsection \<open>The contract of a limiter\<close>

text \<open>
  The tokens a client has at time \<open>t\<close>. A limiter answers yes exactly when there is one to take,
  takes one from that client only, and refills at the configured rate up to the capacity.
\<close>

definition grown :: "rate_options \<Rightarrow> int \<Rightarrow> rat \<Rightarrow> rat" where
  "grown ro d x = min (rl_capacity ro) (x + refill ro d)"

definition sane :: "rate_options \<Rightarrow> bool" where
  "sane ro \<longleftrightarrow> 0 \<le> rl_capacity ro \<and> 0 \<le> rl_refillPerSec ro"

text \<open>Requests \<open>(client, time)\<close> served one after another, and the reference answers.\<close>

fun serve :: "(string \<Rightarrow> int \<Rightarrow> 's \<Rightarrow> bool \<times> 's) \<Rightarrow> 's \<Rightarrow> (string \<times> int) list \<Rightarrow> bool list" where
  "serve tk s [] = []"
| "serve tk s ((k, t) # rs) = (case tk k t s of (a, s') \<Rightarrow> a # serve tk s' rs)"

fun reference_answers :: "rate_options \<Rightarrow> (string \<Rightarrow> rat) \<Rightarrow> int \<Rightarrow> (string \<times> int) list \<Rightarrow> bool list" where
  "reference_answers ro l c [] = []"
| "reference_answers ro l c ((k, t) # rs) =
     (let l' = (\<lambda>x. grown ro (t - c) (l x)); a = (1 \<le> l' k)
      in a # reference_answers ro (l'(k := l' k - (if a then 1 else 0))) t rs)"

fun timed_from :: "int \<Rightarrow> (string \<times> int) list \<Rightarrow> bool" where
  "timed_from c [] \<longleftrightarrow> True"
| "timed_from c ((k, t) # rs) \<longleftrightarrow> c \<le> t \<and> timed_from t rs"

definition end_time :: "int \<Rightarrow> (string \<times> int) list \<Rightarrow> int" where
  "end_time c rs = (if rs = [] then c else snd (last rs))"

definition allowed_count :: "string \<Rightarrow> (string \<times> int) list \<Rightarrow> bool list \<Rightarrow> nat" where
  "allowed_count k rs as = length (filter (\<lambda>((k', t), a). k' = k \<and> a) (zip rs as))"

lemma refill_add: "refill ro a + refill ro b = refill ro (a + b)"
  by (simp add: refill_def algebra_simps add_divide_distrib)

lemma refill_0 [simp]: "refill ro 0 = 0"
  by (simp add: refill_def)

lemma refill_nonneg: "sane ro \<Longrightarrow> 0 \<le> d \<Longrightarrow> 0 \<le> refill ro d"
  by (simp add: refill_def sane_def)

lemma end_time_Cons [simp]: "end_time c ((k, t) # rs) = end_time t rs"
  by (simp add: end_time_def)

lemma end_time_Nil [simp]: "end_time c [] = c"
  by (simp add: end_time_def)

lemma timed_from_end: "timed_from c rs \<Longrightarrow> c \<le> end_time c rs"
proof (induction rs arbitrary: c)
  case (Cons r rs)
  then show ?case by (cases r) (auto intro: order_trans)
qed (simp add: end_time_def)

lemma allowed_count_Cons [simp]:
  "allowed_count k ((k', t) # rs) (a # as) = (if k' = k \<and> a then 1 else 0) + allowed_count k rs as"
  by (simp add: allowed_count_def)

lemma allowed_count_Nil [simp]: "allowed_count k [] as = 0"
  by (simp add: allowed_count_def)

locale rate_limiter =
  fixes tk :: "string \<Rightarrow> int \<Rightarrow> 's \<Rightarrow> bool \<times> 's"
    and opts :: "'s \<Rightarrow> rate_options"
    and level :: "'s \<Rightarrow> string \<Rightarrow> int \<Rightarrow> rat"
    and inv :: "int \<Rightarrow> 's \<Rightarrow> bool"
  assumes take_keeps: "inv c s \<Longrightarrow> c \<le> t \<Longrightarrow> tk k t s = (a, s') \<Longrightarrow> inv t s' \<and> opts s' = opts s"
    and take_answer: "inv c s \<Longrightarrow> c \<le> t \<Longrightarrow> tk k t s = (a, s') \<Longrightarrow> a \<longleftrightarrow> 1 \<le> level s k t"
    and take_level: "inv c s \<Longrightarrow> c \<le> t \<Longrightarrow> tk k t s = (a, s') \<Longrightarrow>
       level s' k' t = level s k' t - (if k' = k \<and> a then 1 else 0)"
    and level_grows: "inv c s \<Longrightarrow> c \<le> t \<Longrightarrow> t \<le> t' \<Longrightarrow> level s k t' = grown (opts s) (t' - t) (level s k t)"
    and sane_opts: "inv c s \<Longrightarrow> sane (opts s)"
    and level_bounded: "inv c s \<Longrightarrow> c \<le> t \<Longrightarrow> level s k t \<le> rl_capacity (opts s)"
begin

lemma serve_reference:
  assumes "inv c s" and "timed_from c rs"
  shows "serve tk s rs = reference_answers (opts s) (\<lambda>k. level s k c) c rs"
  using assms
proof (induction rs arbitrary: c s)
  case (Cons r rs)
  obtain k t where r: "r = (k, t)" by (cases r)
  obtain a s' where s': "tk k t s = (a, s')" by (cases "tk k t s")
  from Cons.prems r have le: "c \<le> t" and rs: "timed_from t rs" by simp_all
  note keeps = take_keeps [OF Cons.prems(1) le s'] and answer = take_answer [OF Cons.prems(1) le s']
    and levels = take_level [OF Cons.prems(1) le s'] and grows = level_grows [OF Cons.prems(1) order_refl le]
  have l: "(\<lambda>x. grown (opts s) (t - c) (level s x c)) = (\<lambda>x. level s x t)" by (simp add: grows)
  have "(\<lambda>k'. level s' k' t) = (\<lambda>x. level s x t)(k := level s k t - (if a then 1 else 0))"
    using levels by auto
  then show ?case using Cons.IH [OF conjunct1 [OF keeps] rs] keeps answer
    by (simp add: r s' l [symmetric] Let_def cong: if_cong) (simp add: grows)
qed simp

lemma serve_bound:
  assumes "inv c s" and "timed_from c rs"
  shows "of_nat (allowed_count k rs (serve tk s rs)) \<le> max 0 (level s k c) + refill (opts s) (end_time c rs - c)"
  using assms
proof (induction rs arbitrary: c s)
  case (Cons r rs)
  obtain k' t where r: "r = (k', t)" by (cases r)
  obtain a s' where s': "tk k' t s = (a, s')" by (cases "tk k' t s")
  from Cons.prems r have le: "c \<le> t" and rs: "timed_from t rs" by simp_all
  note keeps = take_keeps [OF Cons.prems(1) le s']
  have IH: "of_nat (allowed_count k rs (serve tk s' rs)) \<le> max 0 (level s' k t) + refill (opts s) (end_time t rs - t)"
    using Cons.IH [of t s'] keeps rs by simp
  have le0: "0 \<le> refill (opts s) (t - c)"
    using refill_nonneg [OF sane_opts [OF Cons.prems(1)]] le by simp
  have t: "level s k t \<le> level s k c + refill (opts s) (t - c)"
    by (simp add: level_grows [OF Cons.prems(1) order_refl le] grown_def)
  have "max 0 (level s' k t) + (if k' = k \<and> a then 1 else 0) \<le> max 0 (level s k c) + refill (opts s) (t - c)"
    using take_level [OF Cons.prems(1) le s', of k] take_answer [OF Cons.prems(1) le s'] t le0 by auto
  moreover have "refill (opts s) (t - c) + refill (opts s) (end_time t rs - t) = refill (opts s) (end_time t rs - c)"
    by (simp add: refill_add)
  moreover have "rat_of_nat (allowed_count k (r # rs) (serve tk s (r # rs))) =
      (if k' = k \<and> a then 1 else 0) + of_nat (allowed_count k rs (serve tk s' rs))"
    by (simp add: r s')
  ultimately have "rat_of_nat (allowed_count k (r # rs) (serve tk s (r # rs)))
      \<le> max 0 (level s k c) + refill (opts s) (end_time t rs - c)"
    using IH by linarith
  then show ?case by (simp add: r)
qed simp

lemma burst_bound:
  assumes "inv c s" and "timed_from c rs"
  shows "of_nat (allowed_count k rs (serve tk s rs)) \<le> rl_capacity (opts s) + refill (opts s) (end_time c rs - c)"
  using serve_bound [OF assms, of k] level_bounded [OF assms(1) order_refl, of k] sane_opts [OF assms(1)]
  by (simp add: sane_def max_def split: if_splits)

end


subsection \<open>Both limiters meet the contract\<close>

definition bucket_level :: "rate_options \<Rightarrow> bucket option \<Rightarrow> int \<Rightarrow> rat" where
  "bucket_level ro b t =
     (case b of None \<Rightarrow> rl_capacity ro | Some b \<Rightarrow> grown ro (t - bk_last b) (bk_tokens b))"

definition bucket_ok :: "int \<Rightarrow> bucket \<Rightarrow> bool" where
  "bucket_ok c b \<longleftrightarrow> bk_last b \<le> c \<and> 0 \<le> bk_tokens b"

lemma level_fresh: "sane ro \<Longrightarrow> bucket_level ro (Some (fresh_bucket ro t)) t = rl_capacity ro"
  by (simp add: bucket_level_def fresh_bucket_def grown_def)

lemma level_some_grows:
  "sane ro \<Longrightarrow> t \<le> t' \<Longrightarrow> bucket_level ro b t' = grown ro (t' - t) (bucket_level ro b t)"
proof (cases b)
  case (Some x)
  assume "sane ro" "t \<le> t'"
  then have "refill ro (t' - bk_last x) = refill ro (t - bk_last x) + refill ro (t' - t)" "0 \<le> refill ro (t' - t)"
    by (simp_all add: refill_add refill_nonneg)
  then show ?thesis by (auto simp: bucket_level_def grown_def Some)
qed (simp add: bucket_level_def grown_def refill_nonneg)

lemma level_le_capacity: "bucket_level ro b t \<le> rl_capacity ro"
  by (simp add: bucket_level_def grown_def split: option.splits)

text \<open>One step on the bucket of the client itself.\<close>

lemma refill_and_take_level:
  assumes "refill_and_take ro t b = (a, b')"
  shows "(a \<longleftrightarrow> 1 \<le> bucket_level ro (Some b) t) \<and>
     bucket_level ro (Some b') t = bucket_level ro (Some b) t - (if a then 1 else 0)"
  using assms by (auto simp: refill_and_take_def bucket_level_def grown_def Let_def)

lemma refill_and_take_ok:
  assumes "refill_and_take ro t b = (a, b')" and "bucket_ok c b" and "sane ro" and "c \<le> t"
  shows "bucket_ok t b'"
  using assms refill_nonneg [of ro "t - bk_last b"]
  by (auto simp: refill_and_take_def bucket_ok_def sane_def Let_def)

lemma fresh_ok: "sane ro \<Longrightarrow> c \<le> t \<Longrightarrow> bucket_ok t (fresh_bucket ro t)"
  by (simp add: bucket_ok_def fresh_bucket_def sane_def)

text \<open>A bucket idle for a full refill window has the level of a fresh one: dropping it changes nothing.\<close>

lemma idle_is_fresh:
  assumes "sane ro" and "rl_refillPerSec ro > 0" and "bucket_ok c b"
    and "rl_capacity ro / rl_refillPerSec ro * 1000 \<le> of_int (t - bk_last b)"
  shows "bucket_level ro (Some b) t = bucket_level ro None t"
proof -
  have "rl_capacity ro \<le> refill ro (t - bk_last b)"
    using assms(2,4) by (simp add: refill_def field_simps)
  then show ?thesis using assms(3) by (simp add: bucket_level_def grown_def bucket_ok_def)
qed


definition tb_inv :: "int \<Rightarrow> token_bucket \<Rightarrow> bool" where
  "tb_inv c tb \<longleftrightarrow> sane (tb_opts tb) \<and> distinct (map fst (tb_state tb)) \<and>
     tb_fullRefillMs tb = tb_fullRefillMs (new_token_bucket (tb_opts tb)) \<and>
     (\<forall>k b. map_of (tb_state tb) k = Some b \<longrightarrow> bucket_ok c b)"

definition tb_level :: "token_bucket \<Rightarrow> string \<Rightarrow> int \<Rightarrow> rat" where
  "tb_level tb k t = bucket_level (tb_opts tb) (map_of (tb_state tb) k) t"

lemma map_of_filter_values:
  "distinct (map fst xs) \<Longrightarrow> map_of (filter (\<lambda>(k, b). P b) xs) k =
     (case map_of xs k of None \<Rightarrow> None | Some b \<Rightarrow> if P b then Some b else None)"
proof (induction xs)
  case (Cons x xs)
  have "fst x \<notin> fst ` set xs" using Cons.prems by simp
  then have "map_of xs (fst x) = None" by (simp add: map_of_eq_None_iff)
  then show ?case using Cons by (cases x) auto
qed simp

lemma bucket_ok_mono: "bucket_ok c b \<Longrightarrow> c \<le> t \<Longrightarrow> bucket_ok t b"
  by (simp add: bucket_ok_def)

lemma evict_opts [simp]: "tb_opts (evictFullyRefilled t tb) = tb_opts tb"
  by (simp add: evictFullyRefilled_def split: option.splits)

lemma evict_inv: "tb_inv c tb \<Longrightarrow> tb_inv c (evictFullyRefilled t tb)"
  by (auto simp: tb_inv_def evictFullyRefilled_def distinct_map_filter map_of_filter_values split: option.splits if_splits)

lemma evict_level:
  assumes "tb_inv c tb" and "c \<le> t" and "t \<le> t'"
  shows "tb_level (evictFullyRefilled t tb) k t' = tb_level tb k t'"
proof (cases "evictFullyRefilled t tb = tb")
  case False
  then obtain full where full: "tb_fullRefillMs tb = Some full"
    and ev: "tb_state (evictFullyRefilled t tb) = filter (\<lambda>(k, s). \<not> of_int (t - bk_last s) \<ge> full) (tb_state tb)"
    by (auto simp: evictFullyRefilled_def split: option.splits if_splits)
  from full assms(1) have rate: "rl_refillPerSec (tb_opts tb) > 0"
    and eq: "full = rl_capacity (tb_opts tb) / rl_refillPerSec (tb_opts tb) * 1000" and sane: "sane (tb_opts tb)"
    and d: "distinct (map fst (tb_state tb))"
    by (auto simp: tb_inv_def new_token_bucket_def split: if_splits)
  show ?thesis
  proof (cases "map_of (tb_state tb) k")
    case None
    then show ?thesis by (simp add: tb_level_def ev map_of_filter_values [OF d])
  next
    case (Some b)
    then have ok: "bucket_ok c b" using assms(1) by (simp add: tb_inv_def)
    have "full \<le> of_int (t - bk_last b) \<Longrightarrow> full \<le> of_int (t' - bk_last b)"
      using assms(3) by (simp add: order_trans [of full "of_int (t - bk_last b)"])
    then show ?thesis
      using idle_is_fresh [OF sane rate ok, of t'] Some
      by (auto simp: tb_level_def ev map_of_filter_values [OF d] eq)
  qed
qed simp

lemma take_token_level:
  assumes "tb_inv c tb" and "c \<le> t" and "take_token k t tb = (a, tb')"
  shows "(a \<longleftrightarrow> 1 \<le> tb_level tb k t) \<and> tb_inv t tb' \<and> tb_opts tb' = tb_opts tb \<and>
     tb_level tb' k' t = tb_level tb k' t - (if k' = k \<and> a then 1 else 0)"
proof -
  let ?e = "evictFullyRefilled t tb"
  let ?s = "case map_of (tb_state ?e) k of Some s \<Rightarrow> s | None \<Rightarrow> fresh_bucket (tb_opts tb) t"
  obtain s' where s': "refill_and_take (tb_opts tb) t ?s = (a, s')"
    and tb': "tb' = ?e\<lparr>tb_state := AList.update k s' (tb_state ?e)\<rparr>"
    using assms(3) by (auto simp: take_token_def Let_def split: prod.splits cong: option.case_cong)
  note inv = evict_inv [OF assms(1), of t]
  have sane: "sane (tb_opts tb)" using assms(1) by (simp add: tb_inv_def)
  have s: "bucket_level (tb_opts tb) (Some ?s) t = tb_level ?e k t"
    by (auto simp: tb_level_def level_fresh [OF sane] split: option.splits) (simp add: bucket_level_def)
  have "bucket_ok t ?s"
    using inv assms(2) fresh_ok [OF sane, of t t] by (auto simp: tb_inv_def simp del: map_of_eq_Some_iff split: option.splits intro: bucket_ok_mono)
  then have "bucket_ok t s'" using refill_and_take_ok [OF s' _ sane] by blast
  then have "tb_inv t tb'"
    using inv assms(2)
    by (auto simp: tb_inv_def tb' AList.distinct_update AList.update_conv' simp del: map_of_eq_Some_iff
        split: if_splits intro: bucket_ok_mono)
  moreover have "tb_level tb' k' t = tb_level ?e k' t - (if k' = k \<and> a then 1 else 0)"
    using refill_and_take_level [OF s'] s by (auto simp: tb_level_def tb' AList.update_conv')
  ultimately show ?thesis
    using refill_and_take_level [OF s'] s evict_level [OF assms(1,2) order_refl] by (auto simp: tb')
qed


interpretation memory_limiter: rate_limiter take_token tb_opts tb_level tb_inv
proof
  show "sane (tb_opts s)" if "tb_inv c s" for c s
    using that by (simp add: tb_inv_def)
next
  fix c t t' :: int and s s' :: token_bucket and k k' a
  assume inv: "tb_inv c s" and le: "c \<le> t"
  then have sane: "sane (tb_opts s)" by (simp add: tb_inv_def)
  show "tb_level s k t \<le> rl_capacity (tb_opts s)"
    by (simp add: tb_level_def level_le_capacity)
  show "tb_level s k t' = grown (tb_opts s) (t' - t) (tb_level s k t)" if "t \<le> t'"
    unfolding tb_level_def by (rule level_some_grows [OF sane that])
  assume "take_token k t s = (a, s')"
  note step = take_token_level [OF inv le this]
  show "tb_inv t s' \<and> tb_opts s' = tb_opts s" "a \<longleftrightarrow> 1 \<le> tb_level s k t"
    "tb_level s' k' t = tb_level s k' t - (if k' = k \<and> a then 1 else 0)"
    using step by auto
qed

text \<open>The Redis bucket with its options, as a state.\<close>

definition take_redis :: "string \<Rightarrow> int \<Rightarrow> rate_options \<times> redis_db \<Rightarrow> bool \<times> rate_options \<times> redis_db" where
  "take_redis key t s = (case s of (ro, db) \<Rightarrow> case token_bucket_script ro key t db of (a, db') \<Rightarrow> (a, ro, db'))"

definition rd_inv :: "int \<Rightarrow> rate_options \<times> redis_db \<Rightarrow> bool" where
  "rd_inv c s \<longleftrightarrow> (case s of (ro, db) \<Rightarrow> sane ro \<and>
     (\<forall>k h. map_of db k = Some h \<longrightarrow> bucket_ok c (rh_bucket h) \<and>
        rh_expireAt h = (if rl_refillPerSec ro > 0
          then Some (bk_last (rh_bucket h) + \<lceil>rl_capacity ro / rl_refillPerSec ro * 1000\<rceil>) else None)))"

definition rd_level :: "rate_options \<times> redis_db \<Rightarrow> string \<Rightarrow> int \<Rightarrow> rat" where
  "rd_level s k t = (case s of (ro, db) \<Rightarrow> bucket_level ro (hmget k t db) t)"

text \<open>A key past its expiry would have been full.\<close>

lemma hmget_level:
  assumes "rd_inv c (ro, db)"
  shows "bucket_level ro (hmget k t db) t = bucket_level ro (map_option rh_bucket (map_of db k)) t"
proof (cases "map_of db k")
  case (Some h)
  show ?thesis
  proof (cases "redis_live t h")
    case False
    with assms Some have rate: "rl_refillPerSec ro > 0" and ok: "bucket_ok c (rh_bucket h)" and sane: "sane ro"
      and late: "bk_last (rh_bucket h) + \<lceil>rl_capacity ro / rl_refillPerSec ro * 1000\<rceil> < t"
      by (auto simp: rd_inv_def redis_live_def split: option.splits if_splits)
    from late have "of_int \<lceil>rl_capacity ro / rl_refillPerSec ro * 1000\<rceil> \<le> (of_int (t - bk_last (rh_bucket h)) :: rat)"
      by (subst of_int_le_iff) simp
    then have "rl_capacity ro / rl_refillPerSec ro * 1000 \<le> of_int (t - bk_last (rh_bucket h))"
      by (rule order_trans [OF le_of_int_ceiling])
    then show ?thesis using idle_is_fresh [OF sane rate ok] Some False by (simp add: hmget_def)
  qed (simp add: hmget_def Some)
qed (simp add: hmget_def)

lemma take_redis_level:
  assumes inv: "rd_inv c s" and le: "c \<le> t" and step: "take_redis k t s = (a, s')"
  shows "(a \<longleftrightarrow> 1 \<le> rd_level s k t) \<and> rd_inv t s' \<and> fst s' = fst s \<and>
     rd_level s' k' t = rd_level s k' t - (if k' = k \<and> a then 1 else 0)"
proof -
  obtain ro db where s: "s = (ro, db)" by (cases s)
  let ?s = "case hmget k t db of Some s \<Rightarrow> s | None \<Rightarrow> fresh_bucket ro t"
  obtain b' ex where b': "refill_and_take ro t ?s = (a, b')"
    and s': "s' = (ro, AList.update k \<lparr>rh_bucket = b', rh_expireAt = ex\<rparr> db)"
    and ex: "ex = (if rl_refillPerSec ro > 0 then Some (t + \<lceil>rl_capacity ro / rl_refillPerSec ro * 1000\<rceil>)
         else case hmget k t db of Some _ \<Rightarrow> Option.bind (map_of db k) rh_expireAt | None \<Rightarrow> None)"
    using step by (auto simp: s take_redis_def token_bucket_script_def Let_def split: prod.splits)
  have sane: "sane ro" using inv by (simp add: s rd_inv_def)
  have "bucket_ok t ?s"
    using inv le fresh_ok [OF sane, of t t]
    by (auto simp: s rd_inv_def hmget_def split: option.splits intro: bucket_ok_mono)
  then have ok: "bucket_ok t b'" using refill_and_take_ok [OF b' _ sane] by blast
  have ex': "ex = (if rl_refillPerSec ro > 0 then Some (bk_last b' + \<lceil>rl_capacity ro / rl_refillPerSec ro * 1000\<rceil>) else None)"
    using inv b' by (auto simp: ex s rd_inv_def hmget_def refill_and_take_def Let_def split: option.splits if_splits)
  have inv': "rd_inv t s'"
    using inv le ok ex' sane
    by (auto simp: s s' rd_inv_def AList.update_conv' split: if_splits intro: bucket_ok_mono)
  have l: "bucket_level ro (Some ?s) t = bucket_level ro (hmget k t db) t"
    by (auto simp: level_fresh [OF sane] split: option.splits) (simp add: bucket_level_def)
  have "rd_level s' k' t = rd_level s k' t - (if k' = k \<and> a then 1 else 0)"
    using refill_and_take_level [OF b'] l hmget_level [OF inv' [unfolded s']] hmget_level [OF inv [unfolded s]]
    by (auto simp: rd_level_def s s' AList.update_conv')
  then show ?thesis using refill_and_take_level [OF b'] l inv' by (simp add: s s' rd_level_def)
qed

interpretation redis_limiter: rate_limiter take_redis fst rd_level rd_inv
proof
  show "sane (fst s)" if "rd_inv c s" for c s
    using that by (auto simp: rd_inv_def split: prod.splits)
next
  fix c t t' :: int and s s' :: "rate_options \<times> redis_db" and k k' a
  assume inv: "rd_inv c s" and le: "c \<le> t"
  then have sane: "sane (fst s)" by (auto simp: rd_inv_def split: prod.splits)
  show "rd_level s k t \<le> rl_capacity (fst s)"
    by (simp add: rd_level_def level_le_capacity split: prod.splits)
  have "rd_level s k u = bucket_level (fst s) (map_option rh_bucket (map_of (snd s) k)) u" for u
    using inv by (cases s) (simp add: rd_level_def hmget_level)
  then show "rd_level s k t' = grown (fst s) (t' - t) (rd_level s k t)" if "t \<le> t'"
    using level_some_grows [OF sane that] by simp
  assume "take_redis k t s = (a, s')"
  note step = take_redis_level [OF inv le this]
  show "rd_inv t s' \<and> fst s' = fst s" "a \<longleftrightarrow> 1 \<le> rd_level s k t"
    "rd_level s' k' t = rd_level s k' t - (if k' = k \<and> a then 1 else 0)"
    using step by auto
qed

subsection \<open>Properties\<close>

lemma new_tb_inv: "sane ro \<Longrightarrow> tb_inv c (new_token_bucket ro)"
  by (simp add: tb_inv_def new_token_bucket_def)

lemma new_tb_level: "tb_level (new_token_bucket ro) k t = rl_capacity ro"
  by (simp add: tb_level_def new_token_bucket_def bucket_level_def)

lemma new_rd_inv: "sane ro \<Longrightarrow> rd_inv c (ro, [])"
  by (simp add: rd_inv_def)

lemma new_rd_level: "rd_level (ro, []) k t = rl_capacity ro"
  by (simp add: rd_level_def hmget_def bucket_level_def)

lemma new_tb_opts: "tb_opts (new_token_bucket ro) = ro"
  by (simp add: new_token_bucket_def)

text \<open>
  C1: however the requests of all clients interleave, the in-process limiter lets at most
  \<open>capacity + refillPerSec * seconds\<close> of one client's requests through, the eviction of idle
  buckets included.
\<close>

theorem rate_is_bounded:
  assumes "sane ro" and "timed_from c rs"
  shows "of_nat (allowed_count k rs (serve take_token (new_token_bucket ro) rs))
     \<le> rl_capacity ro + refill ro (end_time c rs - c)"
  using memory_limiter.burst_bound [OF new_tb_inv [OF assms(1)] assms(2), of k] by (simp add: new_tb_opts)

text \<open>
  The script that runs in Redis, with its expiring keys, and the in-process bucket, with its
  eviction, give the same answers to the same requests.
\<close>

theorem redis_answers_as_memory:
  assumes "sane ro" and "timed_from c rs"
  shows "serve take_redis (ro, []) rs = serve take_token (new_token_bucket ro) rs"
  using redis_limiter.serve_reference [OF new_rd_inv [OF assms(1)] assms(2)]
    memory_limiter.serve_reference [OF new_tb_inv [OF assms(1)] assms(2)]
  by (simp add: new_tb_opts new_tb_level new_rd_level)

definition demo_rate :: rate_options where
  "demo_rate = \<lparr>rl_capacity = 1, rl_refillPerSec = 1\<rparr>"

theorem rate_is_bounded_witness:
  "of_nat (allowed_count ''a'' [(''a'', 1), (''b'', 5), (''a'', 900), (''a'', 2002)]
       (serve take_token (new_token_bucket demo_rate) [(''a'', 1), (''b'', 5), (''a'', 900), (''a'', 2002)]))
     \<le> rl_capacity demo_rate + refill demo_rate (end_time 0 [(''a'', 1), (''b'', 5), (''a'', 900), (''a'', 2002)] - 0)"
  by (rule rate_is_bounded) (simp_all add: sane_def demo_rate_def)

theorem redis_answers_as_memory_witness:
  "serve take_redis (demo_rate, []) [(''a'', 1), (''b'', 5), (''a'', 900), (''a'', 2002)]
     = serve take_token (new_token_bucket demo_rate) [(''a'', 1), (''b'', 5), (''a'', 900), (''a'', 2002)]"
  by (rule redis_answers_as_memory [of _ 0]) (simp_all add: sane_def demo_rate_def)

end
