(* ===== verification/Service.thy ===== *)
theory Service
  imports Resume Callback RateLimit
begin

section \<open>The HTTP service (packages/service/src/index.ts)\<close>

text \<open>
  \<open>createService\<close>: the router with its handlers, in the order of the code, around the engine's
  \<open>execute\<close>, the tracking of running executions, and the transport. The service's world holds the
  engine's world, the draining flag, the map of executions in flight and the verifier's key cache;
  a handler that throws is \<open>None\<close>. The limiter, the readiness checks, the clock and the random ids
  are ports on the outside world, \<open>JSON.parse\<close> and \<open>decodeURIComponent\<close> parameters.
\<close>

subsection \<open>Statuses and responses\<close>

fun STATUS_BY_CODE :: "error_code \<Rightarrow> int" where
  "STATUS_BY_CODE MANIFEST_INVALID = 422" | "STATUS_BY_CODE MANIFEST_CHANGED = 409"
| "STATUS_BY_CODE CAPABILITY_MISMATCH = 422" | "STATUS_BY_CODE AMOUNT_INVALID = 422"
| "STATUS_BY_CODE QUOTE_UNAVAILABLE = 502" | "STATUS_BY_CODE QUOTE_EXPIRED = 409"
| "STATUS_BY_CODE KYC_REQUIRED = 409" | "STATUS_BY_CODE KYC_REJECTED = 403"
| "STATUS_BY_CODE ANCHOR_UNAVAILABLE = 502" | "STATUS_BY_CODE SETTLEMENT_FAILED = 500"
| "STATUS_BY_CODE SETTLEMENT_TIMEOUT = 504" | "STATUS_BY_CODE REFUND_UNSUPPORTED = 501"
| "STATUS_BY_CODE RECONCILE_MISMATCH = 500" | "STATUS_BY_CODE RECONCILE_STALLED = 504"
| "STATUS_BY_CODE IDEMPOTENCY_CONFLICT = 409" | "STATUS_BY_CODE PRESETTLE_ANCHOR_DRIFT = 502"
| "STATUS_BY_CODE PRESETTLE_TX_MISMATCH = 409" | "STATUS_BY_CODE PRESETTLE_DESTINATION_UNSAFE = 422"
| "STATUS_BY_CODE PRESETTLE_INSUFFICIENT_FUNDS = 422" | "STATUS_BY_CODE PRESETTLE_QUOTE_WINDOW = 409"
| "STATUS_BY_CODE PRESETTLE_AMOUNT_OUT_OF_RANGE = 422"
| "STATUS_BY_CODE PRESETTLE_RECEIVER_NOT_ACCEPTED = 403" | "STATUS_BY_CODE CORRIDOR_UNPROVEN = 422"
| "STATUS_BY_CODE CORRIDOR_HALTED = 503" | "STATUS_BY_CODE ENGINE_MISCONFIGURED = 500"
| "STATUS_BY_CODE DRY_RUN_COMPLETE = 409" | "STATUS_BY_CODE ROUTE_REFUSED = 503"

text \<open>An undefined property of a body is an absent entry.\<close>

datatype response_body = BJson "(string \<times> json) list" | BText string | BRun run_result

record route_response =
  rp_status :: int
  rp_body :: response_body
  rp_contentType :: "string option"
  rp_headers :: headers

definition json_reply :: "int \<Rightarrow> (string \<times> json) list \<Rightarrow> route_response" where
  "json_reply st o' = \<lparr>rp_status = st, rp_body = BJson o', rp_contentType = None, rp_headers = []\<rparr>"

definition error_reply :: "int \<Rightarrow> string \<Rightarrow> route_response" where
  "error_reply st e = json_reply st [(''error'', JStr e)]"

subsection \<open>Options and state\<close>

datatype ready_answer = ReadyAfter int | NotReady

record ('e, 'k) service_options =
  so_corridors :: "string \<Rightarrow> corridor option"
  so_deps :: "'e engine_deps"
  so_fuel :: nat
  so_apiKeys :: "string list option"
  so_limiter :: "(string \<Rightarrow> ('e, bool option) port) option"      \<comment> \<open>\<open>None\<close>: \<open>take\<close> threw\<close>
  so_metricsText :: "('e, string) port option"
  so_maxBodyBytes :: "nat option"
  so_trustProxy :: bool
  so_now :: "('e, int) port"
  so_readinessChecks :: "(string \<times> ('e, ready_answer) port) list"
  so_readinessTimeoutMs :: "int option"
  so_verifier :: "('e, 'k) verifier"
  so_wake :: "(string \<Rightarrow> 'e \<Rightarrow> 'e) option"
  so_uuid :: "('e, string) port"
  so_decodeURIComponent :: "string \<Rightarrow> string option"           \<comment> \<open>\<open>None\<close>: URIError\<close>
  so_parseJson :: "string \<Rightarrow> json option"                        \<comment> \<open>\<open>None\<close>: SyntaxError\<close>

record ('e, 'k) service_world =
  sw_world :: "'e world"
  sw_draining :: bool
  sw_inFlight :: "(string \<times> nat) list"
  sw_promises :: nat
  sw_unhandled :: bool                             \<comment> \<open>a promise rejected that nothing handles\<close>
  sw_keys :: "'k key_cache"

type_synonym ('e, 'k, 'a) sio = "(('e, 'k) service_world, 'a) io"

definition engine_io :: "('e, 'a) eio \<Rightarrow> ('e, 'k, 'a) sio" where
  "engine_io m = (\<lambda>s. case m (sw_world s) of (r, w) \<Rightarrow> (r, s\<lparr>sw_world := w\<rparr>))"

definition outside :: "('e, 'a) port \<Rightarrow> ('e, 'k, 'a) sio" where
  "outside p = engine_io (port_io p)"

subsection \<open>Executions in flight\<close>

text \<open>
  \<open>inFlight\<close> maps an idempotency key to the promise of its execution, here a number. A new promise
  replaces the entry of its key; when any promise of a key ends, the key's entry is deleted.
\<close>

definition track_start :: "string \<Rightarrow> nat \<Rightarrow> (string \<times> nat) list \<Rightarrow> (string \<times> nat) list" where
  "track_start key p m = AList.update key p m"

definition track_end :: "string \<Rightarrow> (string \<times> nat) list \<Rightarrow> (string \<times> nat) list" where
  "track_end key m = AList.delete key m"

definition inFlightKeys :: "(string \<times> nat) list \<Rightarrow> string list" where
  "inFlightKeys m = map fst m"

text \<open>The promises \<open>drain()\<close> waits for.\<close>

definition drain_waits :: "(string \<times> nat) list \<Rightarrow> nat list" where
  "drain_waits m = map snd m"

definition drain :: "('e, 'k, nat list) sio" where
  "drain = (\<lambda>s. (Some (drain_waits (sw_inFlight s)), s\<lparr>sw_draining := True\<rparr>))"

text \<open>
  \<open>void p.finally(...)\<close> is a promise of its own: when the execution rejects, so does it, and nothing
  handles that rejection.
\<close>

definition trackExecution :: "string \<Rightarrow> ('e, 'k, 'a) sio \<Rightarrow> ('e, 'k, 'a) sio" where
  "trackExecution key m =
     bnd (modify_io (\<lambda>s. s\<lparr>sw_inFlight := track_start key (sw_promises s) (sw_inFlight s),
                          sw_promises := Suc (sw_promises s)\<rparr>)) (\<lambda>_.
     (\<lambda>s. case m s of (r, s') \<Rightarrow>
        (r, s'\<lparr>sw_inFlight := track_end key (sw_inFlight s'), sw_unhandled := (sw_unhandled s' \<or> r = None)\<rparr>)))"

subsection \<open>Paths\<close>

text \<open>\<open>path.replace(/\/+$/, "") || "/"\<close>\<close>

definition clean_path :: "string \<Rightarrow> string" where
  "clean_path p = (let q = rev (dropWhile (\<lambda>c. c = CHR ''/'') (rev p)) in if q = [] then ''/'' else q)"

text \<open>\<open>^prefix([^/]+)$\<close>: the group.\<close>

definition last_segment :: "string \<Rightarrow> string \<Rightarrow> string option" where
  "last_segment prefix path =
     (let r = drop (length prefix) path in
      if starts_with prefix path \<and> r \<noteq> [] \<and> CHR ''/'' \<notin> set r then Some r else None)"

subsection \<open>The public handlers\<close>

definition healthz :: route_response where
  "healthz = json_reply 200 [(''status'', JStr ''ok'')]"

definition DEFAULT_READINESS_TIMEOUT_MS :: int where "DEFAULT_READINESS_TIMEOUT_MS = 5000"

definition ready_in_time :: "int \<Rightarrow> ready_answer \<Rightarrow> bool" where
  "ready_in_time timeout a = (case a of ReadyAfter t \<Rightarrow> t < timeout | NotReady \<Rightarrow> False)"

fun run_readiness :: "int \<Rightarrow> (string \<times> ('e, ready_answer) port) list \<Rightarrow> ('e, (string \<times> bool) list) port" where
  "run_readiness timeout [] e = ([], e)"
| "run_readiness timeout ((name, chk) # cs) e =
     (case chk e of (a, e1) \<Rightarrow>
      case run_readiness timeout cs e1 of (rs, e2) \<Rightarrow> ((name, ready_in_time timeout a) # rs, e2))"

definition ready_body :: "string \<Rightarrow> (string \<times> bool) list \<Rightarrow> (string \<times> json) list" where
  "ready_body st rs =
     [(''status'', JStr st),
      (''checks'', JArr (map (\<lambda>(n, b). JObj [(''name'', JStr n), (''ok'', JBool b)]) rs))]"

definition readyz :: "('e, 'k) service_options \<Rightarrow> ('e, 'k, route_response) sio" where
  "readyz o' =
     bnd (gets_io sw_draining) (\<lambda>draining.
       if draining then ret (json_reply 503 (ready_body ''draining'' []))
       else
         let timeout = (case so_readinessTimeoutMs o' of Some t \<Rightarrow> t | None \<Rightarrow> DEFAULT_READINESS_TIMEOUT_MS) in
         bnd (outside (run_readiness timeout (so_readinessChecks o'))) (\<lambda>rs.
           let allOk = list_all snd rs
           in ret (json_reply (if allOk then 200 else 503) (ready_body (if allOk then ''ok'' else ''degraded'') rs))))"

definition metrics_reply :: "string \<Rightarrow> route_response" where
  "metrics_reply text =
     \<lparr>rp_status = 200, rp_body = BText text, rp_contentType = Some ''text/plain; version=0.0.4'', rp_headers = []\<rparr>"

subsection \<open>The metered handlers\<close>

definition rate_ok :: "('e, 'k) service_options \<Rightarrow> route_request \<Rightarrow> ('e, 'k, bool) sio" where
  "rate_ok o' req =
     (case so_limiter o' of
        None \<Rightarrow> ret True
      | Some tk \<Rightarrow> bnd (outside (tk (clientKey (so_apiKeys o') req)))
          (\<lambda>a. case a of None \<Rightarrow> throw_io | Some allowed \<Rightarrow> ret allowed))"

definition authorized :: "('e, 'k) service_options \<Rightarrow> route_request \<Rightarrow> bool" where
  "authorized o' req = (so_apiKeys o' = None \<or> matchesKey (so_apiKeys o') (bearer (ru_headers req)))"

definition invalid_body :: "body_error \<Rightarrow> route_response" where
  "invalid_body e = json_reply 400
     [(''error'', JStr ''invalid payment body''), (''field'', JStr (be_field e)), (''reason'', JStr (be_reason e))]"

definition amount_reply :: "string \<Rightarrow> string \<Rightarrow> route_response" where
  "amount_reply field message = json_reply 422
     [(''error'', JStr ''AMOUNT_INVALID''), (''field'', JStr field), (''message'', JStr message)]"

text \<open>What a request must pass before the engine sees it: the intent and its corridor, or the refusal.\<close>

definition admit :: "('e, 'k) service_options \<Rightarrow> json option \<Rightarrow> route_response + payment_intent \<times> corridor" where
  "admit o' body =
     (case parsePaymentBody body of
        Inl e \<Rightarrow> Inl (invalid_body e)
      | Inr intent \<Rightarrow>
          if \<not> isSettleableAmount (m_amount (sourceAmount intent)) STROOP_SCALE then
            Inl (amount_reply ''sourceAmount.amount'' ''amount must be a positive decimal'')
          else case so_corridors o' (corridorId intent) of
            None \<Rightarrow> Inl (json_reply 404 [(''error'', JStr ''unknown corridor''), (''corridorId'', JStr (corridorId intent))])
          | Some corridor \<Rightarrow>
              if \<not> assetMatchesCorridor (m_asset (sourceAmount intent)) corridor then
                Inl (amount_reply ''sourceAmount.asset'' (''asset does not match the corridor'' @ [CHR 0x27] @ ''s source or bridge asset''))
              else Inr (intent, corridor))"

definition execute_options_of :: "string option \<Rightarrow> request_context \<Rightarrow> execute_options" where
  "execute_options_of presented ctx =
     \<lparr>op_owner = presented, op_trustManifest = False, op_dryRun = False,
      op_requestId = Some (rc_requestId ctx), op_traceparent = rc_traceparent ctx\<rparr>"

definition payment_reply :: "run_result outcome \<Rightarrow> route_response" where
  "payment_reply r =
     (case r of
        Inr v \<Rightarrow> \<lparr>rp_status = 200, rp_body = BRun v, rp_contentType = None, rp_headers = []\<rparr>
      | Inl e \<Rightarrow> json_reply (STATUS_BY_CODE (e_code e))
          [(''error'', JStr (code_name (e_code e))), (''message'', JStr (e_message e))])"

definition post_payment ::
  "('e, 'k) service_options \<Rightarrow> route_request \<Rightarrow> request_context \<Rightarrow> ('e, 'k, route_response) sio" where
  "post_payment o' req ctx =
     bnd (gets_io sw_draining) (\<lambda>draining.
       if draining then ret (error_reply 503 ''draining'')
       else case admit o' (ru_body req) of
         Inl refusal \<Rightarrow> ret refusal
       | Inr (intent, corridor) \<Rightarrow>
           bnd (trackExecution (idempotencyKey intent)
                 (engine_io (execute (so_fuel o') (so_deps o') intent corridor
                   (execute_options_of (bearer (ru_headers req)) ctx))))
             (\<lambda>r. ret (payment_reply r)))"

text \<open>
  The verifier on the service's world: its outside world and its cache. A wake is given only a
  transaction id that is text; no transaction waits under another kind of value.
\<close>

definition verify_io :: "('e, 'k) service_options \<Rightarrow> string \<Rightarrow> string \<Rightarrow> string \<Rightarrow> ('e, 'k, bool) sio" where
  "verify_io o' homeDomain payload signature =
     (\<lambda>s. case verify (so_verifier o') homeDomain payload signature (w_env (sw_world s), sw_keys s) of
            (b, e, keys) \<Rightarrow> (Some b, s\<lparr>sw_world := (sw_world s)\<lparr>w_env := e\<rparr>, sw_keys := keys\<rparr>))"

definition wake_io :: "('e, 'k) service_options \<Rightarrow> json option \<Rightarrow> ('e, 'k, unit) sio" where
  "wake_io o' body =
     (case (so_wake o', str_of (prop_opt (prop_opt body ''transaction'') ''id'')) of
        (Some wake, Some txId) \<Rightarrow> if txId = [] then ret () else engine_io (env_io (wake txId))
      | _ \<Rightarrow> ret ())"

definition callback_payload :: "string \<Rightarrow> route_request \<Rightarrow> string" where
  "callback_payload tStr req = tStr @ ''.'' @ (case ru_rawBody req of Some r \<Rightarrow> r | None \<Rightarrow> '''')"

definition signature_header :: "route_request \<Rightarrow> string option" where
  "signature_header req =
     or_str (map_of (ru_headers req) ''signature'') (map_of (ru_headers req) ''x-stellar-signature'')"

definition post_callback ::
  "('e, 'k) service_options \<Rightarrow> route_request \<Rightarrow> string \<Rightarrow> ('e, 'k, route_response) sio" where
  "post_callback o' req raw =
     (case so_decodeURIComponent o' raw of
        None \<Rightarrow> throw_io
      | Some cid \<Rightarrow>
          (case so_corridors o' cid of
             None \<Rightarrow> ret (error_reply 404 ''unknown corridor'')
           | Some corridor \<Rightarrow>
               if \<not> truthy (signature_header req) then ret (error_reply 401 ''missing signature header'')
               else case parse_signature (the (signature_header req)) of
                 None \<Rightarrow> ret (error_reply 401 ''invalid signature format'')
               | Some (tStr, s) \<Rightarrow>
                   bnd (outside (so_now o')) (\<lambda>now.
                     if \<not> timestamp_ok now tStr then ret (error_reply 401 ''signature expired or invalid timestamp'')
                     else bnd (verify_io o' (home_domain (d_endpoints (c_dest corridor))) (callback_payload tStr req) s) (\<lambda>valid.
                       if \<not> valid then ret (error_reply 401 ''invalid signature'')
                       else bnd (wake_io o' (ru_body req)) (\<lambda>_. ret (json_reply 200 []))))))"

definition run_view :: "stored_run \<Rightarrow> (string \<times> json) list" where
  "run_view r =
     [(''idempotencyKey'', JStr (r_key r)), (''corridorId'', JStr (r_corridorId r)),
      (''state'', JStr (state_name (r_state r)))] @
     opt_entry ''transactionId'' (r_transactionId r) @ opt_entry ''stellarTxHash'' (r_stellarTxHash r) @
     opt_entry ''error'' (errorCode (r_lastError r))"

definition get_payment ::
  "('e, 'k) service_options \<Rightarrow> route_request \<Rightarrow> string \<Rightarrow> ('e, 'k, route_response) sio" where
  "get_payment o' req raw =
     (case so_decodeURIComponent o' raw of
        None \<Rightarrow> ret (error_reply 404 ''not found'')
      | Some key \<Rightarrow>
          bnd (gets_io (\<lambda>s. mem_get (w_runs (sw_world s)) key)) (\<lambda>run.
            case run of
              None \<Rightarrow> ret (error_reply 404 ''not found'')
            | Some r \<Rightarrow>
                if so_apiKeys o' \<noteq> None \<and> \<not> ownerMatches (r_owner r) (bearer (ru_headers req)) then
                  ret (error_reply 404 ''not found'')
                else ret (json_reply 200 (run_view r))))"

subsection \<open>The router\<close>

text \<open>Behind the rate limit and the credentials.\<close>

definition private_routes ::
  "('e, 'k) service_options \<Rightarrow> route_request \<Rightarrow> request_context \<Rightarrow> ('e, 'k, route_response) sio" where
  "private_routes o' req ctx =
     (let path = clean_path (ru_path req); GET = (ru_method req = ''GET''); POST = (ru_method req = ''POST'') in
      if \<not> authorized o' req then ret (error_reply 401 ''unauthorized'')
      else if POST \<and> path = ''/payments'' then post_payment o' req ctx
      else case (if POST then last_segment ''/callbacks/sep31/'' path else None) of
        Some raw \<Rightarrow> post_callback o' req raw
      | None \<Rightarrow>
          (case (if GET then last_segment ''/payments/'' path else None) of
             Some raw \<Rightarrow> get_payment o' req raw
           | None \<Rightarrow> ret (error_reply 404 ''not found'')))"

definition handle ::
  "('e, 'k) service_options \<Rightarrow> route_request \<Rightarrow> request_context \<Rightarrow> ('e, 'k, route_response) sio" where
  "handle o' req ctx =
     (let path = clean_path (ru_path req); GET = (ru_method req = ''GET'') in
      if GET \<and> path = ''/healthz'' then ret healthz
      else if GET \<and> path = ''/readyz'' then readyz o'
      else if GET \<and> path = ''/metrics'' \<and> so_metricsText o' \<noteq> None then
        bnd (outside (the (so_metricsText o'))) (\<lambda>text. ret (metrics_reply text))
      else bnd (rate_ok o' req) (\<lambda>allowed.
        if \<not> allowed then ret (error_reply 429 ''rate_limited'') else private_routes o' req ctx))"

definition merge_headers :: "headers \<Rightarrow> headers \<Rightarrow> headers" where
  "merge_headers a b = foldl (\<lambda>hs (k, v). AList.update k v hs) a b"

definition route :: "('e, 'k) service_options \<Rightarrow> route_request \<Rightarrow> ('e, 'k, route_response) sio" where
  "route o' req =
     bnd (outside (contextOf (so_uuid o') req)) (\<lambda>ctx.
     bnd (handle o' req ctx) (\<lambda>out.
       ret (out\<lparr>rp_headers := merge_headers (rp_headers out) (requestHeaders ctx)\<rparr>)))"

subsection \<open>The transport\<close>

text \<open>
  An incoming request: the declared length (\<open>None\<close>: absent or not a number), the sizes of the
  chunks in the order they arrive, the body decoded as UTF-8, and the path of the target
  (\<open>None\<close>: \<open>new URL\<close> rejects it, which nothing catches).
\<close>

record incoming =
  ic_method :: string
  ic_target :: "string option"
  ic_rawHeaders :: "(string \<times> header_value) list"
  ic_declared :: "int option"
  ic_chunks :: "nat list"
  ic_raw :: string
  ic_remote :: "string option"

datatype transport_reply =
    Reply (reply_status: int) (reply_headers: headers) (reply_body: response_body)
  | NoReply

definition DEFAULT_MAX_BODY_BYTES :: nat where "DEFAULT_MAX_BODY_BYTES = 64 * 1024"

definition max_body :: "('e, 'k) service_options \<Rightarrow> nat" where
  "max_body o' = (case so_maxBodyBytes o' of Some n \<Rightarrow> n | None \<Rightarrow> DEFAULT_MAX_BODY_BYTES)"

text \<open>Whether the bytes read so far ever exceed the bound.\<close>

fun overflows :: "nat \<Rightarrow> nat \<Rightarrow> nat list \<Rightarrow> bool" where
  "overflows limit n [] = False"
| "overflows limit n (c # cs) = (if n + c > limit then True else overflows limit (n + c) cs)"

definition sendJson :: "request_context \<Rightarrow> int \<Rightarrow> (string \<times> json) list \<Rightarrow> transport_reply" where
  "sendJson ctx st body = Reply st ((''content-type'', ''application/json'') # requestHeaders ctx) (BJson body)"

definition send_response :: "route_response \<Rightarrow> transport_reply" where
  "send_response out =
     Reply (rp_status out)
       (merge_headers [(''content-type'', case rp_contentType out of Some t \<Rightarrow> t | None \<Rightarrow> ''application/json'')]
          (rp_headers out))
       (rp_body out)"

definition routed_request ::
  "('e, 'k) service_options \<Rightarrow> incoming \<Rightarrow> headers \<Rightarrow> request_context \<Rightarrow> string \<Rightarrow> json option \<Rightarrow> route_request" where
  "routed_request o' inc hs ctx path body =
     \<lparr>ru_method = ic_method inc, ru_path = path, ru_body = body, ru_rawBody = Some (ic_raw inc), ru_headers = hs,
      ru_clientIp = resolveClientIp (ic_remote inc) hs (so_trustProxy o'),
      ru_requestId = Some (rc_requestId ctx), ru_traceparent = rc_traceparent ctx\<rparr>"

definition serve_request :: "('e, 'k) service_options \<Rightarrow> incoming \<Rightarrow> ('e, 'k, transport_reply) sio" where
  "serve_request o' inc =
     (let hs = flattenHeaders (ic_rawHeaders inc);
          probe = \<lparr>ru_method = ic_method inc, ru_path = ''/'', ru_body = None, ru_rawBody = None, ru_headers = hs,
                   ru_clientIp = None, ru_requestId = None, ru_traceparent = None\<rparr> in
      bnd (outside (contextOf (so_uuid o') probe)) (\<lambda>ctx.
        if (case ic_declared inc of Some n \<Rightarrow> n > int (max_body o') | None \<Rightarrow> False) \<or>
           overflows (max_body o') 0 (ic_chunks inc) then
          ret (sendJson ctx 413 [(''error'', JStr ''payload too large'')])
        else if ic_raw inc \<noteq> [] \<and> so_parseJson o' (ic_raw inc) = None then
          ret (sendJson ctx 400 [(''error'', JStr ''invalid JSON'')])
        else
          case ic_target inc of
            None \<Rightarrow> bnd (modify_io (\<lambda>s. s\<lparr>sw_unhandled := True\<rparr>)) (\<lambda>_. ret NoReply)
          | Some path \<Rightarrow>
              catch_io
                (bnd (route o' (routed_request o' inc hs ctx path
                        (if ic_raw inc = [] then None else so_parseJson o' (ic_raw inc))))
                   (\<lambda>out. ret (send_response out)))
                (ret (sendJson ctx 500 [(''error'', JStr ''internal''), (''message'', JStr ''unexpected error'')]))))"

end
