(* ===== verification/ServiceSafety.thy ===== *)
theory ServiceSafety
  imports Service
begin

section \<open>What the HTTP service guarantees\<close>

text \<open>
  The engine is reached only by admitted requests, a read shows a run to its owner only, a callback
  needs a fresh signature of the anchor's published key; which executions a drain waits for.
\<close>

subsection \<open>The engine is reached only by admitted requests\<close>

text \<open>What the engine has done, and whether the service drains.\<close>

definition engine_view :: "('e, 'k) service_world \<Rightarrow> mem_store \<times> health_mem \<times> event list \<times> bool" where
  "engine_view s = (w_runs (sw_world s), w_health (sw_world s), w_events (sw_world s), sw_draining s)"

definition idle :: "('e, 'k, 'a) sio \<Rightarrow> bool" where
  "idle m \<longleftrightarrow> (\<forall>v. keeps (\<lambda>s. engine_view s = v) m)"

lemma idleD: "idle m \<Longrightarrow> keeps (\<lambda>s. engine_view s = v) m"
  unfolding idle_def by blast

named_theorems idle_rules \<open>operations that leave the engine alone\<close>

lemma idle_ret [idle_rules]: "idle (ret x)"
  by (simp add: idle_def keeps_ret)

lemma idle_throw [idle_rules]: "idle throw_io"
  by (simp add: idle_def keeps_throw)

lemma idle_gets [idle_rules]: "idle (gets_io f)"
  by (simp add: idle_def keeps_gets)

lemma idle_bnd [idle_rules]: "idle m \<Longrightarrow> (\<And>x. idle (f x)) \<Longrightarrow> idle (bnd m f)"
  by (auto simp: idle_def)

lemma idle_if [idle_rules]: "(b \<Longrightarrow> idle m) \<Longrightarrow> (\<not> b \<Longrightarrow> idle k) \<Longrightarrow> idle (if b then m else k)"
  by simp

lemma idle_option [idle_rules]:
  "(x = None \<Longrightarrow> idle m) \<Longrightarrow> (\<And>y. x = Some y \<Longrightarrow> idle (f y)) \<Longrightarrow> idle (case x of None \<Rightarrow> m | Some y \<Rightarrow> f y)"
  by (simp split: option.splits)

lemma idle_outside [idle_rules]: "idle (outside p)"
  by (auto simp: idle_def keeps_def wp_def outside_def engine_io_def port_io_def engine_view_def split: prod.splits)

lemma idle_verify [idle_rules]: "idle (verify_io o' d p sig)"
  by (auto simp: idle_def keeps_def wp_def verify_io_def engine_view_def split: prod.splits)

lemma idle_wake [idle_rules]: "idle (wake_io o' b)"
  by (auto simp: idle_def keeps_def wp_def wake_io_def engine_io_def env_io_def modify_io_def ret_def engine_view_def
      split: prod.splits option.splits)

lemma idle_handlers [idle_rules]:
  "idle (readyz o')" "idle (rate_ok o' req)" "idle (post_callback o' req raw)" "idle (get_payment o' req raw)"
  unfolding readyz_def rate_ok_def post_callback_def get_payment_def Let_def
  by (auto intro!: idle_rules split: prod.splits)

text \<open>What the engine is handed.\<close>

definition admitted :: "('e, 'k) service_options \<Rightarrow> json option \<Rightarrow> payment_intent \<Rightarrow> corridor \<Rightarrow> bool" where
  "admitted o' body i c \<longleftrightarrow>
     parsePaymentBody body = Inr i \<and> isSettleableAmount (m_amount (sourceAmount i)) STROOP_SCALE \<and>
     so_corridors o' (corridorId i) = Some c \<and> assetMatchesCorridor (m_asset (sourceAmount i)) c"

lemma admit_Inr: "admit o' body = Inr (i, c) \<longleftrightarrow> admitted o' body i c"
  by (auto simp: admit_def admitted_def split: sum.splits option.splits)

lemma post_payment_refused:
  assumes "snd (snd (snd v)) \<or> (\<exists>r. admit o' (ru_body req) = Inl r)"
  shows "keeps (\<lambda>s. engine_view s = v) (post_payment o' req ctx)"
  using assms by (auto simp: post_payment_def keeps_def wp_rules engine_view_def)

lemma private_refused:
  assumes "\<not> (ru_method req = ''POST'' \<and> clean_path (ru_path req) = ''/payments'' \<and> authorized o' req \<and>
      \<not> snd (snd (snd v)) \<and> (\<exists>i c. admit o' (ru_body req) = Inr (i, c)))"
  shows "keeps (\<lambda>s. engine_view s = v) (private_routes o' req ctx)"
proof (cases "ru_method req = ''POST'' \<and> clean_path (ru_path req) = ''/payments'' \<and> authorized o' req")
  case True
  then have "snd (snd (snd v)) \<or> (\<exists>r. admit o' (ru_body req) = Inl r)"
    using assms by (cases "admit o' (ru_body req)") auto
  then show ?thesis using True by (simp add: private_routes_def post_payment_refused)
next
  case False
  then have "idle (private_routes o' req ctx)"
    unfolding private_routes_def Let_def by (auto intro!: idle_rules)
  then show ?thesis by (rule idleD)
qed

lemma handle_refused:
  assumes "\<not> (ru_method req = ''POST'' \<and> clean_path (ru_path req) = ''/payments'' \<and> authorized o' req \<and>
      \<not> snd (snd (snd v)) \<and> (\<exists>i c. admit o' (ru_body req) = Inr (i, c)))"
  shows "keeps (\<lambda>s. engine_view s = v) (handle o' req ctx)"
proof -
  have "keeps (\<lambda>s. engine_view s = v) (bnd (rate_ok o' req) (\<lambda>allowed.
      if \<not> allowed then ret (error_reply 429 ''rate_limited'') else private_routes o' req ctx))"
    using private_refused [OF assms] by (auto intro!: keeps_bnd idleD [OF idle_handlers(2)])
  then show ?thesis
    by (simp add: handle_def Let_def keeps_ret idleD [OF idle_handlers(1)] idleD [OF idle_bnd [OF idle_outside idle_ret]])
qed

lemma route_refused:
  assumes "route o' req s = (r, s')" and "engine_view s' \<noteq> engine_view s"
  shows "ru_method req = ''POST'' \<and> clean_path (ru_path req) = ''/payments'' \<and> authorized o' req \<and>
     \<not> sw_draining s \<and> (\<exists>i c. admitted o' (ru_body req) i c)"
proof (rule ccontr)
  assume no: "\<not> ?thesis"
  then have "keeps (\<lambda>s'. engine_view s' = engine_view s) (handle o' req ctx)" for ctx
    by (intro handle_refused) (simp add: engine_view_def admit_Inr)
  then have "keeps (\<lambda>s'. engine_view s' = engine_view s) (route o' req)"
    unfolding route_def by (intro keeps_bnd idleD [OF idle_outside] keeps_ret)
  from keeps_world [OF this, of s] assms show False by simp
qed


subsection \<open>What a read shows\<close>

lemma errorCode_rendered: "errorCode (Some (render_error e)) = Some (code_name (e_code e))"
proof -
  have no: "CHR '':'' \<notin> set (code_name (e_code e))" and ne: "code_name (e_code e) \<noteq> []"
    by (simp_all add: code_name_no_colon code_name_nonempty)
  have "index_of '':'' (a @ '': '' @ b) = Some (length a)" if "CHR '':'' \<notin> set a" for a b
    using that by (induction a) (auto simp: starts_with_def)
  from this [OF no] ne show ?thesis by (simp add: errorCode_def render_error_def)
qed

lemma starts_with_iff: "starts_with p s \<longleftrightarrow> (\<exists>r. s = p @ r)"
  by (auto simp: starts_with_def) (metis append_take_drop_id)

lemma last_segment_Some: "last_segment p path = Some r \<Longrightarrow> path = p @ r \<and> r \<noteq> [] \<and> CHR ''/'' \<notin> set r"
  by (auto simp: last_segment_def Let_def starts_with_iff split: if_splits)

text \<open>A read of a payment is answered by \<open>get_payment\<close> behind the limiter and the credentials.\<close>

lemma handle_get:
  assumes "ru_method req = ''GET''" and "last_segment ''/payments/'' (clean_path (ru_path req)) = Some raw"
  shows "handle o' req ctx = bnd (rate_ok o' req) (\<lambda>allowed.
     if \<not> allowed then ret (error_reply 429 ''rate_limited'')
     else if \<not> authorized o' req then ret (error_reply 401 ''unauthorized'')
     else get_payment o' req raw)"
  using assms last_segment_Some [OF assms(2)] by (simp add: handle_def private_routes_def Let_def cong: if_cong)

lemma handle_callback:
  assumes "ru_method req = ''POST''" and "last_segment ''/callbacks/sep31/'' (clean_path (ru_path req)) = Some raw"
  shows "handle o' req ctx = bnd (rate_ok o' req) (\<lambda>allowed.
     if \<not> allowed then ret (error_reply 429 ''rate_limited'')
     else if \<not> authorized o' req then ret (error_reply 401 ''unauthorized'')
     else post_callback o' req raw)"
  using assms last_segment_Some [OF assms(2)] by (simp add: handle_def private_routes_def Let_def cong: if_cong)

lemma wp_outside [wp_rules]:
  "wp (outside p) Q E s = (case p (w_env (sw_world s)) of (a, e) \<Rightarrow> Q a (s\<lparr>sw_world := (sw_world s)\<lparr>w_env := e\<rparr>\<rparr>))"
  by (simp add: wp_def outside_def engine_io_def port_io_def split: prod.splits)

text \<open>The ids of a request only touch the outside world, and its headers only what is sent.\<close>

lemma route_wp:
  assumes "\<And>ctx s1. w_runs (sw_world s1) = w_runs (sw_world s) \<Longrightarrow> sw_keys s1 = sw_keys s \<Longrightarrow>
      wp (handle o' req ctx) (\<lambda>out _. Q out) (\<lambda>_. True) s1"
    and "\<And>out hs. Q out \<Longrightarrow> Q (out\<lparr>rp_headers := hs\<rparr>)"
  shows "wp (route o' req) (\<lambda>out _. Q out) (\<lambda>_. True) s"
proof (cases "contextOf (so_uuid o') req (w_env (sw_world s))")
  case (Pair ctx e)
  have "wp (handle o' req ctx) (\<lambda>out _. Q out) (\<lambda>_. True) (s\<lparr>sw_world := (sw_world s)\<lparr>w_env := e\<rparr>\<rparr>)"
    by (rule assms(1)) simp_all
  then have "wp (handle o' req ctx) (\<lambda>out s'. wp (ret (out\<lparr>rp_headers := merge_headers (rp_headers out) (requestHeaders ctx)\<rparr>))
      (\<lambda>out _. Q out) (\<lambda>_. True) s') (\<lambda>_. True) (s\<lparr>sw_world := (sw_world s)\<lparr>w_env := e\<rparr>\<rparr>)"
    by (rule wp_mono) (simp_all add: wp_ret assms(2))
  then show ?thesis by (simp add: route_def wp_bnd wp_outside Pair)
qed

lemma wp_rate_ok:
  "(\<And>a e. Q a (s\<lparr>sw_world := (sw_world s)\<lparr>w_env := e\<rparr>\<rparr>)) \<Longrightarrow> (\<And>a. Q a s) \<Longrightarrow> wp (rate_ok o' req) Q (\<lambda>_. True) s"
  by (auto simp: rate_ok_def wp_rules split: option.splits prod.splits)

lemma reply_status [simp]:
  "rp_status (error_reply st e) = st" "rp_status (json_reply st b) = st" "rp_body (json_reply st b) = BJson b"
  by (simp_all add: error_reply_def json_reply_def)

definition view_allowed :: "('e, 'k) service_options \<Rightarrow> mem_store \<Rightarrow> route_request \<Rightarrow> string \<Rightarrow> route_response \<Rightarrow> bool" where
  "view_allowed o' runs req raw out \<longleftrightarrow>
     (rp_status out = 200 \<longrightarrow> (\<exists>key r. so_decodeURIComponent o' raw = Some key \<and> mem_get runs key = Some r \<and>
        (so_apiKeys o' \<noteq> None \<longrightarrow> r_owner r = bearer (ru_headers req) \<and> matchesKey (so_apiKeys o') (r_owner r)) \<and>
        rp_body out = BJson (run_view r)))"

lemma wp_get_payment:
  assumes "authorized o' req"
  shows "wp (get_payment o' req raw) (\<lambda>out s'. view_allowed o' (w_runs (sw_world s)) req raw out) (\<lambda>_. True) s"
  using assms
  by (auto simp: get_payment_def view_allowed_def wp_rules ownerMatches_iff authorized_def split: option.splits)

lemma route_get:
  assumes "ru_method req = ''GET''" and "last_segment ''/payments/'' (clean_path (ru_path req)) = Some raw"
  shows "wp (route o' req) (\<lambda>out s'. view_allowed o' (w_runs (sw_world s)) req raw out) (\<lambda>_. True) s"
proof -
  have get: "wp (if \<not> a then ret (error_reply 429 ''rate_limited'')
      else if \<not> authorized o' req then ret (error_reply 401 ''unauthorized'') else get_payment o' req raw)
      (\<lambda>out s'. view_allowed o' (w_runs (sw_world s)) req raw out) (\<lambda>_. True) s1"
    if "w_runs (sw_world s1) = w_runs (sw_world s)" for a s1
    using wp_get_payment [of o' req raw s1] that by (auto simp: wp_rules view_allowed_def)
  have "wp (handle o' req ctx) (\<lambda>out s'. view_allowed o' (w_runs (sw_world s)) req raw out) (\<lambda>_. True) s1"
    if "w_runs (sw_world s1) = w_runs (sw_world s)" for ctx s1
    unfolding handle_get [OF assms] wp_bnd by (rule wp_rate_ok) (simp_all add: get that)
  then show ?thesis by (rule route_wp) (simp_all add: view_allowed_def)
qed

subsection \<open>What a callback needs\<close>

definition signed_callback :: "('e, 'k) service_options \<Rightarrow> route_request \<Rightarrow> string \<Rightarrow> bool" where
  "signed_callback o' req raw \<longleftrightarrow> (\<exists>cid c tStr sig k e.
     so_decodeURIComponent o' raw = Some cid \<and> so_corridors o' cid = Some c \<and>
     parse_signature (the (signature_header req)) = Some (tStr, sig) \<and>
     timestamp_ok (fst (so_now o' e)) tStr \<and>
     published (so_verifier o') (home_domain (d_endpoints (c_dest c))) k \<and>
     vf_check (so_verifier o') k (callback_payload tStr req) sig = Some True)"

lemma wp_verify_io:
  assumes "cache_ok (so_verifier o') (sw_keys s)"
  shows "wp (verify_io o' d p sig) (\<lambda>b s'. b \<longrightarrow> (\<exists>k. published (so_verifier o') d k \<and>
     vf_check (so_verifier o') k p sig = Some True)) (\<lambda>_. True) s"
proof (cases "verify (so_verifier o') d p sig (w_env (sw_world s), sw_keys s)")
  case (fields b e' keys')
  then show ?thesis
    using verify_published [OF _ assms, of d p sig "w_env (sw_world s)"]
    by (auto simp: wp_def verify_io_def)
qed

lemma wp_verified:
  assumes "cache_ok (so_verifier o') (sw_keys s)"
    and "\<And>k. published (so_verifier o') d k \<Longrightarrow> vf_check (so_verifier o') k p sig = Some True \<Longrightarrow> G"
  shows "wp (verify_io o' d p sig) (\<lambda>b. wp (if \<not> b then ret (error_reply 401 m)
       else bnd (wake_io o' body) (\<lambda>_. ret (json_reply 200 [])))
       (\<lambda>out _. rp_status out = 200 \<longrightarrow> G) (\<lambda>_. True)) (\<lambda>_. True) s"
proof (rule wp_mono [OF wp_verify_io [OF assms(1)]])
  fix b s'
  assume "b \<longrightarrow> (\<exists>k. published (so_verifier o') d k \<and> vf_check (so_verifier o') k p sig = Some True)"
  then have "b \<Longrightarrow> G" using assms(2) by blast
  then show "wp (if \<not> b then ret (error_reply 401 m) else bnd (wake_io o' body) (\<lambda>_. ret (json_reply 200 [])))
       (\<lambda>out _. rp_status out = 200 \<longrightarrow> G) (\<lambda>_. True) s'"
    by (cases b) (simp_all add: wp_ret wp_bnd wp_top)
qed simp

lemma wp_post_callback:
  assumes "cache_ok (so_verifier o') (sw_keys s)"
  shows "wp (post_callback o' req raw) (\<lambda>out _. rp_status out = 200 \<longrightarrow> signed_callback o' req raw) (\<lambda>_. True) s"
proof -
  have signed: "signed_callback o' req raw"
    if "so_decodeURIComponent o' raw = Some cid" "so_corridors o' cid = Some c"
      "parse_signature (the (signature_header req)) = Some (tStr, sig)" "so_now o' e = (now, e')" "timestamp_ok now tStr"
      "published (so_verifier o') (home_domain (d_endpoints (c_dest c))) k"
      "vf_check (so_verifier o') k (callback_payload tStr req) sig = Some True" for cid c tStr sig now e e' k
    using that unfolding signed_callback_def by (metis fst_conv)
  show ?thesis
    by (auto simp: post_callback_def wp_ret wp_throw wp_bnd [of "outside p" for p] wp_outside wp_bnd [of "verify_io o1 d p sig" for o1 d p sig]
        truthy_def assms split: option.splits prod.splits intro!: wp_verified) (auto intro: signed)
qed

lemma route_callback:
  fixes s :: "('e, 'k) service_world"
  assumes "ru_method req = ''POST''" and "last_segment ''/callbacks/sep31/'' (clean_path (ru_path req)) = Some raw"
    and "cache_ok (so_verifier o') (sw_keys s)"
  shows "wp (route o' req) (\<lambda>out _. rp_status out = 200 \<longrightarrow> signed_callback o' req raw) (\<lambda>_. True) s"
proof (rule route_wp)
  fix ctx and s1 :: "('e, 'k) service_world"
  assume keys: "sw_keys s1 = sw_keys s"
  have "wp (if \<not> a then ret (error_reply 429 ''rate_limited'')
      else if \<not> authorized o' req then ret (error_reply 401 ''unauthorized'') else post_callback o' req raw)
      (\<lambda>out _. rp_status out = 200 \<longrightarrow> signed_callback o' req raw) (\<lambda>_. True) s2" if "sw_keys s2 = sw_keys s" for a s2
    using wp_post_callback [of o' s2 req raw] assms(3) that by (simp add: wp_ret)
  then show "wp (handle o' req ctx) (\<lambda>out _. rp_status out = 200 \<longrightarrow> signed_callback o' req raw) (\<lambda>_. True) s1"
    unfolding handle_callback [OF assms(1,2)] wp_bnd by (intro wp_rate_ok) (simp_all add: keys)
qed simp


subsection \<open>Draining\<close>

text \<open>
  Executions start and end in any order. \<open>tk_running\<close> holds the promises that are still running,
  with their keys; with \<open>one\<close> a key is never started while an execution of it runs.
\<close>

record tracker =
  tk_inFlight :: "(string \<times> nat) list"
  tk_running :: "(nat \<times> string) set"
  tk_next :: nat

inductive tk_step :: "bool \<Rightarrow> tracker \<Rightarrow> tracker \<Rightarrow> bool" where
  start: "(one \<Longrightarrow> key \<notin> snd ` tk_running t) \<Longrightarrow>
    tk_step one t (t\<lparr>tk_inFlight := track_start key (tk_next t) (tk_inFlight t),
                    tk_running := insert (tk_next t, key) (tk_running t), tk_next := Suc (tk_next t)\<rparr>)"
| finish: "(p, key) \<in> tk_running t \<Longrightarrow>
    tk_step one t (t\<lparr>tk_inFlight := track_end key (tk_inFlight t), tk_running := tk_running t - {(p, key)}\<rparr>)"

definition idle_tracker :: tracker where
  "idle_tracker = \<lparr>tk_inFlight = [], tk_running = {}, tk_next = 0\<rparr>"

inductive tk_reach :: "bool \<Rightarrow> tracker \<Rightarrow> bool" where
  init: "tk_reach one idle_tracker"
| step: "tk_reach one t \<Longrightarrow> tk_step one t t' \<Longrightarrow> tk_reach one t'"

definition tk_inv :: "tracker \<Rightarrow> bool" where
  "tk_inv t \<longleftrightarrow> distinct (map fst (tk_inFlight t)) \<and>
     (\<forall>p key. (p, key) \<in> tk_running t \<longleftrightarrow> map_of (tk_inFlight t) key = Some p)"

lemma track_start_map: "map_of (track_start k p m) = (map_of m)(k \<mapsto> p)"
  by (simp add: track_start_def AList.update_conv')

lemma track_end_map: "map_of (track_end k m) = (map_of m)(k := None)"
  by (simp add: track_end_def AList.delete_conv')

lemma track_distinct:
  "distinct (map fst m) \<Longrightarrow> distinct (map fst (track_start k p m)) \<and> distinct (map fst (track_end k m))"
  by (simp add: track_start_def track_end_def AList.distinct_update AList.distinct_delete)

lemma tk_step_inv:
  assumes "tk_step True t t'" and "tk_inv t"
  shows "tk_inv t'"
  using assms
proof (induction True t t' rule: tk_step.induct)
  case (start key t)
  then have "map_of (tk_inFlight t) key \<noteq> Some p" for p
    unfolding tk_inv_def by (metis image_eqI snd_conv)
  then have "map_of (tk_inFlight t) key = None" by (simp add: not_Some_eq [symmetric])
  then show ?case
    using start.prems by (auto simp: tk_inv_def track_start_map track_distinct simp del: map_of_eq_Some_iff)
next
  case (finish p key t)
  then show ?case
    by (auto simp: tk_inv_def track_end_map track_distinct simp del: map_of_eq_Some_iff)
qed

lemma tk_reach_inv: "tk_reach True t \<Longrightarrow> tk_inv t"
proof (induction True t rule: tk_reach.induct)
  case init
  then show ?case by (simp add: tk_inv_def idle_tracker_def)
qed (rule tk_step_inv)

lemma inv_waits: "tk_inv t \<Longrightarrow> set (drain_waits (tk_inFlight t)) = fst ` tk_running t"
  by (force simp: tk_inv_def drain_waits_def image_iff)

end
