(* ===== verification/Serving.thy ===== *)
theory Serving
  imports ServiceSafety Trace
begin

section \<open>The properties of the HTTP service, on a concrete service\<close>

text \<open>
  The theorems on \<open>route\<close>, \<open>serve_request\<close> and the executions in flight, applied to a service around
  the demo engine.
\<close>

subsection \<open>A concrete service\<close>

text \<open>The demo engine with an audit sink that fails, behind one API key.\<close>

definition outage_deps :: "int engine_deps" where
  "outage_deps = (demo_deps (Inr demo_ref) demo_paid)\<lparr>d_auditDetail := Some (\<lambda>_ e. (False, e))\<rparr>"

definition demo_verifier :: "(int, string) verifier" where
  "demo_verifier =
     \<lparr>vf_fetch = (\<lambda>_ e. (TomlText (''SIGNING_KEY = '' @ [CHR 0x22] @ ''GAAZ'' @ [CHR 0x22]), e)),
      vf_import = (\<lambda>_. Some ''key''), vf_check = (\<lambda>_ _ sig. Some (sig = ''good'')), vf_now = (\<lambda>e. (e, e))\<rparr>"

definition demo_options :: "(int, string) service_options" where
  "demo_options =
     \<lparr>so_corridors = (\<lambda>i. if i = ''d'' then Some demo_corridor else None), so_deps = outage_deps, so_fuel = 1,
      so_apiKeys = Some [''secret''], so_limiter = None, so_metricsText = None, so_maxBodyBytes = None,
      so_trustProxy = False, so_now = (\<lambda>e. (e, e)), so_readinessChecks = [], so_readinessTimeoutMs = None,
      so_verifier = demo_verifier, so_wake = None, so_uuid = (\<lambda>e. (''id'', e)),
      so_decodeURIComponent = (\<lambda>s. Some s), so_parseJson = (\<lambda>_. None)\<rparr>"

definition demo_request :: "string \<Rightarrow> string \<Rightarrow> json option \<Rightarrow> headers \<Rightarrow> route_request" where
  "demo_request meth path body hs =
     \<lparr>ru_method = meth, ru_path = path, ru_body = body, ru_rawBody = Some ''{}'',
      ru_headers = (''authorization'', ''Bearer secret'') # hs,
      ru_clientIp = None, ru_requestId = Some ''id'', ru_traceparent = None\<rparr>"

definition demo_service :: "mem_store \<Rightarrow> (int, string) service_world" where
  "demo_service s = \<lparr>sw_world = session_world 0 s [] demo_run, sw_draining = False, sw_inFlight = [],
     sw_promises = 0, sw_unhandled = False, sw_keys = []\<rparr>"

lemmas service_evals = demo_options_def demo_request_def demo_service_def bearer_def starts_with_def
  authorized_def clean_path_def contextOf_def resolveRequestId_def orElse_opt_def REQUEST_ID_PATTERN_def is_alnum_def
  is_digit_def matchesKey_def constantTimeEqual_def rate_ok_def

lemma demo_paths:
  "clean_path ''/payments/'' = ''/payments''" "clean_path ''/payments/k'' = ''/payments/k''"
  "last_segment ''/payments/'' ''/payments/k'' = Some ''k''"
  "clean_path ''/callbacks/sep31/d'' = ''/callbacks/sep31/d''"
  "last_segment ''/callbacks/sep31/'' ''/callbacks/sep31/d'' = Some ''d''"
  by code_simp+

lemma demo_intent_wf: "wf_intent demo_intent"
  by (simp add: wf_intent_def demo_intent_def demo_party_def wf_party_def IDEMPOTENCY_KEY_PATTERN_def key_char_def
      is_alnum_def is_digit_def MAX_IDEMPOTENCY_KEY_def MAX_CORRIDOR_ID_def)

lemma demo_admitted: "admit demo_options (Some (intent_json demo_intent)) = Inr (demo_intent, demo_corridor)"
proof -
  have "m_asset (sourceAmount demo_intent) = ''USDC''" "corridorId demo_intent = ''d''"
    by (simp_all add: demo_intent_def)
  then show ?thesis
    unfolding admit_Inr admitted_def parses_back [OF demo_intent_wf] demo_intent_simps
    by (simp add: demo_amounts(1) demo_options_def assetMatchesCorridor_def demo_corridor_simps)
qed

lemma demo_authorized: "authorized demo_options (demo_request m p b hs)"
  by (simp add: authorized_def demo_options_def demo_request_def bearer_def starts_with_def matchesKey_def constantTimeEqual_def)

lemma demo_context:
  "contextOf (so_uuid demo_options) (demo_request m p b []) e = (\<lparr>rc_requestId = ''id'', rc_traceparent = None\<rparr>, e)"
  by (simp add: contextOf_def resolveRequestId_def resolveTraceparent_def orElse_opt_def demo_request_def REQUEST_ID_PATTERN_def
      is_alnum_def is_digit_def)

text \<open>The audit sink fails after its event was recorded: the engine throws.\<close>

lemma outage_cap: "effectiveCap outage_deps demo_corridor True = Inr (Some ''10'')"
  by (simp add: outage_deps_def effectiveCap_def max_limit_def demo_corridor_def canaryCap_def)

lemma outage_deps_simps:
  "d_gate outage_deps = None" "d_unsafeSkipGate outage_deps" "d_now outage_deps = (\<lambda>e. (e, e + 1))"
  "d_auditDetail outage_deps = Some (\<lambda>_ e. (False, e))"
  by (simp_all add: outage_deps_def)

lemma outage_execute:
  "\<exists>dt. execute fuel outage_deps demo_intent demo_corridor opts (session_world 0 s [] r)
     = (None, (session_world 2 s [] r)\<lparr>w_events := [EvDetail dt]\<rparr>)"
  by (simp add: execute_def execute_with_def pre_claim_def emitVerification_def nowIO_def outage_deps_simps demo_intent_simps
      demo_amounts demo_liveness outage_cap Let_def io_defs port_io_def emit_def seq_def session_world_def cong: lazy)


lemma outage_route:
  "\<exists>dt s'. route demo_options (demo_request ''POST'' ''/payments/'' (Some (intent_json demo_intent)) []) (demo_service s)
     = (None, s') \<and> w_events (sw_world s') = [EvDetail dt]"
proof -
  let ?req = "demo_request ''POST'' ''/payments/'' (Some (intent_json demo_intent)) []"
  have req: "ru_method ?req = ''POST''" "ru_path ?req = ''/payments/''" "ru_body ?req = Some (intent_json demo_intent)"
    by (simp_all add: demo_request_def)
  have opts: "so_limiter demo_options = None" "so_deps demo_options = outage_deps"
    by (simp_all add: demo_options_def)
  obtain dt where "execute (so_fuel demo_options) outage_deps demo_intent demo_corridor
      (execute_options_of (bearer (ru_headers ?req)) \<lparr>rc_requestId = ''id'', rc_traceparent = None\<rparr>) (session_world 0 s [] demo_run)
     = (None, (session_world 2 s [] demo_run)\<lparr>w_events := [EvDetail dt]\<rparr>)"
    using outage_execute by blast
  then show ?thesis
    by (simp add: route_def handle_def private_routes_def post_payment_def rate_ok_def req opts demo_paths demo_authorized
        demo_admitted trackExecution_def engine_io_def outside_def port_io_def demo_context io_defs demo_service_def
        session_world_def Let_def cong: lazy)
qed

subsection \<open>Properties\<close>

text \<open>
  C1: a request changes what the engine has stored or done only if it is a \<open>POST\<close> to the payments
  path with a known key where keys are configured, the service is not draining, and its body parses
  to an intent with a positive amount, of a known corridor, in an asset of that corridor.
\<close>

theorem engine_reached_only_if_admitted:
  assumes "route o' req s = (r, s')"
    and "w_runs (sw_world s') \<noteq> w_runs (sw_world s) \<or> w_events (sw_world s') \<noteq> w_events (sw_world s)"
  shows "ru_method req = ''POST'' \<and> clean_path (ru_path req) = ''/payments'' \<and> authorized o' req \<and>
     \<not> sw_draining s \<and>
     (\<exists>i c. parsePaymentBody (ru_body req) = Inr i \<and> isSettleableAmount (m_amount (sourceAmount i)) STROOP_SCALE \<and>
        so_corridors o' (corridorId i) = Some c \<and> assetMatchesCorridor (m_asset (sourceAmount i)) c)"
  using route_refused [OF assms(1)] assms(2) by (auto simp: engine_view_def admitted_def)


text \<open>Of a stored error only the code is shown, never its message.\<close>

theorem error_shown_as_code: "errorCode (Some (render_error e)) = Some (code_name (e_code e))"
  by (rule errorCode_rendered)


text \<open>
  Every request whose target is a URL gets a reply, even when the engine throws.
\<close>

theorem every_request_is_answered:
  assumes "ic_target inc = Some path"
  shows "\<exists>st hs b. fst (serve_request o' inc s) = Some (Reply st hs b)"
  using assms by (simp add: serve_request_def io_defs catch_io_def outside_def engine_io_def port_io_def sendJson_def
      send_response_def Let_def split: prod.splits option.splits)

text \<open>
  When no key is started while an execution of it runs, a drain waits for exactly the executions
  that are still running.
\<close>

theorem drain_waits_for_running:
  "tk_reach True t \<Longrightarrow> set (drain_waits (tk_inFlight t)) = fst ` tk_running t"
  by (rule inv_waits [OF tk_reach_inv])

lemma one_running: "tk_reach one \<lparr>tk_inFlight = [(''k'', 0)], tk_running = {(0, ''k'')}, tk_next = 1\<rparr>"
  using tk_step.start [of one "''k''" idle_tracker]
  by (intro tk_reach.step [OF tk_reach.init]) (simp add: idle_tracker_def track_start_def)

text \<open>
  A repeated request for a key that is still running breaks this: its end deletes the entry of
  the key, and a drain that follows waits for nothing while an execution runs.
\<close>

theorem drain_misses_duplicate:
  "\<exists>t. tk_reach False t \<and> tk_running t = {(0, ''k'')} \<and> drain_waits (tk_inFlight t) = []"
proof -
  have 2: "tk_reach False \<lparr>tk_inFlight = [(''k'', 1)], tk_running = {(1, ''k''), (0, ''k'')}, tk_next = 2\<rparr>"
    using tk_step.start [of False "''k''" "\<lparr>tk_inFlight = [(''k'', 0)], tk_running = {(0, ''k'')}, tk_next = 1\<rparr>"]
    by (intro tk_reach.step [OF one_running]) (simp add: track_start_def numeral_2_eq_2)
  have 3: "tk_reach False \<lparr>tk_inFlight = [], tk_running = {(0, ''k'')}, tk_next = 2\<rparr>"
    using tk_step.finish [of 1 "''k''" "\<lparr>tk_inFlight = [(''k'', 1)], tk_running = {(1, ''k''), (0, ''k'')}, tk_next = 2\<rparr>" False]
    by (intro tk_reach.step [OF 2]) (simp add: track_end_def insert_Diff_if)
  then show ?thesis by (auto simp: drain_waits_def)
qed


lemma overflows_iff: "n \<le> limit \<Longrightarrow> overflows limit n cs \<longleftrightarrow> limit < n + sum_list cs"
proof (induction cs arbitrary: n)
  case (Cons c cs)
  then show ?case using Cons.IH [of "n + c"] by (cases "limit < n + c") auto
qed simp

text \<open>
  A body whose chunks exceed the bound is answered 413, whatever length was declared, and the
  engine does not see it.
\<close>

theorem oversized_body_is_refused:
  assumes "max_body o' < sum_list (ic_chunks inc)" and "serve_request o' inc s = (r, s')"
  shows "(\<exists>hs. r = Some (Reply 413 hs (BJson [(''error'', JStr ''payload too large'')]))) \<and>
     w_runs (sw_world s') = w_runs (sw_world s) \<and> w_events (sw_world s') = w_events (sw_world s)"
  using assms overflows_iff [of 0 "max_body o'" "ic_chunks inc"]
  by (auto simp: serve_request_def io_defs outside_def engine_io_def port_io_def sendJson_def Let_def split: prod.splits)

subsection \<open>Witnesses\<close>

theorem engine_reached_only_if_admitted_witness:
  "\<exists>i c. parsePaymentBody (Some (intent_json demo_intent)) = Inr i \<and>
     isSettleableAmount (m_amount (sourceAmount i)) STROOP_SCALE \<and>
     so_corridors demo_options (corridorId i) = Some c \<and> assetMatchesCorridor (m_asset (sourceAmount i)) c"
proof -
  obtain dt s' where r: "route demo_options (demo_request ''POST'' ''/payments/'' (Some (intent_json demo_intent)) [])
      (demo_service empty_store) = (None, s')" and e: "w_events (sw_world s') = [EvDetail dt]"
    using outage_route by blast
  have "w_events (sw_world (demo_service empty_store)) = []" by (simp add: demo_service_def session_world_def)
  with engine_reached_only_if_admitted [OF r] e show ?thesis by (simp add: demo_request_def)
qed

definition owned_run :: stored_run where
  "owned_run = demo_opened_run\<lparr>r_owner := Some ''secret'', r_lastError := Some ''KYC_REQUIRED: no customer''\<rparr>"

lemma demo_headers_ctx:
  "map_of hs ''traceparent'' = None \<Longrightarrow>
   contextOf (so_uuid demo_options) (demo_request m p b hs) e = (\<lparr>rc_requestId = ''id'', rc_traceparent = None\<rparr>, e)"
  by (simp add: contextOf_def resolveRequestId_def resolveTraceparent_def orElse_opt_def demo_request_def REQUEST_ID_PATTERN_def
      is_alnum_def is_digit_def)

lemma demo_read:
  "\<exists>out s'. route demo_options (demo_request ''GET'' ''/payments/k'' None []) (demo_service (demo_store owned_run))
     = (Some out, s') \<and> rp_status out = 200"
proof -
  let ?req = "demo_request ''GET'' ''/payments/k'' None []"
  have m: "ru_method ?req = ''GET''" "last_segment ''/payments/'' (clean_path (ru_path ?req)) = Some ''k''"
    by (simp_all add: demo_request_def demo_paths)
  have get: "so_decodeURIComponent demo_options ''k'' = Some ''k''" "so_limiter demo_options = None"
      "mem_get (demo_store owned_run) ''k'' = Some owned_run"
      "ownerMatches (r_owner owned_run) (bearer (ru_headers ?req))"
    by (simp_all add: demo_options_def owned_run_def demo_store_def mem_get_def demo_opened_run_def demo_run_def
        ownerMatches_def bearer_def demo_request_def starts_with_def)
  show ?thesis
    by (simp add: route_def handle_get [OF m] get_payment_def rate_ok_def get demo_authorized outside_def engine_io_def
        port_io_def demo_context io_defs demo_service_def session_world_def cong: lazy)
qed


definition signed_headers :: headers where
  "signed_headers = [(''signature'', ''t=0, s=good'')]"

lemma demo_signature: "parse_signature ''t=0, s=good'' = Some (''0'', ''good'')"
  by code_simp

lemma demo_key: "find_signing_key True (''SIGNING_KEY = '' @ [CHR 0x22] @ ''GAAZ'' @ [CHR 0x22]) = Some ''GAAZ''"
  by code_simp

lemma demo_time: "timestamp_ok 0 ''0''"
  by code_simp

lemma demo_callback:
  "\<exists>out s'. route demo_options (demo_request ''POST'' ''/callbacks/sep31/d'' None signed_headers) (demo_service empty_store)
     = (Some out, s') \<and> rp_status out = 200"
proof -
  let ?req = "demo_request ''POST'' ''/callbacks/sep31/d'' None signed_headers"
  have m: "ru_method ?req = ''POST''" "last_segment ''/callbacks/sep31/'' (clean_path (ru_path ?req)) = Some ''d''"
    by (simp_all add: demo_request_def demo_paths)
  have sg: "signature_header ?req = Some ''t=0, s=good''"
    by (simp add: signature_header_def demo_request_def signed_headers_def or_str_def)
  have o1: "so_decodeURIComponent demo_options ''d'' = Some ''d''" "so_limiter demo_options = None"
      "so_corridors demo_options ''d'' = Some demo_corridor" "so_now demo_options = (\<lambda>e. (e, e))"
      "so_verifier demo_options = demo_verifier" "so_wake demo_options = None"
    by (simp_all add: demo_options_def)
  have v: "verify demo_verifier d p ''good'' (e, []) = (True, e, [(d, \<lparr>ck_key = ''key'', ck_expires = e + KEY_TTL_MS\<rparr>)])" for d p e
    using demo_key by (simp add: verify_def current_key_def fetch_key_def demo_verifier_def read_key_of_def)
  have ctx: "contextOf (so_uuid demo_options) ?req e = (\<lparr>rc_requestId = ''id'', rc_traceparent = None\<rparr>, e)" for e
    by (rule demo_headers_ctx) (simp add: signed_headers_def)
  show ?thesis
    by (simp add: route_def handle_callback [OF m] post_callback_def rate_ok_def o1 sg demo_signature demo_time demo_authorized
        verify_io_def v wake_io_def outside_def engine_io_def port_io_def ctx io_defs demo_service_def session_world_def
        Let_def cong: lazy)
qed


definition demo_incoming :: "nat list \<Rightarrow> incoming" where
  "demo_incoming chunks =
     \<lparr>ic_method = ''GET'', ic_target = Some ''/'', ic_rawHeaders = [], ic_declared = None, ic_chunks = chunks,
      ic_raw = [], ic_remote = None\<rparr>"

theorem every_request_is_answered_witness:
  "\<exists>st hs b. fst (serve_request demo_options (demo_incoming []) (demo_service empty_store)) = Some (Reply st hs b)"
  by (rule every_request_is_answered [of _ "''/''"]) (simp add: demo_incoming_def)

theorem oversized_body_is_refused_witness:
  "\<exists>r s' hs. serve_request demo_options (demo_incoming [65000, 1000]) (demo_service empty_store) = (r, s') \<and>
     r = Some (Reply 413 hs (BJson [(''error'', JStr ''payload too large'')])) \<and>
     w_events (sw_world s') = w_events (sw_world (demo_service empty_store))"
proof -
  obtain r s' where r: "serve_request demo_options (demo_incoming [65000, 1000]) (demo_service empty_store) = (r, s')"
    by (cases "serve_request demo_options (demo_incoming [65000, 1000]) (demo_service empty_store)")
  have "max_body demo_options < sum_list (ic_chunks (demo_incoming [65000, 1000]))"
    by (simp add: max_body_def demo_options_def DEFAULT_MAX_BODY_BYTES_def demo_incoming_def)
  from oversized_body_is_refused [OF this r] r show ?thesis by blast
qed

theorem drain_waits_for_running_witness:
  "set (drain_waits [(''k'', 0)]) = fst ` {(0, ''k'')}"
  using drain_waits_for_running [OF one_running] by simp

end
