(* ===== verification/Horizon.thy ===== *)
theory Horizon
  imports Client Ports
begin

section \<open>Reading the chain (packages/stellar/src/index.ts)\<close>

text \<open>
  \<open>AccountInspector\<close>: account facts, the network's base reserve and fee, the payments an account
  sent, and the facts of one settlement transaction with the check that they are what the run asked
  for. Horizon is a set of ports, each answering a value or an error; an operation of the inspector
  is an effect on the outside world \<open>'e\<close>. A method the injected server does not have is \<open>None\<close>.
\<close>

subsection \<open>Answers of Horizon\<close>

text \<open>
  What the code reads of a rejection: its message, an HTTP status it carries, the SDK class it is an
  instance of, and the result codes Horizon attached.
\<close>

record horizon_error =
  he_message :: string
  he_status :: "int option"
  he_notFound :: bool
  he_rejected :: bool
  he_codes :: "(string option \<times> string list) option"

definition isNotFound :: "horizon_error \<Rightarrow> bool" where
  "isNotFound e = (he_notFound e \<or> he_status e = Some 404)"

definition describe :: "horizon_error \<Rightarrow> string" where
  "describe e =
     (case he_codes e of
        Some (tx, ops) \<Rightarrow>
          (case tx of Some t \<Rightarrow> t | None \<Rightarrow> ''tx_failed'') @
          (if ops \<noteq> [] then '' operations=['' @ join '', '' ops @ '']'' else [])
      | None \<Rightarrow> he_message e)"

definition plain_error :: "string \<Rightarrow> horizon_error" where
  "plain_error m = \<lparr>he_message = m, he_status = None, he_notFound = False, he_rejected = False, he_codes = None\<rparr>"

definition horizonFailure :: "string \<Rightarrow> horizon_error \<Rightarrow> 'a outcome" where
  "horizonFailure what e = fail_full SETTLEMENT_FAILED (''failed to '' @ what @ '': '' @ he_message e) True CauseOther"

type_synonym ('e, 'a) hio = "('e, 'a) io"

definition ask :: "('e, 'a) port \<Rightarrow> ('e, 'a) hio" where
  "ask p = (\<lambda>e. case p e of (a, e') \<Rightarrow> (Some a, e'))"

lemma wp_ask [wp_rules]: "wp (ask p) Q E e = (case p e of (a, e') \<Rightarrow> Q a e')"
  by (simp add: wp_def ask_def split: prod.splits)

subsection \<open>Account facts\<close>

record balance_fact =
  ab_type :: string
  ab_code :: "string option"
  ab_issuer :: "string option"
  ab_balance :: string
  ab_selling :: "string option"
  ab_buying :: "string option"
  ab_authorized :: "bool option"

record account_facts =
  af_id :: string
  af_subentries :: int
  af_sponsoring :: int
  af_sponsored :: int
  af_balances :: "balance_fact list"
  af_flags :: "(string \<times> bool) list option"

record account_response =
  ar_id :: "string option"
  ar_subentries :: "int option"
  ar_sponsoring :: "int option"
  ar_sponsored :: "int option"
  ar_balances :: "balance_fact list option"
  ar_flags :: "(string \<times> bool) list option"

definition or_else :: "'a \<Rightarrow> 'a option \<Rightarrow> 'a" where
  "or_else d x = (case x of Some v \<Rightarrow> v | None \<Rightarrow> d)"

text \<open>A trustline counts as authorized only when Horizon says so.\<close>

definition to_balance_fact :: "balance_fact \<Rightarrow> balance_fact" where
  "to_balance_fact b =
     b\<lparr>ab_selling := Some (or_else ''0'' (ab_selling b)), ab_buying := Some (or_else ''0'' (ab_buying b)),
       ab_authorized := Some (if ab_type b = ''native'' then True else ab_authorized b = Some True)\<rparr>"

definition toAccountFacts :: "account_response \<Rightarrow> string \<Rightarrow> account_facts" where
  "toAccountFacts r i =
     \<lparr>af_id = or_else i (ar_id r), af_subentries = or_else 0 (ar_subentries r),
      af_sponsoring = or_else 0 (ar_sponsoring r), af_sponsored = or_else 0 (ar_sponsored r),
      af_balances = map to_balance_fact (or_else [] (ar_balances r)), af_flags = ar_flags r\<rparr>"

text \<open>A JSON integer (safe and not negative) or a text of digits.\<close>

definition stroopsToXlm :: "json \<Rightarrow> string option" where
  "stroopsToXlm v =
     (case v of
        JInt n \<Rightarrow> if 0 \<le> n \<and> n \<le> 9007199254740991 then Some (fromScaled n STROOP_SCALE) else None
      | JStr s \<Rightarrow> if s \<noteq> [] \<and> list_all is_digit s then Some (fromScaled (int (nat_of_digits s)) STROOP_SCALE) else None
      | _ \<Rightarrow> None)"

subsection \<open>Settlement and payment facts\<close>

record operation_facts =
  oo_type :: string
  oo_to :: "string option"
  oo_amount :: "string option"
  oo_asset_type :: "string option"
  oo_asset_code :: "string option"
  oo_asset_issuer :: "string option"
  oo_source_amount :: "string option"
  oo_source_asset_type :: "string option"
  oo_source_asset_code :: "string option"
  oo_source_asset_issuer :: "string option"

record settlement_facts =
  sf_hash :: string
  sf_successful :: bool
  sf_memo :: "string option"
  sf_memoType :: string
  sf_operations :: "operation_facts list"

record payment_fact =
  pf_id :: string
  pf_type :: string
  pf_hash :: string
  pf_ledger :: nat
  pf_createdAt :: string
  pf_from :: string
  pf_to :: string
  pf_toMuxed :: "string option"
  pf_asset_type :: string
  pf_asset_code :: "string option"
  pf_asset_issuer :: "string option"
  pf_amount :: string
  pf_memoType :: string
  pf_memo :: "string option"

text \<open>\<open>ledger\<close> is only a number on one of the two fields, or on neither.\<close>

record joined_transaction =
  jt_memo_type :: string
  jt_memo :: "string option"
  jt_ledger :: "nat option"
  jt_ledger_attr :: "nat option"

record horizon_payment =
  hz_id :: string
  hz_type :: string
  hz_created_at :: string
  hz_hash :: string
  hz_from :: "string option"
  hz_to :: "string option"
  hz_to_muxed :: "string option"
  hz_asset_type :: "string option"
  hz_asset_code :: "string option"
  hz_asset_issuer :: "string option"
  hz_amount :: "string option"
  hz_transaction :: "joined_transaction option"

definition truthy_opt :: "string option \<Rightarrow> string option" where
  "truthy_opt x = (if truthy x then x else None)"

definition toPaymentFact :: "horizon_payment \<Rightarrow> payment_fact option" where
  "toPaymentFact r =
     (case hz_transaction r of
        None \<Rightarrow> None
      | Some tx \<Rightarrow>
          (case (case jt_ledger_attr tx of Some l \<Rightarrow> Some l | None \<Rightarrow> jt_ledger tx) of
             None \<Rightarrow> None
           | Some l \<Rightarrow> Some
               \<lparr>pf_id = hz_id r, pf_type = hz_type r, pf_hash = hz_hash r, pf_ledger = l,
                pf_createdAt = hz_created_at r, pf_from = or_else '''' (hz_from r), pf_to = or_else '''' (hz_to r),
                pf_toMuxed = truthy_opt (hz_to_muxed r), pf_asset_type = or_else '''' (hz_asset_type r),
                pf_asset_code = truthy_opt (hz_asset_code r), pf_asset_issuer = truthy_opt (hz_asset_issuer r),
                pf_amount = or_else ''0'' (hz_amount r), pf_memoType = jt_memo_type tx, pf_memo = jt_memo tx\<rparr>))"

subsection \<open>The inspector\<close>

record ledger_record =
  lr_sequence :: nat
  lr_base_fee :: json
  lr_base_reserve :: json

record tx_record =
  tr_successful :: bool
  tr_memo :: "string option"
  tr_memo_type :: "string option"
  tr_ledger :: "nat option"
  tr_fee_charged :: "string option"
  tr_result_xdr :: "string option"

text \<open>\<open>in_payments source n\<close> is page \<open>n\<close> of the payments of an account, newest first, as \<open>next()\<close> walks them.\<close>

record 'e inspector =
  in_loadAccount :: "(string \<Rightarrow> ('e, horizon_error + account_response) port) option"
  in_ledgers :: "('e, horizon_error + ledger_record list) port option"
  in_transaction :: "(string \<Rightarrow> ('e, horizon_error + tx_record) port) option"
  in_operations :: "(string \<Rightarrow> ('e, horizon_error + operation_facts list) port) option"
  in_payments :: "(string \<Rightarrow> nat \<Rightarrow> ('e, horizon_error + horizon_payment list) port) option"
  in_baseReserve :: "string option"
  in_baseFee :: "string option"
  in_pageSize :: nat
  in_maxPages :: nat

definition account :: "'e inspector \<Rightarrow> string \<Rightarrow> ('e, account_facts option outcome) hio" where
  "account i acc =
     (case in_loadAccount i of
        None \<Rightarrow> ret (horizonFailure (''load account '' @ acc) (plain_error ''horizon server has no loadAccount''))
      | Some load \<Rightarrow> bnd (ask (load acc)) (\<lambda>a. ret (case a of
          Inr r \<Rightarrow> Inr (Some (toAccountFacts r acc))
        | Inl e \<Rightarrow> if isNotFound e then Inr None else horizonFailure (''load account '' @ acc) e)))"

definition source_fields :: "operation_facts \<Rightarrow> operation_facts" where
  "source_fields o' =
     (if oo_source_amount o' \<noteq> None then o'
      else o'\<lparr>oo_source_asset_type := None, oo_source_asset_code := None, oo_source_asset_issuer := None\<rparr>)"

definition settlementFacts :: "'e inspector \<Rightarrow> string \<Rightarrow> ('e, settlement_facts outcome) hio" where
  "settlementFacts i h =
     (case (in_transaction i, in_operations i) of
        (Some transaction, Some operations) \<Rightarrow>
          bnd (ask (transaction h)) (\<lambda>t. case t of
            Inl e \<Rightarrow> ret (horizonFailure (''read tx '' @ h @ '' from Horizon'') e)
          | Inr tx \<Rightarrow> bnd (ask (operations h)) (\<lambda>os. ret (case os of
              Inl e \<Rightarrow> horizonFailure (''read tx '' @ h @ '' from Horizon'') e
            | Inr ops \<Rightarrow> Inr \<lparr>sf_hash = h, sf_successful = tr_successful tx, sf_memo = tr_memo tx,
                sf_memoType = or_else ''none'' (tr_memo_type tx), sf_operations = map source_fields ops\<rparr>)))
      | _ \<Rightarrow> ret (fail SETTLEMENT_FAILED ''Horizon server does not expose transactions/operations''))"

definition fromLatestLedger ::
  "'e inspector \<Rightarrow> string \<Rightarrow> (ledger_record \<Rightarrow> json) \<Rightarrow> ('e, string outcome) hio" where
  "fromLatestLedger i what pick =
     (let failed = horizonFailure (''read '' @ what @ '' from the latest ledger'') in
      case in_ledgers i of
        None \<Rightarrow> ret (failed (plain_error ''horizon server has no ledgers''))
      | Some ledgers \<Rightarrow> bnd (ask ledgers) (\<lambda>a. ret (case a of
          Inl e \<Rightarrow> failed e
        | Inr [] \<Rightarrow> fail SETTLEMENT_FAILED (''no ledger returned for '' @ what)
        | Inr (latest # _) \<Rightarrow>
            (case stroopsToXlm (pick latest) of
               None \<Rightarrow> fail SETTLEMENT_FAILED (''ledger '' @ show_nat (lr_sequence latest) @ '' has no valid '' @ what)
             | Some xlm \<Rightarrow> Inr xlm))))"

definition baseReserve :: "'e inspector \<Rightarrow> ('e, string outcome) hio" where
  "baseReserve i = (case in_baseReserve i of Some r \<Rightarrow> ret (Inr r)
     | None \<Rightarrow> fromLatestLedger i ''base reserve'' lr_base_reserve)"

definition baseFee :: "'e inspector \<Rightarrow> ('e, string outcome) hio" where
  "baseFee i = (case in_baseFee i of Some r \<Rightarrow> ret (Inr r)
     | None \<Rightarrow> fromLatestLedger i ''base fee'' lr_base_fee)"


subsection \<open>Payments an account sent\<close>

record payments_options =
  po_to :: "string option"
  po_sinceLedger :: "nat option"

record payments_result =
  pr_payments :: "payment_fact list"
  pr_truncated :: bool

definition PAYMENT_TYPES :: "string list" where
  "PAYMENT_TYPES = [''payment'', ''path_payment_strict_receive'', ''path_payment_strict_send'']"

definition too_old :: "payments_options \<Rightarrow> payment_fact \<Rightarrow> bool" where
  "too_old o' f = (case po_sinceLedger o' of Some l \<Rightarrow> pf_ledger f < l | None \<Rightarrow> False)"

definition wanted :: "payments_options \<Rightarrow> string \<Rightarrow> payment_fact \<Rightarrow> bool" where
  "wanted o' source f =
     (pf_type f \<in> set PAYMENT_TYPES \<and> pf_from f = source \<and>
      (case po_to o' of None \<Rightarrow> True | Some t \<Rightarrow> pf_to f = t \<or> pf_toMuxed f = Some t))"

text \<open>One page: a record without its transaction, the end of the wanted ledgers, or the whole page read.\<close>

datatype page_scan = ScanFail string | ScanStop "payment_fact list" | ScanMore "payment_fact list"

fun scan_page :: "payments_options \<Rightarrow> string \<Rightarrow> horizon_payment list \<Rightarrow> payment_fact list \<Rightarrow> page_scan" where
  "scan_page o' source [] out = ScanMore out"
| "scan_page o' source (r # rs) out =
     (case toPaymentFact r of
        None \<Rightarrow> ScanFail (''payment '' @ hz_id r @ '' came back without its transaction'' @ [CHR 0x27] @ ''s memo or ledger'')
      | Some f \<Rightarrow>
          if too_old o' f then ScanStop out
          else scan_page o' source rs (if wanted o' source f then out @ [f] else out))"

text \<open>\<open>left\<close> pages may still be read after this one, page \<open>n\<close>.\<close>

fun read_pages ::
  "'e inspector \<Rightarrow> (nat \<Rightarrow> ('e, horizon_error + horizon_payment list) port) \<Rightarrow> payments_options \<Rightarrow> string
     \<Rightarrow> nat \<Rightarrow> nat \<Rightarrow> payment_fact list \<Rightarrow> ('e, horizon_error + payments_result outcome) hio" where
  "read_pages i page o' source left n out =
     bnd (ask (page n)) (\<lambda>a. case a of
       Inl e \<Rightarrow> ret (Inl e)
     | Inr records \<Rightarrow>
         (case scan_page o' source records out of
            ScanFail why \<Rightarrow> ret (Inr (fail SETTLEMENT_FAILED why))
          | ScanStop found \<Rightarrow> ret (Inr (Inr \<lparr>pr_payments = found, pr_truncated = False\<rparr>))
          | ScanMore found \<Rightarrow>
              if length records < in_pageSize i then ret (Inr (Inr \<lparr>pr_payments = found, pr_truncated = False\<rparr>))
              else (case left of
                      0 \<Rightarrow> ret (Inr (Inr \<lparr>pr_payments = found, pr_truncated = True\<rparr>))
                    | Suc left' \<Rightarrow> read_pages i page o' source left' (Suc n) found)))"

declare read_pages.simps [simp del]

definition paymentsFrom ::
  "'e inspector \<Rightarrow> string \<Rightarrow> payments_options \<Rightarrow> ('e, payments_result outcome) hio" where
  "paymentsFrom i source o' =
     (let failed = horizonFailure (''list payments from '' @ source) in
      case in_payments i of
        None \<Rightarrow> ret (failed (plain_error ''horizon server has no payments''))
      | Some payments \<Rightarrow>
          bnd (read_pages i (payments source) o' source (in_maxPages i - 1) 0 []) (\<lambda>a. ret (case a of
            Inr r \<Rightarrow> r
          | Inl e \<Rightarrow> if isNotFound e then Inr \<lparr>pr_payments = [], pr_truncated = False\<rparr> else failed e)))"

subsection \<open>The settlement transaction against the request\<close>

definition mismatch_error :: "string \<Rightarrow> string \<Rightarrow> string option \<Rightarrow> corridor_error" where
  "mismatch_error field expected actual =
     mk_err RECONCILE_MISMATCH (''settlement tx does not match request: '' @ field @ '' expected '' @ expected @
       '', on-chain '' @ or_else ''(none)'' actual)"

definition mismatch :: "string \<Rightarrow> string \<Rightarrow> string option \<Rightarrow> 'a outcome" where
  "mismatch field expected actual = Inl (mismatch_error field expected actual)"

definition text_or_undefined :: "string option \<Rightarrow> string" where
  "text_or_undefined x = or_else ''undefined'' x"

text \<open>\<open>Some e\<close>: the on-chain asset (type, code, issuer) is not the one named.\<close>

definition assetMismatch ::
  "string \<Rightarrow> string \<Rightarrow> string option \<Rightarrow> string option \<times> string option \<times> string option \<Rightarrow> corridor_error option" where
  "assetMismatch field code issuer actual =
     (case actual of (ty, c, iss) \<Rightarrow>
      let err = (\<lambda>expected got. Some (mismatch_error field expected (Some got))) in
      if to_upper code = ''XLM'' then
        if ty = Some ''native'' then None
        else err ''XLM (native)'' (case c of Some x \<Rightarrow> x | None \<Rightarrow> text_or_undefined ty)
      else if ty \<noteq> Some ''native'' \<and> c = Some code \<and> iss = issuer then None
      else err (code @ '':'' @ text_or_undefined issuer)
             (if ty = Some ''native'' then ''XLM (native)'' else text_or_undefined c @ '':'' @ text_or_undefined iss))"

fun memo_type_name :: "memo_type \<Rightarrow> string" where
  "memo_type_name MemoText = ''text''" | "memo_type_name MemoHash = ''hash''" | "memo_type_name MemoId = ''id''"

definition sent_part ::
  "bool \<Rightarrow> operation_facts \<Rightarrow> string option \<times> string option \<times> string option \<times> string option" where
  "sent_part path op =
     (if path then (oo_source_amount op, oo_source_asset_type op, oo_source_asset_code op, oo_source_asset_issuer op)
      else (oo_amount op, oo_asset_type op, oo_asset_code op, oo_asset_issuer op))"

text \<open>\<open>rebase64\<close> is \<open>Buffer.from(memo, "base64").toString("base64")\<close>.\<close>

definition expected_memo_type :: "settlement_request \<Rightarrow> string" where
  "expected_memo_type req =
     (if truthy (sr_memo req) then (case sr_memoType req of Some t \<Rightarrow> memo_type_name t | None \<Rightarrow> ''text'') else ''none'')"

definition expected_memo :: "(string \<Rightarrow> string) \<Rightarrow> settlement_request \<Rightarrow> string option" where
  "expected_memo rebase64 req =
     (if \<not> truthy (sr_memo req) then None
      else if expected_memo_type req = ''hash'' then Some (rebase64 (the (sr_memo req))) else sr_memo req)"

definition amount_equal :: "string \<Rightarrow> string \<Rightarrow> bool" where
  "amount_equal a b = (case compareAmounts a b STROOP_SCALE of Inr c \<Rightarrow> c = 0 | Inl _ \<Rightarrow> False)"

definition memo_outcome :: "(string \<Rightarrow> string) \<Rightarrow> settlement_facts \<Rightarrow> settlement_request \<Rightarrow> unit outcome" where
  "memo_outcome rebase64 facts req =
     (if sf_memoType facts \<noteq> expected_memo_type req then
        mismatch ''memo type'' (expected_memo_type req) (Some (sf_memoType facts))
      else case expected_memo rebase64 req of
        None \<Rightarrow> Inr ()
      | Some m \<Rightarrow> if sf_memo facts \<noteq> Some m then mismatch ''memo'' m (sf_memo facts) else Inr ())"

definition verifySettlementFacts ::
  "(string \<Rightarrow> string) \<Rightarrow> settlement_facts \<Rightarrow> settlement_request \<Rightarrow> unit outcome" where
  "verifySettlementFacts rebase64 facts req =
     (if \<not> sf_successful facts then fail RECONCILE_MISMATCH (''settlement tx '' @ sf_hash facts @ '' failed on-chain'')
      else case sf_operations facts of
        [op] \<Rightarrow>
          (let s = c_settlement (sr_corridor req); path = needsPathPayment (sr_corridor req);
               ty = (if path then ''path_payment_strict_send'' else ''payment'');
               (amount, actual) = sent_part path op
           in if oo_type op \<noteq> ty then mismatch ''operation type'' ty (Some (oo_type op))
              else if oo_to op \<noteq> Some (sr_to req) then mismatch ''destination'' (sr_to req) (oo_to op)
              else if \<not> amount_equal (m_amount (sr_amount req)) (or_else '''' amount) then
                mismatch ''amount'' (m_amount (sr_amount req)) amount
              else case assetMismatch ''asset'' (bridge_asset s) (Some (asset_issuer s)) actual of
                Some e \<Rightarrow> Inl e
              | None \<Rightarrow>
                  (case (if path then assetMismatch ''receive asset'' (or_else '''' (receive_asset s)) (receive_asset_issuer s)
                           (oo_asset_type op, oo_asset_code op, oo_asset_issuer op) else None) of
                     Some e \<Rightarrow> Inl e
                   | None \<Rightarrow> memo_outcome rebase64 facts req))
      | ops \<Rightarrow> mismatch ''operation count'' ''1'' (Some (show_nat (length ops))))"

definition createChainVerifier ::
  "(string \<Rightarrow> string) \<Rightarrow> (string \<Rightarrow> ('e, settlement_facts outcome) hio) \<Rightarrow> settlement_ref \<Rightarrow> settlement_request
     \<Rightarrow> ('e, unit outcome) hio" where
  "createChainVerifier rebase64 facts_of r req =
     (case r of
        AdapterRef _ _ \<Rightarrow> ret (Inr ())
      | StellarRef h _ _ _ \<Rightarrow>
          bnd (facts_of h) (\<lambda>a. ret (case a of Inl e \<Rightarrow> Inl e | Inr facts \<Rightarrow> verifySettlementFacts rebase64 facts req)))"


subsection \<open>What the inspector guarantees\<close>

text \<open>A Horizon that serves a fixed history page by page.\<close>

definition pages_of :: "nat \<Rightarrow> 'a list \<Rightarrow> nat \<Rightarrow> 'a list" where
  "pages_of size' h n = List.take size' (drop (n * size') h)"

definition serves_history :: "'e inspector \<Rightarrow> string \<Rightarrow> horizon_payment list \<Rightarrow> bool" where
  "serves_history i source h \<longleftrightarrow> 0 < in_pageSize i \<and>
     (\<exists>payments. in_payments i = Some payments \<and>
        (\<forall>n e. fst (payments source n e) = Inr (pages_of (in_pageSize i) h n)))"

text \<open>The facts of a history up to the first that is too old, and those of them that were asked for.\<close>

definition recent_facts :: "payments_options \<Rightarrow> horizon_payment list \<Rightarrow> payment_fact list" where
  "recent_facts o' h = takeWhile (\<lambda>f. \<not> too_old o' f) (map (the \<circ> toPaymentFact) h)"

lemma scan_page_more:
  "scan_page o' source rs out = ScanMore found \<Longrightarrow>
   found = out @ filter (wanted o' source) (recent_facts o' rs) \<and>
   (\<forall>r \<in> set rs. \<exists>f. toPaymentFact r = Some f \<and> \<not> too_old o' f)"
proof (induction rs arbitrary: out)
  case (Cons r rs)
  obtain f where f: "toPaymentFact r = Some f" using Cons.prems by (cases "toPaymentFact r") auto
  have old: "\<not> too_old o' f" using Cons.prems f by (auto split: if_splits)
  show ?case using Cons.IH [of "if wanted o' source f then out @ [f] else out"] Cons.prems f old
    by (auto simp: recent_facts_def split: if_splits)
qed (simp add: recent_facts_def)

lemma scan_page_stop:
  "scan_page o' source rs out = ScanStop found \<Longrightarrow>
   (\<exists>xs f r ys. rs = xs @ r # ys \<and> (\<forall>x \<in> set xs. \<exists>f. toPaymentFact x = Some f \<and> \<not> too_old o' f) \<and>
      toPaymentFact r = Some f \<and> too_old o' f \<and> found = out @ filter (wanted o' source) (recent_facts o' xs))"
proof (induction rs arbitrary: out)
  case (Cons r rs)
  obtain f where f: "toPaymentFact r = Some f" using Cons.prems by (auto split: option.splits)
  show ?case
  proof (cases "too_old o' f")
    case True
    then have "found = out" using Cons.prems f by simp
    then show ?thesis using f True by (intro exI [of _ "[]"] exI [of _ f] exI [of _ r] exI [of _ rs]) (simp add: recent_facts_def)
  next
    case False
    then obtain xs g q ys where "rs = xs @ q # ys" "\<forall>x \<in> set xs. \<exists>f. toPaymentFact x = Some f \<and> \<not> too_old o' f"
      "toPaymentFact q = Some g" "too_old o' g"
      "found = (if wanted o' source f then out @ [f] else out) @ filter (wanted o' source) (recent_facts o' xs)"
      using Cons.IH [of "if wanted o' source f then out @ [f] else out"] Cons.prems f by auto
    then show ?thesis using f False
      by (intro exI [of _ "r # xs"] exI [of _ g] exI [of _ q] exI [of _ ys]) (auto simp: recent_facts_def)
  qed
qed simp

lemma recent_append_all:
  "\<forall>r \<in> set xs. \<exists>f. toPaymentFact r = Some f \<and> \<not> too_old o' f \<Longrightarrow>
   recent_facts o' (xs @ ys) = recent_facts o' xs @ recent_facts o' ys"
  by (induction xs) (auto simp: recent_facts_def)

lemma recent_stop:
  "\<forall>r \<in> set xs. \<exists>f. toPaymentFact r = Some f \<and> \<not> too_old o' f \<Longrightarrow> toPaymentFact r = Some f \<Longrightarrow> too_old o' f \<Longrightarrow>
   recent_facts o' (xs @ r # ys) = recent_facts o' xs"
  by (simp add: recent_append_all) (simp add: recent_facts_def)

text \<open>The page read next, put together with the pages read before it.\<close>

lemma take_page: "List.take (Suc n * k) h = List.take (n * k) h @ pages_of k h n"
  by (metis pages_of_def add.commute mult_Suc take_add)

lemma history_split: "h = List.take (n * k) h @ pages_of k h n @ drop (Suc n * k) h"
  using append_take_drop_id [of "Suc n * k" h] by (simp only: take_page append_assoc)

lemma full_page: "\<not> length (pages_of k h n) < k \<Longrightarrow> 0 < k \<Longrightarrow> Suc n * k \<le> length h"
  by (auto simp: pages_of_def)

lemma short_page: "length (pages_of k h n) < k \<Longrightarrow> h = List.take (Suc n * k) h"
  by (auto simp: pages_of_def)

text \<open>What was found so far is what the first \<open>n\<close> pages hold, and nothing in them was too old.\<close>

definition read_so_far ::
  "payments_options \<Rightarrow> string \<Rightarrow> nat \<Rightarrow> horizon_payment list \<Rightarrow> nat \<Rightarrow> payment_fact list \<Rightarrow> bool" where
  "read_so_far o' source k h n out \<longleftrightarrow>
     out = filter (wanted o' source) (recent_facts o' (List.take (n * k) h)) \<and>
     (\<forall>r \<in> set (List.take (n * k) h). \<exists>f. toPaymentFact r = Some f \<and> \<not> too_old o' f)"

lemma so_far_more:
  assumes "read_so_far o' source k h n out" and "scan_page o' source (pages_of k h n) out = ScanMore found"
  shows "read_so_far o' source k h (Suc n) found"
  using assms scan_page_more [OF assms(2)]
  by (auto simp: read_so_far_def take_page recent_append_all simp del: mult_Suc)

lemma so_far_stop:
  assumes "read_so_far o' source k h n out" and "scan_page o' source (pages_of k h n) out = ScanStop found"
  shows "found = filter (wanted o' source) (recent_facts o' h)"
proof -
  obtain xs f r ys where p: "pages_of k h n = xs @ r # ys"
    and xs: "\<forall>x \<in> set xs. \<exists>f. toPaymentFact x = Some f \<and> \<not> too_old o' f"
    and r: "toPaymentFact r = Some f" "too_old o' f"
    and found: "found = out @ filter (wanted o' source) (recent_facts o' xs)"
    using scan_page_stop [OF assms(2)] by blast
  let ?a = "List.take (n * k) h" and ?z = "ys @ drop (Suc n * k) h"
  have h: "h = ?a @ xs @ r # ?z" using history_split [of h n k] p by simp
  have a: "\<forall>r \<in> set ?a. \<exists>f. toPaymentFact r = Some f \<and> \<not> too_old o' f"
    using assms(1) by (simp add: read_so_far_def)
  have "recent_facts o' (?a @ xs @ r # ?z) = recent_facts o' ?a @ recent_facts o' xs"
    by (simp only: recent_append_all [OF a] recent_stop [OF xs r])
  then have "recent_facts o' h = recent_facts o' ?a @ recent_facts o' xs" using h by argo
  then show ?thesis using assms(1) found by (simp add: read_so_far_def)
qed

text \<open>The answer: everything asked for, or, when truncated, everything asked for in the first pages.\<close>

definition read_ok ::
  "payments_options \<Rightarrow> string \<Rightarrow> nat \<Rightarrow> horizon_payment list \<Rightarrow> nat \<Rightarrow> payments_result \<Rightarrow> bool" where
  "read_ok o' source k h n p \<longleftrightarrow>
     (if pr_truncated p then n * k \<le> length h else True) \<and>
     pr_payments p = filter (wanted o' source) (recent_facts o' (if pr_truncated p then List.take (n * k) h else h))"

lemma read_pages_history:
  assumes served: "\<forall>n e. fst (page n e) = Inr (pages_of (in_pageSize i) h n)" and size: "0 < in_pageSize i"
    and "fst (read_pages i page o' source left n out e) = Some (Inr (Inr p))"
    and "read_so_far o' source (in_pageSize i) h n out"
  shows "read_ok o' source (in_pageSize i) h (n + Suc left) p"
  using assms(3,4)
proof (induction left arbitrary: n out e)
  case (0 n out e)
  obtain e1 where page: "page n e = (Inr (pages_of (in_pageSize i) h n), e1)" using served by (metis prod.collapse)
  show ?case
  proof (cases "scan_page o' source (pages_of (in_pageSize i) h n) out")
    case (ScanMore found)
    note m = so_far_more [OF 0(2) ScanMore]
    then show ?thesis using 0(1) page ScanMore short_page [of "in_pageSize i" h n] full_page [OF _ size, of h n]
      by (auto simp: read_pages.simps ask_def bnd_def ret_def read_ok_def read_so_far_def simp del: mult_Suc split: if_splits)
  qed (use 0 page so_far_stop [OF 0(2)] in \<open>auto simp: fail_full_def read_pages.simps ask_def bnd_def ret_def read_ok_def\<close>)
next
  case (Suc left n out e)
  obtain e1 where page: "page n e = (Inr (pages_of (in_pageSize i) h n), e1)" using served by (metis prod.collapse)
  show ?case
  proof (cases "scan_page o' source (pages_of (in_pageSize i) h n) out")
    case (ScanMore found)
    note m = so_far_more [OF Suc.prems(2) ScanMore]
    show ?thesis
    proof (cases "length (pages_of (in_pageSize i) h n) < in_pageSize i")
      case True
      then show ?thesis using Suc.prems(1) page ScanMore m short_page [of "in_pageSize i" h n]
        by (auto simp: read_pages.simps ask_def bnd_def ret_def read_ok_def read_so_far_def simp del: mult_Suc)
    next
      case False
      then show ?thesis using Suc.prems(1) page ScanMore Suc.IH [OF _ m]
        by (simp add: read_pages.simps [of _ _ _ _ "Suc left"] ask_def bnd_def ret_def)
    qed
  qed (use Suc page so_far_stop [OF Suc.prems(2)] in \<open>auto simp: fail_full_def read_pages.simps ask_def bnd_def ret_def read_ok_def\<close>)
qed


text \<open>A history in which every record carries its transaction is read without a failure.\<close>

lemma scan_page_ok:
  "\<forall>r \<in> set rs. toPaymentFact r \<noteq> None \<Longrightarrow> scan_page o' source rs out \<noteq> ScanFail why"
  by (induction rs arbitrary: out) (auto split: option.splits if_splits)

lemma pages_of_subset: "set (pages_of k h n) \<subseteq> set h"
  by (auto simp: pages_of_def dest: in_set_takeD in_set_dropD)

lemma read_pages_answers:
  assumes served: "\<forall>n e. fst (page n e) = Inr (pages_of (in_pageSize i) h n)"
    and joined: "\<forall>r \<in> set h. toPaymentFact r \<noteq> None"
  shows "\<exists>p. fst (read_pages i page o' source left n out e) = Some (Inr (Inr p))"
proof (induction left arbitrary: n out e)
  case (0 n out e)
  obtain e1 where page: "page n e = (Inr (pages_of (in_pageSize i) h n), e1)" using served by (metis prod.collapse)
  show ?case using page scan_page_ok [of "pages_of (in_pageSize i) h n" o' source out] joined pages_of_subset [of "in_pageSize i" h n]
    by (auto simp: read_pages.simps ask_def bnd_def ret_def subset_iff split: page_scan.splits)
next
  case (Suc left n out e)
  obtain e1 where page: "page n e = (Inr (pages_of (in_pageSize i) h n), e1)" using served by (metis prod.collapse)
  show ?case
    using page scan_page_ok [of "pages_of (in_pageSize i) h n" o' source out] joined pages_of_subset [of "in_pageSize i" h n] Suc
    by (auto simp: read_pages.simps [of _ _ _ _ "Suc left"] ask_def bnd_def ret_def subset_iff split: page_scan.splits)
qed

lemma paymentsFrom_complete_run:
  assumes "serves_history i source h" and "\<forall>r \<in> set h. toPaymentFact r \<noteq> None" and "0 < in_maxPages i"
  shows "\<exists>p. fst (paymentsFrom i source o' e) = Some (Inr p) \<and>
    (\<not> pr_truncated p \<longrightarrow> pr_payments p = filter (wanted o' source) (recent_facts o' h)) \<and>
    (pr_truncated p \<longrightarrow> in_maxPages i * in_pageSize i \<le> length h \<and>
       pr_payments p = filter (wanted o' source) (recent_facts o' (List.take (in_maxPages i * in_pageSize i) h)))"
proof -
  obtain payments where i: "in_payments i = Some payments" and size: "0 < in_pageSize i"
    and served: "\<forall>n e. fst (payments source n e) = Inr (pages_of (in_pageSize i) h n)"
    using assms(1) by (auto simp: serves_history_def)
  obtain p where p: "fst (read_pages i (payments source) o' source (in_maxPages i - 1) 0 [] e) = Some (Inr (Inr p))"
    using read_pages_answers [OF served assms(2)] by blast
  have "read_ok o' source (in_pageSize i) h (0 + Suc (in_maxPages i - 1)) p"
    by (rule read_pages_history [OF served size p]) (simp add: read_so_far_def recent_facts_def)
  moreover have "fst (paymentsFrom i source o' e) = Some (Inr p)"
    using p by (auto simp: paymentsFrom_def i bnd_def ret_def Let_def split: option.splits prod.splits)
  ultimately show ?thesis using assms(3) by (auto simp: read_ok_def split: if_splits)
qed

text \<open>
  C1: \<open>paymentsFrom\<close> of an account whose history Horizon serves page by page, every record with its
  transaction, answers; untruncated it holds every payment of the account that was asked for and no
  other, newest first; truncated, the history is longer than what the page budget reads and it holds
  the payments asked for in that part.
\<close>

theorem paymentsFrom_complete:
  assumes "serves_history i source h" and "\<forall>r \<in> set h. toPaymentFact r \<noteq> None" and "0 < in_maxPages i"
  shows "\<exists>p. fst (paymentsFrom i source o' e) = Some (Inr p) \<and>
    (\<not> pr_truncated p \<longrightarrow> pr_payments p = filter (wanted o' source) (recent_facts o' h)) \<and>
    (pr_truncated p \<longrightarrow> in_maxPages i * in_pageSize i \<le> length h \<and>
       pr_payments p = filter (wanted o' source) (recent_facts o' (List.take (in_maxPages i * in_pageSize i) h)))"
  by (rule paymentsFrom_complete_run [OF assms])


text \<open>
  What the reconcile check stands for: one operation of the right kind, to the right account, of an
  amount with the same value, of the assets the corridor names, under the memo that was asked for.
\<close>

definition pays_asset :: "string \<Rightarrow> string option \<Rightarrow> string option \<times> string option \<times> string option \<Rightarrow> bool" where
  "pays_asset code issuer actual =
     (case actual of (ty, c, iss) \<Rightarrow>
        if to_upper code = ''XLM'' then ty = Some ''native''
        else ty \<noteq> Some ''native'' \<and> c = Some code \<and> iss = issuer)"

definition pays_amount :: "string \<Rightarrow> string option \<Rightarrow> bool" where
  "pays_amount asked paid \<longleftrightarrow>
     (\<exists>v p. paid = Some p \<and> toScaled asked STROOP_SCALE = Inr v \<and> toScaled p STROOP_SCALE = Inr v)"

definition carries_memo :: "(string \<Rightarrow> string) \<Rightarrow> settlement_facts \<Rightarrow> settlement_request \<Rightarrow> bool" where
  "carries_memo rebase64 facts req \<longleftrightarrow>
     (if sr_memo req \<in> {None, Some ''''} then sf_memoType facts = ''none''
      else case sr_memoType req of
        Some MemoHash \<Rightarrow> sf_memoType facts = ''hash'' \<and> sf_memo facts = map_option rebase64 (sr_memo req)
      | Some MemoId \<Rightarrow> sf_memoType facts = ''id'' \<and> sf_memo facts = sr_memo req
      | _ \<Rightarrow> sf_memoType facts = ''text'' \<and> sf_memo facts = sr_memo req)"

definition paid_as_asked :: "(string \<Rightarrow> string) \<Rightarrow> settlement_facts \<Rightarrow> settlement_request \<Rightarrow> bool" where
  "paid_as_asked rebase64 facts req \<longleftrightarrow>
     (let c = sr_corridor req; s = c_settlement c in
      sf_successful facts \<and> carries_memo rebase64 facts req \<and>
      (\<exists>op. sf_operations facts = [op] \<and> oo_to op = Some (sr_to req) \<and>
        (if needsPathPayment c then
           oo_type op = ''path_payment_strict_send'' \<and> pays_amount (m_amount (sr_amount req)) (oo_source_amount op) \<and>
           pays_asset (bridge_asset s) (Some (asset_issuer s))
             (oo_source_asset_type op, oo_source_asset_code op, oo_source_asset_issuer op) \<and>
           pays_asset (or_else '''' (receive_asset s)) (receive_asset_issuer s)
             (oo_asset_type op, oo_asset_code op, oo_asset_issuer op)
         else
           oo_type op = ''payment'' \<and> pays_amount (m_amount (sr_amount req)) (oo_amount op) \<and>
           pays_asset (bridge_asset s) (Some (asset_issuer s)) (oo_asset_type op, oo_asset_code op, oo_asset_issuer op))))"

lemma assetMismatch_None: "assetMismatch field code issuer actual = None \<longleftrightarrow> pays_asset code issuer actual"
  by (auto simp: assetMismatch_def pays_asset_def Let_def split: prod.splits)

lemma assetMismatch_code:
  "assetMismatch field code issuer actual = Some e \<Longrightarrow>
   \<not> pays_asset code issuer actual \<and> e_code e = RECONCILE_MISMATCH \<and> \<not> e_retryable e"
  by (auto simp: assetMismatch_def pays_asset_def mismatch_error_def Let_def split: prod.splits if_splits)

lemma toScaled_empty: "toScaled '''' s \<noteq> Inr v"
proof -
  have "js_trim '''' = ''''" and "\<not> amount_re ''''" by code_simp+
  then show ?thesis by (simp only: toScaled_def fail_full_def Let_def) simp
qed

lemma amount_equal_pays: "amount_equal a (or_else '''' p) \<longleftrightarrow> pays_amount a p"
  by (cases p) (auto simp: amount_equal_def pays_amount_def compareAmounts_def or_else_def
      toScaled_empty split: sum.splits if_splits)

lemma memo_outcome_ok: "memo_outcome r facts req = Inr () \<longleftrightarrow> carries_memo r facts req"
  by (auto simp: memo_outcome_def carries_memo_def expected_memo_def expected_memo_type_def truthy_def
      mismatch_def split: option.splits memo_type.splits if_splits)

lemma memo_outcome_code:
  "memo_outcome r facts req = Inl e \<Longrightarrow> \<not> carries_memo r facts req \<and> e_code e = RECONCILE_MISMATCH \<and> \<not> e_retryable e"
  using memo_outcome_ok [of r facts req]
  by (auto simp: memo_outcome_def mismatch_def mismatch_error_def split: option.splits if_splits)

lemma verify_says:
  "case verifySettlementFacts rebase64 facts req of
     Inr _ \<Rightarrow> paid_as_asked rebase64 facts req
   | Inl e \<Rightarrow> \<not> paid_as_asked rebase64 facts req \<and> e_code e = RECONCILE_MISMATCH \<and> \<not> e_retryable e"
proof (cases "\<exists>op. sf_operations facts = [op]")
  case False
  then show ?thesis
    by (auto simp: verifySettlementFacts_def paid_as_asked_def fail_full_def mismatch_def mismatch_error_def Let_def
        split: list.splits)
next
  case True
  then obtain op where "sf_operations facts = [op]" by blast
  then show ?thesis
    by (auto simp: verifySettlementFacts_def paid_as_asked_def fail_full_def mismatch_def mismatch_error_def Let_def sent_part_def
        amount_equal_pays assetMismatch_None memo_outcome_ok
        dest: assetMismatch_code memo_outcome_code split: option.splits sum.splits)
qed

text \<open>
  C9: The reconcile check accepts a settlement transaction exactly when it paid what the run asked
  for; every refusal is RECONCILE_MISMATCH and never retryable.
\<close>

theorem verify_accepts_what_was_asked:
  "case verifySettlementFacts rebase64 facts req of
     Inr _ \<Rightarrow> paid_as_asked rebase64 facts req
   | Inl e \<Rightarrow> \<not> paid_as_asked rebase64 facts req \<and> e_code e = RECONCILE_MISMATCH \<and> \<not> e_retryable e"
  by (rule verify_says)


definition demo_payment :: "nat \<Rightarrow> horizon_payment" where
  "demo_payment l =
     \<lparr>hz_id = ''p'', hz_type = ''payment'', hz_created_at = ''2026-01-01'', hz_hash = ''h'', hz_from = Some ''GA'',
      hz_to = Some ''GB'', hz_to_muxed = None, hz_asset_type = Some ''native'', hz_asset_code = None,
      hz_asset_issuer = None, hz_amount = Some ''1'',
      hz_transaction = Some \<lparr>jt_memo_type = ''none'', jt_memo = None, jt_ledger = None, jt_ledger_attr = Some l\<rparr>\<rparr>"

definition demo_inspector :: "nat \<Rightarrow> horizon_payment list \<Rightarrow> 'e inspector" where
  "demo_inspector budget h =
     \<lparr>in_loadAccount = None, in_ledgers = None, in_transaction = None, in_operations = None,
      in_payments = Some (\<lambda>_ n e. (Inr (pages_of 2 h n), e)), in_baseReserve = None, in_baseFee = None,
      in_pageSize = 2, in_maxPages = budget\<rparr>"

definition demo_history :: "horizon_payment list" where
  "demo_history = [demo_payment 9, demo_payment 8, demo_payment 7]"

definition any_payment :: payments_options where
  "any_payment = \<lparr>po_to = None, po_sinceLedger = None\<rparr>"

text \<open>Three payments, two to a page: with one page the answer is truncated, with two it is complete.\<close>

lemma paymentsFrom_complete_witness:
  "\<exists>p. fst (paymentsFrom (demo_inspector 1 demo_history) ''GA'' any_payment ()) = Some (Inr p) \<and>
     length (pr_payments p) = 2 \<and> pr_truncated p"
proof -
  let ?i = "demo_inspector 1 demo_history :: unit inspector"
  have "serves_history ?i ''GA'' demo_history"
    by (simp add: serves_history_def demo_inspector_def)
  moreover have "\<forall>r \<in> set demo_history. toPaymentFact r \<noteq> None"
    by (simp add: demo_history_def demo_payment_def toPaymentFact_def)
  moreover have "0 < in_maxPages ?i" by (simp add: demo_inspector_def)
  ultimately obtain p where p: "fst (paymentsFrom ?i ''GA'' any_payment ()) = Some (Inr p)"
    and cut: "pr_truncated p \<longrightarrow> pr_payments p = filter (wanted any_payment ''GA'') (recent_facts any_payment
       (List.take (in_maxPages ?i * in_pageSize ?i) demo_history))"
    using paymentsFrom_complete [of ?i "''GA''" demo_history any_payment "()"] by blast
  have "map_option (map_sum id pr_truncated) (fst (paymentsFrom ?i ''GA'' any_payment ())) = Some (Inr True)"
    by code_simp
  then have "pr_truncated p" using p by simp
  moreover have "length (filter (wanted any_payment ''GA'') (recent_facts any_payment
       (List.take (in_maxPages ?i * in_pageSize ?i) demo_history))) = 2"
    by code_simp
  ultimately show ?thesis using p cut by metis
qed

end
