(* ===== verification/Submitter.thy ===== *)
theory Submitter
  imports Horizon
begin

section \<open>Sending the settlement (packages/stellar/src/index.ts)\<close>

text \<open>
  \<open>StellarSettlementSubmitter\<close> (plain and path payments), the strategies for path payments and
  claimable balances, the duplicate check and the refund. Signing, Horizon and the clock are ports;
  what the SDK computes (which assets, memos and operations it accepts, the hash of an envelope)
  is the parameter \<open>sdk\<close>. Every account load, signature and submission is written to a log, which
  is what the safety theorems speak of. The per-signer lock only orders concurrent calls and is
  not modelled: a call here runs alone.
\<close>

subsection \<open>What the SDK builds\<close>

datatype asset = Native | Issued string string

datatype memo = TextMemo string | HashMemo string | IdMemo string

datatype claim_predicate = Unconditional | BeforeRelativeTime string

datatype operation =
    PaymentOp (op_to: string) asset (op_amount: string)
  | PathOp asset string (op_to: string) asset (op_destMin: string) "asset list"
  | ClaimableOp asset string (op_to: string) claim_predicate

text \<open>The envelope of one transaction: \<open>build()\<close> uses the account's next sequence number.\<close>

record envelope =
  ev_source :: string
  ev_sequence :: int
  ev_fee :: string
  ev_passphrase :: string
  ev_op :: operation
  ev_minTime :: int
  ev_maxTime :: ms
  ev_memo :: "memo option"

text \<open>
  The SDK: the message of the exception that each constructor throws on a bad argument (\<open>None\<close>: it
  accepts), the hash, the encodings and the two network passphrases.
\<close>

record sdk =
  k_newAsset :: "string \<Rightarrow> string \<Rightarrow> string option"
  k_newMemo :: "memo \<Rightarrow> string option"
  k_newOp :: "operation \<Rightarrow> string option"
  k_build :: "envelope \<Rightarrow> string option"
  k_hash :: "envelope \<Rightarrow> string"
  k_hexOfBase64 :: "string \<Rightarrow> string"
  k_rawKey :: "string \<Rightarrow> nat list"
  k_sha256hex :: "nat list \<Rightarrow> string"
  k_balanceIdFromResult :: "string \<Rightarrow> string option"
  k_public :: string
  k_testnet :: string

definition passphraseFor :: "sdk \<Rightarrow> network_t \<Rightarrow> string" where
  "passphraseFor k n = (case n of PublicNet \<Rightarrow> k_public k | TestNet \<Rightarrow> k_testnet k)"

definition accepted :: "string option \<Rightarrow> 'a \<Rightarrow> horizon_error + 'a" where
  "accepted err x = (case err of None \<Rightarrow> Inr x | Some m \<Rightarrow> Inl (plain_error m))"

definition new_asset :: "sdk \<Rightarrow> string \<Rightarrow> string \<Rightarrow> horizon_error + asset" where
  "new_asset k code issuer = accepted (k_newAsset k code issuer) (Issued code issuer)"

definition bridgeAsset :: "sdk \<Rightarrow> string \<Rightarrow> string \<Rightarrow> horizon_error + asset" where
  "bridgeAsset k code issuer = (if to_upper code = ''XLM'' then Inr Native else new_asset k code issuer)"

definition buildMemo :: "sdk \<Rightarrow> string \<Rightarrow> memo_type option \<Rightarrow> horizon_error + memo" where
  "buildMemo k m ty =
     (let memo = (case ty of Some MemoHash \<Rightarrow> HashMemo (k_hexOfBase64 k m) | Some MemoId \<Rightarrow> IdMemo m | _ \<Rightarrow> TextMemo m)
      in accepted (k_newMemo k memo) memo)"

definition assetLabel :: "asset \<Rightarrow> string" where
  "assetLabel a = (case a of Native \<Rightarrow> ''XLM'' | Issued code issuer \<Rightarrow> code @ '':'' @ issuer)"

subsection \<open>Amounts, memos and asset names\<close>

definition DEFAULT_MAX_SLIPPAGE_BPS :: int where
  "DEFAULT_MAX_SLIPPAGE_BPS = 50"

definition applySlippage :: "string \<Rightarrow> int \<Rightarrow> string outcome" where
  "applySlippage expected bps =
     (case toScaled expected STROOP_SCALE of
        Inl _ \<Rightarrow> fail SETTLEMENT_FAILED (''invalid expected path amount '' @ in_quotes expected)
      | Inr v \<Rightarrow>
          if v \<le> 0 then fail SETTLEMENT_FAILED (''invalid expected path amount '' @ in_quotes expected)
          else if bps < 0 \<or> bps \<ge> 10000 then fail SETTLEMENT_FAILED (''invalid max_slippage_bps '' @ show_int bps)
          else Inr (fromScaled (trunc_div (v * (10000 - bps) + 9999) 10000) STROOP_SCALE))"

definition namesAsset :: "string \<Rightarrow> string \<Rightarrow> string option \<Rightarrow> bool" where
  "namesAsset i code issuer =
     (if to_upper code = ''XLM'' then to_upper i = ''XLM'' \<or> i = ''native'' \<or> i = ''stellar:native''
      else i = code \<or> i = ''stellar:'' @ code @ '':'' @ text_or_undefined issuer)"

definition hash_digit :: "char \<Rightarrow> bool" where
  "hash_digit c = (is_digit c \<or> (let n = of_char c :: nat in (65 \<le> n \<and> n \<le> 70) \<or> (97 \<le> n \<and> n \<le> 102)))"

definition normalizeHashMemo :: "sdk \<Rightarrow> string \<Rightarrow> string" where
  "normalizeHashMemo k m = (if length m = 64 \<and> list_all hash_digit m then to_lower m else to_lower (k_hexOfBase64 k m))"

subsection \<open>The submitter and its log\<close>

record 'e signer =
  sn_publicKey :: string
  sn_local :: bool          \<comment> \<open>whether it is a \<open>LocalKeypairSigner\<close>\<close>
  sn_sign :: "string \<Rightarrow> ('e, string + string) port"

type_synonym path_hop = "string \<times> string option \<times> string option"

record path_record =
  ph_destination_amount :: string
  ph_path :: "path_hop list"

text \<open>\<open>Horizon.Server\<close>: loading answers the account with its sequence number.\<close>

record 'e horizon =
  hs_loadAccount :: "string \<Rightarrow> ('e, horizon_error + account_response \<times> int) port"
  hs_submitTransaction :: "envelope \<Rightarrow> string \<Rightarrow> ('e, horizon_error + unit) port"
  hs_transaction :: "string \<Rightarrow> ('e, horizon_error + tx_record) port"
  hs_payments :: "(string \<Rightarrow> nat \<Rightarrow> ('e, horizon_error + horizon_payment list) port) option"
  hs_strictSendPaths :: "(asset \<Rightarrow> string \<Rightarrow> asset list \<Rightarrow> ('e, horizon_error + path_record list) port) option"

text \<open>What both classes that send have in common.\<close>

record 'e sender =
  sd_signer :: "'e signer"
  sd_horizon :: "'e horizon"
  sd_fee :: string
  sd_confirmTimeoutMs :: int
  sd_now :: "('e, int) port"
  sd_sleep :: "int \<Rightarrow> 'e \<Rightarrow> 'e"

record 'e stellar = "'e sender" +
  ss_inspector :: "'e inspector"
  ss_allowed :: "network_t list"
  ss_allowLocal :: bool
  ss_horizonUrl :: string
  ss_rootFetcher :: "(string \<Rightarrow> ('e, horizon_error + string option) port) option"

datatype send_answer = SendAccepted | SendRejected | SendLost

datatype chain_event = ChLoad string | ChSign envelope | ChSend envelope | ChAnswer send_answer

text \<open>The outside world, the memoised passphrase of the endpoint and the log.\<close>

record 'e chain =
  ch_env :: 'e
  ch_root :: "string option"
  ch_log :: "chain_event list"

definition on_chain :: "('e, 'a) port \<Rightarrow> ('e chain, 'a) io" where
  "on_chain p = (\<lambda>w. case p (ch_env w) of (a, e) \<Rightarrow> (Some a, w\<lparr>ch_env := e\<rparr>))"

definition ch_emit :: "chain_event \<Rightarrow> ('e chain, unit) io" where
  "ch_emit ev = modify_io (\<lambda>w. w\<lparr>ch_log := ch_log w @ [ev]\<rparr>)"

definition ch_sleep :: "(int \<Rightarrow> 'e \<Rightarrow> 'e) \<Rightarrow> int \<Rightarrow> ('e chain, unit) io" where
  "ch_sleep sl d = modify_io (\<lambda>w. w\<lparr>ch_env := sl d (ch_env w)\<rparr>)"

definition in_chain :: "('e, 'a) io \<Rightarrow> ('e chain, 'a) io" where
  "in_chain m = (\<lambda>w. case m (ch_env w) of (r, e) \<Rightarrow> (r, w\<lparr>ch_env := e\<rparr>))"

subsection \<open>Confirmation\<close>

record confirmed =
  cf_ledger :: "nat option"
  cf_feeCharged :: "string option"
  cf_resultXdr :: "string option"

text \<open>\<open>fuel\<close> bounds the polls; \<open>throw_io\<close> is its end.\<close>

fun confirm_loop ::
  "nat \<Rightarrow> ('e, 'z) sender_scheme \<Rightarrow> string \<Rightarrow> int \<Rightarrow> ('e chain, confirmed outcome) io" where
  "confirm_loop 0 s h deadline = throw_io"
| "confirm_loop (Suc fuel) s h deadline =
     bnd (on_chain (hs_transaction (sd_horizon s) h)) (\<lambda>a. case a of
       Inr tx \<Rightarrow>
         if tr_successful tx then
           ret (Inr \<lparr>cf_ledger = tr_ledger tx, cf_feeCharged = tr_fee_charged tx, cf_resultXdr = tr_result_xdr tx\<rparr>)
         else ret (fail SETTLEMENT_FAILED (''tx '' @ h @ '' failed on-chain''))
     | Inl _ \<Rightarrow>
         bnd (on_chain (sd_now s)) (\<lambda>t.
           if t \<ge> deadline then ret (fail SETTLEMENT_TIMEOUT (''tx '' @ h @ '' not confirmed within timeout''))
           else bnd (ch_sleep (sd_sleep s) 1000) (\<lambda>_. confirm_loop fuel s h deadline)))"

definition confirmTransaction ::
  "nat \<Rightarrow> ('e, 'z) sender_scheme \<Rightarrow> string \<Rightarrow> ('e chain, confirmed outcome) io" where
  "confirmTransaction fuel s h =
     bnd (on_chain (sd_now s)) (\<lambda>t. confirm_loop fuel s h (t + sd_confirmTimeoutMs s))"

subsection \<open>One attempt: load, build, sign, submit\<close>

text \<open>
  How an attempt ended: nothing reached Horizon, the submission of \<open>'a\<close> rejected, or Horizon took it.
\<close>

datatype 'a attempt = NotSent horizon_error | SendFailed 'a horizon_error | Sent 'a

definition ms_min :: "ms \<Rightarrow> int \<Rightarrow> ms" where
  "ms_min a b = (case a of NaN \<Rightarrow> NaN | Ms t \<Rightarrow> Ms (min t b))"

definition ms_seconds :: "ms \<Rightarrow> ms" where
  "ms_seconds a = (case a of NaN \<Rightarrow> NaN | Ms t \<Rightarrow> Ms (t div 1000))"

definition maxTimeOf :: "settlement_request \<Rightarrow> int \<Rightarrow> ms" where
  "maxTimeOf req t =
     (let ttl = t div 1000 + quote_ttl_seconds (c_fx (sr_corridor req)) in
      case sr_validUntil req of Some v \<Rightarrow> ms_min (ms_seconds v) ttl | None \<Rightarrow> Ms ttl)"

definition BASE_FEE :: string where "BASE_FEE = ''100''"

definition buildEnvelope ::
  "sdk \<Rightarrow> ('e, 'z) sender_scheme \<Rightarrow> settlement_request \<Rightarrow> operation \<Rightarrow> int \<Rightarrow> int \<Rightarrow> horizon_error + envelope" where
  "buildEnvelope k s req op seqno t =
     (case (if truthy (sr_memo req) then map_sum id Some (buildMemo k (the (sr_memo req)) (sr_memoType req)) else Inr None) of
        Inl e \<Rightarrow> Inl e
      | Inr memo \<Rightarrow>
          let env = \<lparr>ev_source = sn_publicKey (sd_signer s), ev_sequence = seqno + 1,
                ev_fee = (case toScaled (sd_fee s) STROOP_SCALE of Inr v \<Rightarrow> show_int v | Inl _ \<Rightarrow> BASE_FEE),
                ev_passphrase = passphraseFor k (network (c_settlement (sr_corridor req))), ev_op = op,
                ev_minTime = 0, ev_maxTime = maxTimeOf req t, ev_memo = memo\<rparr>
          in accepted (k_build k env) env)"

definition sign_and_submit ::
  "sdk \<Rightarrow> ('e, 'z) sender_scheme \<Rightarrow> envelope \<Rightarrow> 'a \<Rightarrow> ('e chain, 'a attempt) io" where
  "sign_and_submit k s env what =
     check (on_chain (sn_sign (sd_signer s) (k_hash k env)))
       (\<lambda>m. ret (NotSent (plain_error m)))
       (\<lambda>signature.
         bnd (ch_emit (ChSign env)) (\<lambda>_. bnd (ch_emit (ChSend env)) (\<lambda>_.
         check (on_chain (hs_submitTransaction (sd_horizon s) env signature))
           (\<lambda>e. bnd (ch_emit (ChAnswer (if he_rejected e then SendRejected else SendLost))) (\<lambda>_. ret (SendFailed what e)))
           (\<lambda>_. bnd (ch_emit (ChAnswer SendAccepted)) (\<lambda>_. ret (Sent what))))))"

definition load_source :: "('e, 'z) sender_scheme \<Rightarrow> ('e chain, horizon_error + account_response \<times> int) io" where
  "load_source s =
     bnd (ch_emit (ChLoad (sn_publicKey (sd_signer s)))) (\<lambda>_.
       on_chain (hs_loadAccount (sd_horizon s) (sn_publicKey (sd_signer s))))"

definition send_attempt ::
  "sdk \<Rightarrow> ('e, 'z) sender_scheme \<Rightarrow> settlement_request \<Rightarrow> (horizon_error + operation) \<Rightarrow> ('e chain, string attempt) io" where
  "send_attempt k s req operation =
     (case operation of
        Inl e \<Rightarrow> ret (NotSent e)
      | Inr op \<Rightarrow>
          check (load_source s) (\<lambda>e. ret (NotSent e)) (\<lambda>(_, seqno).
            bnd (on_chain (sd_now s)) (\<lambda>t.
              case buildEnvelope k s req op seqno t of
                Inl e \<Rightarrow> ret (NotSent e)
              | Inr env \<Rightarrow> sign_and_submit k s env (k_hash k env))))"

text \<open>
  What becomes of an attempt: \<open>done\<close> turns a confirmed transaction into the reference. A submission
  that was lost is looked up before anything is said about it.
\<close>

definition submit_failed :: "horizon_error \<Rightarrow> 'b outcome" where
  "submit_failed e = fail_full SETTLEMENT_FAILED (''settlement submit failed: '' @ describe e) True CauseOther"

definition conclude ::
  "nat \<Rightarrow> ('e, 'z) sender_scheme \<Rightarrow> ('a \<Rightarrow> string) \<Rightarrow> ('a \<Rightarrow> confirmed \<Rightarrow> settlement_ref) \<Rightarrow> 'a attempt
     \<Rightarrow> ('e chain, settlement_ref outcome) io" where
  "conclude fuel s hash_of done' a =
     (case a of
        NotSent e \<Rightarrow> ret (submit_failed e)
      | Sent x \<Rightarrow>
          check (confirmTransaction fuel s (hash_of x)) (\<lambda>e. ret (Inl e)) (\<lambda>c. ret (Inr (done' x c)))
      | SendFailed x e \<Rightarrow>
          if he_rejected e then ret (submit_failed e)
          else check (confirmTransaction fuel s (hash_of x))
            (\<lambda>err. ret (fail_full (e_code err)
                (''settlement submit ambiguous for tx '' @ hash_of x @ '' ('' @ describe e @ ''); confirm check: '' @ e_message err)
                (e_retryable err) CauseOther))
            (\<lambda>c. ret (Inr (done' x c))))"

definition send ::
  "nat \<Rightarrow> sdk \<Rightarrow> ('e, 'z) sender_scheme \<Rightarrow> settlement_request \<Rightarrow> (horizon_error + operation)
     \<Rightarrow> ('e chain, settlement_ref outcome) io" where
  "send fuel k s req operation =
     bnd (send_attempt k s req operation)
       (conclude fuel s id (\<lambda>h c. StellarRef h (cf_ledger c) (cf_feeCharged c) None))"

subsection \<open>Guards\<close>

fun network_name :: "network_t \<Rightarrow> string" where
  "network_name PublicNet = ''public''" | "network_name TestNet = ''testnet''"

definition msg_not_allowed :: "network_t \<Rightarrow> network_t list \<Rightarrow> string" where
  "msg_not_allowed n allowed =
     ''refusing to settle on network '' @ in_quotes (network_name n) @ '': this submitter allows ['' @
     join '', '' (map network_name allowed) @ '']. Settling real money is opt-in '' @ [CHR 0xE2, CHR 0x80, CHR 0x94] @
     '' pass allowedNetworks: ['' @ in_quotes ''testnet'' @ '', '' @ in_quotes ''public'' @ ''] only if you mean it.''"

definition msg_local_signer :: string where
  "msg_local_signer =
     ''refusing to sign a public-network settlement with a LocalKeypairSigner: the seed would live in this process. '' @
     ''Use a KMS/HSM-backed ExternalSigner (see docs/key-management.md), or pass allowLocalSignerOnMainnet: true deliberately.''"

definition msg_root_unreadable :: "string \<Rightarrow> horizon_error \<Rightarrow> string" where
  "msg_root_unreadable url e =
     ''cannot verify the network of Horizon '' @ url @ '' (root resource unreadable: '' @ describe e @ ''); refusing to sign''"

definition msg_wrong_root :: "string \<Rightarrow> string \<Rightarrow> string \<Rightarrow> network_t \<Rightarrow> string" where
  "msg_wrong_root url root expected n =
     ''Horizon '' @ url @ '' serves '' @ in_quotes (if root = [] then ''unknown'' else root) @ '' but this corridor settles on '' @
     in_quotes expected @ '' ('' @ network_name n @ ''); refusing to sign a transaction for the wrong network''"

definition check_root :: "sdk \<Rightarrow> 'e stellar \<Rightarrow> network_t \<Rightarrow> ('e chain, unit outcome) io" where
  "check_root k s n =
     bnd (gets_io ch_root) (\<lambda>r.
       let root = (case r of Some p \<Rightarrow> p | None \<Rightarrow> ''''); expected = passphraseFor k n in
       if root \<noteq> expected then ret (fail SETTLEMENT_FAILED (msg_wrong_root (ss_horizonUrl s) root expected n))
       else ret (Inr ()))"

definition guardNetwork :: "sdk \<Rightarrow> 'e stellar \<Rightarrow> network_t \<Rightarrow> ('e chain, unit outcome) io" where
  "guardNetwork k s n =
     (if n \<notin> set (ss_allowed s) then ret (fail SETTLEMENT_FAILED (msg_not_allowed n (ss_allowed s)))
      else if n = PublicNet \<and> sn_local (sd_signer s) \<and> \<not> ss_allowLocal s then ret (fail SETTLEMENT_FAILED msg_local_signer)
      else case ss_rootFetcher s of
        None \<Rightarrow> ret (Inr ())
      | Some fetch \<Rightarrow>
          bnd (gets_io ch_root) (\<lambda>r. case r of
            Some _ \<Rightarrow> check_root k s n
          | None \<Rightarrow>
              check (on_chain (fetch (ss_horizonUrl s)))
                (\<lambda>e. ret (fail_full SETTLEMENT_FAILED (msg_root_unreadable (ss_horizonUrl s) e) True CauseOther))
                (\<lambda>p. bnd (modify_io (\<lambda>w. w\<lparr>ch_root := Some (or_else '''' p)\<rparr>)) (\<lambda>_. check_root k s n))))"

fun show_ms :: "ms \<Rightarrow> string" where
  "show_ms NaN = ''NaN''" | "show_ms (Ms t) = show_int t"

definition quote_dead :: "settlement_request \<Rightarrow> int \<Rightarrow> unit outcome" where
  "quote_dead req t =
     (case sr_validUntil req of
        Some v \<Rightarrow> if ms_le v t then fail QUOTE_EXPIRED (''quote expired at '' @ show_ms v @ '' (now='' @ show_int t @ '')'')
                  else Inr ()
      | None \<Rightarrow> Inr ())"

definition preflight :: "sdk \<Rightarrow> 'e stellar \<Rightarrow> settlement_request \<Rightarrow> ('e chain, unit outcome) io" where
  "preflight k s req =
     check (guardNetwork k s (network (c_settlement (sr_corridor req)))) (\<lambda>e. ret (Inl e))
       (\<lambda>_. bnd (on_chain (sd_now s)) (\<lambda>t. ret (quote_dead req t)))"

subsection \<open>\<open>submit\<close>\<close>

definition msg_needs_path :: "corridor \<Rightarrow> string" where
  "msg_needs_path c =
     ''corridor '' @ c_id c @ '' settles in receive_asset '' @ or_else ''undefined'' (receive_asset (c_settlement c)) @
     '', not bridge asset '' @ bridge_asset (c_settlement c) @ ''; refusing a plain payment (use StellarPathPaymentStrategy)''"

definition payment_operation :: "sdk \<Rightarrow> settlement_request \<Rightarrow> horizon_error + operation" where
  "payment_operation k req =
     (case bridgeAsset k (m_asset (sr_amount req)) (asset_issuer (c_settlement (sr_corridor req))) of
        Inl e \<Rightarrow> Inl e
      | Inr a \<Rightarrow> let op = PaymentOp (sr_to req) a (m_amount (sr_amount req)) in accepted (k_newOp k op) op)"

definition submit :: "nat \<Rightarrow> sdk \<Rightarrow> 'e stellar \<Rightarrow> settlement_request \<Rightarrow> ('e chain, settlement_ref outcome) io" where
  "submit fuel k s req =
     check (preflight k s req) (\<lambda>e. ret (Inl e)) (\<lambda>_.
       if needsPathPayment (sr_corridor req) then ret (fail SETTLEMENT_FAILED (msg_needs_path (sr_corridor req)))
       else send fuel k s req (payment_operation k req))"

definition stellar_refund :: "refund_request \<Rightarrow> settlement_ref outcome" where
  "stellar_refund req =
     fail REFUND_UNSUPPORTED (''payment '' @ settlementId (rq_original req) @
       '' cannot be reversed on-chain; resolve out-of-band with the receiving anchor (SEP-31 gives the sender no refund endpoint) '' @
       [CHR 0xE2, CHR 0x80, CHR 0x94] @ '' see the held runbook in docs/operations.md'')"


subsection \<open>\<open>submitPathPayment\<close>\<close>

text \<open>The record delivering the most, the first of them; amounts that do not read or are not positive are skipped.\<close>

fun best_record :: "path_record list \<Rightarrow> (path_record \<times> int) option \<Rightarrow> (path_record \<times> int) option" where
  "best_record [] best = best"
| "best_record (r # rs) best =
     best_record rs
       (case toScaled (ph_destination_amount r) STROOP_SCALE of
          Inl _ \<Rightarrow> best
        | Inr v \<Rightarrow>
            if v \<le> 0 then best
            else (case best of None \<Rightarrow> Some (r, v) | Some (_, b) \<Rightarrow> if v > b then Some (r, v) else best))"

definition hop_asset :: "sdk \<Rightarrow> path_hop \<Rightarrow> horizon_error + asset" where
  "hop_asset k hop =
     (case hop of (ty, code, issuer) \<Rightarrow>
        if ty = ''native'' then Inr Native else new_asset k (or_else '''' code) (or_else '''' issuer))"

fun path_assets :: "sdk \<Rightarrow> path_hop list \<Rightarrow> horizon_error + asset list" where
  "path_assets k [] = Inr []"
| "path_assets k (h # hs) =
     (case hop_asset k h of Inl e \<Rightarrow> Inl e
      | Inr a \<Rightarrow> (case path_assets k hs of Inl e \<Rightarrow> Inl e | Inr as \<Rightarrow> Inr (a # as)))"

definition best_route ::
  "sdk \<Rightarrow> asset \<Rightarrow> string \<Rightarrow> asset \<Rightarrow> path_record list \<Rightarrow> (string \<times> asset list) outcome" where
  "best_route k from amount to' records =
     (case best_record records None of
        None \<Rightarrow> fail SETTLEMENT_FAILED (''no strict-send path from '' @ amount @ '' '' @ assetLabel from @ '' to '' @
                  assetLabel to' @ ''; refusing to submit'')
      | Some (r, v) \<Rightarrow>
          (case path_assets k (ph_path r) of
             Inl e \<Rightarrow> fail_full SETTLEMENT_FAILED (''unusable path from Horizon: '' @ describe e) False CauseOther
           | Inr as \<Rightarrow> Inr (fromScaled v STROOP_SCALE, as)))"

definition bestStrictSendPath ::
  "sdk \<Rightarrow> ('e, 'z) sender_scheme \<Rightarrow> asset \<Rightarrow> string \<Rightarrow> asset \<Rightarrow> ('e chain, (string \<times> asset list) outcome) io" where
  "bestStrictSendPath k s from amount to' =
     (case hs_strictSendPaths (sd_horizon s) of
        None \<Rightarrow> ret (fail SETTLEMENT_FAILED ''Horizon server does not expose strictSendPaths'')
      | Some paths \<Rightarrow>
          check (on_chain (paths from amount [to']))
            (\<lambda>e. ret (fail_full SETTLEMENT_FAILED (''strict-send path query failed: '' @ describe e) True CauseOther))
            (\<lambda>records. ret (best_route k from amount to' records)))"

definition path_ends :: "sdk \<Rightarrow> settlement_request \<Rightarrow> (asset \<times> asset) outcome" where
  "path_ends k req =
     (let s = c_settlement (sr_corridor req);
          bad = (\<lambda>e. fail_full SETTLEMENT_FAILED (''invalid path-payment asset: '' @ describe e) False CauseOther) in
      case bridgeAsset k (m_asset (sr_amount req)) (asset_issuer s) of
        Inl e \<Rightarrow> bad e
      | Inr from \<Rightarrow>
          (case bridgeAsset k (or_else (bridge_asset s) (receive_asset s)) (or_else (asset_issuer s) (receive_asset_issuer s)) of
             Inl e \<Rightarrow> bad e
           | Inr to' \<Rightarrow> Inr (from, to')))"

text \<open>The floor of what must arrive: the quoted amount less the slippage, refused below the anchor's minimum.\<close>

definition dest_min :: "settlement_request \<Rightarrow> string option \<Rightarrow> asset \<Rightarrow> string \<Rightarrow> string outcome" where
  "dest_min req minDest to' best =
     (let bps = or_else DEFAULT_MAX_SLIPPAGE_BPS (max_slippage_bps (c_settlement (sr_corridor req))) in
      case applySlippage best bps of
        Inl e \<Rightarrow> Inl e
      | Inr m \<Rightarrow>
          let low = fail SETTLEMENT_FAILED (''path payment destMin '' @ m @ '' '' @ assetLabel to' @ '' (best path '' @ best @
                '' less '' @ show_int bps @ '' bps) is below the '' @ or_else '''' minDest @ '' the anchor requires; refusing to submit'') in
          (case minDest of
             None \<Rightarrow> Inr m
           | Some r \<Rightarrow> (case compareAmounts m r STROOP_SCALE of Inl _ \<Rightarrow> low | Inr c \<Rightarrow> if c < 0 then low else Inr m)))"

definition path_operation ::
  "sdk \<Rightarrow> settlement_request \<Rightarrow> asset \<Rightarrow> asset \<Rightarrow> string \<Rightarrow> asset list \<Rightarrow> horizon_error + operation" where
  "path_operation k req from to' m path =
     (let op = PathOp from (m_amount (sr_amount req)) (sr_to req) to' m path in accepted (k_newOp k op) op)"

definition submitPathPayment ::
  "nat \<Rightarrow> sdk \<Rightarrow> 'e stellar \<Rightarrow> settlement_request \<Rightarrow> string option \<Rightarrow> ('e chain, settlement_ref outcome) io" where
  "submitPathPayment fuel k s req minDest =
     check (preflight k s req) (\<lambda>e. ret (Inl e)) (\<lambda>_.
     case path_ends k req of
       Inl e \<Rightarrow> ret (Inl e)
     | Inr (from, to') \<Rightarrow>
         check (bestStrictSendPath k s from (m_amount (sr_amount req)) to') (\<lambda>e. ret (Inl e)) (\<lambda>(best, path).
           case dest_min req minDest to' best of
             Inl e \<Rightarrow> ret (Inl e)
           | Inr m \<Rightarrow>
               send fuel k s req (path_operation k req from to' m path)))"

subsection \<open>\<open>StellarPathPaymentStrategy\<close>\<close>

definition pathStrategy_matches :: "'f strategy_ctx \<Rightarrow> bool" where
  "pathStrategy_matches ctx = needsPathPayment (sc_corridor ctx)"

definition min_dest_amount :: "open_transaction \<Rightarrow> corridor \<Rightarrow> string option" where
  "min_dest_amount op c =
     (case (o_amountIn op, receive_asset (c_settlement c)) of
        (Some a, Some r) \<Rightarrow>
          if namesAsset (m_asset a) r (receive_asset_issuer (c_settlement c)) then Some (m_amount a) else None
      | _ \<Rightarrow> None)"

definition pathStrategy_settle ::
  "nat \<Rightarrow> sdk \<Rightarrow> 'e stellar \<Rightarrow> 'f strategy_ctx \<Rightarrow> ('e chain, settlement_ref outcome) io" where
  "pathStrategy_settle fuel k s ctx =
     submitPathPayment fuel k s (buildSettlementRequest (sc_opened ctx) (sc_quote ctx) (sc_corridor ctx))
       (min_dest_amount (sc_opened ctx) (sc_corridor ctx))"

subsection \<open>\<open>findExisting\<close>\<close>

definition asset_found :: "settlement_t \<Rightarrow> payment_fact \<Rightarrow> bool" where
  "asset_found s p =
     (if to_upper (bridge_asset s) = ''XLM'' \<or> to_lower (bridge_asset s) = ''native'' then
        pf_asset_type p = ''native'' \<or> map_option to_upper (pf_asset_code p) = Some ''XLM''
      else map_option to_upper (pf_asset_code p) = Some (to_upper (bridge_asset s)) \<and>
        (asset_issuer s = [] \<or> \<not> truthy (pf_asset_issuer p) \<or> pf_asset_issuer p = Some (asset_issuer s)))"

definition memo_found :: "sdk \<Rightarrow> settlement_request \<Rightarrow> payment_fact \<Rightarrow> bool" where
  "memo_found k req p =
     (if \<not> truthy (sr_memo req) then \<not> (truthy (pf_memo p) \<and> pf_memoType p \<noteq> ''none'')
      else case (case sr_memoType req of Some t \<Rightarrow> t | None \<Rightarrow> MemoText) of
        MemoHash \<Rightarrow> pf_memoType p = ''hash'' \<and>
          normalizeHashMemo k (the (sr_memo req)) = (if truthy (pf_memo p) then normalizeHashMemo k (the (pf_memo p)) else '''')
      | MemoId \<Rightarrow> pf_memoType p = ''id'' \<and> pf_memo p = sr_memo req
      | MemoText \<Rightarrow> pf_memoType p = ''text'' \<and> pf_memo p = sr_memo req)"

definition already_paid :: "sdk \<Rightarrow> settlement_request \<Rightarrow> payment_fact \<Rightarrow> bool" where
  "already_paid k req p =
     (asset_found (c_settlement (sr_corridor req)) p \<and> amount_equal (pf_amount p) (m_amount (sr_amount req)) \<and> memo_found k req p)"

definition findExisting :: "sdk \<Rightarrow> 'e stellar \<Rightarrow> settlement_request \<Rightarrow> ('e chain, settlement_ref option outcome) io" where
  "findExisting k s req =
     check (in_chain (paymentsFrom (ss_inspector s) (sn_publicKey (sd_signer s)) \<lparr>po_to = Some (sr_to req), po_sinceLedger = None\<rparr>))
       (\<lambda>e. ret (Inl e))
       (\<lambda>r. ret (Inr (map_option (\<lambda>p. StellarRef (pf_hash p) (Some (pf_ledger p)) None None)
                        (find (already_paid k req) (pr_payments r)))))"

subsection \<open>\<open>StellarClaimableBalanceStrategy\<close>\<close>

record 'e claimable = "'e sender" +
  cb_defaultPredicateSeconds :: "int option"

text \<open>The request with the fields the strategy adds: claimant, relative expiry, predicate.\<close>

record claim_extra =
  ce_claimant :: "string option"
  ce_predicateSeconds :: "int option"
  ce_predicate :: "claim_predicate option"

definition claim_predicate_of :: "'e claimable \<Rightarrow> claim_extra \<Rightarrow> claim_predicate" where
  "claim_predicate_of s x =
     (case ce_predicate x of
        Some p \<Rightarrow> p
      | None \<Rightarrow>
          (case (case ce_predicateSeconds x of Some n \<Rightarrow> Some n | None \<Rightarrow> cb_defaultPredicateSeconds s) of
             Some n \<Rightarrow> BeforeRelativeTime (show_int n)
           | None \<Rightarrow> Unconditional))"

text \<open>\<open>writeBigInt64BE\<close>: two's complement, most significant byte first; it throws outside 64 bits.\<close>

fun be_bytes :: "nat \<Rightarrow> nat \<Rightarrow> nat list" where
  "be_bytes 0 v = []"
| "be_bytes (Suc n) v = be_bytes n (v div 256) @ [v mod 256]"

definition int64_bytes :: "int \<Rightarrow> nat list option" where
  "int64_bytes v = (if - (2 ^ 63) \<le> v \<and> v < 2 ^ 63 then Some (be_bytes 8 (nat (v mod 2 ^ 64))) else None)"

definition calculateClaimableBalanceId :: "sdk \<Rightarrow> string \<Rightarrow> int \<Rightarrow> nat \<Rightarrow> horizon_error + string" where
  "calculateClaimableBalanceId k source seqno i =
     (case int64_bytes seqno of
        None \<Rightarrow> Inl (plain_error ''The value of \"value\" is out of range.'')
      | Some bytes \<Rightarrow> Inr (''00000000'' @ k_sha256hex k (k_rawKey k source @ bytes @ be_bytes 4 i)))"

definition extractClaimableBalanceId :: "sdk \<Rightarrow> string option \<Rightarrow> string option" where
  "extractClaimableBalanceId k x = (if truthy x then k_balanceIdFromResult k (the x) else None)"

definition claim_attempt ::
  "sdk \<Rightarrow> 'e claimable \<Rightarrow> settlement_request \<Rightarrow> claim_extra \<Rightarrow> string \<Rightarrow> ('e chain, (string \<times> string) attempt) io" where
  "claim_attempt k s req x claimant =
     (case bridgeAsset k (m_asset (sr_amount req)) (asset_issuer (c_settlement (sr_corridor req))) of
        Inl e \<Rightarrow> ret (NotSent e)
      | Inr a \<Rightarrow>
          check (load_source s) (\<lambda>e. ret (NotSent e)) (\<lambda>(_, seqno).
            bnd (on_chain (sd_now s)) (\<lambda>t.
              let op = ClaimableOp a (m_amount (sr_amount req)) claimant (claim_predicate_of s x) in
              case accepted (k_newOp k op) op of
                Inl e \<Rightarrow> ret (NotSent e)
              | Inr op \<Rightarrow>
                  (case buildEnvelope k s req op seqno t of
                     Inl e \<Rightarrow> ret (NotSent e)
                   | Inr env \<Rightarrow>
                       (case calculateClaimableBalanceId k (sn_publicKey (sd_signer s)) (ev_sequence env) 0 of
                          Inl e \<Rightarrow> ret (NotSent e)
                        | Inr i \<Rightarrow> sign_and_submit k s env (k_hash k env, i))))))"

definition claim_ref :: "sdk \<Rightarrow> string \<times> string \<Rightarrow> confirmed \<Rightarrow> settlement_ref" where
  "claim_ref k x c =
     StellarRef (fst x) (cf_ledger c) (cf_feeCharged c)
       (Some (or_else (snd x) (extractClaimableBalanceId k (cf_resultXdr c))))"

definition claim_submit ::
  "nat \<Rightarrow> sdk \<Rightarrow> 'e claimable \<Rightarrow> settlement_request \<Rightarrow> claim_extra \<Rightarrow> ('e chain, settlement_ref outcome) io" where
  "claim_submit fuel k s req x =
     bnd (on_chain (sd_now s)) (\<lambda>t.
       case quote_dead req t of
         Inl e \<Rightarrow> ret (Inl e)
       | Inr _ \<Rightarrow>
           let claimant = or_else (sr_to req) (ce_claimant x) in
           if claimant = [] then ret (fail SETTLEMENT_FAILED ''claimable balance settlement requires a claimant address'')
           else bnd (claim_attempt k s req x claimant) (conclude fuel s fst (claim_ref k)))"

text \<open>What \<open>settle\<close> reads off the opened transaction: the claimable-balance instructions, else the deposit address.\<close>

definition claim_extra_of :: "open_transaction \<Rightarrow> claim_extra" where
  "claim_extra_of op =
     (case o_instructions op of
        Some (IClaimableBalance claimant _ secs) \<Rightarrow>
          \<lparr>ce_claimant = Some claimant, ce_predicateSeconds = secs, ce_predicate = None\<rparr>
      | _ \<Rightarrow> \<lparr>ce_claimant = o_depositAddress op, ce_predicateSeconds = None, ce_predicate = None\<rparr>)"

definition claimStrategy_settle ::
  "nat \<Rightarrow> sdk \<Rightarrow> 'e claimable \<Rightarrow> 'f strategy_ctx \<Rightarrow> ('e chain, settlement_ref outcome) io" where
  "claimStrategy_settle fuel k s ctx =
     claim_submit fuel k s (buildSettlementRequest (sc_opened ctx) (sc_quote ctx) (sc_corridor ctx))
       (claim_extra_of (sc_opened ctx))"

subsection \<open>Construction\<close>

text \<open>
  \<open>fromSecret\<close>, \<open>connect\<close> (a real \<open>Horizon.Server\<close>) and \<open>fetchRoot\<close> are the SDK and the network; a
  fake server given by the caller has no root to read.
\<close>

record 'e submitter_options =
  ro_signer :: "'e signer option"
  ro_secret :: "string option"
  ro_horizonUrl :: string
  ro_horizonServer :: "'e horizon option"
  ro_inspector :: "'e inspector option"
  ro_fee :: "string option"
  ro_confirmTimeoutMs :: "int option"
  ro_allowed :: "network_t list option"
  ro_allowLocal :: "bool option"
  ro_fetchRoot :: "(string \<Rightarrow> ('e, horizon_error + string option) port) option"

record 'e platform =
  pl_fromSecret :: "string \<Rightarrow> string + 'e signer"
  pl_connect :: "string \<Rightarrow> 'e horizon"
  pl_fetchRoot :: "string \<Rightarrow> ('e, horizon_error + string option) port"
  pl_now :: "('e, int) port"
  pl_sleep :: "int \<Rightarrow> 'e \<Rightarrow> 'e"

definition default_fee :: string where
  "default_fee = fromScaled (int (nat_of_digits BASE_FEE)) STROOP_SCALE"

definition payments_inspector :: "'e horizon \<Rightarrow> 'e inspector" where
  "payments_inspector h =
     \<lparr>in_loadAccount = Some (\<lambda>i e. case hs_loadAccount h i e of (a, e') \<Rightarrow> (map_sum id fst a, e')), in_ledgers = None,
      in_transaction = Some (hs_transaction h), in_operations = None, in_payments = hs_payments h,
      in_baseReserve = None, in_baseFee = None, in_pageSize = 200, in_maxPages = 10\<rparr>"

definition new_sender :: "'e platform \<Rightarrow> string \<Rightarrow> 'e submitter_options \<Rightarrow> string + 'e sender" where
  "new_sender pl class o' =
     (if ro_signer o' = None \<and> \<not> truthy (ro_secret o') then
        Inl (class @ '': provide either `signer` or `signerSecret`'')
      else
        case (case ro_signer o' of Some sg \<Rightarrow> Inr sg | None \<Rightarrow> pl_fromSecret pl (or_else [] (ro_secret o'))) of
          Inl m \<Rightarrow> Inl m
        | Inr sg \<Rightarrow>
            let fee = or_else default_fee (ro_fee o') in
            if \<not> isOk (toScaled fee STROOP_SCALE) then
              Inl (class @ '': invalid `fee` '' @ in_quotes fee @ '' (expected an XLM decimal string)'')
            else Inr
              \<lparr>sd_signer = sg, sd_horizon = or_else (pl_connect pl (ro_horizonUrl o')) (ro_horizonServer o'), sd_fee = fee,
               sd_confirmTimeoutMs = or_else 30000 (ro_confirmTimeoutMs o'), sd_now = pl_now pl, sd_sleep = pl_sleep pl\<rparr>)"

definition new_submitter :: "'e platform \<Rightarrow> 'e submitter_options \<Rightarrow> string + 'e stellar" where
  "new_submitter pl o' =
     map_sum id
       (\<lambda>s. sender.extend s
          \<lparr>ss_inspector = or_else (payments_inspector (sd_horizon s)) (ro_inspector o'),
           ss_allowed = or_else [TestNet] (ro_allowed o'), ss_allowLocal = or_else False (ro_allowLocal o'),
           ss_horizonUrl = ro_horizonUrl o',
           ss_rootFetcher = (case ro_fetchRoot o' of Some f \<Rightarrow> Some f
             | None \<Rightarrow> if ro_horizonServer o' \<noteq> None then None else Some (pl_fetchRoot pl))\<rparr>)
       (new_sender pl ''StellarSettlementSubmitter'' o')"

definition new_claimable :: "'e platform \<Rightarrow> 'e submitter_options \<Rightarrow> int option \<Rightarrow> string + 'e claimable" where
  "new_claimable pl o' secs =
     map_sum id (\<lambda>s. sender.extend s \<lparr>cb_defaultPredicateSeconds = secs\<rparr>)
       (new_sender pl ''StellarClaimableBalanceStrategy'' o')"

end
