(* ===== verification/Settling.thy ===== *)
theory Settling
  imports Submitter
begin

section \<open>What sending a settlement guarantees\<close>

text \<open>
  What one call of \<open>submit\<close>, \<open>submitPathPayment\<close> or the claimable-balance \<open>submit\<close> adds to the log,
  and what its answer says of it. The contract that the engine's retries rest on is the locale
  \<open>careful_sender\<close>: an error may only be called retryable when nothing of the call can still land.
  All three are interpretations of it, so that retry_calls any of them never puts a second payment on
  the chain.
\<close>

subsection \<open>What an operation logs\<close>

definition logs ::
  "('a \<Rightarrow> chain_event list \<Rightarrow> bool) \<Rightarrow> (chain_event list \<Rightarrow> bool) \<Rightarrow> ('e chain, 'a) io \<Rightarrow> bool" where
  "logs Q E m \<longleftrightarrow>
     (\<forall>w. wp m (\<lambda>r w'. \<exists>new. ch_log w' = ch_log w @ new \<and> Q r new) (\<lambda>w'. \<exists>new. ch_log w' = ch_log w @ new \<and> E new) w)"

named_theorems logs_rules \<open>what the operations log\<close>

lemma logs_mono:
  "logs Q E m \<Longrightarrow> (\<And>r n. Q r n \<Longrightarrow> Q' r n) \<Longrightarrow> (\<And>n. E n \<Longrightarrow> E' n) \<Longrightarrow> logs Q' E' m"
  unfolding logs_def by (blast intro: wp_mono)

lemma logs_ret: "Q x [] \<Longrightarrow> logs Q E (ret x)"
  by (simp add: logs_def wp_rules)

lemma logs_throw: "E [] \<Longrightarrow> logs Q E throw_io"
  by (simp add: logs_def wp_rules)

lemma logs_bnd:
  assumes m: "logs P F (m :: ('e chain, 'a) io)" and f: "\<And>x n. P x n \<Longrightarrow> logs (\<lambda>r n'. Q r (n @ n')) (\<lambda>n'. E (n @ n')) (f x)"
    and e: "\<And>n. F n \<Longrightarrow> E n"
  shows "logs Q E (bnd m f)"
  unfolding logs_def wp_bnd
proof (intro allI)
  fix w :: "'e chain"
  have "wp m (\<lambda>r w'. \<exists>new. ch_log w' = ch_log w @ new \<and> P r new) (\<lambda>w'. \<exists>new. ch_log w' = ch_log w @ new \<and> F new) w"
    using m by (simp add: logs_def)
  then show "wp m (\<lambda>x. wp (f x) (\<lambda>r w'. \<exists>new. ch_log w' = ch_log w @ new \<and> Q r new)
      (\<lambda>w'. \<exists>new. ch_log w' = ch_log w @ new \<and> E new)) (\<lambda>w'. \<exists>new. ch_log w' = ch_log w @ new \<and> E new) w"
  proof (rule wp_mono)
    fix x and w1 :: "'e chain" assume "\<exists>new. ch_log w1 = ch_log w @ new \<and> P x new"
    then obtain n where n: "ch_log w1 = ch_log w @ n" "P x n" by blast
    have "wp (f x) (\<lambda>r w'. \<exists>new. ch_log w' = ch_log w1 @ new \<and> Q r (n @ new)) (\<lambda>w'. \<exists>new. ch_log w' = ch_log w1 @ new \<and> E (n @ new)) w1"
      using f [OF n(2)] by (simp add: logs_def)
    then show "wp (f x) (\<lambda>r w'. \<exists>new. ch_log w' = ch_log w @ new \<and> Q r new) (\<lambda>w'. \<exists>new. ch_log w' = ch_log w @ new \<and> E new) w1"
      by (rule wp_mono) (use n in auto)
  qed (use e in blast)
qed

lemma logs_check:
  assumes "logs P F m" and "\<And>e n. P (Inl e) n \<Longrightarrow> logs (\<lambda>r n'. Q r (n @ n')) (\<lambda>n'. E (n @ n')) (h e)"
    and "\<And>v n. P (Inr v) n \<Longrightarrow> logs (\<lambda>r n'. Q r (n @ n')) (\<lambda>n'. E (n @ n')) (k v)"
    and "\<And>n. F n \<Longrightarrow> E n"
  shows "logs Q E (check m h k)"
  unfolding check_def by (rule logs_bnd [OF assms(1)]) (use assms in \<open>auto split: sum.splits\<close>)

text \<open>Reading the world adds nothing.\<close>

abbreviation quiet :: "('e chain, 'a) io \<Rightarrow> bool" where
  "quiet \<equiv> logs (\<lambda>_ n. n = []) (\<lambda>n. n = [])"

lemma logs_on_chain: "(\<And>e. Q (fst (p e)) []) \<Longrightarrow> logs Q E (on_chain p)"
  by (auto simp: logs_def wp_def on_chain_def split: prod.splits) (metis fst_conv)

lemma logs_gets: "(\<And>w. Q (f w) []) \<Longrightarrow> logs Q E (gets_io f)"
  by (simp add: logs_def wp_rules)

lemma logs_modify: "(\<And>w. ch_log (f w) = ch_log w) \<Longrightarrow> Q () [] \<Longrightarrow> logs Q E (modify_io f)"
  by (simp add: logs_def wp_rules)

lemma logs_emit: "Q () [ev] \<Longrightarrow> logs Q E (ch_emit ev)"
  by (simp add: logs_def ch_emit_def wp_rules)

lemma logs_sleep: "Q () [] \<Longrightarrow> logs Q E (ch_sleep sl d)"
  by (simp add: logs_def ch_sleep_def wp_rules)

text \<open>An operation that only reads, followed by the rest.\<close>

lemma logs_bnd_quiet: "quiet m \<Longrightarrow> (\<And>x. logs Q E (f x)) \<Longrightarrow> E [] \<Longrightarrow> logs Q E (bnd m f)"
  by (rule logs_bnd [where P = "\<lambda>_ n. n = []" and F = "\<lambda>n. n = []"]) auto

lemma quiet_on_chain [logs_rules]: "quiet (on_chain p)"
  by (rule logs_on_chain) simp

lemma wp_on_chain [wp_rules]:
  "wp (on_chain p) Q E w = (case p (ch_env w) of (a, e) \<Rightarrow> Q a (w\<lparr>ch_env := e\<rparr>))"
  by (simp add: wp_def on_chain_def split: prod.splits)

subsection \<open>Confirmation\<close>

definition landed :: "('e, 'z) sender_scheme \<Rightarrow> string \<Rightarrow> confirmed \<Rightarrow> bool" where
  "landed s h c \<longleftrightarrow>
     (\<exists>e tx. fst (hs_transaction (sd_horizon s) h e) = Inr tx \<and> tr_successful tx \<and>
        c = \<lparr>cf_ledger = tr_ledger tx, cf_feeCharged = tr_fee_charged tx, cf_resultXdr = tr_result_xdr tx\<rparr>)"

definition confirm_says :: "('e, 'z) sender_scheme \<Rightarrow> string \<Rightarrow> confirmed outcome \<Rightarrow> bool" where
  "confirm_says s h r \<longleftrightarrow>
     (case r of Inr c \<Rightarrow> landed s h c
      | Inl e \<Rightarrow> \<not> e_retryable e \<and> e_code e \<in> {SETTLEMENT_FAILED, SETTLEMENT_TIMEOUT})"

lemma landedI:
  "fst (hs_transaction (sd_horizon s) h e) = Inr tx \<Longrightarrow> tr_successful tx \<Longrightarrow>
   landed s h \<lparr>cf_ledger = tr_ledger tx, cf_feeCharged = tr_fee_charged tx, cf_resultXdr = tr_result_xdr tx\<rparr>"
  unfolding landed_def by blast

lemma confirm_says_simps [simp]:
  "confirm_says s h (Inr c) = landed s h c"
  "confirm_says s h (Inl e) \<longleftrightarrow> \<not> e_retryable e \<and> e_code e \<in> {SETTLEMENT_FAILED, SETTLEMENT_TIMEOUT}"
  "confirm_says s h (fail_full code m r k) \<longleftrightarrow> \<not> r \<and> code \<in> {SETTLEMENT_FAILED, SETTLEMENT_TIMEOUT}"
  by (auto simp: confirm_says_def fail_full_def)

lemma confirm_loop_logs: "logs (\<lambda>r n. n = [] \<and> confirm_says s h r) (\<lambda>n. n = []) (confirm_loop fuel s h d)"
proof (induction fuel)
  case (Suc fuel)
  show ?case unfolding confirm_loop.simps
    by (rule logs_bnd [where P = "\<lambda>a n. n = [] \<and> (\<exists>e. a = fst (hs_transaction (sd_horizon s) h e))" and F = "\<lambda>_. False"])
      (auto split: sum.splits
        intro!: landedI logs_on_chain logs_ret logs_bnd_quiet [OF quiet_on_chain] logs_bnd_quiet [OF logs_sleep] Suc)
qed (simp add: logs_throw)

lemma confirm_logs: "logs (\<lambda>r n. n = [] \<and> confirm_says s h r) (\<lambda>n. n = []) (confirmTransaction fuel s h)"
  unfolding confirmTransaction_def by (rule logs_bnd_quiet [OF quiet_on_chain]) (auto intro: confirm_loop_logs)


subsection \<open>One attempt\<close>

definition send_answer_of :: "horizon_error \<Rightarrow> send_answer" where
  "send_answer_of e = (if he_rejected e then SendRejected else SendLost)"

text \<open>What an attempt has logged, \<open>good\<close> being what is known of an envelope that was signed.\<close>

definition tried :: "('e, 'z) sender_scheme \<Rightarrow> (envelope \<Rightarrow> 'a \<Rightarrow> bool) \<Rightarrow> 'a attempt \<Rightarrow> chain_event list \<Rightarrow> bool" where
  "tried s good a new \<longleftrightarrow>
     (let load = ChLoad (sn_publicKey (sd_signer s)) in
      case a of
        NotSent _ \<Rightarrow> new = [] \<or> new = [load]
      | Sent x \<Rightarrow> \<exists>env. good env x \<and> new = [load, ChSign env, ChSend env, ChAnswer SendAccepted]
      | SendFailed x e \<Rightarrow> \<exists>env. good env x \<and> new = [load, ChSign env, ChSend env, ChAnswer (send_answer_of e)])"

lemma sign_and_submit_logs:
  assumes "good env x"
  shows "logs (\<lambda>a n. tried s good a (ChLoad (sn_publicKey (sd_signer s)) # n)) (\<lambda>_. False) (sign_and_submit k s env x)"
  using assms
  by (auto simp: logs_def sign_and_submit_def wp_rules ch_emit_def tried_def Let_def send_answer_of_def split: prod.splits sum.splits)

text \<open>What is in every envelope built for a request: the operation, the memo, the network and the quote's expiry.\<close>

definition built_for :: "sdk \<Rightarrow> ('e, 'z) sender_scheme \<Rightarrow> settlement_request \<Rightarrow> envelope \<Rightarrow> bool" where
  "built_for k s req env \<longleftrightarrow>
     ev_source env = sn_publicKey (sd_signer s) \<and>
     ev_passphrase env = passphraseFor k (network (c_settlement (sr_corridor req))) \<and>
     (if truthy (sr_memo req) then \<exists>m. buildMemo k (the (sr_memo req)) (sr_memoType req) = Inr m \<and> ev_memo env = Some m
      else ev_memo env = None) \<and>
     (\<exists>t. ev_maxTime env = maxTimeOf req t)"

lemma buildEnvelope_built:
  "buildEnvelope k s req op seqno t = Inr env \<Longrightarrow>
   built_for k s req env \<and> ev_op env = op \<and> ev_sequence env = seqno + 1"
  by (cases "buildMemo k (the (sr_memo req)) (sr_memoType req)")
    (auto simp: buildEnvelope_def accepted_def built_for_def Let_def split: sum.splits option.splits if_splits)

lemma load_source_logs:
  "logs (\<lambda>_ n. n = [ChLoad (sn_publicKey (sd_signer s))]) (\<lambda>_. False) (load_source s)"
  by (auto simp: logs_def load_source_def ch_emit_def wp_rules split: prod.splits)

lemma tried_before [simp]:
  "tried s good (NotSent e) []" "tried s good (NotSent e) [ChLoad (sn_publicKey (sd_signer s))]"
  by (simp_all add: tried_def)

lemma send_attempt_logs:
  "logs (tried s (\<lambda>env h. h = k_hash k env \<and> built_for k s req env \<and> operation = Inr (ev_op env))) (\<lambda>_. False)
     (send_attempt k s req operation)"
proof (cases operation)
  case (Inr op)
  show ?thesis unfolding send_attempt_def Inr sum.case
    by (rule logs_check [OF load_source_logs])
      (auto split: prod.splits sum.splits dest!: buildEnvelope_built
        intro!: logs_ret logs_bnd [where P = "\<lambda>_ n. n = []" and F = "\<lambda>_. False"] logs_on_chain sign_and_submit_logs)
qed (simp add: send_attempt_def logs_ret)

lemma claim_attempt_logs:
  "logs (tried s (\<lambda>env x. fst x = k_hash k env \<and> built_for k s req env \<and>
      (\<exists>a p. bridgeAsset k (m_asset (sr_amount req)) (asset_issuer (c_settlement (sr_corridor req))) = Inr a \<and>
         ev_op env = ClaimableOp a (m_amount (sr_amount req)) claimant p))) (\<lambda>_. False)
     (claim_attempt k s req x claimant)"
proof (cases "bridgeAsset k (m_asset (sr_amount req)) (asset_issuer (c_settlement (sr_corridor req)))")
  case (Inr a)
  show ?thesis unfolding claim_attempt_def Inr sum.case
    by (rule logs_check [OF load_source_logs])
      (auto simp: accepted_def Let_def split: prod.splits sum.splits option.splits dest!: buildEnvelope_built
        intro!: logs_ret logs_bnd [where P = "\<lambda>_ n. n = []" and F = "\<lambda>_. False"] logs_on_chain sign_and_submit_logs)
qed (simp add: claim_attempt_def logs_ret)


subsection \<open>One call\<close>

text \<open>
  A call that ends with \<open>r\<close> having logged \<open>new\<close>: nothing was sent and it is an error, or one envelope
  was; then a retryable error means Horizon rejected it, and a reference that it is on the ledger.
\<close>

definition call_ended ::
  "('e, 'z) sender_scheme \<Rightarrow> (envelope \<Rightarrow> 'a \<Rightarrow> bool) \<Rightarrow> ('a \<Rightarrow> string) \<Rightarrow> ('a \<Rightarrow> confirmed \<Rightarrow> settlement_ref)
     \<Rightarrow> settlement_ref outcome \<Rightarrow> chain_event list \<Rightarrow> bool" where
  "call_ended s good hash_of done' r new \<longleftrightarrow>
     (let load = ChLoad (sn_publicKey (sd_signer s)) in
      (new \<in> {[], [load]} \<and> \<not> isOk r) \<or>
      (\<exists>env x ans. good env x \<and> new = [load, ChSign env, ChSend env, ChAnswer ans] \<and>
         (case r of Inl e \<Rightarrow> e_retryable e \<longrightarrow> ans = SendRejected
          | Inr ref \<Rightarrow> ans \<noteq> SendRejected \<and> (\<exists>c. landed s (hash_of x) c \<and> ref = done' x c))))"

text \<open>A call still waiting for a confirmation when the fuel ran out.\<close>

definition waiting :: "('e, 'z) sender_scheme \<Rightarrow> (envelope \<Rightarrow> 'a \<Rightarrow> bool) \<Rightarrow> chain_event list \<Rightarrow> bool" where
  "waiting s good new \<longleftrightarrow>
     (\<exists>env x ans. good env x \<and> new = [ChLoad (sn_publicKey (sd_signer s)), ChSign env, ChSend env, ChAnswer ans])"

lemma isOk_simps [simp]: "isOk (Inr x)" "\<not> isOk (Inl e)" "\<not> isOk (fail_full c m r k)"
  by (simp_all add: isOk_def fail_full_def)

lemma call_ended_early [simp]: "call_ended s good h d (fail_full c m r k) []" "call_ended s good h d (Inl e) []"
  by (simp_all add: call_ended_def)

lemma call_ended_paid:
  "good env x \<Longrightarrow> landed s (h x) c \<Longrightarrow> ans \<noteq> SendRejected \<Longrightarrow>
   call_ended s good h d (Inr (d x c)) [ChLoad (sn_publicKey (sd_signer s)), ChSign env, ChSend env, ChAnswer ans]"
  unfolding call_ended_def Let_def by auto

lemma call_ended_error:
  "good env x \<Longrightarrow> (e_retryable e \<Longrightarrow> ans = SendRejected) \<Longrightarrow>
   call_ended s good h d (Inl e) [ChLoad (sn_publicKey (sd_signer s)), ChSign env, ChSend env, ChAnswer ans]"
  unfolding call_ended_def Let_def by auto

lemma waitingI:
  "good env x \<Longrightarrow> waiting s good [ChLoad (sn_publicKey (sd_signer s)), ChSign env, ChSend env, ChAnswer ans]"
  unfolding waiting_def by blast

lemma conclude_logs:
  assumes "tried s good a n"
  shows "logs (\<lambda>r n'. call_ended s good hash_of done' r (n @ n')) (\<lambda>n'. waiting s good (n @ n')) (conclude fuel s hash_of done' a)"
proof (cases a)
  case (NotSent e)
  then show ?thesis using assms
    by (auto simp: conclude_def tried_def Let_def call_ended_def submit_failed_def intro!: logs_ret)
next
  case (Sent x)
  then obtain env where g: "good env x"
    and n: "n = [ChLoad (sn_publicKey (sd_signer s)), ChSign env, ChSend env, ChAnswer SendAccepted]"
    using assms by (auto simp: tried_def Let_def)
  show ?thesis unfolding conclude_def Sent attempt.case
    by (rule logs_check [OF confirm_logs]) (use g n in \<open>auto intro!: logs_ret call_ended_paid call_ended_error waitingI\<close>)
next
  case (SendFailed x e)
  then obtain env where g: "good env x"
    and n: "n = [ChLoad (sn_publicKey (sd_signer s)), ChSign env, ChSend env, ChAnswer (send_answer_of e)]"
    using assms by (auto simp: tried_def Let_def)
  show ?thesis
  proof (cases "he_rejected e")
    case True
    then show ?thesis using g n
      by (auto simp: conclude_def SendFailed call_ended_def Let_def submit_failed_def send_answer_of_def fail_full_def intro!: logs_ret)
  next
    case False
    show ?thesis unfolding conclude_def SendFailed attempt.case if_not_P [OF False]
      by (rule logs_check [OF confirm_logs])
        (use g n False in \<open>auto simp: send_answer_of_def fail_full_def intro!: logs_ret call_ended_paid call_ended_error waitingI\<close>)
  qed
qed

text \<open>The envelope of \<open>send\<close> and of the claimable \<open>submit\<close>.\<close>

definition paid_by :: "sdk \<Rightarrow> ('e, 'z) sender_scheme \<Rightarrow> settlement_request \<Rightarrow> (horizon_error + operation) \<Rightarrow> envelope \<Rightarrow> string \<Rightarrow> bool" where
  "paid_by k s req operation env h \<longleftrightarrow> h = k_hash k env \<and> built_for k s req env \<and> operation = Inr (ev_op env)"

definition claim_by :: "sdk \<Rightarrow> ('e, 'z) sender_scheme \<Rightarrow> settlement_request \<Rightarrow> string \<Rightarrow> envelope \<Rightarrow> string \<times> string \<Rightarrow> bool" where
  "claim_by k s req claimant env x \<longleftrightarrow> fst x = k_hash k env \<and> built_for k s req env \<and>
      (\<exists>a p. bridgeAsset k (m_asset (sr_amount req)) (asset_issuer (c_settlement (sr_corridor req))) = Inr a \<and>
         ev_op env = ClaimableOp a (m_amount (sr_amount req)) claimant p)"

definition payment_ref :: "string \<Rightarrow> confirmed \<Rightarrow> settlement_ref" where
  "payment_ref h c = StellarRef h (cf_ledger c) (cf_feeCharged c) None"

lemma send_logs:
  "logs (call_ended s (paid_by k s req operation) id payment_ref) (waiting s (paid_by k s req operation)) (send fuel k s req operation)"
proof -
  have r: "(\<lambda>h c. StellarRef h (cf_ledger c) (cf_feeCharged c) None) = payment_ref"
    by (simp add: payment_ref_def fun_eq_iff)
  show ?thesis unfolding send_def r
    by (rule logs_bnd [OF send_attempt_logs [folded paid_by_def]]) (auto intro: conclude_logs)
qed

lemma guard_quiet: "quiet (guardNetwork k s n)"
  unfolding guardNetwork_def check_root_def
  by (auto simp: logs_def wp_rules Let_def split: option.splits prod.splits sum.splits)

lemma preflight_quiet: "quiet (preflight k s req)"
  unfolding preflight_def
  by (rule logs_check [OF guard_quiet]) (auto intro!: logs_ret logs_bnd_quiet [OF quiet_on_chain])

lemma quiet_check: "quiet m \<Longrightarrow> (\<And>e. logs Q E (h e)) \<Longrightarrow> (\<And>v. logs Q E (k v)) \<Longrightarrow> E [] \<Longrightarrow> logs Q E (check m h k)"
  by (rule logs_check [where P = "\<lambda>_ n. n = []" and F = "\<lambda>n. n = []"]) auto


lemma submit_logs:
  "logs (call_ended s (paid_by k s req (payment_operation k req)) id payment_ref)
     (\<lambda>n. n = [] \<or> waiting s (paid_by k s req (payment_operation k req)) n) (submit fuel k s req)"
  unfolding submit_def
  by (rule quiet_check [OF preflight_quiet]) (auto intro!: logs_ret logs_mono [OF send_logs])

text \<open>The envelope of a path payment: its floor comes src the best route Horizon offered.\<close>

definition routed ::
  "sdk \<Rightarrow> ('e, 'z) sender_scheme \<Rightarrow> asset \<Rightarrow> string \<Rightarrow> asset \<Rightarrow> string \<Rightarrow> asset list \<Rightarrow> bool" where
  "routed k s src amount to' best path \<longleftrightarrow>
     (\<exists>paths e records. hs_strictSendPaths (sd_horizon s) = Some paths \<and>
        fst (paths src amount [to'] e) = Inr records \<and> best_route k src amount to' records = Inr (best, path))"

lemma routedI:
  "hs_strictSendPaths (sd_horizon s) = Some paths \<Longrightarrow> Inr records = fst (paths src amount [to'] e) \<Longrightarrow>
   best_route k src amount to' records = Inr (best, path) \<Longrightarrow> routed k s src amount to' best path"
  unfolding routed_def by (metis)

definition path_by ::
  "sdk \<Rightarrow> ('e, 'z) sender_scheme \<Rightarrow> settlement_request \<Rightarrow> string option \<Rightarrow> envelope \<Rightarrow> string \<Rightarrow> bool" where
  "path_by k s req minDest env h \<longleftrightarrow>
     h = k_hash k env \<and> built_for k s req env \<and>
     (\<exists>src to' best path m. path_ends k req = Inr (src, to') \<and> dest_min req minDest to' best = Inr m \<and>
        routed k s src (m_amount (sr_amount req)) to' best path \<and>
        ev_op env = PathOp src (m_amount (sr_amount req)) (sr_to req) to' m path)"

lemma best_path_logs:
  "logs (\<lambda>r n. n = [] \<and> (\<forall>best path. r = Inr (best, path) \<longrightarrow> routed k s src amount to' best path)) (\<lambda>n. n = [])
     (bestStrictSendPath k s src amount to')"
proof (cases "hs_strictSendPaths (sd_horizon s)")
  case (Some paths)
  show ?thesis unfolding bestStrictSendPath_def Some option.case
    by (rule logs_check [where P = "\<lambda>a n. n = [] \<and> (\<exists>e. a = fst (paths src amount [to'] e))" and F = "\<lambda>_. False"])
      (use Some in \<open>auto simp: fail_full_def intro!: logs_on_chain logs_ret intro: routedI\<close>)
qed (simp add: bestStrictSendPath_def logs_ret fail_full_def)

lemma paid_by_path:
  assumes "paid_by k s req (path_operation k req src to' m path) env h"
    and "path_ends k req = Inr (src, to')" and "dest_min req minDest to' best = Inr m"
    and "routed k s src (m_amount (sr_amount req)) to' best path"
  shows "path_by k s req minDest env h"
proof -
  have "ev_op env = PathOp src (m_amount (sr_amount req)) (sr_to req) to' m path"
    using assms(1) by (auto simp: paid_by_def path_operation_def Let_def accepted_def split: option.splits)
  then show ?thesis using assms unfolding paid_by_def path_by_def by blast
qed

lemma call_ended_mono:
  "call_ended s good h d r n \<Longrightarrow> (\<And>env x. good env x \<Longrightarrow> good' env x) \<Longrightarrow> call_ended s good' h d r n"
  unfolding call_ended_def Let_def by blast

lemma waiting_mono:
  "waiting s good n \<Longrightarrow> (\<And>env x. good env x \<Longrightarrow> good' env x) \<Longrightarrow> waiting s good' n"
  unfolding waiting_def by blast

lemma submitPathPayment_logs:
  "logs (call_ended s (path_by k s req minDest) id payment_ref) (\<lambda>n. n = [] \<or> waiting s (path_by k s req minDest) n)
     (submitPathPayment fuel k s req minDest)"
  unfolding submitPathPayment_def
proof (rule quiet_check [OF preflight_quiet])
  show "logs (call_ended s (path_by k s req minDest) id payment_ref) (\<lambda>n. n = [] \<or> waiting s (path_by k s req minDest) n)
      (case path_ends k req of
       Inl e \<Rightarrow> ret (Inl e)
     | Inr (src, to') \<Rightarrow>
         check (bestStrictSendPath k s src (m_amount (sr_amount req)) to') (\<lambda>e. ret (Inl e)) (\<lambda>(best, path).
           case dest_min req minDest to' best of
             Inl e \<Rightarrow> ret (Inl e)
           | Inr m \<Rightarrow>
               send fuel k s req
                 (path_operation k req src to' m path)))"
    (is "logs ?Q ?E _")
  proof (cases "path_ends k req")
    case (Inr p)
    then obtain src to' where ends: "path_ends k req = Inr (src, to')" by (cases p) simp
    have step: "logs ?Q ?E (send fuel k s req
         (path_operation k req src to' m path))"
      if "dest_min req minDest to' best = Inr m" "routed k s src (m_amount (sr_amount req)) to' best path" for best path m
    proof (rule logs_mono [OF send_logs])
      note path = paid_by_path [OF _ ends that]
      show "?Q r n" if "call_ended s (paid_by k s req (path_operation k req src to' m path)) id payment_ref r n" for r n
        using that by (rule call_ended_mono) (rule path)
      show "?E n" if "waiting s (paid_by k s req (path_operation k req src to' m path)) n" for n
        by (rule disjI2, rule waiting_mono [OF that]) (rule path)
    qed
    show ?thesis unfolding ends sum.case prod.case
      by (rule logs_check [OF best_path_logs]) (auto split: sum.splits prod.splits intro!: logs_ret step)
  qed (simp add: logs_ret)
qed (simp_all add: logs_ret)

definition claimant_of :: "settlement_request \<Rightarrow> claim_extra \<Rightarrow> string" where
  "claimant_of req x = or_else (sr_to req) (ce_claimant x)"

lemma claim_submit_logs:
  "logs (call_ended s (claim_by k s req (claimant_of req x)) fst (claim_ref k))
     (\<lambda>n. n = [] \<or> waiting s (claim_by k s req (claimant_of req x)) n) (claim_submit fuel k s req x)"
proof -
  have "logs (call_ended s (claim_by k s req (claimant_of req x)) fst (claim_ref k))
     (\<lambda>n. n = [] \<or> waiting s (claim_by k s req (claimant_of req x)) n)
     (bnd (claim_attempt k s req x (claimant_of req x)) (conclude fuel s fst (claim_ref k)))"
    by (rule logs_bnd [OF claim_attempt_logs [folded claim_by_def]]) (auto intro!: logs_mono [OF conclude_logs])
  then show ?thesis unfolding claim_submit_def
    by (intro logs_bnd_quiet [OF quiet_on_chain])
      (auto simp: Let_def claimant_of_def split: sum.splits intro!: logs_ret)
qed


subsection \<open>Retrying\<close>

text \<open>The submissions that may be on the ledger: taken by Horizon, or lost on the way.\<close>

definition may_land :: "chain_event \<Rightarrow> bool" where
  "may_land ev = (ev \<in> {ChAnswer SendAccepted, ChAnswer SendLost})"

lemma may_land_simps [simp]:
  "\<not> may_land (ChLoad a)" "\<not> may_land (ChSign env)" "\<not> may_land (ChSend env)"
  "may_land (ChAnswer ans) \<longleftrightarrow> ans \<noteq> SendRejected"
  by (simp_all add: may_land_def) (cases ans; simp)

definition live_sends :: "chain_event list \<Rightarrow> nat" where
  "live_sends new = length (filter may_land new)"

lemma live_sends_append [simp]: "live_sends (a @ b) = live_sends a + live_sends b" "live_sends [] = 0"
  by (simp_all add: live_sends_def)

text \<open>What the engine does with a settlement step: the call again while its error is retryable.\<close>

fun retry_calls :: "nat \<Rightarrow> ('w, 'a outcome) io \<Rightarrow> ('w, 'a outcome) io" where
  "retry_calls 0 m = m"
| "retry_calls (Suc n) m =
     bnd m (\<lambda>r. case r of Inl e \<Rightarrow> if e_retryable e then retry_calls n m else ret (Inl e) | Inr x \<Rightarrow> ret (Inr x))"

definition wants_retry :: "'a outcome \<Rightarrow> bool" where
  "wants_retry r = (case r of Inl e \<Rightarrow> e_retryable e | Inr _ \<Rightarrow> False)"

definition careful_end :: "settlement_ref outcome \<Rightarrow> chain_event list \<Rightarrow> bool" where
  "careful_end r new \<longleftrightarrow>
     live_sends new \<le> 1 \<and> (wants_retry r \<longrightarrow> live_sends new = 0) \<and> (isOk r \<longrightarrow> live_sends new = 1)"

text \<open>
  The contract of a sender towards the code that retries it: one submission that may land at most,
  none when the error asks for a retry, exactly one when it succeeds.
\<close>

locale careful_sender =
  fixes run :: "'req \<Rightarrow> ('e chain, settlement_ref outcome) io"
  assumes careful: "logs careful_end (\<lambda>n. live_sends n \<le> 1) (run req)"
begin

lemma retry_careful: "logs careful_end (\<lambda>n. live_sends n \<le> 1) (retry_calls n (run req))"
proof (induction n)
  case (Suc n)
  show ?case unfolding retry_calls.simps
    by (rule logs_bnd [OF careful])
      (auto simp: careful_end_def wants_retry_def simp del: One_nat_def
        split: sum.splits intro!: logs_ret logs_mono [OF Suc])
qed (use careful in simp)

lemma retry_once:
  "\<exists>new. ch_log (snd (retry_calls n (run req) w)) = ch_log w @ new \<and> live_sends new \<le> 1 \<and>
     (\<forall>ref. fst (retry_calls n (run req) w) = Some (Inr ref) \<longrightarrow> live_sends new = 1)"
proof -
  have "wp (retry_calls n (run req)) (\<lambda>r w'. \<exists>new. ch_log w' = ch_log w @ new \<and> careful_end r new)
      (\<lambda>w'. \<exists>new. ch_log w' = ch_log w @ new \<and> live_sends new \<le> 1) w"
    using retry_careful [of n req] by (simp add: logs_def)
  then show ?thesis
    by (cases "retry_calls n (run req) w"; cases "fst (retry_calls n (run req) w)") (auto simp: wp_def careful_end_def)
qed

end

lemma call_ended_careful: "call_ended s good h d r n \<Longrightarrow> careful_end r n"
  by (cases r)
    (auto simp: call_ended_def careful_end_def wants_retry_def live_sends_def Let_def split: if_splits)

lemma waiting_live: "waiting s good n \<Longrightarrow> live_sends n \<le> 1"
  by (auto simp: waiting_def live_sends_def)

interpretation plain_payments: careful_sender "\<lambda>(fuel, k, s, req). submit fuel k s req"
  by unfold_locales
    (auto simp del: One_nat_def intro!: logs_mono [OF submit_logs] intro: call_ended_careful waiting_live split: prod.splits)

interpretation path_payments: careful_sender "\<lambda>(fuel, k, s, req, minDest). submitPathPayment fuel k s req minDest"
  by unfold_locales
    (auto simp del: One_nat_def intro!: logs_mono [OF submitPathPayment_logs] intro: call_ended_careful waiting_live split: prod.splits)

interpretation claimable_balances: careful_sender "\<lambda>(fuel, k, s, req, x). claim_submit fuel k s req x"
  by unfold_locales
    (auto simp del: One_nat_def intro!: logs_mono [OF claim_submit_logs] intro: call_ended_careful waiting_live split: prod.splits)

definition pays_at_most_once :: "('e chain, settlement_ref outcome) io \<Rightarrow> bool" where
  "pays_at_most_once m \<longleftrightarrow>
     (\<forall>w. \<exists>new. ch_log (snd (m w)) = ch_log w @ new \<and> live_sends new \<le> 1 \<and>
        (\<forall>ref. fst (m w) = Some (Inr ref) \<longrightarrow> live_sends new = 1))"

text \<open>
  C2: However often a settlement is retried on its retryable errors, at most one transaction that may
  land has been submitted, and exactly one when it succeeds: for plain payments, path payments and
  claimable balances, whatever Horizon answers and also when the process stops on the way.
\<close>

theorem retried_settlement_pays_once:
  "pays_at_most_once (retry_calls n (submit fuel k s req)) \<and>
   pays_at_most_once (retry_calls n (submitPathPayment fuel k s req minDest)) \<and>
   pays_at_most_once (retry_calls n (claim_submit fuel k cb req x))"
  unfolding pays_at_most_once_def
  using plain_payments.retry_once [of n "(fuel, k, s, req)"] path_payments.retry_once [of n "(fuel, k, s, req, minDest)"]
    claimable_balances.retry_once [of n "(fuel, k, cb, req, x)"]
  by simp

end
