(* ===== verification/Payouts.thy ===== *)
theory Payouts
  imports Settling Sample
begin

section \<open>What is paid, where and how much\<close>

text \<open>
  On top of \<open>Settling\<close>: which envelope a successful call has put on the ledger, that nothing is signed
  on a network the submitter may not use, that confirmation ends, the floors of path payments, the
  duplicate check, and that the reconcile check accepts what was submitted.
\<close>

subsection \<open>A sample submitter\<close>

text \<open>The outside world is a clock in milliseconds; sleeping advances it.\<close>

definition demo_sdk :: sdk where
  "demo_sdk =
     \<lparr>k_newAsset = (\<lambda>_ _. None), k_newMemo = (\<lambda>_. None), k_newOp = (\<lambda>_. None), k_build = (\<lambda>_. None), k_hash = (\<lambda>_. ''h''),
      k_hexOfBase64 = (\<lambda>m. m), k_rawKey = (\<lambda>_. []), k_sha256hex = (\<lambda>_. ''''), k_balanceIdFromResult = (\<lambda>_. None),
      k_public = ''P'', k_testnet = ''T''\<rparr>"

definition demo_horizon :: "int horizon" where
  "demo_horizon =
     \<lparr>hs_loadAccount = (\<lambda>_ e. (Inr (\<lparr>ar_id = None, ar_subentries = None, ar_sponsoring = None, ar_sponsored = None,
        ar_balances = None, ar_flags = None\<rparr>, 7), e)),
      hs_submitTransaction = (\<lambda>_ _ e. (Inr (), e)),
      hs_transaction = (\<lambda>_ e. (Inr \<lparr>tr_successful = True, tr_memo = None, tr_memo_type = None, tr_ledger = Some 3,
        tr_fee_charged = Some ''100'', tr_result_xdr = None\<rparr>, e)),
      hs_payments = None, hs_strictSendPaths = Some (\<lambda>_ _ _ e. (Inr [\<lparr>ph_destination_amount = ''10'', ph_path = []\<rparr>], e))\<rparr>"

definition pay_options :: "int submitter_options" where
  "pay_options =
     \<lparr>ro_signer = Some \<lparr>sn_publicKey = ''GA'', sn_local = True, sn_sign = (\<lambda>_ e. (Inr ''sig'', e))\<rparr>, ro_secret = None,
      ro_horizonUrl = ''u'', ro_horizonServer = Some demo_horizon, ro_inspector = None, ro_fee = None, ro_confirmTimeoutMs = None,
      ro_allowed = None, ro_allowLocal = None, ro_fetchRoot = None\<rparr>"

definition demo_platform :: "int platform" where
  "demo_platform =
     \<lparr>pl_fromSecret = (\<lambda>_. Inl ''invalid''), pl_connect = (\<lambda>_. demo_horizon), pl_fetchRoot = (\<lambda>_ e. (Inr None, e)),
      pl_now = (\<lambda>e. (e, e)), pl_sleep = (\<lambda>d e. e + d)\<rparr>"

definition pay_submitter :: "int stellar" where
  "pay_submitter = projr (new_submitter demo_platform pay_options)"

definition demo_claimable :: "int claimable" where
  "demo_claimable = projr (new_claimable demo_platform pay_options None)"

definition demo_chain :: "int chain" where
  "demo_chain = \<lparr>ch_env = 1000, ch_root = None, ch_log = []\<rparr>"

definition pay_request :: "network_t \<Rightarrow> string option \<Rightarrow> settlement_request" where
  "pay_request n recv =
     \<lparr>sr_to = ''GB'', sr_memo = Some ''m'', sr_memoType = None, sr_amount = \<lparr>m_asset = ''USDC'', m_amount = ''5''\<rparr>,
      sr_corridor = demo_corridor\<lparr>c_settlement := (c_settlement demo_corridor)\<lparr>network := n, receive_asset := recv\<rparr>\<rparr>,
      sr_validUntil = Some (Ms 9000)\<rparr>"

lemma list_ex_events:
  "list_ex (\<lambda>ev. case ev of ChSign env \<Rightarrow> P env | _ \<Rightarrow> False) l \<longleftrightarrow> (\<exists>env. ChSign env \<in> set l \<and> P env)"
  "list_ex (\<lambda>ev. case ev of ChSend env \<Rightarrow> P env | _ \<Rightarrow> False) l \<longleftrightarrow> (\<exists>env. ChSend env \<in> set l \<and> P env)"
  by (induction l) (auto split: chain_event.splits)

subsection \<open>What a successful call has paid\<close>

text \<open>
  C4: When \<open>submit\<close> answers with a reference, exactly one envelope has been signed and submitted: a
  plain payment of the amount of the request, in the bridge asset, to its destination, under its memo
  and on its network, not valid after the quote; Horizon has reported that transaction successful.
\<close>


theorem submit_pays_what_was_asked:
  assumes "submit fuel k s req w = (Some (Inr ref), w')"
  shows "\<exists>env a ans c. ch_log w' = ch_log w @ [ChLoad (sn_publicKey (sd_signer s)), ChSign env, ChSend env, ChAnswer ans] \<and>
    ans \<noteq> SendRejected \<and>
    bridgeAsset k (m_asset (sr_amount req)) (asset_issuer (c_settlement (sr_corridor req))) = Inr a \<and>
    ev_op env = PaymentOp (sr_to req) a (m_amount (sr_amount req)) \<and> built_for k s req env \<and>
    landed s (k_hash k env) c \<and> ref = StellarRef (k_hash k env) (cf_ledger c) (cf_feeCharged c) None"
proof -
  obtain new where new: "ch_log w' = ch_log w @ new"
    and e: "call_ended s (paid_by k s req (payment_operation k req)) id payment_ref (Inr ref) new"
    using submit_logs [of s k req fuel] assms by (auto simp: logs_def wp_def dest!: spec [of _ w])
  then show ?thesis
    by (auto simp: call_ended_def Let_def paid_by_def payment_operation_def payment_ref_def accepted_def
        split: sum.splits option.splits)
qed

lemma submit_pays_what_was_asked_witness:
  "\<exists>env w'. submit 1 demo_sdk pay_submitter (pay_request TestNet None) demo_chain =
       (Some (Inr (StellarRef ''h'' (Some 3) (Some ''100'') None)), w') \<and> ChSend env \<in> set (ch_log w') \<and>
     ev_op env = PaymentOp ''GB'' (Issued ''USDC'' ''G'') ''5''"
proof -
  let ?run = "submit 1 demo_sdk pay_submitter (pay_request TestNet None) demo_chain"
  have f: "fst ?run = Some (Inr (StellarRef ''h'' (Some 3) (Some ''100'') None))" by code_simp
  then have r: "?run = (Some (Inr (StellarRef ''h'' (Some 3) (Some ''100'') None)), snd ?run)" by (metis prod.collapse)
  have a: "bridgeAsset demo_sdk (m_asset (sr_amount (pay_request TestNet None)))
      (asset_issuer (c_settlement (sr_corridor (pay_request TestNet None)))) = Inr (Issued ''USDC'' ''G'')" by code_simp
  obtain env a' ans where "ch_log (snd ?run) = ch_log demo_chain @
      [ChLoad (sn_publicKey (sd_signer pay_submitter)), ChSign env, ChSend env, ChAnswer ans]"
    and "bridgeAsset demo_sdk (m_asset (sr_amount (pay_request TestNet None)))
      (asset_issuer (c_settlement (sr_corridor (pay_request TestNet None)))) = Inr a'"
    and "ev_op env = PaymentOp (sr_to (pay_request TestNet None)) a' (m_amount (sr_amount (pay_request TestNet None)))"
    using submit_pays_what_was_asked [OF r] by blast
  moreover have "sr_to (pay_request TestNet None) = ''GB''" "m_amount (sr_amount (pay_request TestNet None)) = ''5''"
    by (simp_all add: pay_request_def)
  ultimately have "ChSend env \<in> set (ch_log (snd ?run))" "ev_op env = PaymentOp ''GB'' (Issued ''USDC'' ''G'') ''5''"
    using a by simp_all
  then show ?thesis using r by blast
qed

subsection \<open>Only where it may\<close>

definition guard_ok :: "sdk \<Rightarrow> 'e stellar \<Rightarrow> network_t \<Rightarrow> 'e chain \<Rightarrow> bool" where
  "guard_ok k s n w \<longleftrightarrow>
     n \<in> set (ss_allowed s) \<and> (n = PublicNet \<and> sn_local (sd_signer s) \<longrightarrow> ss_allowLocal s) \<and>
     (ss_rootFetcher s \<noteq> None \<longrightarrow> ch_root w = Some (passphraseFor k n))"

lemma guardNetwork_ok:
  "wp (guardNetwork k s n) (\<lambda>r w'. ch_log w' = ch_log w \<and> (isOk r \<longrightarrow> guard_ok k s n w')) (\<lambda>w'. ch_log w' = ch_log w) w"
  by (auto simp: guardNetwork_def check_root_def guard_ok_def wp_rules Let_def split: option.splits prod.splits sum.splits)

lemma preflight_ok:
  "wp (preflight k s req)
     (\<lambda>r w'. ch_log w' = ch_log w \<and> (isOk r \<longrightarrow> guard_ok k s (network (c_settlement (sr_corridor req))) w'))
     (\<lambda>w'. ch_log w' = ch_log w) w"
  unfolding preflight_def wp_check
  by (rule wp_mono [OF guardNetwork_ok]) (auto simp: wp_rules guard_ok_def split: sum.splits prod.splits)

text \<open>After the guard, sending leaves its finding as it is.\<close>

lemma keeps_on_chain [intro!]: "(\<And>w e. P w \<Longrightarrow> P (w\<lparr>ch_env := e\<rparr>)) \<Longrightarrow> keeps P (on_chain p)"
  by (auto simp: keeps_def wp_rules split: prod.splits)

lemma keeps_ch_emit [intro!]: "(\<And>w. P w \<Longrightarrow> P (w\<lparr>ch_log := ch_log w @ [ev]\<rparr>)) \<Longrightarrow> keeps P (ch_emit ev)"
  by (auto simp: keeps_def ch_emit_def wp_rules)

lemma keeps_ch_sleep [intro!]: "(\<And>w e. P w \<Longrightarrow> P (w\<lparr>ch_env := e\<rparr>)) \<Longrightarrow> keeps P (ch_sleep sl d)"
  by (auto simp: keeps_def ch_sleep_def wp_rules)

lemma keeps_cases [intro!]:
  "(\<And>a. keeps P (f a)) \<Longrightarrow> (\<And>b. keeps P (g b)) \<Longrightarrow> keeps P (case_sum f g x)"
  "(\<And>e. keeps P (f1 e)) \<Longrightarrow> (\<And>y e. keeps P (f2 y e)) \<Longrightarrow> (\<And>y. keeps P (f3 y)) \<Longrightarrow> keeps P (case_attempt f1 f2 f3 z)"
  "(\<And>a b. keeps P (h a b)) \<Longrightarrow> keeps P (case_prod h y)"
  "keeps P m \<Longrightarrow> keeps P m' \<Longrightarrow> keeps P (if c then m else m')"
  by (cases x; cases z; cases y; simp)+

abbreviation root_is :: "string option \<Rightarrow> 'e chain \<Rightarrow> bool" where
  "root_is p \<equiv> \<lambda>w. ch_root w = p"

lemma confirm_keeps: "keeps (root_is p) (confirmTransaction fuel s h)"
proof -
  have "keeps (root_is p) (confirm_loop fuel s h d)" for d
    by (induction fuel) (auto intro!: keeps_bnd)
  then show ?thesis by (auto simp: confirmTransaction_def)
qed

lemma send_keeps: "keeps (root_is p) (send fuel k s req operation)"
  unfolding send_def send_attempt_def load_source_def sign_and_submit_def conclude_def
  by (auto intro!: keeps_bnd keeps_check confirm_keeps)


text \<open>Everything signed after the guard finds what the guard found.\<close>

definition signs_guarded :: "sdk \<Rightarrow> 'e stellar \<Rightarrow> network_t \<Rightarrow> 'e chain \<Rightarrow> 'e chain \<Rightarrow> bool" where
  "signs_guarded k s n w w' \<longleftrightarrow>
     (\<exists>new. ch_log w' = ch_log w @ new \<and> ((\<exists>env. ChSign env \<in> set new) \<longrightarrow> guard_ok k s n w'))"

lemma signs_after_preflight:
  assumes rest: "\<And>v p. keeps (root_is p) (rest v)" "\<And>v. logs (\<lambda>_ _. True) (\<lambda>_. True) (rest v)"
  shows "wp (check (preflight k s req) (\<lambda>e. ret (Inl e)) rest)
     (\<lambda>_. signs_guarded k s (network (c_settlement (sr_corridor req))) w)
     (signs_guarded k s (network (c_settlement (sr_corridor req))) w) w"
  unfolding wp_check
proof (rule wp_mono [OF preflight_ok])
  let ?n = "network (c_settlement (sr_corridor req))" and ?G = "signs_guarded k s (network (c_settlement (sr_corridor req))) w"
  fix r :: "unit outcome" and w1 :: "'a chain"
  assume p: "ch_log w1 = ch_log w \<and> (isOk r \<longrightarrow> guard_ok k s ?n w1)"
  show "(case r of Inl e \<Rightarrow> wp (ret (Inl e)) (\<lambda>_. ?G) ?G | Inr v \<Rightarrow> wp (rest v) (\<lambda>_. ?G) ?G) w1"
  proof (cases r)
    case (Inr v)
    have "wp (rest v) (\<lambda>_ w'. (\<exists>new. ch_log w' = ch_log w1 @ new) \<and> ch_root w' = ch_root w1)
        (\<lambda>w'. (\<exists>new. ch_log w' = ch_log w1 @ new) \<and> ch_root w' = ch_root w1) w1"
      using wp_conj rest(2) [of v] rest(1) [of "ch_root w1" v] by (fastforce simp: logs_def keeps_def)
    then have "wp (rest v) (\<lambda>_. ?G) ?G w1"
      by (rule wp_mono) (use p Inr in \<open>auto simp: signs_guarded_def guard_ok_def\<close>)
    then show ?thesis using Inr by simp
  qed (use p in \<open>simp add: wp_rules signs_guarded_def\<close>)
qed (simp add: signs_guarded_def)

lemma logs_anything: "logs Q E m \<Longrightarrow> logs (\<lambda>_ _. True) (\<lambda>_. True) m"
  by (erule logs_mono) simp_all

lemma best_path_keeps: "keeps (root_is p) (bestStrictSendPath k s src amount to')"
  unfolding bestStrictSendPath_def by (cases "hs_strictSendPaths (sd_horizon s)") (auto intro!: keeps_check)

lemma best_path_logs_any: "logs (\<lambda>_ _. True) (\<lambda>_. True) (bestStrictSendPath k s src amount to')"
  using best_path_logs by (rule logs_anything)

lemma logs_any_check:
  "logs (\<lambda>_ _. True) (\<lambda>_. True) m \<Longrightarrow> (\<And>e. logs (\<lambda>_ _. True) (\<lambda>_. True) (h e)) \<Longrightarrow>
   (\<And>v. logs (\<lambda>_ _. True) (\<lambda>_. True) (f v)) \<Longrightarrow> logs (\<lambda>_ _. True) (\<lambda>_. True) (check m h f)"
  by (rule logs_check) auto

lemma submit_guarded:
  "wp (submit fuel k s req) (\<lambda>_. signs_guarded k s (network (c_settlement (sr_corridor req))) w)
     (signs_guarded k s (network (c_settlement (sr_corridor req))) w) w"
  unfolding submit_def
  by (rule signs_after_preflight) (auto intro: send_keeps logs_ret logs_anything [OF send_logs])

lemma path_guarded:
  "wp (submitPathPayment fuel k s req minDest) (\<lambda>_. signs_guarded k s (network (c_settlement (sr_corridor req))) w)
     (signs_guarded k s (network (c_settlement (sr_corridor req))) w) w"
  unfolding submitPathPayment_def
  by (rule signs_after_preflight)
    (auto split: sum.splits prod.splits
      intro!: keeps_check best_path_keeps send_keeps logs_any_check best_path_logs_any logs_ret logs_anything [OF send_logs])

text \<open>
  C5: \<open>submit\<close> and \<open>submitPathPayment\<close> sign nothing unless the corridor's network is allowed, a seed in
  the process is permitted there, and the endpoint, when its root can be read, has declared the
  network's own passphrase.
\<close>

theorem signs_only_where_allowed:
  assumes "w' = snd (submit fuel k s req w) \<or> w' = snd (submitPathPayment fuel k s req minDest w)"
    and "n = network (c_settlement (sr_corridor req))"
  shows "\<exists>new. ch_log w' = ch_log w @ new \<and>
    ((\<exists>env. ChSign env \<in> set new) \<longrightarrow>
       n \<in> set (ss_allowed s) \<and> (n = PublicNet \<and> sn_local (sd_signer s) \<longrightarrow> ss_allowLocal s) \<and>
       (ss_rootFetcher s \<noteq> None \<longrightarrow> ch_root w' = Some (passphraseFor k n)))"
proof -
  have *: "signs_guarded k s n w (snd (m w))" if "wp m (\<lambda>_. signs_guarded k s n w) (signs_guarded k s n w) w"
    for m :: "('a chain, settlement_ref outcome) io"
    using that by (cases "m w"; cases "fst (m w)") (auto simp: wp_def)
  show ?thesis
    using * [OF submit_guarded [where k = k and s = s and req = req and w = w and fuel = fuel, folded assms(2)]] * [OF path_guarded [where k = k and s = s and req = req and w = w and fuel = fuel and minDest = minDest, folded assms(2)]]
      assms(1)
    by (auto simp: signs_guarded_def guard_ok_def)
qed

lemma signs_only_where_allowed_witness:
  "\<exists>env. ChSign env \<in> set (ch_log (snd (submit 1 demo_sdk pay_submitter (pay_request TestNet None) demo_chain))) \<and>
     TestNet \<in> set (ss_allowed pay_submitter)"
proof -
  let ?w = "snd (submit 1 demo_sdk pay_submitter (pay_request TestNet None) demo_chain)"
  have "network (c_settlement (sr_corridor (pay_request TestNet None))) = TestNet" by (simp add: pay_request_def)
  then obtain new where "ch_log ?w = ch_log demo_chain @ new"
    and ok: "(\<exists>env. ChSign env \<in> set new) \<longrightarrow> TestNet \<in> set (ss_allowed pay_submitter)"
    using signs_only_where_allowed [of ?w 1 demo_sdk pay_submitter "pay_request TestNet None" demo_chain None TestNet] by auto
  moreover have "list_ex (\<lambda>ev. case ev of ChSign env \<Rightarrow> True | _ \<Rightarrow> False) (ch_log ?w)" by code_simp
  moreover have "ch_log demo_chain = []" by (simp add: demo_chain_def)
  ultimately show ?thesis by (auto simp: list_ex_events)
qed

text \<open>
  The claimable-balance strategy takes the same options and does not check them: built with the
  default options, testnet only and no local signer on the public network, it signs and submits a
  transaction of the public network, which the submitter built with them refuses.
\<close>

theorem claimable_balances_are_not_guarded:
  "fst (submit 1 demo_sdk pay_submitter (pay_request PublicNet None) demo_chain) =
     Some (fail SETTLEMENT_FAILED (msg_not_allowed PublicNet [TestNet])) \<and>
   ch_log (snd (submit 1 demo_sdk pay_submitter (pay_request PublicNet None) demo_chain)) = [] \<and>
   (\<exists>env. ChSend env \<in> set (ch_log (snd (claim_submit 1 demo_sdk demo_claimable (pay_request PublicNet None)
        \<lparr>ce_claimant = Some ''GB'', ce_predicateSeconds = None, ce_predicate = None\<rparr> demo_chain))) \<and>
     ev_passphrase env = k_public demo_sdk)"
proof (intro conjI)
  show "fst (submit 1 demo_sdk pay_submitter (pay_request PublicNet None) demo_chain) =
     Some (fail SETTLEMENT_FAILED (msg_not_allowed PublicNet [TestNet]))" by code_simp
  show "ch_log (snd (submit 1 demo_sdk pay_submitter (pay_request PublicNet None) demo_chain)) = []" by code_simp
  have "list_ex (\<lambda>ev. case ev of ChSend env \<Rightarrow> ev_passphrase env = k_public demo_sdk | _ \<Rightarrow> False)
     (ch_log (snd (claim_submit 1 demo_sdk demo_claimable (pay_request PublicNet None)
        \<lparr>ce_claimant = Some ''GB'', ce_predicateSeconds = None, ce_predicate = None\<rparr> demo_chain)))" by code_simp
  then show "\<exists>env. ChSend env \<in> set (ch_log (snd (claim_submit 1 demo_sdk demo_claimable (pay_request PublicNet None)
        \<lparr>ce_claimant = Some ''GB'', ce_predicateSeconds = None, ce_predicate = None\<rparr> demo_chain))) \<and>
     ev_passphrase env = k_public demo_sdk"
    by (simp only: list_ex_events)
qed


subsection \<open>Confirmation ends\<close>

text \<open>Reading the clock or Horizon does not turn the clock back and sleeping takes the time asked for.\<close>

definition clock_runs :: "('e \<Rightarrow> int) \<Rightarrow> ('e, 'z) sender_scheme \<Rightarrow> bool" where
  "clock_runs clk s \<longleftrightarrow>
     (\<forall>e. fst (sd_now s e) = clk e \<and> clk e \<le> clk (snd (sd_now s e))) \<and>
     (\<forall>h e. clk e \<le> clk (snd (hs_transaction (sd_horizon s) h e))) \<and>
     (\<forall>d e. clk e + d \<le> clk (sd_sleep s d e))"

lemma clock_steps:
  assumes "clock_runs clk s"
  shows "sd_now s e = (t, e') \<Longrightarrow> t = clk e \<and> clk e \<le> clk e'"
    and "hs_transaction (sd_horizon s) h e = (a, e') \<Longrightarrow> clk e \<le> clk e'"
    and "clk e + d \<le> clk (sd_sleep s d e)"
  using assms unfolding clock_runs_def by (metis fst_conv snd_conv)+

lemma confirm_loop_returns:
  assumes "clock_runs clk s" and "d \<le> clk (ch_env w) + 1000 * int f"
  shows "fst (confirm_loop (Suc f) s h d w) \<noteq> None"
  using assms(2)
proof (induction f arbitrary: w)
  case (0 w)
  then show ?case
    by (auto simp: bnd_def on_chain_def ret_def split: prod.splits sum.splits dest!: clock_steps(1,2) [OF assms(1)])
next
  case (Suc f w)
  obtain a e1 where q: "hs_transaction (sd_horizon s) h (ch_env w) = (a, e1)" by fastforce
  obtain t e2 where n: "sd_now s e1 = (t, e2)" by fastforce
  have "d \<le> clk (sd_sleep s 1000 e2) + 1000 * int f"
    using Suc.prems clock_steps(2) [OF assms(1) q] clock_steps(1) [OF assms(1) n] clock_steps(3) [OF assms(1), of e2 1000] by simp
  then show ?case using Suc.IH [of "w\<lparr>ch_env := sd_sleep s 1000 e2\<rparr>"] q n
    by (subst confirm_loop.simps) (auto simp: bnd_def on_chain_def ret_def ch_sleep_def modify_io_def split: sum.splits)
qed

lemma confirm_returns:
  assumes "clock_runs clk s" and "sd_confirmTimeoutMs s \<le> 1000 * int f"
  shows "returns (confirmTransaction (Suc f) s h)"
  unfolding returns_def
proof
  fix w :: "'a chain"
  obtain t e where n: "sd_now s (ch_env w) = (t, e)" by fastforce
  have "fst (confirm_loop (Suc f) s h (t + sd_confirmTimeoutMs s) (w\<lparr>ch_env := e\<rparr>)) \<noteq> None"
    by (rule confirm_loop_returns [OF assms(1)]) (use clock_steps(1) [OF assms(1) n] assms(2) in simp)
  then show "\<exists>r w'. confirmTransaction (Suc f) s h w = (Some r, w')"
    using n by (cases "confirm_loop (Suc f) s h (t + sd_confirmTimeoutMs s) (w\<lparr>ch_env := e\<rparr>)")
      (auto simp: confirmTransaction_def bnd_def on_chain_def)
qed

lemma returns_on_chain [returns_rules]: "returns (on_chain p)"
  by (simp add: returns_def on_chain_def split: prod.splits)

lemma returns_ch_emit [returns_rules]: "returns (ch_emit ev)"
  by (simp add: ch_emit_def returns_rules)

lemma returns_cases:
  "(\<And>a. returns (f a)) \<Longrightarrow> (\<And>b. returns (g b)) \<Longrightarrow> returns (case_sum f g x)"
  "returns m \<Longrightarrow> (\<And>b. returns (g' b)) \<Longrightarrow> returns (case_option m g' o')"
  "(\<And>e. returns (f1 e)) \<Longrightarrow> (\<And>y e. returns (f2 y e)) \<Longrightarrow> (\<And>y. returns (f3 y)) \<Longrightarrow> returns (case_attempt f1 f2 f3 z)"
  "(\<And>a b. returns (h a b)) \<Longrightarrow> returns (case_prod h y)"
  "returns m' \<Longrightarrow> returns m'' \<Longrightarrow> returns (if c then m' else m'')"
  by (cases x; cases o'; cases z; cases y; simp)+

lemma send_returns:
  assumes "\<And>h. returns (confirmTransaction fuel s h)"
  shows "returns (send fuel k s req operation)"
  unfolding send_def send_attempt_def load_source_def sign_and_submit_def conclude_def
  by (intro returns_rules returns_cases assms)

lemma preflight_returns: "returns (preflight k s req)"
  unfolding preflight_def guardNetwork_def check_root_def Let_def
  by (intro returns_rules returns_cases)

text \<open>
  C7: A settlement call always answers: with one poll of the confirmation per second of its timeout,
  and one more, \<open>submit\<close> and \<open>submitPathPayment\<close> return, whatever Horizon answers and however often a
  lookup fails, once the clock runs.
\<close>

theorem settlement_call_answers:
  assumes "clock_runs clk s" and "sd_confirmTimeoutMs s \<le> 1000 * int f"
  shows "(\<exists>r. fst (submit (Suc f) k s req w) = Some r) \<and> (\<exists>r. fst (submitPathPayment (Suc f) k s req minDest w) = Some r)"
proof -
  note confirms = confirm_returns [OF assms]
  have "returns (submit (Suc f) k s req)" unfolding submit_def
    by (intro returns_rules returns_cases preflight_returns send_returns confirms)
  moreover have "returns (submitPathPayment (Suc f) k s req minDest)" unfolding submitPathPayment_def bestStrictSendPath_def
    by (intro returns_rules returns_cases preflight_returns send_returns confirms)
  ultimately show ?thesis by (metis fst_conv returnsD)
qed

lemma settlement_call_answers_witness:
  "clock_runs (\<lambda>e. e) pay_submitter \<and> (\<exists>r. fst (submit 31 demo_sdk pay_submitter (pay_request TestNet None) demo_chain) = Some r)"
proof -
  have c: "clock_runs (\<lambda>e. e) pay_submitter"
  proof -
    have "isOk (toScaled default_fee STROOP_SCALE)" by code_simp
    then show ?thesis
      by (simp add: clock_runs_def pay_submitter_def new_submitter_def new_sender_def pay_options_def demo_platform_def
          demo_horizon_def or_else_def sender.defs)
  qed
  have t: "sd_confirmTimeoutMs pay_submitter \<le> 1000 * int 30" by code_simp
  show ?thesis using settlement_call_answers [OF c t] c by (metis Suc_numeral eval_nat_numeral(3) semiring_norm(28))
qed

subsection \<open>Path payments\<close>

lemma applySlippage_ceiling:
  assumes "toScaled expected STROOP_SCALE = Inr v" and "0 < v" and "0 \<le> bps" and "bps < 10000"
  shows "\<exists>m x. applySlippage expected bps = Inr m \<and> toScaled m STROOP_SCALE = Inr x \<and>
    v * (10000 - bps) \<le> x * 10000 \<and> (x - 1) * 10000 < v * (10000 - bps) \<and> 0 < x \<and> x \<le> v"
proof -
  define n where "n = v * (10000 - bps)"
  define x where "x = (n + 9999) div 10000"
  have n: "0 < n" using assms by (simp add: n_def)
  have le: "n \<le> v * 10000" using mult_left_mono [of "10000 - bps" 10000 v] assms by (simp add: n_def)
  have up: "n \<le> x * 10000" and low: "(x - 1) * 10000 < n" by (simp_all add: x_def)
  have pos: "0 < x" using up n by linarith
  have "(x - 1) * 10000 < v * 10000" using low le by (rule less_le_trans)
  then have most: "x \<le> v" by simp
  have "trunc_div (n + 9999) 10000 = x" using n by (simp add: trunc_div_pos x_def)
  then have "applySlippage expected bps = Inr (fromScaled x STROOP_SCALE)"
    using assms by (simp add: applySlippage_def flip: n_def)
  then show ?thesis using up low pos most by (simp add: toScaled_fromScaled n_def)
qed

text \<open>
  C8: \<open>applySlippage\<close> answers the least amount, in stroops, that keeps at least \<open>1 - bps/10000\<close> of what
  is expected: never less, by less than one stroop more, and never more than what is expected.
\<close>

theorem applySlippage_is_tight:
  assumes "toScaled expected STROOP_SCALE = Inr v" and "0 < v" and "0 \<le> bps" and "bps < 10000"
  shows "\<exists>m x. applySlippage expected bps = Inr m \<and> toScaled m STROOP_SCALE = Inr x \<and>
    v * (10000 - bps) \<le> x * 10000 \<and> (\<forall>y. v * (10000 - bps) \<le> y * 10000 \<longrightarrow> x \<le> y) \<and> 0 < x \<and> x \<le> v"
  using applySlippage_ceiling [OF assms] by force

lemma applySlippage_is_tight_witness:
  "\<exists>m x. applySlippage ''1'' 50 = Inr m \<and> toScaled m STROOP_SCALE = Inr x \<and> 9950000 \<le> x \<and> x \<le> 10000000"
proof -
  have v: "toScaled ''1'' STROOP_SCALE = Inr 10000000" by code_simp
  show ?thesis using applySlippage_is_tight [OF v, of 50] by auto
qed


text \<open>The record chosen is one of those Horizon answered, and none delivers more.\<close>

lemma best_record_max:
  assumes "best_record rs best = Some (r, v)" and "\<forall>q b. best = Some (q, b) \<longrightarrow> 0 < b \<and> toScaled (ph_destination_amount q) STROOP_SCALE = Inr b"
  shows "0 < v \<and> toScaled (ph_destination_amount r) STROOP_SCALE = Inr v \<and>
    (\<forall>q b. best = Some (q, b) \<longrightarrow> b \<le> v) \<and>
    (\<forall>q \<in> set rs. \<forall>x. toScaled (ph_destination_amount q) STROOP_SCALE = Inr x \<longrightarrow> x \<le> v) \<and>
    (r \<in> set rs \<or> best = Some (r, v))"
  using assms
proof (induction rs arbitrary: best)
  case (Cons p rs)
  let ?next = "case toScaled (ph_destination_amount p) STROOP_SCALE of Inl _ \<Rightarrow> best
        | Inr v \<Rightarrow> if v \<le> 0 then best
            else (case best of None \<Rightarrow> Some (p, v) | Some (_, b) \<Rightarrow> if v > b then Some (p, v) else best)"
  have "\<forall>q b. ?next = Some (q, b) \<longrightarrow> 0 < b \<and> toScaled (ph_destination_amount q) STROOP_SCALE = Inr b"
    using Cons.prems(2) by (auto split: sum.splits option.splits if_splits)
  note ih = Cons.IH [OF _ this]
  have "best_record rs ?next = Some (r, v)" using Cons.prems(1) by simp
  note ih = ih [OF this]
  show ?case using ih Cons.prems(2)
    by (cases "toScaled (ph_destination_amount p) STROOP_SCALE"; cases best)
      (auto split: if_splits)
qed simp

lemma best_route_max:
  assumes "best_route k src amount to' records = Inr (best, path)"
  shows "\<exists>v. toScaled best STROOP_SCALE = Inr v \<and> 0 < v \<and>
    (\<forall>q \<in> set records. \<forall>x. toScaled (ph_destination_amount q) STROOP_SCALE = Inr x \<longrightarrow> x \<le> v) \<and>
    (\<exists>r \<in> set records. toScaled (ph_destination_amount r) STROOP_SCALE = Inr v \<and> path_assets k (ph_path r) = Inr path)"
proof (cases "best_record records None")
  case (Some p)
  obtain r v where "best_record records None = Some (r, v)" using Some by (cases p) simp
  then show ?thesis using assms best_record_max [of records None r v]
    by (auto simp: best_route_def fail_full_def toScaled_fromScaled split: sum.splits)
qed (use assms in \<open>simp add: best_route_def fail_full_def\<close>)

lemma dest_min_floor:
  assumes "dest_min req minDest to' best = Inr m" and "toScaled best STROOP_SCALE = Inr v"
    and "bps = or_else DEFAULT_MAX_SLIPPAGE_BPS (max_slippage_bps (c_settlement (sr_corridor req)))"
  shows "\<exists>x. toScaled m STROOP_SCALE = Inr x \<and> 0 < v \<and> 0 \<le> bps \<and> bps < 10000 \<and> v * (10000 - bps) \<le> x * 10000 \<and>
    (\<forall>r. minDest = Some r \<longrightarrow> (\<exists>y. toScaled r STROOP_SCALE = Inr y \<and> y \<le> x))"
proof -
  have s: "applySlippage best bps = Inr m"
    and c: "\<forall>r. minDest = Some r \<longrightarrow> (\<exists>c. compareAmounts m r STROOP_SCALE = Inr c \<and> 0 \<le> c)"
    using assms by (auto simp: dest_min_def Let_def fail_full_def split: sum.splits option.splits if_splits)
  have b: "0 < v" "0 \<le> bps" "bps < 10000" using s assms(2) by (auto simp: applySlippage_def fail_full_def split: if_splits)
  obtain x where x: "toScaled m STROOP_SCALE = Inr x" "v * (10000 - bps) \<le> x * 10000"
    using applySlippage_ceiling [OF assms(2) b] s by auto
  have "\<exists>y. toScaled r STROOP_SCALE = Inr y \<and> y \<le> x" if r: "minDest = Some r" for r
  proof -
    obtain c where "compareAmounts m r STROOP_SCALE = Inr c" "0 \<le> c" using c r by blast
    then show ?thesis using x(1) by (auto elim!: compareAmounts_cases split: if_splits)
  qed
  then show ?thesis using x b by blast
qed

text \<open>
  C11: Every path payment submitted sends exactly the amount of the request to its destination, over a
  path Horizon offered for it, and its floor keeps, against every amount Horizon offered, what the
  corridor's slippage allows, and at least what the anchor requires.
\<close>

theorem path_payment_floor:
  assumes "ch_log (snd (submitPathPayment fuel k s req minDest w)) = ch_log w @ new" and "ChSend env \<in> set new"
    and "bps = or_else DEFAULT_MAX_SLIPPAGE_BPS (max_slippage_bps (c_settlement (sr_corridor req)))"
  shows "\<exists>src to' m path x paths e records. ev_op env = PathOp src (m_amount (sr_amount req)) (sr_to req) to' m path \<and>
    hs_strictSendPaths (sd_horizon s) = Some paths \<and> fst (paths src (m_amount (sr_amount req)) [to'] e) = Inr records \<and>
    (\<exists>q \<in> set records. path_assets k (ph_path q) = Inr path) \<and> toScaled m STROOP_SCALE = Inr x \<and>
    (\<forall>q \<in> set records. \<forall>v. toScaled (ph_destination_amount q) STROOP_SCALE = Inr v \<longrightarrow> v * (10000 - bps) \<le> x * 10000) \<and>
    (\<forall>r. minDest = Some r \<longrightarrow> (\<exists>y. toScaled r STROOP_SCALE = Inr y \<and> y \<le> x))"
proof -
  obtain h where "path_by k s req minDest env h"
    using submitPathPayment_logs [of s k req minDest fuel] assms(1,2)
    by (cases "submitPathPayment fuel k s req minDest w"; cases "fst (submitPathPayment fuel k s req minDest w)")
      (auto simp: logs_def wp_def call_ended_def waiting_def Let_def dest!: spec [of _ w])
  then obtain src to' best path m where m: "dest_min req minDest to' best = Inr m"
    and r: "routed k s src (m_amount (sr_amount req)) to' best path"
    and op: "ev_op env = PathOp src (m_amount (sr_amount req)) (sr_to req) to' m path"
    unfolding path_by_def by blast
  obtain paths e records where paths: "hs_strictSendPaths (sd_horizon s) = Some paths"
    "fst (paths src (m_amount (sr_amount req)) [to'] e) = Inr records"
    and best: "best_route k src (m_amount (sr_amount req)) to' records = Inr (best, path)"
    using r unfolding routed_def by blast
  obtain v where v: "toScaled best STROOP_SCALE = Inr v"
    and most: "\<forall>q \<in> set records. \<forall>x. toScaled (ph_destination_amount q) STROOP_SCALE = Inr x \<longrightarrow> x \<le> v"
    and offered: "\<exists>q \<in> set records. path_assets k (ph_path q) = Inr path"
    using best_route_max [OF best] by blast
  obtain x where x: "toScaled m STROOP_SCALE = Inr x" "bps < 10000" "v * (10000 - bps) \<le> x * 10000"
    "\<forall>r. minDest = Some r \<longrightarrow> (\<exists>y. toScaled r STROOP_SCALE = Inr y \<and> y \<le> x)"
    using dest_min_floor [OF m v assms(3)] by blast
  have "u * (10000 - bps) \<le> x * 10000" if "u \<le> v" for u
    using that x(2,3) mult_right_mono [of u v "10000 - bps"] by linarith
  then show ?thesis using op paths x most offered by blast
qed

lemma path_payment_floor_witness:
  "\<exists>env src to' m path. ChSend env \<in>
       set (ch_log (snd (submitPathPayment 1 demo_sdk pay_submitter (pay_request TestNet (Some ''EURC'')) (Some ''9'') demo_chain))) \<and>
     ev_op env = PathOp src ''5'' ''GB'' to' m path"
proof -
  let ?req = "pay_request TestNet (Some ''EURC'')"
  let ?run = "submitPathPayment 1 demo_sdk pay_submitter ?req (Some ''9'') demo_chain"
  have l: "ch_log (snd ?run) = ch_log demo_chain @ ch_log (snd ?run)" by (simp add: demo_chain_def)
  have "list_ex (\<lambda>ev. case ev of ChSend env \<Rightarrow> True | _ \<Rightarrow> False) (ch_log (snd ?run))" by code_simp
  then obtain env where env: "ChSend env \<in> set (ch_log (snd ?run))" by (auto simp: list_ex_events)
  have "\<exists>src to' m path. ev_op env = PathOp src (m_amount (sr_amount ?req)) (sr_to ?req) to' m path"
    using path_payment_floor [OF l env refl] by blast
  then show ?thesis using env by (auto simp: pay_request_def)
qed


subsection \<open>The duplicate check\<close>

text \<open>A payment that is the one of the request: same value, the bridge asset, and its memo by type.\<close>

definition same_memo :: "sdk \<Rightarrow> settlement_request \<Rightarrow> payment_fact \<Rightarrow> bool" where
  "same_memo k req p \<longleftrightarrow>
     (case sr_memo req of
        Some (c # cs) \<Rightarrow>
          (case sr_memoType req of
             Some MemoHash \<Rightarrow> pf_memoType p = ''hash'' \<and>
               normalizeHashMemo k (c # cs) = (case pf_memo p of Some (x # xs) \<Rightarrow> normalizeHashMemo k (x # xs) | _ \<Rightarrow> '''')
           | Some MemoId \<Rightarrow> pf_memoType p = ''id'' \<and> pf_memo p = Some (c # cs)
           | _ \<Rightarrow> pf_memoType p = ''text'' \<and> pf_memo p = Some (c # cs))
      | _ \<Rightarrow> pf_memo p \<in> {None, Some ''''} \<or> pf_memoType p = ''none'')"

definition pays_request :: "sdk \<Rightarrow> settlement_request \<Rightarrow> payment_fact \<Rightarrow> bool" where
  "pays_request k req p \<longleftrightarrow>
     pays_amount (m_amount (sr_amount req)) (Some (pf_amount p)) \<and> asset_found (c_settlement (sr_corridor req)) p \<and> same_memo k req p"

lemma same_memo_found: "memo_found k req p \<longleftrightarrow> same_memo k req p"
  by (auto simp: memo_found_def same_memo_def truthy_def split: option.splits list.splits memo_type.splits)

lemma amount_equal_sym: "amount_equal a b \<longleftrightarrow> amount_equal b a"
  by (auto simp: amount_equal_def compareAmounts_def split: sum.splits)

lemma already_paid_iff: "already_paid k req p \<longleftrightarrow> pays_request k req p"
  using amount_equal_pays [of "m_amount (sr_amount req)" "Some (pf_amount p)"]
  by (auto simp: already_paid_def pays_request_def same_memo_found amount_equal_sym or_else_def)

lemma findExisting_run:
  assumes "serves_history (ss_inspector s) (sn_publicKey (sd_signer s)) h" and "\<forall>r \<in> set h. toPaymentFact r \<noteq> None"
    and "0 < in_maxPages (ss_inspector s)"
  shows "\<exists>found. fst (findExisting k s req w) = Some (Inr found) \<and>
    (\<forall>ref. found = Some ref \<longrightarrow> (\<exists>r \<in> set h. \<exists>p. toPaymentFact r = Some p \<and> already_paid k req p \<and>
       pf_from p = sn_publicKey (sd_signer s) \<and> (pf_to p = sr_to req \<or> pf_toMuxed p = Some (sr_to req)) \<and>
       ref = StellarRef (pf_hash p) (Some (pf_ledger p)) None None)) \<and>
    (found = None \<and> length h < in_maxPages (ss_inspector s) * in_pageSize (ss_inspector s) \<longrightarrow>
       (\<forall>r \<in> set h. \<forall>p. toPaymentFact r = Some p \<and> pf_type p \<in> set PAYMENT_TYPES \<and> pf_from p = sn_publicKey (sd_signer s) \<and>
          pf_to p = sr_to req \<longrightarrow> \<not> already_paid k req p))"
proof -
  let ?o = "\<lparr>po_to = Some (sr_to req), po_sinceLedger = None\<rparr>" and ?pk = "sn_publicKey (sd_signer s)"
  have facts: "recent_facts ?o l = map (the \<circ> toPaymentFact) l" for l
    by (simp add: recent_facts_def too_old_def takeWhile_eq_all_conv)
  obtain res where run: "fst (paymentsFrom (ss_inspector s) ?pk ?o (ch_env w)) = Some (Inr res)"
    and all: "\<not> pr_truncated res \<longrightarrow> pr_payments res = filter (wanted ?o ?pk) (map (the \<circ> toPaymentFact) h)"
    and cut: "pr_truncated res \<longrightarrow> in_maxPages (ss_inspector s) * in_pageSize (ss_inspector s) \<le> length h \<and>
       pr_payments res = filter (wanted ?o ?pk) (map (the \<circ> toPaymentFact)
         (List.take (in_maxPages (ss_inspector s) * in_pageSize (ss_inspector s)) h))"
    using paymentsFrom_complete_run [OF assms, of ?o "ch_env w"] unfolding facts by blast
  have sub: "set (pr_payments res) \<subseteq> {p. wanted ?o ?pk p \<and> (\<exists>r \<in> set h. toPaymentFact r = Some p)}"
    using all cut assms(2) by (cases "pr_truncated res") (force dest: in_set_takeD)+
  let ?found = "map_option (\<lambda>p. StellarRef (pf_hash p) (Some (pf_ledger p)) None None) (find (already_paid k req) (pr_payments res))"
  have a: "fst (findExisting k s req w) = Some (Inr ?found)"
    using run by (cases "paymentsFrom (ss_inspector s) ?pk ?o (ch_env w)")
      (simp add: findExisting_def check_def bnd_def in_chain_def ret_def)
  have b: "\<exists>r \<in> set h. \<exists>p. toPaymentFact r = Some p \<and> already_paid k req p \<and> pf_from p = ?pk \<and>
      (pf_to p = sr_to req \<or> pf_toMuxed p = Some (sr_to req)) \<and> ref = StellarRef (pf_hash p) (Some (pf_ledger p)) None None"
    if ref: "?found = Some ref" for ref
  proof -
    obtain p where p: "find (already_paid k req) (pr_payments res) = Some p"
      and r: "ref = StellarRef (pf_hash p) (Some (pf_ledger p)) None None" using ref by auto
    have m: "p \<in> set (pr_payments res)" "already_paid k req p" using p by (auto simp: find_Some_iff)
    then have "wanted ?o ?pk p" "\<exists>r \<in> set h. toPaymentFact r = Some p" using sub by auto
    then show ?thesis using m(2) r by (auto simp: wanted_def)
  qed
  have c: "\<not> already_paid k req p"
    if none: "?found = None" and fits: "length h < in_maxPages (ss_inspector s) * in_pageSize (ss_inspector s)"
      and p: "r \<in> set h" "toPaymentFact r = Some p" "pf_type p \<in> set PAYMENT_TYPES" "pf_from p = ?pk" "pf_to p = sr_to req" for r p
  proof -
    have "p = (the \<circ> toPaymentFact) r" using p(2) by simp
    then have "p \<in> set (map (the \<circ> toPaymentFact) h)" using p(1) by (simp only: set_map image_eqI)
    moreover have "wanted ?o ?pk p" using p(3-5) by (simp add: wanted_def)
    moreover have "\<not> pr_truncated res" using cut fits by linarith
    ultimately have "p \<in> set (pr_payments res)" using all by (simp only: set_filter) simp
    then show ?thesis using none by (auto simp: find_None_iff)
  qed
  show ?thesis
  proof (intro exI conjI allI impI ballI)
    show "fst (findExisting k s req w) = Some (Inr ?found)" by (rule a)
  qed (use b c in \<open>simp_all only: simp_thms\<close>)
qed



definition demo_finder :: "nat \<Rightarrow> horizon_payment list \<Rightarrow> int stellar" where
  "demo_finder budget h = pay_submitter\<lparr>ss_inspector := demo_inspector budget h\<rparr>"

definition xlm_request :: settlement_request where
  "xlm_request =
     \<lparr>sr_to = ''GB'', sr_memo = None, sr_memoType = None, sr_amount = \<lparr>m_asset = ''XLM'', m_amount = ''1.0''\<rparr>,
      sr_corridor = demo_corridor\<lparr>c_settlement := (c_settlement demo_corridor)\<lparr>bridge_asset := ''XLM''\<rparr>\<rparr>, sr_validUntil = None\<rparr>"

definition incoming_payment :: horizon_payment where
  "incoming_payment = (demo_payment 9)\<lparr>hz_from := Some ''GX''\<rparr>"


text \<open>
  C11: A truncated history is not reported as unknown: when the payment that was asked for lies
  beyond the page budget, \<open>findExisting\<close> answers that there is none.
\<close>

theorem truncated_history_reads_as_unpaid:
  "\<exists>h r p. r \<in> set h \<and> toPaymentFact r = Some p \<and> pf_from p = ''GA'' \<and> pf_to p = ''GB'' \<and>
     pays_request demo_sdk xlm_request p \<and> sn_publicKey (sd_signer (demo_finder 1 h)) = ''GA'' \<and>
     serves_history (ss_inspector (demo_finder 1 h)) ''GA'' h \<and>
     fst (findExisting demo_sdk (demo_finder 1 h) xlm_request demo_chain) = Some (Inr None)"
proof -
  let ?h = "[incoming_payment, incoming_payment, demo_payment 7]" and ?p = "the (toPaymentFact (demo_payment 7))"
  have "toPaymentFact (demo_payment 7) = Some ?p" by (simp add: demo_payment_def toPaymentFact_def)
  moreover have "pf_from ?p = ''GA''" "pf_to ?p = ''GB''" "already_paid demo_sdk xlm_request ?p" by code_simp+
  moreover have "sn_publicKey (sd_signer (demo_finder 1 ?h)) = ''GA''" by code_simp
  moreover have "serves_history (ss_inspector (demo_finder 1 ?h)) ''GA'' ?h"
    by (simp add: serves_history_def demo_finder_def demo_inspector_def)
  moreover have "fst (findExisting demo_sdk (demo_finder 1 ?h) xlm_request demo_chain) = Some (Inr None)" by code_simp
  moreover have "demo_payment 7 \<in> set ?h" by simp
  ultimately show ?thesis unfolding already_paid_iff by blast
qed

subsection \<open>Submitting and checking agree\<close>

text \<open>
  How Horizon reports a plain payment that it applied: one operation, the amount with the same value,
  the memo by its type. \<open>toBase64\<close> encodes the bytes of a hash memo.
\<close>

fun shows_asset :: "asset \<Rightarrow> operation_facts \<Rightarrow> bool" where
  "shows_asset Native op = (oo_asset_type op = Some ''native'')"
| "shows_asset (Issued code issuer) op =
     (oo_asset_type op \<noteq> Some ''native'' \<and> oo_asset_code op = Some code \<and> oo_asset_issuer op = Some issuer)"

fun shows_memo :: "(string \<Rightarrow> string) \<Rightarrow> memo option \<Rightarrow> settlement_facts \<Rightarrow> bool" where
  "shows_memo toBase64 None facts = (sf_memoType facts = ''none'')"
| "shows_memo toBase64 (Some (TextMemo m)) facts = (sf_memoType facts = ''text'' \<and> sf_memo facts = Some m)"
| "shows_memo toBase64 (Some (IdMemo m)) facts = (sf_memoType facts = ''id'' \<and> sf_memo facts = Some m)"
| "shows_memo toBase64 (Some (HashMemo x)) facts = (sf_memoType facts = ''hash'' \<and> sf_memo facts = Some (toBase64 x))"

definition reports :: "(string \<Rightarrow> string) \<Rightarrow> envelope \<Rightarrow> settlement_facts \<Rightarrow> bool" where
  "reports toBase64 env facts \<longleftrightarrow>
     sf_successful facts \<and> shows_memo toBase64 (ev_memo env) facts \<and>
     (\<forall>dest a amount. ev_op env = PaymentOp dest a amount \<longrightarrow>
        (\<exists>op. sf_operations facts = [op] \<and> oo_type op = ''payment'' \<and> oo_to op = Some dest \<and> shows_asset a op \<and>
           pays_amount amount (oo_amount op)))"

lemma shows_asset_pays:
  "bridgeAsset k code issuer = Inr a \<Longrightarrow> shows_asset a op \<Longrightarrow>
   pays_asset code (Some issuer) (oo_asset_type op, oo_asset_code op, oo_asset_issuer op)"
  by (auto simp: bridgeAsset_def new_asset_def accepted_def pays_asset_def split: if_splits option.splits)

lemma shows_memo_carries:
  assumes "built_for k s req env" and "shows_memo toBase64 (ev_memo env) facts"
    and "\<forall>m. toBase64 (k_hexOfBase64 k m) = rebase64 m"
  shows "carries_memo rebase64 facts req"
proof (cases "truthy (sr_memo req)")
  case True
  then obtain m where "sr_memo req = Some m" "m \<noteq> []" by (cases "sr_memo req") auto
  then show ?thesis using assms
    by (auto simp: built_for_def buildMemo_def accepted_def carries_memo_def Let_def split: option.splits memo_type.splits)
next
  case False
  then have "sr_memo req \<in> {None, Some ''''}" by (cases "sr_memo req") auto
  then show ?thesis using assms(1,2) False by (auto simp: built_for_def carries_memo_def)
qed



definition demo_facts :: settlement_facts where
  "demo_facts =
     \<lparr>sf_hash = ''h'', sf_successful = True, sf_memo = Some ''m'', sf_memoType = ''text'',
      sf_operations = [\<lparr>oo_type = ''payment'', oo_to = Some ''GB'', oo_amount = Some ''5.0000000'', oo_asset_type = Some ''credit_alphanum4'',
        oo_asset_code = Some ''USDC'', oo_asset_issuer = Some ''G'', oo_source_amount = None, oo_source_asset_type = None,
        oo_source_asset_code = None, oo_source_asset_issuer = None\<rparr>]\<rparr>"



subsection \<open>What a constructed submitter is\<close>

text \<open>
  A submitter that was constructed has a fee that reads as an amount, so every envelope it builds
  pays exactly that fee; unless asked otherwise it settles on the test network only and signs with no
  in-process seed on the public one; and connected to a real Horizon it always checks the network.
\<close>

theorem constructed_submitter_ok:
  assumes "new_submitter pl o' = Inr s"
  shows "(\<exists>fee. toScaled (sd_fee s) STROOP_SCALE = Inr fee \<and>
      (\<forall>k req op seqno t env. buildEnvelope k s req op seqno t = Inr env \<longrightarrow> ev_fee env = show_int fee)) \<and>
    (ro_allowed o' = None \<longrightarrow> ss_allowed s = [TestNet]) \<and> (ro_allowLocal o' = None \<longrightarrow> \<not> ss_allowLocal s) \<and>
    (ro_horizonServer o' = None \<longrightarrow> ss_rootFetcher s \<noteq> None)"
proof -
  obtain base where b: "new_sender pl ''StellarSettlementSubmitter'' o' = Inr base"
    using assms by (cases "new_sender pl ''StellarSettlementSubmitter'' o'") (auto simp: new_submitter_def)
  have "isOk (toScaled (sd_fee base) STROOP_SCALE)"
    using b by (auto simp: new_sender_def Let_def split: if_splits sum.splits)
  then obtain fee where fee: "toScaled (sd_fee base) STROOP_SCALE = Inr fee"
    by (cases "toScaled (sd_fee base) STROOP_SCALE") auto
  have s: "s = sender.extend base
      \<lparr>ss_inspector = or_else (payments_inspector (sd_horizon base)) (ro_inspector o'),
       ss_allowed = or_else [TestNet] (ro_allowed o'), ss_allowLocal = or_else False (ro_allowLocal o'),
       ss_horizonUrl = ro_horizonUrl o',
       ss_rootFetcher = (case ro_fetchRoot o' of Some f \<Rightarrow> Some f
         | None \<Rightarrow> if ro_horizonServer o' \<noteq> None then None else Some (pl_fetchRoot pl))\<rparr>"
    using assms b by (simp add: new_submitter_def)
  have f: "sd_fee s = sd_fee base" by (simp add: s sender.defs)
  have "ev_fee env = show_int fee" if "buildEnvelope k s req op seqno t = Inr env" for k req op seqno t env
    using that fee f by (auto simp: buildEnvelope_def accepted_def Let_def split: sum.splits option.splits)
  then show ?thesis using fee f by (auto simp: s sender.defs or_else_def split: option.splits)
qed

lemma constructed_submitter_ok_witness:
  "new_submitter demo_platform pay_options = Inr pay_submitter \<and> ss_allowed pay_submitter = [TestNet]"
proof -
  have "isOk (toScaled default_fee STROOP_SCALE)" by code_simp
  then have c: "new_submitter demo_platform pay_options = Inr pay_submitter"
    by (simp add: pay_submitter_def new_submitter_def new_sender_def pay_options_def or_else_def)
  show ?thesis using constructed_submitter_ok [OF c] c by (simp add: pay_options_def)
qed

end
