(* ===== verification/UrlSafety.thy ===== *)
theory UrlSafety
  imports Client
begin

section \<open>Which URLs may be fetched (packages/probe/src/url-safety.ts, toml-hash.ts)\<close>

text \<open>
  Every URL an anchor's own stellar.toml supplies passes \<open>isSafeUrl\<close> before it is fetched. The URL
  parser is a parameter answering the protocol and the hostname. What the check refuses is stated for
  every dotted IPv4 address, together with two spellings of internal addresses that it lets through.
\<close>

text \<open>\<open>^(\d{1,3})\.(\d{1,3})\.(\d{1,3})\.(\d{1,3})$\<close>: the four numbers.\<close>

definition short_number :: "string \<Rightarrow> bool" where
  "short_number s = (s \<noteq> [] \<and> length s \<le> 3 \<and> list_all is_digit s)"

definition match_ipv4 :: "string \<Rightarrow> (nat \<times> nat \<times> nat \<times> nat) option" where
  "match_ipv4 host =
     (case split_on (CHR ''.'') host of
        [a, b, c, d] \<Rightarrow>
          if list_all short_number [a, b, c, d]
          then Some (nat_of_digits a, nat_of_digits b, nat_of_digits c, nat_of_digits d) else None
      | _ \<Rightarrow> None)"

definition isDisallowedIPv4 :: "string \<Rightarrow> bool" where
  "isDisallowedIPv4 host =
     (case match_ipv4 host of
        None \<Rightarrow> False
      | Some (a, b, _, _) \<Rightarrow>
          a = 127 \<or> a = 10 \<or> (a = 172 \<and> b \<ge> 16 \<and> b \<le> 31) \<or> (a = 192 \<and> b = 168) \<or> (a = 169 \<and> b = 254) \<or> a = 0)"

text \<open>\<open>replace(/^\[|\]$/g, "")\<close>\<close>

definition strip_brackets :: "string \<Rightarrow> string" where
  "strip_brackets s =
     (let t = (if s \<noteq> [] \<and> hd s = CHR ''['' then tl s else s)
      in if t \<noteq> [] \<and> last t = CHR '']'' then butlast t else t)"

definition is_lower_hex :: "char \<Rightarrow> bool" where
  "is_lower_hex c = (is_digit c \<or> (let n = of_char c :: nat in 97 \<le> n \<and> n \<le> 102))"

text \<open>\<open>/^f[cd][0-9a-f]{2}:/\<close>\<close>

fun unique_local :: "string \<Rightarrow> bool" where
  "unique_local (f # g # x # y # c # _) =
     (f = CHR ''f'' \<and> (g = CHR ''c'' \<or> g = CHR ''d'') \<and> is_lower_hex x \<and> is_lower_hex y \<and> c = CHR '':'')"
| "unique_local _ = False"

definition isDisallowedHost :: "string \<Rightarrow> bool" where
  "isDisallowedHost hostname =
     (let host = strip_brackets (to_lower hostname) in
      if host = ''localhost'' then True
      else if isDisallowedIPv4 host then True
      else if host = ''::1'' then True
      else if starts_with ''fe80:'' host \<or> starts_with ''fe80::'' host then True
      else if unique_local host then True
      else starts_with ''::ffff:'' host \<and> isDisallowedIPv4 (drop 7 host))"

definition isSafeUrl :: "(string \<Rightarrow> (string \<times> string) option) \<Rightarrow> string \<Rightarrow> bool" where
  "isSafeUrl parse raw =
     (case parse raw of
        None \<Rightarrow> False
      | Some (protocol, hostname) \<Rightarrow> protocol = ''https:'' \<and> \<not> isDisallowedHost hostname)"

definition tomlHash :: "(string \<Rightarrow> string) \<Rightarrow> string \<Rightarrow> string" where
  "tomlHash sha256hex toml = sha256hex toml"

subsection \<open>Dotted addresses\<close>

definition dotted :: "nat \<Rightarrow> nat \<Rightarrow> nat \<Rightarrow> nat \<Rightarrow> string" where
  "dotted a b c d = show_nat a @ ''.'' @ show_nat b @ ''.'' @ show_nat c @ ''.'' @ show_nat d"

definition internal_ipv4 :: "nat \<Rightarrow> nat \<Rightarrow> bool" where
  "internal_ipv4 a b \<longleftrightarrow>
     a \<in> {0, 10, 127} \<or> (a = 172 \<and> b \<in> {16..31}) \<or> (a, b) \<in> {(192, 168), (169, 254)}"

lemma split_on_join: "c \<notin> set x \<Longrightarrow> split_on c (x @ c # r) = x # split_on c r"
  by (induction x) auto

lemma split_on_none: "c \<notin> set x \<Longrightarrow> split_on c x = [x]"
  by (induction x) auto

lemma digits_no_char: "list_all is_digit s \<Longrightarrow> \<not> is_digit c \<Longrightarrow> c \<notin> set s"
  by (auto simp: list_all_iff)

lemma not_digits [simp]: "\<not> is_digit (CHR ''.'')" "\<not> is_digit (CHR ''['')" "\<not> is_digit (CHR '']'')"
  by (simp_all add: is_digit_def)

lemma show_nat_no [simp]: "CHR ''.'' \<notin> set (show_nat n)"
  by (rule digits_no_char [OF show_nat_digits]) simp

lemma show_nat_short: "n \<le> 999 \<Longrightarrow> length (show_nat n) \<le> 3"
  by (subst show_nat.simps, cases "n < 10", simp, simp, subst show_nat.simps, cases "n div 10 < 10", simp, simp,
      subst show_nat.simps, simp) linarith

lemma short_show: "n \<le> 999 \<Longrightarrow> short_number (show_nat n)"
  by (simp add: short_number_def show_nat_nonempty show_nat_digits show_nat_short)

lemma match_dotted:
  assumes "a \<le> 999" "b \<le> 999" "c \<le> 999" "d \<le> 999"
  shows "match_ipv4 (dotted a b c d) = Some (a, b, c, d)"
  using assms by (simp add: match_ipv4_def dotted_def split_on_join split_on_none short_show)

lemma lower_digit: "is_digit c \<Longrightarrow> lower_char c = c"
  by (auto simp: lower_char_def is_digit_def Let_def)

lemma to_lower_show [simp]: "to_lower (show_nat n) = show_nat n"
  using show_nat_digits [of n] by (simp add: to_lower_def list_all_iff lower_digit map_idI)

lemma dotted_lower: "to_lower (dotted a b c d) = dotted a b c d"
proof -
  have "lower_char (CHR ''.'') = CHR ''.''" by code_simp
  then show ?thesis using to_lower_show unfolding dotted_def to_lower_def by simp
qed

lemma dotted_strip: "strip_brackets (dotted a b c d) = dotted a b c d"
proof -
  have digit: "\<forall>x \<in> set (show_nat n). is_digit x" for n using show_nat_digits by (simp add: list_all_iff)
  have "is_digit (hd (show_nat n))" "is_digit (last (show_nat n))" for n
    using digit [of n] hd_in_set [OF show_nat_nonempty, of n] last_in_set [OF show_nat_nonempty, of n] by blast+
  then have "is_digit (hd (dotted a b c d))" and "is_digit (last (dotted a b c d))"
    by (simp_all add: dotted_def show_nat_nonempty)
  then show ?thesis by (auto simp: strip_brackets_def Let_def)
qed

lemma dotted_not_name: "dotted a b c d \<noteq> ''localhost''" "dotted a b c d \<noteq> ''::1''"
  "\<not> starts_with ''fe80:'' (dotted a b c d)" "\<not> starts_with ''fe80::'' (dotted a b c d)"
  "\<not> unique_local (dotted a b c d)" "\<not> starts_with ''::ffff:'' (dotted a b c d)"
proof -
  have "is_digit (hd (dotted a b c d))" and ne: "dotted a b c d \<noteq> []"
    using show_nat_digits [of a] hd_in_set [OF show_nat_nonempty, of a]
    by (auto simp: dotted_def show_nat_nonempty list_all_iff)
  then obtain x xs where d: "dotted a b c d = x # xs" "is_digit x" by (cases "dotted a b c d") auto
  have no: "x \<noteq> CHR ''l''" "x \<noteq> CHR '':''" "x \<noteq> CHR ''f''" using d(2) by (auto simp: is_digit_def)
  show "dotted a b c d \<noteq> ''localhost''" "dotted a b c d \<noteq> ''::1''"
    "\<not> starts_with ''fe80:'' (dotted a b c d)" "\<not> starts_with ''fe80::'' (dotted a b c d)"
    "\<not> unique_local (dotted a b c d)" "\<not> starts_with ''::ffff:'' (dotted a b c d)"
    using no by (auto simp: d starts_with_def elim!: unique_local.elims)
qed

lemma disallowed_dotted:
  assumes "a \<le> 999" "b \<le> 999" "c \<le> 999" "d \<le> 999"
  shows "isDisallowedHost (dotted a b c d) \<longleftrightarrow> internal_ipv4 a b"
  using dotted_not_name [of a b c d] assms
  by (auto simp: isDisallowedHost_def Let_def dotted_lower dotted_strip isDisallowedIPv4_def match_dotted internal_ipv4_def)

text \<open>
  A URL whose host is a dotted IPv4 address is fetched exactly when it is https and the address is
  not one of the internal ranges (this network, 10/8, loopback, 172.16/12, 192.168/16, link-local).
\<close>

theorem safe_url_ipv4:
  assumes "a \<le> 999" and "b \<le> 999" and "c \<le> 999" and "d \<le> 999" and "parse raw = Some (protocol, dotted a b c d)"
  shows "isSafeUrl parse raw \<longleftrightarrow> protocol = ''https:'' \<and> \<not> internal_ipv4 a b"
  using assms by (simp add: isSafeUrl_def disallowed_dotted)

lemma safe_url_ipv4_witness:
  "\<not> isSafeUrl (\<lambda>_. Some (''https:'', dotted 169 254 169 254)) ''u'' \<and> isSafeUrl (\<lambda>_. Some (''https:'', dotted 8 8 8 8)) ''u''"
  using safe_url_ipv4 [of 169 254 169 254 "\<lambda>_. Some (''https:'', dotted 169 254 169 254)" "''u''" "''https:''"]
    safe_url_ipv4 [of 8 8 8 8 "\<lambda>_. Some (''https:'', dotted 8 8 8 8)" "''u''" "''https:''"]
  by (simp add: internal_ipv4_def)

text \<open>
  Internal addresses the check means to refuse and lets through: a URL parser prints an
  IPv4-mapped loopback address in hexadecimal groups, which the pattern for mapped addresses does not
  match, and link-local is fe80::/10, of which only fe80 is looked for.
\<close>

theorem mapped_loopback_is_let_through:
  "isSafeUrl (\<lambda>_. Some (''https:'', ''[::ffff:7f00:1]'')) raw \<and> isSafeUrl (\<lambda>_. Some (''https:'', ''[fe90::1]'')) raw \<and>
   \<not> isSafeUrl (\<lambda>_. Some (''https:'', ''[::ffff:127.0.0.1]'')) raw \<and> \<not> isSafeUrl (\<lambda>_. Some (''https:'', ''[fe80::1]'')) raw"
proof -
  have "\<not> isDisallowedHost ''[::ffff:7f00:1]''" "\<not> isDisallowedHost ''[fe90::1]''"
    "isDisallowedHost ''[::ffff:127.0.0.1]''" "isDisallowedHost ''[fe80::1]''" by code_simp+
  then show ?thesis by (simp add: isSafeUrl_def)
qed

end
