(* ===== verification/ChainChecks.thy ===== *)
theory ChainChecks
  imports Submitter Router UrlSafety Sample
begin

section \<open>Checks of the chain before settling (packages/stellar/src/index.ts, toml-hash-check.ts)\<close>

text \<open>
  The three gate checks that read the outside world: \<open>balanceCheck\<close> (our account covers the amount,
  the fee and the reserve), \<open>destinationCheck\<close> (the receiving account can take the bridge asset) and
  \<open>tomlHashCheck\<close> (the anchor's stellar.toml is the attested one). A verdict is whether the check
  passes, its code and its detail; the name and the measured duration are added by the caller.
\<close>

type_synonym verdict = "bool \<times> error_code option \<times> string"

definition pass :: "string \<Rightarrow> verdict" where
  "pass detail = (True, None, detail)"

definition refuse_with :: "error_code \<Rightarrow> string \<Rightarrow> verdict" where
  "refuse_with code detail = (False, Some code, detail)"

lemma verdict_passes [simp]: "fst (pass d)" "\<not> fst (refuse_with c d)"
  by (simp_all add: pass_def refuse_with_def)

text \<open>\<open>start\<close> and the end are \<open>Date.now()\<close>.\<close>

definition timed_check :: "('e, int) port \<Rightarrow> string \<Rightarrow> ('e, verdict) port \<Rightarrow> ('e, check_result) port" where
  "timed_check now name run e =
     (let (start, e1) = now e; ((passed, code, detail), e2) = run e1; (end', e3) = now e2
      in (check_done name passed code detail (end' - start), e3))"

subsection \<open>Reading an account\<close>

text \<open>
  An inspector is told apart by the method it has; either may throw. What the two checks do with the
  answer differs in the conversion of a raw account and in what counts as "not found".
\<close>

datatype 'e inspector_like =
    HasAccount "string \<Rightarrow> ('e, horizon_error + account_facts option outcome) port"
  | HasLoadAccount "string \<Rightarrow> ('e, horizon_error + account_response) port"
  | HasNeither

definition inspect_account ::
  "(account_response \<Rightarrow> string \<Rightarrow> account_facts) \<Rightarrow> (horizon_error \<Rightarrow> bool) \<Rightarrow> string \<Rightarrow> 'e inspector_like \<Rightarrow> string
     \<Rightarrow> ('e, verdict + account_facts option) port" where
  "inspect_account convert gone what i acc e =
     (let thrown = (\<lambda>err. if gone err then Inr None else Inl (refuse_with SETTLEMENT_FAILED (what @ '': '' @ he_message err))) in
      case i of
        HasAccount read \<Rightarrow>
          (case read acc e of
             (Inl err, e') \<Rightarrow> (thrown err, e')
           | (Inr (Inl err), e') \<Rightarrow> (Inl (refuse_with SETTLEMENT_FAILED (what @ '': '' @ e_message err)), e')
           | (Inr (Inr facts), e') \<Rightarrow> (Inr facts, e'))
      | HasLoadAccount load \<Rightarrow>
          (case load acc e of
             (Inl err, e') \<Rightarrow> (thrown err, e')
           | (Inr r, e') \<Rightarrow> (Inr (Some (convert r acc)), e'))
      | HasNeither \<Rightarrow> (Inl (refuse_with SETTLEMENT_FAILED ''invalid AccountInspector instance''), e))"

subsection \<open>\<open>balanceCheck\<close>\<close>

record balance_options =
  bo_fee :: "string option"
  bo_baseReserve :: "string option"

definition is_xlm_bridge :: "string \<Rightarrow> bool" where
  "is_xlm_bridge code = (to_upper code = ''XLM'' \<or> to_lower code = ''native'')"

definition native_balance :: "balance_fact list \<Rightarrow> balance_fact option" where
  "native_balance bs = find (\<lambda>b. ab_type b = ''native'' \<or> map_option to_upper (ab_code b) = Some ''XLM'') bs"

definition trustline_for :: "settlement_t \<Rightarrow> balance_fact \<Rightarrow> bool" where
  "trustline_for s b =
     (ab_type b \<noteq> ''native'' \<and> map_option to_upper (ab_code b) = Some (to_upper (bridge_asset s)) \<and>
      \<not> (asset_issuer s \<noteq> [] \<and> truthy (ab_issuer b) \<and> ab_issuer b \<noteq> Some (asset_issuer s)))"

definition reserve_entries :: "account_facts \<Rightarrow> int" where
  "reserve_entries f = (let n = 2 + af_subentries f + af_sponsoring f - af_sponsored f in if n < 0 then 0 else n)"

text \<open>A balance less its selling liabilities; a missing entry counts as zero.\<close>

definition balance_text :: "balance_fact option \<Rightarrow> string" where
  "balance_text b = (case b of Some x \<Rightarrow> ab_balance x | None \<Rightarrow> ''0'')"

definition liabilities_text :: "balance_fact option \<Rightarrow> string" where
  "liabilities_text b = (case b of Some x \<Rightarrow> or_else ''0'' (ab_selling x) | None \<Rightarrow> ''0'')"

definition spendable :: "balance_fact option \<Rightarrow> int option" where
  "spendable b =
     (case (toScaled (balance_text b) STROOP_SCALE, toScaled (liabilities_text b) STROOP_SCALE) of
        (Inr x, Inr y) \<Rightarrow> Some (x - y) | _ \<Rightarrow> None)"

definition xlm_text :: "int \<Rightarrow> string" where
  "xlm_text v = fromScaled v STROOP_SCALE"

text \<open>\<open>xlm\<close> and \<open>reserve\<close> are what is available and the minimum reserve, scaled.\<close>

definition xlm_verdict :: "account_facts \<Rightarrow> int \<Rightarrow> int \<Rightarrow> string \<Rightarrow> int \<Rightarrow> string \<Rightarrow> int \<Rightarrow> verdict" where
  "xlm_verdict f reserve xlm feeStr fee amountStr amount =
     (let nb = native_balance (af_balances f); required = amount + fee in
      if xlm < required then
        refuse_with PRESETTLE_INSUFFICIENT_FUNDS
          (''insufficient XLM: required '' @ xlm_text required @ '' ('' @ amountStr @ '' amount + '' @ feeStr @
           '' fee against available after reserve '' @ xlm_text reserve @ ''), available '' @ xlm_text xlm @ '' (balance '' @
           balance_text nb @ '' - selling liabilities '' @ liabilities_text nb @ '' - minimum reserve '' @ xlm_text reserve @ '')'')
      else pass
          (''balance covers XLM amount '' @ amountStr @ '' and fee '' @ feeStr @ '' after minimum reserve '' @ xlm_text reserve @
           '' (required '' @ xlm_text required @ '', available '' @ xlm_text xlm @ '')''))"

definition issued_verdict :: "settlement_t \<Rightarrow> account_facts \<Rightarrow> int \<Rightarrow> int \<Rightarrow> string \<Rightarrow> int \<Rightarrow> string \<Rightarrow> int \<Rightarrow> verdict" where
  "issued_verdict s f reserve xlm feeStr fee amountStr amount =
     (let nb = native_balance (af_balances f); bb = find (trustline_for s) (af_balances f); code = bridge_asset s in
      case spendable bb of
        None \<Rightarrow> refuse_with AMOUNT_INVALID (''invalid '' @ code @ '' balance or liabilities on account'')
      | Some bridge \<Rightarrow>
          if bridge < amount then
            refuse_with PRESETTLE_INSUFFICIENT_FUNDS
              (''insufficient '' @ code @ '': required '' @ amountStr @ '', available '' @ xlm_text bridge @ '' (balance '' @
               balance_text bb @ '' - selling liabilities '' @ liabilities_text bb @ '')'')
          else if xlm < fee then
            refuse_with PRESETTLE_INSUFFICIENT_FUNDS
              (''insufficient XLM for fee and reserve: required '' @ feeStr @ '', available '' @ xlm_text xlm @ '' (balance '' @
               balance_text nb @ '' - selling liabilities '' @ liabilities_text nb @ '' - minimum reserve '' @ xlm_text reserve @ '')'')
          else pass
              (''balance covers '' @ code @ '' amount '' @ amountStr @ '' (available: '' @ xlm_text bridge @ '') and XLM fee '' @ feeStr @
               '' + minimum reserve '' @ xlm_text reserve @ '' (available XLM: '' @ xlm_text xlm @ '')''))"

definition balance_verdict :: "balance_options \<Rightarrow> settlement_t \<Rightarrow> string \<Rightarrow> account_facts \<Rightarrow> verdict" where
  "balance_verdict o' s amountStr f =
     (let reserveStr = or_else ''0.5'' (bo_baseReserve o'); feeStr = or_else default_fee (bo_fee o') in
      case toScaled reserveStr STROOP_SCALE of
        Inl _ \<Rightarrow> refuse_with AMOUNT_INVALID (''invalid base reserve amount: '' @ in_quotes reserveStr)
      | Inr base \<Rightarrow>
      (case toScaled feeStr STROOP_SCALE of
        Inl _ \<Rightarrow> refuse_with AMOUNT_INVALID (''invalid fee amount: '' @ in_quotes feeStr)
      | Inr fee \<Rightarrow>
      (case spendable (native_balance (af_balances f)) of
        None \<Rightarrow> refuse_with AMOUNT_INVALID ''invalid XLM balance or liabilities on account''
      | Some owned \<Rightarrow>
          let reserve = reserve_entries f * base; xlm = owned - reserve in
      (case toScaled amountStr STROOP_SCALE of
        Inl _ \<Rightarrow> refuse_with AMOUNT_INVALID (''invalid settlement amount: '' @ in_quotes amountStr)
      | Inr amount \<Rightarrow>
          if is_xlm_bridge (bridge_asset s) then xlm_verdict f reserve xlm feeStr fee amountStr amount
          else issued_verdict s f reserve xlm feeStr fee amountStr amount))))"

definition balanceCheck_run :: "'e inspector_like \<Rightarrow> string \<Rightarrow> balance_options \<Rightarrow> gate_ctx \<Rightarrow> ('e, verdict) port" where
  "balanceCheck_run i key o' ctx e =
     (case inspect_account toAccountFacts isNotFound (''failed to inspect account '' @ key) i key e of
        (Inl v, e') \<Rightarrow> (v, e')
      | (Inr None, e') \<Rightarrow> (refuse_with PRESETTLE_INSUFFICIENT_FUNDS (''account '' @ key @ '' does not exist on-chain''), e')
      | (Inr (Some f), e') \<Rightarrow>
          (balance_verdict o' (c_settlement (g_corridor ctx)) (m_amount (q_sourceAmount (g_quote ctx))) f, e'))"

definition balanceCheck ::
  "('e, int) port \<Rightarrow> 'e inspector_like \<Rightarrow> string \<Rightarrow> balance_options \<Rightarrow> gate_ctx \<Rightarrow> ('e, check_result) port" where
  "balanceCheck now i key o' ctx = timed_check now ''chain.balance'' (balanceCheck_run i key o' ctx)"

subsection \<open>\<open>destinationCheck\<close>\<close>

text \<open>Here a raw trustline of unknown authorization reads as authorized, unlike in \<open>toAccountFacts\<close>.\<close>

definition destination_balance :: "balance_fact \<Rightarrow> balance_fact" where
  "destination_balance b =
     b\<lparr>ab_selling := Some (or_else ''0'' (ab_selling b)), ab_buying := Some (or_else ''0'' (ab_buying b)),
       ab_authorized := Some (or_else True (ab_authorized b))\<rparr>"

definition destination_facts :: "account_response \<Rightarrow> string \<Rightarrow> account_facts" where
  "destination_facts r i = (toAccountFacts r i)\<lparr>af_balances := map destination_balance (or_else [] (ar_balances r))\<rparr>"

definition says_not_found :: "horizon_error \<Rightarrow> bool" where
  "says_not_found err = (he_status err = Some 404 \<or> index_of ''not found'' (to_lower (he_message err)) \<noteq> None)"

definition destination_of :: "open_transaction \<Rightarrow> string option" where
  "destination_of op = (case o_instructions op of Some (IStellarPayment to' _ _ _) \<Rightarrow> Some to' | _ \<Rightarrow> o_depositAddress op)"

definition unsafe :: "string \<Rightarrow> verdict" where
  "unsafe detail = refuse_with PRESETTLE_DESTINATION_UNSAFE detail"

definition destination_verdict :: "settlement_t \<Rightarrow> account_facts option \<Rightarrow> verdict" where
  "destination_verdict s facts =
     (case facts of
        None \<Rightarrow> unsafe ''exists: destination account is not on-chain''
      | Some f \<Rightarrow>
          if is_xlm_bridge (bridge_asset s) then pass ''destination exists; native bridge asset needs no trustline''
          else case find (trustline_for s) (af_balances f) of
            None \<Rightarrow> unsafe (''trustline: destination has no '' @ bridge_asset s @ '' trustline'')
          | Some b \<Rightarrow>
              if ab_authorized b = Some False then
                unsafe (''trustline: destination'' @ [CHR 0x27] @ ''s '' @ bridge_asset s @ '' trustline is not authorized'')
              else pass (''destination exists with an authorized '' @ bridge_asset s @ '' trustline''))"

definition destinationCheck_run ::
  "'e inspector_like \<Rightarrow> string \<Rightarrow> (string \<Rightarrow> bool) option \<Rightarrow> gate_ctx \<Rightarrow> ('e, verdict) port" where
  "destinationCheck_run i key denylist ctx e =
     (let dest = or_else '''' (destination_of (g_opened ctx)) in
      if dest = [] then (unsafe ''no destination address provided in opened transaction instructions'', e)
      else if dest = key then (unsafe ''self-payment: destination equals our signing account'', e)
      else if (case denylist of Some d \<Rightarrow> d dest | None \<Rightarrow> False) then (unsafe ''denylist: destination is operator-flagged'', e)
      else
        (case inspect_account destination_facts says_not_found ''failed to inspect destination'' i dest e of
           (Inl v, e') \<Rightarrow> (v, e')
         | (Inr facts, e') \<Rightarrow> (destination_verdict (c_settlement (g_corridor ctx)) facts, e')))"

definition destinationCheck ::
  "('e, int) port \<Rightarrow> 'e inspector_like \<Rightarrow> string \<Rightarrow> (string \<Rightarrow> bool) option \<Rightarrow> gate_ctx \<Rightarrow> ('e, check_result) port" where
  "destinationCheck now i key denylist ctx = timed_check now ''chain.destination'' (destinationCheck_run i key denylist ctx)"

subsection \<open>\<open>tomlHashCheck\<close>\<close>

text \<open>
  \<open>fetchImpl\<close> answers a response or rejects (\<open>None\<close>), a timeout included; the body may fail to read.
\<close>

record 'e toml_options =
  to_registry :: "string \<Rightarrow> ('e, string + string) port"
  to_fetch :: "string \<Rightarrow> ('e, response option) port"
  to_allowed :: "string list"

definition valid_hash :: "string \<Rightarrow> bool" where
  "valid_hash h = (length h = 64 \<and> list_all is_lower_hex h)"

definition drifted :: "string \<Rightarrow> verdict" where
  "drifted detail = refuse_with PRESETTLE_ANCHOR_DRIFT detail"

definition live_toml_verdict :: "(string \<Rightarrow> string) \<Rightarrow> string \<Rightarrow> response option \<Rightarrow> verdict" where
  "live_toml_verdict sha256hex attested answer =
     (case answer of
        None \<Rightarrow> drifted ''stellar.toml fetch failed''
      | Some r \<Rightarrow>
          if \<not> res_ok r then drifted (''stellar.toml fetch returned HTTP '' @ show_int (rs_status r))
          else case rs_text r of
            None \<Rightarrow> drifted ''stellar.toml response could not be read''
          | Some toml \<Rightarrow>
              let live = tomlHash sha256hex toml in
              if live \<noteq> attested then
                drifted (''stellar.toml hash mismatch: attested='' @ List.take 10 attested @ '' live='' @ List.take 10 live)
              else pass ''stellar.toml hash matches attestation'')"

definition tomlHashCheck_run ::
  "(string \<Rightarrow> (string \<times> string) option) \<Rightarrow> (string \<Rightarrow> string) \<Rightarrow> 'e toml_options \<Rightarrow> gate_ctx \<Rightarrow> ('e, verdict) port" where
  "tomlHashCheck_run parse sha256hex o' ctx e =
     (let domain = home_domain (d_endpoints (c_dest (g_corridor ctx)));
          url = ''https://'' @ domain @ ''/.well-known/stellar.toml''
      in if isUnattestedDomainAllowed domain (to_allowed o') then (pass ''unattested domain allowed'', e)
         else if \<not> isSafeUrl parse url then (drifted ''stellar.toml URL rejected by safety policy'', e)
         else case to_registry o' domain e of
           (Inl _, e1) \<Rightarrow> (drifted ''attestation hash lookup failed'', e1)
         | (Inr attested, e1) \<Rightarrow>
             if \<not> valid_hash attested then (drifted ''attestation hash is missing or invalid'', e1)
             else (case to_fetch o' url e1 of (answer, e2) \<Rightarrow> (live_toml_verdict sha256hex attested answer, e2)))"

definition tomlHashCheck ::
  "('e, int) port \<Rightarrow> (string \<Rightarrow> (string \<times> string) option) \<Rightarrow> (string \<Rightarrow> string) \<Rightarrow> 'e toml_options \<Rightarrow> gate_ctx
     \<Rightarrow> ('e, check_result) port" where
  "tomlHashCheck now parse sha256hex o' ctx = timed_check now ''anchor.toml.hash'' (tomlHashCheck_run parse sha256hex o' ctx)"


subsection \<open>What the checks guarantee\<close>

lemma inspect_Inr:
  "inspect_account convert gone what (HasAccount read) acc e = (Inr (Some f), e') \<Longrightarrow> read acc e = (Inr (Inr (Some f)), e')"
  by (auto simp: inspect_account_def Let_def split: prod.splits sum.splits if_splits)

lemma inspect_Inl: "inspect_account convert gone what i acc e = (Inl v, e') \<Longrightarrow> \<not> fst v"
  by (auto simp: inspect_account_def Let_def split: prod.splits sum.splits if_splits inspector_like.splits)

text \<open>What a payment of \<open>amount\<close> and \<open>fee\<close> leaves of the account's own XLM.\<close>

definition own_xlm :: "account_facts \<Rightarrow> balance_fact \<Rightarrow> bool" where
  "own_xlm f b \<longleftrightarrow> b \<in> set (af_balances f) \<and> ab_type b = ''native''"

definition xlm_is_native :: "account_facts \<Rightarrow> bool" where
  "xlm_is_native f \<longleftrightarrow> (\<forall>b \<in> set (af_balances f). map_option to_upper (ab_code b) = Some ''XLM'' \<longrightarrow> ab_type b = ''native'')"

lemma native_found:
  assumes "xlm_is_native f" and "native_balance (af_balances f) = Some b"
  shows "own_xlm f b"
  using assms by (auto simp: native_balance_def own_xlm_def xlm_is_native_def find_Some_iff)

lemma find_in: "find P xs = Some b \<Longrightarrow> b \<in> set xs \<and> P b"
  by (auto simp: find_Some_iff)

lemma no_entry [simp]: "spendable None = Some 0"
  by code_simp


definition native_of :: "string \<Rightarrow> balance_fact" where
  "native_of amount =
     \<lparr>ab_type = ''native'', ab_code = None, ab_issuer = None, ab_balance = amount, ab_selling = Some ''0'', ab_buying = Some ''0'',
      ab_authorized = Some True\<rparr>"

definition issued_of :: "string \<Rightarrow> string \<Rightarrow> string \<Rightarrow> bool option \<Rightarrow> balance_fact" where
  "issued_of code issuer amount auth =
     \<lparr>ab_type = ''credit_alphanum4'', ab_code = Some code, ab_issuer = Some issuer, ab_balance = amount, ab_selling = Some ''0'',
      ab_buying = Some ''0'', ab_authorized = auth\<rparr>"

definition demo_account :: "balance_fact list \<Rightarrow> account_facts" where
  "demo_account bs =
     \<lparr>af_id = ''GA'', af_subentries = 1, af_sponsoring = 0, af_sponsored = 0, af_balances = bs, af_flags = None\<rparr>"

definition demo_gate_ctx :: "string \<Rightarrow> string option \<Rightarrow> gate_ctx" where
  "demo_gate_ctx bridge recv =
     \<lparr>g_intent = demo_intent,
      g_corridor = demo_corridor\<lparr>c_settlement := (c_settlement demo_corridor)
        \<lparr>bridge_asset := bridge, receive_asset := recv, receive_asset_issuer := Some ''GE''\<rparr>\<rparr>,
      g_quote = \<lparr>q_id = ''q'', q_price = ''5'', q_expiresAt = Ms 0, q_sourceAmount = \<lparr>m_asset = bridge, m_amount = ''5''\<rparr>,
        q_destAmount = \<lparr>m_asset = ''BRL'', m_amount = ''25''\<rparr>, q_fee = None, q_firm = True\<rparr>,
      g_opened = \<lparr>o_transactionId = ''t'', o_instructions = Some (IStellarPayment ''GB'' None None None), o_amountIn = None,
        o_depositAddress = None, o_memo = None, o_memoType = None\<rparr>,
      g_now = 0, g_attempt = 1\<rparr>"

definition no_options :: balance_options where
  "no_options = \<lparr>bo_fee = None, bo_baseReserve = None\<rparr>"

abbreviation reads_account :: "balance_fact list \<Rightarrow> string \<Rightarrow> (unit, horizon_error + account_facts option outcome) port" where
  "reads_account bs \<equiv> \<lambda>_ e. (Inr (Inr (Some (demo_account bs))), e)"


text \<open>
  An issued asset that calls itself XLM is taken for the account's XLM, as Horizon lists the native
  balance last: an account with a thousand worthless units of it and no XLM passes the check of a
  payment of 5 XLM.
\<close>

theorem fake_xlm_passes_balance_check:
  "fst (fst (balanceCheck_run (HasAccount (reads_account [issued_of ''XLM'' ''GX'' ''1000'' None, native_of ''0''])) ''GA'' no_options
     (demo_gate_ctx ''XLM'' None) ())) \<and>
   \<not> fst (fst (balanceCheck_run (HasAccount (reads_account [native_of ''0''])) ''GA'' no_options (demo_gate_ctx ''XLM'' None) ()))"
  by code_simp

subsection \<open>The destination\<close>

text \<open>
  C3: A passed destination check, reading through \<open>AccountInspector.account\<close>, means that the deposit
  address is a real account other than ours that the operator has not flagged, and that it holds an
  authorized trustline for the bridge asset when that is not XLM.
\<close>

theorem destination_check_safe:
  assumes "fst (fst (destinationCheck_run (HasAccount read) key denylist ctx e))"
    and "s = c_settlement (g_corridor ctx)" and "\<forall>a e f e'. read a e = (Inr (Inr (Some f)), e') \<longrightarrow> (\<exists>r. f = toAccountFacts r a)"
  shows "\<exists>dest f e'. destination_of (g_opened ctx) = Some dest \<and> dest \<noteq> '''' \<and> dest \<noteq> key \<and>
    (\<forall>d. denylist = Some d \<longrightarrow> \<not> d dest) \<and> read dest e = (Inr (Inr (Some f)), e') \<and>
    (is_xlm_bridge (bridge_asset s) \<or> (\<exists>b \<in> set (af_balances f). trustline_for s b \<and> ab_authorized b = Some True))"
proof -
  let ?dest = "or_else '''' (destination_of (g_opened ctx))"
  obtain r e' where ins: "inspect_account destination_facts says_not_found ''failed to inspect destination'' (HasAccount read) ?dest e = (r, e')"
    by fastforce
  have d: "?dest \<noteq> ''''" "?dest \<noteq> key" "\<forall>d. denylist = Some d \<longrightarrow> \<not> d ?dest"
    and v: "\<exists>facts. r = Inr facts \<and> fst (destination_verdict s facts)"
    using assms(1,2) ins inspect_Inl [of _ _ _ _ _ _ _ e']
    by (cases r; auto simp: destinationCheck_run_def unsafe_def Let_def split: if_splits option.splits)+
  then obtain facts where facts: "r = Inr facts" "fst (destination_verdict s facts)" by blast
  then obtain f where r: "r = Inr (Some f)" and f: "fst (destination_verdict s (Some f))"
    by (cases facts) (auto simp: destination_verdict_def unsafe_def)
  have read: "read ?dest e = (Inr (Inr (Some f)), e')" by (rule inspect_Inr [OF ins [unfolded r]])
  have "\<exists>b \<in> set (af_balances f). trustline_for s b \<and> ab_authorized b = Some True" if x: "\<not> is_xlm_bridge (bridge_asset s)"
  proof -
    obtain b where b: "find (trustline_for s) (af_balances f) = Some b" "ab_authorized b \<noteq> Some False"
      using f x by (auto simp: destination_verdict_def unsafe_def split: option.splits if_splits)
    have m: "b \<in> set (af_balances f)" "trustline_for s b" using find_in [OF b(1)] by auto
    obtain q where "f = toAccountFacts q ?dest" using assms(3) read by blast
    then have "ab_authorized b \<noteq> None" using m(1) by (auto simp: toAccountFacts_def to_balance_fact_def)
    then show ?thesis using m b(2) by auto
  qed
  moreover have "destination_of (g_opened ctx) = Some ?dest" using d(1) by (cases "destination_of (g_opened ctx)") (auto simp: or_else_def)
  ultimately show ?thesis using d read by blast
qed


definition raw_account :: "balance_fact list \<Rightarrow> account_response" where
  "raw_account bs =
     \<lparr>ar_id = None, ar_subentries = None, ar_sponsoring = None, ar_sponsored = None, ar_balances = Some bs, ar_flags = None\<rparr>"

definition inspects :: "balance_fact list \<Rightarrow> string \<Rightarrow> (unit, horizon_error + account_facts option outcome) port" where
  "inspects bs a e = (Inr (Inr (Some (toAccountFacts (raw_account bs) a))), e)"

lemma destination_check_safe_witness:
  "\<exists>f. fst (inspects [issued_of ''USDC'' ''G'' ''0'' (Some True)] ''GB'' ()) = Inr (Inr (Some f)) \<and>
     (\<exists>b \<in> set (af_balances f). ab_authorized b = Some True)"
proof -
  let ?read = "inspects [issued_of ''USDC'' ''G'' ''0'' (Some True)]" and ?ctx = "demo_gate_ctx ''USDC'' None"
  have p: "fst (fst (destinationCheck_run (HasAccount ?read) ''GA'' None ?ctx ()))" by code_simp
  have r: "\<forall>a e f e'. ?read a e = (Inr (Inr (Some f)), e') \<longrightarrow> (\<exists>r. f = toAccountFacts r a)" by (auto simp: inspects_def)
  have "destination_of (g_opened ?ctx) = Some ''GB''" by code_simp
  moreover have "\<not> is_xlm_bridge (bridge_asset (c_settlement (g_corridor ?ctx)))" by code_simp
  ultimately show ?thesis using destination_check_safe [OF p refl r] by fastforce
qed

text \<open>
  The check looks for the bridge asset only, and reads an unknown authorization as authorized when
  it loads the account itself. For a corridor paid by path payment it so passes a destination without
  any trustline for the asset that will arrive, and it passes a trustline Horizon does not call
  authorized.
\<close>

theorem destination_check_wrong_trustline:
  "needsPathPayment (g_corridor (demo_gate_ctx ''USDC'' (Some ''EURC''))) \<and>
   fst (fst (destinationCheck_run (HasAccount (reads_account [issued_of ''USDC'' ''G'' ''0'' (Some True)])) ''GA'' None
     (demo_gate_ctx ''USDC'' (Some ''EURC'')) ())) \<and>
   fst (fst (destinationCheck_run (HasLoadAccount (\<lambda>_ e. (Inr (raw_account [issued_of ''USDC'' ''G'' ''0'' None]), e))) ''GA'' None
     (demo_gate_ctx ''USDC'' None) ()))"
  by (intro conjI; code_simp)

subsection \<open>The attested stellar.toml\<close>

text \<open>
  A passed toml check means the domain is on the operator's list of unattested domains, or the text
  just fetched over a safe URL hashes to what the registry recorded.
\<close>

theorem toml_check_sound:
  assumes "fst (fst (tomlHashCheck_run parse sha256hex o' ctx e))" and "domain = home_domain (d_endpoints (c_dest (g_corridor ctx)))"
  shows "domain \<in> set (to_allowed o') \<or>
    (\<exists>attested e1 r e2 toml. isSafeUrl parse (''https://'' @ domain @ ''/.well-known/stellar.toml'') \<and>
       to_registry o' domain e = (Inr attested, e1) \<and> valid_hash attested \<and>
       to_fetch o' (''https://'' @ domain @ ''/.well-known/stellar.toml'') e1 = (Some r, e2) \<and> res_ok r \<and>
       rs_text r = Some toml \<and> sha256hex toml = attested)"
  using assms
  by (auto simp: tomlHashCheck_run_def Let_def isUnattestedDomainAllowed_def drifted_def live_toml_verdict_def tomlHash_def
      split: if_splits prod.splits sum.splits option.splits)

lemma toml_check_sound_witness:
  "fst (fst (tomlHashCheck_run (\<lambda>_. Some (''https:'', ''a.example'')) (\<lambda>_. replicate 64 (CHR ''a''))
      \<lparr>to_registry = (\<lambda>_ e. (Inr (replicate 64 (CHR ''a'')), e)),
       to_fetch = (\<lambda>_ e. (Some \<lparr>rs_status = 200, rs_text = Some ''t'', rs_json = None\<rparr>, e)), to_allowed = []\<rparr>
      (demo_gate_ctx ''USDC'' None) ()))"
  (is "fst (fst (tomlHashCheck_run ?parse ?sha ?o ?ctx ()))")
proof -
  have p: "fst (fst (tomlHashCheck_run ?parse ?sha ?o ?ctx ()))" by code_simp
  show ?thesis using toml_check_sound [OF p refl] p by blast
qed

end
