(* ===== verification/Toml.thy ===== *)
theory Toml
  imports Client
begin

section \<open>Reading a stellar.toml (packages/probe/src/country.ts, index.ts)\<close>

text \<open>
  The two readers of an anchor's stellar.toml, neither of them a TOML parser: \<open>tomlValue\<close> finds a
  quoted_value value by its key, \<open>declaredCountry\<close> maps the last segment of the organisation's address to
  a country code. Their regular expressions are matchers over strings; the tables of country names
  are those of the source.
\<close>

subsection \<open>Matching a key and its quoted_value value\<close>

definition is_blank :: "char \<Rightarrow> bool" where
  "is_blank c = (c = CHR '' '' \<or> c = CHR 0x09)"

definition skip_blanks :: "string \<Rightarrow> string" where
  "skip_blanks s = dropWhile is_blank s"

text \<open>\<open>(?:"([^"]*)"|'([^']*)')\<close>: the text up to the closing quote.\<close>

definition quoted_by :: "char \<Rightarrow> string \<Rightarrow> string option" where
  "quoted_by q s = (if q \<in> set s then Some (takeWhile (\<lambda>c. c \<noteq> q) s) else None)"

definition quoted_value :: "string \<Rightarrow> string option" where
  "quoted_value s =
     (case s of
        [] \<Rightarrow> None
      | c # cs \<Rightarrow> if c = CHR 0x22 \<or> c = CHR 0x27 then quoted_by c cs else None)"

text \<open>\<open>^[ \t]*KEY[ \t]*=[ \t]*\<close> and a quoted value, at the beginning of \<open>s\<close>.\<close>

definition key_value :: "string \<Rightarrow> string \<Rightarrow> string option" where
  "key_value key s =
     (let t = skip_blanks s in
      if starts_with key t then
        (case skip_blanks (drop (length key) t) of
           c # u \<Rightarrow> if c = CHR ''='' then quoted_value (skip_blanks u) else None
         | [] \<Rightarrow> None)
      else None)"

text \<open>With the \<open>m\<close> flag \<open>^\<close> matches after each line terminator; the first match counts.\<close>

definition line_terminator :: "char \<Rightarrow> bool" where
  "line_terminator c = (c = CHR 0x0A \<or> c = CHR 0x0D)"

fun match_lines :: "(string \<Rightarrow> string option) \<Rightarrow> string \<Rightarrow> bool \<Rightarrow> string option" where
  "match_lines m [] fresh = (if fresh then m [] else None)"
| "match_lines m (c # cs) fresh =
     (case (if fresh then m (c # cs) else None) of
        Some v \<Rightarrow> Some v
      | None \<Rightarrow> match_lines m cs (line_terminator c))"

definition non_blank :: "string option \<Rightarrow> string option" where
  "non_blank v = (case v of None \<Rightarrow> None | Some s \<Rightarrow> let t = js_trim s in if t = [] then None else Some t)"

definition tomlValue :: "string \<Rightarrow> string \<Rightarrow> string option" where
  "tomlValue toml key = non_blank (match_lines (key_value key) toml True)"

subsection \<open>The declared address\<close>

definition table_char :: "char \<Rightarrow> bool" where
  "table_char c =
     (is_digit c \<or> c = CHR ''_'' \<or> c = CHR ''.'' \<or> c = CHR ''-'' \<or>
      (let n = of_char c :: nat in (65 \<le> n \<and> n \<le> 90) \<or> (97 \<le> n \<and> n \<le> 122)))"

definition table_header :: "string \<Rightarrow> string option" where
  "table_header line =
     (case skip_blanks line of
        [] \<Rightarrow> None
      | b # u \<Rightarrow>
          if b \<noteq> CHR ''['' then None
          else
            let v = skip_blanks (if u \<noteq> [] \<and> hd u = CHR ''['' then tl u else u);
                name = takeWhile table_char v;
                rest = skip_blanks (dropWhile table_char v)
            in if name \<noteq> [] \<and> rest \<noteq> [] \<and> hd rest = CHR '']'' then Some (to_upper name) else None)"

text \<open>\<open>toml.split(/\r?\n/)\<close>\<close>

definition drop_cr :: "string \<Rightarrow> string" where
  "drop_cr line = (if line \<noteq> [] \<and> last line = CHR 0x0D then butlast line else line)"

definition toml_lines :: "string \<Rightarrow> string list" where
  "toml_lines toml = (let ls = split_on (CHR 0x0A) toml in map drop_cr (butlast ls) @ [last ls])"

fun scan_address :: "string option \<Rightarrow> string list \<Rightarrow> string option" where
  "scan_address table [] = None"
| "scan_address table (line # rest) =
     (case table_header line of
        Some t \<Rightarrow> scan_address (Some t) rest
      | None \<Rightarrow>
          if table \<noteq> None \<and> table \<noteq> Some ''DOCUMENTATION'' then scan_address table rest
          else case non_blank (key_value ''ORG_PHYSICAL_ADDRESS'' line) of
            Some v \<Rightarrow> Some v
          | None \<Rightarrow> scan_address table rest)"

definition orgPhysicalAddress :: "string \<Rightarrow> string option" where
  "orgPhysicalAddress toml = scan_address None (toml_lines toml)"

subsection \<open>Countries\<close>

definition TO_ALPHA2 :: "(string \<times> string) list" where
  "TO_ALPHA2 =
   [
    (''nigeria'', ''NG''), (''niger'', ''NE''), (''ghana'', ''GH''), (''senegal'', ''SN''),
    (''cote d'' @ [CHR 0x27] @ ''ivoire'', ''CI''),
    (''c'' @ [CHR 0xF4] @ ''te d'' @ [CHR 0x27] @ ''ivoire'', ''CI''), (''ivorycoast'', ''CI''),
    (''ivory coast'', ''CI''), (''cameroon'', ''CM''), (''sierra leone'', ''SL''), (''liberia'', ''LR''),
    (''gambia, the'', ''GM''), (''gambia'', ''GM''), (''guinea'', ''GN''), (''mali'', ''ML''), (''benin'', ''BJ''),
    (''burkinafaso'', ''BF''), (''burkina faso'', ''BF''), (''togo'', ''TG''), (''kenya'', ''KE''),
    (''tanzania'', ''TZ''), (''united republic of tanzania'', ''TZ''), (''uganda'', ''UG''), (''rwanda'', ''RW''),
    (''zambia'', ''ZM''), (''zimbabwe'', ''ZW''), (''malawi'', ''MW''), (''mozambique'', ''MZ''),
    (''south africa'', ''ZA''), (''botswana'', ''BW''), (''namibia'', ''NA''),
    (''democratic republic of the congo'', ''CD''), (''congo'', ''CG''), (''ethiopia'', ''ET''),
    (''somalia'', ''SO''), (''sudan'', ''SD''), (''mexico'', ''MX''), (''brazil'', ''BR''), (''argentina'', ''AR''),
    (''colombia'', ''CO''), (''peru'', ''PE''), (''chile'', ''CL''), (''ecuador'', ''EC''), (''uruguay'', ''UY''),
    (''paraguay'', ''PY''), (''venezuela'', ''VE''), (''bolivia'', ''BO''), (''costa rica'', ''CR''),
    (''panama'', ''PA''), (''guatemala'', ''GT''), (''honduras'', ''HN''), (''elsalvador'', ''SV''),
    (''el salvador'', ''SV''), (''nicaragua'', ''NI''), (''jamaica'', ''JM''), (''haiti'', ''HT''),
    (''dominican republic'', ''DO''), (''united states'', ''US''), (''united states of america'', ''US''),
    (''canada'', ''CA''), (''india'', ''IN''), (''pakistan'', ''PK''), (''bangladesh'', ''BD''),
    (''philippines'', ''PH''), (''vietnam'', ''VN''), (''indonesia'', ''ID''), (''thailand'', ''TH''),
    (''malaysia'', ''MY''), (''singapore'', ''SG''), (''china'', ''CN''),
    (''people'' @ [CHR 0x27] @ ''s republic of china'', ''CN''), (''japan'', ''JP''), (''south korea'', ''KR''),
    (''korea'', ''KR''), (''nepal'', ''NP''), (''srilanka'', ''LK''), (''sri lanka'', ''LK''), (''myanmar'', ''MM''),
    (''cambodia'', ''KH''), (''australia'', ''AU''), (''newzealand'', ''NZ''), (''new zealand'', ''NZ''),
    (''turkey'', ''TR''), (''ukraine'', ''UA''), (''poland'', ''PL''), (''romania'', ''RO''), (''moldova'', ''MD''),
    (''georgia'', ''GE''), (''armenia'', ''AM''), (''azerbaijan'', ''AZ''), (''egypt'', ''EG''),
    (''morocco'', ''MA''), (''tunisia'', ''TN''), (''algeria'', ''DZ''), (''united arab emirates'', ''AE''),
    (''uae'', ''AE''), (''saudi'', ''SA''), (''saudi arabia'', ''SA''), (''qatar'', ''QA''), (''kuwait'', ''KW''),
    (''bahrain'', ''BH''), (''oman'', ''OM''), (''jordan'', ''JO''), (''lebanon'', ''LB''), (''iraq'', ''IQ''),
    (''iran'', ''IR''), (''israel'', ''IL''), (''united kingdom'', ''GB''), (''britain'', ''GB''),
    (''england'', ''GB''), (''scotland'', ''GB''), (''wales'', ''GB''), (''northern ireland'', ''GB''),
    (''germany'', ''DE''), (''france'', ''FR''), (''spain'', ''ES''), (''portugal'', ''PT''), (''italy'', ''IT''),
    (''netherlands'', ''NL''), (''belgium'', ''BE''), (''austria'', ''AT''), (''switzerland'', ''CH''),
    (''sweden'', ''SE''), (''norway'', ''NO''), (''denmark'', ''DK''), (''finland'', ''FI''), (''ireland'', ''IE''),
    (''iceland'', ''IS''), (''czechia'', ''CZ''), (''croatia'', ''HR''), (''serbia'', ''RS''), (''greece'', ''GR''),
    (''cyprus'', ''CY''), (''malta'', ''MT''), (''luxembourg'', ''LU''), (''lithuania'', ''LT''),
    (''latvia'', ''LV''), (''estonia'', ''EE''), (''slovenia'', ''SI''), (''slovakia'', ''SK''),
    (''hungary'', ''HU''), (''bulgaria'', ''BG''), (''albania'', ''AL''), (''northmacedonia'', ''MK''),
    (''north macedonia'', ''MK''), (''bosnia'', ''BA''), (''montenegro'', ''ME''), (''russia'', ''RU''),
    (''belarus'', ''BY''), (''kazakhstan'', ''KZ''), (''uzbekistan'', ''UZ''), (''puertorico'', ''PR''),
    (''puerto rico'', ''PR'')]"

definition ALPHA3_TO_ALPHA2 :: "(string \<times> string) list" where
  "ALPHA3_TO_ALPHA2 =
   [
    (''NGA'', ''NG''), (''NER'', ''NE''), (''GHA'', ''GH''), (''SEN'', ''SN''), (''CIV'', ''CI''), (''CMR'', ''CM''),
    (''SLE'', ''SL''), (''LBR'', ''LR''), (''GMB'', ''GM''), (''GIN'', ''GN''), (''MLI'', ''ML''), (''BEN'', ''BJ''),
    (''BFA'', ''BF''), (''TGO'', ''TG''), (''KEN'', ''KE''), (''TZA'', ''TZ''), (''UGA'', ''UG''), (''RWA'', ''RW''),
    (''ZMB'', ''ZM''), (''ZWE'', ''ZW''), (''MWI'', ''MW''), (''MOZ'', ''MZ''), (''ZAF'', ''ZA''), (''BWA'', ''BW''),
    (''NAM'', ''NA''), (''COD'', ''CD''), (''COG'', ''CG''), (''ETH'', ''ET''), (''SOM'', ''SO''), (''SDN'', ''SD''),
    (''MEX'', ''MX''), (''BRA'', ''BR''), (''ARG'', ''AR''), (''COL'', ''CO''), (''PER'', ''PE''), (''CHL'', ''CL''),
    (''ECU'', ''EC''), (''URY'', ''UY''), (''PRY'', ''PY''), (''VEN'', ''VE''), (''BOL'', ''BO''), (''CRI'', ''CR''),
    (''PAN'', ''PA''), (''GTM'', ''GT''), (''HND'', ''HN''), (''SLV'', ''SV''), (''NIC'', ''NI''), (''JAM'', ''JM''),
    (''HTI'', ''HT''), (''DOM'', ''DO''), (''USA'', ''US''), (''CAN'', ''CA''), (''IND'', ''IN''), (''PAK'', ''PK''),
    (''BGD'', ''BD''), (''PHL'', ''PH''), (''VNM'', ''VN''), (''IDN'', ''ID''), (''THA'', ''TH''), (''MYS'', ''MY''),
    (''SGP'', ''SG''), (''CHN'', ''CN''), (''JPN'', ''JP''), (''KOR'', ''KR''), (''NPL'', ''NP''), (''LKA'', ''LK''),
    (''MMR'', ''MM''), (''KHM'', ''KH''), (''AUS'', ''AU''), (''NZL'', ''NZ''), (''TUR'', ''TR''), (''UKR'', ''UA''),
    (''POL'', ''PL''), (''ROU'', ''RO''), (''MDA'', ''MD''), (''GEO'', ''GE''), (''ARM'', ''AM''), (''AZE'', ''AZ''),
    (''EGY'', ''EG''), (''MAR'', ''MA''), (''TUN'', ''TN''), (''DZA'', ''DZ''), (''ARE'', ''AE''), (''SAU'', ''SA''),
    (''QAT'', ''QA''), (''KWT'', ''KW''), (''BHR'', ''BH''), (''OMN'', ''OM''), (''JOR'', ''JO''), (''LBN'', ''LB''),
    (''IRQ'', ''IQ''), (''IRN'', ''IR''), (''ISR'', ''IL''), (''GBR'', ''GB''), (''DEU'', ''DE''), (''FRA'', ''FR''),
    (''ESP'', ''ES''), (''PRT'', ''PT''), (''ITA'', ''IT''), (''NLD'', ''NL''), (''BEL'', ''BE''), (''AUT'', ''AT''),
    (''CHE'', ''CH''), (''SWE'', ''SE''), (''NOR'', ''NO''), (''DNK'', ''DK''), (''FIN'', ''FI''), (''IRL'', ''IE''),
    (''ISL'', ''IS''), (''CZE'', ''CZ''), (''HRV'', ''HR''), (''SRB'', ''RS''), (''GRC'', ''GR''), (''CYP'', ''CY''),
    (''MLT'', ''MT''), (''LUX'', ''LU''), (''LTU'', ''LT''), (''LVA'', ''LV''), (''EST'', ''EE''), (''SVN'', ''SI''),
    (''SVK'', ''SK''), (''HUN'', ''HU''), (''BGR'', ''BG''), (''ALB'', ''AL''), (''MKD'', ''MK''), (''BIH'', ''BA''),
    (''MNE'', ''ME''), (''RUS'', ''RU''), (''BLR'', ''BY''), (''KAZ'', ''KZ''), (''UZB'', ''UZ''), (''PRI'', ''PR'')]"

definition ALPHA2 :: "string list" where
  "ALPHA2 = map snd TO_ALPHA2"

text \<open>
  Looking up a property of an object finds what it inherits from \<open>Object.prototype\<close> as well: of the
  inherited names, two have no capital letter.
\<close>

datatype country = Country string | InheritedProperty string | NoCountry

definition object_lookup :: "(string \<times> string) list \<Rightarrow> string \<Rightarrow> country" where
  "object_lookup table key =
     (case map_of table key of
        Some v \<Rightarrow> Country v
      | None \<Rightarrow> if key = ''constructor'' \<or> key = ''__proto__'' then InheritedProperty key else NoCountry)"

definition drop_punctuation :: "string \<Rightarrow> string" where
  "drop_punctuation s = filter (\<lambda>c. c \<noteq> CHR ''('' \<and> c \<noteq> CHR '')'' \<and> c \<noteq> CHR ''.'') s"

definition trimSpaceAndDashes :: "string \<Rightarrow> string" where
  "trimSpaceAndDashes s =
     (let edge = (\<lambda>c. c = CHR ''-'' \<or> is_ws c) in rev (dropWhile edge (rev (dropWhile edge s))))"

definition normaliseTail :: "string \<Rightarrow> string" where
  "normaliseTail segment = to_lower (trimSpaceAndDashes (drop_punctuation segment))"

definition toAlpha2 :: "string \<Rightarrow> country" where
  "toAlpha2 raw =
     (let cleaned = js_trim (drop_punctuation raw); upper = to_upper cleaned; key = normaliseTail cleaned in
      if cleaned = [] then NoCountry
      else if length upper = 2 \<and> upper \<in> set ALPHA2 then Country upper
      else if length upper = 3 \<and> map_of ALPHA3_TO_ALPHA2 upper \<noteq> None then Country (the (map_of ALPHA3_TO_ALPHA2 upper))
      else if length key = 2 \<and> to_upper key \<in> set ALPHA2 then Country (to_upper key)
      else object_lookup TO_ALPHA2 key)"

definition declaredCountry :: "string \<Rightarrow> country" where
  "declaredCountry toml =
     (if toml = [] then NoCountry
      else case orgPhysicalAddress toml of
        None \<Rightarrow> NoCountry
      | Some address \<Rightarrow> toAlpha2 (last (split_on (CHR '','') address)))"

subsection \<open>What is read\<close>

definition is_alpha2 :: "string \<Rightarrow> bool" where
  "is_alpha2 s = (length s = 2 \<and> list_all (\<lambda>c. let n = of_char c :: nat in 65 \<le> n \<and> n \<le> 90) s)"

lemma tables_alpha2:
  "list_all (\<lambda>e. is_alpha2 (snd e)) TO_ALPHA2" "list_all (\<lambda>e. is_alpha2 (snd e)) ALPHA3_TO_ALPHA2"
  by code_simp+

lemma lookup_alpha2: "list_all (\<lambda>e. is_alpha2 (snd e)) t \<Longrightarrow> map_of t k = Some v \<Longrightarrow> is_alpha2 v"
  by (auto simp: list_all_iff dest!: map_of_SomeD)

lemma toAlpha2_code:
  assumes "toAlpha2 raw = Country c"
  shows "is_alpha2 c"
  using assms lookup_alpha2 [OF tables_alpha2(1)] lookup_alpha2 [OF tables_alpha2(2)] tables_alpha2(1)
  by (auto simp: toAlpha2_def object_lookup_def Let_def ALPHA2_def list_all_iff split: if_splits option.splits)

text \<open>The table a line stands in: the last header before it.\<close>

definition table_after :: "string option \<Rightarrow> string list \<Rightarrow> string option" where
  "table_after t ls = foldl (\<lambda>t l. case table_header l of Some h \<Rightarrow> Some h | None \<Rightarrow> t) t ls"

lemma toAlpha2_inherited:
  assumes "toAlpha2 raw = InheritedProperty k"
  shows "k = ''constructor'' \<or> k = ''__proto__''"
  using assms unfolding toAlpha2_def object_lookup_def Let_def
  by (simp only: country.distinct country.inject split: if_split_asm option.split_asm)

lemma scan_address_from:
  assumes "scan_address t ls = Some v"
  shows "\<exists>before line after. ls = before @ line # after \<and> table_header line = None \<and>
    table_after t before \<in> {None, Some ''DOCUMENTATION''} \<and> non_blank (key_value ''ORG_PHYSICAL_ADDRESS'' line) = Some v"
  using assms
proof (induction ls arbitrary: t)
  case (Cons l ls)
  have step: ?case if ih: "scan_address u ls = Some v" and u: "table_after t [l] = u" for u
  proof -
    obtain before line after where "ls = before @ line # after" "table_header line = None"
      "table_after u before \<in> {None, Some ''DOCUMENTATION''}" "non_blank (key_value ''ORG_PHYSICAL_ADDRESS'' line) = Some v"
      using Cons.IH [OF ih] by blast
    then show ?thesis using u by (intro exI [of _ "l # before"] exI [of _ line] exI [of _ after]) (simp add: table_after_def)
  qed
  show ?case
  proof (cases "table_header l")
    case None
    show ?thesis
    proof (cases "non_blank (key_value ''ORG_PHYSICAL_ADDRESS'' l) = Some v \<and> t \<in> {None, Some ''DOCUMENTATION''}")
      case True
      then show ?thesis using None by (intro exI [of _ "[]"] exI [of _ l] exI [of _ ls]) (simp add: table_after_def)
    next
      case False
      then have "scan_address t ls = Some v" using Cons.prems None by (auto split: if_splits option.splits)
      then show ?thesis by (rule step) (simp add: table_after_def None)
    qed
  next
    case (Some h)
    then have "scan_address (Some h) ls = Some v" using Cons.prems by simp
    then show ?thesis by (rule step) (simp add: table_after_def Some)
  qed
qed simp

text \<open>
  A declared country is an ISO alpha-2 code, read from the last segment of an address on a line
  that stands at the document root or under [DOCUMENTATION]; what is not such a code is one of the two
  properties that every JavaScript object inherits.
\<close>

theorem declared_country_is_a_code:
  assumes "declaredCountry toml = c" and "c \<noteq> NoCountry"
  shows "\<exists>before line after address. toml_lines toml = before @ line # after \<and> table_header line = None \<and>
    table_after None before \<in> {None, Some ''DOCUMENTATION''} \<and>
    non_blank (key_value ''ORG_PHYSICAL_ADDRESS'' line) = Some address \<and> c = toAlpha2 (last (split_on (CHR '','') address)) \<and>
    ((\<exists>code. c = Country code \<and> is_alpha2 code) \<or> c \<in> {InheritedProperty ''constructor'', InheritedProperty ''__proto__''})"
proof -
  obtain address where a: "orgPhysicalAddress toml = Some address" "c = toAlpha2 (last (split_on (CHR '','') address))"
    using assms by (auto simp: declaredCountry_def split: if_splits option.splits)
  have "(\<exists>code. c = Country code \<and> is_alpha2 code) \<or> c \<in> {InheritedProperty ''constructor'', InheritedProperty ''__proto__''}"
  proof (cases c)
    case (Country code)
    have "is_alpha2 code" by (rule toAlpha2_code) (use a(2) Country in simp)
    then show ?thesis using Country by simp
  next
    case (InheritedProperty k)
    then show ?thesis using toAlpha2_inherited [of "last (split_on (CHR '','') address)" k] a(2) by simp
  qed (use assms in simp)
  moreover obtain before line after where "toml_lines toml = before @ line # after" "table_header line = None"
    "table_after None before \<in> {None, Some ''DOCUMENTATION''}"
    "non_blank (key_value ''ORG_PHYSICAL_ADDRESS'' line) = Some address"
    using scan_address_from [OF a(1) [unfolded orgPhysicalAddress_def]] by blast
  ultimately show ?thesis using a(2) by (intro exI [of _ before] exI [of _ line] exI [of _ after] exI [of _ address] conjI)
qed

lemma declared_country_is_a_code_witness:
  "\<exists>code. declaredCountry (''ORG_PHYSICAL_ADDRESS='' @ [CHR 0x27] @ ''Lagos, Nigeria'' @ [CHR 0x27]) = Country code \<and> is_alpha2 code"
proof -
  let ?t = "''ORG_PHYSICAL_ADDRESS='' @ [CHR 0x27] @ ''Lagos, Nigeria'' @ [CHR 0x27]"
  have c: "declaredCountry ?t = Country ''NG''" by code_simp
  show ?thesis using declared_country_is_a_code [OF c] c by auto
qed

text \<open>
  A United States address ending in a state's abbreviation is read as another country, and an address
  ending in the word constructor as a property of no country; a key inside a currency table is taken
  for the anchor's own endpoint.
\<close>

definition quote_line :: "string \<Rightarrow> string \<Rightarrow> string" where
  "quote_line key v = key @ ''='' @ [CHR 0x22] @ v @ [CHR 0x22]"

lemma judgement_calls:
  "declaredCountry (quote_line ''ORG_PHYSICAL_ADDRESS'' ''1 Market St, San Francisco, CA'') = Country ''CA''"
  "declaredCountry (quote_line ''ORG_PHYSICAL_ADDRESS'' ''Lagos, constructor'') = InheritedProperty ''constructor''"
  "tomlValue (''[[CURRENCIES]]'' @ [CHR 0x0A] @ quote_line ''KYC_SERVER'' ''https://x'') ''KYC_SERVER'' = Some ''https://x''"
  by code_simp+

end
