(* ===== verification/Probe.thy ===== *)
theory Probe
  imports UrlSafety Toml "HOL-Library.Word" "HOL-Library.Sublist"
begin

section \<open>Probing an anchor (packages/probe/src/index.ts)\<close>

text \<open>
  What an anchor advertises and what works when it is called, as bitmaps of 32 bits. The probes run
  one after the other over the outside world; \<open>fetch\<close>, the clock, the key pair of the SEP-10
  handshake, SHA-256, the URL parser, \<open>Date.parse\<close> and \<open>String\<close> of a JSON value are parameters, and
  so are the texts of the exceptions of the language. A JSON object lists its properties in the order
  in which JavaScript enumerates them.
\<close>

unbundle bit_operations_syntax

subsection \<open>Bitmaps\<close>

definition SEP_NUMBERS :: "int list" where
  "SEP_NUMBERS = [1, 6, 10, 12, 24, 31, 38]"

definition PROBE_NAMES :: "string list" where
  "PROBE_NAMES = [''toml_fetch'', ''sep10_auth'', ''sep38_quote'', ''sep12_status'', ''sep31_info'',
     ''sep6_info'', ''sep6_auth'']"

text \<open>\<open>1 << xs.indexOf(x)\<close>: the index is -1 for a stranger, and a shift counts modulo 32.\<close>

definition bit_at :: "'a list \<Rightarrow> 'a \<Rightarrow> 32 word" where
  "bit_at xs x = push_bit (if x \<in> set xs then length (takeWhile (\<lambda>y. y \<noteq> x) xs) else 31) 1"

definition sepBit :: "int \<Rightarrow> 32 word" where
  "sepBit sep = bit_at SEP_NUMBERS sep"

definition probeBit :: "string \<Rightarrow> 32 word" where
  "probeBit probe = bit_at PROBE_NAMES probe"

definition decode_mask :: "'a list \<Rightarrow> 32 word \<Rightarrow> 'a list" where
  "decode_mask xs m = map fst (filter (\<lambda>(_, i). m AND push_bit i 1 \<noteq> 0) (zip xs [0..<length xs]))"

definition decodeSeps :: "32 word \<Rightarrow> int list" where
  "decodeSeps m = decode_mask SEP_NUMBERS m"

definition decodeProbes :: "32 word \<Rightarrow> string list" where
  "decodeProbes m = decode_mask PROBE_NAMES m"

subsection \<open>Results\<close>

record probe_outcome =
  po_probe :: string
  po_passed :: bool
  po_detail :: string

record probe_result =
  pr_domain :: string
  pr_seps :: "32 word"
  pr_run :: "32 word"
  pr_passed :: "32 word"
  pr_tomlHash :: string
  pr_outcomes :: "probe_outcome list"
  pr_sep31ReceiveAssets :: "string list option"
  pr_receiveAssets :: "string list option"
  pr_country :: country
  pr_toml :: "string option"

definition ZERO_HASH :: string where
  "ZERO_HASH = replicate 64 (CHR ''0'')"

definition TOML_ENDPOINTS :: "(string \<times> int) list" where
  "TOML_ENDPOINTS =
     [(''TRANSFER_SERVER'', 6), (''WEB_AUTH_ENDPOINT'', 10), (''KYC_SERVER'', 12),
      (''TRANSFER_SERVER_SEP0024'', 24), (''DIRECT_PAYMENT_SERVER'', 31), (''ANCHOR_QUOTE_SERVER'', 38)]"

text \<open>The local variables that \<open>record\<close> updates.\<close>

record tally =
  tl_run :: "32 word"
  tl_passed :: "32 word"
  tl_outcomes :: "probe_outcome list"

definition record_probe :: "string \<Rightarrow> bool \<Rightarrow> string \<Rightarrow> tally \<Rightarrow> tally" where
  "record_probe probe passed detail t =
     t\<lparr>tl_run := tl_run t OR probeBit probe,
       tl_passed := (if passed then tl_passed t OR probeBit probe else tl_passed t),
       tl_outcomes := tl_outcomes t @ [\<lparr>po_probe = probe, po_passed = passed, po_detail = detail\<rparr>]\<rparr>"

subsection \<open>The network\<close>

record 'o probe_env =
  pe_fetch :: "http_request \<Rightarrow> ('o, string + response) port"
  pe_now :: "('o, int) port"
  pe_url :: "string \<Rightarrow> (string \<times> string) option"
  pe_sha256 :: "string \<Rightarrow> string"
  pe_publicKey :: string
  pe_sign :: "json \<Rightarrow> json \<Rightarrow> string + string"
  pe_parseDate :: "string \<Rightarrow> ms"
  pe_string :: "json \<Rightarrow> string"
  pe_encode :: "string \<Rightarrow> string"
  pe_typeError :: "string \<Rightarrow> string"
  pe_unreadable :: "response \<Rightarrow> string"

text \<open>A step of a \<open>try\<close> block: its value, or the message of what it threw.\<close>

type_synonym ('o, 'a) try_block = "('o, string + 'a) io"

definition fail_with :: "string \<Rightarrow> ('o, 'a) try_block" where
  "fail_with e = ret (Inl e)"

definition andThen :: "('o, 'a) try_block \<Rightarrow> ('a \<Rightarrow> ('o, 'b) try_block) \<Rightarrow> ('o, 'b) try_block" where
  "andThen m k = check m fail_with k"

definition call_port :: "('o, 'a) port \<Rightarrow> ('o, 'a) io" where
  "call_port p = (\<lambda>w. case p w of (a, w') \<Rightarrow> (Some a, w'))"

definition probe_get :: "'o probe_env \<Rightarrow> http_request \<Rightarrow> ('o, response) try_block" where
  "probe_get env q =
     (if \<not> isSafeUrl (pe_url env) (hq_url q) then fail_with (''refusing to fetch unsafe url: '' @ hq_url q)
      else call_port (pe_fetch env q))"

definition ok_get :: "'o probe_env \<Rightarrow> string \<Rightarrow> http_request \<Rightarrow> ('o, response) try_block" where
  "ok_get env what q =
     andThen (probe_get env q) (\<lambda>r.
       if \<not> res_ok r then fail_with (what @ ''HTTP '' @ show_int (rs_status r)) else ret (Inr r))"

definition text_body :: "'o probe_env \<Rightarrow> response \<Rightarrow> ('o, string) try_block" where
  "text_body env r = ret (case rs_text r of None \<Rightarrow> Inl (pe_unreadable env r) | Some t \<Rightarrow> Inr t)"

definition json_body :: "'o probe_env \<Rightarrow> response \<Rightarrow> ('o, json) try_block" where
  "json_body env r = ret (case rs_json r of None \<Rightarrow> Inl (pe_unreadable env r) | Some j \<Rightarrow> Inr j)"

text \<open>\<open>v.k\<close>, \<open>Object.entries(v ?? {})\<close> and \<open>v?.enabled === true\<close> on a JSON value.\<close>

definition prop_of :: "'o probe_env \<Rightarrow> json \<Rightarrow> string \<Rightarrow> ('o, json option) try_block" where
  "prop_of env v k =
     (case v of JNull \<Rightarrow> fail_with (pe_typeError env k) | _ \<Rightarrow> ret (Inr (prop_opt (Some v) k)))"

definition numbered :: "'a list \<Rightarrow> (string \<times> 'a) list" where
  "numbered xs = zip (map show_nat [0..<length xs]) xs"

definition js_entries :: "json option \<Rightarrow> (string \<times> json) list" where
  "js_entries v =
     (case v of
        Some (JObj o') \<Rightarrow> o'
      | Some (JArr xs) \<Rightarrow> numbered xs
      | Some (JStr s) \<Rightarrow> numbered (map (\<lambda>c. JStr [c]) s)
      | _ \<Rightarrow> [])"

definition enabled_assets :: "json option \<Rightarrow> string list" where
  "enabled_assets section =
     map fst (filter (\<lambda>(_, v). prop_opt (Some v) ''enabled'' = Some (JBool True)) (js_entries section))"

text \<open>\<open>[...new Set(xs)]\<close>: every element where it first occurs.\<close>

definition unique_of :: "'a list \<Rightarrow> 'a list" where
  "unique_of xs = rev (remdups (rev xs))"

subsection \<open>The probes\<close>

definition cut_mark :: string where
  "cut_mark = [CHR 0xE2, CHR 0x80, CHR 0xA6]"

definition fetch_toml :: "'o probe_env \<Rightarrow> string \<Rightarrow> ('o, string) try_block" where
  "fetch_toml env domain =
     andThen (ok_get env '''' (get_request (''https://'' @ domain @ ''/.well-known/stellar.toml'') [] []))
       (text_body env)"

definition read_endpoints :: "string \<Rightarrow> (int \<times> string) list" where
  "read_endpoints toml =
     concat (map (\<lambda>(key, sep). case tomlValue toml key of Some url \<Rightarrow> [(sep, url)] | None \<Rightarrow> []) TOML_ENDPOINTS)"

definition advertised :: "(int \<times> string) list \<Rightarrow> 32 word" where
  "advertised es = foldl (\<lambda>m (sep, _). m OR sepBit sep) (sepBit 1) es"

definition handshake_attempt :: "'o probe_env \<Rightarrow> string \<Rightarrow> string \<Rightarrow> ('o, json) try_block" where
  "handshake_attempt env domain webAuth =
     andThen (ok_get env ''challenge ''
       (get_request (webAuth @ ''?account='' @ pe_publicKey env @ ''&home_domain='' @ domain) [] [])) (\<lambda>cr.
     andThen (json_body env cr) (\<lambda>ch.
     andThen (prop_of env ch ''transaction'') (\<lambda>tx.
     andThen (prop_of env ch ''network_passphrase'') (\<lambda>np.
       if \<not> truthy_json tx \<or> \<not> truthy_json np then fail_with ''challenge missing transaction/network_passphrase''
       else
         andThen (ret (pe_sign env (the tx) (the np))) (\<lambda>xdr.
         andThen (ok_get env ''token '' (send_request POST webAuth [] (JObj [(''transaction'', JStr xdr)]))) (\<lambda>tr.
         andThen (json_body env tr) (\<lambda>out.
         andThen (prop_of env out ''token'') (\<lambda>token.
           if truthy_json token then ret (Inr (the token)) else fail_with ''no token returned'')))))))) "

definition bearer_of :: "'o probe_env \<Rightarrow> json option \<Rightarrow> (string \<times> string) list" where
  "bearer_of env token =
     (case token of Some t \<Rightarrow> [(''authorization'', ''Bearer '' @ pe_string env t)] | None \<Rightarrow> [])"

fun find_asset :: "(string \<Rightarrow> string) \<Rightarrow> string \<Rightarrow> json list \<Rightarrow> string + string option" where
  "find_asset err p [] = Inr None"
| "find_asset err p (a # rest) =
     (case prop_opt (Some a) ''asset'' of
        Some (JStr s) \<Rightarrow> if starts_with p s then Inr (Some s) else find_asset err p rest
      | _ \<Rightarrow> Inl (err ''asset''))"

definition first_asset :: "'o probe_env \<Rightarrow> string \<Rightarrow> json option \<Rightarrow> ('o, string option) try_block" where
  "first_asset env p assets =
     (case assets of
        None \<Rightarrow> ret (Inr None)
      | Some JNull \<Rightarrow> ret (Inr None)
      | Some (JArr as) \<Rightarrow> ret (find_asset (pe_typeError env) p as)
      | _ \<Rightarrow> fail_with (pe_typeError env ''find''))"

definition arrow :: string where
  "arrow = [CHR 0xE2, CHR 0x86, CHR 0x92]"

definition quote_attempt :: "'o probe_env \<Rightarrow> (int \<times> string) list \<Rightarrow> json option \<Rightarrow> string \<Rightarrow> ('o, string) try_block" where
  "quote_attempt env es token sep38 =
     andThen (ok_get env ''info '' (get_request (sep38 @ ''/info'') [] [])) (\<lambda>ir.
     andThen (json_body env ir) (\<lambda>info.
     andThen (prop_of env info ''assets'') (\<lambda>assets.
     andThen (first_asset env ''stellar:'' assets) (\<lambda>sell.
     andThen (first_asset env ''iso4217:'' assets) (\<lambda>buy.
       if sell = None \<or> buy = None then fail_with (''no stellar'' @ arrow @ ''fiat pair advertised'')
       else
         let context = (if map_of es 6 \<noteq> None \<and> map_of es 31 = None then ''sep6'' else ''sep31'') in
         andThen (ok_get env ''quote ''
           (send_request POST (sep38 @ ''/quote'') (bearer_of env token)
             (JObj [(''context'', JStr context), (''sell_asset'', JStr (the sell)),
                    (''buy_asset'', JStr (the buy)), (''sell_amount'', JStr ''10'')]))) (\<lambda>qr.
         andThen (json_body env qr) (\<lambda>q.
         andThen (prop_of env q ''expires_at'') (\<lambda>at.
           let text = (case at of Some v \<Rightarrow> pe_string env v | None \<Rightarrow> ''undefined'') in
           case (if truthy_json at then pe_parseDate env text else NaN) of
             NaN \<Rightarrow> fail_with ''quote has no parsable expires_at''
           | Ms expiry \<Rightarrow>
               bnd (call_port (pe_now env)) (\<lambda>now.
                 if expiry \<le> now then fail_with (''quote already expired ('' @ text @ '')'')
                 else ret (Inr (''firm quote expires '' @ text)))))))))))"

text \<open>A 4xx is a valid answer to the two status probes.\<close>

definition status_attempt :: "'o probe_env \<Rightarrow> http_request \<Rightarrow> ('o, string) try_block" where
  "status_attempt env q =
     andThen (probe_get env q) (\<lambda>r.
       if rs_status r \<ge> 500 then fail_with (''HTTP '' @ show_int (rs_status r))
       else ret (Inr (''HTTP '' @ show_int (rs_status r))))"

definition sep31_attempt :: "'o probe_env \<Rightarrow> json option \<Rightarrow> string \<Rightarrow> ('o, string list) try_block" where
  "sep31_attempt env token sep31 =
     andThen (ok_get env '''' (get_request (sep31 @ ''/info'') [] (bearer_of env token))) (\<lambda>r.
     andThen (json_body env r) (\<lambda>j.
     andThen (prop_of env j ''receive'') (\<lambda>receive.
       let assets = map fst (js_entries receive) in
       if assets = [] then
         fail_with (''receive list is EMPTY '' @ dash @ '' advertises SEP-31 but accepts nothing'')
       else ret (Inr assets))))"

definition sep6_attempt :: "'o probe_env \<Rightarrow> json option \<Rightarrow> string \<Rightarrow> ('o, string list) try_block" where
  "sep6_attempt env token sep6 =
     andThen (ok_get env '''' (get_request (sep6 @ ''/info'') [] (bearer_of env token))) (\<lambda>r.
     andThen (json_body env r) (\<lambda>j.
     andThen (prop_of env j ''withdraw'') (\<lambda>withdraw.
     andThen (prop_of env j ''withdraw-exchange'') (\<lambda>exchange.
       let assets = unique_of (enabled_assets withdraw @ enabled_assets exchange) in
       if assets = [] then
         fail_with (''withdraw list is EMPTY '' @ dash @ '' advertises SEP-6 but withdraws nothing'')
       else ret (Inr assets)))))"

text \<open>
  A \<open>try\<close> block with its \<open>record\<close> calls: what it learned, when it succeeded, and the tally. A probe
  whose condition fails is not attempted.
\<close>

definition attempted :: "string \<Rightarrow> ('a \<Rightarrow> string) \<Rightarrow> ('o, 'a) try_block \<Rightarrow> tally \<Rightarrow> ('o, 'a option \<times> tally) io" where
  "attempted probe say m t =
     check m (\<lambda>e. ret (None, record_probe probe False e t))
       (\<lambda>v. ret (Some v, record_probe probe True (say v) t))"

definition when_given :: "'b option \<Rightarrow> ('b \<Rightarrow> tally \<Rightarrow> ('o, 'a option \<times> tally) io) \<Rightarrow> tally \<Rightarrow> ('o, 'a option \<times> tally) io" where
  "when_given c run t = (case c of Some x \<Rightarrow> run x t | None \<Rightarrow> ret (None, t))"

definition probe_endpoints ::
  "'o probe_env \<Rightarrow> string \<Rightarrow> (int \<times> string) list \<Rightarrow> tally \<Rightarrow> ('o, string list option \<times> tally) io" where
  "probe_endpoints env domain es t0 =
     bnd (when_given (map_of es 10) (\<lambda>web. attempted ''sep10_auth'' (\<lambda>_. ''challenge signed, JWT issued'')
            (handshake_attempt env domain web)) t0) (\<lambda>(token, t1).
     bnd (when_given (map_of es 38) (\<lambda>url. attempted ''sep38_quote'' (\<lambda>d. d) (quote_attempt env es token url)) t1)
       (\<lambda>(_, t2).
     bnd (when_given (if token = None then None else map_of es 12) (\<lambda>kyc. attempted ''sep12_status'' (\<lambda>d. d)
            (status_attempt env (get_request (kyc @ ''/customer?type=sep31-receiver'') [] (bearer_of env token)))) t2)
       (\<lambda>(_, t3).
     bnd (when_given (map_of es 31) (\<lambda>url. attempted ''sep31_info'' (\<lambda>as. ''receives '' @ join '', '' as)
            (sep31_attempt env token url)) t3) (\<lambda>(receive, t4).
     bnd (when_given (map_of es 6) (\<lambda>url. attempted ''sep6_info'' (\<lambda>as. ''withdraws '' @ join '', '' as)
            (sep6_attempt env token url)) t4) (\<lambda>(withdraw, t5).
       let asset = (case withdraw of Some (a # _) \<Rightarrow> a | _ \<Rightarrow> '''') in
     bnd (when_given (if token = None \<or> asset = '''' then None else map_of es 6) (\<lambda>url. attempted ''sep6_auth'' (\<lambda>d. d)
            (status_attempt env (get_request (url @ ''/transactions?asset_code='' @ pe_encode env asset) []
               (bearer_of env token)))) t5) (\<lambda>(_, t6).
       ret (receive, t6)))))))"

definition probeAnchor :: "'o probe_env \<Rightarrow> string \<Rightarrow> ('o, probe_result) io" where
  "probeAnchor env domain =
     (let empty = \<lparr>tl_run = 0, tl_passed = 0, tl_outcomes = []\<rparr> in
      check (fetch_toml env domain)
        (\<lambda>e. let t = record_probe ''toml_fetch'' False e empty in
           ret \<lparr>pr_domain = domain, pr_seps = 0, pr_run = tl_run t, pr_passed = tl_passed t,
             pr_tomlHash = ZERO_HASH, pr_outcomes = tl_outcomes t, pr_sep31ReceiveAssets = None,
             pr_receiveAssets = None, pr_country = NoCountry, pr_toml = None\<rparr>)
        (\<lambda>toml.
           let hash = tomlHash (pe_sha256 env) toml;
               es = read_endpoints toml;
               t0 = record_probe ''toml_fetch'' True (''sha256 '' @ take 16 hash @ cut_mark) empty
           in bnd (probe_endpoints env domain es t0) (\<lambda>(receive, t).
             ret \<lparr>pr_domain = domain, pr_seps = advertised es, pr_run = tl_run t, pr_passed = tl_passed t,
               pr_tomlHash = hash, pr_outcomes = tl_outcomes t, pr_sep31ReceiveAssets = receive,
               pr_receiveAssets = receive, pr_country = declaredCountry toml, pr_toml = Some toml\<rparr>)))"

definition parseProbeArgs :: "string list \<Rightarrow> string option \<times> bool" where
  "parseProbeArgs args =
     foldl (\<lambda>(domain, json) arg.
       if arg = ''--json'' then (domain, True)
       else if \<not> starts_with ''-'' arg \<and> \<not> truthy domain then (Some arg, json)
       else (domain, json)) (None, False) args"

subsection \<open>Bitmaps and lists of names\<close>

definition mask_of :: "'a list \<Rightarrow> 'a list \<Rightarrow> 32 word" where
  "mask_of xs ns = foldl (\<lambda>m n. m OR bit_at xs n) 0 ns"

lemma mask_of_snoc [simp]: "mask_of xs (ns @ [n]) = mask_of xs ns OR bit_at xs n"
  by (simp add: mask_of_def)

lemma mask_of_Nil [simp]: "mask_of xs [] = 0"
  by (simp add: mask_of_def)

lemma takeWhile_nth:
  assumes "distinct xs" "i < length xs"
  shows "length (takeWhile (\<lambda>y. y \<noteq> xs ! i) xs) = i"
  using assms
proof (induction xs arbitrary: i)
  case (Cons a xs)
  show ?case
  proof (cases i)
    case (Suc j)
    with Cons.prems have "a \<noteq> xs ! j" "j < length xs" by auto
    then show ?thesis using Cons.IH [of j] Cons.prems(1) Suc by simp
  qed simp
qed simp

lemma bit_at_nth: "distinct xs \<Longrightarrow> i < length xs \<Longrightarrow> bit_at xs (xs ! i) = push_bit i 1"
  by (simp add: bit_at_def takeWhile_nth)

lemma bit_push_one: "i < 32 \<Longrightarrow> bit (push_bit i (1 :: 32 word)) j \<longleftrightarrow> i = j"
  by (auto simp: bit_simps)

lemma bit_mask_of:
  assumes "distinct xs" "length xs \<le> 32" "set ns \<subseteq> set xs" "i < length xs"
  shows "bit (mask_of xs ns) i \<longleftrightarrow> xs ! i \<in> set ns"
  using assms(3)
proof (induction ns rule: rev_induct)
  case (snoc n ns)
  then obtain j where j: "j < length xs" "n = xs ! j" by (auto simp: in_set_conv_nth)
  then have "bit (bit_at xs n) i \<longleftrightarrow> i = j" using assms bit_at_nth [of xs j] bit_push_one [of j i] by auto
  then show ?case using snoc j assms(1,4) nth_eq_iff_index_eq [of xs i j] by (auto simp: bit_simps)
qed simp

lemma decode_mask_filter: "decode_mask xs m = map fst (filter (\<lambda>(_, i). bit m i) (zip xs [0..<length xs]))"
  by (simp add: decode_mask_def and_exp_eq_0_iff_not_bit)

lemma decode_mask_of:
  assumes "distinct xs" "length xs \<le> 32" "set ns \<subseteq> set xs"
  shows "decode_mask xs (mask_of xs ns) = filter (\<lambda>x. x \<in> set ns) xs"
proof -
  have "filter (\<lambda>(_, i). bit (mask_of xs ns) i) (zip xs [0..<length xs]) = filter (\<lambda>(x, _). x \<in> set ns) (zip xs [0..<length xs])"
    using bit_mask_of [OF assms] by (intro filter_cong) (auto simp: set_zip)
  also have "map fst \<dots> = filter (\<lambda>x. x \<in> set ns) (map fst (zip xs [0..<length xs]))"
    by (simp only: filter_map comp_def case_prod_unfold)
  finally show ?thesis by (simp add: decode_mask_filter)
qed

lemma subseq_mem: "subseq ns xs \<Longrightarrow> set ns \<subseteq> set xs"
  by (auto elim: list_emb_set)

lemma subseq_filter:
  assumes "subseq ns xs" "distinct xs"
  shows "filter (\<lambda>x. x \<in> set ns) xs = ns"
  using assms
proof (induction rule: list_emb.induct)
  case (list_emb_Cons xs ys y)
  then have "y \<notin> set xs" using subseq_mem by auto
  then show ?case using list_emb_Cons by simp
next
  case (list_emb_Cons2 x y xs ys)
  then have "x = y" "y \<notin> set ys" "filter (\<lambda>x. x \<in> set xs) ys = xs" by auto
  moreover from this(2) have "filter (\<lambda>z. z = y \<or> z \<in> set xs) ys = filter (\<lambda>z. z \<in> set xs) ys"
    by (intro filter_cong) auto
  ultimately show ?case by simp
qed simp

lemma decode_subseq:
  "subseq ns xs \<Longrightarrow> distinct xs \<Longrightarrow> length xs \<le> 32 \<Longrightarrow> decode_mask xs (mask_of xs ns) = ns"
  using decode_mask_of [of xs ns] subseq_filter [of ns xs] subseq_mem [of ns xs] by simp

lemma tables_distinct [simp]: "distinct SEP_NUMBERS" "distinct PROBE_NAMES"
  "length SEP_NUMBERS = 7" "length PROBE_NAMES = 7"
  by (simp_all add: SEP_NUMBERS_def PROBE_NAMES_def)

subsection \<open>What a tally holds\<close>

definition names_of :: "probe_outcome list \<Rightarrow> string list" where
  "names_of os = map po_probe os"

definition tallied :: "string list \<Rightarrow> tally \<Rightarrow> bool" where
  "tallied ps t \<longleftrightarrow> subseq (names_of (tl_outcomes t)) ps \<and> tl_run t = mask_of PROBE_NAMES (names_of (tl_outcomes t)) \<and>
     tl_passed t = mask_of PROBE_NAMES (names_of (filter po_passed (tl_outcomes t)))"

lemma tallied_record: "tallied ps t \<Longrightarrow> tallied (ps @ [p]) (record_probe p b d t)"
  by (simp add: tallied_def record_probe_def names_of_def probeBit_def list_emb_append_mono)

lemma tallied_skip: "tallied ps t \<Longrightarrow> tallied (ps @ [p]) t"
  using list_emb_append_mono [of "(=)" "names_of (tl_outcomes t)" ps "[]" "[p]"] by (simp add: tallied_def)

lemma tallied_bnd:
  assumes "tallied ps t" and "\<And>v t'. tallied (ps @ [p]) t' \<Longrightarrow> yields (f (v, t')) R"
  shows "yields (bnd (when_given c (\<lambda>x. attempted p say (m x)) t) f) R"
proof (rule yields_bnd)
  show "yields (when_given c (\<lambda>x. attempted p say (m x)) t) (\<lambda>(_, t'). tallied (ps @ [p]) t')"
    unfolding when_given_def attempted_def
    by (intro yields_rules) (auto intro!: yields_rules simp: assms(1) tallied_record tallied_skip)
qed (auto intro: assms(2))

lemma tallied_endpoints:
  assumes "tallied ps t"
  shows "yields (probe_endpoints env domain es t)
    (\<lambda>(_, t'). tallied (ps @ [''sep10_auth'', ''sep38_quote'', ''sep12_status'', ''sep31_info'', ''sep6_info'', ''sep6_auth'']) t')"
  unfolding probe_endpoints_def Let_def
  by (rule tallied_bnd [OF assms], simp only: prod.case, erule tallied_bnd, simp only: prod.case,
      erule tallied_bnd, simp only: prod.case, erule tallied_bnd, simp only: prod.case,
      erule tallied_bnd, simp only: prod.case, erule tallied_bnd, simp only: prod.case)
    (rule yields_ret, simp)

lemma returns_fail [returns_rules]: "returns (fail_with e)"
  by (simp add: fail_with_def returns_ret)

lemma returns_andThen [returns_rules]: "returns m \<Longrightarrow> (\<And>x. returns (k x)) \<Longrightarrow> returns (andThen m k)"
  unfolding andThen_def by (intro returns_rules) auto

lemma returns_port [returns_rules]: "returns (call_port p)"
  by (simp add: returns_def call_port_def split: prod.splits)

lemma returns_steps [returns_rules]:
  "returns (probe_get env q)" "returns (ok_get env what q)" "returns (text_body env r)" "returns (json_body env r)"
  "returns (prop_of env v k)" "returns (first_asset env p as)" "returns (status_attempt env q)" "returns (fetch_toml env domain)"
  unfolding probe_get_def ok_get_def text_body_def json_body_def prop_of_def first_asset_def status_attempt_def fetch_toml_def
  by (auto intro!: returns_rules returns_if split: json.splits option.splits)

lemma returns_attempts [returns_rules]:
  "returns (handshake_attempt env domain web)" "returns (quote_attempt env es token url)"
  "returns (sep31_attempt env token url)" "returns (sep6_attempt env token url)"
  unfolding handshake_attempt_def quote_attempt_def sep31_attempt_def sep6_attempt_def Let_def
  by (auto intro!: returns_rules split: ms.splits)

lemma returns_tried [returns_rules]: "(\<And>x. returns (m x)) \<Longrightarrow> returns (when_given c (\<lambda>x. attempted p say (m x)) t)"
  unfolding when_given_def attempted_def by (auto intro!: returns_rules split: option.splits)

lemma returns_endpoints [returns_rules]: "returns (probe_endpoints env domain es t)"
  unfolding probe_endpoints_def Let_def by (auto intro!: returns_rules)

lemma returns_probeAnchor [returns_rules]: "returns (probeAnchor env domain)"
  unfolding probeAnchor_def Let_def by (auto intro!: returns_rules)

text \<open>The SEP-31 probe passes exactly when it brings home a list of assets, and never an empty one.\<close>

definition passes :: "string \<Rightarrow> tally \<Rightarrow> bool" where
  "passes p t \<longleftrightarrow> p \<in> set (names_of (filter po_passed (tl_outcomes t)))"

lemma passes_record: "passes q (record_probe p b d t) \<longleftrightarrow> passes q t \<or> (b \<and> p = q)"
  by (auto simp: passes_def record_probe_def names_of_def)

lemma passes_bnd:
  assumes "passes q t = b" and "p \<noteq> q" and "\<And>v t'. passes q t' = b \<Longrightarrow> yields (f (v, t')) R"
  shows "yields (bnd (when_given c (\<lambda>x. attempted p say (m x)) t) f) R"
proof (rule yields_bnd)
  show "yields (when_given c (\<lambda>x. attempted p say (m x)) t) (\<lambda>(_, t'). passes q t' = b)"
    unfolding when_given_def attempted_def
    by (intro yields_rules) (auto intro!: yields_rules simp: assms(1,2) passes_record)
qed (auto intro: assms(3))

lemma yields_nonempty: "yields (sep31_attempt env token url) (\<lambda>v. v \<noteq> Inr [])"
  unfolding sep31_attempt_def andThen_def fail_with_def Let_def by (intro yields_rules yields_if) auto

lemma receives_sep31:
  assumes "\<not> passes ''sep31_info'' t" and "\<And>v t'. passes ''sep31_info'' t' = (v \<noteq> None) \<Longrightarrow> v \<noteq> Some [] \<Longrightarrow> yields (f (v, t')) R"
  shows "yields (bnd (when_given c (\<lambda>url. attempted ''sep31_info'' say (sep31_attempt env token url)) t) f) R"
proof (rule yields_bnd)
  show "yields (when_given c (\<lambda>url. attempted ''sep31_info'' say (sep31_attempt env token url)) t)
    (\<lambda>(v, t'). passes ''sep31_info'' t' = (v \<noteq> None) \<and> v \<noteq> Some [])"
    unfolding when_given_def attempted_def check_def
    by (intro yields_rules yields_bnd [OF yields_nonempty])
      (auto intro!: yields_rules simp: assms(1) passes_record split: sum.splits)
qed (auto intro: assms(2))

lemma receives_endpoints:
  assumes "\<not> passes ''sep31_info'' t"
  shows "yields (probe_endpoints env domain es t) (\<lambda>(v, t'). passes ''sep31_info'' t' = (v \<noteq> None) \<and> v \<noteq> Some [])"
  using assms unfolding probe_endpoints_def Let_def
  by - (rule passes_bnd [where b = False], simp, simp, simp only: prod.case,
      rule passes_bnd [where b = False], simp, simp, simp only: prod.case,
      rule passes_bnd [where b = False], simp, simp, simp only: prod.case,
      rule receives_sep31, simp, simp only: prod.case,
      erule passes_bnd, simp, simp only: prod.case, erule passes_bnd, simp, simp only: prod.case, rule yields_ret, simp)

lemma toml_passes_endpoints:
  assumes "passes ''toml_fetch'' t"
  shows "yields (probe_endpoints env domain es t) (\<lambda>(_, t'). passes ''toml_fetch'' t')"
  using assms unfolding probe_endpoints_def Let_def
  by - (rule passes_bnd [where b = True], simp, simp, simp only: prod.case,
      erule passes_bnd, simp, simp only: prod.case, erule passes_bnd, simp, simp only: prod.case,
      erule passes_bnd, simp, simp only: prod.case, erule passes_bnd, simp, simp only: prod.case,
      erule passes_bnd, simp, simp only: prod.case, rule yields_ret, simp)

subsection \<open>The result is honest\<close>

text \<open>
  The bitmaps say what the outcomes say, what passed was run, and nothing is claimed without a
  stellar.toml: what a result promises to whoever attests it.
\<close>

definition honest_result :: "'o probe_env \<Rightarrow> probe_result \<Rightarrow> bool" where
  "honest_result env r \<longleftrightarrow>
     decodeProbes (pr_run r) = names_of (pr_outcomes r) \<and>
     decodeProbes (pr_passed r) = names_of (filter po_passed (pr_outcomes r)) \<and>
     pr_passed r AND NOT (pr_run r) = 0 \<and>
     (''sep31_info'' \<in> set (decodeProbes (pr_passed r)) \<longleftrightarrow> pr_receiveAssets r \<noteq> None) \<and> pr_receiveAssets r \<noteq> Some [] \<and>
     (case pr_toml r of
        None \<Rightarrow> decodeProbes (pr_run r) = [''toml_fetch''] \<and> pr_passed r = 0 \<and> pr_seps r = 0 \<and> pr_tomlHash r = ZERO_HASH
      | Some toml \<Rightarrow> ''toml_fetch'' \<in> set (decodeProbes (pr_passed r)) \<and> pr_tomlHash r = tomlHash (pe_sha256 env) toml \<and>
          decodeSeps (pr_seps r) = filter (\<lambda>sep. sep = 1 \<or> (\<exists>key. (key, sep) \<in> set TOML_ENDPOINTS \<and> tomlValue toml key \<noteq> None)) SEP_NUMBERS)"

lemma bit_mask_of_any: "bit (mask_of xs ns) i \<longleftrightarrow> (\<exists>n \<in> set ns. bit (bit_at xs n) i)"
  by (induction ns rule: rev_induct) (auto simp: bit_simps)

lemma mask_of_mono: "set ms \<subseteq> set ns \<Longrightarrow> mask_of xs ms AND NOT (mask_of xs ns) = 0"
  by (rule bit_eqI) (auto simp: bit_simps bit_mask_of_any)

lemma advertised_mask: "advertised es = mask_of SEP_NUMBERS (1 # map fst es)"
proof -
  have "foldl (\<lambda>m (sep, _). m OR sepBit sep) m es = foldl (\<lambda>m n. m OR bit_at SEP_NUMBERS n) m (map fst es)" for m
    by (induction es arbitrary: m) (auto simp: sepBit_def)
  then show ?thesis by (simp add: advertised_def mask_of_def sepBit_def)
qed

lemma endpoint_listed:
  "(sep, url) \<in> set (concat (map (\<lambda>(key, sep). case f key of Some url \<Rightarrow> [(sep, url)] | None \<Rightarrow> []) es)) \<longleftrightarrow>
     (\<exists>key. (key, sep) \<in> set es \<and> f key = Some url)"
  by (induction es) (auto split: option.splits)

lemma endpoint_seps: "set (map fst (read_endpoints toml)) = {sep. \<exists>key. (key, sep) \<in> set TOML_ENDPOINTS \<and> tomlValue toml key \<noteq> None}"
proof -
  have "sep \<in> set (map fst (read_endpoints toml)) \<longleftrightarrow> (\<exists>url. (sep, url) \<in> set (read_endpoints toml))" for sep by force
  then show ?thesis unfolding read_endpoints_def endpoint_listed by blast
qed

lemma decode_advertised:
  "decodeSeps (advertised (read_endpoints toml)) =
     filter (\<lambda>sep. sep = 1 \<or> (\<exists>key. (key, sep) \<in> set TOML_ENDPOINTS \<and> tomlValue toml key \<noteq> None)) SEP_NUMBERS"
proof -
  let ?ns = "1 # map fst (read_endpoints toml)"
  have "set ?ns \<subseteq> set SEP_NUMBERS"
    using endpoint_seps [of toml] by (auto simp: TOML_ENDPOINTS_def SEP_NUMBERS_def)
  then have "decodeSeps (advertised (read_endpoints toml)) = filter (\<lambda>x. x \<in> set ?ns) SEP_NUMBERS"
    unfolding decodeSeps_def advertised_mask by (intro decode_mask_of) simp_all
  also have "\<dots> = filter (\<lambda>sep. sep = 1 \<or> (\<exists>key. (key, sep) \<in> set TOML_ENDPOINTS \<and> tomlValue toml key \<noteq> None)) SEP_NUMBERS"
    unfolding set_simps endpoint_seps by (intro filter_cong) auto
  finally show ?thesis .
qed

lemma decode_tallied:
  assumes "tallied PROBE_NAMES t"
  shows "decodeProbes (tl_run t) = names_of (tl_outcomes t)"
    "decodeProbes (tl_passed t) = names_of (filter po_passed (tl_outcomes t))"
    "tl_passed t AND NOT (tl_run t) = 0"
proof -
  have "subseq (names_of (filter po_passed (tl_outcomes t))) (names_of (tl_outcomes t))"
    unfolding names_of_def by (intro subseq_map subseq_filter_left)
  then have "subseq (names_of (filter po_passed (tl_outcomes t))) PROBE_NAMES"
    using assms unfolding tallied_def by (blast intro: subseq_order.order_trans)
  then show "decodeProbes (tl_passed t) = names_of (filter po_passed (tl_outcomes t))"
    using assms by (simp add: decodeProbes_def tallied_def decode_subseq)
  show "decodeProbes (tl_run t) = names_of (tl_outcomes t)"
    using assms by (simp add: decodeProbes_def tallied_def decode_subseq)
  show "tl_passed t AND NOT (tl_run t) = 0"
    using assms mask_of_mono [of "names_of (filter po_passed (tl_outcomes t))" "names_of (tl_outcomes t)"]
    by (auto simp: tallied_def names_of_def)
qed

lemma tallied_fetch:
  "tallied [''toml_fetch''] (record_probe ''toml_fetch'' b d \<lparr>tl_run = 0, tl_passed = 0, tl_outcomes = []\<rparr>)"
  using tallied_record [of "[]" "\<lparr>tl_run = 0, tl_passed = 0, tl_outcomes = []\<rparr>"] by (simp add: tallied_def names_of_def)

lemma yields_conj: "yields m P \<Longrightarrow> yields m Q \<Longrightarrow> yields m (\<lambda>x. P x \<and> Q x)"
  unfolding yields_def wp_def by (simp split: prod.splits option.splits) blast

lemma endpoints_good:
  fixes d
  defines "t0 \<equiv> record_probe ''toml_fetch'' True d \<lparr>tl_run = 0, tl_passed = 0, tl_outcomes = []\<rparr>"
  shows "yields (probe_endpoints env domain es t0) (\<lambda>x. (case x of (_, t) \<Rightarrow> tallied PROBE_NAMES t) \<and>
    (case x of (v, t) \<Rightarrow> passes ''sep31_info'' t = (v \<noteq> None) \<and> v \<noteq> Some []) \<and> (case x of (_, t) \<Rightarrow> passes ''toml_fetch'' t))"
proof (intro yields_conj)
  show "yields (probe_endpoints env domain es t0) (\<lambda>(_, t). tallied PROBE_NAMES t)"
    using tallied_endpoints [OF tallied_fetch, of env domain es True d] by (simp add: t0_def PROBE_NAMES_def)
  show "yields (probe_endpoints env domain es t0) (\<lambda>(v, t). passes ''sep31_info'' t = (v \<noteq> None) \<and> v \<noteq> Some [])"
    by (rule receives_endpoints) (simp add: t0_def passes_record, simp add: passes_def names_of_def)
  show "yields (probe_endpoints env domain es t0) (\<lambda>(_, t). passes ''toml_fetch'' t)"
    by (rule toml_passes_endpoints) (simp add: t0_def passes_record)
qed

lemma probe_yields_honest: "yields (probeAnchor env domain) (honest_result env)"
proof -
  have none: "decodeProbes (probeBit ''toml_fetch'') = [''toml_fetch'']" "decodeProbes 0 = []" by code_simp+
  show ?thesis unfolding probeAnchor_def Let_def
  proof (intro yields_check yields_ret yields_bnd [OF endpoints_good])
    fix e show "honest_result env \<lparr>pr_domain = domain, pr_seps = 0,
        pr_run = tl_run (record_probe ''toml_fetch'' False e \<lparr>tl_run = 0, tl_passed = 0, tl_outcomes = []\<rparr>),
        pr_passed = tl_passed (record_probe ''toml_fetch'' False e \<lparr>tl_run = 0, tl_passed = 0, tl_outcomes = []\<rparr>),
        pr_tomlHash = ZERO_HASH, pr_outcomes = tl_outcomes (record_probe ''toml_fetch'' False e \<lparr>tl_run = 0, tl_passed = 0, tl_outcomes = []\<rparr>),
        pr_sep31ReceiveAssets = None, pr_receiveAssets = None, pr_country = NoCountry, pr_toml = None\<rparr>"
      by (simp add: honest_result_def record_probe_def names_of_def none)
  qed (auto intro!: yields_ret simp: honest_result_def decode_tallied passes_def decode_advertised)
qed

text \<open>
  C23: Every probe returns a result whose bitmaps say what its outcomes say: run and passed decode to
  the probes attempted and passed, in order; what passed was run; without a stellar.toml nothing else is
  claimed; with one, the advertised SEPs are those whose endpoint the file gives, and the SEP-31 bit is
  set exactly when a nonempty list of receive assets was read.
\<close>

theorem probe_is_honest: "\<exists>r w'. probeAnchor env domain w = (Some r, w') \<and> honest_result env r"
proof -
  obtain r w' where run: "probeAnchor env domain w = (Some r, w')"
    using returnsD [OF returns_probeAnchor [of env domain], of w] by blast
  then show ?thesis using yieldsD [OF probe_yields_honest run] by blast
qed

text \<open>
  C24: No probe dereferences a URL that is not safe: two networks that answer the safe URLs alike give
  the same result, whatever they answer at the others.
\<close>

theorem unsafe_urls_never_fetched:
  assumes "\<And>q. isSafeUrl (pe_url env) (hq_url q) \<Longrightarrow> other q = pe_fetch env q"
  shows "probeAnchor (env\<lparr>pe_fetch := other\<rparr>) domain = probeAnchor env domain"
proof -
  have get [simp]: "probe_get (env\<lparr>pe_fetch := other\<rparr>) q = probe_get env q" for q
    using assms by (simp add: probe_get_def)
  have ok [simp]: "ok_get (env\<lparr>pe_fetch := other\<rparr>) what q = ok_get env what q" for what q
    by (simp add: ok_get_def)
  have parts [simp]: "text_body (env\<lparr>pe_fetch := other\<rparr>) = text_body env" "json_body (env\<lparr>pe_fetch := other\<rparr>) = json_body env"
    "prop_of (env\<lparr>pe_fetch := other\<rparr>) = prop_of env" "first_asset (env\<lparr>pe_fetch := other\<rparr>) = first_asset env"
    "bearer_of (env\<lparr>pe_fetch := other\<rparr>) = bearer_of env"
    by (intro ext, simp add: text_body_def json_body_def prop_of_def first_asset_def bearer_of_def
          cong: option.case_cong json.case_cong)+
  have attempts [simp]: "handshake_attempt (env\<lparr>pe_fetch := other\<rparr>) domain = handshake_attempt env domain"
    "quote_attempt (env\<lparr>pe_fetch := other\<rparr>) = quote_attempt env"
    "status_attempt (env\<lparr>pe_fetch := other\<rparr>) = status_attempt env"
    "sep31_attempt (env\<lparr>pe_fetch := other\<rparr>) = sep31_attempt env"
    "sep6_attempt (env\<lparr>pe_fetch := other\<rparr>) = sep6_attempt env" for domain
    by (intro ext, simp add: handshake_attempt_def quote_attempt_def status_attempt_def sep31_attempt_def
          sep6_attempt_def Let_def cong: if_cong option.case_cong ms.case_cong)+
  show ?thesis by (simp add: probeAnchor_def probe_endpoints_def fetch_toml_def Let_def)
qed

definition demo_probe :: "int probe_env" where
  "demo_probe = \<lparr>pe_fetch = (\<lambda>q w. (Inl ''connection refused'', w + 1)), pe_now = (\<lambda>w. (w, w)),
     pe_url = (\<lambda>u. if u = ''https://10.0.0.1/.well-known/stellar.toml'' then Some (''https:'', ''10.0.0.1'') else None),
     pe_sha256 = (\<lambda>s. s), pe_publicKey = ''G'', pe_sign = (\<lambda>_ _. Inl ''no XDR''), pe_parseDate = (\<lambda>_. NaN),
     pe_string = (\<lambda>_. ''''), pe_encode = (\<lambda>s. s), pe_typeError = (\<lambda>s. s), pe_unreadable = (\<lambda>_. '''')\<rparr>"

lemma unsafe_urls_never_fetched_witness:
  "probeAnchor (demo_probe\<lparr>pe_fetch := \<lambda>q w. (Inl ''connection refused'', w + (if isSafeUrl (pe_url demo_probe) (hq_url q) then 1 else 2))\<rparr>)
     ''10.0.0.1'' = probeAnchor demo_probe ''10.0.0.1'' \<and>
   \<not> isSafeUrl (pe_url demo_probe) ''https://10.0.0.1/.well-known/stellar.toml''"
proof
  show "probeAnchor (demo_probe\<lparr>pe_fetch := \<lambda>q w. (Inl ''connection refused'', w + (if isSafeUrl (pe_url demo_probe) (hq_url q) then 1 else 2))\<rparr>)
      ''10.0.0.1'' = probeAnchor demo_probe ''10.0.0.1''"
    by (rule unsafe_urls_never_fetched) (simp add: demo_probe_def)
  show "\<not> isSafeUrl (pe_url demo_probe) ''https://10.0.0.1/.well-known/stellar.toml''" by code_simp
qed

end
