(* ===== verification/Lint.thy ===== *)
theory Lint
  imports Probe
begin

section \<open>Linting a manifest against its anchor (packages/cli/src/lint.ts)\<close>

text \<open>
  \<open>corridor lint\<close> compares the endpoints a manifest declares for the receiving anchor with those its
  stellar.toml publishes. The fetch is a port that rejects with a message; reading a body fails with
  the message \<open>unreadable\<close>.
\<close>

datatype lint_kind = MissingInToml | ValueMismatch | OmittedInManifest

datatype lint_severity = LintError | LintWarning

record lint_finding =
  lf_severity :: lint_severity
  lf_kind :: lint_kind
  lf_field :: string
  lf_tomlKey :: string
  lf_manifestValue :: "string option"
  lf_tomlValue :: "string option"
  lf_message :: string

record lint_result =
  lr_corridorId :: string
  lr_homeDomain :: string
  lr_skipped :: bool
  lr_skipReason :: "string option"
  lr_ok :: bool
  lr_findings :: "lint_finding list"

subsection \<open>Which endpoint is which key\<close>

definition SEP_TO_TOML_KEY :: "int \<Rightarrow> string" where
  "SEP_TO_TOML_KEY n = the (map_of (map (\<lambda>(key, sep). (sep, key)) TOML_ENDPOINTS) n)"

definition SEP31_MAPPINGS :: "(string \<times> string) list" where
  "SEP31_MAPPINGS =
     [(''transfer_server_sep31'', SEP_TO_TOML_KEY 31), (''web_auth'', SEP_TO_TOML_KEY 10),
      (''kyc_server'', SEP_TO_TOML_KEY 12), (''quote_server'', SEP_TO_TOML_KEY 38)]"

definition SEP6_MAPPINGS :: "(string \<times> string) list" where
  "SEP6_MAPPINGS =
     [(''transfer_server'', SEP_TO_TOML_KEY 6), (''web_auth'', SEP_TO_TOML_KEY 10),
      (''kyc_server'', SEP_TO_TOML_KEY 12), (''quote_server'', SEP_TO_TOML_KEY 38)]"

definition normalizeEndpointUrl :: "string \<Rightarrow> string" where
  "normalizeEndpointUrl url = rev (dropWhile (\<lambda>c. c = CHR ''/'') (rev (js_trim url)))"

text \<open>\<open>host.replace(/:\d+$/, "")\<close>\<close>

definition dropPort :: "string \<Rightarrow> string" where
  "dropPort host =
     (let r = rev host in
      case dropWhile is_digit r of
        c # rest \<Rightarrow> if c = CHR '':'' \<and> takeWhile is_digit r \<noteq> [] then rev rest else host
      | [] \<Rightarrow> host)"

definition isPlaceholderDomain :: "string \<Rightarrow> bool" where
  "isPlaceholderDomain homeDomain =
     (let host = dropPort (to_lower (js_trim homeDomain)) in
      if host = [] then True
      else if host = ''localhost'' \<or> host = ''127.0.0.1'' \<or> host = ''[::1]'' \<or> host = ''::1'' then True
      else
        let labels = split_on (CHR ''.'') host in
        if ''invalid'' \<in> set labels \<or> ''example'' \<in> set labels \<or> ''localhost'' \<in> set labels then True
        else False)"

definition mappingsForDest :: "corridor \<Rightarrow> (string \<times> string) list" where
  "mappingsForDest c = (if d_protocol (c_dest c) = Sep6 then SEP6_MAPPINGS else SEP31_MAPPINGS)"

text \<open>\<open>endpoints[field]\<close> of the fields the mappings name.\<close>

definition endpoint_field :: "string \<Rightarrow> endpoints_t \<Rightarrow> string option" where
  "endpoint_field field e =
     (if field = ''transfer_server_sep31'' then transfer_server_sep31 e
      else if field = ''transfer_server'' then transfer_server e
      else if field = ''web_auth'' then web_auth e
      else if field = ''kyc_server'' then kyc_server e
      else if field = ''quote_server'' then quote_server e
      else None)"

subsection \<open>The comparison\<close>

definition lint_quote :: "string \<Rightarrow> string" where
  "lint_quote s = [CHR 0x22] @ s @ [CHR 0x22]"

definition lint_endpoint :: "string \<Rightarrow> string \<Rightarrow> string option \<Rightarrow> string option \<Rightarrow> lint_finding list" where
  "lint_endpoint field tomlKey manifestVal tomlVal =
     (case manifestVal of
        Some m \<Rightarrow>
          (case tomlVal of
             None \<Rightarrow>
               [\<lparr>lf_severity = LintError, lf_kind = MissingInToml, lf_field = field, lf_tomlKey = tomlKey,
                 lf_manifestValue = Some m, lf_tomlValue = None,
                 lf_message = ''dest.endpoints.'' @ field @ '' is '' @ lint_quote m @ '', but '' @ tomlKey @
                   '' is absent in stellar.toml''\<rparr>]
           | Some t \<Rightarrow>
               if normalizeEndpointUrl m \<noteq> normalizeEndpointUrl t then
                 [\<lparr>lf_severity = LintError, lf_kind = ValueMismatch, lf_field = field, lf_tomlKey = tomlKey,
                   lf_manifestValue = Some m, lf_tomlValue = Some t,
                   lf_message = ''dest.endpoints.'' @ field @ '' ('' @ lint_quote m @ '') does not match '' @ tomlKey @
                     '' ('' @ lint_quote t @ '')''\<rparr>]
               else [])
      | None \<Rightarrow>
          (case tomlVal of
             Some t \<Rightarrow>
               [\<lparr>lf_severity = LintWarning, lf_kind = OmittedInManifest, lf_field = field, lf_tomlKey = tomlKey,
                 lf_manifestValue = None, lf_tomlValue = Some t,
                 lf_message = ''stellar.toml publishes '' @ tomlKey @ '' ('' @ lint_quote t @
                   ''), which is omitted in dest.endpoints.'' @ field\<rparr>]
           | None \<Rightarrow> []))"

definition compareManifestToToml :: "corridor \<Rightarrow> string \<Rightarrow> lint_result" where
  "compareManifestToToml c toml =
     (let endpoints = d_endpoints (c_dest c);
          findings = concat (map (\<lambda>(field, tomlKey).
            lint_endpoint field tomlKey (endpoint_field field endpoints) (tomlValue toml tomlKey)) (mappingsForDest c));
          hasError = list_ex (\<lambda>f. lf_severity f = LintError) findings
      in \<lparr>lr_corridorId = c_id c, lr_homeDomain = home_domain endpoints, lr_skipped = False, lr_skipReason = None,
          lr_ok = (\<not> hasError), lr_findings = findings\<rparr>)"

definition lintCorridor ::
  "(string \<Rightarrow> (string \<times> string) option) \<Rightarrow> (string \<Rightarrow> ('e, string + response) port) \<Rightarrow> (response \<Rightarrow> string)
     \<Rightarrow> corridor \<Rightarrow> ('e, string + lint_result) port" where
  "lintCorridor parse doFetch unreadable c e =
     (let homeDomain = home_domain (d_endpoints (c_dest c)) in
      if isPlaceholderDomain homeDomain then
        (Inr \<lparr>lr_corridorId = c_id c, lr_homeDomain = homeDomain, lr_skipped = True,
              lr_skipReason = Some (''skipped: placeholder domain ('' @ homeDomain @ '')''), lr_ok = True,
              lr_findings = []\<rparr>, e)
      else
        let tomlUrl = ''https://'' @ homeDomain @ ''/.well-known/stellar.toml'' in
        if \<not> isSafeUrl parse tomlUrl then (Inl (''refusing to fetch unsafe url: '' @ tomlUrl), e)
        else case doFetch tomlUrl e of
          (Inl m, e') \<Rightarrow> (Inl m, e')
        | (Inr res, e') \<Rightarrow>
            if \<not> res_ok res then
              (Inl (''failed to fetch '' @ tomlUrl @ '': HTTP '' @ show_int (rs_status res)), e')
            else (case rs_text res of
                    None \<Rightarrow> (Inl (unreadable res), e')
                  | Some toml \<Rightarrow> (Inr (compareManifestToToml c toml), e')))"

subsection \<open>The report\<close>

definition tick :: string where
  "tick = [CHR 0xE2, CHR 0x9C, CHR 0x93]"

definition cross_mark :: string where
  "cross_mark = [CHR 0xE2, CHR 0x9C, CHR 0x97]"

definition newline :: string where
  "newline = [CHR 0x0A]"

definition formatLintResult :: "lint_result \<Rightarrow> string" where
  "formatLintResult r =
     (let head = lr_corridorId r @ '' ('' @ lr_homeDomain r @ ''): '' in
      if lr_skipped r then
        head @ (case lr_skipReason r of Some why \<Rightarrow> why | None \<Rightarrow> ''skipped: placeholder domain'')
      else
        let errors = filter (\<lambda>f. lf_severity f = LintError) (lr_findings r);
            warnings = filter (\<lambda>f. lf_severity f = LintWarning) (lr_findings r)
        in join newline
             ([if errors = [] then tick @ '' '' @ head @ ''all manifest endpoints match published stellar.toml''
               else cross_mark @ '' '' @ head @ show_nat (length errors) @
                 '' endpoint mismatch(es) against published stellar.toml''] @
              map (\<lambda>f. ''  '' @ cross_mark @ '' '' @ lf_message f) errors @
              map (\<lambda>f. ''  ! warning: '' @ lf_message f) warnings))"

subsection \<open>What a clean lint means\<close>

text \<open>Two URLs that differ only in surrounding white space and trailing slashes.\<close>

definition same_endpoint :: "string \<Rightarrow> string \<Rightarrow> bool" where
  "same_endpoint a b \<longleftrightarrow> normalizeEndpointUrl a = normalizeEndpointUrl b"

text \<open>An endpoint is confirmed when it is published as declared, or not declared.\<close>

definition endpoint_confirmed :: "string \<Rightarrow> corridor \<Rightarrow> string \<Rightarrow> string \<Rightarrow> bool" where
  "endpoint_confirmed toml c field tomlKey \<longleftrightarrow>
     (case endpoint_field field (d_endpoints (c_dest c)) of
        None \<Rightarrow> True
      | Some m \<Rightarrow> (case tomlValue toml tomlKey of None \<Rightarrow> False | Some t \<Rightarrow> same_endpoint m t))"

lemma mapping_keys:
  "SEP_TO_TOML_KEY 31 = ''DIRECT_PAYMENT_SERVER''" "SEP_TO_TOML_KEY 10 = ''WEB_AUTH_ENDPOINT''"
  "SEP_TO_TOML_KEY 12 = ''KYC_SERVER''" "SEP_TO_TOML_KEY 38 = ''ANCHOR_QUOTE_SERVER''"
  "SEP_TO_TOML_KEY 6 = ''TRANSFER_SERVER''"
  by (simp_all add: SEP_TO_TOML_KEY_def TOML_ENDPOINTS_def)

lemma lint_endpoint_errors:
  "(\<exists>f \<in> set (lint_endpoint field key m t). lf_severity f = LintError) \<longleftrightarrow>
     (\<exists>v. m = Some v \<and> \<not> (case t of None \<Rightarrow> False | Some u \<Rightarrow> same_endpoint v u))"
  by (auto simp: lint_endpoint_def same_endpoint_def split: option.splits)

lemma lr_ok_confirmed:
  "lr_ok (compareManifestToToml c toml) \<longleftrightarrow> list_all (\<lambda>(field, key). endpoint_confirmed toml c field key) (mappingsForDest c)"
proof -
  have "lr_ok (compareManifestToToml c toml) \<longleftrightarrow>
    (\<forall>(field, key) \<in> set (mappingsForDest c).
       \<not> (\<exists>f \<in> set (lint_endpoint field key (endpoint_field field (d_endpoints (c_dest c))) (tomlValue toml key)). lf_severity f = LintError))"
    by (auto simp: compareManifestToToml_def Let_def list_ex_iff)
  then show ?thesis
    unfolding lint_endpoint_errors by (auto simp: list_all_iff endpoint_confirmed_def split: option.splits)
qed

text \<open>What each protocol's mapping checks.\<close>

definition transfer_confirmed :: "string \<Rightarrow> corridor \<Rightarrow> bool" where
  "transfer_confirmed toml c \<longleftrightarrow>
     (if d_protocol (c_dest c) = Sep6 then endpoint_confirmed toml c ''transfer_server'' ''TRANSFER_SERVER''
      else endpoint_confirmed toml c ''transfer_server_sep31'' ''DIRECT_PAYMENT_SERVER'')"

lemma lr_ok_cases:
  "lr_ok (compareManifestToToml c toml) \<longleftrightarrow>
     transfer_confirmed toml c \<and> endpoint_confirmed toml c ''web_auth'' ''WEB_AUTH_ENDPOINT'' \<and>
     endpoint_confirmed toml c ''kyc_server'' ''KYC_SERVER'' \<and> endpoint_confirmed toml c ''quote_server'' ''ANCHOR_QUOTE_SERVER''"
  by (simp add: lr_ok_confirmed mappingsForDest_def SEP31_MAPPINGS_def SEP6_MAPPINGS_def mapping_keys transfer_confirmed_def)

lemma lint_endpoint_unique: "length (lint_endpoint field key m t) \<le> 1"
  by (simp add: lint_endpoint_def split: option.splits)

subsection \<open>Properties\<close>

text \<open>
  C1: a lint that answers \<open>ok\<close> without skipping read the stellar.toml at the anchor's home domain over a URL the
  safety policy admits, got a 2xx answer, and every endpoint the manifest declares is published there,
  up to trailing slashes; and a lint that fetches nothing was skipped for a placeholder domain.
\<close>

theorem clean_lint_means_published:
  assumes "lintCorridor parse doFetch unreadable c e = (Inr r, e')" and "lr_ok r"
  shows "lr_skipped r \<and> isPlaceholderDomain (home_domain (d_endpoints (c_dest c))) \<and> e' = e \<or>
    (\<exists>res toml. isSafeUrl parse (''https://'' @ home_domain (d_endpoints (c_dest c)) @ ''/.well-known/stellar.toml'') \<and>
       doFetch (''https://'' @ home_domain (d_endpoints (c_dest c)) @ ''/.well-known/stellar.toml'') e = (Inr res, e') \<and>
       res_ok res \<and> rs_text res = Some toml \<and> transfer_confirmed toml c \<and>
       endpoint_confirmed toml c ''web_auth'' ''WEB_AUTH_ENDPOINT'' \<and> endpoint_confirmed toml c ''kyc_server'' ''KYC_SERVER'' \<and>
       endpoint_confirmed toml c ''quote_server'' ''ANCHOR_QUOTE_SERVER'')"
  using assms
  by (auto simp: lintCorridor_def Let_def lr_ok_cases split: if_splits prod.splits sum.splits option.splits)

definition demo_linted :: corridor where
  "demo_linted = demo_corridor\<lparr>c_dest := (c_dest demo_corridor)\<lparr>d_endpoints := demo_endpoints\<lparr>home_domain := ''a.com''\<rparr>\<rparr>\<rparr>"

definition demo_published :: response where
  "demo_published = \<lparr>rs_status = 200,
     rs_text = Some (''DIRECT_PAYMENT_SERVER='' @ lint_quote ''https://a.example/sep31/'' @ newline @
       ''KYC_SERVER='' @ lint_quote ''https://a.example/kyc''), rs_json = None\<rparr>"

lemma clean_lint_means_published_witness:
  "\<exists>r toml. lintCorridor (\<lambda>_. Some (''https:'', ''a.com'')) (\<lambda>_ e. (Inr demo_published, e + 1)) (\<lambda>_. ''x'') demo_linted (0 :: nat) = (Inr r, 1) \<and>
     lr_ok r \<and> length (lr_findings r) = 1 \<and> rs_text demo_published = Some toml \<and> transfer_confirmed toml demo_linted"
proof -
  let ?l = "lintCorridor (\<lambda>_. Some (''https:'', ''a.com'')) (\<lambda>_ e. (Inr demo_published, e + 1)) (\<lambda>_. ''x'') demo_linted (0 :: nat)"
  have r: "?l = (Inr (projr (fst ?l)), 1)" and ok: "lr_ok (projr (fst ?l))" and "\<not> lr_skipped (projr (fst ?l))"
    and one: "length (lr_findings (projr (fst ?l))) = 1" by code_simp+
  with clean_lint_means_published [OF r ok] show ?thesis by auto
qed

text \<open>
  The errors and warnings are exact: a declared endpoint the document does not publish as declared is an
  error, a published endpoint the manifest leaves out a warning, and nothing else is reported.
\<close>

theorem lint_reports_exactly:
  "map (\<lambda>f. (lf_severity f, lf_field f)) (lr_findings (compareManifestToToml c toml)) =
     concat (map (\<lambda>(field, key).
       if \<not> endpoint_confirmed toml c field key then [(LintError, field)]
       else if endpoint_field field (d_endpoints (c_dest c)) = None \<and> tomlValue toml key \<noteq> None then [(LintWarning, field)]
       else []) (mappingsForDest c))"
  by (auto simp: compareManifestToToml_def Let_def map_concat lint_endpoint_def endpoint_confirmed_def same_endpoint_def
      intro!: arg_cong [where f = concat] split: option.splits)

text \<open>
  The test for a bare IPv6 loopback never succeeds: dropping a port has already cut \<open>::1\<close> down to a
  colon, so that host is linted, and refused as unsafe, while the bracketed spelling is skipped.
\<close>

theorem bare_loopback_is_not_a_placeholder:
  "dropPort ''::1'' = '':'' \<and> \<not> isPlaceholderDomain ''::1'' \<and> isPlaceholderDomain ''[::1]'' \<and> isPlaceholderDomain ''[::1]:8080'' \<and>
   isPlaceholderDomain ''localhost:8080'' \<and> isPlaceholderDomain ''Anchor.EXAMPLE.mx''"
proof (intro conjI)
  show "dropPort ''::1'' = '':''" by code_simp
  show "\<not> isPlaceholderDomain ''::1''" by code_simp
  show "isPlaceholderDomain ''[::1]''" by code_simp
  show "isPlaceholderDomain ''[::1]:8080''" by code_simp
  show "isPlaceholderDomain ''localhost:8080''" by code_simp
  show "isPlaceholderDomain ''Anchor.EXAMPLE.mx''" by code_simp
qed

end
