(* ===== verification/Plan.thy ===== *)
theory Plan
  imports Sep6 Lint Run
begin

section \<open>What a corridor would do (packages/cli/src/plan.ts)\<close>

text \<open>
  \<open>corridor plan\<close> derives the five steps of a run from the manifest. The clock is an argument, read
  once by \<open>liveness\<close> and once by the report. The home domain of the sending side, an optional field
  that no other part reads, is an argument of the report.
\<close>

datatype plan_verb = VQuote | VComply | VOpen | VSettle | VReconcile

fun verb_name :: "plan_verb \<Rightarrow> string" where
  "verb_name VQuote = ''quote''"
| "verb_name VComply = ''comply''"
| "verb_name VOpen = ''open''"
| "verb_name VSettle = ''settle''"
| "verb_name VReconcile = ''reconcile''"

record step_draft =
  sd_verb :: plan_verb
  sd_protocol :: string
  sd_detail :: string

record plan_step = step_draft +
  ps_step :: nat

record plan_settlement =
  pl_kind :: instructions_kind
  pl_asset :: string
  pl_network :: network_t

record plan =
  pl_corridor :: string
  pl_protocol :: string
  pl_source :: "string \<times> source_protocol \<times> string"
  pl_settlement :: plan_settlement
  pl_method :: compliance_method
  pl_jurisdictions :: "string \<times> string"
  pl_fx :: "string list \<times> quote_source"
  pl_steps :: "plan_step list"
  pl_liveness :: liveness_t

subsection \<open>The steps\<close>

definition quoteStep :: "corridor \<Rightarrow> dest_protocol \<Rightarrow> step_draft" where
  "quoteStep c protocol =
     (case fx_quote_source (c_fx c) of
        QSep38 \<Rightarrow>
          let context = (if protocol = Sep6 then '' (context=sep6)'' else '''');
              missing = (if truthy (quote_server (d_endpoints (c_dest c))) then ''''
                         else '' '' @ dash @ '' no quote_server configured'')
          in \<lparr>sd_verb = VQuote, sd_protocol = ''sep38'', sd_detail = ''SEP-38 POST /quote'' @ context @ missing\<rparr>
      | QNative \<Rightarrow>
          \<lparr>sd_verb = VQuote, sd_protocol = ''native'',
           sd_detail = ''corridor-native rate (no external quote provider)''\<rparr>
      | QExternal \<Rightarrow>
          \<lparr>sd_verb = VQuote, sd_protocol = ''external'',
           sd_detail = ''operator-supplied rate (not verified by this tool)''\<rparr>)"

definition plannedMethod :: "corridor \<Rightarrow> compliance_method" where
  "plannedMethod c =
     (case c_method (c_compliance c) of
        Some m \<Rightarrow> m
      | None \<Rightarrow>
          if truthy (kyc_server (d_endpoints (c_dest c))) then M_sep12
          else (case d_protocol (c_dest c) of Sep6 \<Rightarrow> M_sep6_fields | Custom _ \<Rightarrow> M_bespoke | Sep31 \<Rightarrow> M_none))"

definition complyStep :: "corridor \<Rightarrow> compliance_method \<Rightarrow> step_draft" where
  "complyStep c method =
     (let auth = (if truthy (web_auth (d_endpoints (c_dest c))) then ''SEP-10 auth + '' else '''') in
      case method of
        M_sep12 \<Rightarrow> \<lparr>sd_verb = VComply, sd_protocol = ''sep12'', sd_detail = auth @ ''SEP-12 KYC handoff''\<rparr>
      | M_sep6_fields \<Rightarrow>
          \<lparr>sd_verb = VComply, sd_protocol = ''sep6'',
           sd_detail = auth @ ''SEP-6 /withdraw customer fields (no KYC server)''\<rparr>
      | M_bespoke \<Rightarrow> \<lparr>sd_verb = VComply, sd_protocol = ''bespoke'', sd_detail = ''adapter-defined KYC/compliance''\<rparr>
      | M_none \<Rightarrow>
          \<lparr>sd_verb = VComply, sd_protocol = ''none'',
           sd_detail = ''no KYC server '' @ dash @ '' assuming 1:1 delivery with no per-customer KYC''\<rparr>)"

definition openStep :: "dest_protocol \<Rightarrow> step_draft" where
  "openStep protocol =
     (case protocol of
        Sep31 \<Rightarrow> \<lparr>sd_verb = VOpen, sd_protocol = ''sep31'', sd_detail = ''SEP-31 POST /transactions''\<rparr>
      | Sep6 \<Rightarrow> \<lparr>sd_verb = VOpen, sd_protocol = ''sep6'', sd_detail = ''SEP-6 POST /withdraw-exchange''\<rparr>
      | Custom _ \<Rightarrow>
          \<lparr>sd_verb = VOpen, sd_protocol = protocol_name protocol,
           sd_detail = ''adapter creates the payout/deposit request and returns typed instructions''\<rparr>)"

definition settleStep :: "corridor \<Rightarrow> dest_protocol \<Rightarrow> step_draft" where
  "settleStep c protocol =
     (let asset = bridge_asset (c_settlement c) in
      case protocol of
        Sep31 \<Rightarrow>
          \<lparr>sd_verb = VSettle, sd_protocol = ''stellar_payment'',
           sd_detail = ''native Stellar payment of '' @ asset @ '' to the SEP-31 deposit account with the exact memo''\<rparr>
      | Sep6 \<Rightarrow>
          \<lparr>sd_verb = VSettle, sd_protocol = ''stellar_payment'',
           sd_detail = ''native Stellar payment of '' @ asset @ '' to the anchor'' @ [CHR 0x27] @
             ''s withdraw account (SEP-6, no deposit memo)''\<rparr>
      | Custom _ \<Rightarrow>
          \<lparr>sd_verb = VSettle, sd_protocol = ''adapter_settled'',
           sd_detail = ''adapter-reported settlement of '' @ asset @ '' (on-chain or off-chain)''\<rparr>)"

definition reconcileStep :: "dest_protocol \<Rightarrow> step_draft" where
  "reconcileStep protocol =
     (case protocol of
        Sep31 \<Rightarrow> \<lparr>sd_verb = VReconcile, sd_protocol = ''sep31'', sd_detail = ''SEP-31 GET /transactions/:id''\<rparr>
      | Sep6 \<Rightarrow> \<lparr>sd_verb = VReconcile, sd_protocol = ''sep6'', sd_detail = ''SEP-6 GET /transaction''\<rparr>
      | Custom _ \<Rightarrow>
          \<lparr>sd_verb = VReconcile, sd_protocol = protocol_name protocol, sd_detail = ''adapter transaction status poll''\<rparr>)"

definition settlementKind :: "dest_protocol \<Rightarrow> instructions_kind" where
  "settlementKind protocol = (case protocol of Custom _ \<Rightarrow> AdapterSettled | _ \<Rightarrow> StellarPayment)"

definition number_step :: "nat \<Rightarrow> step_draft \<Rightarrow> plan_step" where
  "number_step i d = step_draft.extend d \<lparr>ps_step = i + 1\<rparr>"

definition buildPlan :: "(string \<Rightarrow> ms) \<Rightarrow> corridor \<Rightarrow> int \<Rightarrow> plan" where
  "buildPlan parse c now =
     (let protocol = d_protocol (c_dest c);
          method = plannedMethod c;
          drafts = [quoteStep c protocol, complyStep c method, openStep protocol, settleStep c protocol,
                    reconcileStep protocol]
      in \<lparr>pl_corridor = c_id c, pl_protocol = protocol_name protocol,
          pl_source = (s_name (c_source c), s_protocol (c_source c), s_asset (c_source c)),
          pl_settlement = \<lparr>pl_kind = settlementKind protocol, pl_asset = bridge_asset (c_settlement c),
                           pl_network = network (c_settlement c)\<rparr>,
          pl_method = method,
          pl_jurisdictions = (source_jurisdiction (c_compliance c), dest_jurisdiction (c_compliance c)),
          pl_fx = (fx_path (c_fx c), fx_quote_source (c_fx c)),
          pl_steps = map2 number_step [0..<length drafts] drafts,
          pl_liveness = liveness parse c now\<rparr>)"

definition uncoveredSteps :: "corridor \<Rightarrow> plan \<Rightarrow> plan_step list" where
  "uncoveredSteps c p =
     (let missingQuoteServer = (fx_quote_source (c_fx c) = QSep38 \<and> \<not> truthy (quote_server (d_endpoints (c_dest c)))) in
      filter (\<lambda>s. verb_name (sd_verb s) \<in> set (lv_gaps (pl_liveness p)) \<or> (sd_verb s = VQuote \<and> missingQuoteServer))
        (pl_steps p))"

subsection \<open>The report\<close>

definition pad_end :: "nat \<Rightarrow> string \<Rightarrow> string" where
  "pad_end n s = s @ replicate (n - length s) (CHR '' '')"

fun source_protocol_name :: "source_protocol \<Rightarrow> string" where
  "source_protocol_name Prefunded = ''prefunded''"
| "source_protocol_name SrcSep6 = ''sep6''"
| "source_protocol_name SrcSep24 = ''sep24''"
| "source_protocol_name (SrcCustom s) = ''custom:'' @ s"

fun risk_name :: "risk_holder \<Rightarrow> string" where
  "risk_name RiskSender = ''sender''"
| "risk_name RiskSendingAnchor = ''sending_anchor''"
| "risk_name RiskReceivingAnchor = ''receiving_anchor''"

fun net_name :: "network_t \<Rightarrow> string" where
  "net_name PublicNet = ''public''"
| "net_name TestNet = ''testnet''"

fun rollback_name :: "rollback_t \<Rightarrow> string" where
  "rollback_name RefundSender = ''refund_sender''"
| "rollback_name RollbackHold = ''hold''"
| "rollback_name RollbackManual = ''manual''"

definition limits_lines :: "corridor \<Rightarrow> string list" where
  "limits_lines c =
     (case c_limits c of
        None \<Rightarrow> []
      | Some l \<Rightarrow>
          let parts = (case min_amount l of Some a \<Rightarrow> [''min='' @ a] | None \<Rightarrow> []) @
                      (case max_amount l of Some a \<Rightarrow> [''max='' @ a] | None \<Rightarrow> [])
          in if parts = [] then [] else [''limits:   '' @ join '' '' parts])"

text \<open>\<open>Math.max(0, n)\<close> of a number that may be NaN, printed.\<close>

definition shown_ms :: "ms \<Rightarrow> string" where
  "shown_ms m = (case m of NaN \<Rightarrow> ''NaN'' | Ms n \<Rightarrow> show_int n)"

definition days_ago :: "(string \<Rightarrow> ms) \<Rightarrow> proof_t \<Rightarrow> int \<Rightarrow> ms" where
  "days_ago parse p now =
     (case parse (canary_completed_at p) of NaN \<Rightarrow> NaN | Ms t \<Rightarrow> Ms (max 0 ((now - t) div day_ms)))"

definition expires_in :: "(string \<Rightarrow> ms) \<Rightarrow> proof_t \<Rightarrow> int \<Rightarrow> ms" where
  "expires_in parse p now =
     (case days_ago parse p now of NaN \<Rightarrow> NaN | Ms d \<Rightarrow> Ms (max 0 (max_age_days p - d)))"

definition proven_lines :: "(string \<Rightarrow> ms) \<Rightarrow> proof_t \<Rightarrow> int \<Rightarrow> string list" where
  "proven_lines parse p now =
     [''liveness: '' @ tick @ tick @ '' PROVEN '' @ dash @ '' canary '' @ take 8 (pf_stellar_tx_hash p) @ '' completed '' @
      take 10 (canary_completed_at p) @ '' ('' @ shown_ms (days_ago parse p now) @ '' days ago, expires in '' @
      shown_ms (expires_in parse p now) @ ''d)'']"

definition canary_cap :: "corridor \<Rightarrow> string" where
  "canary_cap c =
     (case coalesce (case c_proof c of Some p \<Rightarrow> canary_max_amount p | None \<Rightarrow> None)
             (case c_limits c of Some l \<Rightarrow> max_amount l | None \<Rightarrow> None) of
        Some a \<Rightarrow> a | None \<Rightarrow> ''default'')"

definition verified_lines :: "corridor \<Rightarrow> plan \<Rightarrow> string list" where
  "verified_lines c p =
     (let uncovered = uncoveredSteps c p in
      [''liveness: '' @ tick @ '' VERIFIED '' @ dash @ '' dest endpoints confirmed '' @
         (case lv_verifiedAt (pl_liveness p) of Some at \<Rightarrow> at | None \<Rightarrow> ''undefined'')] @
      (if uncovered \<noteq> [] then
         [''gaps:     not covered by endpoints_verified_at '' @ dash @ '' '' @
            join '', '' (map (\<lambda>s. show_nat (ps_step s) @ ''. '' @ verb_name (sd_verb s) @ '' ('' @ sd_protocol s @ '')'') uncovered)]
       else []) @
      (case c_proof c of
         Some pf \<Rightarrow> [''proof:    not current '' @ dash @ '' canary '' @ take 8 (pf_stellar_tx_hash pf) @ '' completed '' @
                     take 10 (canary_completed_at pf) @ ''; amounts capped at '' @ canary_cap c]
       | None \<Rightarrow> [''proof:    none '' @ dash @ '' amounts capped at '' @ canary_cap c]))"

definition liveness_lines :: "(string \<Rightarrow> ms) \<Rightarrow> corridor \<Rightarrow> plan \<Rightarrow> int \<Rightarrow> string list" where
  "liveness_lines parse c p now =
     (case (lv_state (pl_liveness p), lv_proof (pl_liveness p)) of
        (Proven, Some pf) \<Rightarrow> proven_lines parse pf now
      | (Verified, _) \<Rightarrow> verified_lines c p
      | (liveness_state.Unverified, _) \<Rightarrow>
          [''liveness: ? UNVERIFIED '' @ dash @ '' endpoints present but unconfirmed. NOT runnable.'']
      | _ \<Rightarrow> [''liveness: '' @ cross_mark @ '' NOT RUNNABLE '' @ dash @ '' a required endpoint is missing.''])"

definition header_lines :: "string option \<Rightarrow> corridor \<Rightarrow> plan \<Rightarrow> string list" where
  "header_lines srcHome c p =
     [''corridor: '' @ c_id c] @
     (case status_note c of Some n \<Rightarrow> if n = '''' then [] else [''note:     '' @ n] | None \<Rightarrow> []) @
     [''protocol: '' @ pl_protocol p,
      ''route:    '' @ join '' -> '' (fx_path (c_fx c)) @ ''   (risk: '' @ risk_name (who_holds_risk (c_fx c)) @ '', ttl '' @
        show_int (quote_ttl_seconds (c_fx c)) @ ''s)'',
      ''source:   '' @ s_name (c_source c) @ ''  ['' @ s_asset (c_source c) @ '']  '' @
        source_protocol_name (s_protocol (c_source c)) @ (if truthy srcHome then ''  '' @ the srcHome else ''''),
      ''dest:     '' @ d_name (c_dest c) @ ''  ['' @ d_asset (c_dest c) @ '']  '' @ home_domain (d_endpoints (c_dest c)),
      ''bridge:   '' @ bridge_asset (c_settlement c) @ '' on '' @ net_name (network (c_settlement c))] @
     limits_lines c @
     [''recovery: retries='' @ show_nat (max_retries (c_recovery c)) @ '', timeout='' @
        show_int (timeout_seconds (c_recovery c)) @ ''s, rollback='' @ rollback_name (rollback (c_recovery c)) @
        '', breaker='' @ show_nat (consecutive_failures_limit (c_recovery c))]"

definition step_line :: "plan_step \<Rightarrow> string" where
  "step_line s =
     ''  '' @ show_nat (ps_step s) @ ''. '' @ pad_end 9 (verb_name (sd_verb s)) @ '' '' @ pad_end 8 (sd_protocol s) @ '' '' @
     sd_detail s"

definition formatPlan :: "(string \<Rightarrow> ms) \<Rightarrow> string option \<Rightarrow> corridor \<Rightarrow> plan \<Rightarrow> int \<Rightarrow> string" where
  "formatPlan parse srcHome c p now =
     join newline
       (header_lines srcHome c p @ ['''', ''steps:''] @ map step_line (pl_steps p) @ [''''] @ liveness_lines parse c p now @
        (if lv_warnings (pl_liveness p) \<noteq> [] then
           ['''', ''liveness warnings:''] @ map (\<lambda>w. ''  ! '' @ w) (lv_warnings (pl_liveness p))
         else []))"

subsection \<open>The arguments of the command\<close>

record plan_args =
  pa_file :: string
  pa_json :: bool
  pa_registry :: bool
  pa_network :: network_t

record parsing =
  pg_json :: bool
  pg_registry :: bool
  pg_network :: "network_t option"
  pg_files :: "string list"

definition PLAN_USAGE :: string where
  "PLAN_USAGE = ''usage: corridor plan <file.corridor.yaml> [--json] [--registry [--network testnet|public]]''"

definition network_arg :: "string \<Rightarrow> network_t option" where
  "network_arg v = (if v = ''testnet'' then Some TestNet else if v = ''public'' then Some PublicNet else None)"

function plan_args_loop :: "string list \<Rightarrow> parsing \<Rightarrow> string + parsing" where
  "plan_args_loop args g =
     (case args of
        [] \<Rightarrow> Inr g
      | arg # rest \<Rightarrow>
          if arg = ''--json'' then plan_args_loop rest (g\<lparr>pg_json := True\<rparr>)
          else if arg = ''--registry'' then plan_args_loop rest (g\<lparr>pg_registry := True\<rparr>)
          else if arg = ''--network'' then
            (case rest of
               [] \<Rightarrow> Inl ''error: --network must be testnet or public''
             | value # rest' \<Rightarrow>
                 (case network_arg value of
                    None \<Rightarrow> Inl ''error: --network must be testnet or public''
                  | Some n \<Rightarrow> plan_args_loop rest' (g\<lparr>pg_network := Some n\<rparr>)))
          else if starts_with ''--'' arg then Inl (''error: unknown option '' @ lint_quote arg)
          else plan_args_loop rest (g\<lparr>pg_files := pg_files g @ [arg]\<rparr>))"
  by pat_completeness auto
termination by (relation "measure (\<lambda>(args, g). length args)") (auto split: list.splits)

declare plan_args_loop.simps [simp del]

definition parsePlanArgs :: "string list \<Rightarrow> string + plan_args" where
  "parsePlanArgs args =
     (case plan_args_loop args \<lparr>pg_json = False, pg_registry = False, pg_network = None, pg_files = []\<rparr> of
        Inl e \<Rightarrow> Inl e
      | Inr g \<Rightarrow>
          (case pg_files g of
             [] \<Rightarrow> Inl PLAN_USAGE
           | file # others \<Rightarrow>
               if file = '''' then Inl PLAN_USAGE
               else if others \<noteq> [] then Inl (''error: unexpected argument '' @ lint_quote (hd others))
               else if pg_network g \<noteq> None \<and> \<not> pg_registry g then Inl ''error: --network only applies with --registry''
               else Inr \<lparr>pa_file = file, pa_json = pg_json g, pa_registry = pg_registry g,
                         pa_network = (case pg_network g of Some n \<Rightarrow> n | None \<Rightarrow> TestNet)\<rparr>))"

subsection \<open>The plan and the engine\<close>

lemma plan_steps:
  "pl_steps (buildPlan parse c now) =
     map2 number_step [0..<5]
       [quoteStep c (d_protocol (c_dest c)), complyStep c (plannedMethod c), openStep (d_protocol (c_dest c)),
        settleStep c (d_protocol (c_dest c)), reconcileStep (d_protocol (c_dest c))]"
  by (simp add: buildPlan_def Let_def eval_nat_numeral)

lemma step_verbs [simp]:
  "sd_verb (quoteStep c p) = VQuote" "sd_verb (complyStep c m) = VComply" "sd_verb (openStep p) = VOpen"
  "sd_verb (settleStep c p) = VSettle" "sd_verb (reconcileStep p) = VReconcile"
  by (simp_all add: quoteStep_def complyStep_def openStep_def settleStep_def reconcileStep_def Let_def
      split: quote_source.splits compliance_method.splits dest_protocol.splits)

lemma number_step_simps [simp]:
  "sd_verb (number_step i d) = sd_verb d" "sd_protocol (number_step i d) = sd_protocol d" "ps_step (number_step i d) = i + 1"
  by (simp_all add: number_step_def step_draft.defs)

text \<open>The five verbs in the order \<open>execute\<close> takes them, numbered from one.\<close>

lemma plan_order:
  "map (\<lambda>s. (ps_step s, sd_verb s)) (pl_steps (buildPlan parse c now)) =
     [(1, VQuote), (2, VComply), (3, VOpen), (4, VSettle), (5, VReconcile)]"
  by (simp add: plan_steps upt_rec [of 0] eval_nat_numeral upt_conv_Cons)

lemma plan_gaps: "lv_gaps (pl_liveness (buildPlan parse c now)) = (if fx_quote_source (c_fx c) = QExternal then [''quote''] else [])"
  by (simp add: buildPlan_def liveness_def Let_def split: prod.splits)

lemma verb_name_quote [simp]: "verb_name v = ''quote'' \<longleftrightarrow> v = VQuote"
  by (cases v) simp_all

text \<open>
  Only the quote can be outside what the verification of the endpoints covers, and it is exactly when
  the rate comes from outside or the quote server is missing.
\<close>

theorem only_the_quote_is_uncovered:
  "map (\<lambda>s. sd_verb s) (uncoveredSteps c (buildPlan parse c now)) =
     (if fx_quote_source (c_fx c) = QExternal \<or>
         (fx_quote_source (c_fx c) = QSep38 \<and> \<not> truthy (quote_server (d_endpoints (c_dest c)))) then [VQuote] else [])"
  by (auto simp: uncoveredSteps_def plan_gaps plan_steps upt_conv_Cons eval_nat_numeral)

subsection \<open>Where the plan and the engine part\<close>

text \<open>
  For a SEP-6 corridor without a KYC server the plan announces that compliance is done with the
  customer fields of the withdrawal, while the adapter such a corridor runs on refuses every payment
  at that step.
\<close>

theorem plan_promises_what_sep6_refuses:
  assumes "d_protocol (c_dest c) = Sep6" and "\<not> truthy (kyc_server (d_endpoints (c_dest c)))"
    and "c_method (c_compliance c) \<in> {None, Some M_sep6_fields}" and "new_sep6 net signer c = Inr a"
  shows "(\<exists>s \<in> set (pl_steps (buildPlan parse c now)). sd_verb s = VComply \<and> sd_protocol s = ''sep6'') \<and>
    (\<exists>m. ensureCompliance6 a intent c' w = (Some (fail KYC_REQUIRED m), w))"
proof
  have "plannedMethod c = M_sep6_fields" using assms(1-3) by (auto simp: plannedMethod_def)
  then show "\<exists>s \<in> set (pl_steps (buildPlan parse c now)). sd_verb s = VComply \<and> sd_protocol s = ''sep6''"
    by (auto simp: plan_steps upt_conv_Cons eval_nat_numeral complyStep_def Let_def)
  have "s6_sep12 a = None" using assms(2,4) by (auto simp: new_sep6_def sep12_of_def split: if_splits option.splits)
  then show "\<exists>m. ensureCompliance6 a intent c' w = (Some (fail KYC_REQUIRED m), w)"
    by (auto simp: ensureCompliance6_def ret_def)
qed

text \<open>
  The cap that the plan prints for a corridor with a limit and no proof is the limit, however large;
  the engine caps the same payment at the canary amount.
\<close>

theorem plan_overstates_the_cap:
  assumes "c_proof c = None" and "max_limit c = Some m" and "m \<noteq> ''''" and "d_unprovenMaxAmount d = None"
    and "compareAmounts m ''10'' STROOP_SCALE = Inr v" and "v > 0"
  shows "canary_cap c = m \<and> effectiveCap d c True = Inr (Some ''10'')"
  using assms by (auto simp: canary_cap_def max_limit_def effectiveCap_def canaryCap_def coalesce_def split: option.splits)

subsection \<open>The arguments\<close>

definition plan_argv :: "plan_args \<Rightarrow> string list" where
  "plan_argv a =
     [pa_file a] @ (if pa_json a then [''--json''] else []) @
     (if pa_registry a then [''--registry'', ''--network'', net_name (pa_network a)] else [])"

lemma network_arg_name [simp]: "network_arg (net_name n) = Some n"
  by (cases n) (simp_all add: network_arg_def)

lemma plan_args_steps:
  "plan_args_loop [] g = Inr g"
  "plan_args_loop (''--json'' # rest) g = plan_args_loop rest (g\<lparr>pg_json := True\<rparr>)"
  "plan_args_loop (''--registry'' # rest) g = plan_args_loop rest (g\<lparr>pg_registry := True\<rparr>)"
  "plan_args_loop (''--network'' # v # rest) g =
     (case network_arg v of
        None \<Rightarrow> Inl ''error: --network must be testnet or public''
      | Some n \<Rightarrow> plan_args_loop rest (g\<lparr>pg_network := Some n\<rparr>))"
  "\<not> starts_with ''--'' f \<Longrightarrow> plan_args_loop (f # rest) g = plan_args_loop rest (g\<lparr>pg_files := pg_files g @ [f]\<rparr>)"
  by (subst plan_args_loop.simps, simp)+ (subst plan_args_loop.simps, auto simp: starts_with_def)

text \<open>
  Every parsed command line can be written out and parses back to itself; a network is only ever
  taken for a run that reads the registry, without which it is the default.
\<close>

theorem plan_args_roundtrip:
  assumes "pa_file a \<noteq> ''''" and "\<not> starts_with ''--'' (pa_file a)" and "pa_registry a \<or> pa_network a = TestNet"
  shows "parsePlanArgs (plan_argv a) = Inr a"
  using assms by (cases a) (auto simp: parsePlanArgs_def plan_argv_def plan_args_steps)

lemma plan_args_loop_files:
  assumes "plan_args_loop args g = Inr g'" and "list_all (\<lambda>f. \<not> starts_with ''--'' f) (pg_files g)"
  shows "list_all (\<lambda>f. \<not> starts_with ''--'' f) (pg_files g')"
  using assms
proof (induction args g rule: plan_args_loop.induct)
  case (1 args g)
  from "1.prems" show ?case
    by (subst (asm) plan_args_loop.simps)
      (auto simp: "1.IH" split: list.splits if_splits option.splits)
qed

text \<open>What parses is such a command: one file that is no option, and no network without the registry.\<close>

theorem plan_args_sound:
  assumes "parsePlanArgs args = Inr a"
  shows "pa_file a \<noteq> '''' \<and> \<not> starts_with ''--'' (pa_file a) \<and> (pa_registry a \<or> pa_network a = TestNet)"
proof -
  obtain g where g: "plan_args_loop args \<lparr>pg_json = False, pg_registry = False, pg_network = None, pg_files = []\<rparr> = Inr g"
    and f: "pg_files g = [pa_file a]" "pa_file a \<noteq> ''''" "pa_registry a \<or> pa_network a = TestNet"
    using assms by (auto simp: parsePlanArgs_def split: sum.splits list.splits if_splits option.splits)
  then show ?thesis using plan_args_loop_files [OF g] by simp
qed

end
