(* ===== verification/Sweep.thy ===== *)
theory Sweep
  imports Probe "HOL-Library.Multiset"
begin

section \<open>Sweeping a fleet of anchors (packages/probe/src/report.ts)\<close>

text \<open>
  What a sweep reports of each probe result, in records and in Markdown, and the sweep itself: a pool
  of workers that take the next domain and await its probe. The workers are interleaved in every way,
  finer than JavaScript's turns; a probe answers with a result or with the message it was rejected with.
\<close>

subsection \<open>Report entries\<close>

definition isUsableSep31 :: "probe_result \<Rightarrow> bool" where
  "isUsableSep31 r =
     (let advertisesSep31 = (pr_seps r AND sepBit 31 \<noteq> 0);
          passedSep31Probe = (pr_passed r AND probeBit ''sep31_info'' \<noteq> 0)
      in advertisesSep31 \<and> passedSep31Probe)"

definition extractReceiveAssets :: "probe_result \<Rightarrow> string list" where
  "extractReceiveAssets r =
     (let assets = (case pr_sep31ReceiveAssets r of Some as \<Rightarrow> Some as | None \<Rightarrow> pr_receiveAssets r) in
      case assets of
        Some (a # as) \<Rightarrow> a # as
      | _ \<Rightarrow>
          (case find (\<lambda>o'. po_probe o' = ''sep31_info'' \<and> po_passed o') (pr_outcomes r) of
             Some o' \<Rightarrow>
               if starts_with ''receives '' (po_detail o')
               then filter (\<lambda>s. s \<noteq> '''') (map js_trim (split_on (CHR '','') (drop 9 (po_detail o'))))
               else []
           | None \<Rightarrow> []))"

record sweep_entry =
  se_domain :: string
  se_timestamp :: string
  se_seps :: "int list"
  se_probesRun :: "string list"
  se_probesPassed :: "string list"
  se_probesFailed :: "string list"
  se_receiveAssets :: "string list"
  se_usableSep31 :: bool
  se_usableSep31OffRamp :: string
  se_tomlHash :: string
  se_outcomes :: "probe_outcome list"
  se_raw :: "32 word \<times> 32 word \<times> 32 word"

definition buildSweepReportEntry :: "probe_result \<Rightarrow> string \<Rightarrow> sweep_entry" where
  "buildSweepReportEntry r timestamp =
     (let run = decodeProbes (pr_run r); passed = decodeProbes (pr_passed r); usable = isUsableSep31 r in
      \<lparr>se_domain = pr_domain r, se_timestamp = timestamp, se_seps = decodeSeps (pr_seps r), se_probesRun = run,
       se_probesPassed = passed, se_probesFailed = filter (\<lambda>p. p \<notin> set passed) run,
       se_receiveAssets = extractReceiveAssets r, se_usableSep31 = usable,
       se_usableSep31OffRamp = (if usable then ''yes'' else ''no''), se_tomlHash = pr_tomlHash r,
       se_outcomes = pr_outcomes r, se_raw = (pr_seps r, pr_run r, pr_passed r)\<rparr>)"

definition buildSweepReport :: "probe_result list \<Rightarrow> string \<Rightarrow> sweep_entry list" where
  "buildSweepReport results timestamp = map (\<lambda>r. buildSweepReportEntry r timestamp) results"

subsection \<open>Markdown\<close>

definition replace_char :: "char \<Rightarrow> string \<Rightarrow> string \<Rightarrow> string" where
  "replace_char c t s = concat (map (\<lambda>x. if x = c then t else [x]) s)"

definition escapeTableCell :: "string \<Rightarrow> string" where
  "escapeTableCell s = replace_char (CHR ''|'') [CHR 0x5C, CHR ''|''] (replace_char (CHR 0x5C) [CHR 0x5C, CHR 0x5C] s)"

definition formatFailedProbesDetail :: "probe_result \<Rightarrow> string" where
  "formatFailedProbesDetail r =
     (let failed = filter (\<lambda>o'. \<not> po_passed o') (pr_outcomes r) in
      if failed = [] then
        let unpassed = filter (\<lambda>p. p \<notin> set (decodeProbes (pr_passed r))) (decodeProbes (pr_run r))
        in if unpassed \<noteq> [] then join '', '' unpassed else ''none''
      else join ''; '' (map (\<lambda>o'. po_probe o' @ '': '' @ escapeTableCell (po_detail o')) failed))"

definition or_none :: "string \<Rightarrow> string" where
  "or_none s = (if s = '''' then ''none'' else s)"

definition sweep_row :: "probe_result \<Rightarrow> string" where
  "sweep_row r =
     ''| '' @ pr_domain r @ '' | '' @ or_none (join '', '' (map (\<lambda>n. ''SEP-'' @ show_int n) (decodeSeps (pr_seps r)))) @
     '' | '' @ or_none (join '', '' (decodeProbes (pr_passed r))) @ '' | '' @ formatFailedProbesDetail r @ '' | '' @
     (if isUsableSep31 r then ''yes'' else ''no'') @ '' |''"

definition renderSweepMarkdown :: "probe_result list \<Rightarrow> string \<Rightarrow> string" where
  "renderSweepMarkdown results timestamp =
     join [CHR 0x0A]
       ([''# Anchor Sweep Report'', '''', ''Generated at: '' @ timestamp, '''',
         ''| Domain | Advertised SEPs | Passed Probes | Failed Probes (Detail) | Usable SEP-31 off-ramp |'',
         ''| --- | --- | --- | --- | --- |''] @ map sweep_row results @ [''''])"

subsection \<open>Arguments\<close>

text \<open>\<open>parseInt(s, 10)\<close>, \<open>None\<close> for NaN.\<close>

definition parse_int10 :: "string \<Rightarrow> int option" where
  "parse_int10 s =
     (let t = dropWhile is_ws s;
          neg = (t \<noteq> [] \<and> hd t = CHR ''-'');
          u = (if t \<noteq> [] \<and> (hd t = CHR ''-'' \<or> hd t = CHR ''+'') then tl t else t);
          digits = takeWhile is_digit u
      in if digits = [] then None
         else Some (if neg then - int (nat_of_digits digits) else int (nat_of_digits digits)))"

record sweep_args =
  sa_domains :: "string list"
  sa_outDir :: "string option"
  sa_concurrency :: "int option"

definition first_of :: "'a list \<Rightarrow> 'a option" where
  "first_of xs = (case xs of [] \<Rightarrow> None | x # _ \<Rightarrow> Some x)"

definition set_concurrency :: "string option \<Rightarrow> sweep_args \<Rightarrow> sweep_args" where
  "set_concurrency v a =
     (case (case v of Some s \<Rightarrow> parse_int10 s | None \<Rightarrow> None) of Some c \<Rightarrow> a\<lparr>sa_concurrency := Some c\<rparr> | None \<Rightarrow> a)"

function sweep_args_loop :: "string list \<Rightarrow> sweep_args \<Rightarrow> sweep_args" where
  "sweep_args_loop [] a = a"
| "sweep_args_loop (arg # rest) a =
     (if arg = ''--out'' then sweep_args_loop (tl rest) (a\<lparr>sa_outDir := first_of rest\<rparr>)
      else if starts_with ''--out='' arg then sweep_args_loop rest (a\<lparr>sa_outDir := Some (drop 6 arg)\<rparr>)
      else if arg = ''--concurrency'' then sweep_args_loop (tl rest) (set_concurrency (first_of rest) a)
      else if starts_with ''--concurrency='' arg then sweep_args_loop rest (set_concurrency (Some (drop 14 arg)) a)
      else if \<not> starts_with ''-'' arg then sweep_args_loop rest (a\<lparr>sa_domains := sa_domains a @ [arg]\<rparr>)
      else sweep_args_loop rest a)"
  by pat_completeness auto
termination by (relation "measure (\<lambda>(args, _). length args)") auto

definition parseSweepArgs :: "string list \<Rightarrow> sweep_args" where
  "parseSweepArgs args = sweep_args_loop args \<lparr>sa_domains = [], sa_outDir = None, sa_concurrency = None\<rparr>"

subsection \<open>The worker pool\<close>

text \<open>A rejected probe is recorded as a failed fetch of the stellar.toml.\<close>

definition answered :: "string \<Rightarrow> string + probe_result \<Rightarrow> probe_result" where
  "answered domain a =
     (case a of
        Inr r \<Rightarrow> r
      | Inl detail \<Rightarrow>
          \<lparr>pr_domain = domain, pr_seps = 0, pr_run = probeBit ''toml_fetch'', pr_passed = 0, pr_tomlHash = ZERO_HASH,
           pr_outcomes = [\<lparr>po_probe = ''toml_fetch'', po_passed = False, po_detail = detail\<rparr>],
           pr_sep31ReceiveAssets = None, pr_receiveAssets = None, pr_country = NoCountry, pr_toml = None\<rparr>)"

datatype worker = Looping | Awaiting nat | Returned

text \<open>\<open>sw_log\<close> records the answers in the order in which \<open>onProgress\<close> is told of them.\<close>

record sweep =
  sw_nextIndex :: nat
  sw_results :: "probe_result option list"
  sw_workers :: "worker list"
  sw_log :: "(nat \<times> (string + probe_result)) list"

definition workerCount :: "int option \<Rightarrow> string list \<Rightarrow> nat" where
  "workerCount concurrency domains =
     min (nat (max 1 (case concurrency of Some c \<Rightarrow> c | None \<Rightarrow> 4))) (length domains)"

definition sweep_start :: "int option \<Rightarrow> string list \<Rightarrow> sweep" where
  "sweep_start concurrency domains =
     \<lparr>sw_nextIndex = 0, sw_results = replicate (length domains) None,
      sw_workers = replicate (workerCount concurrency domains) Looping, sw_log = []\<rparr>"

inductive sweep_step :: "string list \<Rightarrow> sweep \<Rightarrow> sweep \<Rightarrow> bool" for domains where
  take_next: "w < length (sw_workers s) \<Longrightarrow> sw_workers s ! w = Looping \<Longrightarrow> sw_nextIndex s < length domains \<Longrightarrow>
    sweep_step domains s (s\<lparr>sw_nextIndex := Suc (sw_nextIndex s),
      sw_workers := (sw_workers s)[w := Awaiting (sw_nextIndex s)]\<rparr>)"
| got_answer: "w < length (sw_workers s) \<Longrightarrow> sw_workers s ! w = Awaiting idx \<Longrightarrow>
    sweep_step domains s (s\<lparr>sw_results := (sw_results s)[idx := Some (answered (domains ! idx) a)],
      sw_workers := (sw_workers s)[w := Looping], sw_log := sw_log s @ [(idx, a)]\<rparr>)"
| leave_loop: "w < length (sw_workers s) \<Longrightarrow> sw_workers s ! w = Looping \<Longrightarrow> \<not> sw_nextIndex s < length domains \<Longrightarrow>
    sweep_step domains s (s\<lparr>sw_workers := (sw_workers s)[w := Returned]\<rparr>)"

inductive_cases sweep_stepE: "sweep_step domains s t"

inductive sweep_run :: "int option \<Rightarrow> string list \<Rightarrow> nat \<Rightarrow> sweep \<Rightarrow> bool" for concurrency domains where
  sweep_run_start: "sweep_run concurrency domains 0 (sweep_start concurrency domains)"
| sweep_run_step: "sweep_run concurrency domains n s \<Longrightarrow> sweep_step domains s t \<Longrightarrow> sweep_run concurrency domains (Suc n) t"

definition all_returned :: "sweep \<Rightarrow> bool" where
  "all_returned s = list_all (\<lambda>w. w = Returned) (sw_workers s)"

subsection \<open>Every domain is probed once, and its answer reported\<close>

fun weight :: "worker \<Rightarrow> nat" where
  "weight Looping = 1"
| "weight (Awaiting _) = 2"
| "weight Returned = 0"

definition work :: "string list \<Rightarrow> sweep \<Rightarrow> nat" where
  "work domains s = 2 * (length domains - sw_nextIndex s) + sum_list (map weight (sw_workers s))"

lemma sum_list_set: "w < length ws \<Longrightarrow> sum_list (map f (ws[w := x])) + f (ws ! w) = sum_list (map f ws) + (f x :: nat)"
proof (induction ws arbitrary: w)
  case (Cons y ws)
  then show ?case by (cases w) (simp_all add: ac_simps)
qed simp

lemma step_work:
  assumes "sweep_step domains s t"
  shows "Suc (work domains t) = work domains s"
  using assms
proof cases
  case (take_next w)
  then show ?thesis using sum_list_set [of w "sw_workers s" weight "Awaiting (sw_nextIndex s)"] by (simp add: work_def)
next
  case (got_answer w idx a)
  then show ?thesis using sum_list_set [of w "sw_workers s" weight Looping] by (simp add: work_def)
next
  case (leave_loop w)
  then show ?thesis using sum_list_set [of w "sw_workers s" weight Returned] by (simp add: work_def)
qed

text \<open>
  What holds of the variables between two steps: one worker awaits each index below \<open>nextIndex\<close> that
  has no answer yet, a logged answer is the result stored, and no worker returns before the last index
  is taken.
\<close>

definition pool_ok :: "string list \<Rightarrow> sweep \<Rightarrow> bool" where
  "pool_ok domains s \<longleftrightarrow>
     sw_nextIndex s \<le> length domains \<and> length (sw_results s) = length domains \<and> distinct (map fst (sw_log s)) \<and>
     (\<forall>(i, a) \<in> set (sw_log s). i < sw_nextIndex s \<and> sw_results s ! i = Some (answered (domains ! i) a)) \<and>
     (\<forall>i. count (mset (sw_workers s)) (Awaiting i) = (if i < sw_nextIndex s \<and> i \<notin> fst ` set (sw_log s) then 1 else 0)) \<and>
     (Returned \<in> set (sw_workers s) \<longrightarrow> sw_nextIndex s = length domains)"

lemma start_ok: "pool_ok domains (sweep_start c domains)"
  by (simp add: pool_ok_def sweep_start_def)

lemma step_ok:
  assumes "sweep_step domains s t" "pool_ok domains s"
  shows "pool_ok domains t"
  using assms(1)
proof cases
  case (take_next w)
  have log: "sw_nextIndex s \<notin> fst ` set (sw_log s)" using assms(2) by (auto simp: pool_ok_def)
  have "count (mset (sw_workers t)) (Awaiting i) = (if i < sw_nextIndex t \<and> i \<notin> fst ` set (sw_log t) then 1 else 0)" for i
    using take_next assms(2) log unfolding pool_ok_def by (auto simp: mset_update less_Suc_eq)
  moreover have "Returned \<notin> set (sw_workers t)"
    using take_next assms(2) set_update_subset_insert [of "sw_workers s" w] unfolding pool_ok_def by auto
  ultimately show ?thesis using take_next(1,4) assms(2) unfolding pool_ok_def by auto
next
  case (got_answer w idx a)
  have "0 < count (mset (sw_workers s)) (Awaiting idx)" using got_answer(2,3) nth_mem by (fastforce simp: count_greater_zero_iff)
  then have idx: "idx < sw_nextIndex s" "idx \<notin> fst ` set (sw_log s)" "count (mset (sw_workers s)) (Awaiting idx) = 1"
    using assms(2) unfolding pool_ok_def by (auto split: if_splits)
  have "count (mset (sw_workers t)) (Awaiting i) = (if i < sw_nextIndex t \<and> i \<notin> fst ` set (sw_log t) then 1 else 0)" for i
    using got_answer assms(2) idx unfolding pool_ok_def by (auto simp: mset_update)
  moreover have "Returned \<in> set (sw_workers t) \<Longrightarrow> Returned \<in> set (sw_workers s)"
    using got_answer set_update_subset_insert [of "sw_workers s" w] by auto
  moreover have "i < sw_nextIndex t \<and> sw_results t ! i = Some (answered (domains ! i) b)" if "(i, b) \<in> set (sw_log t)" for i b
  proof (cases "(i, b) \<in> set (sw_log s)")
    case True
    then have "i \<noteq> idx" using idx(2) by force
    then show ?thesis using True assms(2) got_answer(1) unfolding pool_ok_def by auto
  next
    case False
    then have "i = idx" "b = a" using that got_answer(1) by auto
    then show ?thesis using idx(1) assms(2) got_answer(1) unfolding pool_ok_def by simp
  qed
  ultimately show ?thesis using got_answer(1) assms(2) idx(2) unfolding pool_ok_def by auto
next
  case (leave_loop w)
  have "count (mset (sw_workers t)) (Awaiting i) = count (mset (sw_workers s)) (Awaiting i)" for i
    using leave_loop by (simp add: mset_update)
  then show ?thesis using leave_loop(1,4) assms(2) unfolding pool_ok_def by auto
qed

subsection \<open>A sweep ends, with a result for every domain\<close>

lemma step_workers: "sweep_step domains s t \<Longrightarrow> length (sw_workers t) = length (sw_workers s)"
  by (elim sweep_stepE) simp_all

lemma run_invariant:
  assumes "sweep_run c domains n s"
  shows "pool_ok domains s \<and> length (sw_workers s) = workerCount c domains \<and>
    n + work domains s = 2 * length domains + workerCount c domains"
  using assms
proof (induction rule: sweep_run.induct)
  case sweep_run_start
  show ?case using start_ok by (simp add: sweep_start_def work_def sum_list_replicate)
next
  case (sweep_run_step n s t)
  then show ?case using step_ok [of domains s t] step_workers [of domains s t] step_work [of domains s t] by simp
qed

lemma step_possible:
  assumes "\<not> all_returned s"
  shows "\<exists>t. sweep_step domains s t"
proof -
  obtain w where w: "w < length (sw_workers s)" "sw_workers s ! w \<noteq> Returned"
    using assms(1) by (auto simp: all_returned_def list_all_length)
  show ?thesis
  proof (cases "sw_workers s ! w")
    case Looping
    then show ?thesis using w sweep_step.take_next [of w s domains] sweep_step.leave_loop [of w s domains] by blast
  next
    case (Awaiting idx)
    then show ?thesis using w sweep_step.got_answer [of w s idx domains] by blast
  qed (use w in simp)
qed

lemma returned_covers:
  assumes "all_returned s" "pool_ok domains s" "length (sw_workers s) = workerCount c domains"
  shows "mset (map fst (sw_log s)) = mset [0..<length domains]"
proof -
  have no: "count (mset (sw_workers s)) (Awaiting i) = 0" for i
    using assms(1) by (auto simp: all_returned_def list_all_iff count_eq_zero_iff)
  have "sw_nextIndex s = length domains"
  proof (cases "sw_workers s")
    case Nil
    then have "length domains = 0" using assms(3) by (auto simp: workerCount_def min_def split: if_splits)
    then show ?thesis using assms(2) by (simp add: pool_ok_def)
  next
    case (Cons w ws)
    then have "Returned \<in> set (sw_workers s)" using assms(1) by (simp add: all_returned_def)
    then show ?thesis using assms(2) by (simp add: pool_ok_def)
  qed
  then have "i \<in> fst ` set (sw_log s) \<longleftrightarrow> i < length domains" for i
    using assms(2) no [of i] unfolding pool_ok_def by (auto split: if_splits)
  then have "set (map fst (sw_log s)) = set [0..<length domains]" by (simp add: set_eq_iff)
  then show ?thesis using assms(2) set_eq_iff_mset_eq_distinct [of "map fst (sw_log s)" "[0..<length domains]"]
    by (simp add: pool_ok_def)
qed

text \<open>
  C25: However the workers are interleaved, a sweep takes at most two steps per domain and one per worker,
  it can go on until every worker has returned, and then every domain has been probed exactly once and
  the result at its index is the answer to its own probe.
\<close>

theorem sweep_completes:
  assumes "sweep_run concurrency domains n s"
  shows "n \<le> 2 * length domains + workerCount concurrency domains \<and>
    (all_returned s \<or> (\<exists>t. sweep_step domains s t)) \<and>
    (all_returned s \<longrightarrow> mset (map fst (sw_log s)) = mset [0..<length domains] \<and>
      length (sw_results s) = length domains \<and>
      (\<forall>(i, a) \<in> set (sw_log s). sw_results s ! i = Some (answered (domains ! i) a)))"
  using run_invariant [OF assms] step_possible [of s domains] returned_covers [of s domains concurrency]
  unfolding pool_ok_def by auto


definition one_answer :: sweep where
  "one_answer = \<lparr>sw_nextIndex = 1, sw_results = [Some (answered ''a'' (Inl ''down''))], sw_workers = [Returned],
     sw_log = [(0, Inl ''down'')]\<rparr>"

lemma one_answer_run: "sweep_run None [''a''] 3 one_answer"
proof -
  have "sweep_run None [''a''] 0 \<lparr>sw_nextIndex = 0, sw_results = [None], sw_workers = [Looping], sw_log = []\<rparr>"
    using sweep_run_start [of None "[''a'']"] by (simp add: sweep_start_def workerCount_def)
  from sweep_run_step [OF this take_next [of 0]]
  have "sweep_run None [''a''] (Suc 0) \<lparr>sw_nextIndex = 1, sw_results = [None], sw_workers = [Awaiting 0], sw_log = []\<rparr>" by simp
  from sweep_run_step [OF this got_answer [of 0 _ 0 _ "Inl ''down''"]]
  have "sweep_run None [''a''] (Suc (Suc 0)) \<lparr>sw_nextIndex = 1, sw_results = [Some (answered ''a'' (Inl ''down''))],
      sw_workers = [Looping], sw_log = [(0, Inl ''down'')]\<rparr>" by simp
  from sweep_run_step [OF this leave_loop [of 0]] show ?thesis by (simp add: one_answer_def eval_nat_numeral)
qed

lemma sweep_completes_witness:
  "all_returned one_answer \<and> mset (map fst (sw_log one_answer)) = mset [0..<length [''a'']] \<and>
   sw_results one_answer ! 0 = Some (answered ''a'' (Inl ''down''))"
  using sweep_completes [OF one_answer_run] by (simp add: all_returned_def one_answer_def)

subsection \<open>What a report says\<close>

lemma assets_agree: "yields (probeAnchor env domain) (\<lambda>r. pr_sep31ReceiveAssets r = pr_receiveAssets r)"
  unfolding probeAnchor_def Let_def by (auto intro!: yields_rules)

lemma decode_member: "i < length xs \<Longrightarrow> distinct xs \<Longrightarrow> xs ! i \<in> set (decode_mask xs m) \<longleftrightarrow> bit m i"
  by (force simp: decode_mask_filter set_zip nth_eq_iff_index_eq)

lemma member_bit:
  assumes "distinct xs" "x \<in> set xs"
  shows "(m AND bit_at xs x \<noteq> 0) \<longleftrightarrow> x \<in> set (decode_mask xs m)"
proof -
  obtain i where "i < length xs" "x = xs ! i" using assms(2) by (auto simp: in_set_conv_nth)
  then show ?thesis using assms(1) decode_member [of i xs m] by (simp add: bit_at_nth and_exp_eq_0_iff_not_bit)
qed

lemma distinct_decode: "distinct xs \<Longrightarrow> distinct (decode_mask xs m)"
  unfolding decode_mask_filter by (rule distinct_map_filter) simp

lemma usable_decoded:
  "isUsableSep31 r \<longleftrightarrow> 31 \<in> set (decodeSeps (pr_seps r)) \<and> ''sep31_info'' \<in> set (decodeProbes (pr_passed r))"
  using member_bit [of SEP_NUMBERS 31] member_bit [of PROBE_NAMES "''sep31_info''"]
  by (simp add: isUsableSep31_def sepBit_def probeBit_def decodeSeps_def decodeProbes_def)
    (simp add: SEP_NUMBERS_def PROBE_NAMES_def)

lemma failed_names:
  assumes "distinct (names_of os)"
  shows "set (filter (\<lambda>p. p \<notin> set (names_of (filter po_passed os))) (names_of os)) = set (names_of (filter (\<lambda>o'. \<not> po_passed o') os))"
  using assms by (auto simp: names_of_def distinct_map dest: inj_onD)

text \<open>
  The report of a probe says yes to a SEP-31 off-ramp exactly when the stellar.toml gives a payment
  server and the probe read a nonempty list of receive assets there; then it shows that list; and the
  probes it shows as failed are the outcomes that did not pass.
\<close>

theorem report_is_truthful:
  assumes "probeAnchor env domain w = (Some r, w')" and "e = buildSweepReportEntry r timestamp"
  shows "se_probesRun e = names_of (se_outcomes e) \<and> se_probesPassed e = names_of (filter po_passed (se_outcomes e)) \<and>
    set (se_probesFailed e) = set (names_of (filter (\<lambda>o'. \<not> po_passed o') (se_outcomes e))) \<and>
    (se_usableSep31 e \<longleftrightarrow> (\<exists>toml. pr_toml r = Some toml \<and> tomlValue toml ''DIRECT_PAYMENT_SERVER'' \<noteq> None) \<and> pr_receiveAssets r \<noteq> None) \<and>
    (se_usableSep31 e \<longrightarrow> se_receiveAssets e \<noteq> [] \<and> pr_receiveAssets r = Some (se_receiveAssets e))"
proof -
  have honest: "honest_result env r" by (rule yieldsD [OF probe_yields_honest assms(1)])
  have agree: "pr_sep31ReceiveAssets r = pr_receiveAssets r" by (rule yieldsD [OF assets_agree assms(1)])
  have run: "decodeProbes (pr_run r) = names_of (pr_outcomes r)"
    and passed: "decodeProbes (pr_passed r) = names_of (filter po_passed (pr_outcomes r))"
    using honest by (auto simp: honest_result_def)
  have dist: "distinct (names_of (pr_outcomes r))"
    using distinct_decode [of PROBE_NAMES "pr_run r"] by (simp add: decodeProbes_def flip: run)
  have "31 \<in> set (decodeSeps (pr_seps r)) \<longleftrightarrow> (\<exists>toml. pr_toml r = Some toml \<and> tomlValue toml ''DIRECT_PAYMENT_SERVER'' \<noteq> None)"
    if "''sep31_info'' \<in> set (decodeProbes (pr_passed r))"
    using honest that unfolding honest_result_def
    by (cases "pr_toml r") (auto simp: decodeProbes_def decode_mask_def TOML_ENDPOINTS_def SEP_NUMBERS_def)
  then have usable: "se_usableSep31 e \<longleftrightarrow>
      (\<exists>toml. pr_toml r = Some toml \<and> tomlValue toml ''DIRECT_PAYMENT_SERVER'' \<noteq> None) \<and> pr_receiveAssets r \<noteq> None"
    using honest by (auto simp: assms(2) buildSweepReportEntry_def Let_def usable_decoded honest_result_def)
  moreover have "pr_receiveAssets r \<noteq> None \<Longrightarrow> se_receiveAssets e \<noteq> [] \<and> pr_receiveAssets r = Some (se_receiveAssets e)"
    using honest agree
    by (auto simp: assms(2) buildSweepReportEntry_def Let_def extractReceiveAssets_def honest_result_def split: list.splits)
  ultimately show ?thesis using failed_names [OF dist]
    by (simp add: assms(2) buildSweepReportEntry_def Let_def run passed)
qed


lemma demo_probe_run: "\<exists>r w'. probeAnchor demo_probe ''10.0.0.1'' 0 = (Some r, w') \<and> pr_outcomes r =
  [\<lparr>po_probe = ''toml_fetch'', po_passed = False,
    po_detail = ''refusing to fetch unsafe url: https://10.0.0.1/.well-known/stellar.toml''\<rparr>]"
proof -
  have "\<not> isSafeUrl (pe_url demo_probe) ''https://10.0.0.1/.well-known/stellar.toml''" by code_simp
  then show ?thesis
    by (simp add: probeAnchor_def fetch_toml_def ok_get_def probe_get_def andThen_def fail_with_def Let_def
        get_request_def record_probe_def io_defs)
qed

lemma report_is_truthful_witness:
  "\<exists>r e. e = buildSweepReportEntry r ''2026-01-01'' \<and> se_probesRun e = [''toml_fetch''] \<and> se_probesPassed e = [] \<and>
     set (se_probesFailed e) = {''toml_fetch''}"
proof -
  obtain r w' where r: "probeAnchor demo_probe ''10.0.0.1'' 0 = (Some r, w')" and os: "pr_outcomes r =
    [\<lparr>po_probe = ''toml_fetch'', po_passed = False,
      po_detail = ''refusing to fetch unsafe url: https://10.0.0.1/.well-known/stellar.toml''\<rparr>]"
    using demo_probe_run by blast
  have "se_outcomes (buildSweepReportEntry r ''2026-01-01'') = pr_outcomes r" by (simp add: buildSweepReportEntry_def Let_def)
  then show ?thesis using report_is_truthful [OF r refl, of "''2026-01-01''"] os by (auto simp: names_of_def)
qed

text \<open>An escaped cell holds no pipe that Markdown would read as the end of the cell.\<close>

fun live_pipes :: "string \<Rightarrow> nat" where
  "live_pipes [] = 0"
| "live_pipes [c] = (if c = CHR ''|'' then 1 else 0)"
| "live_pipes (c # d # s) =
     (if c = CHR 0x5C then live_pipes s else if c = CHR ''|'' then Suc (live_pipes (d # s)) else live_pipes (d # s))"

lemma live_plain: "c \<noteq> CHR 0x5C \<Longrightarrow> c \<noteq> CHR ''|'' \<Longrightarrow> live_pipes (c # s) = live_pipes s"
  by (cases s) simp_all

lemma escaped_cell_is_one_cell: "live_pipes (escapeTableCell s) = 0"
  unfolding escapeTableCell_def replace_char_def by (induction s) (auto simp: live_plain)

end
