(* ===== verification/Loader.thy ===== *)
theory Loader
  imports Sweep
begin

section \<open>Storing and loading probe results (packages/probe/src/index.ts, report.ts, loader.ts)\<close>

text \<open>
  The two JSON forms in which a probe result is written (masks as numbers, or decoded with the masks
  under \<open>raw\<close>) and the validating loader in front of the attester. \<open>JSON.parse\<close> and \<open>String\<close> of a JSON
  value are parameters; \<open>JSON.stringify(v, null, 2)\<close> is written out.
\<close>

subsection \<open>Writing\<close>

fun pretty :: "nat \<Rightarrow> json \<Rightarrow> string" where
  "pretty n JNull = ''null''"
| "pretty n (JBool b) = (if b then ''true'' else ''false'')"
| "pretty n (JInt i) = show_int i"
| "pretty n (JStr s) = json_string s"
| "pretty n (JArr vs) =
     (if vs = [] then ''[]''
      else ''['' @ join '','' (map (\<lambda>v. CHR 0x0A # replicate (n + 2) (CHR '' '') @ pretty (n + 2) v) vs) @
        CHR 0x0A # replicate n (CHR '' '') @ '']'')"
| "pretty n (JObj kvs) =
     (if kvs = [] then ''{}''
      else ''{'' @ join '','' (map (\<lambda>(k, v). CHR 0x0A # replicate (n + 2) (CHR '' '') @ json_string k @ '': '' @ pretty (n + 2) v) kvs) @
        CHR 0x0A # replicate n (CHR '' '') @ ''}'')"

definition outcome_json :: "probe_outcome \<Rightarrow> json" where
  "outcome_json o' = JObj [(''probe'', JStr (po_probe o')), (''passed'', JBool (po_passed o')), (''detail'', JStr (po_detail o'))]"

definition names_json :: "string list \<Rightarrow> json" where
  "names_json ns = JArr (map JStr ns)"

definition mask_json :: "32 word \<Rightarrow> json" where
  "mask_json m = JInt (uint m)"

text \<open>
  What \<open>...(country ? { country } : {})\<close> and \<open>JSON.stringify\<close> make of the country: an inherited
  property is truthy, a function is left out by \<open>stringify\<close>, and the prototype object is written \<open>{}\<close>.
\<close>

definition country_json :: "country \<Rightarrow> (string \<times> json) list" where
  "country_json c =
     (case c of
        Country s \<Rightarrow> if s = '''' then [] else [(''country'', JStr s)]
      | InheritedProperty k \<Rightarrow> if k = ''__proto__'' then [(''country'', JObj [])] else []
      | NoCountry \<Rightarrow> [])"

definition tail_json :: "probe_result \<Rightarrow> (string \<times> json) list" where
  "tail_json r =
     (''tomlHash'', JStr (pr_tomlHash r)) # (''outcomes'', JArr (map outcome_json (pr_outcomes r))) #
     (case pr_toml r of Some t \<Rightarrow> [(''toml'', JStr t)] | None \<Rightarrow> []) @
     (case pr_sep31ReceiveAssets r of Some as \<Rightarrow> [(''sep31ReceiveAssets'', names_json as)] | None \<Rightarrow> []) @
     (case pr_receiveAssets r of Some as \<Rightarrow> [(''receiveAssets'', names_json as)] | None \<Rightarrow> []) @
     country_json (pr_country r)"

definition result_json :: "probe_result \<Rightarrow> json" where
  "result_json r =
     JObj ([(''domain'', JStr (pr_domain r)), (''seps'', mask_json (pr_seps r)), (''probesRun'', mask_json (pr_run r)),
       (''probesPassed'', mask_json (pr_passed r))] @ tail_json r)"

definition renderSweepJson :: "probe_result list \<Rightarrow> string" where
  "renderSweepJson results = pretty 0 (JArr (map result_json results)) @ [CHR 0x0A]"

definition formatted :: "probe_result \<Rightarrow> json" where
  "formatted r =
     JObj ([(''domain'', JStr (pr_domain r)), (''seps'', JArr (map JInt (decodeSeps (pr_seps r)))),
       (''probesRun'', names_json (decodeProbes (pr_run r))), (''probesPassed'', names_json (decodeProbes (pr_passed r)))] @
       tail_json r @
       [(''raw'', JObj [(''seps'', mask_json (pr_seps r)), (''probesRun'', mask_json (pr_run r)),
          (''probesPassed'', mask_json (pr_passed r))])])"

definition formatProbeResultJson :: "probe_result \<Rightarrow> string" where
  "formatProbeResultJson r = pretty 0 (formatted r)"

subsection \<open>Loading\<close>

definition is_hex_char :: "char \<Rightarrow> bool" where
  "is_hex_char c = (is_digit c \<or> (let n = of_char c :: nat in (97 \<le> n \<and> n \<le> 102) \<or> (65 \<le> n \<and> n \<le> 70)))"

definition hex64 :: "string \<Rightarrow> bool" where
  "hex64 s = (length s = 64 \<and> list_all is_hex_char s)"

definition isUint32 :: "json option \<Rightarrow> bool" where
  "isUint32 v = (case v of Some (JInt i) \<Rightarrow> 0 \<le> i \<and> i \<le> 0xffffffff | _ \<Rightarrow> False)"

definition uint32 :: "json option \<Rightarrow> 32 word" where
  "uint32 v = (case v of Some (JInt i) \<Rightarrow> word_of_int i | _ \<Rightarrow> 0)"

definition js_object :: "json option \<Rightarrow> bool" where
  "js_object v = (case v of Some (JObj _) \<Rightarrow> True | Some (JArr _) \<Rightarrow> True | _ \<Rightarrow> False)"

type_synonym masks = "32 word \<times> 32 word \<times> 32 word"

definition number_masks :: "json option \<Rightarrow> masks option" where
  "number_masks v =
     (let s = prop_opt v ''seps''; n = prop_opt v ''probesRun''; p = prop_opt v ''probesPassed'' in
      if isUint32 s \<and> isUint32 n \<and> isUint32 p then Some (uint32 s, uint32 n, uint32 p) else None)"

fun sep_mask :: "(json \<Rightarrow> string) \<Rightarrow> string \<Rightarrow> json list \<Rightarrow> 32 word \<Rightarrow> string + 32 word" where
  "sep_mask str domain [] m = Inr m"
| "sep_mask str domain (s # rest) m =
     (case s of
        JInt i \<Rightarrow>
          if i \<in> set SEP_NUMBERS then sep_mask str domain rest (m OR sepBit i)
          else Inl (''Probe result for '' @ domain @ '' contains unknown SEP: '' @ str s)
      | _ \<Rightarrow> Inl (''Probe result for '' @ domain @ '' contains unknown SEP: '' @ str s))"

fun probe_mask :: "(json \<Rightarrow> string) \<Rightarrow> string \<Rightarrow> json list \<Rightarrow> 32 word \<Rightarrow> string + 32 word" where
  "probe_mask str domain [] m = Inr m"
| "probe_mask str domain (p # rest) m =
     (case p of
        JStr n \<Rightarrow>
          if n \<in> set PROBE_NAMES then probe_mask str domain rest (m OR probeBit n)
          else Inl (''Probe result for '' @ domain @ '' contains unknown probe name: '' @ str p)
      | _ \<Rightarrow> Inl (''Probe result for '' @ domain @ '' contains unknown probe name: '' @ str p))"

definition or_refuse :: "'e + 'a \<Rightarrow> ('a \<Rightarrow> 'e + 'b) \<Rightarrow> 'e + 'b" where
  "or_refuse r f = (case r of Inl e \<Rightarrow> Inl e | Inr x \<Rightarrow> f x)"

definition list_masks :: "(json \<Rightarrow> string) \<Rightarrow> string \<Rightarrow> json option \<Rightarrow> string + masks" where
  "list_masks str domain item =
     (case (prop_opt item ''seps'', prop_opt item ''probesRun'', prop_opt item ''probesPassed'') of
        (Some (JArr ss), Some (JArr ns), Some (JArr ps)) \<Rightarrow>
          or_refuse (sep_mask str domain ss 0) (\<lambda>s.
          or_refuse (probe_mask str domain ns 0) (\<lambda>n.
          or_refuse (probe_mask str domain ps 0) (\<lambda>p. Inr (s, n, p))))
      | _ \<Rightarrow> Inl (''Probe result for '' @ domain @ '' is missing valid bitmap fields (seps, probesRun, probesPassed)''))"

definition item_masks :: "(json \<Rightarrow> string) \<Rightarrow> string \<Rightarrow> json option \<Rightarrow> string + masks" where
  "item_masks str domain item =
     (let raw = prop_opt item ''raw'' in
      case (if js_object raw then number_masks raw else None) of
        Some m \<Rightarrow> Inr m
      | None \<Rightarrow>
          (case number_masks item of
             Some m \<Rightarrow> Inr m
           | None \<Rightarrow> list_masks str domain item))"

fun read_outcomes :: "string \<Rightarrow> nat \<Rightarrow> json list \<Rightarrow> string + probe_outcome list" where
  "read_outcomes domain i [] = Inr []"
| "read_outcomes domain i (o' # rest) =
     (if \<not> js_object (Some o') then
        Inl (''Probe result for '' @ domain @ '' outcome at index '' @ show_nat i @ '' is invalid'')
      else
        case (prop_opt (Some o') ''probe'', prop_opt (Some o') ''passed'', prop_opt (Some o') ''detail'') of
          (Some (JStr p), Some (JBool b), Some (JStr d)) \<Rightarrow>
            or_refuse (read_outcomes domain (Suc i) rest) (\<lambda>os.
              Inr (\<lparr>po_probe = p, po_passed = b, po_detail = d\<rparr> # os))
        | _ \<Rightarrow> Inl (''Probe result for '' @ domain @ '' outcome at index '' @ show_nat i @ '' has invalid fields''))"

text \<open>\<open>v ?? w\<close>\<close>

definition nullish_or :: "json option \<Rightarrow> json option \<Rightarrow> json option" where
  "nullish_or v w = (case v of None \<Rightarrow> w | Some JNull \<Rightarrow> w | Some x \<Rightarrow> Some x)"

fun asset_codes :: "json list \<Rightarrow> string list option" where
  "asset_codes [] = Some []"
| "asset_codes (JStr s # rest) = (if s = '''' then None else map_option (\<lambda>as. s # as) (asset_codes rest))"
| "asset_codes (_ # rest) = None"

definition read_assets :: "string \<Rightarrow> json option \<Rightarrow> string + string list option" where
  "read_assets domain raw =
     (case raw of
        None \<Rightarrow> Inr None
      | Some v \<Rightarrow>
          (case (case v of JArr vs \<Rightarrow> asset_codes vs | _ \<Rightarrow> None) of
             Some as \<Rightarrow> Inr (Some as)
           | None \<Rightarrow> Inl (''Probe result for '' @ domain @
               '' has an invalid receiveAssets list (expected an array of asset codes)'')))"

definition alpha2 :: "string \<Rightarrow> bool" where
  "alpha2 s = (length s = 2 \<and> list_all (\<lambda>c. let n = of_char c :: nat in 65 \<le> n \<and> n \<le> 90) s)"

definition read_country :: "(json \<Rightarrow> string) \<Rightarrow> string \<Rightarrow> json option \<Rightarrow> string + country" where
  "read_country str domain v =
     (case v of
        None \<Rightarrow> Inr NoCountry
      | Some j \<Rightarrow>
          if \<not> alpha2 (case j of JStr s \<Rightarrow> s | _ \<Rightarrow> str j) then
            Inl (''Probe result for '' @ domain @ '' has an invalid country (expected ISO-3166-1 alpha-2, e.g. NG)'')
          else Inr (case j of JStr s \<Rightarrow> Country s | _ \<Rightarrow> NoCountry))"

definition dishonest :: "string \<Rightarrow> 32 word \<Rightarrow> 32 word \<Rightarrow> string" where
  "dishonest domain run passed =
     ''refusing to submit a result claiming probes passed that were never run ('' @ domain @ '': run='' @
     show_int (uint run) @ '' passed='' @ show_int (uint passed) @ '')''"

definition read_item :: "(json \<Rightarrow> string) \<Rightarrow> nat \<Rightarrow> json \<Rightarrow> string + probe_result" where
  "read_item str idx raw =
     (if \<not> js_object (Some raw) then Inl (''Probe result at index '' @ show_nat idx @ '' must be an object'')
      else
        let item = Some raw in
        case prop_opt item ''domain'' of
          Some (JStr d) \<Rightarrow>
            if js_trim d = '''' then Inl (''Probe result at index '' @ show_nat idx @ '' is missing a valid domain'')
            else
              let domain = js_trim d in
              (case prop_opt item ''tomlHash'' of
                 Some (JStr h) \<Rightarrow>
                   if \<not> hex64 h then
                     Inl (''Probe result for '' @ domain @ '' has an invalid tomlHash (expected 64 hex characters)'')
                   else
                     or_refuse (item_masks str domain item) (\<lambda>(seps, run, passed).
                       if passed AND NOT run \<noteq> 0 then Inl (dishonest domain run passed)
                       else
                         or_refuse (case prop_opt item ''outcomes'' of Some (JArr os) \<Rightarrow> read_outcomes domain 0 os | _ \<Rightarrow> Inr [])
                           (\<lambda>outcomes.
                         or_refuse (read_assets domain (nullish_or (prop_opt item ''receiveAssets'') (prop_opt item ''sep31ReceiveAssets'')))
                           (\<lambda>assets.
                         or_refuse (read_country str domain (prop_opt item ''country'')) (\<lambda>c.
                           Inr \<lparr>pr_domain = domain, pr_seps = seps, pr_run = run, pr_passed = passed, pr_tomlHash = to_lower h,
                             pr_outcomes = outcomes, pr_sep31ReceiveAssets = assets, pr_receiveAssets = assets,
                             pr_country = c, pr_toml = None\<rparr>))))
               | _ \<Rightarrow> Inl (''Probe result for '' @ domain @ '' has an invalid tomlHash (expected 64 hex characters)''))
        | _ \<Rightarrow> Inl (''Probe result at index '' @ show_nat idx @ '' is missing a valid domain''))"

fun read_items :: "(json \<Rightarrow> string) \<Rightarrow> nat \<Rightarrow> json list \<Rightarrow> string + probe_result list" where
  "read_items str idx [] = Inr []"
| "read_items str idx (v # rest) =
     or_refuse (read_item str idx v) (\<lambda>r. or_refuse (read_items str (Suc idx) rest) (\<lambda>rs. Inr (r # rs)))"

definition parseProbeResults :: "(string \<Rightarrow> string + json) \<Rightarrow> (json \<Rightarrow> string) \<Rightarrow> json \<Rightarrow> string + probe_result list" where
  "parseProbeResults parse str input =
     or_refuse (case input of
         JStr text \<Rightarrow> (case parse text of Inl e \<Rightarrow> Inl (''Malformed JSON in probe results: '' @ e) | Inr j \<Rightarrow> Inr j)
       | _ \<Rightarrow> Inr input) (\<lambda>data.
       case data of
         JArr items \<Rightarrow> read_items str 0 items
       | JObj _ \<Rightarrow> read_items str 0 [data]
       | _ \<Rightarrow> Inl ''Probe results must be a non-null object or array'')"

function attest_args_loop :: "string list \<Rightarrow> string option \<times> string list \<Rightarrow> string option \<times> string list" where
  "attest_args_loop [] a = a"
| "attest_args_loop (arg # rest) (from', domains) =
     (if arg = ''--from'' \<and> rest \<noteq> [] then attest_args_loop (tl rest) (Some (hd rest), domains)
      else if starts_with ''--from='' arg then attest_args_loop rest (Some (drop 7 arg), domains)
      else if \<not> starts_with ''-'' arg then attest_args_loop rest (from', domains @ [arg])
      else attest_args_loop rest (from', domains))"
  by pat_completeness auto
termination by (relation "measure (\<lambda>(args, _). length args)") auto

definition parseAttestArgs :: "string list \<Rightarrow> string option \<times> string list" where
  "parseAttestArgs args = attest_args_loop args (None, [])"

subsection \<open>What was written is what is read\<close>

definition storable :: "probe_result \<Rightarrow> bool" where
  "storable r \<longleftrightarrow>
     pr_domain r \<noteq> '''' \<and> js_trim (pr_domain r) = pr_domain r \<and> hex64 (pr_tomlHash r) \<and>
     to_lower (pr_tomlHash r) = pr_tomlHash r \<and> pr_passed r AND NOT (pr_run r) = 0 \<and>
     pr_sep31ReceiveAssets r = pr_receiveAssets r \<and> (\<forall>as. pr_receiveAssets r = Some as \<longrightarrow> '''' \<notin> set as) \<and>
     (pr_country r = NoCountry \<or> (\<exists>c. pr_country r = Country c \<and> alpha2 c))"

lemma uint32_mask [simp]: "isUint32 (Some (mask_json m))" "uint32 (Some (mask_json m)) = m"
  using uint_lt2p [of m] by (simp_all add: isUint32_def uint32_def mask_json_def)

lemma read_outcome_list: "read_outcomes domain i (map outcome_json os) = Inr os"
  by (induction os arbitrary: i) (simp_all add: outcome_json_def js_object_def prop_opt_def jfield_def or_refuse_def)

lemma asset_code_list: "'''' \<notin> set as \<Longrightarrow> asset_codes (map JStr as) = Some as"
  by (induction as) auto

lemma alpha2_nonempty: "alpha2 c \<Longrightarrow> c \<noteq> ''''"
  by (auto simp: alpha2_def)

definition country_field :: "country \<Rightarrow> json option" where
  "country_field c = map_of (country_json c) ''country''"

lemma country_keys: "map_of (country_json c) k = (if k = ''country'' then country_field c else None)"
  by (auto simp: country_field_def country_json_def split: country.splits)

lemma tail_fields:
  "map_of (tail_json r @ rest) ''tomlHash'' = Some (JStr (pr_tomlHash r))"
  "map_of (tail_json r @ rest) ''outcomes'' = Some (JArr (map outcome_json (pr_outcomes r)))"
  "map_of rest ''receiveAssets'' = None \<Longrightarrow> map_of (tail_json r @ rest) ''receiveAssets'' = map_option names_json (pr_receiveAssets r)"
  "map_of rest ''sep31ReceiveAssets'' = None \<Longrightarrow> map_of (tail_json r @ rest) ''sep31ReceiveAssets'' = map_option names_json (pr_sep31ReceiveAssets r)"
  "map_of rest ''country'' = None \<Longrightarrow> map_of (tail_json r @ rest) ''country'' = country_field (pr_country r)"
  "map_of (tail_json r @ rest) ''raw'' = map_of rest ''raw''"
  by (auto simp: tail_json_def country_keys map_add_def split: option.splits)

lemma read_country_field:
  assumes "c = NoCountry \<or> (\<exists>s. c = Country s \<and> alpha2 s)"
  shows "read_country str domain (country_field c) = Inr c"
  using assms by (auto simp: read_country_def country_field_def country_json_def alpha2_nonempty)

lemma read_assets_field:
  assumes "\<forall>as. v = Some as \<longrightarrow> [] \<notin> set as"
  shows "read_assets domain (nullish_or (map_option names_json v) (map_option names_json v)) = Inr v"
  using assms by (cases v) (auto simp: read_assets_def nullish_or_def names_json_def asset_code_list)

lemma read_result:
  assumes "storable r"
  shows "read_item str i (result_json r) = Inr (r\<lparr>pr_toml := None\<rparr>)"
    and "read_item str i (formatted r) = Inr (r\<lparr>pr_toml := None\<rparr>)"
proof -
  have fields: "read_country str d (country_field (pr_country r)) = Inr (pr_country r)"
    "read_assets d (nullish_or (map_option names_json (pr_receiveAssets r)) (map_option names_json (pr_receiveAssets r))) =
      Inr (pr_receiveAssets r)" for d
    using assms read_country_field [of "pr_country r" str d] read_assets_field [of "pr_receiveAssets r" d]
    unfolding storable_def by blast+
  note field_defs = prop_opt_def jfield_def js_object_def or_refuse_def Let_def tail_fields
    tail_fields [where rest = "[]", simplified] read_outcome_list fields item_masks_def number_masks_def
  show "read_item str i (result_json r) = Inr (r\<lparr>pr_toml := None\<rparr>)"
    using assms by (simp add: read_item_def result_json_def field_defs storable_def)
  show "read_item str i (formatted r) = Inr (r\<lparr>pr_toml := None\<rparr>)"
    using assms by (simp add: read_item_def formatted_def field_defs storable_def del: map_of_append)
qed

lemma read_results:
  assumes "\<forall>r \<in> set rs. storable r"
  shows "read_items str i (map result_json rs) = Inr (map (\<lambda>r. r\<lparr>pr_toml := None\<rparr>) rs)"
  using assms by (induction rs arbitrary: i) (simp_all add: read_result or_refuse_def)



definition demo_result :: probe_result where
  "demo_result = \<lparr>pr_domain = ''a.com'', pr_seps = 1, pr_run = 3, pr_passed = 1, pr_tomlHash = ZERO_HASH,
     pr_outcomes = [\<lparr>po_probe = ''toml_fetch'', po_passed = True, po_detail = ''sha256''\<rparr>],
     pr_sep31ReceiveAssets = None, pr_receiveAssets = None, pr_country = Country ''NG'', pr_toml = None\<rparr>"

lemma demo_storable: "storable demo_result"
  unfolding storable_def demo_result_def by (simp, code_simp)


subsection \<open>One anchor can keep a whole file from loading\<close>

lemma bad_item_stops: "read_item str (i + length vs) v = Inl e \<Longrightarrow> \<exists>e'. read_items str i (vs @ v # rest) = Inl e'"
proof (induction vs arbitrary: i)
  case (Cons a vs)
  then have "read_item str (Suc i + length vs) v = Inl e" by simp
  from Cons.IH [OF this] obtain e' where "read_items str (Suc i) (vs @ v # rest) = Inl e'" by blast
  then show ?case by (auto simp: or_refuse_def split: sum.splits)
qed (simp add: or_refuse_def)

text \<open>
  An anchor whose address ends in __proto__, or whose SEP-31 receive list has an asset with an empty
  code, gets a result that the loader refuses, and with it every other result of the same sweep.
\<close>

theorem one_anchor_blocks_the_file:
  assumes "pr_country r = InheritedProperty ''__proto__'' \<and> \<not> alpha2 (str (JObj [])) \<or>
    (\<exists>as. pr_receiveAssets r = Some as \<and> '''' \<in> set as)"
  shows "\<exists>e. parseProbeResults parse str (JArr (map result_json (before @ r # after))) = Inl e"
proof -
  have codes: "asset_codes (map JStr as) = None" if "'''' \<in> set as" for as
    using that by (induction as) auto
  have "\<exists>e. read_item str i (result_json r) = Inl e" for i
    using assms codes unfolding read_item_def result_json_def
    by (auto simp: prop_opt_def jfield_def js_object_def or_refuse_def Let_def tail_fields [where rest = "[]", simplified]
        read_assets_def nullish_or_def names_json_def read_country_def country_field_def country_json_def
        split: option.splits sum.splits json.splits)
  then obtain e where "read_item str (0 + length (map result_json before)) (result_json r) = Inl e" by blast
  from bad_item_stops [OF this] show ?thesis by (simp add: parseProbeResults_def or_refuse_def)
qed

lemma one_anchor_blocks_the_file_witness:
  "declaredCountry (quote_line ''ORG_PHYSICAL_ADDRESS'' ''Lagos, __proto__'') = InheritedProperty ''__proto__'' \<and>
   (\<exists>e. parseProbeResults (\<lambda>_. Inl ''no'') (\<lambda>_. ''[object Object]'')
     (JArr (map result_json ([demo_result] @ demo_result\<lparr>pr_country := InheritedProperty ''__proto__''\<rparr> # []))) = Inl e)"
proof
  show "declaredCountry (quote_line ''ORG_PHYSICAL_ADDRESS'' ''Lagos, __proto__'') = InheritedProperty ''__proto__''" by code_simp
qed (rule one_anchor_blocks_the_file, simp add: alpha2_def)


text \<open>What a probe of a trimmed domain finds is storable, those two kinds of anchor apart.\<close>

lemma probed_country:
  "yields (probeAnchor env domain) (\<lambda>r. pr_domain r = domain \<and> (pr_country r = NoCountry \<or> (\<exists>toml. pr_country r = declaredCountry toml)))"
  unfolding probeAnchor_def Let_def by (auto intro!: yields_rules)

lemma alpha2_is: "alpha2 s = is_alpha2 s"
  by (simp add: alpha2_def is_alpha2_def)

lemma declared_codes: "declaredCountry toml = Country c \<Longrightarrow> alpha2 c"
  using toAlpha2_code by (auto simp: declaredCountry_def alpha2_is split: if_splits option.splits)

lemma probed_is_storable:
  assumes run: "probeAnchor env domain w = (Some r, w')"
    and domain: "domain \<noteq> ''''" "js_trim domain = domain"
    and sha: "\<And>s. hex64 (pe_sha256 env s) \<and> to_lower (pe_sha256 env s) = pe_sha256 env s"
    and codes: "\<And>as. pr_receiveAssets r = Some as \<Longrightarrow> '''' \<notin> set as" and own: "\<And>k. pr_country r \<noteq> InheritedProperty k"
  shows "storable r"
proof -
  have zero: "hex64 ZERO_HASH \<and> to_lower ZERO_HASH = ZERO_HASH" by code_simp
  have "hex64 (pr_tomlHash r) \<and> to_lower (pr_tomlHash r) = pr_tomlHash r"
    using yieldsD [OF probe_yields_honest run] sha zero by (auto simp: honest_result_def tomlHash_def split: option.splits)
  moreover have "pr_country r = NoCountry \<or> (\<exists>c. pr_country r = Country c \<and> alpha2 c)"
    using yieldsD [OF probed_country run] own declared_codes by (cases "pr_country r") auto
  ultimately show ?thesis
    using yieldsD [OF probe_yields_honest run] yieldsD [OF assets_agree run] yieldsD [OF probed_country run] domain codes
    unfolding storable_def honest_result_def by auto
qed

end
