(* ===== verification/Fleet.thy ===== *)
theory Fleet
  imports Loader
begin

section \<open>The fleet of anchors (packages/probe/src/domain.ts, fleet.ts)\<close>

text \<open>
  The one spelling of a home domain that may be attested, a walk over the string as in the contract,
  and the validating reader of anchors.json with its own pattern for hostnames. Both are stated in
  terms of the labels of a domain.
\<close>

subsection \<open>Canonical domains\<close>

definition MAX_DOMAIN_LEN :: nat where
  "MAX_DOMAIN_LEN = 253"

definition isLowerAlpha :: "char \<Rightarrow> bool" where
  "isLowerAlpha c = (let n = of_char c :: nat in 97 \<le> n \<and> n \<le> 122)"

definition isAlnum :: "char \<Rightarrow> bool" where
  "isAlnum c = (isLowerAlpha c \<or> is_digit c)"

definition isCanonicalLabel :: "string \<Rightarrow> nat \<Rightarrow> nat \<Rightarrow> bool" where
  "isCanonicalLabel s start end' =
     (if start = end' then False
      else if \<not> isAlnum (s ! start) \<or> \<not> isAlnum (s ! (end' - 1)) then False
      else list_all (\<lambda>i. isAlnum (s ! i) \<or> s ! i = CHR ''-'') [start..<end'])"

text \<open>\<open>Buffer.byteLength(domain, "utf8")\<close>\<close>

definition utf8_length :: "string \<Rightarrow> nat" where
  "utf8_length s = sum_list (map (\<lambda>c. if (of_char c :: nat) < 128 then 1 else 2) s)"

fun label_walk :: "string \<Rightarrow> nat \<Rightarrow> nat list \<Rightarrow> bool" where
  "label_walk domain labelStart [] = True"
| "label_walk domain labelStart (i # rest) =
     (if i = length domain \<or> domain ! i = CHR ''.'' then
        (if \<not> isCanonicalLabel domain labelStart i then False else label_walk domain (i + 1) rest)
      else label_walk domain labelStart rest)"

definition isCanonicalDomain :: "string \<Rightarrow> bool" where
  "isCanonicalDomain domain =
     (let bytes = utf8_length domain in
      if bytes = 0 \<or> bytes > MAX_DOMAIN_LEN then False
      else label_walk domain 0 [0..<length domain + 1])"

subsection \<open>Hostnames and dates of the fleet file\<close>

text \<open>One label of \<open>DOMAIN_RE\<close>: \<open>[a-z0-9](?:[a-z0-9-]*[a-z0-9])?\<close>.\<close>

definition regex_label :: "string \<Rightarrow> bool" where
  "regex_label l =
     (case l of
        [] \<Rightarrow> False
      | c # rest \<Rightarrow>
          isAlnum c \<and> (rest = [] \<or>
            (list_all (\<lambda>c. isAlnum c \<or> c = CHR ''-'') (butlast rest) \<and> isAlnum (last rest))))"

definition DOMAIN_RE :: "string \<Rightarrow> bool" where
  "DOMAIN_RE s = (let ls = split_on (CHR ''.'') s in length ls \<ge> 2 \<and> list_all regex_label ls)"

definition isValidAnchorDomain :: "string \<Rightarrow> bool" where
  "isValidAnchorDomain domain =
     (if domain = '''' \<or> domain \<noteq> to_lower domain then False
      else if index_of ''://'' domain \<noteq> None \<or> index_of ''/'' domain \<noteq> None \<or> index_of '':'' domain \<noteq> None then False
      else DOMAIN_RE domain)"

definition leap :: "nat \<Rightarrow> bool" where
  "leap y = (y mod 4 = 0 \<and> (y mod 100 \<noteq> 0 \<or> y mod 400 = 0))"

definition month_days :: "nat \<Rightarrow> nat \<Rightarrow> nat" where
  "month_days y m = (if m = 2 then (if leap y then 29 else 28) else if m \<in> {4, 6, 9, 11} then 30 else 31)"

text \<open>
  The fields of \<open>new Date(Date.UTC(y, m - 1, d))\<close>: years below 100 are of the twentieth century, months
  and days beyond their range are carried.
\<close>

function carry_days :: "nat \<Rightarrow> nat \<Rightarrow> nat \<Rightarrow> nat \<times> nat \<times> nat" where
  "carry_days y m d =
     (if d \<le> month_days y m then (y, m, d)
      else if m = 12 then carry_days (y + 1) 1 (d - month_days y m)
      else carry_days y (m + 1) (d - month_days y m))"
  by pat_completeness auto
termination by (relation "measure (\<lambda>(_, _, d). d)") (auto simp: month_days_def)

definition utc_fields :: "nat \<Rightarrow> nat \<Rightarrow> nat \<Rightarrow> nat \<times> nat \<times> nat" where
  "utc_fields y m d =
     (let y' = (if y \<le> 99 then 1900 + y else y);
          (y1, m1) = (if m = 0 then (y' - 1, 12) else (y' + (m - 1) div 12, (m - 1) mod 12 + 1))
      in if d = 0 then (if m1 = 1 then (y1 - 1, 12, 31) else (y1, m1 - 1, month_days y1 (m1 - 1)))
         else carry_days y1 m1 d)"

definition isRealCalendarDate :: "string \<Rightarrow> bool" where
  "isRealCalendarDate v =
     (case split_on (CHR ''-'') v of
        [ys, ms, ds] \<Rightarrow>
          length ys = 4 \<and> length ms = 2 \<and> length ds = 2 \<and> list_all is_digit (ys @ ms @ ds) \<and>
          (let y = nat_of_digits ys; m = nat_of_digits ms; d = nat_of_digits ds in utc_fields y m d = (y, m, d))
      | _ \<Rightarrow> False)"

subsection \<open>Parsing anchors.json\<close>

definition ANCHOR_KINDS :: "string list" where
  "ANCHOR_KINDS = [''offramp'', ''test'', ''other'']"

record anchor_entry =
  an_domain :: string
  an_name :: string
  an_countries :: "string list"
  an_kind :: string
  an_source :: string
  an_added :: string

record fleet =
  fl_comment :: "string list option"
  fl_domains :: "string list"
  fl_anchors :: "anchor_entry list"

text \<open>\<open>JSON.stringify(v)\<close>\<close>

fun compact :: "json \<Rightarrow> string" where
  "compact JNull = ''null''"
| "compact (JBool b) = (if b then ''true'' else ''false'')"
| "compact (JInt i) = show_int i"
| "compact (JStr s) = json_string s"
| "compact (JArr vs) = ''['' @ join '','' (map compact vs) @ '']''"
| "compact (JObj kvs) = ''{'' @ join '','' (map (\<lambda>(k, v). json_string k @ '':'' @ compact v) kvs) @ ''}''"

definition refuse_anchor :: "nat \<Rightarrow> string \<Rightarrow> string + 'a" where
  "refuse_anchor i what = Inl (''invalid fleet: anchors['' @ show_nat i @ '']'' @ what)"

fun strings_where :: "(string \<Rightarrow> bool) \<Rightarrow> json list \<Rightarrow> string list option" where
  "strings_where ok [] = Some []"
| "strings_where ok (JStr s # rest) = (if ok s then map_option (\<lambda>ss. s # ss) (strings_where ok rest) else None)"
| "strings_where ok (_ # rest) = None"

definition nonblank_string :: "json option \<Rightarrow> bool" where
  "nonblank_string v = (case v of Some (JStr s) \<Rightarrow> js_trim s \<noteq> '''' | _ \<Rightarrow> False)"

definition read_anchor :: "nat \<Rightarrow> string list \<Rightarrow> json \<Rightarrow> string + anchor_entry" where
  "read_anchor i seen item =
     (case item of
        JObj _ \<Rightarrow>
          (let f = prop_opt (Some item); domain = f ''domain'' in
           if \<not> (case domain of Some (JStr d) \<Rightarrow> isValidAnchorDomain d | _ \<Rightarrow> False) then
             refuse_anchor i (''.domain ('' @ (case domain of Some v \<Rightarrow> compact v | None \<Rightarrow> ''undefined'') @
               '') must be a lowercase hostname with no scheme, port, or path'')
           else if the (str_of domain) \<in> set seen then
             Inl (''invalid fleet: duplicate anchor domain '' @ [CHR 0x22] @ the (str_of domain) @ [CHR 0x22])
           else if \<not> nonblank_string (f ''name'') then refuse_anchor i ''.name must be a non-empty string''
           else
             case (case f ''countries'' of Some (JArr cs) \<Rightarrow> strings_where alpha2 cs | _ \<Rightarrow> None) of
               None \<Rightarrow> refuse_anchor i ''.countries must be an array of ISO 3166-1 alpha-2 codes''
             | Some countries \<Rightarrow>
                 if \<not> (case f ''kind'' of Some (JStr k) \<Rightarrow> k \<in> set ANCHOR_KINDS | _ \<Rightarrow> False) then
                   refuse_anchor i (''.kind must be one of '' @ join '', '' ANCHOR_KINDS)
                 else if \<not> nonblank_string (f ''source'') then refuse_anchor i ''.source must be a non-empty string''
                 else if \<not> (case f ''added'' of Some (JStr d) \<Rightarrow> isRealCalendarDate d | _ \<Rightarrow> False) then
                   refuse_anchor i ''.added must be a real YYYY-MM-DD date''
                 else Inr \<lparr>an_domain = the (str_of domain), an_name = the (str_of (f ''name'')), an_countries = countries,
                   an_kind = the (str_of (f ''kind'')), an_source = the (str_of (f ''source'')),
                   an_added = the (str_of (f ''added''))\<rparr>)
      | _ \<Rightarrow> refuse_anchor i '' must be an object'')"

fun read_anchors :: "nat \<Rightarrow> string list \<Rightarrow> json list \<Rightarrow> string + anchor_entry list" where
  "read_anchors i seen [] = Inr []"
| "read_anchors i seen (item # rest) =
     or_refuse (read_anchor i seen item) (\<lambda>e.
     or_refuse (read_anchors (Suc i) (an_domain e # seen) rest) (\<lambda>es. Inr (e # es)))"

definition parseFleet :: "json \<Rightarrow> string + fleet" where
  "parseFleet raw =
     (case raw of
        JObj _ \<Rightarrow>
          (case prop_opt (Some raw) ''anchors'' of
             Some (JArr (a # items)) \<Rightarrow>
               or_refuse (read_anchors 0 [] (a # items)) (\<lambda>entries.
                 let derived = map an_domain entries in
                 if prop_opt (Some raw) ''domains'' \<notin> {None, Some (JArr (map JStr derived))} then
                   Inl (''invalid fleet: '' @ [CHR 0x27] @ ''domains'' @ [CHR 0x27] @ '' must match the ordered list of '' @
                     [CHR 0x27] @ ''anchors[].domain'' @ [CHR 0x27])
                 else
                   Inr \<lparr>fl_comment = (case prop_opt (Some raw) ''$comment'' of
                            Some (JArr cs) \<Rightarrow> strings_where (\<lambda>_. True) cs | _ \<Rightarrow> None),
                        fl_domains = derived, fl_anchors = entries\<rparr>)
           | _ \<Rightarrow> Inl (''invalid fleet: '' @ [CHR 0x27] @ ''anchors'' @ [CHR 0x27] @ '' must be a non-empty array''))
      | _ \<Rightarrow> Inl ''invalid fleet: expected a JSON object'')"

subsection \<open>Both checks in terms of labels\<close>

definition domain_label :: "string \<Rightarrow> bool" where
  "domain_label l \<longleftrightarrow> l \<noteq> [] \<and> isAlnum (hd l) \<and> isAlnum (last l) \<and> (\<forall>c \<in> set l. isAlnum c \<or> c = CHR ''-'')"

lemma regex_label_iff: "regex_label l = domain_label l"
proof (cases l)
  case (Cons c rest)
  show ?thesis
  proof (cases rest rule: rev_cases)
    case (snoc r d)
    then show ?thesis by (auto simp: Cons regex_label_def domain_label_def list_all_iff)
  qed (auto simp: Cons regex_label_def domain_label_def)
qed (simp add: regex_label_def domain_label_def)

lemma canonical_label_iff:
  assumes "a \<le> b" "b \<le> length s"
  shows "isCanonicalLabel s a b = domain_label (take (b - a) (drop a s))"
proof (cases "a = b")
  case False
  let ?l = "take (b - a) (drop a s)"
  have l: "length ?l = b - a" "?l \<noteq> []" using assms False by auto
  have nth: "?l ! i = s ! (a + i)" if "i < b - a" for i using that assms by simp
  have h: "hd ?l = s ! a" and t: "last ?l = s ! (b - 1)"
    using l nth [of 0] nth [of "b - a - 1"] assms False by (simp_all add: hd_conv_nth last_conv_nth)
  have al: "list_all (\<lambda>i. isAlnum (s ! i) \<or> s ! i = CHR ''-'') [a..<b] \<longleftrightarrow> (\<forall>c \<in> set ?l. isAlnum c \<or> c = CHR ''-'')"
  proof -
    have "set ?l = (\<lambda>i. s ! i) ` {a..<b}"
    proof -
      have "?l = map (\<lambda>i. s ! i) [a..<b]" using assms by (intro nth_equalityI) auto
      then show ?thesis by simp
    qed
    then show ?thesis by (auto simp: list_all_iff)
  qed
  show ?thesis using False l(2) unfolding isCanonicalLabel_def domain_label_def h t al by auto
qed (simp add: isCanonicalLabel_def domain_label_def)

lemma walk_labels:
  assumes "a \<le> k" "k \<le> length s" "CHR ''.'' \<notin> set (take (k - a) (drop a s))"
  shows "label_walk s a [k..<Suc (length s)] \<longleftrightarrow> list_all domain_label (split_on (CHR ''.'') (drop a s))"
  using assms
proof (induction "length s - k" arbitrary: a k)
  case 0
  then have "k = length s" "take (k - a) (drop a s) = drop a s" by auto
  then show ?case using 0 by (simp add: canonical_label_iff split_on_none upt_rec)
next
  case (Suc n)
  let ?l = "take (k - a) (drop a s)"
  have k: "k < length s" using Suc.hyps(2) by simp
  then have upt: "[k..<Suc (length s)] = k # [Suc k..<Suc (length s)]" by (simp add: upt_rec)
  have split: "drop a s = ?l @ s ! k # drop (Suc k) s"
    using Suc.prems k by (metis append_take_drop_id Cons_nth_drop_Suc drop_drop le_add_diff_inverse2)
  show ?case
  proof (cases "s ! k = CHR ''.''")
    case True
    then have "split_on (CHR ''.'') (drop a s) = ?l # split_on (CHR ''.'') (drop (Suc k) s)"
      using split split_on_join [OF Suc.prems(3), of "drop (Suc k) s"] by simp
    moreover have "label_walk s (Suc k) [Suc k..<Suc (length s)] \<longleftrightarrow> list_all domain_label (split_on (CHR ''.'') (drop (Suc k) s))"
      using Suc.hyps(2) k by (intro Suc.hyps(1)) auto
    ultimately show ?thesis using True k Suc.prems by (simp add: upt canonical_label_iff del: upt_Suc)
  next
    case False
    have "take (Suc k - a) (drop a s) = ?l @ [s ! k]"
      using Suc.prems k by (simp add: Suc_diff_le take_Suc_conv_app_nth)
    then have "label_walk s a [Suc k..<Suc (length s)] \<longleftrightarrow> list_all domain_label (split_on (CHR ''.'') (drop a s))"
      using Suc.hyps(2) Suc.prems k False by (intro Suc.hyps(1)) auto
    then show ?thesis using False k by (simp add: upt del: upt_Suc)
  qed
qed

lemma split_on_chars: "c \<in> set s \<Longrightarrow> c = d \<or> (\<exists>l \<in> set (split_on d s). c \<in> set l)"
proof (induction s)
  case (Cons x xs)
  then show ?case by (cases "split_on d xs") auto
qed simp

lemma alnum_ascii: "isAlnum c \<Longrightarrow> (of_char c :: nat) < 128 \<and> lower_char c = c \<and> c \<noteq> CHR ''/'' \<and> c \<noteq> CHR '':''"
  by (auto simp: isAlnum_def isLowerAlpha_def is_digit_def lower_char_def Let_def)

lemma label_chars:
  assumes "list_all domain_label (split_on (CHR ''.'') s)" "c \<in> set s"
  shows "(of_char c :: nat) < 128 \<and> lower_char c = c \<and> c \<noteq> CHR ''/'' \<and> c \<noteq> CHR '':''"
proof -
  have "lower_char (CHR ''-'') = CHR ''-''" "lower_char (CHR ''.'') = CHR ''.''" by code_simp+
  then show ?thesis
    using split_on_chars [OF assms(2), of "CHR ''.''"] assms(1) alnum_ascii by (fastforce simp: list_all_iff domain_label_def)
qed

lemma index_of_char: "index_of (c # p) s \<noteq> None \<Longrightarrow> c \<in> set s"
  by (induction s) (auto simp: starts_with_def split: if_splits)

lemma ascii_length: "\<forall>c \<in> set s. (of_char c :: nat) < 128 \<Longrightarrow> utf8_length s = length s"
  by (induction s) (simp_all add: utf8_length_def)

lemma utf8_zero: "utf8_length s = 0 \<longleftrightarrow> s = []"
  by (cases s) (auto simp: utf8_length_def)

lemma canonical_labels: "isCanonicalDomain s \<longleftrightarrow> length s \<le> 253 \<and> list_all domain_label (split_on (CHR ''.'') s)"
proof -
  have walk: "label_walk s 0 [0..<length s + 1] \<longleftrightarrow> list_all domain_label (split_on (CHR ''.'') s)"
    using walk_labels [of 0 0 s] by simp
  have "utf8_length s = length s" if "list_all domain_label (split_on (CHR ''.'') s)"
    using label_chars [OF that] by (intro ascii_length) simp
  moreover have "s \<noteq> []" if "list_all domain_label (split_on (CHR ''.'') s)"
    using that by (cases s) (simp_all add: domain_label_def)
  ultimately show ?thesis unfolding isCanonicalDomain_def Let_def walk by (auto simp: MAX_DOMAIN_LEN_def utf8_zero)
qed

lemma anchor_domain_labels:
  "isValidAnchorDomain s \<longleftrightarrow> 2 \<le> length (split_on (CHR ''.'') s) \<and> list_all domain_label (split_on (CHR ''.'') s)"
proof -
  have plain: "s \<noteq> [] \<and> s = to_lower s \<and> index_of ''://'' s = None \<and> index_of ''/'' s = None \<and> index_of '':'' s = None"
    if ok: "list_all domain_label (split_on (CHR ''.'') s)"
  proof -
    have "map lower_char s = s" using label_chars [OF ok] by (simp add: map_idI)
    moreover have "CHR ''/'' \<notin> set s" "CHR '':'' \<notin> set s" using label_chars [OF ok] by blast+
    moreover have "s \<noteq> []" using ok by (cases s) (simp_all add: domain_label_def)
    ultimately show ?thesis using index_of_char by (metis to_lower_def)
  qed
  have "regex_label = domain_label" by (simp add: fun_eq_iff regex_label_iff)
  then show ?thesis
    using plain by (cases "list_all domain_label (split_on (CHR ''.'') s)") (simp_all add: isValidAnchorDomain_def DOMAIN_RE_def)
qed

text \<open>
  The walk accepts a domain exactly when it has at most 253 characters and every part between dots
  is a label of lowercase letters, digits and inner hyphens; the pattern of the fleet file accepts the
  domains of at least two such labels, whatever their length.
\<close>

theorem canonical_domains:
  "(isCanonicalDomain s \<longleftrightarrow> length s \<le> 253 \<and> list_all domain_label (split_on (CHR ''.'') s)) \<and>
   (isValidAnchorDomain s \<longleftrightarrow> 2 \<le> length (split_on (CHR ''.'') s) \<and> list_all domain_label (split_on (CHR ''.'') s))"
  using canonical_labels anchor_domain_labels by blast

subsection \<open>Real dates\<close>

lemma month_days_pos: "0 < month_days y m"
  by (simp add: month_days_def)

lemma carry_later: "carry_days y m d = (y', m', d') \<Longrightarrow> 1 \<le> m \<Longrightarrow> m \<le> 12 \<Longrightarrow> y * 12 + m \<le> y' * 12 + m' \<and>
   (month_days y m < d \<longrightarrow> y * 12 + m < y' * 12 + m')"
proof (induction y m d rule: carry_days.induct)
  case (1 y m d)
  show ?case
  proof (cases "d \<le> month_days y m")
    case True
    then show ?thesis using "1.prems"(1) by (simp add: carry_days.simps [of y m d])
  next
    case False
    show ?thesis
    proof (cases "m = 12")
      case True
      then have "carry_days (y + 1) 1 (d - month_days y m) = (y', m', d')"
        using False "1.prems"(1) by (simp add: carry_days.simps [of y m d])
      from "1.IH"(1) [OF False True this] show ?thesis using True by simp
    next
      case other: False
      then have "carry_days y (m + 1) (d - month_days y m) = (y', m', d')"
        using False "1.prems"(1) by (simp add: carry_days.simps [of y m d])
      from "1.IH"(2) [OF False other this] show ?thesis using other "1.prems"(3) by simp
    qed
  qed
qed

lemma utc_fields_real: "utc_fields y m d = (y, m, d) \<longleftrightarrow> 100 \<le> y \<and> 1 \<le> m \<and> m \<le> 12 \<and> 1 \<le> d \<and> d \<le> month_days y m"
proof
  assume real: "100 \<le> y \<and> 1 \<le> m \<and> m \<le> 12 \<and> 1 \<le> d \<and> d \<le> month_days y m"
  then have "(m - 1) div 12 = 0" "(m - 1) mod 12 + 1 = m" by auto
  then show "utc_fields y m d = (y, m, d)" using real by (simp add: utc_fields_def Let_def carry_days.simps [of y m d])
next
  assume same: "utc_fields y m d = (y, m, d)"
  define y' where "y' = (if y \<le> 99 then 1900 + y else y)"
  have m: "m \<noteq> 0"
  proof
    assume "m = 0"
    then show False using same carry_later [of "y' - 1" 12 d y 0 d]
      by (auto simp: utc_fields_def Let_def y'_def split: if_splits)
  qed
  define y1 m1 where "y1 = y' + (m - 1) div 12" and "m1 = (m - 1) mod 12 + 1"
  have m1: "1 \<le> m1" "m1 \<le> 12" "y1 * 12 + m1 = y' * 12 + m" using m by (auto simp: y1_def m1_def)
  have d: "d \<noteq> 0"
  proof
    assume "d = 0"
    then have "month_days y1 (m1 - 1) = 0 \<or> (12 :: nat) = 0 \<or> (31 :: nat) = 0"
      using same m by (auto simp: utc_fields_def Let_def y1_def m1_def y'_def split: if_splits)
    then show False using month_days_pos [of y1 "m1 - 1"] by simp
  qed
  have carried: "carry_days y1 m1 d = (y, m, d)" using same m d by (simp add: utc_fields_def Let_def y1_def m1_def y'_def)
  have "y1 * 12 + m1 \<le> y * 12 + m" and short: "\<not> month_days y1 m1 < d \<or> y1 * 12 + m1 < y * 12 + m"
    using carry_later [OF carried m1(1,2)] by blast+
  then have y: "y' = y" "100 \<le> y" using m1(3) by (auto simp: y'_def split: if_splits)
  then have "d \<le> month_days y1 m1" using short m1(3) by simp
  then have "carry_days y1 m1 d = (y1, m1, d)" by (simp add: carry_days.simps [of y1 m1 d])
  then have "y1 = y" "m1 = m" using carried by simp_all
  then show "100 \<le> y \<and> 1 \<le> m \<and> m \<le> 12 \<and> 1 \<le> d \<and> d \<le> month_days y m"
    using y(2) m1(1,2) d \<open>d \<le> month_days y1 m1\<close> by simp
qed

subsection \<open>Reading a fleet\<close>

definition real_date :: "string \<Rightarrow> bool" where
  "real_date v \<longleftrightarrow> (\<exists>ys ms ds. split_on (CHR ''-'') v = [ys, ms, ds] \<and> length ys = 4 \<and> length ms = 2 \<and> length ds = 2 \<and>
     list_all is_digit (ys @ ms @ ds) \<and> 100 \<le> nat_of_digits ys \<and> nat_of_digits ms \<in> {1..12} \<and>
     nat_of_digits ds \<in> {1..month_days (nat_of_digits ys) (nat_of_digits ms)})"

lemma real_date_iff: "isRealCalendarDate v = real_date v"
proof -
  consider ys ms ds where "split_on (CHR ''-'') v = [ys, ms, ds]" | "\<nexists>ys ms ds. split_on (CHR ''-'') v = [ys, ms, ds]" by blast
  then show ?thesis
  proof cases
    case 1
    then show ?thesis by (auto simp: isRealCalendarDate_def real_date_def utc_fields_real Let_def)
  next
    case 2
    then show ?thesis by (auto simp: isRealCalendarDate_def real_date_def split: list.splits)
  qed
qed

definition valid_entry :: "anchor_entry \<Rightarrow> bool" where
  "valid_entry e \<longleftrightarrow> 2 \<le> length (split_on (CHR ''.'') (an_domain e)) \<and> list_all domain_label (split_on (CHR ''.'') (an_domain e)) \<and>
     js_trim (an_name e) \<noteq> '''' \<and> (\<forall>c \<in> set (an_countries e). alpha2 c) \<and> an_kind e \<in> {''offramp'', ''test'', ''other''} \<and>
     js_trim (an_source e) \<noteq> '''' \<and> real_date (an_added e)"

definition valid_fleet :: "fleet \<Rightarrow> bool" where
  "valid_fleet f \<longleftrightarrow> fl_anchors f \<noteq> [] \<and> fl_domains f = map an_domain (fl_anchors f) \<and> distinct (fl_domains f) \<and>
     (\<forall>e \<in> set (fl_anchors f). valid_entry e)"

definition entry_json :: "anchor_entry \<Rightarrow> json" where
  "entry_json e = JObj [(''domain'', JStr (an_domain e)), (''name'', JStr (an_name e)), (''countries'', names_json (an_countries e)),
     (''kind'', JStr (an_kind e)), (''source'', JStr (an_source e)), (''added'', JStr (an_added e))]"

definition fleet_json :: "fleet \<Rightarrow> json" where
  "fleet_json f = JObj ((case fl_comment f of Some c \<Rightarrow> [(''$comment'', names_json c)] | None \<Rightarrow> []) @
     [(''domains'', names_json (fl_domains f)), (''anchors'', JArr (map entry_json (fl_anchors f)))])"

lemma strings_where_sound: "strings_where ok vs = Some ss \<Longrightarrow> (\<forall>s \<in> set ss. ok s) \<and> vs = map JStr ss"
  by (induction ok vs arbitrary: ss rule: strings_where.induct) (auto split: if_splits)

lemma strings_where_complete: "\<forall>s \<in> set ss. ok s \<Longrightarrow> strings_where ok (map JStr ss) = Some ss"
  by (induction ss) auto

lemma entry_ok: "isValidAnchorDomain s \<longleftrightarrow> 2 \<le> length (split_on (CHR ''.'') s) \<and> list_all domain_label (split_on (CHR ''.'') s)"
  by (rule anchor_domain_labels)

lemma read_anchor_sound:
  assumes "read_anchor i seen v = Inr e"
  shows "valid_entry e \<and> an_domain e \<notin> set seen"
  using assms strings_where_sound [of alpha2]
  by (auto simp: read_anchor_def refuse_anchor_def Let_def nonblank_string_def valid_entry_def entry_ok real_date_iff
      ANCHOR_KINDS_def str_of_def split: json.splits if_splits option.splits)

lemma read_anchor_complete:
  assumes "valid_entry e" "an_domain e \<notin> set seen"
  shows "read_anchor i seen (entry_json e) = Inr e"
  using assms strings_where_complete [of "an_countries e" alpha2]
  by (auto simp: read_anchor_def entry_json_def names_json_def prop_opt_def jfield_def nonblank_string_def valid_entry_def
      entry_ok real_date_iff ANCHOR_KINDS_def str_of_def)

lemma read_anchors_sound:
  "read_anchors i seen vs = Inr es \<Longrightarrow> (\<forall>e \<in> set es. valid_entry e \<and> an_domain e \<notin> set seen) \<and>
     distinct (map an_domain es) \<and> length es = length vs"
proof (induction vs arbitrary: i seen es)
  case (Cons v vs)
  then obtain e es' where e: "read_anchor i seen v = Inr e" "read_anchors (Suc i) (an_domain e # seen) vs = Inr es'" "es = e # es'"
    by (auto simp: or_refuse_def split: sum.splits)
  then show ?case using Cons.IH [OF e(2)] read_anchor_sound [OF e(1)] by fastforce
qed simp

lemma read_anchors_complete:
  "\<forall>e \<in> set es. valid_entry e \<and> an_domain e \<notin> set seen \<Longrightarrow> distinct (map an_domain es) \<Longrightarrow>
     read_anchors i seen (map entry_json es) = Inr es"
proof (induction es arbitrary: i seen)
  case (Cons e es)
  then have "read_anchors (Suc i) (an_domain e # seen) (map entry_json es) = Inr es" by (intro Cons.IH) (auto simp: image_iff)
  then show ?case using Cons.prems by (simp add: or_refuse_def read_anchor_complete)
qed simp

text \<open>
  C33: A fleet that parses is valid: its domains are distinct hostnames in the order of its anchors, its
  names and sources are not blank, its countries are codes, its dates exist; and every valid fleet,
  written as anchors.json has it, parses to itself.
\<close>

theorem fleet_parses:
  "(parseFleet j = Inr f \<longrightarrow> valid_fleet f) \<and> (valid_fleet f \<longrightarrow> parseFleet (fleet_json f) = Inr f)"
proof (intro conjI impI)
  assume "parseFleet j = Inr f"
  then obtain a items es where "read_anchors 0 [] (a # items) = Inr es" "fl_anchors f = es" "fl_domains f = map an_domain es"
    by (auto simp: parseFleet_def or_refuse_def Let_def split: json.splits option.splits list.splits sum.splits if_splits
        simp del: read_anchors.simps)
  then show "valid_fleet f" using read_anchors_sound [of 0 "[]" "a # items" es] by (auto simp: valid_fleet_def)
next
  assume valid: "valid_fleet f"
  then have "read_anchors 0 [] (map entry_json (fl_anchors f)) = Inr (fl_anchors f)"
    by (intro read_anchors_complete) (auto simp: valid_fleet_def)
  moreover obtain e es where "fl_anchors f = e # es" using valid by (cases "fl_anchors f") (auto simp: valid_fleet_def)
  ultimately show "parseFleet (fleet_json f) = Inr f"
    using valid strings_where_complete [of _ "\<lambda>_. True"]
    by (cases f) (auto simp: parseFleet_def fleet_json_def prop_opt_def jfield_def or_refuse_def Let_def valid_fleet_def
        names_json_def split: option.splits)
qed

definition demo_fleet :: fleet where
  "demo_fleet = \<lparr>fl_comment = None, fl_domains = [''a.com''],
     fl_anchors = [\<lparr>an_domain = ''a.com'', an_name = ''A'', an_countries = [''NG''], an_kind = ''test'', an_source = ''directory'',
       an_added = ''2026-02-28''\<rparr>]\<rparr>"

lemma fleet_parses_witness: "parseFleet (fleet_json demo_fleet) = Inr demo_fleet \<and> valid_fleet demo_fleet"
proof -
  have "parseFleet (fleet_json demo_fleet) = Inr demo_fleet" by code_simp
  then show ?thesis using fleet_parses [of "fleet_json demo_fleet" demo_fleet] by blast
qed

end
