(* ===== verification/Attester.thy ===== *)
theory Attester
  imports Fleet
begin

section \<open>Putting a probe result on chain (packages/attester/src/index.ts)\<close>

text \<open>
  The write half of the registry: the two submissions of a probe result through the attester contract.
  The Soroban server is a record of ports; every call to it is logged, so that what was signed and sent
  can be stated. An exception is \<open>throw_io\<close>; the \<open>catch\<close> of \<open>submit\<close> does not cover \<open>confirm\<close>, whose
  promise is returned without being awaited.
\<close>

subsection \<open>The contract's errors\<close>

definition CONTRACT_ERRORS :: "(nat \<times> string) list" where
  "CONTRACT_ERRORS =
     [(1, ''attester contract is not initialised''),
      (2, ''this key is not an enrolled attester '' @ dash @ '' run add_attester first''),
      (3, ''too soon: this domain was attested within the cooldown window''),
      (4, ''invalid domain''),
      (5, ''too many receive assets in one attestation '' @ dash @ '' the contract bounds the list''),
      (6, ''an asset code is empty or longer than the contract allows''),
      (7, ''the same asset code was written twice''),
      (8, ''country must be an ISO-3166-1 alpha-2 code, two uppercase letters'')]"

definition REGISTRY_CODE_HINT :: "(nat \<times> string) list" where
  "REGISTRY_CODE_HINT =
     [(3, ''if the registry raised it: probes_passed set a bit probes_run did not (PassedExceedsRun)''),
      (4, ''if the registry raised it: a SEP or probe bit the deployed registry does not know (UnknownBit); upgrade() the registry to the current PROBE_NAMES'')]"

text \<open>The first match of \<open>/Error\(Contract, #(\d+)\)/\<close>.\<close>

fun contract_code :: "string \<Rightarrow> nat option" where
  "contract_code [] = None"
| "contract_code (c # cs) =
     (let rest = drop 17 (c # cs); digits = takeWhile is_digit rest; after = dropWhile is_digit rest in
      if starts_with ''Error(Contract, #'' (c # cs) \<and> digits \<noteq> [] \<and> after \<noteq> [] \<and> hd after = CHR '')''
      then Some (nat_of_digits digits) else contract_code cs)"

definition explain :: "string \<Rightarrow> nat option \<times> string" where
  "explain error =
     (case contract_code error of
        None \<Rightarrow> (None, error)
      | Some code \<Rightarrow>
          (Some code,
           case map_of CONTRACT_ERRORS code of
             Some known \<Rightarrow>
               known @ '' (contract error #'' @ show_nat code @ '')'' @
               (case map_of REGISTRY_CODE_HINT code of Some hint \<Rightarrow> '' '' @ dash @ '' '' @ hint | None \<Rightarrow> '''')
           | None \<Rightarrow> error))"

subsection \<open>Invocations and the Soroban server\<close>

datatype scval = ScAddress string | ScString string | ScU32 "32 word" | ScBytes "nat list" | ScVec "scval list" | ScVoid | ScOther

record invocation =
  iv_source :: string
  iv_passphrase :: string
  iv_contract :: string
  iv_method :: string
  iv_args :: "scval list"

datatype sim_answer = SimRejected | SimError string | SimOk
datatype handoff = SendRejected | SendError | SendTaken string
datatype tx_answer = TxRejected | TxSuccess int | TxFailed | TxPending

record 'e soroban =
  sb_getAccount :: "string \<Rightarrow> ('e, bool) port"
  sb_builds :: "invocation \<Rightarrow> bool"
  sb_simulate :: "invocation \<Rightarrow> ('e, sim_answer) port"
  sb_assembles :: "invocation \<Rightarrow> bool"
  sb_send :: "invocation \<Rightarrow> ('e, handoff) port"
  sb_getTransaction :: "string \<Rightarrow> ('e, tx_answer) port"
  sb_now :: "('e, int) port"
  sb_sleep :: "int \<Rightarrow> 'e \<Rightarrow> 'e"
  sb_inherited :: "string \<Rightarrow> scval option"

record 'e attester =
  at_server :: "'e soroban"
  at_contract :: string
  at_passphrase :: string
  at_publicKey :: string
  at_confirmTimeoutMs :: int

definition new_attester :: "'e soroban \<Rightarrow> string \<Rightarrow> string \<Rightarrow> string \<Rightarrow> int option \<Rightarrow> 'e attester" where
  "new_attester server contractId networkPassphrase publicKey confirmTimeoutMs =
     \<lparr>at_server = server, at_contract = contractId, at_passphrase = networkPassphrase, at_publicKey = publicKey,
      at_confirmTimeoutMs = (case confirmTimeoutMs of Some t \<Rightarrow> t | None \<Rightarrow> 60000)\<rparr>"

datatype attest_event = AtSimulated invocation | AtSigned invocation | AtSent invocation | AtPolled string

record 'e attesting =
  aw_env :: 'e
  aw_log :: "attest_event list"

definition on_server :: "('e, 'a) port \<Rightarrow> ('e attesting, 'a) io" where
  "on_server p = (\<lambda>w. case p (aw_env w) of (a, e) \<Rightarrow> (Some a, w\<lparr>aw_env := e\<rparr>))"

definition at_log :: "attest_event \<Rightarrow> ('e attesting, unit) io" where
  "at_log x = modify_io (\<lambda>w. w\<lparr>aw_log := aw_log w @ [x]\<rparr>)"

record attestation_ref =
  ar_txHash :: string
  ar_ledger :: int

type_synonym attested = "(corridor_error \<times> nat option) + attestation_ref"

definition attest_fail :: "error_code \<Rightarrow> string \<Rightarrow> bool \<Rightarrow> cause \<Rightarrow> nat option \<Rightarrow> attested" where
  "attest_fail c m r k code = Inl (\<lparr>e_code = c, e_message = m, e_retryable = r, e_cause = k\<rparr>, code)"

subsection \<open>Confirming\<close>

definition msg_still_pending :: "string \<Rightarrow> string \<Rightarrow> int \<Rightarrow> string" where
  [msg_defs]: "msg_still_pending domain h timeout =
     domain @ '': '' @ h @ '' still pending after '' @ show_int timeout @ ''ms '' @ dash @
     '' check before resubmitting, it may yet succeed''"

text \<open>\<open>fuel\<close> bounds the polls; \<open>throw_io\<close> is its end, and a rejected poll.\<close>

fun attest_confirm_loop :: "nat \<Rightarrow> 'e attester \<Rightarrow> string \<Rightarrow> string \<Rightarrow> int \<Rightarrow> ('e attesting, attested) io" where
  "attest_confirm_loop 0 a h domain deadline = throw_io"
| "attest_confirm_loop (Suc fuel) a h domain deadline =
     bnd (on_server (sb_getTransaction (at_server a) h)) (\<lambda>got.
     bnd (at_log (AtPolled h)) (\<lambda>_.
       case got of
         TxRejected \<Rightarrow> throw_io
       | TxSuccess l \<Rightarrow> ret (Inr \<lparr>ar_txHash = h, ar_ledger = l\<rparr>)
       | TxFailed \<Rightarrow>
           ret (attest_fail SETTLEMENT_FAILED (domain @ '': transaction '' @ h @ '' failed on chain'') False NoCause None)
       | TxPending \<Rightarrow>
           bnd (on_server (sb_now (at_server a))) (\<lambda>t.
             if t \<ge> deadline then
               ret (attest_fail SETTLEMENT_TIMEOUT (msg_still_pending domain h (at_confirmTimeoutMs a)) False NoCause None)
             else
               bnd (modify_io (\<lambda>w. w\<lparr>aw_env := sb_sleep (at_server a) 1000 (aw_env w)\<rparr>)) (\<lambda>_.
               attest_confirm_loop fuel a h domain deadline))))"

definition attest_confirm :: "nat \<Rightarrow> 'e attester \<Rightarrow> string \<Rightarrow> string \<Rightarrow> ('e attesting, attested) io" where
  "attest_confirm fuel a h domain =
     bnd (on_server (sb_now (at_server a))) (\<lambda>t. attest_confirm_loop fuel a h domain (t + at_confirmTimeoutMs a))"

subsection \<open>Submitting\<close>

text \<open>The part of the \<open>try\<close> block that the \<open>catch\<close> covers: an answer, or the hash to confirm.\<close>

definition attest_send :: "'e attester \<Rightarrow> string \<Rightarrow> invocation \<Rightarrow> ('e attesting, attested + string) io" where
  "attest_send a domain i =
     bnd (on_server (sb_getAccount (at_server a) (at_publicKey a))) (\<lambda>loaded.
       if \<not> loaded \<or> \<not> sb_builds (at_server a) i then throw_io
       else
         bnd (on_server (sb_simulate (at_server a) i)) (\<lambda>sim.
         bnd (at_log (AtSimulated i)) (\<lambda>_.
           case sim of
             SimRejected \<Rightarrow> throw_io
           | SimError error \<Rightarrow>
               (case explain error of (code, message) \<Rightarrow>
                 ret (Inl (attest_fail MANIFEST_INVALID (domain @ '': '' @ message) False NoCause code)))
           | SimOk \<Rightarrow>
               if \<not> sb_assembles (at_server a) i then throw_io
               else
                 bnd (at_log (AtSigned i)) (\<lambda>_.
                 bnd (at_log (AtSent i)) (\<lambda>_.
                 bnd (on_server (sb_send (at_server a) i)) (\<lambda>sent.
                   case sent of
                     SendRejected \<Rightarrow> throw_io
                   | SendError \<Rightarrow>
                       ret (Inl (attest_fail SETTLEMENT_FAILED (domain @ '': submission rejected'') True NoCause None))
                   | SendTaken h \<Rightarrow> ret (Inr h)))))))"

definition attest_submit :: "nat \<Rightarrow> 'e attester \<Rightarrow> string \<Rightarrow> string \<Rightarrow> scval list \<Rightarrow> ('e attesting, attested) io" where
  "attest_submit fuel a method domain args =
     (let i = \<lparr>iv_source = at_publicKey a, iv_passphrase = at_passphrase a, iv_contract = at_contract a,
               iv_method = method, iv_args = args\<rparr> in
      check (catch_io (attest_send a domain i)
          (ret (Inl (attest_fail ANCHOR_UNAVAILABLE (domain @ '': '' @ method @ '' failed'') True CauseOther None))))
        ret (\<lambda>h. attest_confirm fuel a h domain))"

subsection \<open>The two writes\<close>

definition msg_non_canonical :: "string \<Rightarrow> string" where
  [msg_defs]: "msg_non_canonical domain =
     ''refusing to attest '' @ json_string domain @ '': not a canonical home domain. '' @
     ''Lowercase letters, digits, dots and inner hyphens only '' @ dash @ '' no scheme, port, path, '' @
     ''uppercase, or leading/trailing dot or hyphen.''"

definition nonCanonicalDomain :: "string \<Rightarrow> attested option" where
  "nonCanonicalDomain domain =
     (if isCanonicalDomain domain then None
      else Some (attest_fail MANIFEST_INVALID (msg_non_canonical domain) False NoCause None))"

text \<open>\<open>Buffer.from(s, "hex")\<close>: pairs of digits up to the first that is not one.\<close>

definition hex_value :: "char \<Rightarrow> nat" where
  "hex_value c = (if is_digit c then digit_val c else (of_char (lower_char c) :: nat) - 87)"

fun from_hex :: "string \<Rightarrow> nat list" where
  "from_hex (x # y # rest) =
     (if is_hex_char x \<and> is_hex_char y then (16 * hex_value x + hex_value y) # from_hex rest else [])"
| "from_hex _ = []"

definition attest_args :: "'e attester \<Rightarrow> probe_result \<Rightarrow> scval list" where
  "attest_args a r =
     [ScAddress (at_publicKey a), ScString (pr_domain r), ScU32 (pr_seps r), ScBytes (from_hex (pr_tomlHash r)),
      ScU32 (pr_run r), ScU32 (pr_passed r)]"

definition attest :: "nat \<Rightarrow> 'e attester \<Rightarrow> probe_result \<Rightarrow> ('e attesting, attested) io" where
  "attest fuel a r =
     (case nonCanonicalDomain (pr_domain r) of
        Some bad \<Rightarrow> ret bad
      | None \<Rightarrow>
          if pr_passed r AND NOT (pr_run r) \<noteq> 0 then
            ret (attest_fail MANIFEST_INVALID (dishonest (pr_domain r) (pr_run r) (pr_passed r)) False NoCause None)
          else attest_submit fuel a ''attest'' (pr_domain r) (attest_args a r))"

definition msg_no_observation :: "string \<Rightarrow> bool \<Rightarrow> string" where
  [msg_defs]: "msg_no_observation domain did_run =
     domain @ '': no observed receive list to submit '' @ dash @ '' sep31_info '' @
     (if did_run then ''ran and failed'' else ''never did_run'') @ ''. Not sending an empty list for a '' @
     ''probe that produced no answer.''"

definition country_arg :: "'e attester \<Rightarrow> country \<Rightarrow> scval option" where
  "country_arg a c =
     (case c of NoCountry \<Rightarrow> Some ScVoid | Country s \<Rightarrow> Some (ScString s) | InheritedProperty k \<Rightarrow> sb_inherited (at_server a) k)"

definition meta_args :: "'e attester \<Rightarrow> probe_result \<Rightarrow> string list \<Rightarrow> scval \<Rightarrow> scval list" where
  "meta_args a r assets c =
     [ScAddress (at_publicKey a), ScString (pr_domain r), ScVec (map ScString assets), c]"

definition attestMeta :: "nat \<Rightarrow> 'e attester \<Rightarrow> probe_result \<Rightarrow> ('e attesting, attested) io" where
  "attestMeta fuel a r =
     (case nonCanonicalDomain (pr_domain r) of
        Some bad \<Rightarrow> ret bad
      | None \<Rightarrow>
          let did_run = (pr_run r AND probeBit ''sep31_info'' \<noteq> 0) in
          case pr_receiveAssets r of
            None \<Rightarrow> ret (attest_fail MANIFEST_INVALID (msg_no_observation (pr_domain r) did_run) False NoCause None)
          | Some assets \<Rightarrow>
              if \<not> did_run then ret (attest_fail MANIFEST_INVALID (msg_no_observation (pr_domain r) did_run) False NoCause None)
              else
                (case country_arg a (pr_country r) of
                   None \<Rightarrow> throw_io
                 | Some c \<Rightarrow> attest_submit fuel a ''attest_meta'' (pr_domain r) (meta_args a r assets c)))"

subsection \<open>What a submission signs and sends\<close>

definition sends :: "attest_event list \<Rightarrow> invocation list" where
  "sends l = concat (map (\<lambda>x. case x of AtSent i \<Rightarrow> [i] | _ \<Rightarrow> []) l)"

lemma sends_simps [simp]: "sends [] = []" "sends (l @ m) = sends l @ sends m"
  "sends [AtSimulated i] = []" "sends [AtSigned i] = []" "sends [AtSent i] = [i]" "sends [AtPolled h] = []"
  by (simp_all add: sends_def)

text \<open>An attestation is one simulated, signed and sent invocation, followed by polls of its hash.\<close>

fun only_polls :: "string \<Rightarrow> attest_event list \<Rightarrow> bool" where
  "only_polls h [] = True"
| "only_polls h (AtPolled g # l) = (g = h \<and> only_polls h l)"
| "only_polls h (_ # l) = False"

lemma only_polls_sends: "only_polls h l \<Longrightarrow> sends l = []"
  by (induction h l rule: only_polls.induct) (auto simp: sends_def)

lemma on_server_run: "on_server p w = (r, w') \<longleftrightarrow> (\<exists>x e. p (aw_env w) = (x, e) \<and> r = Some x \<and> w' = w\<lparr>aw_env := e\<rparr>)"
  by (auto simp: on_server_def split: prod.splits)

lemma confirm_loop_polls:
  "attest_confirm_loop fuel a h domain d w = (r, w') \<Longrightarrow> \<exists>new. aw_log w' = aw_log w @ new \<and> only_polls h new \<and>
     (\<forall>res. r = Some (Inr res) \<longrightarrow> ar_txHash res = h \<and> (\<exists>e. fst (sb_getTransaction (at_server a) h e) = TxSuccess (ar_ledger res)))"
proof (induction fuel arbitrary: w)
  case (Suc fuel)
  obtain got e where q: "sb_getTransaction (at_server a) h (aw_env w) = (got, e)" by fastforce
  let ?w = "w\<lparr>aw_env := e, aw_log := aw_log w @ [AtPolled h]\<rparr>"
  show ?case
  proof (cases got)
    case TxPending
    obtain t e2 where n: "sb_now (at_server a) e = (t, e2)" by fastforce
    show ?thesis
    proof (cases "t \<ge> d")
      case False
      have "attest_confirm_loop fuel a h domain d (?w\<lparr>aw_env := sb_sleep (at_server a) 1000 e2\<rparr>) = (r, w')"
        using Suc.prems q n TxPending False by (simp add: io_defs on_server_def at_log_def)
      from Suc.IH [OF this] obtain new where "aw_log w' = aw_log w @ AtPolled h # new" "only_polls h new"
        "\<forall>res. r = Some (Inr res) \<longrightarrow> ar_txHash res = h \<and> (\<exists>e. fst (sb_getTransaction (at_server a) h e) = TxSuccess (ar_ledger res))"
        by auto
      then show ?thesis by (intro exI [of _ "AtPolled h # new"]) simp
    qed (use Suc.prems q n TxPending in \<open>auto simp: io_defs on_server_def at_log_def attest_fail_def\<close>)
  qed (use Suc.prems q in \<open>auto simp: io_defs on_server_def at_log_def attest_fail_def; metis fst_conv\<close>)+
qed (simp add: throw_io_def)


text \<open>How far the covered part got: what it logged, and whether it got a hash.\<close>

lemma send_logged:
  assumes "attest_send a domain i w = (r, w')"
  shows "\<exists>new. aw_log w' = aw_log w @ new \<and> sends new \<in> {[], [i]} \<and>
    (\<forall>x. r = Some (Inl x) \<longrightarrow> isl x) \<and> (\<forall>h. r = Some (Inr h) \<longrightarrow> sends new = [i])"
proof -
  obtain l e where g: "sb_getAccount (at_server a) (at_publicKey a) (aw_env w) = (l, e)" by fastforce
  obtain sim e1 where s: "sb_simulate (at_server a) i e = (sim, e1)" by fastforce
  obtain sent e2 where t: "sb_send (at_server a) i e1 = (sent, e2)" by fastforce
  consider "\<not> l \<or> \<not> sb_builds (at_server a) i" | "l" "sb_builds (at_server a) i" "sim \<noteq> SimOk \<or> \<not> sb_assembles (at_server a) i"
    | "l" "sb_builds (at_server a) i" "sim = SimOk" "sb_assembles (at_server a) i" by blast
  then show ?thesis
  proof cases
    case 1
    then show ?thesis using assms g by (auto simp: attest_send_def io_defs on_server_def)
  next
    case 2
    then show ?thesis using assms g s
      by (intro exI [of _ "[AtSimulated i]"]) (cases sim, auto simp: attest_send_def io_defs on_server_def at_log_def attest_fail_def split: prod.splits)
  next
    case 3
    then show ?thesis using assms g s t
      by (intro exI [of _ "[AtSimulated i, AtSigned i, AtSent i]"])
        (cases sent, auto simp: attest_send_def io_defs on_server_def at_log_def attest_fail_def sends_def)
  qed
qed

definition sent_once :: "'e attester \<Rightarrow> invocation \<Rightarrow> attest_event list \<Rightarrow> attested option \<Rightarrow> bool" where
  "sent_once a i new r \<longleftrightarrow> sends new \<in> {[], [i]} \<and>
     (\<forall>res. r = Some (Inr res) \<longrightarrow> sends new = [i] \<and>
        (\<exists>e. fst (sb_getTransaction (at_server a) (ar_txHash res) e) = TxSuccess (ar_ledger res)))"

lemma submit_sends_once:
  assumes "attest_submit fuel a method domain args w = (r, w')"
  shows "\<exists>new. aw_log w' = aw_log w @ new \<and>
    sent_once a \<lparr>iv_source = at_publicKey a, iv_passphrase = at_passphrase a, iv_contract = at_contract a,
      iv_method = method, iv_args = args\<rparr> new r"
proof -
  define i where "i = \<lparr>iv_source = at_publicKey a, iv_passphrase = at_passphrase a, iv_contract = at_contract a,
      iv_method = method, iv_args = args\<rparr>"
  obtain s w1 where s: "attest_send a domain i w = (s, w1)" by fastforce
  obtain new where new: "aw_log w1 = aw_log w @ new" "sends new \<in> {[], [i]}"
    "\<forall>x. s = Some (Inl x) \<longrightarrow> isl x" "\<forall>h. s = Some (Inr h) \<longrightarrow> sends new = [i]"
    using send_logged [OF s] by blast
  show ?thesis
  proof (cases "\<exists>h. s = Some (Inr h)")
    case True
    then obtain h where h: "s = Some (Inr h)" by blast
    then obtain t e where c: "sb_now (at_server a) (aw_env w1) = (t, e)"
      "attest_confirm_loop fuel a h domain (t + at_confirmTimeoutMs a) (w1\<lparr>aw_env := e\<rparr>) = (r, w')"
      using assms s by (auto simp: attest_submit_def attest_confirm_def catch_io_def io_defs on_server_def Let_def simp flip: i_def split: prod.splits)
    from confirm_loop_polls [OF c(2)] obtain polls where "aw_log w' = aw_log w1 @ polls" "only_polls h polls"
      "\<forall>res. r = Some (Inr res) \<longrightarrow> ar_txHash res = h \<and> (\<exists>e. fst (sb_getTransaction (at_server a) h e) = TxSuccess (ar_ledger res))"
      by auto
    then show ?thesis using new h only_polls_sends by (intro exI [of _ "new @ polls"]) (auto simp: sent_once_def simp flip: i_def)
  next
    case False
    then have "aw_log w' = aw_log w1" "\<And>res. r \<noteq> Some (Inr res)"
      using assms s new(3) by (auto simp: attest_submit_def catch_io_def io_defs Let_def attest_fail_def simp flip: i_def
          split: prod.splits option.splits sum.splits)
    then show ?thesis using new by (intro exI [of _ new]) (simp add: sent_once_def flip: i_def)
  qed
qed

text \<open>
  C31: An attestation sends at most one transaction, the attest call with the domain, the bitmaps and the
  hash of the probe result as they are, and only for a canonical domain whose passed probes were run; it
  reports success only for a transaction that was sent and that the network reports as successful.
\<close>

theorem attest_sends_verbatim:
  assumes "attest fuel a r w = (res, w')"
  shows "\<exists>new. aw_log w' = aw_log w @ new \<and>
    (sends new \<noteq> [] \<longrightarrow> isCanonicalDomain (pr_domain r) \<and> pr_passed r AND NOT (pr_run r) = 0) \<and>
    sent_once a \<lparr>iv_source = at_publicKey a, iv_passphrase = at_passphrase a, iv_contract = at_contract a, iv_method = ''attest'',
      iv_args = [ScAddress (at_publicKey a), ScString (pr_domain r), ScU32 (pr_seps r), ScBytes (from_hex (pr_tomlHash r)),
        ScU32 (pr_run r), ScU32 (pr_passed r)]\<rparr> new res"
proof (cases "isCanonicalDomain (pr_domain r) \<and> pr_passed r AND NOT (pr_run r) = 0")
  case True
  then have "attest_submit fuel a ''attest'' (pr_domain r) (attest_args a r) w = (res, w')"
    using assms by (simp add: attest_def nonCanonicalDomain_def)
  from submit_sends_once [OF this] show ?thesis using True by (simp add: attest_args_def)
next
  case False
  then have "w' = w" "\<And>x. res \<noteq> Some (Inr x)"
    using assms by (auto simp: attest_def nonCanonicalDomain_def attest_fail_def ret_def split: if_splits)
  then show ?thesis by (intro exI [of _ "[]"]) (simp add: sent_once_def)
qed


lemma attestMeta_sends_once:
  assumes "attestMeta fuel a r w = (res, w')"
  shows "\<exists>new i. aw_log w' = aw_log w @ new \<and> sent_once a i new res \<and>
    (sends new \<noteq> [] \<longrightarrow> isCanonicalDomain (pr_domain r) \<and> pr_run r AND probeBit ''sep31_info'' \<noteq> 0 \<and>
      (\<exists>assets c. pr_receiveAssets r = Some assets \<and> country_arg a (pr_country r) = Some c \<and>
         iv_args i = [ScAddress (at_publicKey a), ScString (pr_domain r), ScVec (map ScString assets), c]))"
proof (cases "\<exists>assets c. isCanonicalDomain (pr_domain r) \<and> pr_run r AND probeBit ''sep31_info'' \<noteq> 0 \<and>
    pr_receiveAssets r = Some assets \<and> country_arg a (pr_country r) = Some c")
  case True
  then obtain assets c where ok: "isCanonicalDomain (pr_domain r)" "pr_run r AND probeBit ''sep31_info'' \<noteq> 0"
    "pr_receiveAssets r = Some assets" "country_arg a (pr_country r) = Some c" by blast
  then have "attest_submit fuel a ''attest_meta'' (pr_domain r) (meta_args a r assets c) w = (res, w')"
    using assms by (simp add: attestMeta_def nonCanonicalDomain_def)
  from submit_sends_once [OF this] obtain new i where "aw_log w' = aw_log w @ new" "sent_once a i new res"
    "iv_args i = meta_args a r assets c" by auto
  then show ?thesis using ok by (intro exI [of _ new] exI [of _ i]) (simp add: meta_args_def)
next
  case False
  then have "w' = w" "\<And>x. res \<noteq> Some (Inr x)"
    using assms by (auto simp: attestMeta_def nonCanonicalDomain_def attest_fail_def ret_def throw_io_def Let_def
        split: if_splits option.splits)
  then show ?thesis by (intro exI [of _ "[]"]) (simp add: sent_once_def)
qed

subsection \<open>Probing and attesting together\<close>

text \<open>What a probe of a canonical domain found is never refused before it reaches the network.\<close>

lemma probed_is_attested:
  assumes "probeAnchor env domain v = (Some r, v')" and "isCanonicalDomain domain"
  shows "attest fuel a r = attest_submit fuel a ''attest'' domain (attest_args a r)"
  using yieldsD [OF probe_yields_honest assms(1)] yieldsD [OF probed_country assms(1)] assms(2)
  by (simp add: attest_def nonCanonicalDomain_def honest_result_def fun_eq_iff)

lemma probed_assets_are_attested:
  assumes "probeAnchor env domain v = (Some r, v')" and "isCanonicalDomain domain"
    and "pr_receiveAssets r = Some assets" and "\<And>k. pr_country r \<noteq> InheritedProperty k"
  shows "\<exists>c. attestMeta fuel a r = attest_submit fuel a ''attest_meta'' domain (meta_args a r assets c)"
proof -
  have honest: "honest_result env r" by (rule yieldsD [OF probe_yields_honest assms(1)])
  then have "''sep31_info'' \<in> set (names_of (filter po_passed (pr_outcomes r)))" using assms(3) by (auto simp: honest_result_def)
  then have "''sep31_info'' \<in> set (decodeProbes (pr_run r))" using honest by (auto simp: honest_result_def names_of_def)
  then have "pr_run r AND probeBit ''sep31_info'' \<noteq> 0"
    using member_bit [of PROBE_NAMES "''sep31_info''" "pr_run r"] unfolding probeBit_def decodeProbes_def
    by (simp add: PROBE_NAMES_def)
  moreover obtain c where "country_arg a (pr_country r) = Some c"
    using assms(4) by (cases "pr_country r") (auto simp: country_arg_def)
  ultimately show ?thesis
    using yieldsD [OF probed_country assms(1)] assms(2,3) by (auto simp: attestMeta_def nonCanonicalDomain_def fun_eq_iff)
qed

subsection \<open>An attestation answers, unless a poll is rejected\<close>

definition attest_clock :: "('e \<Rightarrow> int) \<Rightarrow> 'e soroban \<Rightarrow> bool" where
  "attest_clock clk s \<longleftrightarrow>
     (\<forall>e. fst (sb_now s e) = clk e \<and> clk e \<le> clk (snd (sb_now s e))) \<and>
     (\<forall>h e. clk e \<le> clk (snd (sb_getTransaction s h e)) \<and> fst (sb_getTransaction s h e) \<noteq> TxRejected) \<and>
     (\<forall>d e. clk e + d \<le> clk (sb_sleep s d e))"

lemma attest_confirm_loop_returns:
  assumes "attest_clock clk (at_server a)" and "d \<le> clk (aw_env w) + 1000 * int f"
  shows "fst (attest_confirm_loop (Suc f) a h domain d w) \<noteq> None"
  using assms(2)
proof (induction f arbitrary: w)
  case (0 w)
  obtain got e where q: "sb_getTransaction (at_server a) h (aw_env w) = (got, e)" by fastforce
  obtain t e2 where n: "sb_now (at_server a) e = (t, e2)" by fastforce
  have "clk (aw_env w) \<le> clk e" "got \<noteq> TxRejected" "t = clk e"
    using assms(1) q n unfolding attest_clock_def by (metis fst_conv snd_conv)+
  then show ?case using 0 q n by (cases got) (auto simp: io_defs on_server_def at_log_def)
next
  case (Suc f w)
  obtain got e where q: "sb_getTransaction (at_server a) h (aw_env w) = (got, e)" by fastforce
  obtain t e2 where n: "sb_now (at_server a) e = (t, e2)" by fastforce
  have "clk (aw_env w) \<le> clk e" "got \<noteq> TxRejected" "clk e \<le> clk e2" "clk e2 + 1000 \<le> clk (sb_sleep (at_server a) 1000 e2)"
    using assms(1) q n unfolding attest_clock_def by (metis fst_conv snd_conv)+
  then have "d \<le> clk (sb_sleep (at_server a) 1000 e2) + 1000 * int f" using Suc.prems by simp
  then show ?case
    using Suc.IH [of "w\<lparr>aw_log := aw_log w @ [AtPolled h], aw_env := sb_sleep (at_server a) 1000 e2\<rparr>"] q n \<open>got \<noteq> TxRejected\<close>
    by (subst attest_confirm_loop.simps, cases got) (simp_all add: io_defs on_server_def at_log_def del: attest_confirm_loop.simps)
qed

lemma attest_confirm_returns:
  assumes "attest_clock clk (at_server a)" and "at_confirmTimeoutMs a \<le> 1000 * int f"
  shows "returns (attest_confirm (Suc f) a h domain)"
  unfolding returns_def
proof
  fix w :: "'a attesting"
  obtain t e where n: "sb_now (at_server a) (aw_env w) = (t, e)" by fastforce
  have "t = clk (aw_env w)" "clk (aw_env w) \<le> clk e" using assms(1) n unfolding attest_clock_def by (metis fst_conv snd_conv)+
  then have "fst (attest_confirm_loop (Suc f) a h domain (t + at_confirmTimeoutMs a) (w\<lparr>aw_env := e\<rparr>)) \<noteq> None"
    by (intro attest_confirm_loop_returns [OF assms(1)]) (use assms(2) in simp)
  then show "\<exists>r w'. attest_confirm (Suc f) a h domain w = (Some r, w')"
    using n by (cases "attest_confirm_loop (Suc f) a h domain (t + at_confirmTimeoutMs a) (w\<lparr>aw_env := e\<rparr>)")
      (auto simp: attest_confirm_def bnd_def on_server_def)
qed

lemma attest_submit_returns:
  assumes "attest_clock clk (at_server a)" and "at_confirmTimeoutMs a \<le> 1000 * int f"
  shows "returns (attest_submit (Suc f) a method domain args)"
proof -
  have "returns (catch_io m (ret x))" for m :: "('b, 'c) io" and x by (auto simp: returns_def catch_io_def ret_def split: prod.splits option.splits)
  then show ?thesis unfolding attest_submit_def Let_def
    by (intro returns_rules attest_confirm_returns [OF assms])
qed

text \<open>
  With one poll per second of its timeout an attestation answers, provided the clock runs and no poll
  is rejected.
\<close>

theorem attest_answers:
  assumes "attest_clock clk (at_server a)" and "at_confirmTimeoutMs a \<le> 1000 * int f"
  shows "\<exists>res. fst (attest (Suc f) a r w) = Some res"
proof -
  have "returns (attest (Suc f) a r)"
    unfolding attest_def by (auto intro!: returns_rules attest_submit_returns [OF assms] split: option.split)
  then show ?thesis by (metis fst_conv returnsD)
qed


definition demo_soroban :: "tx_answer \<Rightarrow> int soroban" where
  "demo_soroban poll = \<lparr>sb_getAccount = (\<lambda>_ e. (True, e)), sb_builds = (\<lambda>_. True), sb_simulate = (\<lambda>_ e. (SimOk, e)),
     sb_assembles = (\<lambda>_. True), sb_send = (\<lambda>_ e. (SendTaken ''h'', e)), sb_getTransaction = (\<lambda>_ e. (poll, e)),
     sb_now = (\<lambda>e. (e, e)), sb_sleep = (\<lambda>d e. e + d), sb_inherited = (\<lambda>_. None)\<rparr>"

definition demo_attester :: "tx_answer \<Rightarrow> int attester" where
  "demo_attester poll = new_attester (demo_soroban poll) ''C'' ''Test SDF Network'' ''G'' None"

definition demo_attesting :: "int attesting" where
  "demo_attesting = \<lparr>aw_env = 0, aw_log = []\<rparr>"

lemma attest_answers_witness: "\<exists>res. fst (attest (Suc 60) (demo_attester TxPending) demo_result demo_attesting) = Some res"
  by (rule attest_answers [of id]) (simp_all add: attest_clock_def demo_attester_def new_attester_def demo_soroban_def)

lemma demo_attest_run:
  "attest 1 (demo_attester (TxSuccess 7)) demo_result demo_attesting =
     (Some (Inr \<lparr>ar_txHash = ''h'', ar_ledger = 7\<rparr>), demo_attesting\<lparr>aw_log := (let i = \<lparr>iv_source = ''G'', iv_passphrase = ''Test SDF Network'',
        iv_contract = ''C'', iv_method = ''attest'', iv_args = attest_args (demo_attester (TxSuccess 7)) demo_result\<rparr>
      in [AtSimulated i, AtSigned i, AtSent i, AtPolled ''h''])\<rparr>)"
proof -
  have "isCanonicalDomain ''a.com''" by code_simp
  moreover have "pr_domain demo_result = ''a.com''" "pr_passed demo_result AND NOT (pr_run demo_result) = 0"
    by (simp add: demo_result_def, code_simp)
  ultimately show ?thesis
    by (simp add: attest_def nonCanonicalDomain_def attest_submit_def attest_send_def attest_confirm_def catch_io_def io_defs
        on_server_def at_log_def demo_attester_def new_attester_def demo_soroban_def demo_attesting_def Let_def)
qed

lemma attest_sends_verbatim_witness:
  "\<exists>w'. attest 1 (demo_attester (TxSuccess 7)) demo_result demo_attesting = (Some (Inr \<lparr>ar_txHash = ''h'', ar_ledger = 7\<rparr>), w') \<and>
     sends (aw_log w') \<noteq> [] \<and> isCanonicalDomain (pr_domain demo_result)"
proof -
  obtain w' where run: "attest 1 (demo_attester (TxSuccess 7)) demo_result demo_attesting = (Some (Inr \<lparr>ar_txHash = ''h'', ar_ledger = 7\<rparr>), w')"
    using demo_attest_run by blast
  from attest_sends_verbatim [OF run] obtain new where "aw_log w' = new" "sends new \<noteq> []" "isCanonicalDomain (pr_domain demo_result)"
    unfolding sent_once_def by (auto simp: demo_attesting_def)
  then show ?thesis using run by blast
qed

text \<open>
  A poll that is rejected after the transaction was sent is not caught: the promise of an attestation,
  declared to carry an outcome, is rejected.
\<close>

lemma rejected_poll_escapes:
  "\<exists>w'. attest 1 (demo_attester TxRejected) demo_result demo_attesting = (None, w') \<and> sends (aw_log w') \<noteq> []"
proof -
  have "isCanonicalDomain ''a.com''" by code_simp
  moreover have "pr_domain demo_result = ''a.com''" "pr_passed demo_result AND NOT (pr_run demo_result) = 0"
    by (simp add: demo_result_def, code_simp)
  ultimately show ?thesis
    by (simp add: attest_def nonCanonicalDomain_def attest_submit_def attest_send_def attest_confirm_def catch_io_def io_defs
        on_server_def at_log_def demo_attester_def new_attester_def demo_soroban_def demo_attesting_def Let_def sends_def)
qed

text \<open>An error of the contract is named by its number, whatever surrounds it.\<close>

lemma explain_known:
  "explain ''HostError: Error(Contract, #3) at ledger 9'' =
     (Some 3, ''too soon: this domain was attested within the cooldown window (contract error #3) '' @ dash @ '' '' @
       ''if the registry raised it: probes_passed set a bit probes_run did not (PassedExceedsRun)'')"
  "explain ''Error(Contract, #99)'' = (Some 99, ''Error(Contract, #99)'')"
  "explain ''Error(Contract, #)'' = (None, ''Error(Contract, #)'')"
  by code_simp+

end
