(* ===== verification/Registry.thy ===== *)
theory Registry
  imports Attester
begin

section \<open>Reading the registry (packages/registry/src/index.ts)\<close>

text \<open>
  The read half of the registry. A read is a simulated call of the contract; the server is a record of
  ports that answer what the simulation gave, decoded. A rejected promise is \<open>Inl\<close> its message.
\<close>

subsection \<open>Attestations and their filters\<close>

record anchor_attestation =
  aa_domain :: string
  aa_seps :: "int list"
  aa_probesRun :: "string list"
  aa_probesPassed :: "string list"
  aa_tomlHash :: string
  aa_attestedLedger :: int
  aa_attester :: string
  aa_receiveAssets :: "string list option"
  aa_country :: "string option"

record anchor_metadata =
  am_domain :: string
  am_receiveAssets :: "string list"
  am_country :: "string option"
  am_attestedLedger :: int
  am_attester :: string

record attestation_filter =
  af_sep :: "int list option"
  af_passed :: "string list option"
  af_maxAge :: "int option"
  af_country :: "string option"
  af_asset :: "string list option"

definition filterAttestations ::
  "anchor_attestation list \<Rightarrow> (string \<Rightarrow> int option) \<Rightarrow> attestation_filter \<Rightarrow> anchor_attestation list" where
  "filterAttestations records stalenessByDomain opts =
     filter (\<lambda>r.
       if (case af_sep opts of Some ns \<Rightarrow> \<not> list_all (\<lambda>n. n \<in> set (aa_seps r)) ns | None \<Rightarrow> False) then False
       else if (case af_passed opts of Some ps \<Rightarrow> \<not> list_all (\<lambda>p. p \<in> set (aa_probesPassed r)) ps | None \<Rightarrow> False) then False
       else if (case af_maxAge opts of
                  Some m \<Rightarrow> (case stalenessByDomain (aa_domain r) of None \<Rightarrow> True | Some age \<Rightarrow> age > m)
                | None \<Rightarrow> False) then False
       else if af_country opts \<noteq> None \<and> aa_country r \<noteq> af_country opts then False
       else if (case af_asset opts of
                  Some (a # as) \<Rightarrow>
                    (case aa_receiveAssets r of
                       None \<Rightarrow> True
                     | Some received \<Rightarrow> \<not> list_all (\<lambda>code. code \<in> set received) (a # as))
                | _ \<Rightarrow> False) then False
       else True) records"

subsection \<open>Reads\<close>

datatype 'a simulated = ReadRejected string | ReadError string | NoRetval | Retval 'a

record raw_record =
  rr_domain :: string
  rr_seps :: "32 word"
  rr_toml_hash :: "nat list"
  rr_probes_run :: "32 word"
  rr_probes_passed :: "32 word"
  rr_attested_ledger :: int
  rr_attester :: string

record raw_meta =
  rm_domain :: string
  rm_receive_assets :: "string list"
  rm_country :: "string option"
  rm_attested_ledger :: int
  rm_attester :: string

text \<open>Topics and the value of an event, decoded; \<open>None\<close> is a topic that does not decode.\<close>

record event_fields =
  ef_domain :: "string option"
  ef_seps :: "32 word option"
  ef_toml_hash :: "nat list option"
  ef_probes_run :: "32 word option"
  ef_probes_passed :: "32 word option"
  ef_attested_ledger :: "int option"
  ef_attester :: "string option"

datatype event_value = EvObject event_fields | EvNumber int | EvOther | EvUndecodable

record chain_attested =
  ce_topic :: "string option list"
  ce_value :: event_value
  ce_ledger :: int

record events_page =
  ep_events :: "chain_attested list"
  ep_latestLedger :: int
  ep_oldestLedger :: int

record 'e registry_server =
  rs_domains :: "('e, string list simulated) port"
  rs_get_anchor :: "string \<Rightarrow> ('e, raw_record simulated) port"
  rs_get_meta :: "string \<Rightarrow> ('e, raw_meta simulated) port"
  rs_receives_asset :: "string \<Rightarrow> string \<Rightarrow> ('e, bool simulated) port"
  rs_serves_sep31 :: "string \<Rightarrow> ('e, bool simulated) port"
  rs_serves_sep6 :: "string \<Rightarrow> ('e, bool simulated) port"
  rs_staleness :: "string \<Rightarrow> ('e, int simulated) port"
  rs_latestLedger :: "('e, string + int) port"
  rs_events :: "int \<Rightarrow> string \<Rightarrow> int option \<Rightarrow> ('e, string + events_page) port"

definition registry_read :: "string \<Rightarrow> ('e, 'a simulated) port \<Rightarrow> ('e, string + 'a) port" where
  "registry_read meth p =
     (\<lambda>e. case p e of (s, e') \<Rightarrow>
        (case s of
           ReadRejected m \<Rightarrow> Inl m
         | ReadError m \<Rightarrow> Inl (''registry.'' @ meth @ '' failed: '' @ m)
         | NoRetval \<Rightarrow> Inl (''registry.'' @ meth @ '' returned no value'')
         | Retval v \<Rightarrow> Inr v, e'))"

definition port_then :: "('e, 'x + 'a) port \<Rightarrow> ('a \<Rightarrow> ('e, 'x + 'b) port) \<Rightarrow> ('e, 'x + 'b) port" where
  "port_then p f = (\<lambda>e. case p e of (Inl m, e') \<Rightarrow> (Inl m, e') | (Inr v, e') \<Rightarrow> f v e')"

definition port_value :: "'a \<Rightarrow> ('e, 'x + 'a) port" where
  "port_value v = (\<lambda>e. (Inr v, e))"

definition NOT_FOUND :: nat where
  "NOT_FOUND = 6"

text \<open>\<open>raw.country ? { country: raw.country } : {}\<close>\<close>

definition metaCountry :: "string option \<Rightarrow> string option" where
  "metaCountry c = (case c of Some s \<Rightarrow> if s = '''' then None else Some s | None \<Rightarrow> None)"

definition registry_domains :: "'e registry_server \<Rightarrow> ('e, string + string list) port" where
  "registry_domains s = registry_read ''domains'' (rs_domains s)"

definition getMeta :: "'e registry_server \<Rightarrow> string \<Rightarrow> ('e, string + anchor_metadata option) port" where
  "getMeta s domain =
     (\<lambda>e. case registry_read ''get_meta'' (rs_get_meta s domain) e of
        (Inl m, e') \<Rightarrow> (if contract_code m = Some NOT_FOUND then Inr None else Inl m, e')
      | (Inr raw, e') \<Rightarrow>
          (Inr (Some \<lparr>am_domain = rm_domain raw, am_receiveAssets = rm_receive_assets raw,
             am_country = metaCountry (rm_country raw), am_attestedLedger = rm_attested_ledger raw,
             am_attester = rm_attester raw\<rparr>), e'))"

text \<open>\<open>Buffer.from(bytes).toString("hex")\<close>\<close>

definition to_hex :: "nat list \<Rightarrow> string" where
  "to_hex bs = concat (map (\<lambda>b. [hex_digit (b div 16), hex_digit (b mod 16)]) bs)"

definition getAnchor :: "'e registry_server \<Rightarrow> string \<Rightarrow> bool \<Rightarrow> ('e, string + anchor_attestation) port" where
  "getAnchor s domain with_meta =
     port_then (registry_read ''get_anchor'' (rs_get_anchor s domain)) (\<lambda>raw.
       let anchor = \<lparr>aa_domain = rr_domain raw, aa_seps = decode_mask SEP_NUMBERS (rr_seps raw),
             aa_probesRun = decode_mask PROBE_NAMES (rr_probes_run raw),
             aa_probesPassed = decode_mask PROBE_NAMES (rr_probes_passed raw), aa_tomlHash = to_hex (rr_toml_hash raw),
             aa_attestedLedger = rr_attested_ledger raw, aa_attester = rr_attester raw, aa_receiveAssets = None,
             aa_country = None\<rparr>
       in if \<not> with_meta then port_value anchor
          else
            port_then (getMeta s domain) (\<lambda>meta.
              port_value (case meta of
                None \<Rightarrow> anchor
              | Some m \<Rightarrow> anchor\<lparr>aa_receiveAssets := Some (am_receiveAssets m), aa_country := metaCountry (am_country m)\<rparr>)))"

definition receivesAsset :: "'e registry_server \<Rightarrow> string \<Rightarrow> string \<Rightarrow> ('e, string + bool) port" where
  "receivesAsset s domain code = registry_read ''receives_asset'' (rs_receives_asset s domain code)"

definition registry_tomlHash :: "'e registry_server \<Rightarrow> string \<Rightarrow> ('e, string + string) port" where
  "registry_tomlHash s domain = port_then (getAnchor s domain False) (\<lambda>a. port_value (aa_tomlHash a))"

definition servesSep31 :: "'e registry_server \<Rightarrow> string \<Rightarrow> ('e, string + bool) port" where
  "servesSep31 s domain = registry_read ''serves_sep31'' (rs_serves_sep31 s domain)"

definition servesSep6 :: "'e registry_server \<Rightarrow> string \<Rightarrow> ('e, string + bool) port" where
  "servesSep6 s domain = registry_read ''serves_sep6'' (rs_serves_sep6 s domain)"

datatype protocol = Sep31Protocol | Sep6Protocol

definition serves :: "'e registry_server \<Rightarrow> string \<Rightarrow> protocol \<Rightarrow> ('e, string + bool) port" where
  "serves s domain p = (case p of Sep31Protocol \<Rightarrow> servesSep31 s domain | Sep6Protocol \<Rightarrow> servesSep6 s domain)"

definition registry_staleness :: "'e registry_server \<Rightarrow> string \<Rightarrow> ('e, string + int) port" where
  "registry_staleness s domain = registry_read ''staleness'' (rs_staleness s domain)"

text \<open>Both reads of a domain are started; the first rejection, here that of \<open>serves\<close>, is the one reported.\<close>

fun live_loop :: "'e registry_server \<Rightarrow> protocol \<Rightarrow> int \<Rightarrow> string list \<Rightarrow> string list \<Rightarrow> ('e, string + string list) port" where
  "live_loop s p limit [] out = port_value out"
| "live_loop s p limit (domain # rest) out =
     (\<lambda>e.
        let (a, e1) = serves s domain p e; (b, e2) = registry_staleness s domain e1 in
        case a of
          Inl m \<Rightarrow> (Inl m, e2)
        | Inr ok \<Rightarrow>
            (case b of
               Inl m \<Rightarrow> (Inl m, e2)
             | Inr age \<Rightarrow> live_loop s p limit rest (if ok \<and> age \<le> limit then out @ [domain] else out) e2))"

definition WEEK_LEDGERS :: int where
  "WEEK_LEDGERS = 120960"

definition liveAnchors :: "'e registry_server \<Rightarrow> protocol \<Rightarrow> int option \<Rightarrow> ('e, string + string list) port" where
  "liveAnchors s p maxStaleness =
     port_then (registry_domains s) (\<lambda>all.
       live_loop s p (case maxStaleness of Some m \<Rightarrow> m | None \<Rightarrow> WEEK_LEDGERS) all [])"

definition liveSep31Anchors :: "'e registry_server \<Rightarrow> int option \<Rightarrow> ('e, string + string list) port" where
  "liveSep31Anchors s maxStaleness = liveAnchors s Sep31Protocol maxStaleness"

subsection \<open>History\<close>

definition throw_decode :: "string + 'a" where
  "throw_decode = Inl ''undecodable event''"

definition decodeAttestationEvent :: "chain_attested \<Rightarrow> string + anchor_attestation" where
  "decodeAttestationEvent ev =
     (case (if length (ce_topic ev) > 1 then (case ce_topic ev ! 1 of Some d \<Rightarrow> Inr d | None \<Rightarrow> throw_decode) else Inr '''') of
        Inl m \<Rightarrow> Inl m
      | Inr domain \<Rightarrow>
          (case ce_value ev of
             EvUndecodable \<Rightarrow> throw_decode
           | EvObject f \<Rightarrow>
               Inr \<lparr>aa_domain = (if truthy (ef_domain f) then the (ef_domain f) else domain),
                 aa_seps = decode_mask SEP_NUMBERS (case ef_seps f of Some m \<Rightarrow> m | None \<Rightarrow> 0),
                 aa_probesRun = decode_mask PROBE_NAMES (case ef_probes_run f of Some m \<Rightarrow> m | None \<Rightarrow> 0),
                 aa_probesPassed = decode_mask PROBE_NAMES (case ef_probes_passed f of Some m \<Rightarrow> m | None \<Rightarrow> 0),
                 aa_tomlHash = (case ef_toml_hash f of Some bs \<Rightarrow> to_hex bs | None \<Rightarrow> ''''),
                 aa_attestedLedger = (case ef_attested_ledger f of Some l \<Rightarrow> l | None \<Rightarrow> ce_ledger ev),
                 aa_attester = (case ef_attester f of Some a \<Rightarrow> a | None \<Rightarrow> ''''),
                 aa_receiveAssets = None, aa_country = None\<rparr>
           | _ \<Rightarrow>
               Inr \<lparr>aa_domain = domain, aa_seps = [], aa_probesRun = [], aa_probesPassed = [], aa_tomlHash = '''',
                 aa_attestedLedger = (case ce_value ev of EvNumber n \<Rightarrow> n | _ \<Rightarrow> ce_ledger ev), aa_attester = '''',
                 aa_receiveAssets = None, aa_country = None\<rparr>))"

text \<open>An event of another domain is passed over; one whose topic does not decode is not.\<close>

definition of_other_domain :: "string \<Rightarrow> chain_attested \<Rightarrow> bool" where
  "of_other_domain domain ev =
     (length (ce_topic ev) > 1 \<and> (case ce_topic ev ! 1 of Some d \<Rightarrow> d \<noteq> domain | None \<Rightarrow> False))"

fun collect_events :: "string \<Rightarrow> chain_attested list \<Rightarrow> string + anchor_attestation list" where
  "collect_events domain [] = Inr []"
| "collect_events domain (ev # rest) =
     (if of_other_domain domain ev then collect_events domain rest
      else
        case decodeAttestationEvent ev of
          Inl m \<Rightarrow> Inl m
        | Inr a \<Rightarrow> (case collect_events domain rest of Inl m \<Rightarrow> Inl m | Inr as \<Rightarrow> Inr (a # as)))"

record anchor_history =
  ah_domain :: string
  ah_attestations :: "anchor_attestation list"
  ah_earliestLedgerCovered :: int
  ah_latestLedger :: int
  ah_oldestLedger :: int

definition readHistory :: "'e registry_server \<Rightarrow> string \<Rightarrow> int option \<Rightarrow> int option \<Rightarrow> ('e, string + anchor_history) port" where
  "readHistory s domain startLedger limit =
     port_then (case startLedger of
         Some l \<Rightarrow> port_value l
       | None \<Rightarrow> port_then (rs_latestLedger s) (\<lambda>l. port_value (max 1 (l - 17280)))) (\<lambda>start.
     port_then (rs_events s start domain limit) (\<lambda>page.
       case collect_events domain (ep_events page) of
         Inl m \<Rightarrow> (\<lambda>e. (Inl m, e))
       | Inr as \<Rightarrow>
           port_value \<lparr>ah_domain = domain, ah_attestations = sort_key aa_attestedLedger as,
             ah_earliestLedgerCovered = max start (ep_oldestLedger page), ah_latestLedger = ep_latestLedger page,
             ah_oldestLedger = ep_oldestLedger page\<rparr>))"

subsection \<open>Staleness\<close>

record staleness_record =
  sr_domainName :: string
  sr_ledgersOld :: "int option"
  sr_staleness :: "int option"
  sr_neverAttested :: bool

datatype stale_reason = Stale int | NeverAttested

record stale_domain =
  sd_domainName :: string
  sd_reason :: stale_reason
  sd_threshold :: int

definition MAX_STALENESS_LEDGERS :: int where
  "MAX_STALENESS_LEDGERS = 34560"

definition findStale :: "staleness_record list \<Rightarrow> int \<Rightarrow> stale_domain list" where
  "findStale records threshold =
     concat (map (\<lambda>r.
       let age = (case sr_ledgersOld r of Some n \<Rightarrow> Some n | None \<Rightarrow> sr_staleness r) in
       if sr_neverAttested r \<or> age = None then
         [\<lparr>sd_domainName = sr_domainName r, sd_reason = NeverAttested, sd_threshold = threshold\<rparr>]
       else if the age > threshold then
         [\<lparr>sd_domainName = sr_domainName r, sd_reason = Stale (the age), sd_threshold = threshold\<rparr>]
       else []) records)"

subsection \<open>What a filter keeps\<close>

definition wanted_by :: "attestation_filter \<Rightarrow> (string \<Rightarrow> int option) \<Rightarrow> anchor_attestation \<Rightarrow> bool" where
  "wanted_by f ages r \<longleftrightarrow>
     (\<forall>ns. af_sep f = Some ns \<longrightarrow> set ns \<subseteq> set (aa_seps r)) \<and>
     (\<forall>ps. af_passed f = Some ps \<longrightarrow> set ps \<subseteq> set (aa_probesPassed r)) \<and>
     (\<forall>m. af_maxAge f = Some m \<longrightarrow> (\<exists>age. ages (aa_domain r) = Some age \<and> age \<le> m)) \<and>
     (\<forall>c. af_country f = Some c \<longrightarrow> aa_country r = Some c) \<and>
     (\<forall>as. af_asset f = Some as \<longrightarrow> as = [] \<or> (\<exists>rec. aa_receiveAssets r = Some rec \<and> set as \<subseteq> set rec))"

lemma filter_keeps: "filterAttestations records ages f = filter (wanted_by f ages) records"
  unfolding filterAttestations_def
proof (rule filter_cong [OF refl])
  fix r :: anchor_attestation
  have assets: "(case af_asset f of Some (a # as) \<Rightarrow> (case aa_receiveAssets r of None \<Rightarrow> True
      | Some received \<Rightarrow> \<not> list_all (\<lambda>code. code \<in> set received) (a # as)) | _ \<Rightarrow> False) \<longleftrightarrow>
    \<not> (\<forall>as. af_asset f = Some as \<longrightarrow> as = [] \<or> (\<exists>rec. aa_receiveAssets r = Some rec \<and> set as \<subseteq> set rec))"
    by (auto simp: list_all_iff split: option.splits list.splits)
  show "(if (case af_sep f of Some ns \<Rightarrow> \<not> list_all (\<lambda>n. n \<in> set (aa_seps r)) ns | None \<Rightarrow> False) then False
       else if (case af_passed f of Some ps \<Rightarrow> \<not> list_all (\<lambda>p. p \<in> set (aa_probesPassed r)) ps | None \<Rightarrow> False) then False
       else if (case af_maxAge f of
                  Some m \<Rightarrow> (case ages (aa_domain r) of None \<Rightarrow> True | Some age \<Rightarrow> age > m)
                | None \<Rightarrow> False) then False
       else if af_country f \<noteq> None \<and> aa_country r \<noteq> af_country f then False
       else if (case af_asset f of
                  Some (a # as) \<Rightarrow>
                    (case aa_receiveAssets r of
                       None \<Rightarrow> True
                     | Some received \<Rightarrow> \<not> list_all (\<lambda>code. code \<in> set received) (a # as))
                | _ \<Rightarrow> False) then False
       else True) = wanted_by f ages r"
    unfolding assets wanted_by_def by (auto simp: list_all_iff not_less split: option.splits)
qed

lemma findStale_finds:
  "d \<in> set (findStale records threshold) \<longleftrightarrow> sd_threshold d = threshold \<and> (\<exists>r \<in> set records. sd_domainName d = sr_domainName r \<and>
     (let age = (if sr_ledgersOld r = None then sr_staleness r else sr_ledgersOld r) in
      if sr_neverAttested r \<or> age = None then sd_reason d = NeverAttested else the age > threshold \<and> sd_reason d = Stale (the age)))"
  by (cases d) (auto simp: findStale_def Let_def split: option.splits if_splits)

subsection \<open>Live anchors\<close>

text \<open>The answers of the contract at one ledger: what the server says does not depend on when it is asked.\<close>

definition answers_as :: "'e registry_server \<Rightarrow> string list \<Rightarrow> (string \<Rightarrow> protocol \<Rightarrow> bool) \<Rightarrow> (string \<Rightarrow> int) \<Rightarrow> bool" where
  "answers_as s ds ok age \<longleftrightarrow>
     (\<forall>e. fst (rs_domains s e) = Retval ds) \<and>
     (\<forall>d e. fst (rs_serves_sep31 s d e) = Retval (ok d Sep31Protocol) \<and> fst (rs_serves_sep6 s d e) = Retval (ok d Sep6Protocol) \<and>
        fst (rs_staleness s d e) = Retval (age d))"

lemma read_retval: "fst (p e) = Retval v \<Longrightarrow> fst (registry_read m p e) = Inr v"
  by (cases "p e") (simp add: registry_read_def)

lemma serves_answer: "answers_as s ds ok age \<Longrightarrow> fst (serves s d p e) = Inr (ok d p)"
  by (cases p) (simp_all add: answers_as_def serves_def servesSep31_def servesSep6_def read_retval)

lemma staleness_answer: "answers_as s ds ok age \<Longrightarrow> fst (registry_staleness s d e) = Inr (age d)"
  by (simp add: answers_as_def registry_staleness_def read_retval)

lemma live_loop_filters:
  assumes "answers_as s ds ok age"
  shows "\<exists>e'. live_loop s p limit ds' out e = (Inr (out @ filter (\<lambda>d. ok d p \<and> age d \<le> limit) ds'), e')"
proof (induction ds' arbitrary: out e)
  case (Cons d ds')
  obtain e1 where s: "serves s d p e = (Inr (ok d p), e1)" using serves_answer [OF assms, of d p e] by (cases "serves s d p e") auto
  obtain e2 where t: "registry_staleness s d e1 = (Inr (age d), e2)"
    using staleness_answer [OF assms, of d e1] by (cases "registry_staleness s d e1") auto
  show ?case
    using Cons.IH [of "if ok d p \<and> age d \<le> limit then out @ [d] else out" e2] by (auto simp: s t)
qed (simp add: port_value_def)

text \<open>
  The live anchors are the attested domains, in the order of the registry, that serve the protocol and
  whose attestation is no older than the limit, a week of ledgers unless told otherwise.
\<close>

theorem live_anchors_exact:
  assumes "answers_as s ds ok age"
  shows "\<exists>e'. liveAnchors s p limit e =
    (Inr (filter (\<lambda>d. ok d p \<and> age d \<le> (case limit of Some m \<Rightarrow> m | None \<Rightarrow> 7 * 24 * 60 * 60 div 5)) ds), e')"
proof -
  have "fst (registry_domains s e) = Inr ds" using assms by (simp add: registry_domains_def answers_as_def read_retval)
  then obtain e1 where "registry_domains s e = (Inr ds, e1)" by (cases "registry_domains s e") auto
  then show ?thesis
    using live_loop_filters [OF assms, of p "case limit of Some m \<Rightarrow> m | None \<Rightarrow> WEEK_LEDGERS" ds "[]" e1]
    by (cases limit) (simp_all add: liveAnchors_def port_then_def WEEK_LEDGERS_def)
qed

definition demo_registry_server :: "int registry_server" where
  "demo_registry_server = \<lparr>rs_domains = (\<lambda>e. (Retval [''a.com'', ''b.com''], e + 1)),
     rs_get_anchor = (\<lambda>d e. (ReadError ''HostError: Error(Contract, #6)'', e + 1)),
     rs_get_meta = (\<lambda>d e. (ReadError ''HostError: Error(Contract, #6)'', e + 1)),
     rs_receives_asset = (\<lambda>d a e. (Retval False, e + 1)),
     rs_serves_sep31 = (\<lambda>d e. (Retval (d = ''a.com''), e + 1)), rs_serves_sep6 = (\<lambda>d e. (Retval True, e + 1)),
     rs_staleness = (\<lambda>d e. (Retval 5, e + 1)), rs_latestLedger = (\<lambda>e. (Inr 100, e + 1)),
     rs_events = (\<lambda>start d limit e. (Inr \<lparr>ep_events = [], ep_latestLedger = 100, ep_oldestLedger = 1\<rparr>, e + 1))\<rparr>"

lemma live_anchors_exact_witness: "\<exists>e'. liveAnchors demo_registry_server Sep31Protocol None 0 = (Inr [''a.com''], e')"
  using live_anchors_exact [of demo_registry_server "[''a.com'', ''b.com'']"
      "\<lambda>d p. case p of Sep31Protocol \<Rightarrow> d = ''a.com'' | Sep6Protocol \<Rightarrow> True" "\<lambda>_. 5" Sep31Protocol None 0]
  by (simp add: answers_as_def demo_registry_server_def)

subsection \<open>Absence of metadata\<close>

text \<open>Only the contract's NotFound reads as no metadata; every other failure is passed on.\<close>

lemma meta_absent_iff: "fst (getMeta s domain e) = Inr None \<longleftrightarrow>
    (\<exists>m. fst (registry_read ''get_meta'' (rs_get_meta s domain) e) = Inl m \<and> contract_code m = Some 6)"
  by (auto simp: getMeta_def NOT_FOUND_def split: prod.splits sum.splits)

lemma demo_meta_absent: "fst (getMeta demo_registry_server ''a.com'' 0) = Inr None"
  by code_simp

subsection \<open>A history is ordered\<close>

lemma collect_events_all:
  "collect_events domain evs = Inr as \<Longrightarrow>
     length as = length (filter (\<lambda>ev. \<not> of_other_domain domain ev) evs) \<and>
     map Inr as = map decodeAttestationEvent (filter (\<lambda>ev. \<not> of_other_domain domain ev) evs)"
  by (induction evs arbitrary: as) (auto split: if_splits sum.splits)

lemma history_sorted:
  assumes "readHistory s domain startLedger limit e = (Inr h, e')"
  shows "sorted (map aa_attestedLedger (ah_attestations h)) \<and> ah_domain h = domain"
  using assms by (auto simp: readHistory_def port_then_def port_value_def split: prod.splits sum.splits option.splits)

subsection \<open>From a probe to a reader\<close>

text \<open>The record that the contract keeps of an attestation: the arguments of its call.\<close>

definition recorded :: "scval list \<Rightarrow> int \<Rightarrow> raw_record option" where
  "recorded args ledger_no =
     (case args of
        [ScAddress who, ScString d, ScU32 s, ScBytes h, ScU32 n, ScU32 p] \<Rightarrow>
          Some \<lparr>rr_domain = d, rr_seps = s, rr_toml_hash = h, rr_probes_run = n, rr_probes_passed = p,
            rr_attested_ledger = ledger_no, rr_attester = who\<rparr>
      | _ \<Rightarrow> None)"


lemma lower_hex_char:
  assumes "is_hex_char c" "lower_char c = c"
  shows "hex_value c < 16 \<and> hex_digit (hex_value c) = c"
proof (cases "is_digit c")
  case True
  then have "digit_val c < 10" "digit_char (digit_val c) = c" by (auto simp: is_digit_def digit_val_def digit_char_def Let_def)
  then show ?thesis using True by (simp add: hex_value_def)
next
  case False
  have n: "97 \<le> (of_char c :: nat)" "(of_char c :: nat) \<le> 102"
  proof -
    have "\<not> (65 \<le> (of_char c :: nat) \<and> (of_char c :: nat) \<le> 70)"
    proof
      assume up: "65 \<le> (of_char c :: nat) \<and> (of_char c :: nat) \<le> 70"
      then have "(of_char (lower_char c) :: nat) = of_char c + 32" by (simp add: lower_char_def Let_def)
      then show False using assms(2) by simp
    qed
    then show "97 \<le> (of_char c :: nat)" "(of_char c :: nat) \<le> 102"
      using assms(1) False by (auto simp: is_hex_char_def Let_def)
  qed
  have v: "hex_value c = of_char c - 87" using False assms(2) by (simp add: hex_value_def)
  have "\<not> hex_value c < 10" "hex_value c < 16" "87 + hex_value c = of_char c" using n unfolding v by linarith+
  then show ?thesis by simp
qed

lemma hex_roundtrip: "list_all is_hex_char h \<Longrightarrow> map lower_char h = h \<Longrightarrow> even (length h) \<Longrightarrow> to_hex (from_hex h) = h"
proof (induction h rule: from_hex.induct)
  case (1 x y rest)
  then have "hex_value x < 16 \<and> hex_digit (hex_value x) = x" "hex_value y < 16 \<and> hex_digit (hex_value y) = y"
    using lower_hex_char by auto
  then show ?case using 1 by (simp add: to_hex_def del: hex_digit.simps)
qed (auto simp: to_hex_def)

text \<open>
  C1: What an anchor was seen to do is what a reader of the registry is shown: when the contract keeps
  the arguments of the attestation of a probe, \<open>getAnchor\<close> lists the SEPs advertised, the probes tried and
  the probes passed as the probe's outcomes have them, and the hash of the stellar.toml that was read.
\<close>

theorem registry_shows_probe:
  assumes "probeAnchor env domain v = (Some r, v')" and "\<And>t. hex64 (pe_sha256 env t) \<and> to_lower (pe_sha256 env t) = pe_sha256 env t"
    and "recorded (attest_args a r) l = Some raw" and "rs_get_anchor s domain e = (Retval raw, e')"
  shows "\<exists>x. getAnchor s domain False e = (Inr x, e') \<and> aa_domain x = domain \<and> aa_attester x = at_publicKey a \<and>
    aa_seps x = decodeSeps (pr_seps r) \<and> aa_probesRun x = names_of (pr_outcomes r) \<and>
    aa_probesPassed x = names_of (filter po_passed (pr_outcomes r)) \<and>
    aa_tomlHash x = (case pr_toml r of Some toml \<Rightarrow> tomlHash (pe_sha256 env) toml | None \<Rightarrow> ZERO_HASH)"
proof -
  have honest: "honest_result env r" by (rule yieldsD [OF probe_yields_honest assms(1)])
  have domain: "pr_domain r = domain" using yieldsD [OF probed_country assms(1)] by simp
  have hash: "pr_tomlHash r = (case pr_toml r of Some toml \<Rightarrow> tomlHash (pe_sha256 env) toml | None \<Rightarrow> ZERO_HASH)"
    using honest by (auto simp: honest_result_def split: option.splits)
  have zero: "hex64 ZERO_HASH \<and> to_lower ZERO_HASH = ZERO_HASH" by code_simp
  then have "hex64 (pr_tomlHash r) \<and> to_lower (pr_tomlHash r) = pr_tomlHash r"
    using assms(2) by (auto simp: hash tomlHash_def split: option.splits)
  then have "to_hex (from_hex (pr_tomlHash r)) = pr_tomlHash r"
    by (intro hex_roundtrip) (simp_all add: hex64_def to_lower_def)
  moreover have "raw = \<lparr>rr_domain = pr_domain r, rr_seps = pr_seps r, rr_toml_hash = from_hex (pr_tomlHash r), rr_probes_run = pr_run r,
      rr_probes_passed = pr_passed r, rr_attested_ledger = l, rr_attester = at_publicKey a\<rparr>"
    using assms(3) by (simp add: recorded_def attest_args_def)
  ultimately show ?thesis
    using honest assms(4) domain hash
    by (auto simp: getAnchor_def port_then_def registry_read_def port_value_def Let_def honest_result_def decodeSeps_def decodeProbes_def)
qed


lemma registry_shows_probe_witness:
  "\<exists>r v' x. probeAnchor (demo_probe\<lparr>pe_sha256 := \<lambda>_. ZERO_HASH\<rparr>) ''10.0.0.1'' 0 = (Some r, v') \<and>
     getAnchor (demo_registry_server\<lparr>rs_get_anchor := \<lambda>d e.
       (Retval (the (recorded (attest_args (demo_attester TxPending) r) 9)), e)\<rparr>) ''10.0.0.1'' False 0 = (Inr x, 0) \<and>
     aa_domain x = ''10.0.0.1'' \<and> aa_probesRun x = names_of (pr_outcomes r)"
proof -
  let ?env = "demo_probe\<lparr>pe_sha256 := \<lambda>_. ZERO_HASH\<rparr>" and ?a = "demo_attester TxPending"
  obtain r v' where run: "probeAnchor ?env ''10.0.0.1'' 0 = (Some r, v')"
    using returnsD [OF returns_probeAnchor [of ?env "''10.0.0.1''"], of 0] by blast
  have hash: "hex64 ZERO_HASH \<and> to_lower ZERO_HASH = ZERO_HASH" by code_simp
  have "recorded (attest_args ?a r) 9 = Some (the (recorded (attest_args ?a r) 9))" by (simp add: recorded_def attest_args_def)
  from registry_shows_probe [OF run _ this, of "demo_registry_server\<lparr>rs_get_anchor := \<lambda>d e. (Retval (the (recorded (attest_args ?a r) 9)), e)\<rparr>" 0 0]
  show ?thesis using run hash by auto
qed

text \<open>
  A topic that does not decode is caught by the filter of \<open>history\<close> and then decoded again, outside the
  \<open>try\<close>: the whole history is lost.
\<close>

lemma undecodable_topic_loses_history:
  "collect_events ''a.com''
     [\<lparr>ce_topic = [Some ''attested'', None], ce_value = EvNumber 7, ce_ledger = 7\<rparr>,
      \<lparr>ce_topic = [Some ''attested'', Some ''a.com''], ce_value = EvNumber 8, ce_ledger = 8\<rparr>] = throw_decode"
  by code_simp

end
