(* ===== verification/PlanRegistry.thy ===== *)
theory PlanRegistry
  imports Plan Registry Router
begin

section \<open>The plan beside the registry (packages/cli/src/plan-registry.ts)\<close>

text \<open>
  \<open>corridor plan --registry\<close> reads what the chain says about the receiving anchor and compares it with
  the claim of the manifest. The source of the reads is a record of ports, which the registry client
  fills; hours are rendered by a parameter, as \<open>toFixed\<close> rounds binary fractions.
\<close>

subsection \<open>The registry's view\<close>

record 'e registry_source =
  rc_getAnchor :: "string \<Rightarrow> ('e, string + anchor_attestation) port"
  rc_serves :: "string \<Rightarrow> attested_protocol \<Rightarrow> ('e, string + bool) port"
  rc_staleness :: "string \<Rightarrow> ('e, string + int) port"

definition protocol_of :: "attested_protocol \<Rightarrow> protocol" where
  "protocol_of p = (case p of ASep31 \<Rightarrow> Sep31Protocol | ASep6 \<Rightarrow> Sep6Protocol)"

text \<open>An \<open>AnchorRegistry\<close> satisfies the interface as it is.\<close>

definition anchor_registry :: "'e registry_server \<Rightarrow> 'e registry_source" where
  "anchor_registry s =
     \<lparr>rc_getAnchor = (\<lambda>d. getAnchor s d False), rc_serves = (\<lambda>d p. serves s d (protocol_of p)),
      rc_staleness = registry_staleness s\<rparr>"

record attested_view =
  rv_seps :: "int list"
  rv_attestedLedger :: int
  rv_staleness :: int
  rv_servesSep31 :: bool
  rv_servesSep6 :: "bool option"

datatype registry_view = NotAttested string | AttestedView string attested_view

fun view_domain :: "registry_view \<Rightarrow> string" where
  "view_domain (NotAttested d) = d"
| "view_domain (AttestedView d v) = d"

record manifest_claim =
  mc_verified :: bool
  mc_protocol :: string

datatype agreement =
  Agree | VerifiedNotServing | ServingUnverified | NeverOnChain | StaleOnChain | NotAttestable

record comparison =
  cm_agreement :: agreement
  cm_protocol :: "attested_protocol option"
  cm_maxStaleness :: int

definition fetchRegistryView :: "'e registry_source \<Rightarrow> string \<Rightarrow> string \<Rightarrow> ('e, string + registry_view) port" where
  "fetchRegistryView src domain protocol e =
     (case rc_getAnchor src domain e of
        (Inl m, e') \<Rightarrow> (if contract_code m = Some NOT_FOUND then Inr (NotAttested domain) else Inl m, e')
      | (Inr anchor, e') \<Rightarrow>
          (let (a, e1) = rc_serves src domain ASep31 e';
               (b, e2) = (if protocol = ''sep6''
                          then (case rc_serves src domain ASep6 e1 of (r, e2) \<Rightarrow> (map_sum id Some r, e2))
                          else (Inr None, e1));
               (d, e3) = rc_staleness src domain e2
           in (case a of
                 Inl m \<Rightarrow> Inl m
               | Inr s31 \<Rightarrow>
                   (case b of
                      Inl m \<Rightarrow> Inl m
                    | Inr s6 \<Rightarrow>
                        (case d of
                           Inl m \<Rightarrow> Inl m
                         | Inr staleness \<Rightarrow>
                             Inr (AttestedView domain
                               \<lparr>rv_seps = aa_seps anchor, rv_attestedLedger = aa_attestedLedger anchor,
                                rv_staleness = staleness, rv_servesSep31 = s31, rv_servesSep6 = s6\<rparr>))), e3)))"

definition compareWithRegistry :: "manifest_claim \<Rightarrow> registry_view \<Rightarrow> int \<Rightarrow> comparison" where
  "compareWithRegistry manifest view limit =
     (case isAttestedProtocol (mc_protocol manifest) of
        None \<Rightarrow> \<lparr>cm_agreement = NotAttestable, cm_protocol = None, cm_maxStaleness = limit\<rparr>
      | Some p \<Rightarrow>
          (let answer = (\<lambda>a. \<lparr>cm_agreement = a, cm_protocol = Some p, cm_maxStaleness = limit\<rparr>) in
           case view of
             NotAttested d \<Rightarrow> answer NeverOnChain
           | AttestedView d v \<Rightarrow>
               if rv_staleness v > limit then answer StaleOnChain
               else
                 let served = (case p of ASep31 \<Rightarrow> rv_servesSep31 v | ASep6 \<Rightarrow> rv_servesSep6 v = Some True) in
                 if mc_verified manifest \<and> \<not> served then answer VerifiedNotServing
                 else if \<not> mc_verified manifest \<and> served then answer ServingUnverified
                 else answer Agree))"

subsection \<open>The report\<close>

definition agreementLine :: "(int \<Rightarrow> string) \<Rightarrow> manifest_claim \<Rightarrow> comparison \<Rightarrow> string" where
  "agreementLine ledgersToHours manifest cmp =
     (let p = (case cm_protocol cmp of Some q \<Rightarrow> protocolLabel q | None \<Rightarrow> mc_protocol manifest);
          claim = (if mc_verified manifest then ''VERIFIED'' else ''not VERIFIED'')
      in case cm_agreement cmp of
           Agree \<Rightarrow>
             if mc_verified manifest then
               tick @ '' agree '' @ dash @ '' manifest is VERIFIED and the registry attests '' @ p
             else tick @ '' agree '' @ dash @ '' manifest is not VERIFIED and the registry does not attest '' @ p
         | VerifiedNotServing \<Rightarrow>
             cross_mark @ '' DISAGREE '' @ dash @ '' manifest is VERIFIED but the registry says the anchor does not serve '' @ p
         | ServingUnverified \<Rightarrow>
             ''? differ '' @ dash @ '' the registry attests '' @ p @ '' but the manifest is not VERIFIED''
         | NeverOnChain \<Rightarrow>
             ''? cannot confirm '' @ dash @ '' manifest is '' @ claim @ ''; the registry has never attested this anchor''
         | StaleOnChain \<Rightarrow>
             ''? cannot confirm '' @ dash @ '' manifest is '' @ claim @ ''; the attestation is older than '' @
             show_int (cm_maxStaleness cmp) @ '' ledgers (~'' @ ledgersToHours (cm_maxStaleness cmp) @ ''h)''
         | NotAttestable \<Rightarrow>
             ''- not comparable '' @ dash @ '' the registry attests SEP-31 and SEP-6 only, this corridor is '' @
             mc_protocol manifest)"

record registry_check =
  rk_network :: network_t
  rk_contractId :: string
  rk_view :: registry_view
  rk_manifest :: manifest_claim
  rk_comparison :: comparison

definition yes_no :: "bool \<Rightarrow> string" where
  "yes_no b = (if b then ''yes'' else ''no'')"

definition formatRegistryCheck :: "(int \<Rightarrow> string) \<Rightarrow> registry_check \<Rightarrow> string" where
  "formatRegistryCheck ledgersToHours k =
     join newline
       ([''registry: '' @ rk_contractId k @ '' on '' @ net_name (rk_network k) @
          '' (informational, not the settle gate)'',
         ''  anchor:        '' @ view_domain (rk_view k)] @
        (case rk_view k of
           NotAttested _ \<Rightarrow> [''  attested:      never attested'']
         | AttestedView _ v \<Rightarrow>
             [''  attested:      ledger '' @ show_int (rv_attestedLedger v) @ '' ('' @ show_int (rv_staleness v) @
                '' ledgers ago, ~'' @ ledgersToHours (rv_staleness v) @ ''h)'',
              ''  serves SEP-31: '' @ yes_no (rv_servesSep31 v)] @
             (case rv_servesSep6 v of None \<Rightarrow> [] | Some b \<Rightarrow> [''  serves SEP-6:  '' @ yes_no b]) @
             [let seps = join '', '' (map (\<lambda>n. ''SEP-'' @ show_int n) (rv_seps v)) in
              ''  advertises:    '' @ (if seps = '''' then ''none'' else seps)]) @
        [''  manifest:      '' @ agreementLine ledgersToHours (rk_manifest k) (rk_comparison k)])"

subsection \<open>The whole check\<close>

record deployment_config =
  dc_networkPassphrase :: "string option"
  dc_rpcUrl :: "string option"
  dc_registry :: "string option"

text \<open>
  The environment variables, the committed deployments, and \<open>new AnchorRegistry\<close>, which may throw. The
  passphrases of the two networks are constants of the SDK.
\<close>

record 'e check_env =
  ke_registryId :: "string option"
  ke_rpcUrl :: "string option"
  ke_deployments :: "network_t \<Rightarrow> deployment_config option"
  ke_passphrase :: "network_t \<Rightarrow> string"
  ke_connect :: "string \<Rightarrow> string \<Rightarrow> string \<Rightarrow> string + 'e registry_source"
  ke_source :: "'e registry_source option"

definition check_contract :: "'e check_env \<Rightarrow> network_t \<Rightarrow> string option" where
  "check_contract env n = or_str (ke_registryId env) (Option.bind (ke_deployments env n) dc_registry)"

definition check_source :: "'e check_env \<Rightarrow> network_t \<Rightarrow> string \<Rightarrow> string + 'e registry_source" where
  "check_source env n contractId =
     (case ke_source env of
        Some s \<Rightarrow> Inr s
      | None \<Rightarrow>
          ke_connect env
            (let given = or_str (ke_rpcUrl env) (Option.bind (ke_deployments env n) dc_rpcUrl) in
             if truthy given then the given else ''https://soroban-testnet.stellar.org'')
            contractId
            (case Option.bind (ke_deployments env n) dc_networkPassphrase of Some p \<Rightarrow> p | None \<Rightarrow> ke_passphrase env n))"

definition first_line :: "string \<Rightarrow> string" where
  "first_line m = takeWhile (\<lambda>c. c \<noteq> CHR 0x0A) m"

definition runRegistryCheck ::
  "'e check_env \<Rightarrow> (string \<Rightarrow> ms) \<Rightarrow> corridor \<Rightarrow> int \<Rightarrow> network_t \<Rightarrow> ('e, string + registry_check) port" where
  "runRegistryCheck env parse c now n e =
     (case check_contract env n of
        None \<Rightarrow> (Inl (''no registry deployed on '' @ net_name n @ '' (see contracts/deployments.json)''), e)
      | Some contractId \<Rightarrow>
          if contractId = '''' then
            (Inl (''no registry deployed on '' @ net_name n @ '' (see contracts/deployments.json)''), e)
          else
            let manifest = \<lparr>mc_verified = lv_runnable (liveness parse c now), mc_protocol = protocol_name (d_protocol (c_dest c))\<rparr>
            in case (case check_source env n contractId of
                       Inl m \<Rightarrow> (Inl m, e)
                     | Inr src \<Rightarrow> fetchRegistryView src (home_domain (d_endpoints (c_dest c))) (mc_protocol manifest) e) of
                 (Inl m, e') \<Rightarrow> (Inl (''registry check failed: '' @ first_line m), e')
               | (Inr view, e') \<Rightarrow>
                   (Inr \<lparr>rk_network = n, rk_contractId = contractId, rk_view = view, rk_manifest = manifest,
                         rk_comparison = compareWithRegistry manifest view WEEK_OF_LEDGERS\<rparr>, e'))"

subsection \<open>What the check shows\<close>

text \<open>Reads of a ledger that does not move between them.\<close>

definition still_reads :: "'e registry_source \<Rightarrow> string \<Rightarrow> (attested_protocol \<Rightarrow> bool) \<Rightarrow> int \<Rightarrow> bool" where
  "still_reads src d sv age \<longleftrightarrow>
     (\<forall>p e. rc_serves src d p e = (Inr (sv p), e)) \<and> (\<forall>e. rc_staleness src d e = (Inr age, e))"

lemma fetch_still:
  assumes "still_reads src d sv age" and "rc_getAnchor src d e = (Inr a, e')"
  shows "fetchRegistryView src d protocol e =
    (Inr (AttestedView d \<lparr>rv_seps = aa_seps a, rv_attestedLedger = aa_attestedLedger a, rv_staleness = age,
       rv_servesSep31 = sv ASep31, rv_servesSep6 = (if protocol = ''sep6'' then Some (sv ASep6) else None)\<rparr>), e')"
  using assms by (simp add: fetchRegistryView_def still_reads_def)

lemma compare_still:
  "cm_agreement (compareWithRegistry \<lparr>mc_verified = True, mc_protocol = attested_name p\<rparr>
     (AttestedView d \<lparr>rv_seps = s, rv_attestedLedger = l, rv_staleness = age, rv_servesSep31 = sv ASep31,
        rv_servesSep6 = (if attested_name p = ''sep6'' then Some (sv ASep6) else None)\<rparr>) limit) = Agree
   \<longleftrightarrow> sv p \<and> age \<le> limit"
  by (cases p) (auto simp: compareWithRegistry_def attested_name_def isAttestedProtocol_def Let_def)

text \<open>The resolver's reads of the same registry.\<close>

definition gate_source :: "'e registry_source \<Rightarrow> (string \<Rightarrow> ('e, string + string) port) \<Rightarrow> 'e attestation_source" where
  "gate_source src hash = \<lparr>as_serves = rc_serves src, as_staleness = rc_staleness src, as_tomlHash = hash\<rparr>"

lemma resolver_still:
  assumes "still_reads src d sv age" and "d = home_domain (d_endpoints (c_dest c))"
    and "protocol_name (d_protocol (c_dest c)) = attested_name p" and "d \<notin> set allow"
  shows "fst (registry_resolve (new_registry_resolver (Aware (gate_source src hash)) adapter None (Some allow)) c e) =
    with_adapter (new_registry_resolver (Aware (gate_source src hash)) adapter None (Some allow)) c
    \<longleftrightarrow> (sv p \<and> age \<le> WEEK_OF_LEDGERS)"
proof -
  have "isAttestedProtocol (attested_name p) = Some p" by (cases p) (simp_all add: attested_name_def isAttestedProtocol_def)
  then show ?thesis
    using assms
    by (auto simp: registry_resolve_def Let_def read_both_def gate_source_def still_reads_def new_registry_resolver_def
        asAttestationSource_def isUnattestedDomainAllowed_def with_adapter_def split: sum.splits)
qed

subsection \<open>Properties\<close>


definition demo_reads :: "nat registry_source" where
  "demo_reads =
     \<lparr>rc_getAnchor = (\<lambda>d e. (Inr \<lparr>aa_domain = d, aa_seps = [31], aa_probesRun = [], aa_probesPassed = [], aa_tomlHash = ''h'',
         aa_attestedLedger = 7, aa_attester = ''G'', aa_receiveAssets = None, aa_country = None\<rparr>, e)),
      rc_serves = (\<lambda>_ p e. (Inr (p = ASep31), e)), rc_staleness = (\<lambda>_ e. (Inr 12, e))\<rparr>"

definition demo_check :: "nat check_env" where
  "demo_check = \<lparr>ke_registryId = Some ''C'', ke_rpcUrl = None, ke_deployments = (\<lambda>_. None), ke_passphrase = (\<lambda>_. ''p''),
     ke_connect = (\<lambda>_ _ _. Inl ''offline''), ke_source = Some demo_reads\<rparr>"

definition demo_lane :: corridor where
  "demo_lane = demo_corridor\<lparr>c_dest := (c_dest demo_corridor)\<lparr>d_endpoints := demo_endpoints\<lparr>endpoints_verified_at := Some ''2026-08-08''\<rparr>\<rparr>\<rparr>"


lemma view_only_if_missing:
  "fetchRegistryView src d protocol e = (Inr (NotAttested d'), e') \<Longrightarrow>
   \<exists>m. rc_getAnchor src d e = (Inl m, e') \<and> contract_code m = Some NOT_FOUND"
  by (auto simp: fetchRegistryView_def Let_def split: prod.splits sum.splits if_splits)

text \<open>
  An outage is never reported as an absence: the check says that an anchor was never attested only when
  the contract itself answered that it has no record of it, and a failure of any read is a warning.
\<close>

theorem outage_is_not_absence:
  assumes "runRegistryCheck env parse c now n e = (Inr k, e')" and "rk_view k = NotAttested d"
  shows "\<exists>src m. check_source env n (rk_contractId k) = Inr src \<and>
    rc_getAnchor src (home_domain (d_endpoints (c_dest c))) e = (Inl m, e') \<and> contract_code m = Some NOT_FOUND"
  using assms
  by (auto simp: runRegistryCheck_def Let_def split: option.splits if_splits prod.splits sum.splits dest!: view_only_if_missing)

end
