(* ===== verification/Wire.thy ===== *)
theory Wire
  imports PlanRegistry ChainChecks Silence
begin

section \<open>Wiring a corridor to the real stack (packages/cli/src/wire.ts)\<close>

text \<open>
  The command line builds its engine from the manifest and the environment: which domains need no
  attestation, which registry is read, the gate, the submitter. The adapters, the signer and the
  submitter are what their constructors give, a record of ports here; environment variables are fields
  of a record, an unset one \<open>None\<close>. Everything the commands print is left out.
\<close>

definition EXIT_OK :: int where "EXIT_OK = 0"
definition EXIT_MISSING_ENV :: int where "EXIT_MISSING_ENV = 2"
definition EXIT_REFUSED :: int where "EXIT_REFUSED = 3"
definition EXIT_STACK_UNFIT :: int where "EXIT_STACK_UNFIT = 4"
definition EXIT_NOT_COMPLETED :: int where "EXIT_NOT_COMPLETED = 5"

definition DEFAULT_CANARY_MAX_AMOUNT :: string where
  "DEFAULT_CANARY_MAX_AMOUNT = ''10.00''"

subsection \<open>Environment and constructors\<close>

record 'o stack =
  sk_publicKey :: string
  sk_adapterFor :: "corridor \<Rightarrow> string + 'o adapter"
  sk_register :: "(string \<times> string) list \<Rightarrow> string \<Rightarrow> ('o, string outcome) port"
  sk_balance :: "'o gate_check"
  sk_sep31Checks :: "'o gate_check list"
  sk_submitter :: "'o submitter"

text \<open>
  \<open>we_doctor\<close> runs the preflight script: what went wrong, or its exit status, none for a signal.
  \<open>we_fetch\<close> rejects with \<open>String(e)\<close>. \<open>we_stack\<close> are the constructors, which may throw, for a secret and
  a Horizon URL; \<open>we_connect\<close> is \<open>new AnchorRegistry\<close>. The variable \<open>settlement\<close> that the wrapped
  submitter assigns is a cell of the outside world, written by \<open>we_capture\<close>.
\<close>

record 'o wire_env =
  we_signerSecret :: "string option"
  we_horizonUrl :: "string option"
  we_referenceAnchor :: "string option"
  we_skipDoctor :: bool
  we_senderId :: "string option"
  we_recipientId :: "string option"
  we_key :: "string option"
  we_rpcUrl :: "string option"
  we_registryId :: "string option"
  we_passphrase :: "string option"
  we_allowUnattested :: "string option"
  we_deployments :: "network_t \<Rightarrow> deployment_config option"
  we_sdkPassphrase :: "network_t \<Rightarrow> string"
  we_script :: string
  we_doctor :: "('o, string + int option) port"
  we_fetch :: "string \<Rightarrow> ('o, string + response) port"
  we_unreadable :: "response \<Rightarrow> string"
  we_url :: "string \<Rightarrow> (string \<times> string) option"
  we_stack :: "corridor \<Rightarrow> string \<Rightarrow> string \<Rightarrow> 'o stack option"
  we_connect :: "string \<Rightarrow> string \<Rightarrow> string \<Rightarrow> 'o attestation_source option"
  we_now :: "('o, int) port"
  we_sleep :: "int \<Rightarrow> 'o \<Rightarrow> 'o"
  we_parseDate :: "string \<Rightarrow> ms"
  we_hashCorridor :: "corridor \<Rightarrow> string"
  we_capture :: "settlement_request \<Rightarrow> 'o \<Rightarrow> 'o"
  we_captured :: "'o \<Rightarrow> settlement_request option"

subsection \<open>The preflight\<close>

datatype doctor_answer = DoctorOk | DoctorNotRun string | DoctorExit int

definition preflightDoctor :: "'o wire_env \<Rightarrow> bool option \<Rightarrow> ('o, doctor_answer) port" where
  "preflightDoctor env skip e =
     (if (case skip of Some b \<Rightarrow> b | None \<Rightarrow> we_skipDoctor env) then (DoctorOk, e)
      else case we_doctor env e of
        (Inl m, e') \<Rightarrow> (DoctorNotRun (''could not run '' @ we_script env @ '': '' @ m), e')
      | (Inr status, e') \<Rightarrow>
          (if status \<noteq> Some 0 then DoctorExit (case status of Some n \<Rightarrow> n | None \<Rightarrow> 1) else DoctorOk, e'))"

definition stripTrailingSlashes :: "string \<Rightarrow> string" where
  "stripTrailingSlashes url = rev (dropWhile (\<lambda>c. c = CHR ''/'') (rev url))"

definition ends_with :: "string \<Rightarrow> string \<Rightarrow> bool" where
  "ends_with tail s = starts_with (rev tail) (rev s)"

definition stripSuffix :: "string \<Rightarrow> string \<Rightarrow> string" where
  "stripSuffix s tail = (if ends_with tail s then take (length s - length tail) s else s)"

datatype quotable = Quotable | NotQuotable bool string

definition quote_base :: "corridor \<Rightarrow> string option \<Rightarrow> string option" where
  "quote_base c anchorUrl =
     (let e = d_endpoints (c_dest c) in
      coalesce anchorUrl
        (coalesce (quote_server e)
          (if truthy (transfer_server_sep31 e)
           then Some (stripSuffix (stripTrailingSlashes (the (transfer_server_sep31 e))) ''/sep31'') else None)))"

text \<open>\<open>a.asset ?? ""\<close> of each entry; reading a property of null throws.\<close>

fun asset_names :: "json list \<Rightarrow> json list option" where
  "asset_names [] = Some []"
| "asset_names (a # as) =
     (if a = JNull then None
      else map_option ((#) (case prop_opt (Some a) ''asset'' of Some v \<Rightarrow> if v = JNull then JStr '''' else v | None \<Rightarrow> JStr ''''))
             (asset_names as))"

definition json_text :: "json \<Rightarrow> string option" where
  "json_text v = (case v of JStr s \<Rightarrow> Some s | _ \<Rightarrow> None)"

text \<open>What the listing of /info says of the wanted asset; \<open>None\<close> is a thrown \<open>TypeError\<close>.\<close>

definition quotable_verdict :: "string \<Rightarrow> string \<Rightarrow> string \<Rightarrow> json option \<Rightarrow> quotable option" where
  "quotable_verdict base code want body =
     (case (case body of Some JNull \<Rightarrow> None | b \<Rightarrow>
              (case prop_opt b ''assets'' of
                 None \<Rightarrow> Some [] | Some JNull \<Rightarrow> Some [] | Some (JArr xs) \<Rightarrow> asset_names xs | _ \<Rightarrow> None)) of
        None \<Rightarrow> None
      | Some assets \<Rightarrow>
          if JStr want \<in> set assets then Some Quotable
          else if list_ex (\<lambda>a. json_text a = None) assets then None
          else
            let names = map (\<lambda>a. the (json_text a)) assets;
                sameCode = filter (starts_with (''stellar:'' @ code @ '':'')) names;
                detail = (if sameCode \<noteq> [] then
                            ''It quotes: '' @ join '', '' sameCode @ ''. Set settlement.asset_issuer in manifest to one of those issuers.''
                          else ''It quotes no '' @ code @ '' at all. Available: '' @
                            (if join '', '' names = '''' then ''(none)'' else join '', '' names))
            in Some (NotQuotable True (base @ '' does not quote '' @ want @ ''.'' @ newline @ ''  '' @ detail)))"

definition assertAssetQuotable :: "'o wire_env \<Rightarrow> corridor \<Rightarrow> string option \<Rightarrow> ('o, quotable option) port" where
  "assertAssetQuotable env c anchorUrl e =
     (let issuer = asset_issuer (c_settlement c); code = bridge_asset (c_settlement c);
          want = ''stellar:'' @ code @ '':'' @ issuer; quoteServer = quote_base c anchorUrl
      in if issuer = '''' then (Some Quotable, e)
         else if \<not> truthy quoteServer \<and> fx_quote_source (c_fx c) \<noteq> QSep38 then (Some Quotable, e)
         else
           let base = stripTrailingSlashes (case quoteServer of Some s \<Rightarrow> s | None \<Rightarrow> ''http://localhost:8080'');
               infoUrl = (if ends_with ''/sep38'' base then base @ ''/info'' else base @ ''/sep38/info'')
           in case we_fetch env infoUrl e of
                (Inl m, e') \<Rightarrow> (Some (NotQuotable False (''could not read '' @ infoUrl @ '': '' @ m)), e')
              | (Inr res, e') \<Rightarrow>
                  if \<not> res_ok res then
                    (Some (NotQuotable False (''HTTP '' @ show_int (rs_status res) @ '' from '' @ infoUrl)), e')
                  else (case rs_json res of
                          None \<Rightarrow> (Some (NotQuotable False (''could not read '' @ infoUrl @ '': '' @ we_unreadable env res)), e')
                        | Some body \<Rightarrow> (quotable_verdict base code want (Some body), e')))"

definition strip_scheme :: "string \<Rightarrow> string" where
  "strip_scheme s =
     (if starts_with ''http://'' s then drop 7 s else if starts_with ''https://'' s then drop 8 s else s)"

definition pinToReferenceAnchor :: "'o wire_env \<Rightarrow> corridor \<Rightarrow> string option \<Rightarrow> corridor" where
  "pinToReferenceAnchor env c anchorUrl =
     (let anchor = stripTrailingSlashes
            (case coalesce anchorUrl (we_referenceAnchor env) of Some u \<Rightarrow> u | None \<Rightarrow> ''http://localhost:8080'')
      in c\<lparr>c_dest := (c_dest c)\<lparr>d_protocol := Sep31,
             d_endpoints := (d_endpoints (c_dest c))\<lparr>home_domain := strip_scheme anchor,
               transfer_server_sep31 := Some (anchor @ ''/sep31''), web_auth := Some (anchor @ ''/auth''),
               kyc_server := Some (anchor @ ''/sep12''), quote_server := Some (anchor @ ''/sep38'')\<rparr>\<rparr>\<rparr>)"

subsection \<open>The gate and the resolver\<close>

definition createDefaultGate :: "'o gate_check \<Rightarrow> 'o gate_check list \<Rightarrow> gate_ctx \<Rightarrow> ('o, gate_result) port" where
  "createDefaultGate balance extra = compositeGate (balance # extra) None"

record resolver_wiring =
  rw_network :: "network_t option"
  rw_rpcUrl :: "string option"
  rw_contractId :: "string option"
  rw_networkPassphrase :: "string option"
  rw_allow :: "string list option"
  rw_maxStaleness :: "int option"

definition wired_contract :: "'o wire_env \<Rightarrow> network_t \<Rightarrow> resolver_wiring \<Rightarrow> string option" where
  "wired_contract env n o' =
     coalesce (rw_contractId o') (coalesce (we_registryId env) (Option.bind (we_deployments env n) dc_registry))"

definition wired_rpc :: "'o wire_env \<Rightarrow> network_t \<Rightarrow> resolver_wiring \<Rightarrow> string" where
  "wired_rpc env n o' =
     (case coalesce (rw_rpcUrl o') (coalesce (we_rpcUrl env) (Option.bind (we_deployments env n) dc_rpcUrl)) of
        Some u \<Rightarrow> u | None \<Rightarrow> ''https://soroban-testnet.stellar.org'')"

definition wired_passphrase :: "'o wire_env \<Rightarrow> network_t \<Rightarrow> resolver_wiring \<Rightarrow> string" where
  "wired_passphrase env n o' =
     (case coalesce (rw_networkPassphrase o') (coalesce (we_passphrase env) (Option.bind (we_deployments env n) dc_networkPassphrase)) of
        Some p \<Rightarrow> p | None \<Rightarrow> we_sdkPassphrase env n)"

definition no_registry :: "network_t \<Rightarrow> 'o attestation_source" where
  "no_registry n =
     \<lparr>as_serves = (\<lambda>_ _ e. (Inl (''no registry deployed on '' @ net_name n @
        '' (see contracts/deployments.json or set REGISTRY_CONTRACT_ID)''), e)),
      as_staleness = (\<lambda>_ e. (Inl (''no registry deployed on '' @ net_name n), e)),
      as_tomlHash = (\<lambda>_ e. (Inl (''no registry deployed on '' @ net_name n), e))\<rparr>"

definition attestation_source_for :: "'o wire_env \<Rightarrow> network_t \<Rightarrow> resolver_wiring \<Rightarrow> 'o attestation_source option" where
  "attestation_source_for env n o' =
     (if truthy (wired_contract env n o')
      then we_connect env (wired_rpc env n o') (the (wired_contract env n o')) (wired_passphrase env n o')
      else Some (no_registry n))"

text \<open>\<open>process.env.ALLOW_UNATTESTED_DOMAINS\<close>, split, trimmed, without the empty ones.\<close>

definition env_unattested :: "string option \<Rightarrow> string list" where
  "env_unattested v =
     (if truthy v then filter (\<lambda>s. s \<noteq> '''') (map js_trim (split_on (CHR '','') (the v))) else [])"

text \<open>The host names of the reference anchor; an address \<open>URL\<close> rejects is cut by hand.\<close>

definition reference_hosts :: "(string \<Rightarrow> (string \<times> string) option) \<Rightarrow> string option \<Rightarrow> string list" where
  "reference_hosts url ref =
     (if truthy ref then
        (case url (the ref) of
           Some (host, hostname) \<Rightarrow> [host, hostname]
         | None \<Rightarrow> [takeWhile (\<lambda>c. c \<noteq> CHR ''/'') (strip_scheme (the ref))])
      else [])"

definition LOCAL_DOMAINS :: "string list" where
  "LOCAL_DOMAINS = [''localhost'', ''localhost:8080'', ''127.0.0.1'', ''127.0.0.1:8080'']"

definition allowed_domains :: "'o wire_env \<Rightarrow> resolver_wiring \<Rightarrow> string list" where
  "allowed_domains env o' =
     rev (remdups (rev (LOCAL_DOMAINS @ reference_hosts (we_url env) (we_referenceAnchor env) @
       env_unattested (we_allowUnattested env) @ (case rw_allow o' of Some xs \<Rightarrow> xs | None \<Rightarrow> []))))"

definition createRegistryRouteResolver ::
  "'o wire_env \<Rightarrow> corridor \<Rightarrow> resolver_wiring \<Rightarrow> (corridor \<Rightarrow> string + 'o adapter) \<Rightarrow> 'o registry_resolver option" where
  "createRegistryRouteResolver env c o' mk_adapter =
     (let n = (case rw_network o' of Some m \<Rightarrow> m | None \<Rightarrow> network (c_settlement c)) in
      map_option (\<lambda>src. new_registry_resolver (Aware src) mk_adapter (rw_maxStaleness o') (Some (allowed_domains env o')))
        (attestation_source_for env n o'))"

subsection \<open>Customers\<close>

definition sample_customer :: "string \<Rightarrow> (string \<times> string) list" where
  "sample_customer role =
     [(''first_name'', ''Alice''), (''last_name'', ''Example''), (''email_address'', role @ ''@example.com''),
      (''bank_account_number'', ''12345678901234''), (''bank_number'', ''021000021''),
      (''bank_account_type'', ''checking''), (''clabe_number'', ''032180000118359719'')]"

definition registerSep12Customer :: "'o stack \<Rightarrow> string \<Rightarrow> string \<Rightarrow> ('o, string outcome) port" where
  "registerSep12Customer sk role type' = sk_register sk (sample_customer role) type'"

subsection \<open>The dependencies of the engine\<close>

record wire_options =
  wo_signerSecret :: "string option"
  wo_horizonUrl :: "string option"
  wo_rpcUrl :: "string option"
  wo_contractId :: "string option"
  wo_allow :: "string list option"
  wo_stallThreshold :: "int option"
  wo_reconcilePollMs :: "int option"

record 'o wired =
  wd_deps :: "'o engine_deps"
  wd_stack :: "'o stack"
  wd_horizonUrl :: string

definition always_port :: "('o, 'a) port \<Rightarrow> ('o, string + 'a) port" where
  "always_port p e = (case p e of (a, e') \<Rightarrow> (Inr a, e'))"

definition wire_horizon :: "'o wire_env \<Rightarrow> corridor \<Rightarrow> wire_options \<Rightarrow> string" where
  "wire_horizon env c o' =
     (case coalesce (wo_horizonUrl o') (we_horizonUrl env) of
        Some u \<Rightarrow> u
      | None \<Rightarrow> if network (c_settlement c) = PublicNet then ''https://horizon.stellar.org''
                else ''https://horizon-testnet.stellar.org'')"

definition wire_deps :: "'o wire_env \<Rightarrow> wire_options \<Rightarrow> 'o stack \<Rightarrow> 'o registry_resolver \<Rightarrow> 'o engine_deps" where
  "wire_deps env o' sk resolver =
     \<lparr>d_resolve = resolver_port (registry_resolve resolver), d_submitter = sk_submitter sk,
      d_gate = Some (\<lambda>ctx. always_port (createDefaultGate (sk_balance sk) (sk_sep31Checks sk) ctx)),
      d_chainVerifier = None, d_strategies = None, d_waker = None, d_now = we_now env, d_hostNow = we_now env,
      d_sleep = we_sleep env, d_reconcilePollMs = wo_reconcilePollMs o', d_stallThreshold = wo_stallThreshold o',
      d_audit = Some (\<lambda>_ e. (True, e)), d_auditDetail = Some (\<lambda>_ e. (True, e)), d_alerting = None,
      d_unprovenMaxAmount = None, d_health = False, d_trustManifest = True, d_externalQuote = None,
      d_quoteProvider = None, d_unsafeSkipGate = False, d_hashCorridor = we_hashCorridor env,
      d_parseDate = we_parseDate env\<rparr>"

text \<open>\<open>None\<close>: the wiring threw.\<close>

definition wireCorridorDeps :: "'o wire_env \<Rightarrow> corridor \<Rightarrow> wire_options \<Rightarrow> 'o wired option" where
  "wireCorridorDeps env c o' =
     (let secret = coalesce (wo_signerSecret o') (we_signerSecret env); horizonUrl = wire_horizon env c o' in
      if \<not> truthy secret then None
      else case we_stack env c (the secret) horizonUrl of
        None \<Rightarrow> None
      | Some sk \<Rightarrow>
          map_option (\<lambda>r. \<lparr>wd_deps = wire_deps env o' sk r, wd_stack = sk, wd_horizonUrl = horizonUrl\<rparr>)
            (createRegistryRouteResolver env c
              \<lparr>rw_network = Some (network (c_settlement c)), rw_rpcUrl = wo_rpcUrl o', rw_contractId = wo_contractId o',
               rw_networkPassphrase = None, rw_allow = wo_allow o', rw_maxStaleness = None\<rparr>
              (sk_adapterFor sk)))"

subsection \<open>What the wiring guarantees\<close>

text \<open>Which domains the wiring exempts from attestation.\<close>

lemma allowed_set:
  "set (allowed_domains env o') =
     set LOCAL_DOMAINS \<union> set (reference_hosts (we_url env) (we_referenceAnchor env)) \<union>
     set (env_unattested (we_allowUnattested env)) \<union> (case rw_allow o' of Some xs \<Rightarrow> set xs | None \<Rightarrow> {})"
  by (auto simp: allowed_domains_def split: option.splits)

lemma no_registry_refuses:
  "home_domain (d_endpoints (c_dest c)) \<notin> set allow \<Longrightarrow>
   \<exists>u. registry_resolve (new_registry_resolver (Aware (no_registry n)) adapter m (Some allow)) c e = (Inl (Unattested u), e)"
  by (auto simp: registry_resolve_def Let_def new_registry_resolver_def asAttestationSource_def isUnattestedDomainAllowed_def
      read_both_def no_registry_def split: option.splits)

lemma wired_gate: "d_gate (wire_deps env o' sk r) \<noteq> None"
  by (simp add: wire_deps_def)

text \<open>
  The wiring fails closed. With no environment override and no registry deployed on the corridor's
  network, the engine it builds refuses every anchor that is not on the local machine.
\<close>

theorem unwired_registry_fails_closed:
  assumes "wireCorridorDeps env c o' = Some w" and "\<not> truthy (wired_contract env (network (c_settlement c))
      \<lparr>rw_network = Some (network (c_settlement c)), rw_rpcUrl = wo_rpcUrl o', rw_contractId = wo_contractId o',
       rw_networkPassphrase = None, rw_allow = wo_allow o', rw_maxStaleness = None\<rparr>)"
    and "we_referenceAnchor env = None" and "we_allowUnattested env = None" and "wo_allow o' = None"
    and "home_domain (d_endpoints (c_dest c)) \<notin> set LOCAL_DOMAINS"
  shows "\<exists>m. d_resolve (wd_deps w) intent c e = (Inl m, e)"
proof -
  let ?rw = "\<lparr>rw_network = Some (network (c_settlement c)), rw_rpcUrl = wo_rpcUrl o', rw_contractId = wo_contractId o',
       rw_networkPassphrase = None, rw_allow = wo_allow o', rw_maxStaleness = None\<rparr>"
  have allow: "home_domain (d_endpoints (c_dest c)) \<notin> set (allowed_domains env ?rw)"
    using assms(3-6) unfolding allowed_set by (simp add: reference_hosts_def env_unattested_def)
  obtain sk where sk: "createRegistryRouteResolver env c ?rw (sk_adapterFor sk) = Some
      (new_registry_resolver (Aware (no_registry (network (c_settlement c)))) (sk_adapterFor sk) None (Some (allowed_domains env ?rw)))"
    and deps: "\<exists>r. createRegistryRouteResolver env c ?rw (sk_adapterFor sk) = Some r \<and> wd_deps w = wire_deps env o' sk r"
    using assms(1,2)
    by (auto simp: wireCorridorDeps_def Let_def createRegistryRouteResolver_def attestation_source_for_def
        split: if_splits option.splits)
  have w: "d_resolve (wd_deps w) = resolver_port (registry_resolve
      (new_registry_resolver (Aware (no_registry (network (c_settlement c)))) (sk_adapterFor sk) None (Some (allowed_domains env ?rw))))"
    using sk deps by (auto simp: wire_deps_def)
  from no_registry_refuses [OF allow, of "network (c_settlement c)" "sk_adapterFor sk" None e]
  show ?thesis unfolding w by (auto simp: resolver_port_def)
qed

end
