(* ===== verification/Canary.thy ===== *)
theory Canary
  imports Wire Operator
begin

section \<open>One gated payment (packages/cli/src/wire.ts, proof.ts)\<close>

text \<open>
  \<open>corridor canary\<close> drives one small payment through the whole stack, and turns a completed one, read
  back from the ledger, into the proof that makes a corridor proven. An exception is the answer \<open>None\<close> of
  an operation. The run store of a canary is new and empty; the events that \<open>execute\<close> adds to the world
  are its log. Parameters of the proof are the YAML text, the writing of the file and the date.
\<close>

subsection \<open>The guards\<close>

record canary_options =
  co_amount :: string
  co_network :: "string option"
  co_skipDoctor :: "bool option"
  co_anchorUrl :: "string option"
  co_key :: "string option"
  co_dryRun :: bool

record canary_result =
  ca_exitCode :: int
  ca_trail :: "corridor_state list option"
  ca_transactionId :: "string option"
  ca_stellarTxHash :: "string option"
  ca_error :: "string option"
  ca_dryRun :: "check_result list option"
  ca_run :: "run_result option"
  ca_settlement :: "settlement_request option"
  ca_horizonUrl :: "string option"

definition canary_exit :: "int \<Rightarrow> string \<Rightarrow> canary_result" where
  "canary_exit code why =
     \<lparr>ca_exitCode = code, ca_trail = None, ca_transactionId = None, ca_stellarTxHash = None, ca_error = Some why,
      ca_dryRun = None, ca_run = None, ca_settlement = None, ca_horizonUrl = None\<rparr>"

definition proof_cap :: "corridor \<Rightarrow> string" where
  "proof_cap c =
     (case (case c_proof c of Some p \<Rightarrow> canary_max_amount p | None \<Rightarrow> None) of
        Some m \<Rightarrow> m | None \<Rightarrow> DEFAULT_CANARY_MAX_AMOUNT)"

definition canary_refusal :: "corridor \<Rightarrow> liveness_state \<Rightarrow> canary_options \<Rightarrow> string option" where
  "canary_refusal c live opts =
     (if live \<noteq> Verified then Some (''liveness is '' @ liveness_name live)
      else if network (c_settlement c) = PublicNet \<and> co_network opts \<noteq> Some ''public'' then
        Some ''mainnet requires --network public''
      else if network (c_settlement c) = TestNet \<and> co_network opts = Some ''public'' then Some ''network mismatch''
      else
        case compareAmounts (co_amount opts) (proof_cap c) STROOP_SCALE of
          Inl _ \<Rightarrow> Some (''amount exceeds canary cap '' @ proof_cap c)
        | Inr v \<Rightarrow> if v > 0 then Some (''amount exceeds canary cap '' @ proof_cap c) else None)"

definition isLocalAnchor :: "'o wire_env \<Rightarrow> corridor \<Rightarrow> bool" where
  "isLocalAnchor env c =
     (let d = home_domain (d_endpoints (c_dest c)) in
      starts_with ''localhost'' d \<or> starts_with ''127.0.0.1'' d \<or> truthy (we_referenceAnchor env))"

text \<open>The exit code and error of a stack that is not up.\<close>

definition canary_preflight :: "'o wire_env \<Rightarrow> corridor \<Rightarrow> canary_options \<Rightarrow> ('o, (int \<times> string) option) eio" where
  "canary_preflight env c opts =
     (if \<not> isLocalAnchor env c then ret None
      else
        bnd (port_io (preflightDoctor env (co_skipDoctor opts))) (\<lambda>fit.
          if fit \<noteq> DoctorOk then ret (Some (EXIT_STACK_UNFIT, ''doctor check failed''))
          else
            bnd (port_io (assertAssetQuotable env c (co_anchorUrl opts))) (\<lambda>q.
              case q of
                None \<Rightarrow> throw_io
              | Some Quotable \<Rightarrow> ret None
              | Some (NotQuotable refused why) \<Rightarrow>
                  ret (Some (if refused then EXIT_REFUSED else EXIT_STACK_UNFIT, why)))))"

subsection \<open>Customers and the intent\<close>

definition register_missing :: "'o stack \<Rightarrow> string \<Rightarrow> string \<Rightarrow> string option \<Rightarrow> ('o, string option outcome) eio" where
  "register_missing sk role type' known =
     (if truthy known then ret (Inr known)
      else bnd (port_io (registerSep12Customer sk role type')) (\<lambda>r. ret (map_sum id Some r)))"

definition canary_customers ::
  "'o wire_env \<Rightarrow> corridor \<Rightarrow> 'o stack \<Rightarrow> ('o, (string option \<times> string option) outcome) eio" where
  "canary_customers env c sk =
     (if \<not> truthy (kyc_server (d_endpoints (c_dest c))) then ret (Inr (we_senderId env, we_recipientId env))
      else
        check (register_missing sk ''sender'' (sep12_sender_type (c_compliance c)) (we_senderId env)) (\<lambda>e. ret (Inl e)) (\<lambda>s.
          check (register_missing sk ''receiver'' (sep12_receiver_type (c_compliance c)) (we_recipientId env)) (\<lambda>e. ret (Inl e)) (\<lambda>r.
            ret (Inr (s, r)))))"

definition canary_key :: "'o wire_env \<Rightarrow> corridor \<Rightarrow> canary_options \<Rightarrow> ('o, string) eio" where
  "canary_key env c opts =
     (case coalesce (co_key opts) (we_key env) of
        Some k \<Rightarrow> ret k
      | None \<Rightarrow> bnd (port_io (we_now env)) (\<lambda>t. ret (''canary-'' @ c_id c @ ''-'' @ show_int t)))"

definition canary_intent :: "corridor \<Rightarrow> canary_options \<Rightarrow> string \<Rightarrow> string option \<times> string option \<Rightarrow> payment_intent" where
  "canary_intent c opts key ids =
     \<lparr>idempotencyKey = key, corridorId = c_id c,
      sender = \<lparr>p_id = ''canary-sender'', p_jurisdiction = Some (source_jurisdiction (c_compliance c)), p_sep12Id = fst ids,
                p_anchorCustomerId = None\<rparr>,
      recipient = \<lparr>p_id = ''canary-recipient'', p_jurisdiction = Some (dest_jurisdiction (c_compliance c)),
                   p_sep12Id = snd ids, p_anchorCustomerId = None\<rparr>,
      sourceAmount = \<lparr>m_asset = bridge_asset (c_settlement c), m_amount = co_amount opts\<rparr>,
      destinationFields = Some [(''receiver_routing_number'', ''021000021''), (''receiver_account_number'', ''12345678901234''),
        (''type'', ''SWIFT'')]\<rparr>"

text \<open>The wrapped submitter: \<open>submit\<close> remembers the request, \<open>refund\<close> is passed on, nothing else is.\<close>

definition capturing :: "'o wire_env \<Rightarrow> 'o submitter \<Rightarrow> 'o submitter" where
  "capturing env sub =
     \<lparr>sb_findExisting = None, sb_submit = (\<lambda>request e. sb_submit sub request (we_capture env request e)),
      sb_refund = sb_refund sub\<rparr>"

definition canary_deps :: "'o wire_env \<Rightarrow> 'o wired \<Rightarrow> 'o engine_deps" where
  "canary_deps env w = (wd_deps w)\<lparr>d_submitter := capturing env (d_submitter (wd_deps w))\<rparr>"

definition canary_execute_options :: "canary_options \<Rightarrow> execute_options" where
  "canary_execute_options opts =
     \<lparr>op_owner = None, op_trustManifest = False, op_dryRun = co_dryRun opts, op_requestId = None, op_traceparent = None\<rparr>"

subsection \<open>The report\<close>

definition audit_entries :: "event list \<Rightarrow> audit_entry list" where
  "audit_entries es = List.map_filter (\<lambda>ev. case ev of EvAudit a \<Rightarrow> Some a | _ \<Rightarrow> None) es"

definition canary_trail :: "audit_entry list \<Rightarrow> run_result outcome \<Rightarrow> corridor_state list" where
  "canary_trail entries result =
     (case entries of
        [] \<Rightarrow> (case result of Inr v \<Rightarrow> rr_trail v | Inl _ \<Rightarrow> [])
      | a # _ \<Rightarrow> ae_from a # map ae_to entries)"

definition from_result :: "(run_result \<Rightarrow> 'a option) \<Rightarrow> run_result outcome \<Rightarrow> 'a option" where
  "from_result f result = (case result of Inr v \<Rightarrow> f v | Inl _ \<Rightarrow> None)"

definition canary_report ::
  "'o wire_env \<Rightarrow> canary_options \<Rightarrow> string \<Rightarrow> string \<Rightarrow> event list \<Rightarrow> run_result outcome \<Rightarrow> 'o world \<Rightarrow> canary_result option" where
  "canary_report env opts horizonUrl key new result w =
     (let stored = mem_get (w_runs w) key;
          base = \<lparr>ca_exitCode = EXIT_NOT_COMPLETED, ca_trail = Some (canary_trail (audit_entries new) result),
            ca_transactionId = coalesce (Option.bind stored r_transactionId) (from_result rr_transactionId result),
            ca_stellarTxHash = coalesce (Option.bind stored r_stellarTxHash) (from_result rr_stellarTxHash result),
            ca_error = None, ca_dryRun = None, ca_run = None, ca_settlement = None, ca_horizonUrl = None\<rparr>
      in case result of
           Inl err \<Rightarrow>
             if co_dryRun opts \<and> e_code err = DRY_RUN_COMPLETE then
               (case e_cause err of
                  CauseDryRun checks \<Rightarrow>
                    Some (base\<lparr>ca_exitCode := EXIT_OK, ca_stellarTxHash := None, ca_dryRun := Some checks\<rparr>)
                | _ \<Rightarrow> None)
             else Some (base\<lparr>ca_error := Some (code_name (e_code err) @ '': '' @ e_message err)\<rparr>)
         | Inr v \<Rightarrow>
             if rr_state v \<noteq> completed then Some (base\<lparr>ca_error := Some (''terminal state: '' @ state_name (rr_state v))\<rparr>)
             else Some (base\<lparr>ca_exitCode := EXIT_OK, ca_run := Some v, ca_settlement := we_captured env (w_env w),
                         ca_horizonUrl := Some horizonUrl\<rparr>))"

subsection \<open>The canary\<close>

definition canary_payment ::
  "nat \<Rightarrow> 'o wire_env \<Rightarrow> corridor \<Rightarrow> canary_options \<Rightarrow> 'o wired \<Rightarrow> string \<Rightarrow> string option \<times> string option
     \<Rightarrow> ('o, canary_result) eio" where
  "canary_payment fuel env c opts w key ids =
     seq (modify_io (\<lambda>w. w\<lparr>w_runs := empty_store, w_health := []\<rparr>))
       (bnd (gets_io (\<lambda>w. length (w_events w))) (\<lambda>mark.
        bnd (execute fuel (canary_deps env w) (canary_intent c opts key ids) c (canary_execute_options opts)) (\<lambda>result.
        bnd (gets_io (\<lambda>w'. canary_report env opts (wd_horizonUrl w) key (drop mark (w_events w')) result w')) (\<lambda>r.
          case r of None \<Rightarrow> throw_io | Some x \<Rightarrow> ret x))))"

definition wire_canary :: "string option \<Rightarrow> wire_options" where
  "wire_canary secret =
     \<lparr>wo_signerSecret = secret, wo_horizonUrl = None, wo_rpcUrl = None, wo_contractId = None, wo_allow = None,
      wo_stallThreshold = None, wo_reconcilePollMs = None\<rparr>"

definition executeCanary :: "nat \<Rightarrow> 'o wire_env \<Rightarrow> corridor \<Rightarrow> canary_options \<Rightarrow> ('o, canary_result) eio" where
  "executeCanary fuel env c opts =
     bnd (port_io (we_now env)) (\<lambda>now.
       case canary_refusal c (lv_state (liveness (we_parseDate env) c now)) opts of
         Some why \<Rightarrow> ret (canary_exit EXIT_REFUSED why)
       | None \<Rightarrow>
           if \<not> truthy (we_signerSecret env) then ret (canary_exit EXIT_MISSING_ENV ''missing CORRIDOR_SIGNER_SECRET'')
           else
             bnd (canary_preflight env c opts) (\<lambda>unfit.
               case unfit of
                 Some (code, why) \<Rightarrow> ret (canary_exit code why)
               | None \<Rightarrow>
                   (case wireCorridorDeps env c (wire_canary (we_signerSecret env)) of
                      None \<Rightarrow> throw_io
                    | Some w \<Rightarrow>
                        check (canary_customers env c (wd_stack w))
                          (\<lambda>err. ret (canary_exit EXIT_NOT_COMPLETED (e_message err)))
                          (\<lambda>ids. bnd (canary_key env c opts) (\<lambda>key. canary_payment fuel env c opts w key ids)))))"

subsection \<open>What a canary may do\<close>

definition canary_allowed :: "'o wire_env \<Rightarrow> corridor \<Rightarrow> canary_options \<Rightarrow> int \<Rightarrow> bool" where
  "canary_allowed env c opts now \<longleftrightarrow>
     lv_state (liveness (we_parseDate env) c now) = Verified \<and>
     (network (c_settlement c) = PublicNet \<longleftrightarrow> co_network opts = Some ''public'') \<and>
     (\<exists>v. compareAmounts (co_amount opts) (proof_cap c) STROOP_SCALE = Inr v \<and> v \<le> 0) \<and> truthy (we_signerSecret env)"

lemma not_refused:
  "canary_refusal c live opts = None \<Longrightarrow>
   live = Verified \<and> (network (c_settlement c) = PublicNet \<longleftrightarrow> co_network opts = Some ''public'') \<and>
   (\<exists>v. compareAmounts (co_amount opts) (proof_cap c) STROOP_SCALE = Inr v \<and> v \<le> 0)"
  by (cases "network (c_settlement c)") (auto simp: canary_refusal_def split: if_splits sum.splits)

lemma port_submits [simp]: "submits (w\<lparr>w_env := e\<rparr>) = submits w"
  by (simp add: submits_def)

lemma silent_preflight: "silent (canary_preflight env c opts)"
  unfolding canary_preflight_def
  by (auto intro!: silent_rules split: option.splits quotable.splits)

lemma silent_register: "silent (register_missing sk role t known)"
  unfolding register_missing_def by (auto intro!: silent_rules)

lemma silent_customers: "silent (canary_customers env c sk)"
  unfolding canary_customers_def by (auto intro!: silent_rules silent_register)

lemma silent_key: "silent (canary_key env c opts)"
  unfolding canary_key_def by (auto intro!: silent_rules split: option.splits)

lemma quiet_payment:
  assumes "co_dryRun opts"
  shows "keeps (\<lambda>w. submits w = []) (canary_payment fuel env c opts w key ids)"
  unfolding keeps_def canary_payment_def wp_seq wp_modify wp_bnd wp_gets
proof (intro allI impI)
  fix v :: "'a world"
  assume v: "submits v = []"
  let ?v = "v\<lparr>w_runs := empty_store, w_health := []\<rparr>" and ?i = "canary_intent c opts key ids"
  have q: "quiet_fresh (idempotencyKey ?i) ?v"
    using v by (simp add: quiet_fresh_def submits_def mem_get_def empty_store_def)
  have "op_dryRun (canary_execute_options opts)" using assms by (simp add: canary_execute_options_def)
  from dry_fresh_silent [OF this q, of fuel "canary_deps env w" c]
  show "wp (execute fuel (canary_deps env w) ?i c (canary_execute_options opts))
     (\<lambda>x wa. wp (case canary_report env opts (wd_horizonUrl w) key (drop (length (w_events ?v)) (w_events wa)) x wa of
          None \<Rightarrow> throw_io | Some r \<Rightarrow> ret r) (\<lambda>_ w. submits w = []) (\<lambda>w. submits w = []) wa)
     (\<lambda>w. submits w = []) ?v"
    by (rule wp_mono) (auto simp: wp_rules split: option.splits)
qed

lemma silent_quiet: "silent m \<Longrightarrow> keeps (\<lambda>w. submits w = []) m"
  by (simp add: silent_def)

lemma quiet_canary:
  assumes "co_dryRun opts"
  shows "keeps (\<lambda>w. submits w = []) (executeCanary fuel env c opts)"
  unfolding executeCanary_def
  by (intro keeps_bnd silent_quiet [OF silent_port])
    (auto intro!: keeps_bnd keeps_check quiet_payment [OF assms] silent_quiet [OF silent_preflight]
      silent_quiet [OF silent_customers] silent_quiet [OF silent_key] split: option.splits)

lemma refused_canary:
  assumes "\<not> canary_allowed env c opts (fst (we_now env (w_env w)))"
  shows "w_events (snd (executeCanary fuel env c opts w)) = w_events w"
  using assms not_refused [of c "lv_state (liveness (we_parseDate env) c (fst (we_now env (w_env w))))" opts]
  by (auto simp: executeCanary_def canary_allowed_def bnd_def port_io_def ret_def split: prod.splits option.splits)

subsection \<open>The proof\<close>

record canary_proof =
  cp_proof :: proof_t
  cp_transaction :: settlement_facts
  cp_yaml :: string
  cp_written :: bool

text \<open>
  \<open>pe_facts\<close> reads a transaction back from Horizon, \<open>pe_today\<close> is the date of the clock, \<open>pe_yaml\<close> the
  printed block, \<open>pe_write\<close> edits and replaces the file or throws.
\<close>

record 'e proof_env =
  pe_rebase64 :: "string \<Rightarrow> string"
  pe_facts :: "string \<Rightarrow> ('e, settlement_facts outcome) port"
  pe_today :: "('e, string) port"
  pe_yaml :: "proof_t \<Rightarrow> string"
  pe_write :: "string \<Rightarrow> proof_t \<Rightarrow> ('e, string + unit) port"

definition new_proof :: "corridor \<Rightarrow> run_result \<Rightarrow> settlement_request \<Rightarrow> string \<Rightarrow> proof_t" where
  "new_proof c result settlement today =
     \<lparr>canary_completed_at = today, pf_stellar_tx_hash = to_lower (the (rr_stellarTxHash result)),
      pf_anchor_transaction_id = the (rr_transactionId result), pf_amount = m_amount (sr_amount settlement),
      max_age_days = (case c_proof c of Some p \<Rightarrow> max_age_days p | None \<Rightarrow> 30), canary_max_amount = Some (proof_cap c)\<rparr>"

definition buildCanaryProof ::
  "'e proof_env \<Rightarrow> corridor \<Rightarrow> run_result \<Rightarrow> settlement_request \<Rightarrow> ('e, canary_proof outcome) port" where
  "buildCanaryProof env c result settlement e =
     (let amount = m_amount (sr_amount settlement) in
      if rr_state result \<noteq> completed then
        (fail SETTLEMENT_FAILED (''canary ended in '' @ dq @ state_name (rr_state result) @ dq @ '', not '' @ dq @ ''completed'' @ dq @
           ''; no proof was written''), e)
      else if \<not> truthy (rr_transactionId result) \<or> \<not> truthy (rr_stellarTxHash result) then
        (fail SETTLEMENT_FAILED ''completed canary is missing its anchor id or Stellar tx hash'', e)
      else if \<not> isSettleableAmount amount STROOP_SCALE then
        (fail AMOUNT_INVALID (''canary settlement amount '' @ dq @ amount @ dq @ '' is invalid''), e)
      else
        case compareAmounts amount (proof_cap c) STROOP_SCALE of
          Inl err \<Rightarrow> (Inl err, e)
        | Inr v \<Rightarrow>
            if v > 0 then
              (fail AMOUNT_INVALID (''canary amount '' @ amount @ '' exceeds the proof ceiling '' @ proof_cap c), e)
            else
              (case pe_facts env (the (rr_stellarTxHash result)) e of
                 (Inl err, e1) \<Rightarrow> (Inl err, e1)
               | (Inr facts, e1) \<Rightarrow>
                   (case verifySettlementFacts (pe_rebase64 env) facts settlement of
                      Inl err \<Rightarrow> (Inl err, e1)
                    | Inr _ \<Rightarrow>
                        (case pe_today env e1 of
                           (today, e2) \<Rightarrow>
                             let p = new_proof c result settlement today in
                             (Inr \<lparr>cp_proof = p, cp_transaction = facts, cp_yaml = trim_end (pe_yaml env p),
                                   cp_written = False\<rparr>, e2)))))"

definition finalizeCanary ::
  "'e proof_env \<Rightarrow> corridor \<Rightarrow> run_result \<Rightarrow> settlement_request \<Rightarrow> string option \<Rightarrow> bool \<Rightarrow> ('e, canary_proof outcome) port" where
  "finalizeCanary env c result settlement manifestPath write e =
     (if rr_state result \<noteq> completed then
        (fail SETTLEMENT_FAILED (''canary ended in '' @ dq @ state_name (rr_state result) @ dq @ '', not '' @ dq @ ''completed'' @ dq @
           ''; manifest was not changed''), e)
      else
        case buildCanaryProof env c result settlement e of
          (Inl err, e1) \<Rightarrow> (Inl err, e1)
        | (Inr built, e1) \<Rightarrow>
            if \<not> write then (Inr built, e1)
            else if \<not> truthy manifestPath then (fail MANIFEST_INVALID ''--write requires a manifest path'', e1)
            else
              (case pe_write env (the manifestPath) (cp_proof built) e1 of
                 (Inl m, e2) \<Rightarrow>
                   (fail_full MANIFEST_INVALID (''could not write proof to '' @ the manifestPath @ '': '' @ m) False CauseOther, e2)
               | (Inr _, e2) \<Rightarrow> (Inr (built\<lparr>cp_written := True\<rparr>), e2)))"

subsection \<open>What a proof says\<close>

text \<open>The run, the amount and the transaction that a proof of \<open>c\<close> rests on.\<close>

definition proof_earned :: "'e proof_env \<Rightarrow> corridor \<Rightarrow> run_result \<Rightarrow> settlement_request \<Rightarrow> 'e \<Rightarrow> proof_t \<Rightarrow> bool" where
  "proof_earned env c result settlement e p \<longleftrightarrow>
     rr_state result = completed \<and> isSettleableAmount (m_amount (sr_amount settlement)) STROOP_SCALE \<and>
     (\<exists>v. compareAmounts (m_amount (sr_amount settlement)) (proof_cap c) STROOP_SCALE = Inr v \<and> v \<le> 0) \<and>
     (\<exists>h facts. rr_stellarTxHash result = Some h \<and> h \<noteq> '''' \<and> fst (pe_facts env h e) = Inr facts \<and>
        paid_as_asked (pe_rebase64 env) facts settlement \<and> (\<exists>today. p = new_proof c result settlement today))"

lemma verify_Inr_paid: "verifySettlementFacts r facts req = Inr u \<Longrightarrow> paid_as_asked r facts req"
  using verify_says [of r facts req] by simp

lemma built_earned:
  assumes "buildCanaryProof env c result settlement e = (Inr b, e')"
  shows "proof_earned env c result settlement e (cp_proof b) \<and> \<not> cp_written b"
proof -
  have st: "rr_state result = completed" and am: "isSettleableAmount (m_amount (sr_amount settlement)) STROOP_SCALE"
    and h: "truthy (rr_stellarTxHash result)"
    using assms by (auto simp: buildCanaryProof_def Let_def fail_full_def split: if_splits)
  obtain v where v: "compareAmounts (m_amount (sr_amount settlement)) (proof_cap c) STROOP_SCALE = Inr v" "v \<le> 0"
    using assms by (auto simp: buildCanaryProof_def Let_def fail_full_def not_less split: if_splits sum.splits)
  obtain facts e1 where f: "pe_facts env (the (rr_stellarTxHash result)) e = (Inr facts, e1)"
    "verifySettlementFacts (pe_rebase64 env) facts settlement = Inr ()"
    using assms st am h v by (auto simp: buildCanaryProof_def Let_def fail_full_def split: if_splits prod.splits sum.splits)
  have "(\<exists>today. cp_proof b = new_proof c result settlement today) \<and> \<not> cp_written b"
    using assms st am h v f by (auto simp: buildCanaryProof_def Let_def fail_full_def split: if_splits prod.splits)
  with st am h v f verify_Inr_paid [OF f(2)] show ?thesis
    by (cases "rr_stellarTxHash result") (auto simp: proof_earned_def)
qed

subsection \<open>The mainnet\<close>

text \<open>
  The submitter that the wiring constructs takes neither networks nor leave to sign locally: whatever
  \<open>--network\<close> says, it refuses a payment on the public network.
\<close>

theorem canary_submitter_refuses_mainnet:
  assumes "new_submitter pl o' = Inr s" and "ro_allowed o' = None"
  shows "\<exists>m. guardNetwork k s PublicNet w = (Some (fail SETTLEMENT_FAILED m), w)"
proof -
  have "ss_allowed s = [TestNet]"
    using assms by (cases "new_sender pl ''StellarSettlementSubmitter'' o'") (auto simp: new_submitter_def sender.defs or_else_def)
  then show ?thesis by (auto simp: guardNetwork_def ret_def)
qed

text \<open>A lane that is already proven is refused, and so is never proven again before its proof is stale.\<close>

theorem proven_lane_is_refused:
  assumes "lv_state (liveness (we_parseDate env) c (fst (we_now env (w_env w)))) = Proven"
  shows "fst (executeCanary fuel env c opts w) = Some (canary_exit EXIT_REFUSED ''liveness is proven'')"
proof -
  obtain t e where "we_now env (w_env w) = (t, e)" by fastforce
  with assms show ?thesis
    by (simp add: executeCanary_def bnd_def port_io_def canary_refusal_def ret_def)
qed

text \<open>The engine is given no way to look for an earlier payment of a canary.\<close>

lemma canary_cannot_look_back: "sb_findExisting (d_submitter (canary_deps env w)) = None"
  by (simp add: canary_deps_def capturing_def)

subsection \<open>Properties\<close>



text \<open>
  A proof makes its corridor proven: with the new proof in the manifest, a lane whose required endpoint
  is verified is proven from the day of the canary until the proof is older than its maximum age.
\<close>

theorem earned_proof_proves:
  assumes "hasRequiredEndpoint (c_dest c)" and "truthy (endpoints_verified_at (d_endpoints (c_dest c)))"
    and "parse today = Ms t" and "t \<le> now" and "now - t \<le> max_age_days (new_proof c result settlement today) * day_ms"
  shows "lv_state (liveness parse (c\<lparr>c_proof := Some (new_proof c result settlement today)\<rparr>) now) = Proven"
  unfolding lv_Proven_iff using assms by (simp add: new_proof_def)

end
