(* ===== verification/Spec2Isabelle.thy ===== *)
theory Spec2Isabelle
  imports Trace Completion Sep6 Router Serving Payouts ChainChecks PlanRegistry Canary
begin

section \<open>Corridor in a box: the verified core\<close>

text \<open>
  A model of corridor-in-a-box, a payment engine that settles over Stellar between a funded
  treasury and receiving anchors. The code under packages/ is TypeScript; this library models its
  core, function by function, and proves what makes it safe with money.

  \<^bold>\<open>The program.\<close> A corridor manifest (packages/manifest) says how a lane is settled. \<open>execute\<close>
  (packages/engine/src/run.ts) takes a payment intent and a manifest through quote, comply, open,
  funding, the pre-settle gate, settle and reconcile (verbs.ts, gate.ts), writing every state of the
  run to an idempotency store (idempotency.ts, idempotency-pg.ts) before it goes on, so that a later
  call with the same key can resume it. Failures are retried, refunded or held by the manifest's
  rollback policy. A circuit breaker (breaker.ts, breaker-pg.ts) halts a lane after consecutive
  failures. Anchors are reached through adapters (packages/sep31, packages/sep6) found by a router
  (packages/router), the chain through the submitter of packages/stellar. packages/service puts HTTP
  in front of \<open>execute\<close>. packages/probe finds out what an anchor can do, packages/attester writes it to
  a Soroban contract and packages/registry reads it back, which is what the router admits lanes by.
  packages/cli holds the commands of the operator, one of which, the canary, makes a real payment.

  \<^bold>\<open>The theories.\<close>
  \<^item> Prelude: effectful operations \<open>'w \<Rightarrow> 'a option \<times> 'w\<close> (\<open>None\<close>: stopped by an exception or out of
    fuel, the world reached is kept), their verification conditions \<open>wp\<close>, JavaScript strings and
    numbers.
  \<^item> Types, Money, States, Manifest, Json, Sample: packages/types, engine/src/state.ts,
    packages/manifest; a sample corridor.
  \<^item> Idempotency, Breaker: the stores, each behind a locale (\<open>run_store\<close>, \<open>health_store\<close>) that both
    implementations interpret.
  \<^item> Adapter, Gate, Ports, Verbs: the readers of anchor data, the gate, the ports of the engine, the
    verbs with the polling loops.
  \<^item> RunContext, Run, Resume: \<open>createRunContext\<close>, \<open>execute\<close> and \<open>resumeRun\<close> with every early return.
  \<^item> Ledger, Safety, History: the proof that sessions are safe. The ledger reads the events of a key
    and says which are allowed; Safety shows, phase by phase, that \<open>execute\<close> only produces allowed
    events; History lifts that to any number of sessions, each cut off after any number of events.
  \<^item> Silence, Completion: which sessions cannot pay, and what a success of \<open>execute\<close> means.
  \<^item> Demo, Trace: a concrete instance of all parameters, and sessions evaluated in the kernel.
  \<^item> Client, Sep31, Sep31Checks, Sep6: the clients of adapter-kit (SEP-10, SEP-12, SEP-38) and both
    adapters, with the gate checks of packages/sep31; what they share is the locale \<open>status_map\<close>.
  \<^item> Router: both resolvers, the adapter registry and its loader (packages/router).
  \<^item> RateLimit, Requests, Callback, Service: packages/service, from the parsing of a body to the
    transport; both rate limiters are instances of the locale \<open>rate_limiter\<close>. ServiceSafety shows who
    reaches the engine and who sees a run, Serving applies that to a concrete service.
  \<^item> Horizon, Submitter: packages/stellar, its reads of Horizon and the three ways to pay. Settling
    shows that each is a \<open>careful_sender\<close>, the locale under which retries pay once; Payouts says which
    envelope was sent; ChainChecks holds the balance, destination and stellar.toml checks.
  \<^item> UrlSafety, Toml, Probe, Sweep, Loader, Fleet: packages/probe; the worker pool of a sweep is a step
    relation. Attester, Registry: packages/attester and packages/registry.
  \<^item> Lint, Plan, PlanRegistry, Operator, Wire, Canary: packages/cli. Operator's commands rely on the
    stores through the locales \<open>resolution_store\<close> and \<open>health_store\<close>; Wire builds the real stack,
    Canary makes one payment through it and turns it into a proof.

  This theory states the properties that span the engine; those of one component stand in its theory.

  \<^bold>\<open>State and parameters.\<close> The world of a session (\<open>world\<close> in Ports) holds the run store, the breaker
  rows, the run object with its trail and the events so far; the service has a world around it, the
  submitter a log of what it signed, sent and slept. Everything outside the process is a port: a
  function of the outside world \<open>'e\<close> that gives an answer and the new outside world. The anchors, fetch,
  the Stellar SDK and the Soroban server, the signer, the clock and SHA-256 are such parameters, and so
  are the parts of the language library that no definition here can give: the URL parser,
  \<open>Date.parse\<close>, \<open>toISOString\<close>, \<open>JSON.parse\<close>, \<open>decodeURIComponent\<close>, base64, \<open>Number\<close>, \<open>localeCompare\<close>.
  The theorems hold for all of them unless a hypothesis says otherwise.

  \<^bold>\<open>Bounds and fuel.\<close> \<open>settle_loop\<close> takes one more pass than \<open>max_retries\<close>, which its retry count
  cannot exceed. The polling loops take fuel; \<open>reconcileUntil_returns\<close> and \<open>watchRefund_returns\<close> give
  the fuel that suffices once sleeping advances the clock, and a confirmation loop needs one poll more
  than its timeout has seconds (\<open>settlement_call_answers\<close>, \<open>attest_answers\<close>). The safety theorems hold
  for every fuel, as a session may be cut off anywhere.

  \<^bold>\<open>Idealised.\<close> Sequential handlers: one request or session of a key runs at a time, so the lock of the
  login cache and sessions of a key that overlap in time are left out. The rate limiters count in
  rationals. Upper and lower case are those of ASCII.

  \<^bold>\<open>Not modelled.\<close> Log lines and console output; Zod and YAML, parsing and editing; the Postgres DDL
  and listings; the audit table and the OpenTelemetry bridge; the signers of packages/stellar that wrap
  a key service, and the SEP-10 signer; the building and decoding of XDR; the reading of files and the
  JSON text of the decoded sweep report; \<open>gracefulShutdown\<close>; the dispatch of the command line other than
  its breaker commands, and the scaffolding of a manifest; the test kits; the web console, examples and
  scripts.
\<close>

subsection \<open>The history of a key\<close>

text \<open>
  C1: no double payment. Over any history of a key (sessions, crashes and resumptions), two
  submissions are separated by an answer that says the first may be tried again: a payment whose
  fate is open, or that succeeded or failed for good, is never submitted a second time.
\<close>

theorem no_double_payment:
  assumes "history key es s e" and "i < j" and "j < length es"
    and "is_submit (es ! i)" and "is_submit (es ! j)"
  shows "\<exists>m. i < m \<and> m < j \<and> is_retryable (es ! m)"
  using history_ok [OF assms(1)] second_submit assms(2-5) by blast

theorem no_double_payment_witness:
  "\<exists>m. 21 < m \<and> m < 36 \<and> is_retryable (refused_session ! m)"
  by (rule no_double_payment [OF refused_history])
    (use kinds_nth [OF refused_kinds, of 21] kinds_nth [OF refused_kinds, of 36] in
      \<open>simp_all add: kind_of_simps\<close>)

text \<open>
  C2: write-ahead. Whenever a payment is submitted, the last state written to the store for the
  key is \<open>settling\<close>, so a crash at any moment leaves a run that says a payment may be out.
\<close>

theorem submit_after_settling_written:
  assumes "history key es s e" and "j < length es" and "is_submit (es ! j)"
  shows "last_state (take j es) = Some settling"
  using history_ok [OF assms(1)] submit_at assms(2,3) by blast

theorem submit_after_settling_written_witness: "last_state (take 21 paying_session) = Some settling"
  by (rule submit_after_settling_written [OF paying_history])
    (use kinds_nth [OF paying_kinds, of 21] in \<open>simp_all add: kind_of_simps\<close>)

text \<open>
  C3: over the whole history of a key the engine asks for at most one reversal, and only when the
  last state written is \<open>recovering\<close>.
\<close>

theorem one_reversal:
  assumes "history key es s e" and "j < length es" and "is_refund (es ! j)"
  shows "last_state (take j es) = Some recovering \<and> (\<nexists>i. i \<noteq> j \<and> i < length es \<and> is_refund (es ! i))"
  using history_ok [OF assms(1)] refund_alone refund_at assms(2,3) by metis

theorem one_reversal_witness:
  "last_state (take 43 stalled_session) = Some recovering \<and>
     (\<nexists>i. i \<noteq> 43 \<and> i < length stalled_session \<and> is_refund (stalled_session ! i))"
  by (rule one_reversal [OF stalled_history])
    (use kinds_nth [OF stalled_kinds, of 43] in \<open>simp_all add: kind_of_simps\<close>)

text \<open>
  C7: the runs written over a history are runs of the key, their versions grow with every write,
  and from each to the next the state is kept or takes a legal transition.
\<close>

theorem writes_follow_the_machine:
  assumes "history key es s e" and "Suc i < length (writes es)"
  shows "r_key (writes es ! Suc i) = r_key (writes es ! i) \<and>
     r_version (writes es ! i) < r_version (writes es ! Suc i) \<and>
     (r_state (writes es ! i) = r_state (writes es ! Suc i) \<or>
      canTransition (r_state (writes es ! i)) (r_state (writes es ! Suc i)))"
  using history_ok [OF assms(1)] writes_walk [OF _ assms(2)] unfolding write_step_def by blast

theorem writes_follow_the_machine_witness:
  "r_version (writes paying_session ! 4) < r_version (writes paying_session ! 5)"
  using writes_follow_the_machine [OF paying_history, of 4]
    arg_cong [OF written_states [of paying_session], of length]
  by (simp add: paying_kinds map_filter_simps)

text \<open>
  C14: the audit trail is truthful: every entry records a legal transition, and at that moment the
  store holds the state the entry says was entered.
\<close>

theorem audit_is_truthful:
  assumes "history key es s e" and "j < length es" and "es ! j = EvAudit a"
  shows "canTransition (ae_from a) (ae_to a) \<and> last_state (take j es) = Some (ae_to a)"
  using history_ok [OF assms(1)] audit_at [OF _ assms(2,3)] by blast

theorem audit_is_truthful_witness:
  "\<exists>a. paying_session ! 4 = EvAudit a \<and> canTransition (ae_from a) quoted \<and>
     last_state (take 4 paying_session) = Some quoted"
proof -
  have n: "4 < length paying_session" and k: "kind_of (paying_session ! 4) = KAudit quoted"
    using kinds_nth [OF paying_kinds, of 4] by simp_all
  then obtain a where a: "paying_session ! 4 = EvAudit a" and q: "ae_to a = quoted"
    using kind_audit by blast
  then show ?thesis using audit_is_truthful [OF paying_history n a] by simp
qed

text \<open>
  The store at the end of any session is what replaying the session's write events on the
  store it started with gives, so the events account for every change.
\<close>

theorem store_is_replay:
  assumes "linked key L" and "idempotencyKey intent = key"
  shows "w_runs (snd (execute fuel d intent c opts (session_world e (l_store L) h r))) =
    replay (session_events fuel d intent c opts (session_world e (l_store L) h r)) (l_store L)"
  by (rule session_store [OF assms])

theorem store_is_replay_witness:
  "w_runs (snd (execute (Suc 0) (demo_deps (Inr demo_ref) demo_paid) demo_intent demo_corridor demo_opts
      (session_world 0 (l_store (ledger_of_store empty_store)) [] demo_run))) =
    replay (session_events (Suc 0) (demo_deps (Inr demo_ref) demo_paid) demo_intent demo_corridor demo_opts
      (session_world 0 (l_store (ledger_of_store empty_store)) [] demo_run))
      (l_store (ledger_of_store empty_store))"
  by (rule store_is_replay [of "''k''"]) (simp_all add: linked_start empty_get demo_intent_simps)

text \<open>
  C15: a dry run of a key the store does not hold submits no payment, whatever its ports answer.
\<close>

theorem dry_run_never_pays:
  assumes "op_dryRun opts" and "mem_get s (idempotencyKey intent) = None"
  shows "filter is_submit (session_events fuel d intent c opts (session_world e s h r)) = []"
proof -
  have "quiet_fresh (idempotencyKey intent) (session_world e s h r)"
    using assms(2) by (simp add: quiet_fresh_def submits_def session_world_def)
  from dry_fresh_silent [OF assms(1) this, of fuel d c] show ?thesis
    by (cases "execute fuel d intent c opts (session_world e s h r)")
      (auto simp: wp_def submits_def session_events_def split: option.splits)
qed

theorem dry_run_never_pays_witness: "filter is_submit dry_session = []"
  unfolding dry_session_def by (rule dry_run_never_pays) (simp_all add: demo_opts_simps empty_get)


text \<open>With a gate that never passes, no session submits a payment, fresh or resumed.\<close>

theorem shut_gate_never_pays:
  assumes "d_gate d = Some gate" and "never_passes gate"
  shows "filter is_submit (session_events fuel d intent c opts (session_world e s h r)) = []"
proof -
  have "silent (execute fuel d intent c opts)" by (rule silent_execute) (use assms in auto)
  then show ?thesis
    using silent_session [of "execute fuel d intent c opts" "session_world e s h r"]
    by (simp add: submits_def session_events_def session_world_def)
qed

definition shut_gate :: "gate_ctx \<Rightarrow> (int, string + gate_result) port" where
  "shut_gate = (\<lambda>_ e. (Inl ''down'', e))"

theorem shut_gate_never_pays_witness:
  "filter is_submit (session_events (Suc 0) ((demo_deps (Inr demo_ref) demo_paid)\<lparr>d_gate := Some shut_gate\<rparr>)
     demo_intent demo_corridor demo_opts (session_world 0 (demo_store demo_opened_run) [] demo_run)) = []"
proof (rule shut_gate_never_pays)
  show "never_passes shut_gate" unfolding never_passes_def shut_gate_def by auto
qed simp

text \<open>
  C10: when \<open>execute\<close> reports success, the run it reports is completed, and the store holds a
  completed run under the key of the report.
\<close>

theorem success_is_stored:
  assumes "execute fuel d intent c opts w = (Some (Inr v), w')"
    and "\<And>r. mem_get (w_runs w) (idempotencyKey intent) = Some r \<Longrightarrow> r_key r = idempotencyKey intent"
  shows "rr_state v = completed \<and>
    (\<exists>run. mem_get (w_runs w') (rr_key v) = Some run \<and> r_state run = completed)"
proof -
  have "filed (idempotencyKey intent) w" using assms(2) by (simp add: filed_def)
  from execute_completes [OF this, of fuel d c opts] show ?thesis
    by (simp add: wp_def assms(1) completed_result_def)
qed

theorem success_is_stored_witness:
  "\<exists>v w'. execute (Suc 0) (demo_deps (Inr demo_ref) demo_paid) demo_intent demo_corridor demo_opts
      (session_world 0 empty_store [] demo_run) = (Some (Inr v), w') \<and> rr_state v = completed"
proof -
  obtain v w' where e: "execute (Suc 0) (demo_deps (Inr demo_ref) demo_paid) demo_intent demo_corridor demo_opts
      (session_world 0 empty_store [] demo_run) = (Some (Inr v), w')"
    by (rule that) (simp add: evals demo_paid_def cong: lazy)
  have "rr_state v = completed \<and>
      (\<exists>run. mem_get (w_runs w') (rr_key v) = Some run \<and> r_state run = completed)"
    by (rule success_is_stored [OF e]) (simp add: session_world_def empty_get)
  with e show ?thesis by blast
qed


subsection \<open>The polling loops\<close>

definition demo_poll :: "int poll_options" where
  "demo_poll =
     \<lparr>po_now = (\<lambda>e. (e, e + 1)), po_sleep = (\<lambda>d e. e + d), po_deadlineMs = 30, po_pollMs = 10,
      po_stallThreshold = None, po_wake = None, po_externalStallMs = None, po_corridorId = None,
      po_metrics = False\<rparr>"

definition demo_refunded :: transaction_status where
  "demo_refunded = demo_paid\<lparr>ts_status := ''refunded'', ts_settled := False,
     ts_refunds := Some \<lparr>ri_amountRefunded = \<lparr>m_asset = ''USDC'', m_amount = ''5''\<rparr>,
       ri_amountFee = \<lparr>m_asset = ''USDC'', m_amount = ''0''\<rparr>, ri_payments = [], ri_completeness = Full\<rparr>\<rparr>"

lemma demo_ticking: "ticking (\<lambda>e. e) (a_getTransaction (demo_adapter v)) i demo_poll"
  by (simp add: ticking_def demo_poll_def demo_adapter_simps)

text \<open>
  C16: with a clock that is never turned back and advances while the loop sleeps, and no wake
  signal, \<open>reconcileUntil\<close> returns: one poll per poll interval until the deadline, and one more,
  are enough, whatever the anchor answers.
\<close>

theorem reconcileUntil_returns:
  assumes "ticking clk get i o'" and "po_deadlineMs o' \<le> clk (w_env w) + int n * po_pollMs o'"
  shows "\<exists>r w'. reconcileUntil (Suc n) get i o' w = (Some r, w')"
  by (rule reconcileUntil_fuel [OF assms])

theorem reconcileUntil_returns_witness:
  "\<exists>r w'. reconcileUntil (Suc 3) (a_getTransaction (demo_adapter (demo_status ''pending'' False False))) ''t''
      demo_poll (demo_world empty_store) = (Some r, w')"
  by (rule reconcileUntil_returns [OF demo_ticking])
    (simp add: demo_poll_def demo_world_def session_world_def)

text \<open>
  C17: when \<open>reconcileUntil\<close> reports success, the transaction it reports was settled at the anchor.
\<close>

theorem reconcileUntil_success_settled:
  assumes "reconcileUntil n get i o' w = (Some (Inr v), w')"
  shows "ts_settled v"
  using reconcileUntil_settled [of n get i o'] assms
  by (fastforce simp: gives_def wp_def settled_answer_def split: prod.splits option.splits)

theorem reconcileUntil_success_settled_witness: "ts_settled demo_paid"
proof -
  obtain w' where "reconcileUntil (Suc 0) (a_getTransaction (demo_adapter demo_paid)) ''t'' demo_poll
      (demo_world empty_store) = (Some (Inr demo_paid), w')"
    by (rule that) (simp add: evals demo_poll_def demo_paid_def cong: lazy)
  then show ?thesis by (rule reconcileUntil_success_settled)
qed

text \<open>C18: under the same clock, \<open>watchRefund\<close> returns.\<close>

theorem watchRefund_returns:
  assumes "ticking clk (a_getTransaction a) i o'"
    and "po_deadlineMs o' \<le> clk (w_env w) + int n * po_pollMs o'"
  shows "\<exists>r w'. watchRefund (Suc n) a i o' w = (Some r, w')"
  by (rule watchRefund_fuel [OF assms])

theorem watchRefund_returns_witness:
  "\<exists>r w'. watchRefund (Suc 3) (demo_adapter demo_paid) ''t'' demo_poll (demo_world empty_store) = (Some r, w')"
  by (rule watchRefund_returns [OF demo_ticking]) (simp add: demo_poll_def demo_world_def session_world_def)

text \<open>
  C19: when \<open>watchRefund\<close> reports success, the anchor's transaction is closed as refunded or
  failed, and its report says the full amount came back.
\<close>

theorem watchRefund_success_full:
  assumes "watchRefund n a i o' w = (Some (Inr v), w')"
  shows "(ts_status v = ''refunded'' \<or> ts_terminalFailure v) \<and>
     (\<exists>r. ts_refunds v = Some r \<and> ri_completeness r = Full)"
  using watchRefund_full [of n a i o'] assms
  by (fastforce simp: gives_def wp_def refunded_answer_def split: prod.splits option.splits)

theorem watchRefund_success_full_witness:
  "ts_status demo_refunded = ''refunded'' \<and> (\<exists>r. ts_refunds demo_refunded = Some r \<and> ri_completeness r = Full)"
proof -
  obtain w' where "watchRefund (Suc 0) (demo_adapter demo_refunded) ''t'' demo_poll
      (demo_world empty_store) = (Some (Inr demo_refunded), w')"
    by (rule that) (simp add: evals demo_poll_def watch_answer_def reported_refund_def demo_refunded_def
        demo_paid_def demo_status_def cong: lazy)
  then have "(ts_status demo_refunded = ''refunded'' \<or> ts_terminalFailure demo_refunded) \<and>
      (\<exists>r. ts_refunds demo_refunded = Some r \<and> ri_completeness r = Full)"
    by (rule watchRefund_success_full)
  then show ?thesis by (simp add: demo_refunded_def demo_paid_def demo_status_def)
qed

text \<open>
  The capability check accepts exactly when a SEP-38 corridor's adapter quotes SEP-38, a
  declared compliance method is the adapter's, and every way of settlement the adapter names, at
  least one, has a strategy.
\<close>

theorem compatible_iff:
  "checkCompatibility c caps strategies = Inr () \<longleftrightarrow>
     (fx_quote_source (c_fx c) = QSep38 \<longrightarrow>
        CapSep38Firm \<in> set (cap_quotes caps) \<or> CapSep38Indicative \<in> set (cap_quotes caps)) \<and>
     (\<forall>m. c_method (c_compliance c) = Some m \<longrightarrow> m = cap_kyc caps) \<and>
     cap_settlement caps \<noteq> [] \<and>
     (\<forall>k \<in> set (cap_settlement caps). \<exists>s \<in> set strategies. sg_kind s = k)"
  by (rule checkCompatibility_ok)

theorem compatible_iff_witness:
  "checkCompatibility demo_corridor (a_capabilities (demo_adapter demo_paid))
     (strategies_of (demo_deps (Inr demo_ref) demo_paid) (demo_adapter demo_paid)) = Inr ()"
  unfolding compatible_iff
  by (simp add: demo_corridor_simps demo_adapter_simps strategies_of_def defaultStrategies_def
      stellarPaymentStrategy_def adapterSettledStrategy_def)

end
